(* ===== verification/Prelude.thy ===== *)
theory Prelude
  imports Main "HOL-Library.Char_ord" "HOL-Library.List_Lexorder"
begin

section \<open>Prelude: results, lists, strings\<close>

text \<open>
  What every component shares: the result type of fallible code and its sequencing, the
  reading of JavaScript truthiness on optional strings, the character classes and the
  bounded-length patterns of the source's regular expressions, decimal numerals, and a
  stable sort by a comparator. The named collections below carry the component proofs:
  \<open>res_simps\<close> inverts a successful chain of checks, \<open>pattern_defs\<close> unfolds
  the regular expressions.
\<close>

named_theorems res_simps \<open>inversion of sequenced results\<close>
named_theorems pattern_defs \<open>regular expressions of the source as predicates\<close>

subsection \<open>Results of fallible code\<close>

text \<open>
  A function that may throw returns \<open>Inl e\<close> for the thrown error and \<open>Inr v\<close> for
  the returned value. \<open>res_bind\<close> is sequencing: the rest runs only when nothing was
  thrown. \<open>check\<close> is an \<open>if (!c) throw e\<close>.
\<close>

type_synonym ('e, 'a) result = "'e + 'a"

primrec res_bind :: "('e, 'a) result \<Rightarrow> ('a \<Rightarrow> ('e, 'b) result) \<Rightarrow> ('e, 'b) result" where
  "res_bind (Inl e) f = Inl e"
| "res_bind (Inr a) f = f a"

definition check :: "bool \<Rightarrow> 'e \<Rightarrow> ('e, unit) result" where
  "check c e = (if c then Inr () else Inl e)"

text \<open>Every element is processed in order; the first error is the result, as a throw
  out of a \<open>for\<close> loop or a \<open>map\<close> callback is.\<close>

primrec res_map :: "('a \<Rightarrow> ('e, 'b) result) \<Rightarrow> 'a list \<Rightarrow> ('e, 'b list) result" where
  "res_map f [] = Inr []"
| "res_map f (x # xs) = res_bind (f x) (\<lambda>y. res_bind (res_map f xs) (\<lambda>ys. Inr (y # ys)))"

definition ok :: "('e, 'a) result \<Rightarrow> bool" where
  "ok r = (case r of Inl _ \<Rightarrow> False | Inr _ \<Rightarrow> True)"

lemma res_bind_Inr [res_simps]: "res_bind m f = Inr b \<longleftrightarrow> (\<exists>a. m = Inr a \<and> f a = Inr b)"
  by (cases m) auto

lemma res_bind_Inl: "res_bind m f = Inl e \<longleftrightarrow> m = Inl e \<or> (\<exists>a. m = Inr a \<and> f a = Inl e)"
  by (cases m) auto

lemma res_bind_assoc: "res_bind (res_bind m f) g = res_bind m (\<lambda>a. res_bind (f a) g)"
  by (cases m) auto

lemma check_Inr [res_simps]: "check c e = Inr u \<longleftrightarrow> c"
  by (simp add: check_def)

lemma check_Inl: "check c e = Inl e' \<longleftrightarrow> \<not> c \<and> e' = e"
  by (auto simp: check_def)

lemma check_True [simp]: "check True e = Inr ()"
  by (simp add: check_def)

lemma check_False [simp]: "check False e = Inl e"
  by (simp add: check_def)

lemma ok_simps [simp]: "ok (Inl e) = False" "ok (Inr v) = True"
  by (simp_all add: ok_def)

lemma ok_iff: "ok r \<longleftrightarrow> (\<exists>v. r = Inr v)"
  by (cases r) auto

lemma res_map_Inr_iff:
  "res_map f xs = Inr ys \<longleftrightarrow> list_all2 (\<lambda>x y. f x = Inr y) xs ys"
proof (induction xs arbitrary: ys)
  case Nil
  then show ?case by auto
next
  case (Cons x xs)
  then show ?case by (cases ys) (auto simp: res_simps)
qed

lemma res_map_Inr_length: "res_map f xs = Inr ys \<Longrightarrow> length ys = length xs"
  by (auto simp: res_map_Inr_iff dest: list_all2_lengthD)

subsection \<open>Optional strings\<close>

text \<open>JavaScript reads an absent or an empty string as false.\<close>

primrec truthy :: "string option \<Rightarrow> bool" where
  "truthy None = False"
| "truthy (Some s) = (s \<noteq> [])"

lemma truthy_iff: "truthy x \<longleftrightarrow> (\<exists>s. x = Some s \<and> s \<noteq> [])"
  by (cases x) auto

subsection \<open>Character classes and bounded patterns\<close>

definition code :: "char \<Rightarrow> nat" where
  "code c = of_char c"

definition between :: "char \<Rightarrow> char \<Rightarrow> char \<Rightarrow> bool" where
  "between a b c \<longleftrightarrow> code a \<le> code c \<and> code c \<le> code b"

definition is_digit :: "char \<Rightarrow> bool" where
  "is_digit c \<longleftrightarrow> between (CHR ''0'') (CHR ''9'') c"

definition is_lower_hex :: "char \<Rightarrow> bool" where
  "is_lower_hex c \<longleftrightarrow> is_digit c \<or> between (CHR ''a'') (CHR ''f'') c"

definition is_alnum :: "char \<Rightarrow> bool" where
  "is_alnum c \<longleftrightarrow> is_digit c \<or> between (CHR ''a'') (CHR ''z'') c \<or> between (CHR ''A'') (CHR ''Z'') c"

lemmas char_class_defs = code_def between_def is_digit_def is_lower_hex_def is_alnum_def

text \<open>\<open>/^[C]{lo,hi}$/\<close> for a character class \<open>C\<close>.\<close>

definition chars_between :: "(char \<Rightarrow> bool) \<Rightarrow> nat \<Rightarrow> nat \<Rightarrow> string \<Rightarrow> bool" where
  "chars_between C lo hi s \<longleftrightarrow> lo \<le> length s \<and> length s \<le> hi \<and> list_all C s"

subsection \<open>Decimal numerals\<close>

definition digit_char :: "nat \<Rightarrow> char" where
  "digit_char d = char_of (48 + d)"

fun nat_str :: "nat \<Rightarrow> string" where
  "nat_str n = (if n < 10 then [digit_char n] else nat_str (n div 10) @ [digit_char (n mod 10)])"

declare nat_str.simps [simp del]

definition int_str :: "int \<Rightarrow> string" where
  "int_str i = (if i < 0 then CHR ''-'' # nat_str (nat (- i)) else nat_str (nat i))"

definition digit_val :: "char \<Rightarrow> nat" where
  "digit_val c = code c - 48"

definition digits_val :: "string \<Rightarrow> nat" where
  "digits_val s = foldl (\<lambda>n c. 10 * n + digit_val c) 0 s"

lemma code_digit_char: "d < 10 \<Longrightarrow> code (digit_char d) = 48 + d"
  by (simp add: code_def digit_char_def)

lemma digit_val_digit_char [simp]: "d < 10 \<Longrightarrow> digit_val (digit_char d) = d"
  by (simp add: digit_val_def code_digit_char)

lemma is_digit_digit_char [simp]: "d < 10 \<Longrightarrow> is_digit (digit_char d)"
  unfolding is_digit_def between_def by (simp add: code_digit_char) (simp add: code_def)

lemma digits_val_snoc: "digits_val (s @ [c]) = 10 * digits_val s + digit_val c"
  by (simp add: digits_val_def)

lemma digits_val_nat_str [simp]: "digits_val (nat_str n) = n"
proof (induction n rule: nat_str.induct)
  case (1 n)
  show ?case
  proof (cases "n < 10")
    case True
    then show ?thesis by (simp add: nat_str.simps [of n] digits_val_def)
  next
    case False
    with 1 have "digits_val (nat_str (n div 10)) = n div 10" by simp
    with False show ?thesis by (simp add: nat_str.simps [of n] digits_val_snoc)
  qed
qed

lemma nat_str_digits: "list_all is_digit (nat_str n)"
proof (induction n rule: nat_str.induct)
  case (1 n)
  then show ?case by (cases "n < 10") (simp_all add: nat_str.simps [of n])
qed

lemma nat_str_nonempty [simp]: "nat_str n \<noteq> []"
  by (simp add: nat_str.simps [of n])

lemma nat_str_inject [simp]: "nat_str m = nat_str n \<longleftrightarrow> m = n"
  by (metis digits_val_nat_str)

text \<open>\<open>padStart(w, '0')\<close> and \<open>startsWith\<close>.\<close>

definition padStart :: "nat \<Rightarrow> string \<Rightarrow> string" where
  "padStart w t = replicate (w - length t) (CHR ''0'') @ t"

definition starts_with :: "string \<Rightarrow> string \<Rightarrow> bool" where
  "starts_with s start \<longleftrightarrow> take (length start) s = start"

subsection \<open>Stable sort by a comparator\<close>

text \<open>
  \<open>Array.prototype.sort\<close> with a comparator is stable; for a comparator that is a total
  preorder the stable sorted permutation is unique, and insertion from the right is one
  way to compute it.
\<close>

fun insort_by :: "('a \<Rightarrow> 'a \<Rightarrow> bool) \<Rightarrow> 'a \<Rightarrow> 'a list \<Rightarrow> 'a list" where
  "insort_by le x [] = [x]"
| "insort_by le x (y # ys) = (if le x y then x # y # ys else y # insort_by le x ys)"

definition sort_by :: "('a \<Rightarrow> 'a \<Rightarrow> bool) \<Rightarrow> 'a list \<Rightarrow> 'a list" where
  "sort_by le xs = foldr (insort_by le) xs []"

lemma set_insort_by [simp]: "set (insort_by le x xs) = insert x (set xs)"
  by (induction xs) auto

lemma set_sort_by [simp]: "set (sort_by le xs) = set xs"
  by (induction xs) (auto simp: sort_by_def)

lemma length_insort_by [simp]: "length (insort_by le x xs) = Suc (length xs)"
  by (induction xs) auto

lemma length_sort_by [simp]: "length (sort_by le xs) = length xs"
  by (induction xs) (auto simp: sort_by_def)

lemma distinct_insort_by [simp]: "distinct (insort_by le x xs) \<longleftrightarrow> x \<notin> set xs \<and> distinct xs"
  by (induction xs) auto

lemma sort_by_Cons: "sort_by le (x # xs) = insort_by le x (sort_by le xs)"
  by (simp add: sort_by_def)

lemma distinct_sort_by [simp]: "distinct (sort_by le xs) \<longleftrightarrow> distinct xs"
  by (induction xs) (auto simp: sort_by_Cons, simp add: sort_by_def)

subsection \<open>Lists searched by a key\<close>

lemma find_SomeD: "find P xs = Some x \<Longrightarrow> x \<in> set xs \<and> P x"
  by (auto simp: find_Some_iff)

lemma find_NoneD: "find P xs = None \<Longrightarrow> x \<in> set xs \<Longrightarrow> \<not> P x"
  by (simp add: find_None_iff)

lemma find_append_Some: "find P (xs @ ys) = (case find P xs of None \<Rightarrow> find P ys | Some x \<Rightarrow> Some x)"
  by (induction xs) auto

lemma filter_same_length: "length (filter P xs) = length xs \<Longrightarrow> filter P xs = xs"
  by (metis filter_id_conv length_filter_less less_irrefl)

lemma distinct_map_eq: "distinct (map f xs) \<Longrightarrow> x \<in> set xs \<Longrightarrow> y \<in> set xs \<Longrightarrow> f x = f y \<Longrightarrow> x = y"
  by (auto simp: distinct_map dest: inj_onD)

lemma find_append_found: "find P xs = Some x \<Longrightarrow> find P (xs @ ys) = Some x"
  by (simp add: find_append_Some)

subsection \<open>Lists that only grow\<close>

text \<open>Rows may be added at the end; a row that is there may change only as \<open>R\<close> allows.\<close>

definition grown :: "('a \<Rightarrow> 'a \<Rightarrow> bool) \<Rightarrow> 'a list \<Rightarrow> 'a list \<Rightarrow> bool" where
  "grown R xs ys \<longleftrightarrow> list_all2 R xs (take (length xs) ys)"

lemma grown_refl: "(\<And>x. R x x) \<Longrightarrow> grown R xs xs"
  by (simp add: grown_def list_all2_refl)

lemma grown_append: "(\<And>x. R x x) \<Longrightarrow> grown R xs (xs @ ys)"
  by (simp add: grown_def list_all2_refl)

lemma grown_map: "(\<And>x. x \<in> set xs \<Longrightarrow> R x (f x)) \<Longrightarrow> grown R xs (map f xs)"
  by (simp add: grown_def list_all2_map2 list.rel_refl_strong)

lemma grown_length: "grown R xs ys \<Longrightarrow> length xs \<le> length ys"
  by (auto simp: grown_def dest: list_all2_lengthD)

lemma grown_nth: "grown R xs ys \<Longrightarrow> i < length xs \<Longrightarrow> R (xs ! i) (ys ! i)"
  by (simp add: grown_def list_all2_conv_all_nth)

lemma grown_trans:
  assumes "grown R xs ys" "grown R ys zs" "\<And>x y z. R x y \<Longrightarrow> R y z \<Longrightarrow> R x z"
  shows "grown R xs zs"
  using grown_length [OF assms(1)] grown_length [OF assms(2)] grown_nth [OF assms(1)] grown_nth [OF assms(2)] assms(3)
  by (auto simp: grown_def list_all2_conv_all_nth) (meson order.strict_trans2)

lemma grown_in:
  assumes "grown R xs ys" "x \<in> set xs"
  obtains y where "y \<in> set ys" "R x y"
  using assms grown_length [OF assms(1)] grown_nth [OF assms(1)] by (metis in_set_conv_nth order.strict_trans2)

lemma grown_eq_prefix: "grown (=) xs ys \<longleftrightarrow> (\<exists>zs. ys = xs @ zs)"
  by (auto simp: grown_def list.rel_eq intro: exI [of _ "drop (length xs) ys"])
    (metis append_take_drop_id)

subsection \<open>Reading in chunks\<close>

text \<open>A client that reads from an offset until nothing more comes; \<open>rd\<close> gives the data at an offset
  and the next offset.\<close>

fun read_chunks :: "nat \<Rightarrow> (nat \<Rightarrow> 'a list \<times> nat) \<Rightarrow> nat \<Rightarrow> 'a list" where
  "read_chunks 0 rd offset = []"
| "read_chunks (Suc n) rd offset =
     (case rd offset of (data, next) \<Rightarrow> if data = [] then [] else data @ read_chunks n rd next)"

lemma read_chunks_all:
  assumes rd: "\<And>offset. rd offset = (take limit (drop offset content), offset + min limit (length content - offset))"
    and "0 < limit" "length content - offset < n"
  shows "read_chunks n rd offset = drop offset content"
  using assms(3)
proof (induction n arbitrary: offset)
  case (Suc n)
  show ?case
  proof (cases "offset < length content")
    case True
    have "read_chunks n rd (offset + min limit (length content - offset)) = drop (offset + min limit (length content - offset)) content"
      using Suc.prems True \<open>0 < limit\<close> by (intro Suc.IH) linarith
    moreover have "drop (offset + min limit (length content - offset)) content = drop limit (drop offset content)"
      by (cases "limit \<le> length content - offset") (simp_all add: add.commute min_def)
    moreover have "take limit (drop offset content) \<noteq> []" using True \<open>0 < limit\<close> by simp
    ultimately show ?thesis using rd [of offset] by (simp del: drop_drop)
  qed (use rd [of offset] in simp)
qed simp

text \<open>Writing at an offset of a file: a gap is filled with zeros, what lies behind stays.\<close>

definition write_at :: "nat \<Rightarrow> 'a::zero list \<Rightarrow> 'a list \<Rightarrow> 'a list" where
  "write_at offset data content =
     take offset content @ replicate (offset - length content) 0 @ data @ drop (offset + length data) content"

end
