(* ===== verification/Json.thy ===== *)
theory Json
  imports Prelude "HOL-Library.Multiset" "HOL-Library.Sublist"
begin

section \<open>JSON values, canonical encoding and redaction\<close>

text \<open>
  Models \<^verbatim>\<open>src/src/crypto/canonical.ts\<close>: \<open>sortKeys\<close>, \<open>canonicalJson\<close>,
  \<open>constantTimeEqual\<close> and \<open>redactSecrets\<close>, over JSON values whose objects are their
  own enumerable properties in JavaScript's property order. Numbers are the integers the
  documents carry; characters are the first 256 code units. The theorems show that two
  canonical documents agree exactly when the values agree up to the order of object keys,
  as long as no key is \<open>__proto__\<close>; that an own \<open>__proto__\<close> key is lost; and what
  redaction leaves in a value.
\<close>

subsection \<open>Values\<close>

datatype json =
    JNull
  | JBool bool
  | JNum int
  | JStr string
  | JArr "json list"
  | JObj "(string \<times> json) list"

text \<open>Property order: array-index keys ascending, then the other keys as they were added.\<close>

definition is_array_index :: "string \<Rightarrow> bool" where
  "is_array_index k \<longleftrightarrow> k \<noteq> [] \<and> list_all is_digit k \<and> (hd k \<noteq> CHR ''0'' \<or> length k = 1)
     \<and> digits_val k < 2 ^ 32 - 1"

text \<open>\<open>o[k] = v\<close> on a plain object: an existing property keeps its place, a new index key
  goes to its numeric place, any other new key to the end. The key \<open>__proto__\<close> runs the
  inherited setter, which creates no own property.\<close>

definition js_set :: "string \<Rightarrow> json \<Rightarrow> (string \<times> json) list \<Rightarrow> (string \<times> json) list" where
  "js_set k v props =
     (if k = ''__proto__'' then props
      else if k \<in> set (map fst props) then map (\<lambda>(k', v'). if k' = k then (k, v) else (k', v')) props
      else if is_array_index k then
        takeWhile (\<lambda>(k', _). is_array_index k' \<and> digits_val k' < digits_val k) props @ [(k, v)]
          @ dropWhile (\<lambda>(k', _). is_array_index k' \<and> digits_val k' < digits_val k) props
      else props @ [(k, v)])"

definition js_object :: "(string \<times> json) list \<Rightarrow> (string \<times> json) list" where
  "js_object entries = fold (\<lambda>(k, v). js_set k v) entries []"

text \<open>Own keys are distinct, in every object of a value.\<close>

primrec wf_json :: "json \<Rightarrow> bool" where
  "wf_json JNull = True"
| "wf_json (JBool b) = True"
| "wf_json (JNum i) = True"
| "wf_json (JStr s) = True"
| "wf_json (JArr vs) = list_all (\<lambda>b. b) (map wf_json vs)"
| "wf_json (JObj kvs) = (distinct (map fst kvs) \<and> list_all snd (map (map_prod id wf_json) kvs))"

primrec proto_free :: "json \<Rightarrow> bool" where
  "proto_free JNull = True"
| "proto_free (JBool b) = True"
| "proto_free (JNum i) = True"
| "proto_free (JStr s) = True"
| "proto_free (JArr vs) = list_all (\<lambda>b. b) (map proto_free vs)"
| "proto_free (JObj kvs) = (''__proto__'' \<notin> set (map fst kvs) \<and> list_all snd (map (map_prod id proto_free) kvs))"

subsection \<open>JSON.stringify\<close>

definition hex_digit :: "nat \<Rightarrow> char" where
  "hex_digit d = (if d < 10 then char_of (48 + d) else char_of (87 + d))"

definition esc_char :: "char \<Rightarrow> string" where
  "esc_char c =
     (if c = CHR 0x22 then [CHR 0x5C, CHR 0x22]
      else if c = CHR 0x5C then [CHR 0x5C, CHR 0x5C]
      else if c = CHR 0x08 then [CHR 0x5C, CHR ''b'']
      else if c = CHR 0x09 then [CHR 0x5C, CHR ''t'']
      else if c = CHR 0x0A then [CHR 0x5C, CHR ''n'']
      else if c = CHR 0x0C then [CHR 0x5C, CHR ''f'']
      else if c = CHR 0x0D then [CHR 0x5C, CHR ''r'']
      else if code c < 32 then
        [CHR 0x5C, CHR ''u'', CHR ''0'', CHR ''0'', hex_digit (code c div 16), hex_digit (code c mod 16)]
      else [c])"

definition quote :: "string \<Rightarrow> string" where
  "quote s = CHR 0x22 # concat (map esc_char s) @ [CHR 0x22]"

fun join_comma :: "string list \<Rightarrow> string" where
  "join_comma [] = []"
| "join_comma [x] = x"
| "join_comma (x # y # ys) = x @ CHR '','' # join_comma (y # ys)"

definition entry_str :: "string \<times> string \<Rightarrow> string" where
  "entry_str e = quote (fst e) @ CHR '':'' # snd e"

primrec stringify :: "json \<Rightarrow> string" where
  "stringify JNull = ''null''"
| "stringify (JBool b) = (if b then ''true'' else ''false'')"
| "stringify (JNum i) = int_str i"
| "stringify (JStr s) = quote s"
| "stringify (JArr vs) = CHR ''['' # join_comma (map stringify vs) @ '']''"
| "stringify (JObj kvs) = CHR ''{'' # join_comma (map entry_str (map (map_prod id stringify) kvs)) @ ''}''"

subsection \<open>Canonical JSON\<close>

primrec sortKeys :: "json \<Rightarrow> json" where
  "sortKeys JNull = JNull"
| "sortKeys (JBool b) = JBool b"
| "sortKeys (JNum i) = JNum i"
| "sortKeys (JStr s) = JStr s"
| "sortKeys (JArr vs) = JArr (map sortKeys vs)"
| "sortKeys (JObj kvs) = JObj (js_object (sort_key fst (map (map_prod id sortKeys) kvs)))"

definition canonicalJson :: "json \<Rightarrow> string" where
  "canonicalJson v = stringify (sortKeys v)"

text \<open>Comparison of equal-length buffers; different lengths are unequal.\<close>

definition constantTimeEqual :: "string \<Rightarrow> string \<Rightarrow> bool" where
  "constantTimeEqual a b =
     (if length a \<noteq> length b then False else list_all (\<lambda>(x, y). x = y) (zip a b))"

text \<open>Equality of values up to the order of object keys.\<close>

inductive json_equiv :: "json \<Rightarrow> json \<Rightarrow> bool" where
  null: "json_equiv JNull JNull"
| bool: "json_equiv (JBool b) (JBool b)"
| num: "json_equiv (JNum i) (JNum i)"
| str: "json_equiv (JStr s) (JStr s)"
| arr: "list_all2 json_equiv vs ws \<Longrightarrow> json_equiv (JArr vs) (JArr ws)"
| obj: "(\<forall>k. rel_option json_equiv (map_of kvs k) (map_of kws k)) \<Longrightarrow> json_equiv (JObj kvs) (JObj kws)"

inductive_simps json_equiv_simps [simp]:
  "json_equiv JNull w" "json_equiv (JBool b) w" "json_equiv (JNum i) w" "json_equiv (JStr s) w"
  "json_equiv (JArr vs) w" "json_equiv (JObj kvs) w"

subsection \<open>Redaction\<close>

definition to_lower :: "char \<Rightarrow> char" where
  "to_lower c = (if between (CHR ''A'') (CHR ''Z'') c then char_of (code c + 32) else c)"

definition str_includes :: "string \<Rightarrow> string \<Rightarrow> bool" where
  "str_includes s part \<longleftrightarrow> sublist part s"

definition sensitive_key :: "string \<Rightarrow> bool" where
  "sensitive_key k \<longleftrightarrow> list_ex (\<lambda>w. str_includes (map to_lower k) w)
     [''secret'', ''token'', ''password'', ''private'', ''credential'', ''signature'', ''secretreference'']"

definition key_material :: "string \<Rightarrow> bool" where
  "key_material s \<longleftrightarrow> str_includes s ''PRIVATE KEY'' \<or> str_includes s ''BEGIN RSA PRIVATE KEY''"

definition redact_entry :: "nat \<Rightarrow> string \<times> (nat \<Rightarrow> json) \<Rightarrow> string \<times> json" where
  "redact_entry depth e =
     (fst e, if sensitive_key (fst e) then JStr ''[REDACTED]'' else (snd e) (depth + 1))"

primrec redactSecrets :: "json \<Rightarrow> nat \<Rightarrow> json" where
  "redactSecrets JNull depth = (if depth > 10 then JStr ''[depth_exceeded]'' else JNull)"
| "redactSecrets (JBool b) depth = (if depth > 10 then JStr ''[depth_exceeded]'' else JBool b)"
| "redactSecrets (JNum i) depth = (if depth > 10 then JStr ''[depth_exceeded]'' else JNum i)"
| "redactSecrets (JStr s) depth =
     (if depth > 10 then JStr ''[depth_exceeded]''
      else if key_material s then JStr ''[REDACTED]'' else JStr s)"
| "redactSecrets (JArr vs) depth =
     (if depth > 10 then JStr ''[depth_exceeded]''
      else JArr (map (\<lambda>f. f (depth + 1)) (map redactSecrets vs)))"
| "redactSecrets (JObj kvs) depth =
     (if depth > 10 then JStr ''[depth_exceeded]''
      else JObj (js_object (map (redact_entry depth) (map (map_prod id redactSecrets) kvs))))"

text \<open>What a log reader may see: no key material in a string, no value under a sensitive key.\<close>

primrec no_secrets :: "json \<Rightarrow> bool" where
  "no_secrets JNull = True"
| "no_secrets (JBool b) = True"
| "no_secrets (JNum i) = True"
| "no_secrets (JStr s) = (\<not> key_material s)"
| "no_secrets (JArr vs) = list_all (\<lambda>b. b) (map no_secrets vs)"
| "no_secrets (JObj kvs) =
     (list_all (\<lambda>(k, v). sensitive_key k \<longrightarrow> v = JStr ''[REDACTED]'') kvs
      \<and> list_all snd (map (map_prod id no_secrets) kvs))"

primrec nesting :: "json \<Rightarrow> nat" where
  "nesting JNull = 0"
| "nesting (JBool b) = 0"
| "nesting (JNum i) = 0"
| "nesting (JStr s) = 0"
| "nesting (JArr vs) = Suc (foldr max (map nesting vs) 0)"
| "nesting (JObj kvs) = Suc (foldr max (map snd (map (map_prod id nesting) kvs)) 0)"


subsection \<open>Assignment and object construction\<close>

text \<open>Every assignment is one of four cases: the accessor \<open>__proto__\<close>, a replacement in
  place, or an insertion somewhere (the numeric place or the end).\<close>

lemma js_set_cases:
  obtains (proto) "k = ''__proto__''" "js_set k v props = props"
  | (replace) "k \<noteq> ''__proto__''" "k \<in> set (map fst props)"
      "js_set k v props = map (\<lambda>(k', v'). if k' = k then (k, v) else (k', v')) props"
  | (insert) xs ys where "k \<noteq> ''__proto__''" "k \<notin> set (map fst props)" "props = xs @ ys"
      "js_set k v props = xs @ (k, v) # ys"
proof -
  let ?P = "\<lambda>(k' :: string, _ :: json). is_array_index k' \<and> digits_val k' < digits_val k"
  consider "k = ''__proto__''" | "k \<noteq> ''__proto__''" "k \<in> set (map fst props)"
    | "k \<noteq> ''__proto__''" "k \<notin> set (map fst props)" "is_array_index k"
    | "k \<noteq> ''__proto__''" "k \<notin> set (map fst props)" "\<not> is_array_index k"
    by blast
  then show thesis
  proof cases
    case 1
    then show thesis by (intro proto) (simp_all add: js_set_def)
  next
    case 2
    then show thesis by (intro replace) (simp_all add: js_set_def)
  next
    case 3
    then show thesis
      by (intro insert [of "takeWhile ?P props" "dropWhile ?P props"]) (simp_all add: js_set_def)
  next
    case 4
    then show thesis by (intro insert [of props "[]"]) (simp_all add: js_set_def)
  qed
qed

lemma map_of_replace:
  "map_of (map (\<lambda>(k', v'). if k' = k then (k, v) else (k', v')) props) =
     (if k \<in> set (map fst props) then (map_of props)(k \<mapsto> v) else map_of props)"
  by (induction props) (auto simp: fun_eq_iff)

lemma map_of_insert_middle:
  "k \<notin> set (map fst xs) \<Longrightarrow> map_of (xs @ (k, v) # ys) = (map_of (xs @ ys))(k \<mapsto> v)"
  by (induction xs) (auto simp: fun_eq_iff)

lemma map_of_js_set:
  assumes "k \<noteq> ''__proto__''"
  shows "map_of (js_set k v props) = (map_of props)(k \<mapsto> v)"
  by (cases k v props rule: js_set_cases)
    (use assms in \<open>auto simp del: map_of_append simp: map_of_replace map_of_insert_middle\<close>)

lemma in_js_set: "e \<in> set (js_set k v props) \<Longrightarrow> e = (k, v) \<or> e \<in> set props"
  by (cases k v props rule: js_set_cases) (auto split: if_splits)

lemma keys_replace: "map fst (map (\<lambda>(k', v'). if k' = k then (k, v) else (k', v')) props) = map fst props"
  by (induction props) auto

lemma distinct_js_set:
  assumes "distinct (map fst props)"
  shows "distinct (map fst (js_set k v props))"
proof (cases k v props rule: js_set_cases)
  case proto
  then show ?thesis using assms by simp
next
  case replace
  then show ?thesis using assms by (simp only: keys_replace)
next
  case (insert xs ys)
  then show ?thesis using assms by auto
qed

lemma fold_js_set_map_of:
  assumes "''__proto__'' \<notin> set (map fst es)"
  shows "map_of (fold (\<lambda>(k, v). js_set k v) es props) = map_of props ++ map_of (rev es)"
  using assms
proof (induction es arbitrary: props)
  case Nil
  then show ?case by simp
next
  case (Cons e es)
  obtain k v where e: "e = (k, v)" by (cases e)
  with Cons.prems have "k \<noteq> ''__proto__''" "''__proto__'' \<notin> set (map fst es)" by auto
  with Cons.IH [of "js_set k v props"] show ?case
    by (simp add: e map_of_js_set map_add_def fun_eq_iff split: option.splits)
qed

lemma map_of_rev_keys: "distinct (map fst es) \<Longrightarrow> map_of (rev es) = map_of es"
  by (rule map_of_inject_set [THEN iffD2]) (auto simp: rev_map [symmetric])

lemma map_of_js_object:
  assumes "''__proto__'' \<notin> set (map fst es)" "distinct (map fst es)"
  shows "map_of (js_object es) = map_of es"
  using assms by (simp add: js_object_def fold_js_set_map_of map_of_rev_keys)

lemma in_fold_js_set:
  "e \<in> set (fold (\<lambda>(k, v). js_set k v) es props) \<Longrightarrow> e \<in> set props \<or> e \<in> set es"
proof (induction es arbitrary: props)
  case Nil
  then show ?case by simp
next
  case (Cons a es)
  obtain k v where a: "a = (k, v)" by (cases a)
  from Cons.prems have "e \<in> set (fold (\<lambda>(k, v). js_set k v) es (js_set k v props))" by (simp add: a)
  from Cons.IH [OF this] show ?case by (auto simp: a dest: in_js_set)
qed

lemma in_js_object: "e \<in> set (js_object es) \<Longrightarrow> e \<in> set es"
  using in_fold_js_set [of e es "[]"] by (simp add: js_object_def)

lemma distinct_fold_js_set:
  "distinct (map fst props) \<Longrightarrow> distinct (map fst (fold (\<lambda>(k, v). js_set k v) es props))"
  by (induction es arbitrary: props) (auto simp: distinct_js_set simp del: distinct_map)

lemma distinct_js_object: "distinct (map fst (js_object es))"
  by (simp add: js_object_def distinct_fold_js_set del: distinct_map)

subsection \<open>Encoding is injective\<close>

text \<open>
  The encoding of a value is a prefix code in front of a delimiter: what follows a value
  inside a document is the end, a comma or a closing bracket.
\<close>

definition delim :: "string \<Rightarrow> bool" where
  "delim r \<longleftrightarrow> r = [] \<or> hd r \<in> {CHR '','', CHR '']'', CHR ''}''}"

definition prefix_code :: "('a \<Rightarrow> string) \<Rightarrow> 'a \<Rightarrow> bool" where
  "prefix_code f x \<longleftrightarrow> (\<forall>y r s. delim r \<longrightarrow> delim s \<longrightarrow> f x @ r = f y @ s \<longrightarrow> x = y \<and> r = s)"

lemma prefix_codeD:
  "prefix_code f x \<Longrightarrow> f x @ r = f y @ s \<Longrightarrow> delim r \<Longrightarrow> delim s \<Longrightarrow> x = y \<and> r = s"
  by (auto simp: prefix_code_def)

lemma hex_digit_inject: "a < 16 \<Longrightarrow> b < 16 \<Longrightarrow> hex_digit a = hex_digit b \<longleftrightarrow> a = b"
  by (auto simp: hex_digit_def dest: arg_cong [of _ _ "of_char :: char \<Rightarrow> nat"] split: if_splits)

lemma code_inject: "code c = code d \<longleftrightarrow> c = d"
  by (simp add: code_def)

lemma esc_char_hd: "\<exists>x xs. esc_char c = x # xs \<and> x \<noteq> CHR 0x22"
  by (auto simp: esc_char_def)

lemma esc_char_prefix: "esc_char c @ r = esc_char d @ s \<Longrightarrow> c = d \<and> r = s"
proof -
  assume eq: "esc_char c @ r = esc_char d @ s"
  have ctrl: "code c < 32 \<Longrightarrow> code d < 32 \<Longrightarrow> hex_digit (code c div 16) = hex_digit (code d div 16) \<Longrightarrow>
      hex_digit (code c mod 16) = hex_digit (code d mod 16) \<Longrightarrow> c = d"
    by (subst code_inject [symmetric], subst div_mod_decomp [of "code c" 16], subst div_mod_decomp [of "code d" 16])
      (simp add: hex_digit_inject)
  show ?thesis using eq ctrl by (simp add: esc_char_def split: if_splits)
qed

lemma quote_body_prefix:
  "concat (map esc_char xs) @ CHR 0x22 # r = concat (map esc_char ys) @ CHR 0x22 # s \<Longrightarrow> xs = ys \<and> r = s"
proof (induction xs arbitrary: ys)
  case Nil
  show ?case
  proof (cases ys)
    case Nil
    with Nil.prems show ?thesis by simp
  next
    case (Cons y zs)
    with Nil.prems esc_char_hd [of y] show ?thesis by auto
  qed
next
  case (Cons x xs)
  show ?case
  proof (cases ys)
    case Nil
    with Cons.prems esc_char_hd [of x] show ?thesis by auto
  next
    case (Cons y zs)
    with Cons.prems have "esc_char x @ (concat (map esc_char xs) @ CHR 0x22 # r)
        = esc_char y @ (concat (map esc_char zs) @ CHR 0x22 # s)" by simp
    from esc_char_prefix [OF this] Cons.IH [of zs] Cons show ?thesis by simp
  qed
qed

lemma quote_prefix: "quote xs @ r = quote ys @ s \<Longrightarrow> xs = ys \<and> r = s"
  using quote_body_prefix [of xs r ys s] by (simp add: quote_def)

lemma delim_not_digit: "delim r \<Longrightarrow> takeWhile is_digit r = [] \<and> dropWhile is_digit r = r"
  by (cases r) (auto simp: delim_def is_digit_def between_def code_def)

lemma nat_str_prefix:
  assumes "nat_str m @ r = nat_str n @ s" "delim r" "delim s"
  shows "m = n \<and> r = s"
proof -
  have split: "takeWhile is_digit (nat_str k @ t) = nat_str k" "dropWhile is_digit (nat_str k @ t) = t"
    if "delim t" for k t
    using that nat_str_digits [of k]
    by (simp_all add: takeWhile_append2 dropWhile_append2 list_all_iff delim_not_digit)
  have "nat_str m = nat_str n" using split(1) [OF assms(2), of m] split(1) [OF assms(3), of n] assms(1) by simp
  moreover have "r = s" using split(2) [OF assms(2), of m] split(2) [OF assms(3), of n] assms(1) by simp
  ultimately show ?thesis by simp
qed

lemma nat_str_hd: "\<exists>c cs. nat_str n = c # cs \<and> is_digit c"
  using nat_str_digits [of n] by (cases "nat_str n") auto

lemma not_digit_minus: "\<not> is_digit (CHR ''-'')"
  by (simp add: is_digit_def between_def code_def)

lemma int_str_prefix: "int_str i @ r = int_str j @ s \<Longrightarrow> delim r \<Longrightarrow> delim s \<Longrightarrow> i = j \<and> r = s"
proof -
  assume eq: "int_str i @ r = int_str j @ s" and d: "delim r" "delim s"
  obtain c cs where c: "nat_str (nat i) = c # cs" "is_digit c" using nat_str_hd by blast
  obtain e es where e: "nat_str (nat j) = e # es" "is_digit e" using nat_str_hd by blast
  have "c \<noteq> CHR ''-''" "e \<noteq> CHR ''-''" using c(2) e(2) not_digit_minus by auto
  note diff = this
  consider "i < 0" "j < 0" | "i < 0" "\<not> j < 0" | "\<not> i < 0" "j < 0" | "\<not> i < 0" "\<not> j < 0" by blast
  then show ?thesis
  proof cases
    case 1
    with eq nat_str_prefix [of "nat (- i)" r "nat (- j)" s] d show ?thesis by (auto simp: int_str_def)
  next
    case 2
    with eq diff e(1) show ?thesis by (simp add: int_str_def)
  next
    case 3
    with eq diff c(1) show ?thesis by (simp add: int_str_def)
  next
    case 4
    with eq nat_str_prefix [of "nat i" r "nat j" s] d show ?thesis by (auto simp: int_str_def)
  qed
qed

lemma join_comma_prefix:
  assumes "\<And>x. x \<in> set xs \<Longrightarrow> prefix_code f x"
    and "\<And>y. \<exists>c cs. f y = c # cs \<and> c \<noteq> close"
    and "close = CHR '']'' \<or> close = CHR ''}''"
    and "join_comma (map f xs) @ close # r = join_comma (map f ys) @ close # s"
  shows "xs = ys \<and> r = s"
  using assms(1,4)
proof (induction xs arbitrary: ys)
  case Nil
  show ?case
  proof (cases ys)
    case Nil
    with Nil.prems show ?thesis by simp
  next
    case (Cons y zs)
    obtain c cs where "f y = c # cs" "c \<noteq> close" using assms(2) by blast
    with Nil.prems Cons show ?thesis by (cases zs) auto
  qed
next
  case (Cons x xs)
  have d: "delim (close # r)" "delim (close # s)" "\<And>t. delim (CHR '','' # t)"
    using assms(3) by (auto simp: delim_def)
  have nc: "close \<noteq> CHR '',''" using assms(3) by auto
  have px: "prefix_code f x" using Cons.prems(1) by simp
  obtain c cs where fx: "f x = c # cs" "c \<noteq> close" using assms(2) by blast
  obtain y zs where ys: "ys = y # zs"
    using Cons.prems(2) fx by (cases ys; cases xs) auto
  show ?case
  proof (cases xs)
    case Nil
    then show ?thesis
    proof (cases zs)
      case Nil
      with \<open>xs = []\<close> ys Cons.prems(2) prefix_codeD [OF px, of "close # r" y "close # s"] d
      show ?thesis by simp
    next
      case (Cons z zz)
      with \<open>xs = []\<close> ys Cons.prems(2)
        prefix_codeD [OF px, of "close # r" y "CHR '','' # join_comma (map f (z # zz)) @ close # s"] d nc
      show ?thesis by simp
    qed
  next
    case xs: (Cons x' xs')
    then show ?thesis
    proof (cases zs)
      case Nil
      with xs ys Cons.prems(2)
        prefix_codeD [OF px, of "CHR '','' # join_comma (map f (x' # xs')) @ close # r" y "close # s"] d nc
      show ?thesis by auto
    next
      case (Cons z zz)
      with xs ys Cons.prems(2)
        prefix_codeD [OF px, of "CHR '','' # join_comma (map f (x' # xs')) @ close # r" y
          "CHR '','' # join_comma (map f (z # zz)) @ close # s"] d
      have "x = y" "join_comma (map f (x' # xs')) @ close # r = join_comma (map f (z # zz)) @ close # s"
        by auto
      with Cons.IH [of zs] Cons.prems(1) xs Cons ys show ?thesis by simp
    qed
  qed
qed

lemma int_str_hd: "\<exists>c cs. int_str i = c # cs \<and> (is_digit c \<or> c = CHR ''-'')"
  using nat_str_hd [of "nat i"] by (auto simp: int_str_def)

lemma stringify_hd:
  "\<exists>c cs. stringify v = c # cs \<and> c \<noteq> CHR '']'' \<and> c \<noteq> CHR ''}''"
proof (cases v)
  case (JNum i)
  then show ?thesis using int_str_hd [of i] by (auto simp: is_digit_def between_def code_def)
qed (auto simp: quote_def)

lemma int_str_not:
  "hd (int_str i) \<notin> {CHR ''n'', CHR ''t'', CHR ''f'', CHR 0x22, CHR ''['', CHR ''{''}"
  using int_str_hd [of i] by (auto simp: is_digit_def between_def code_def)

text \<open>The first character tells the constructor, so a document is read back one
  constructor at a time.\<close>

lemma stringify_same_kind:
  assumes "stringify v @ r = stringify w @ s"
  shows "(v = JNull \<longleftrightarrow> w = JNull)" and "(\<exists>b. v = JBool b) \<longleftrightarrow> (\<exists>b. w = JBool b)"
    and "(\<exists>i. v = JNum i) \<longleftrightarrow> (\<exists>i. w = JNum i)" and "(\<exists>t. v = JStr t) \<longleftrightarrow> (\<exists>t. w = JStr t)"
    and "(\<exists>xs. v = JArr xs) \<longleftrightarrow> (\<exists>xs. w = JArr xs)"
proof -
  have hd: "hd (stringify v) = hd (stringify w)"
    using assms stringify_hd [of v] stringify_hd [of w] by auto
  show "(v = JNull \<longleftrightarrow> w = JNull)" and "(\<exists>b. v = JBool b) \<longleftrightarrow> (\<exists>b. w = JBool b)"
    and "(\<exists>i. v = JNum i) \<longleftrightarrow> (\<exists>i. w = JNum i)" and "(\<exists>t. v = JStr t) \<longleftrightarrow> (\<exists>t. w = JStr t)"
    and "(\<exists>xs. v = JArr xs) \<longleftrightarrow> (\<exists>xs. w = JArr xs)"
    using hd int_str_not by (cases v; cases w; force simp: quote_def split: if_splits)+
qed

lemma entry_str_prefix:
  assumes "prefix_code stringify (snd e)"
  shows "prefix_code (entry_str \<circ> map_prod id stringify) e"
proof -
  have "e = e' \<and> r = s" if d: "delim r" "delim s"
    and eq: "entry_str (map_prod id stringify e) @ r = entry_str (map_prod id stringify e') @ s" for e' r s
  proof -
    from eq have "quote (fst e) @ (CHR '':'' # stringify (snd e) @ r) = quote (fst e') @ (CHR '':'' # stringify (snd e') @ s)"
      by (simp add: entry_str_def)
    from quote_prefix [OF this] have "fst e = fst e'" "stringify (snd e) @ r = stringify (snd e') @ s" by auto
    with prefix_codeD [OF assms this(2) d] show ?thesis by (auto simp: prod_eq_iff)
  qed
  then show ?thesis by (simp add: prefix_code_def)
qed

lemma stringify_prefix_code: "prefix_code stringify v"
proof (induction v)
  case (JNum i)
  have "JNum i = w \<and> r = s" if eq: "stringify (JNum i) @ r = stringify w @ s" and "delim r" "delim s" for w r s
  proof -
    obtain j where "w = JNum j" using stringify_same_kind(3) [OF eq] by blast
    with that int_str_prefix [of i r j s] show ?thesis by simp
  qed
  then show ?case by (simp add: prefix_code_def)
next
  case (JStr t)
  have "JStr t = w \<and> r = s" if eq: "stringify (JStr t) @ r = stringify w @ s" for w r s
  proof -
    obtain u where "w = JStr u" using stringify_same_kind(4) [OF eq] by blast
    with eq quote_prefix [of t r u s] show ?thesis by simp
  qed
  then show ?case by (simp add: prefix_code_def)
next
  case (JArr vs)
  have "JArr vs = w \<and> r = s" if eq: "stringify (JArr vs) @ r = stringify w @ s" for w r s
  proof -
    obtain ws where w: "w = JArr ws" using stringify_same_kind(5) [OF eq] by blast
    with eq have "join_comma (map stringify vs) @ CHR '']'' # r = join_comma (map stringify ws) @ CHR '']'' # s"
      by simp
    from join_comma_prefix [OF _ _ _ this] JArr.IH stringify_hd have "vs = ws \<and> r = s" by blast
    with w show ?thesis by simp
  qed
  then show ?case by (simp add: prefix_code_def)
next
  case (JObj kvs)
  let ?f = "entry_str \<circ> map_prod id stringify"
  have IH: "prefix_code ?f e" if "e \<in> set kvs" for e
    by (rule entry_str_prefix) (use JObj.IH that in \<open>cases e, auto\<close>)
  have "JObj kvs = w \<and> r = s" if eq: "stringify (JObj kvs) @ r = stringify w @ s" for w r s
  proof -
    obtain kws where w: "w = JObj kws"
      using stringify_same_kind [OF eq] by (cases w) auto
    with eq have "join_comma (map ?f kvs) @ CHR ''}'' # r = join_comma (map ?f kws) @ CHR ''}'' # s"
      by simp
    from join_comma_prefix [OF IH _ _ this] have "kvs = kws \<and> r = s"
      by (auto simp: entry_str_def quote_def)
    with w show ?thesis by simp
  qed
  then show ?case by (simp add: prefix_code_def)
next
  case JNull
  then show ?case using stringify_same_kind(1) [of JNull] by (fastforce simp: prefix_code_def)
next
  case (JBool b)
  then show ?case
    using stringify_same_kind(2) [of "JBool b"] by (fastforce simp: prefix_code_def split: if_splits)
qed

lemma stringify_inject: "stringify v = stringify w \<longleftrightarrow> v = w"
  using prefix_codeD [OF stringify_prefix_code, of v "[]" w "[]"] by (auto simp: delim_def)

subsection \<open>Canonical JSON decides equality up to key order\<close>

lemma wf_json_JObj: "wf_json (JObj kvs) \<longleftrightarrow> distinct (map fst kvs) \<and> (\<forall>(k, v)\<in>set kvs. wf_json v)"
  by (auto simp: list_all_iff)

lemma proto_free_JObj:
  "proto_free (JObj kvs) \<longleftrightarrow> ''__proto__'' \<notin> set (map fst kvs) \<and> (\<forall>(k, v)\<in>set kvs. proto_free v)"
  by (auto simp: list_all_iff)

lemma sort_key_same_map:
  assumes "distinct (map fst xs)" "distinct (map fst ys)" "map_of xs = map_of ys"
  shows "sort_key fst xs = sort_key fst ys"
proof (rule sort_key_inj_key_eq)
  have "set xs = set ys" using assms by (simp add: map_of_inject_set)
  moreover have "distinct xs" "distinct ys" using assms by (auto simp: distinct_map)
  ultimately show "mset xs = mset (sort_key fst ys)" by (simp add: set_eq_iff_mset_eq_distinct [symmetric])
  show "inj_on fst (set xs)" using assms(1) by (simp add: distinct_map)
  show "sorted (map fst (sort_key fst ys))" by simp
qed

lemma map_of_map_prod: "map_of (map (map_prod id f) kvs) k = map_option f (map_of kvs k)"
  by (induction kvs) auto

lemma map_of_sortKeys_entries:
  assumes "distinct (map fst kvs)" "''__proto__'' \<notin> set (map fst kvs)"
  shows "map_of (js_object (sort_key fst (map (map_prod id sortKeys) kvs))) k = map_option sortKeys (map_of kvs k)"
proof -
  let ?es = "map (map_prod id sortKeys) kvs"
  have keys: "map fst ?es = map fst kvs" by (simp add: comp_def)
  have "mset (map fst (sort_key fst ?es)) = mset (map fst ?es)" by (simp only: mset_map mset_sort)
  then have "mset (map fst (sort_key fst ?es)) = mset (map fst kvs)" by (simp only: keys)
  then have "distinct (map fst (sort_key fst ?es))" "''__proto__'' \<notin> set (map fst (sort_key fst ?es))"
    using assms by (metis mset_eq_imp_distinct_iff, metis mset_eq_setD)
  then have "map_of (js_object (sort_key fst ?es)) = map_of (sort_key fst ?es)"
    by (simp add: map_of_js_object)
  also have "\<dots> = map_of ?es"
    using assms keys \<open>distinct (map fst (sort_key fst ?es))\<close>
    by (intro map_of_inject_set [THEN iffD2]) (auto simp del: map_map)
  finally show ?thesis by (simp add: map_of_map_prod)
qed

lemma sortKeys_equivI:
  assumes "json_equiv v w" "wf_json v" "wf_json w"
  shows "sortKeys v = sortKeys w"
  using assms
proof (induction v w rule: json_equiv.induct)
  case (arr vs ws)
  then show ?case by (auto simp: list_all_iff list_all2_conv_all_nth intro!: nth_equalityI)
next
  case (obj kvs kws)
  let ?m = "map (map_prod id sortKeys)"
  have "map_option sortKeys (map_of kvs k) = map_option sortKeys (map_of kws k)" for k
    using obj.IH [THEN spec, of k] obj.prems
    by (cases "map_of kvs k"; cases "map_of kws k") (auto simp: list_all_iff dest!: map_of_SomeD)
  then have "map_of (?m kvs) = map_of (?m kws)" by (simp add: fun_eq_iff map_of_map_prod)
  then have "sort_key fst (?m kvs) = sort_key fst (?m kws)"
    using obj.prems by (intro sort_key_same_map) (auto simp: comp_def)
  then show ?case by simp
qed auto

lemma sortKeys_equivD:
  assumes "sortKeys v = sortKeys w" "wf_json v" "wf_json w" "proto_free v" "proto_free w"
  shows "json_equiv v w"
  using assms
proof (induction v arbitrary: w)
  case (JArr vs)
  from JArr.prems(1) obtain ws where w: "w = JArr ws" by (cases w) auto
  with JArr.prems(1) have "list_all2 (=) (map sortKeys vs) (map sortKeys ws)" by (simp add: list.rel_eq)
  then have "list_all2 (\<lambda>x y. sortKeys x = sortKeys y) vs ws"
    by (simp add: list_all2_map1 list_all2_map2)
  then have "list_all2 json_equiv vs ws"
    by (rule list.rel_mono_strong) (use JArr.IH JArr.prems w in \<open>auto simp: list_all_iff\<close>)
  with w show ?case by simp
next
  case (JObj kvs)
  from JObj.prems(1) obtain kws where w: "w = JObj kws" by (cases w) auto
  have eq: "map_option sortKeys (map_of kvs k) = map_option sortKeys (map_of kws k)" for k
    using JObj.prems w map_of_sortKeys_entries [of kvs k] map_of_sortKeys_entries [of kws k] by simp
  have "rel_option json_equiv (map_of kvs k) (map_of kws k)" for k
  proof (cases "map_of kvs k")
    case None
    with eq [of k] show ?thesis by simp
  next
    case (Some x)
    with eq [of k] obtain y where y: "map_of kws k = Some y" "sortKeys x = sortKeys y"
      by (cases "map_of kws k") auto
    have "(k, x) \<in> set kvs" "(k, y) \<in> set kws" using Some y(1) by (auto dest: map_of_SomeD)
    then have "json_equiv x y"
      using JObj.IH [of "(k, x)" x y] JObj.prems w y(2) by (force simp: list_all_iff)
    with Some y(1) show ?thesis by simp
  qed
  with w show ?case by simp
next
  case (JBool b)
  then show ?case by (cases w) auto
next
  case (JNum i)
  then show ?case by (cases w) auto
next
  case (JStr t)
  then show ?case by (cases w) auto
next
  case JNull
  then show ?case by (cases w) auto
qed

text \<open>The two directions on objects, as the documents of the components use them: the order of
  the members does not matter, and each member can be read back.\<close>

lemma canonicalJson_reorder:
  assumes "map_of kvs = map_of kws" "distinct (map fst kvs)" "distinct (map fst kws)"
  shows "canonicalJson (JObj kvs) = canonicalJson (JObj kws)"
proof -
  have "sort_key fst (map (map_prod id sortKeys) kvs) = sort_key fst (map (map_prod id sortKeys) kws)"
    using assms by (intro sort_key_same_map) (auto simp: comp_def fun_eq_iff map_of_map_prod)
  then show ?thesis by (simp add: canonicalJson_def)
qed

lemma canonicalJson_lookup:
  assumes "canonicalJson (JObj kvs) = canonicalJson (JObj kws)"
    and "distinct (map fst kvs)" "distinct (map fst kws)"
    and "''__proto__'' \<notin> set (map fst kvs)" "''__proto__'' \<notin> set (map fst kws)"
  shows "map_option sortKeys (map_of kvs k) = map_option sortKeys (map_of kws k)"
proof -
  have "sortKeys (JObj kvs) = sortKeys (JObj kws)"
    using assms(1) unfolding canonicalJson_def stringify_inject .
  with assms map_of_sortKeys_entries [of kvs k] map_of_sortKeys_entries [of kws k] show ?thesis by simp
qed

text \<open>
  C22. Canonical JSON is a faithful fingerprint: for values whose objects have distinct keys
  and none of them is \<open>__proto__\<close>, two canonical documents are the same string exactly
  when the values are equal up to the order of object keys.
\<close>

theorem canonicalJson_equiv:
  assumes "wf_json v" "wf_json w" "proto_free v" "proto_free w"
  shows "canonicalJson v = canonicalJson w \<longleftrightarrow> json_equiv v w"
  using sortKeys_equivI [OF _ assms(1,2)] sortKeys_equivD [OF _ assms]
  by (auto simp: canonicalJson_def stringify_inject)

theorem canonicalJson_equiv_witness:
  "canonicalJson (JObj [(''b'', JNum 1), (''a'', JArr [JNull, JStr ''x''])]) =
     canonicalJson (JObj [(''a'', JArr [JNull, JStr ''x'']), (''b'', JNum 1)])
   \<longleftrightarrow> json_equiv (JObj [(''b'', JNum 1), (''a'', JArr [JNull, JStr ''x''])])
        (JObj [(''a'', JArr [JNull, JStr ''x'']), (''b'', JNum 1)])"
  by (rule canonicalJson_equiv) simp_all

text \<open>
  An own property named \<open>__proto__\<close> never reaches the canonical document: a value that
  carries one is encoded as if it did not, so the two values share digest and signature.
\<close>

theorem canonicalJson_drops_proto:
  "canonicalJson (JObj (kvs @ [(''__proto__'', x)])) = canonicalJson (JObj kvs)"
proof -
  let ?m = "map (map_prod id sortKeys)"
  have drop: "fold (\<lambda>(k, v). js_set k v) es props = fold (\<lambda>(k, v). js_set k v) (filter (\<lambda>e. fst e \<noteq> ''__proto__'') es) props"
    for es props
    by (induction es arbitrary: props) (auto simp: js_set_def)
  have "filter (\<lambda>e. fst e \<noteq> ''__proto__'') (sort_key fst (?m (kvs @ [(''__proto__'', x)])))
      = filter (\<lambda>e. fst e \<noteq> ''__proto__'') (sort_key fst (?m kvs))"
    by (simp add: filter_sort)
  then show ?thesis
    by (simp add: canonicalJson_def js_object_def drop [of "sort_key fst (?m (kvs @ [(''__proto__'', x)]))"]
        drop [of "sort_key fst (?m kvs)"] del: map_append)
qed

subsection \<open>What redaction leaves\<close>

lemma no_secrets_JObj:
  "no_secrets (JObj kvs) \<longleftrightarrow>
     (\<forall>(k, v)\<in>set kvs. (sensitive_key k \<longrightarrow> v = JStr ''[REDACTED]'') \<and> no_secrets v)"
  by (auto simp: list_all_iff)

lemma no_key_material [simp]: "\<not> key_material ''[REDACTED]''" "\<not> key_material ''[depth_exceeded]''"
  by (simp_all add: key_material_def str_includes_def sublist_code)

lemma redact_no_secrets: "no_secrets (redactSecrets v depth)"
proof (induction v arbitrary: depth)
  case (JArr vs)
  then show ?case by (auto simp: list_all_iff)
next
  case (JObj kvs)
  have "(sensitive_key k \<longrightarrow> x = JStr ''[REDACTED]'') \<and> no_secrets x"
    if "(k, x) \<in> set (js_object (map (redact_entry depth) (map (map_prod id redactSecrets) kvs)))" for k x
    using in_js_object [OF that] JObj.IH by (fastforce simp: redact_entry_def)
  then show ?case by (cases "10 < depth") (auto simp: no_secrets_JObj simp del: no_secrets.simps(6))
qed auto

lemma foldr_max_le: "foldr max ns (0 :: nat) \<le> b \<longleftrightarrow> (\<forall>n\<in>set ns. n \<le> b)"
  by (induction ns) auto

lemma redact_nesting: "depth \<le> 11 \<Longrightarrow> nesting (redactSecrets v depth) + depth \<le> 11"
proof (induction v arbitrary: depth)
  case (JArr vs)
  have "nesting (redactSecrets v (Suc depth)) \<le> 10 - depth" if "v \<in> set vs" "\<not> 10 < depth" for v
    using JArr.IH [OF that(1), of "Suc depth"] that(2) by simp
  then have "\<not> 10 < depth \<Longrightarrow> foldr max (map nesting (map (\<lambda>f. f (Suc depth)) (map redactSecrets vs))) 0 \<le> 10 - depth"
    by (auto simp: foldr_max_le)
  with JArr.prems show ?case by (auto simp: comp_def)
next
  case (JObj kvs)
  let ?es = "map (redact_entry depth) (map (map_prod id redactSecrets) kvs)"
  have "nesting x \<le> 10 - depth" if "\<not> 10 < depth" "(k, x) \<in> set (js_object ?es)" for k x
  proof -
    from in_js_object [OF that(2)] obtain v where v: "(k, v) \<in> set kvs"
      "x = (if sensitive_key k then JStr ''[REDACTED]'' else redactSecrets v (Suc depth))"
      by (auto simp: redact_entry_def)
    then have "nesting (redactSecrets v (Suc depth)) + Suc depth \<le> 11"
      using JObj.IH [of "(k, v)" v "Suc depth"] that(1) by auto
    then show ?thesis using v(2) by auto
  qed
  then have "\<not> 10 < depth \<Longrightarrow> foldr max (map snd (map (map_prod id nesting) (js_object ?es))) 0 \<le> 10 - depth"
    by (auto simp: foldr_max_le)
  with JObj.prems show ?case by (auto simp: comp_def)
qed auto

text \<open>
  C29. Redaction is complete: whatever the input, the redacted value holds no key material in
  any string value, no value under a sensitive key at any depth, and is at most eleven
  levels deep.
\<close>

theorem redactSecrets_complete:
  "no_secrets (redactSecrets v 0) \<and> nesting (redactSecrets v 0) \<le> 11"
  using redact_no_secrets [of v 0] redact_nesting [of 0 v] by simp

end
