(* ===== verification/Config.thy ===== *)
theory Config
  imports Prelude
begin

section \<open>Runtime configuration\<close>

text \<open>
  Models \<^verbatim>\<open>src/src/config.ts\<close>: the built-in defaults, \<open>loadRuntimeConfig\<close> as a function
  of the process environment (no overrides), and the machine identity. An environment
  variable is absent or a string; \<open>parseInt\<close> may give NaN, which is \<open>None\<close> and equals no
  user id. SHA-256 is the parameter \<open>sha256\<close>.
\<close>

type_synonym environment = "string \<Rightarrow> string option"

record runtime_config =
  cfg_socketPath :: string
  cfg_socketGroup :: string
  cfg_socketMode :: "int option"
  cfg_stateRoot :: string
  cfg_configRoot :: string
  cfg_gatewayId :: string
  cfg_supervisorId :: string
  cfg_expectedSubject :: string
  cfg_authorityClass :: string
  cfg_expectedHostname :: string
  cfg_expectedMachineIdSha256 :: string
  cfg_oauthIssuer :: string
  cfg_oauthResource :: string
  cfg_oauthJwksUri :: string
  cfg_gatewayAuthorityPublicKeyPath :: string
  cfg_gatewayAuthorityPrivateKeyPath :: string
  cfg_gatewayAuthorityKeyId :: string
  cfg_supervisorReceiptPrivateKeyPath :: string
  cfg_supervisorReceiptPublicKeyPath :: string
  cfg_supervisorReceiptKeyId :: string
  cfg_ownerPrincipalFingerprint :: string
  cfg_previousGatewayAuthorityPublicKeyPath :: "string option"
  cfg_gatewayUid :: "int option"
  cfg_skipPeerCredCheck :: bool
  cfg_maxFrameSize :: nat
  cfg_maxOutputBytes :: nat
  cfg_maxJobQueue :: nat
  cfg_maxRetentionJobs :: nat
  cfg_requestMaxAgeMs :: int
  cfg_nonceRetentionMs :: int
  cfg_idempotencyRetentionMs :: int

definition PROTOCOL_VERSION :: string where "PROTOCOL_VERSION = ''1.0.0''"
definition GATEWAY_AUTHORITY_KEY_ID :: string where "GATEWAY_AUTHORITY_KEY_ID = ''gateway-authority-v1''"
definition SUPERVISOR_RECEIPT_KEY_ID :: string where "SUPERVISOR_RECEIPT_KEY_ID = ''supervisor-receipt-v1''"

text \<open>The defaults the loader reads.\<close>

record default_values =
  dflt_socketPath :: string
  dflt_socketGroup :: string
  dflt_socketMode :: int
  dflt_gatewayUid :: int
  dflt_currentLink :: string
  dflt_stateRoot :: string
  dflt_configRoot :: string
  dflt_gatewayId :: string
  dflt_supervisorId :: string
  dflt_expectedSubject :: string
  dflt_authorityClass :: string
  dflt_expectedHostname :: string
  dflt_expectedMachineIdSha256 :: string
  dflt_oauthIssuer :: string
  dflt_oauthResource :: string
  dflt_oauthJwksUri :: string
  dflt_maxFrameSize :: nat
  dflt_maxOutputBytes :: nat
  dflt_maxJobQueue :: nat
  dflt_maxRetentionJobs :: nat
  dflt_requestMaxAgeMs :: int
  dflt_nonceRetentionMs :: int
  dflt_idempotencyRetentionMs :: int

definition DEFAULTS :: default_values where
  "DEFAULTS = \<lparr>
     dflt_socketPath = ''/run/horsey/baby-quirt.sock'',
     dflt_socketGroup = ''horsey'',
     dflt_socketMode = 432,
     dflt_gatewayUid = 997,
     dflt_currentLink = ''/opt/baby-quirt/current'',
     dflt_stateRoot = ''/var/lib/baby-quirt'',
     dflt_configRoot = ''/etc/baby-quirt'',
     dflt_gatewayId = ''stealtheye-horsey-gateway'',
     dflt_supervisorId = ''baby-quirt-supervisor'',
     dflt_expectedSubject = ''stealtheye-owner'',
     dflt_authorityClass = ''unrestricted-owner'',
     dflt_expectedHostname = ''vps-c9f04f5e'',
     dflt_expectedMachineIdSha256 = ''cd189817b39fea60d338b73878240a6fe7db71374c7a0f35ad60f8eb641e8817'',
     dflt_oauthIssuer = ''https://baby-quirt.stealtheye.io'',
     dflt_oauthResource = ''https://baby-quirt.stealtheye.io/mcp'',
     dflt_oauthJwksUri = ''https://baby-quirt.stealtheye.io/oauth/jwks.json'',
     dflt_maxFrameSize = 16 * 1024 * 1024,
     dflt_maxOutputBytes = 64 * 1024 * 1024,
     dflt_maxJobQueue = 256,
     dflt_maxRetentionJobs = 1024,
     dflt_requestMaxAgeMs = 5 * 60 * 1000,
     dflt_nonceRetentionMs = 24 * 60 * 60 * 1000,
     dflt_idempotencyRetentionMs = 24 * 60 * 60 * 1000\<rparr>"

text \<open>\<open>a ?? b\<close>.\<close>

definition nullish :: "'a option \<Rightarrow> 'a \<Rightarrow> 'a" where
  "nullish a b = (case a of None \<Rightarrow> b | Some x \<Rightarrow> x)"

text \<open>\<open>parseInt(s, radix)\<close> for radix at most ten: leading white space, an optional sign, the
  longest prefix of digits; no digit gives NaN.\<close>

definition is_space :: "char \<Rightarrow> bool" where
  "is_space c \<longleftrightarrow> code c \<in> {9, 10, 11, 12, 13, 32, 160}"

definition parseInt :: "nat \<Rightarrow> string \<Rightarrow> int option" where
  "parseInt radix s =
     (let t = dropWhile is_space s;
          neg = (t \<noteq> [] \<and> hd t = CHR ''-'');
          u = (if t \<noteq> [] \<and> hd t \<in> {CHR ''-'', CHR ''+''} then tl t else t);
          ds = takeWhile (\<lambda>c. is_digit c \<and> digit_val c < radix) u;
          n = int (foldl (\<lambda>n c. radix * n + digit_val c) 0 ds)
      in if ds = [] then None else Some (if neg then - n else n))"

definition loadRuntimeConfig :: "environment \<Rightarrow> runtime_config" where
  "loadRuntimeConfig env =
     (let configRoot = nullish (env ''BABY_QUIRT_CONFIG_ROOT'') (dflt_configRoot DEFAULTS);
          stateRoot = nullish (env ''BABY_QUIRT_STATE_ROOT'') (dflt_stateRoot DEFAULTS)
      in \<lparr>cfg_socketPath = nullish (env ''BABY_QUIRT_SOCKET_PATH'') (dflt_socketPath DEFAULTS),
          cfg_socketGroup = nullish (env ''BABY_QUIRT_SOCKET_GROUP'') (dflt_socketGroup DEFAULTS),
          cfg_socketMode = (if truthy (env ''BABY_QUIRT_SOCKET_MODE'')
             then parseInt 8 (the (env ''BABY_QUIRT_SOCKET_MODE'')) else Some (dflt_socketMode DEFAULTS)),
          cfg_stateRoot = stateRoot,
          cfg_configRoot = configRoot,
          cfg_gatewayId = nullish (env ''BABY_QUIRT_GATEWAY_ID'') (dflt_gatewayId DEFAULTS),
          cfg_supervisorId = nullish (env ''BABY_QUIRT_SUPERVISOR_ID'') (dflt_supervisorId DEFAULTS),
          cfg_expectedSubject = nullish (env ''BABY_QUIRT_EXPECTED_SUBJECT'') (dflt_expectedSubject DEFAULTS),
          cfg_authorityClass = dflt_authorityClass DEFAULTS,
          cfg_expectedHostname = nullish (env ''BABY_QUIRT_EXPECTED_HOSTNAME'') (dflt_expectedHostname DEFAULTS),
          cfg_expectedMachineIdSha256 =
            nullish (env ''BABY_QUIRT_EXPECTED_MACHINE_ID_SHA256'') (dflt_expectedMachineIdSha256 DEFAULTS),
          cfg_oauthIssuer = nullish (env ''BABY_QUIRT_OAUTH_ISSUER'') (dflt_oauthIssuer DEFAULTS),
          cfg_oauthResource = nullish (env ''BABY_QUIRT_OAUTH_RESOURCE'') (dflt_oauthResource DEFAULTS),
          cfg_oauthJwksUri = nullish (env ''BABY_QUIRT_OAUTH_JWKS_URI'') (dflt_oauthJwksUri DEFAULTS),
          cfg_gatewayAuthorityPublicKeyPath = configRoot @ ''/gateway-authority-public.pem'',
          cfg_gatewayAuthorityPrivateKeyPath = configRoot @ ''/gateway-authority-private.pem'',
          cfg_gatewayAuthorityKeyId = GATEWAY_AUTHORITY_KEY_ID,
          cfg_supervisorReceiptPrivateKeyPath = configRoot @ ''/supervisor-receipt-private.pem'',
          cfg_supervisorReceiptPublicKeyPath = configRoot @ ''/supervisor-receipt-public.pem'',
          cfg_supervisorReceiptKeyId = SUPERVISOR_RECEIPT_KEY_ID,
          cfg_ownerPrincipalFingerprint = nullish (env ''BABY_QUIRT_OWNER_PRINCIPAL_FINGERPRINT'') '''',
          cfg_previousGatewayAuthorityPublicKeyPath = None,
          cfg_gatewayUid = (if truthy (env ''BABY_QUIRT_GATEWAY_UID'')
             then parseInt 10 (the (env ''BABY_QUIRT_GATEWAY_UID'')) else Some (dflt_gatewayUid DEFAULTS)),
          cfg_skipPeerCredCheck =
            (env ''BABY_QUIRT_SKIP_PEER_CRED'' = Some ''1'' \<or> env ''BABY_QUIRT_TEST_MODE'' = Some ''1''),
          cfg_maxFrameSize = dflt_maxFrameSize DEFAULTS,
          cfg_maxOutputBytes = dflt_maxOutputBytes DEFAULTS,
          cfg_maxJobQueue = dflt_maxJobQueue DEFAULTS,
          cfg_maxRetentionJobs = dflt_maxRetentionJobs DEFAULTS,
          cfg_requestMaxAgeMs = dflt_requestMaxAgeMs DEFAULTS,
          cfg_nonceRetentionMs = dflt_nonceRetentionMs DEFAULTS,
          cfg_idempotencyRetentionMs = dflt_idempotencyRetentionMs DEFAULTS\<rparr>)"

subsection \<open>Machine identity\<close>

definition normalizeMachineId :: "string \<Rightarrow> string" where
  "normalizeMachineId raw = filter (\<lambda>c. c \<noteq> CHR 0x0D \<and> c \<noteq> CHR 0x0A) raw"

definition machineIdSha256 :: "(string \<Rightarrow> string) \<Rightarrow> string \<Rightarrow> string" where
  "machineIdSha256 sha256 raw =
     (let normalized = normalizeMachineId raw in if normalized = [] then [] else sha256 normalized)"

text \<open>An unreadable \<open>/etc/machine-id\<close> gives the empty identity.\<close>

definition getMachineIdSha256 :: "(string \<Rightarrow> string) \<Rightarrow> string option \<Rightarrow> string" where
  "getMachineIdSha256 sha256 machine_id_file =
     (case machine_id_file of None \<Rightarrow> [] | Some raw \<Rightarrow> machineIdSha256 sha256 raw)"

end
