(* ===== verification/Interfaces.thy ===== *)
theory Interfaces
  imports Prelude
begin

section \<open>Interfaces shared by the stateful components\<close>

text \<open>
  Every durable component is a state and a set of operations that either return a new state
  with a result or fail and leave the state as it was (a transaction that rolls back).
  \<open>run_ops\<close> performs a sequence of operations. The locales state the two contracts the
  components promise: operations keep an invariant (\<open>inv_system\<close>), and operations only move
  the state forward in an order (\<open>growing_system\<close>), which is what append-only tables are.
  Their consequences for whole runs are proved here once.
\<close>

fun run_ops :: "('i \<Rightarrow> 's \<Rightarrow> ('e, 's \<times> 'o) result) \<Rightarrow> 'i list \<Rightarrow> 's \<Rightarrow> 's" where
  "run_ops step [] s = s"
| "run_ops step (i # is) s =
     (case step i s of Inl e \<Rightarrow> run_ops step is s | Inr (s', r) \<Rightarrow> run_ops step is s')"

lemma run_ops_append: "run_ops step (is @ js) s = run_ops step js (run_ops step is s)"
  by (induction "is" arbitrary: s) (auto split: sum.splits)

locale inv_system =
  fixes step :: "'i \<Rightarrow> 's \<Rightarrow> ('e, 's \<times> 'o) result"
    and inv :: "'s \<Rightarrow> bool"
  assumes step_inv: "inv s \<Longrightarrow> step i s = Inr (s', r) \<Longrightarrow> inv s'"
begin

lemma run_inv: "inv s \<Longrightarrow> inv (run_ops step is s)"
proof (induction "is" arbitrary: s)
  case Nil
  then show ?case by simp
next
  case (Cons i js)
  then show ?case by (cases "step i s") (auto dest: step_inv)
qed

end

locale growing_system = inv_system +
  fixes grows :: "'s \<Rightarrow> 's \<Rightarrow> bool"
  assumes grows_refl: "grows s s"
    and grows_trans: "grows s t \<Longrightarrow> grows t u \<Longrightarrow> grows s u"
    and step_grows: "inv s \<Longrightarrow> step i s = Inr (s', r) \<Longrightarrow> grows s s'"
begin

lemma run_grows: "inv s \<Longrightarrow> grows s (run_ops step is s)"
proof (induction "is" arbitrary: s)
  case Nil
  then show ?case by (simp add: grows_refl)
next
  case (Cons i js)
  show ?case
  proof (cases "step i s")
    case (Inl e)
    with Cons show ?thesis by simp
  next
    case (Inr sr)
    obtain s' r where sr: "sr = (s', r)" by (cases sr)
    with Inr Cons.prems have "grows s s'" "inv s'" by (auto intro: step_grows step_inv)
    with Inr sr Cons.IH [of s'] show ?thesis by (auto intro: grows_trans)
  qed
qed

end

text \<open>
  A state machine over a finite set of states with designated terminal states: the client
  (a ledger) relies on no rule leading out of a terminal state.
\<close>

locale terminal_machine =
  fixes allowed :: "'st \<Rightarrow> 'st \<Rightarrow> bool"
    and terminal :: "'st \<Rightarrow> bool"
  assumes terminal_closed: "terminal s \<Longrightarrow> \<not> allowed s t"
begin

lemma terminal_stays:
  assumes "allowed\<^sup>*\<^sup>* s t" "terminal s"
  shows "t = s"
  using assms by (cases rule: converse_rtranclpE) (auto simp: terminal_closed)

end

end
