(* ===== verification/Replay_Store.thy ===== *)
theory Replay_Store
  imports Json Config Interfaces
begin

section \<open>Replay protection and semantic idempotency\<close>

text \<open>
  Models \<^verbatim>\<open>src/src/state/replay-store.ts\<close>: the nonce list, the idempotency entries, the
  dirty flag and the file \<open>replay-store.json\<close>. Every operation takes the clock reading
  \<open>now\<close>. \<open>persist\<close> takes the point at which the file system fails, if it does: before the
  rename the old file stays, after it the new one is in place, and both throw.
\<close>

subsection \<open>State\<close>

record nonce_entry =
  ne_nonce :: string
  ne_seenAt :: int

datatype entry_status = Pending | Completed

record idempotency_entry =
  ie_requestHash :: string
  ie_requestId :: "string option"
  ie_fingerprint :: "string option"
  ie_status :: "entry_status option"
  ie_response :: "json option"
  ie_storedAt :: int

record store_data =
  sd_nonces :: "nonce_entry list"
  sd_idempotency :: "idempotency_entry list"

text \<open>The file is absent, not JSON, or an object whose two members may fail to be arrays.\<close>

datatype store_file = Absent | Corrupt | Parsed "nonce_entry list option" "idempotency_entry list option"

record replay_store =
  rs_data :: store_data
  rs_dirty :: bool
  rs_file :: store_file

datatype semantic_result = Miss | SPending | Conflict string | Replay json

datatype io_fault = NoFault | FaultBeforeRename | FaultAfterRename

subsection \<open>Operations\<close>

definition load :: "store_file \<Rightarrow> store_data" where
  "load f = (case f of
     Parsed ns es \<Rightarrow> \<lparr>sd_nonces = nullish ns [], sd_idempotency = nullish es []\<rparr>
   | _ \<Rightarrow> \<lparr>sd_nonces = [], sd_idempotency = []\<rparr>)"

definition new_store :: "store_file \<Rightarrow> replay_store" where
  "new_store f = \<lparr>rs_data = load f, rs_dirty = False, rs_file = f\<rparr>"

text \<open>The second component is whether \<open>persist\<close> threw.\<close>

definition persist :: "io_fault \<Rightarrow> replay_store \<Rightarrow> replay_store \<times> bool" where
  "persist fault s =
     (if \<not> rs_dirty s then (s, False)
      else let written = Parsed (Some (sd_nonces (rs_data s))) (Some (sd_idempotency (rs_data s)))
           in case fault of
                FaultBeforeRename \<Rightarrow> (s, True)
              | FaultAfterRename \<Rightarrow> (s\<lparr>rs_file := written\<rparr>, True)
              | NoFault \<Rightarrow> (s\<lparr>rs_file := written, rs_dirty := False\<rparr>, False))"

definition prune :: "runtime_config \<Rightarrow> int \<Rightarrow> replay_store \<Rightarrow> replay_store" where
  "prune cfg now s =
     (let d = rs_data s;
          ns = filter (\<lambda>n. now - ne_seenAt n < cfg_nonceRetentionMs cfg) (sd_nonces d);
          es = filter (\<lambda>e. now - ie_storedAt e < cfg_idempotencyRetentionMs cfg) (sd_idempotency d)
      in s\<lparr>rs_data := \<lparr>sd_nonces = ns, sd_idempotency = es\<rparr>,
           rs_dirty := (rs_dirty s \<or> length (sd_nonces d) \<noteq> length ns \<or> length (sd_idempotency d) \<noteq> length es)\<rparr>)"

definition hasNonce :: "runtime_config \<Rightarrow> int \<Rightarrow> string \<Rightarrow> replay_store \<Rightarrow> replay_store \<times> bool" where
  "hasNonce cfg now nonce s =
     (let s = prune cfg now s in (s, list_ex (\<lambda>n. ne_nonce n = nonce) (sd_nonces (rs_data s))))"

definition tryCommitNonce :: "runtime_config \<Rightarrow> int \<Rightarrow> string \<Rightarrow> replay_store \<Rightarrow> replay_store \<times> bool" where
  "tryCommitNonce cfg now nonce s =
     (let s = prune cfg now s; d = rs_data s
      in if list_ex (\<lambda>n. ne_nonce n = nonce) (sd_nonces d) then (s, False)
         else (s\<lparr>rs_data := d\<lparr>sd_nonces := sd_nonces d @ [\<lparr>ne_nonce = nonce, ne_seenAt = now\<rparr>]\<rparr>,
                 rs_dirty := True\<rparr>, True))"

definition getIdempotentResponse :: "runtime_config \<Rightarrow> int \<Rightarrow> string \<Rightarrow> replay_store \<Rightarrow> replay_store \<times> json option" where
  "getIdempotentResponse cfg now hash s =
     (let s = prune cfg now s
      in (s, case find (\<lambda>e. ie_requestHash e = hash \<and> (ie_status e = None \<or> ie_status e = Some Completed))
                  (sd_idempotency (rs_data s)) of
               None \<Rightarrow> None
             | Some e \<Rightarrow> ie_response e))"

definition semantic_of :: "string \<Rightarrow> string \<Rightarrow> idempotency_entry list \<Rightarrow> semantic_result" where
  "semantic_of requestId fingerprint es =
     (case find (\<lambda>e. ie_requestId e = Some requestId) es of
        None \<Rightarrow> Miss
      | Some e \<Rightarrow>
          if \<not> truthy (ie_fingerprint e) then Conflict ''legacy_unknown''
          else if ie_fingerprint e \<noteq> Some fingerprint then Conflict (the (ie_fingerprint e))
          else if ie_status e = Some Pending then SPending
          else case ie_response e of Some r \<Rightarrow> Replay r | None \<Rightarrow> SPending)"

definition checkSemantic :: "runtime_config \<Rightarrow> int \<Rightarrow> string \<Rightarrow> string \<Rightarrow> replay_store \<Rightarrow> replay_store \<times> semantic_result" where
  "checkSemantic cfg now requestId fingerprint s =
     (let s = prune cfg now s in (s, semantic_of requestId fingerprint (sd_idempotency (rs_data s))))"

text \<open>The thrown error carries the state that was found; the pruning of the check stays.\<close>

definition reserveSemantic ::
  "runtime_config \<Rightarrow> int \<Rightarrow> string \<Rightarrow> string \<Rightarrow> string \<Rightarrow> replay_store \<Rightarrow> replay_store \<times> (semantic_result, unit) result" where
  "reserveSemantic cfg now requestId fingerprint requestHash s =
     (case checkSemantic cfg now requestId fingerprint s of
        (s, Miss) \<Rightarrow>
          let d = rs_data s;
              e = \<lparr>ie_requestHash = requestHash, ie_requestId = Some requestId, ie_fingerprint = Some fingerprint,
                   ie_status = Some Pending, ie_response = None, ie_storedAt = now\<rparr>
          in (s\<lparr>rs_data := d\<lparr>sd_idempotency := sd_idempotency d @ [e]\<rparr>, rs_dirty := True\<rparr>, Inr ())
      | (s, other) \<Rightarrow> (s, Inl other))"

fun replace_first :: "('a \<Rightarrow> bool) \<Rightarrow> 'a \<Rightarrow> 'a list \<Rightarrow> 'a list" where
  "replace_first P y [] = [y]"
| "replace_first P y (x # xs) = (if P x then y # xs else x # replace_first P y xs)"

definition storeIdempotentResponse ::
  "runtime_config \<Rightarrow> int \<Rightarrow> string \<Rightarrow> json \<Rightarrow> string option \<Rightarrow> string option \<Rightarrow> replay_store \<Rightarrow> replay_store" where
  "storeIdempotentResponse cfg now hash response requestId fingerprint s =
     (let s = prune cfg now s; d = rs_data s;
          entry = \<lparr>ie_requestHash = hash, ie_requestId = (if truthy requestId then requestId else None),
                   ie_fingerprint = (if truthy fingerprint then fingerprint else None),
                   ie_status = Some Completed, ie_response = Some response, ie_storedAt = now\<rparr>;
          same = (\<lambda>e. if truthy requestId then ie_requestId e = requestId else ie_requestHash e = hash)
      in s\<lparr>rs_data := d\<lparr>sd_idempotency := replace_first same entry (sd_idempotency d)\<rparr>, rs_dirty := True\<rparr>)"

text \<open>Everything that can happen to the store, with the time it happens: what the runtime calls,
  and the process being restarted on the file.\<close>

datatype store_op =
    CommitNonce int string
  | GetResponse int string
  | CheckSemantic int string string
  | ReserveSemantic int string string string
  | StoreResponse int string json "string option" "string option"
  | Persist io_fault
  | Restart

primrec op_time :: "store_op \<Rightarrow> int option" where
  "op_time (CommitNonce t _) = Some t"
| "op_time (GetResponse t _) = Some t"
| "op_time (CheckSemantic t _ _) = Some t"
| "op_time (ReserveSemantic t _ _ _) = Some t"
| "op_time (StoreResponse t _ _ _ _) = Some t"
| "op_time (Persist _) = None"
| "op_time Restart = None"

primrec apply_op :: "runtime_config \<Rightarrow> store_op \<Rightarrow> replay_store \<Rightarrow> replay_store" where
  "apply_op cfg (CommitNonce t n) s = fst (tryCommitNonce cfg t n s)"
| "apply_op cfg (GetResponse t h) s = fst (getIdempotentResponse cfg t h s)"
| "apply_op cfg (CheckSemantic t i f) s = fst (checkSemantic cfg t i f s)"
| "apply_op cfg (ReserveSemantic t i f h) s = fst (reserveSemantic cfg t i f h s)"
| "apply_op cfg (StoreResponse t h r i f) s = storeIdempotentResponse cfg t h r i f s"
| "apply_op cfg (Persist flt) s = fst (persist flt s)"
| "apply_op cfg Restart s = new_store (rs_file s)"

definition apply_ops :: "runtime_config \<Rightarrow> store_op list \<Rightarrow> replay_store \<Rightarrow> replay_store" where
  "apply_ops cfg ops s = fold (apply_op cfg) ops s"

subsection \<open>What each operation does to the lists\<close>

lemma prune_nonces [simp]:
  "sd_nonces (rs_data (prune cfg now s)) = filter (\<lambda>n. now - ne_seenAt n < cfg_nonceRetentionMs cfg) (sd_nonces (rs_data s))"
  by (simp add: prune_def Let_def)

lemma prune_entries [simp]:
  "sd_idempotency (rs_data (prune cfg now s)) =
     filter (\<lambda>e. now - ie_storedAt e < cfg_idempotencyRetentionMs cfg) (sd_idempotency (rs_data s))"
  by (simp add: prune_def Let_def)

lemma prune_file [simp]: "rs_file (prune cfg now s) = rs_file s"
  by (simp add: prune_def Let_def)

lemma tryCommitNonce_entries:
  "sd_idempotency (rs_data (fst (tryCommitNonce cfg now n s))) = sd_idempotency (rs_data (prune cfg now s))"
  by (simp add: tryCommitNonce_def Let_def)

lemma apply_op_file:
  "rs_file (apply_op cfg op s) = rs_file s \<or>
   rs_file (apply_op cfg op s) = Parsed (Some (sd_nonces (rs_data s))) (Some (sd_idempotency (rs_data s)))"
  by (cases op)
    (auto simp: tryCommitNonce_def getIdempotentResponse_def checkSemantic_def reserveSemantic_def
      storeIdempotentResponse_def persist_def new_store_def Let_def split: semantic_result.splits io_fault.splits prod.splits)

lemma apply_op_nonces:
  "sd_nonces (rs_data (apply_op cfg op s)) =
     (case op of
        CommitNonce t n \<Rightarrow> sd_nonces (rs_data (prune cfg t s)) @
          (if list_ex (\<lambda>m. ne_nonce m = n) (sd_nonces (rs_data (prune cfg t s))) then [] else [\<lparr>ne_nonce = n, ne_seenAt = t\<rparr>])
      | Persist _ \<Rightarrow> sd_nonces (rs_data s)
      | Restart \<Rightarrow> sd_nonces (load (rs_file s))
      | _ \<Rightarrow> sd_nonces (rs_data (prune cfg (the (op_time op)) s)))"
  by (cases op)
    (auto simp: tryCommitNonce_def getIdempotentResponse_def checkSemantic_def reserveSemantic_def
      storeIdempotentResponse_def persist_def new_store_def Let_def list_ex_iff
      split: semantic_result.splits io_fault.splits)

text \<open>Whether an operation at its time keeps an entry of the given age limit.\<close>

definition before :: "int \<Rightarrow> store_op \<Rightarrow> bool" where
  "before deadline op = (case op_time op of None \<Rightarrow> True | Some t \<Rightarrow> t < deadline)"

text \<open>A nonce is remembered in memory and on disk.\<close>

definition remembered :: "nonce_entry \<Rightarrow> replay_store \<Rightarrow> bool" where
  "remembered e s \<longleftrightarrow> e \<in> set (sd_nonces (rs_data s)) \<and> e \<in> set (sd_nonces (load (rs_file s)))"

lemma load_written [simp]:
  "load (Parsed (Some (sd_nonces d)) (Some (sd_idempotency d))) = d"
  by (simp add: load_def nullish_def)

lemma remembered_apply_op:
  assumes "remembered e s" "before (ne_seenAt e + cfg_nonceRetentionMs cfg) op"
  shows "remembered e (apply_op cfg op s)"
proof -
  have "e \<in> set (sd_nonces (rs_data (apply_op cfg op s)))"
    using assms by (cases op) (auto simp: remembered_def before_def apply_op_nonces simp del: apply_op.simps)
  moreover have "e \<in> set (sd_nonces (load (rs_file (apply_op cfg op s))))"
    using assms apply_op_file [of cfg op s] by (auto simp: remembered_def)
  ultimately show ?thesis by (simp add: remembered_def)
qed

lemma remembered_apply_ops:
  "remembered e s \<Longrightarrow> list_all (before (ne_seenAt e + cfg_nonceRetentionMs cfg)) ops \<Longrightarrow>
     remembered e (apply_ops cfg ops s)"
  unfolding apply_ops_def
  by (induction ops arbitrary: s) (auto simp: remembered_apply_op)

lemma remembered_rejects:
  assumes "remembered e s" "now < ne_seenAt e + cfg_nonceRetentionMs cfg"
  shows "snd (tryCommitNonce cfg now (ne_nonce e) s) = False"
  using assms by (force simp: remembered_def tryCommitNonce_def Let_def list_ex_iff)

subsection \<open>Request identifiers stay bound to their fingerprint\<close>

definition first_entry :: "string \<Rightarrow> idempotency_entry list \<Rightarrow> idempotency_entry option" where
  "first_entry i es = find (\<lambda>e. ie_requestId e = Some i) es"

definition bound_in :: "int \<Rightarrow> string \<Rightarrow> string \<Rightarrow> idempotency_entry list \<Rightarrow> bool" where
  "bound_in t\<^sub>0 i fp es =
     (case first_entry i es of None \<Rightarrow> False | Some e \<Rightarrow> ie_fingerprint e = Some fp \<and> t\<^sub>0 \<le> ie_storedAt e)"

definition bound_id :: "int \<Rightarrow> string \<Rightarrow> string \<Rightarrow> replay_store \<Rightarrow> bool" where
  "bound_id t\<^sub>0 i fp s \<longleftrightarrow>
     bound_in t\<^sub>0 i fp (sd_idempotency (rs_data s)) \<and> bound_in t\<^sub>0 i fp (sd_idempotency (load (rs_file s)))"

text \<open>The registry stores a response under the identifier and fingerprint of the request it
  answers, never without an identifier.\<close>

definition answers :: "int \<Rightarrow> string \<Rightarrow> string \<Rightarrow> store_op \<Rightarrow> bool" where
  "answers t\<^sub>0 i fp op = (case op of
     StoreResponse t h r rid f \<Rightarrow> truthy rid \<and> (rid = Some i \<longrightarrow> f = Some fp) \<and> t\<^sub>0 \<le> t
   | _ \<Rightarrow> True)"

lemma bound_in_filter:
  assumes "bound_in t\<^sub>0 i fp es" "\<And>e. t\<^sub>0 \<le> ie_storedAt e \<Longrightarrow> P e"
  shows "bound_in t\<^sub>0 i fp (filter P es)"
proof -
  have "first_entry i es = Some e \<Longrightarrow> P e \<Longrightarrow> first_entry i (filter P es) = Some e" for e
    unfolding first_entry_def by (induction es) (auto split: if_splits)
  then show ?thesis using assms by (auto simp: bound_in_def split: option.splits)
qed

lemma bound_in_append: "bound_in t\<^sub>0 i fp es \<Longrightarrow> bound_in t\<^sub>0 i fp (es @ es')"
  by (auto simp: bound_in_def first_entry_def find_append_Some split: option.splits)

lemma first_entry_replace_other:
  assumes "rid \<noteq> Some i" "ie_requestId y = rid"
  shows "first_entry i (replace_first (\<lambda>e. ie_requestId e = rid) y es) = first_entry i es"
  using assms unfolding first_entry_def by (induction es) auto

lemma first_entry_replace_same:
  assumes "ie_requestId y = Some i"
  shows "first_entry i (replace_first (\<lambda>e. ie_requestId e = Some i) y es) = Some y"
  using assms unfolding first_entry_def by (induction es) auto

lemma bound_in_apply_op:
  assumes "bound_id t\<^sub>0 i fp s" "before (t\<^sub>0 + cfg_idempotencyRetentionMs cfg) op" "answers t\<^sub>0 i fp op" "fp \<noteq> []"
  shows "bound_in t\<^sub>0 i fp (sd_idempotency (rs_data (apply_op cfg op s)))"
proof -
  let ?es = "\<lambda>t. filter (\<lambda>e. t - ie_storedAt e < cfg_idempotencyRetentionMs cfg) (sd_idempotency (rs_data s))"
  have kept: "bound_in t\<^sub>0 i fp (?es t)" if "op_time op = Some t" for t
    using assms(1,2) that by (intro bound_in_filter) (auto simp: bound_id_def before_def)
  show ?thesis
  proof (cases op)
    case (ReserveSemantic t j f h)
    then show ?thesis using kept
      by (auto simp: reserveSemantic_def checkSemantic_def Let_def bound_in_append split: semantic_result.splits)
  next
    case (StoreResponse t h r rid f)
    with assms(3) have rid: "truthy rid" "rid = Some i \<Longrightarrow> f = Some fp" "t\<^sub>0 \<le> t" by (auto simp: answers_def)
    show ?thesis
    proof (cases "rid = Some i")
      case True
      with StoreResponse rid assms(4) show ?thesis
        by (simp add: storeIdempotentResponse_def Let_def bound_in_def first_entry_replace_same)
    next
      case False
      with StoreResponse rid kept show ?thesis
        by (simp add: storeIdempotentResponse_def Let_def bound_in_def first_entry_replace_other)
    qed
  qed (use assms kept in \<open>auto simp: bound_id_def tryCommitNonce_def getIdempotentResponse_def checkSemantic_def
      persist_def new_store_def Let_def split: io_fault.splits\<close>)
qed

lemma bound_id_apply_ops:
  assumes "bound_id t\<^sub>0 i fp s" "fp \<noteq> []"
    and "list_all (\<lambda>op. before (t\<^sub>0 + cfg_idempotencyRetentionMs cfg) op \<and> answers t\<^sub>0 i fp op) ops"
  shows "bound_id t\<^sub>0 i fp (apply_ops cfg ops s)"
  using assms(1,3) unfolding apply_ops_def
proof (induction ops arbitrary: s)
  case Nil
  then show ?case by simp
next
  case (Cons op ops)
  then have "bound_in t\<^sub>0 i fp (sd_idempotency (rs_data (apply_op cfg op s)))"
    by (intro bound_in_apply_op [OF _ _ _ assms(2)]) simp_all
  with Cons.prems apply_op_file [of cfg op s] have "bound_id t\<^sub>0 i fp (apply_op cfg op s)"
    by (elim disjE) (simp_all add: bound_id_def)
  with Cons show ?case by simp
qed

lemma bound_id_semantic:
  assumes "bound_id t\<^sub>0 i fp s" "now < t\<^sub>0 + cfg_idempotencyRetentionMs cfg" "fp \<noteq> []"
  shows "snd (checkSemantic cfg now i fp' s) \<noteq> Miss"
    and "fp' \<noteq> fp \<Longrightarrow> snd (checkSemantic cfg now i fp' s) = Conflict fp"
proof -
  have "bound_in t\<^sub>0 i fp (sd_idempotency (rs_data (prune cfg now s)))"
    using assms by (auto simp: bound_id_def intro!: bound_in_filter)
  then obtain e where "find (\<lambda>e. ie_requestId e = Some i) (sd_idempotency (rs_data (prune cfg now s))) = Some e"
    "ie_fingerprint e = Some fp"
    by (auto simp: bound_in_def first_entry_def split: option.splits)
  then show "snd (checkSemantic cfg now i fp' s) \<noteq> Miss"
    and "fp' \<noteq> fp \<Longrightarrow> snd (checkSemantic cfg now i fp' s) = Conflict fp"
    using assms(3) by (auto simp: checkSemantic_def semantic_of_def Let_def split: option.splits)
qed

subsection \<open>Durability\<close>

text \<open>A clean store agrees with its file.\<close>

definition synced :: "replay_store \<Rightarrow> bool" where
  "synced s \<longleftrightarrow> (\<not> rs_dirty s \<longrightarrow> load (rs_file s) = rs_data s)"

lemma synced_prune: "synced s \<Longrightarrow> synced (prune cfg now s)"
proof -
  assume s: "synced s"
  show ?thesis
  proof (cases "rs_dirty (prune cfg now s)")
    case True
    then show ?thesis by (simp add: synced_def)
  next
    case False
    then have clean: "\<not> rs_dirty s"
      and "length (filter (\<lambda>n. now - ne_seenAt n < cfg_nonceRetentionMs cfg) (sd_nonces (rs_data s))) = length (sd_nonces (rs_data s))"
      and "length (filter (\<lambda>e. now - ie_storedAt e < cfg_idempotencyRetentionMs cfg) (sd_idempotency (rs_data s))) = length (sd_idempotency (rs_data s))"
      by (simp_all add: prune_def Let_def)
    then have "rs_data (prune cfg now s) = rs_data s"
      by (simp add: prune_def Let_def filter_same_length)
    with s clean show ?thesis by (simp add: synced_def)
  qed
qed

lemma synced_apply_op:
  assumes "synced s"
  shows "synced (apply_op cfg op s)"
proof (cases op)
  case (ReserveSemantic t i f h)
  with synced_prune [OF assms, of cfg t] show ?thesis
    by (auto simp: reserveSemantic_def checkSemantic_def Let_def synced_def split: semantic_result.splits)
next
  case (CommitNonce t n)
  with synced_prune [OF assms, of cfg t] show ?thesis by (auto simp: tryCommitNonce_def Let_def synced_def)
next
  case (Persist fault)
  with assms show ?thesis by (cases fault) (auto simp: persist_def synced_def Let_def)
qed (use assms in \<open>simp_all add: getIdempotentResponse_def checkSemantic_def storeIdempotentResponse_def new_store_def
    synced_prune Let_def\<close>, simp_all add: synced_def)

interpretation rstore: inv_system "\<lambda>op s. Inr (apply_op cfg op s, ()) :: (unit, replay_store \<times> unit) result" synced for cfg
  by unfold_locales (auto simp: synced_apply_op)

lemma run_ops_apply_ops: "run_ops (\<lambda>op s. Inr (apply_op cfg op s, ())) ops s = apply_ops cfg ops s"
  unfolding apply_ops_def by (induction ops arbitrary: s) auto

lemma synced_apply_ops: "synced s \<Longrightarrow> synced (apply_ops cfg ops s)"
  using rstore.run_inv [of s cfg ops] by (simp add: run_ops_apply_ops)

lemma persist_NoFault_file: "synced s \<Longrightarrow> load (rs_file (fst (persist NoFault s))) = rs_data s"
  by (auto simp: persist_def synced_def Let_def)

text \<open>
  C23. Nothing the store knows is lost by a restart: after any sequence of operations (other
  restarts and failed writes included) a successful \<open>persist\<close> followed by a restart gives
  back exactly the nonces and idempotency entries held in memory; and at every moment the
  file holds either its previous content or exactly the content in memory.
\<close>

theorem replay_store_durable:
  "let s = apply_ops cfg ops (new_store f)
   in rs_data (new_store (rs_file (fst (persist NoFault s)))) = rs_data s
      \<and> load (rs_file (fst (persist fault s))) \<in> {load (rs_file s), rs_data s}"
proof -
  let ?s = "apply_ops cfg ops (new_store f)"
  have "synced ?s" by (rule synced_apply_ops) (simp add: synced_def new_store_def)
  then have "rs_data (new_store (rs_file (fst (persist NoFault ?s)))) = rs_data ?s"
    by (simp add: new_store_def persist_NoFault_file)
  moreover have "load (rs_file (fst (persist fault ?s))) \<in> {load (rs_file ?s), rs_data ?s}"
    by (auto simp: persist_def Let_def split: io_fault.splits)
  ultimately show ?thesis by (simp add: Let_def)
qed

end
