(* ===== verification/Js_Date.thy ===== *)
theory Js_Date
  imports Prelude
begin

section \<open>Time values and canonical ISO-8601 timestamps\<close>

text \<open>
  The part of JavaScript's \<open>Date\<close> the ledgers use: a time value is a number of
  milliseconds since the epoch, \<open>to_iso\<close> is \<open>toISOString\<close> and \<open>iso_parse\<close> is
  \<open>new Date(s)\<close> on strings of the form that \<open>toISOString\<close> prints. The source accepts a
  timestamp when \<open>new Date(s).toISOString() === s\<close>; a string of another form can never
  satisfy that, so \<open>canonical_timestamp\<close> decides the source's check.
\<close>

text \<open>The proleptic Gregorian calendar, days counted from 1970-01-01, years from 1 March.\<close>

definition days_from_civil :: "int \<Rightarrow> int \<Rightarrow> int \<Rightarrow> int" where
  "days_from_civil y m d =
     (let y' = (if m \<le> 2 then y - 1 else y);
          era = y' div 400;
          yoe = y' mod 400;
          doy = (153 * (if m > 2 then m - 3 else m + 9) + 2) div 5 + d - 1;
          doe = yoe * 365 + yoe div 4 - yoe div 100 + doy
      in era * 146097 + doe - 719468)"

definition civil_from_days :: "int \<Rightarrow> int \<times> int \<times> int" where
  "civil_from_days z =
     (let z' = z + 719468;
          era = z' div 146097;
          doe = z' mod 146097;
          c = min 3 (doe div 36524);
          q = min 24 ((doe - c * 36524) div 1461);
          a = min 3 ((doe - c * 36524 - q * 1461) div 365);
          yoe = 100 * c + 4 * q + a;
          doy = doe - c * 36524 - q * 1461 - a * 365;
          mp = (5 * doy + 2) div 153;
          d = doy - (153 * mp + 2) div 5 + 1;
          m = (if mp < 10 then mp + 3 else mp - 9)
      in (yoe + era * 400 + (if m \<le> 2 then 1 else 0), m, d))"

text \<open>Years 0 to 9999 take four digits, all others a sign and six.\<close>

definition pad :: "nat \<Rightarrow> nat \<Rightarrow> string" where
  "pad w n = (let s = nat_str n in replicate (w - length s) (CHR ''0'') @ s)"

definition year_str :: "int \<Rightarrow> string" where
  "year_str y = (if 0 \<le> y \<and> y \<le> 9999 then pad 4 (nat y)
     else if y < 0 then CHR ''-'' # pad 6 (nat (- y)) else CHR ''+'' # pad 6 (nat y))"

definition max_time :: int where "max_time = 8640000000000000"

definition to_iso :: "int \<Rightarrow> string" where
  "to_iso t =
     (let (y, m, d) = civil_from_days (t div 86400000); r = t mod 86400000
      in year_str y @ ''-'' @ pad 2 (nat m) @ ''-'' @ pad 2 (nat d) @ ''T''
         @ pad 2 (nat (r div 3600000)) @ '':'' @ pad 2 (nat (r div 60000 mod 60)) @ '':''
         @ pad 2 (nat (r div 1000 mod 60)) @ ''.'' @ pad 3 (nat (r mod 1000)) @ ''Z'')"

text \<open>A field of \<open>w\<close> decimal digits in front of \<open>rest\<close>, followed by the separator \<open>sep\<close>.\<close>

definition take_field :: "nat \<Rightarrow> char \<Rightarrow> string \<Rightarrow> (int \<times> string) option" where
  "take_field w sep s =
     (let f = take w s; r = drop w s
      in if length f = w \<and> list_all is_digit f \<and> r \<noteq> [] \<and> hd r = sep
         then Some (int (digits_val f), tl r) else None)"

definition parse_tail :: "int \<Rightarrow> string \<Rightarrow> int option" where
  "parse_tail y s =
     Option.bind (take_field 2 (CHR ''-'') s) (\<lambda>(mo, s).
     Option.bind (take_field 2 (CHR ''T'') s) (\<lambda>(d, s).
     Option.bind (take_field 2 (CHR '':'') s) (\<lambda>(h, s).
     Option.bind (take_field 2 (CHR '':'') s) (\<lambda>(mi, s).
     Option.bind (take_field 2 (CHR ''.'') s) (\<lambda>(sec, s).
     Option.bind (take_field 3 (CHR ''Z'') s) (\<lambda>(ms, s).
       let t = days_from_civil y mo d * 86400000 + h * 3600000 + mi * 60000 + sec * 1000 + ms
       in if s = [] \<and> 1 \<le> mo \<and> mo \<le> 12 \<and> 1 \<le> d \<and> d \<le> 31 \<and> h \<le> 23 \<and> mi \<le> 59 \<and> sec \<le> 59
             \<and> \<bar>t\<bar> \<le> max_time
          then Some t else None))))))"

definition iso_parse :: "string \<Rightarrow> int option" where
  "iso_parse s =
     (if s \<noteq> [] \<and> hd s = CHR ''+'' then
        Option.bind (take_field 6 (CHR ''-'') (tl s)) (\<lambda>(y, r). parse_tail y r)
      else if s \<noteq> [] \<and> hd s = CHR ''-'' then
        Option.bind (take_field 6 (CHR ''-'') (tl s)) (\<lambda>(y, r). parse_tail (- y) r)
      else Option.bind (take_field 4 (CHR ''-'') s) (\<lambda>(y, r). parse_tail y r))"

definition canonical_timestamp :: "string \<Rightarrow> bool" where
  "canonical_timestamp s = (case iso_parse s of None \<Rightarrow> False | Some t \<Rightarrow> to_iso t = s)"

definition time_of :: "string \<Rightarrow> int" where
  "time_of s = (case iso_parse s of None \<Rightarrow> 0 | Some t \<Rightarrow> t)"

subsection \<open>The calendar round trip\<close>

lemma min_div_split:
  fixes x k n :: int
  assumes "0 \<le> x" "0 < k" "0 \<le> n"
  defines "q \<equiv> min n (x div k)"
  shows "0 \<le> q" "q \<le> n" "0 \<le> x - q * k" "q < n \<longrightarrow> x - q * k < k"
proof -
  have "x div k * k + x mod k = x" "0 \<le> x mod k" "x mod k < k" using assms(2) by simp_all
  moreover have "(x div k + 1) * k = x div k * k + k" by (simp add: distrib_right)
  ultimately have le: "x div k * k \<le> x" and lt: "x < (x div k + 1) * k" by linarith+
  show "0 \<le> q" "q \<le> n" using assms by (auto simp: q_def pos_imp_zdiv_nonneg_iff)
  have "q * k \<le> x div k * k" using assms(2) by (simp add: q_def)
  with le show "0 \<le> x - q * k" by simp
  show "q < n \<longrightarrow> x - q * k < k" using lt by (auto simp: q_def min_def algebra_simps)
qed

lemma div_bounds: "0 < k \<Longrightarrow> k * (x div k) \<le> (x :: int) \<and> x < k * (x div k) + k"
  using mult_div_mod_eq [of k x] pos_mod_bound [of k x] pos_mod_sign [of k x] by linarith

lemma civil_from_days_props:
  assumes "civil_from_days z = (y\<^sub>0, m\<^sub>0, d\<^sub>0)"
  shows "days_from_civil y\<^sub>0 m\<^sub>0 d\<^sub>0 = z" "1 \<le> m\<^sub>0 \<and> m\<^sub>0 \<le> 12" "1 \<le> d\<^sub>0 \<and> d\<^sub>0 \<le> 31"
    "(z + 719468) div 146097 * 400 \<le> y\<^sub>0 \<and> y\<^sub>0 \<le> (z + 719468) div 146097 * 400 + 400"
proof -
  define z' era doe where "z' = z + 719468" and "era = z' div 146097" and "doe = z' mod 146097"
  define c where "c = min 3 (doe div 36524)"
  define q where "q = min 24 ((doe - c * 36524) div 1461)"
  define a where "a = min 3 ((doe - c * 36524 - q * 1461) div 365)"
  define doy where "doy = doe - c * 36524 - q * 1461 - a * 365"
  define mp where "mp = (5 * doy + 2) div 153"
  define yoe where "yoe = 100 * c + 4 * q + a"
  have doe: "0 \<le> doe" "doe < 146097" and z: "z = era * 146097 + doe - 719468"
    by (simp_all add: doe_def era_def z'_def)
  note C = min_div_split [OF doe(1), of 36524 3, folded c_def, simplified]
  note Q = min_div_split [of "doe - c * 36524" 1461 24, folded q_def, simplified, OF C(3) [simplified]]
  note A = min_div_split [of "doe - c * 36524 - q * 1461" 365 3, folded a_def, simplified]
  have r1: "doe - c * 36524 \<le> 36524" using C doe(2) by linarith
  have r2: "0 \<le> doe - c * 36524 - q * 1461" "doe - c * 36524 - q * 1461 \<le> 1460"
    using Q r1 by linarith+
  have a: "0 \<le> a" "a \<le> 3" "0 \<le> doy" "doy \<le> 365"
    using A r2 by (auto simp: doy_def)
  have mp: "0 \<le> mp" "mp \<le> 11" using a by (simp_all add: mp_def)
  have "0 \<le> yoe" "yoe \<le> 399" using C(1,2) Q(1,2) a(1,2) by (simp_all add: yoe_def)
  moreover have "yoe div 4 = 25 * c + q"
    by (rule int_div_pos_eq [where r = a]) (use a in \<open>simp_all add: yoe_def\<close>)
  moreover have "yoe div 100 = c"
    by (rule int_div_pos_eq [where r = "4 * q + a"]) (use Q(1,2) a in \<open>simp_all add: yoe_def\<close>)
  ultimately have yoe: "0 \<le> yoe" "yoe \<le> 399" "yoe div 4 = 25 * c + q" "yoe div 100 = c" by blast+
  have doe_eq: "yoe * 365 + yoe div 4 - yoe div 100 + doy = doe"
    unfolding yoe(3,4) by (simp add: yoe_def doy_def)
  define m where "m = (if mp < 10 then mp + 3 else mp - 9)"
  define d where "d = doy - (153 * mp + 2) div 5 + 1"
  define y where "y = yoe + era * 400 + (if m \<le> 2 then 1 else 0)"
  have civil: "civil_from_days z = (y, m, d)"
    unfolding civil_from_days_def Let_def
    by (fold z'_def, fold era_def doe_def, fold c_def, fold q_def, fold a_def, fold yoe_def doy_def,
        fold mp_def, fold m_def d_def, fold y_def, rule refl)
  have mback: "(if m > 2 then m - 3 else m + 9) = mp" using mp by (auto simp: m_def)
  have "(if m \<le> 2 then y - 1 else y) = yoe + era * 400" by (simp add: y_def)
  then have "days_from_civil y m d = era * 146097 + doe - 719468"
    using yoe(1,2) doe_eq mback by (simp add: days_from_civil_def Let_def d_def)
  with civil z assms show "days_from_civil y\<^sub>0 m\<^sub>0 d\<^sub>0 = z" by simp
  show "1 \<le> m\<^sub>0 \<and> m\<^sub>0 \<le> 12" using civil assms mp by (auto simp: m_def)
  have "(153 * mp + 2) div 5 \<le> doy" "doy \<le> (153 * mp + 2) div 5 + 30"
    using div_bounds [of 153 "5 * doy + 2", folded mp_def] div_bounds [of 5 "153 * mp + 2"] by linarith+
  then show "1 \<le> d\<^sub>0 \<and> d\<^sub>0 \<le> 31" using civil assms by (auto simp: d_def)
  show "(z + 719468) div 146097 * 400 \<le> y\<^sub>0 \<and> y\<^sub>0 \<le> (z + 719468) div 146097 * 400 + 400"
    using civil assms yoe(1,2) by (auto simp: y_def era_def z'_def)
qed

subsection \<open>Printing and parsing\<close>

lemma nat_str_length: "n < 10 ^ w \<Longrightarrow> 0 < w \<Longrightarrow> length (nat_str n) \<le> w"
proof (induction w arbitrary: n)
  case 0
  then show ?case by simp
next
  case (Suc w)
  show ?case
  proof (cases "n < 10")
    case True
    then show ?thesis by (simp add: nat_str.simps [of n])
  next
    case False
    then have "0 < w" using Suc.prems by (cases w) auto
    moreover have "n div 10 < 10 ^ w" using Suc.prems by (simp add: less_mult_imp_div_less mult.commute)
    ultimately show ?thesis using Suc.IH False by (simp add: nat_str.simps [of n])
  qed
qed

lemma digits_val_zeros: "digits_val (replicate k (CHR ''0'') @ s) = digits_val s"
  by (induction k) (simp_all add: digits_val_def digit_val_def code_def)

lemma pad_props:
  assumes "n < 10 ^ w" "0 < w"
  shows "length (pad w n) = w" "list_all is_digit (pad w n)" "digits_val (pad w n) = n"
  using nat_str_length [OF assms] nat_str_digits [of n]
  by (auto simp: pad_def Let_def digits_val_zeros list_all_iff is_digit_def between_def code_def)

lemma take_field_pad:
  "n < 10 ^ w \<Longrightarrow> 0 < w \<Longrightarrow> take_field w sep (pad w n @ sep # r) = Some (int n, r)"
  using pad_props [of n w] by (simp add: take_field_def Let_def)

lemma pad_hd: "n < 10 ^ w \<Longrightarrow> 0 < w \<Longrightarrow> \<exists>c cs. pad w n = c # cs \<and> c \<noteq> CHR ''+'' \<and> c \<noteq> CHR ''-''"
  using pad_props [of n w] by (cases "pad w n") (auto simp: is_digit_def between_def code_def)

lemma parse_tail_fields:
  assumes "1 \<le> mo" "mo \<le> 12" "1 \<le> d" "d \<le> 31" "h \<le> 23" "mi \<le> 59" "sec \<le> 59" "ms < 1000"
    and "t = days_from_civil y (int mo) (int d) * 86400000 + int h * 3600000 + int mi * 60000 + int sec * 1000 + int ms"
    and "\<bar>t\<bar> \<le> max_time"
  shows "parse_tail y (pad 2 mo @ ''-'' @ pad 2 d @ ''T'' @ pad 2 h @ '':'' @ pad 2 mi @ '':''
         @ pad 2 sec @ ''.'' @ pad 3 ms @ ''Z'') = Some t"
  using assms by (simp add: parse_tail_def take_field_pad)

lemma parse_tail_to_iso:
  assumes "0 \<le> r" "r < 86400000" "1 \<le> m" "m \<le> 12" "1 \<le> d" "d \<le> 31"
    and "\<bar>days_from_civil y m d * 86400000 + r\<bar> \<le> max_time"
  shows "parse_tail y (pad 2 (nat m) @ ''-'' @ pad 2 (nat d) @ ''T''
         @ pad 2 (nat (r div 3600000)) @ '':'' @ pad 2 (nat (r div 60000 mod 60)) @ '':''
         @ pad 2 (nat (r div 1000 mod 60)) @ ''.'' @ pad 3 (nat (r mod 1000)) @ ''Z'')
     = Some (days_from_civil y m d * 86400000 + r)"
proof -
  define h mi sec ms where "h = r div 3600000" and "mi = r div 60000 mod 60"
    and "sec = r div 1000 mod 60" and "ms = r mod 1000"
  have "r div 3600000 = r div 60000 div 60" "r div 60000 = r div 1000 div 60"
    by (simp_all add: zdiv_zmult2_eq [symmetric])
  then have hms: "h * 3600000 + mi * 60000 + sec * 1000 + ms = r"
    using mult_div_mod_eq [of 60 "r div 60000"] mult_div_mod_eq [of 60 "r div 1000"]
      mult_div_mod_eq [of 1000 r] unfolding h_def mi_def sec_def ms_def by linarith
  have "0 \<le> h" "h \<le> 23" "0 \<le> mi" "mi \<le> 59" "0 \<le> sec" "sec \<le> 59" "0 \<le> ms" "ms < 1000"
    using assms(1,2) div_bounds [of 3600000 r] pos_mod_bound [of 60 "r div 60000"] pos_mod_bound [of 60 "r div 1000"]
      pos_mod_sign [of 60 "r div 60000"] pos_mod_sign [of 60 "r div 1000"] pos_mod_bound [of 1000 r] pos_mod_sign [of 1000 r]
    unfolding h_def mi_def sec_def ms_def by linarith+
  then show ?thesis
    unfolding h_def [symmetric] mi_def [symmetric] sec_def [symmetric] ms_def [symmetric]
    using assms(3-7) hms by (intro parse_tail_fields) (simp_all add: nat_le_iff nat_less_iff le_nat_iff)
qed

text \<open>Every time value in JavaScript's range prints as a canonical timestamp that parses back
  to itself.\<close>

lemma iso_parse_to_iso:
  assumes "\<bar>t\<bar> \<le> max_time"
  shows "iso_parse (to_iso t) = Some t"
proof -
  obtain y m d where ymd: "civil_from_days (t div 86400000) = (y, m, d)" by (metis prod_cases3)
  note P = civil_from_days_props [OF ymd]
  have t: "days_from_civil y m d * 86400000 + t mod 86400000 = t" using P(1) by simp
  have tail: "parse_tail y' (pad 2 (nat m) @ ''-'' @ pad 2 (nat d) @ ''T''
         @ pad 2 (nat (t mod 86400000 div 3600000)) @ '':'' @ pad 2 (nat (t mod 86400000 div 60000 mod 60)) @ '':''
         @ pad 2 (nat (t mod 86400000 div 1000 mod 60)) @ ''.'' @ pad 3 (nat (t mod 86400000 mod 1000)) @ ''Z'') = Some t"
    if "y' = y" for y'
    unfolding that using P assms
    by (intro parse_tail_to_iso [of "t mod 86400000" m d y, unfolded t]) simp_all
  have y: "- 1000000 < y" "y < 1000000" using P(4) assms by (auto simp: max_time_def)
  consider "0 \<le> y" "y \<le> 9999" | "y < 0" | "y > 9999" by linarith
  then show ?thesis
  proof cases
    case 1
    then obtain c cs where "pad 4 (nat y) = c # cs" "c \<noteq> CHR ''+''" "c \<noteq> CHR ''-''" using pad_hd [of "nat y" 4] by (auto simp: nat_less_iff)
    with 1 take_field_pad [of "nat y" 4 "CHR ''-''"] tail show ?thesis
      by (simp add: to_iso_def ymd year_str_def iso_parse_def Let_def)
  next
    case 2
    with y take_field_pad [of "nat (- y)" 6 "CHR ''-''"] tail show ?thesis
      by (simp add: to_iso_def ymd year_str_def iso_parse_def Let_def)
  next
    case 3
    with y take_field_pad [of "nat y" 6 "CHR ''-''"] tail show ?thesis
      by (simp add: to_iso_def ymd year_str_def iso_parse_def Let_def)
  qed
qed

lemma canonical_timestamp_to_iso: "\<bar>t\<bar> \<le> max_time \<Longrightarrow> canonical_timestamp (to_iso t)"
  by (simp add: canonical_timestamp_def iso_parse_to_iso)

lemma canonical_timestamp_iff:
  "canonical_timestamp s \<longleftrightarrow> (\<exists>t. iso_parse s = Some t \<and> s = to_iso t)"
  by (auto simp: canonical_timestamp_def split: option.splits)

end
