(* ===== verification/Auth.thy ===== *)
theory Auth
  imports Replay_Store Js_Date
begin

section \<open>Request authentication\<close>

text \<open>
  Models \<^verbatim>\<open>src/src/auth/principal.ts\<close>, \<^verbatim>\<open>src/src/auth/errors.ts\<close>, \<^verbatim>\<open>src/src/auth/authenticator.ts\<close>,
  the request documents of \<^verbatim>\<open>src/src/crypto/canonical.ts\<close> and \<open>verifyAuthority\<close> of
  \<^verbatim>\<open>src/src/crypto/signing.ts\<close>. A request has the declared type \<open>RequestPayload\<close>, its
  authority the declared type \<open>AuthorityEnvelope\<close>; the principal and the payload are
  arbitrary JSON. SHA-256, the Ed25519 and HMAC verifiers, the parser of dates, the host name
  and the content of \<^verbatim>\<open>/etc/machine-id\<close> are the fields of \<open>auth_env\<close>. Each call of the
  replay store reads the clock; \<open>clk i\<close> is the i-th reading of one call of \<open>authenticate\<close>.
\<close>

subsection \<open>Requests and their documents\<close>

type_synonym json_object = "(string \<times> json) list"

record authority_envelope =
  av_algorithm :: string
  av_gatewayId :: string
  av_nonce :: string
  av_signature :: string
  av_keyId :: "string option"

record request_payload =
  rq_protocolVersion :: string
  rq_requestId :: string
  rq_operation :: string
  rq_principal :: json_object
  rq_authority :: authority_envelope
  rq_targetHost :: string
  rq_timestamp :: string
  rq_payload :: "json option"
  rq_binaryLength :: int

text \<open>An undefined member is left out of the encoded object.\<close>

primrec opt_entry :: "string \<Rightarrow> json option \<Rightarrow> json_object" where
  "opt_entry k None = []"
| "opt_entry k (Some v) = [(k, v)]"

definition buildSigningDocument :: "request_payload \<Rightarrow> json_object \<Rightarrow> string" where
  "buildSigningDocument rq authority =
     canonicalJson (JObj (
       [(''protocolVersion'', JStr (rq_protocolVersion rq)),
        (''requestId'', JStr (rq_requestId rq)),
        (''operation'', JStr (rq_operation rq)),
        (''principal'', JObj (rq_principal rq)),
        (''authority'', JObj authority),
        (''targetHost'', JStr (rq_targetHost rq)),
        (''timestamp'', JStr (rq_timestamp rq))] @
       opt_entry ''payload'' (rq_payload rq) @
       [(''binaryLength'', JNum (rq_binaryLength rq))]))"

definition semantic_document :: "request_payload \<Rightarrow> json" where
  "semantic_document rq = JObj (
     [(''protocolVersion'', JStr (rq_protocolVersion rq)),
      (''operation'', JStr (rq_operation rq)),
      (''principal'', JObj (rq_principal rq)),
      (''targetHost'', JStr (rq_targetHost rq))] @
     opt_entry ''payload'' (rq_payload rq) @
     [(''binaryLength'', JNum (rq_binaryLength rq))])"

definition semanticRequestFingerprint :: "(string \<Rightarrow> string) \<Rightarrow> request_payload \<Rightarrow> string" where
  "semanticRequestFingerprint sha256 rq = sha256 (canonicalJson (semantic_document rq))"

definition requestHash :: "(string \<Rightarrow> string) \<Rightarrow> string \<Rightarrow> string" where
  "requestHash sha256 document = sha256 document"

definition authority_for_signing :: "authority_envelope \<Rightarrow> json_object" where
  "authority_for_signing a =
     [(''algorithm'', JStr (av_algorithm a)),
      (''gatewayId'', JStr (av_gatewayId a))] @
     opt_entry ''keyId'' (map_option JStr (av_keyId a)) @
     [(''nonce'', JStr (av_nonce a))]"

subsection \<open>Errors\<close>

record auth_error =
  ae_code :: string
  ae_message :: string
  ae_retryable :: bool
  ae_details :: "json_object option"

definition AuthError :: "string \<Rightarrow> string \<Rightarrow> auth_error" where
  "AuthError c m = \<lparr>ae_code = c, ae_message = m, ae_retryable = False, ae_details = None\<rparr>"

subsection \<open>Signatures\<close>

text \<open>The verifiers catch every exception and answer false, so they are total predicates of
  key, document and signature.\<close>

record 'k auth_env =
  env_sha256 :: "string \<Rightarrow> string"
  env_verifyEd25519 :: "'k \<Rightarrow> string \<Rightarrow> string \<Rightarrow> bool"
  env_dateParse :: "string \<Rightarrow> int option"
  env_hostname :: string
  env_machineIdFile :: "string option"

definition verifyAuthority ::
  "('k \<Rightarrow> string \<Rightarrow> string \<Rightarrow> bool) \<Rightarrow> ('s \<Rightarrow> string \<Rightarrow> string \<Rightarrow> bool) \<Rightarrow> string \<Rightarrow> authority_envelope \<Rightarrow> string \<Rightarrow>
     'k option \<Rightarrow> 'k option \<Rightarrow> 's option \<Rightarrow> bool" where
  "verifyAuthority verifyEd25519 verifyHmacSha256 document a expectedGatewayId publicKey previousPublicKey hmacSecret =
     (if av_gatewayId a \<noteq> expectedGatewayId then False
      else if av_algorithm a = ''ed25519'' then
        if (case publicKey of None \<Rightarrow> False | Some k \<Rightarrow> verifyEd25519 k document (av_signature a)) then True
        else if (case previousPublicKey of None \<Rightarrow> False | Some k \<Rightarrow> verifyEd25519 k document (av_signature a)) then True
        else False
      else if av_algorithm a = ''hmac-sha256'' \<and> hmacSecret \<noteq> None then
        verifyHmacSha256 (the hmacSecret) document (av_signature a)
      else False)"

record 'k authenticator =
  au_publicKey :: "'k option"
  au_previousPublicKey :: "'k option"

text \<open>\<open>key_file\<close> is the key stored at a path, absent when the file is.\<close>

definition loadKeys :: "runtime_config \<Rightarrow> (string \<Rightarrow> 'k option) \<Rightarrow> 'k authenticator" where
  "loadKeys cfg key_file =
     \<lparr>au_publicKey = key_file (cfg_gatewayAuthorityPublicKeyPath cfg),
      au_previousPublicKey =
        (if truthy (cfg_previousGatewayAuthorityPublicKeyPath cfg)
         then key_file (the (cfg_previousGatewayAuthorityPublicKeyPath cfg)) else None)\<rparr>"

subsection \<open>Principals\<close>

text \<open>\<open>String(v)\<close>: the elements of an array are joined by commas, null elements are empty.\<close>

primrec js_String :: "json \<Rightarrow> string" where
  "js_String JNull = ''null''"
| "js_String (JBool b) = (if b then ''true'' else ''false'')"
| "js_String (JNum i) = int_str i"
| "js_String (JStr s) = s"
| "js_String (JArr vs) = join_comma (map2 (\<lambda>v s. if v = JNull then [] else s) vs (map js_String vs))"
| "js_String (JObj _) = ''[object Object]''"

text \<open>\<open>String(raw.k ?? '')\<close>.\<close>

definition string_field :: "json_object \<Rightarrow> string \<Rightarrow> string" where
  "string_field raw k = (case map_of raw k of None \<Rightarrow> [] | Some JNull \<Rightarrow> [] | Some v \<Rightarrow> js_String v)"

record owner_principal =
  op_subject :: string
  op_authorityClass :: string
  op_issuer :: string
  op_resource :: string
  op_audience :: string
  op_principalType :: string
  op_workspaceAuthority :: json
  op_principalFingerprint :: string

definition buildOwnerPrincipal :: owner_principal where
  "buildOwnerPrincipal =
     \<lparr>op_subject = dflt_expectedSubject DEFAULTS,
      op_authorityClass = dflt_authorityClass DEFAULTS,
      op_issuer = dflt_oauthIssuer DEFAULTS,
      op_resource = dflt_oauthResource DEFAULTS,
      op_audience = dflt_oauthResource DEFAULTS,
      op_principalType = ''owner'',
      op_workspaceAuthority = JNull,
      op_principalFingerprint = ''''\<rparr>"

definition read_principal :: "json_object \<Rightarrow> owner_principal" where
  "read_principal raw =
     \<lparr>op_subject = string_field raw ''subject'',
      op_authorityClass = string_field raw ''authorityClass'',
      op_issuer = string_field raw ''issuer'',
      op_resource = string_field raw ''resource'',
      op_audience = string_field raw ''audience'',
      op_principalType = string_field raw ''principalType'',
      op_workspaceAuthority = nullish (map_of raw ''workspaceAuthority'') JNull,
      op_principalFingerprint = string_field raw ''principalFingerprint''\<rparr>"

definition check_fingerprint :: "runtime_config \<Rightarrow> owner_principal \<Rightarrow> (auth_error, unit) result" where
  "check_fingerprint cfg p =
     (if cfg_ownerPrincipalFingerprint cfg \<noteq> [] \<and> cfg_ownerPrincipalFingerprint cfg \<noteq> ''test'' then
        res_bind (check (op_principalFingerprint p \<noteq> [])
          (AuthError ''invalid_principal_fingerprint'' ''Owner principal fingerprint is required'')) (\<lambda>_.
        check (constantTimeEqual (op_principalFingerprint p) (cfg_ownerPrincipalFingerprint cfg))
          (AuthError ''invalid_principal_fingerprint'' ''Owner principal fingerprint does not match''))
      else Inr ())"

definition validatePrincipal :: "json_object \<Rightarrow> runtime_config \<Rightarrow> (auth_error, owner_principal) result" where
  "validatePrincipal raw cfg =
     (let p = read_principal raw in
      res_bind (check (op_subject p = cfg_expectedSubject cfg)
        (AuthError ''invalid_subject'' ''Principal subject does not match expected owner'')) (\<lambda>_.
      res_bind (check (op_authorityClass p = cfg_authorityClass cfg)
        (AuthError ''invalid_authority_class'' ''Authority class does not match'')) (\<lambda>_.
      res_bind (check (op_issuer p = cfg_oauthIssuer cfg)
        (AuthError ''invalid_issuer'' ''Principal issuer does not match expected OAuth issuer'')) (\<lambda>_.
      res_bind (check (op_resource p = cfg_oauthResource cfg)
        (AuthError ''invalid_resource'' ''Principal resource does not match expected resource'')) (\<lambda>_.
      res_bind (check (op_audience p = cfg_oauthResource cfg)
        (AuthError ''invalid_audience'' ''Principal audience does not match expected audience'')) (\<lambda>_.
      res_bind (check (op_principalType p = ''owner'')
        (AuthError ''invalid_principal_type'' ''Principal type must be owner'')) (\<lambda>_.
      res_bind (check (op_workspaceAuthority p = JNull)
        (AuthError ''invalid_workspace_authority'' ''Workspace authority must be null for unrestricted owner'')) (\<lambda>_.
      res_bind (check_fingerprint cfg p) (\<lambda>_.
      Inr p)))))))))"

subsection \<open>authenticate\<close>

record auth_request =
  ar_payload :: request_payload
  ar_signingDocument :: string
  ar_hash :: string
  ar_fingerprint :: string
  ar_subject :: string
  ar_authorityClass :: string

datatype auth_outcome =
    Authenticated auth_request
  | Rejected auth_error
  | IdempotentReplay json
  | Faulted string

definition SUPPORTED_ALGORITHMS :: "string list" where
  "SUPPORTED_ALGORITHMS = [''ed25519'']"

definition signature_valid :: "'k auth_env \<Rightarrow> 'k authenticator \<Rightarrow> string \<Rightarrow> string \<Rightarrow> bool" where
  "signature_valid env au document signature =
     ((case au_publicKey au of None \<Rightarrow> False | Some k \<Rightarrow> env_verifyEd25519 env k document signature) \<or>
      (case au_previousPublicKey au of None \<Rightarrow> False | Some k \<Rightarrow> env_verifyEd25519 env k document signature))"

definition signing_document :: "request_payload \<Rightarrow> string" where
  "signing_document rq = buildSigningDocument rq (authority_for_signing (rq_authority rq))"

definition check_peer :: "runtime_config \<Rightarrow> int option \<Rightarrow> (auth_error, unit) result" where
  "check_peer cfg peerUid =
     (if cfg_skipPeerCredCheck cfg then Inr ()
      else case peerUid of
             None \<Rightarrow> Inl (AuthError ''invalid_peer'' ''Unix peer credentials unavailable'')
           | Some u \<Rightarrow> check (cfg_gatewayUid cfg = Some u)
               (AuthError ''invalid_peer'' ''Unix peer credentials do not match gateway''))"

definition check_time :: "'k auth_env \<Rightarrow> runtime_config \<Rightarrow> int \<Rightarrow> string \<Rightarrow> (auth_error, unit) result" where
  "check_time env cfg now timestamp =
     (case env_dateParse env timestamp of
        None \<Rightarrow> Inl (AuthError ''invalid_timestamp'' ''Request timestamp is not valid ISO-8601'')
      | Some requestTime \<Rightarrow> check (abs (now - requestTime) \<le> cfg_requestMaxAgeMs cfg)
          (AuthError ''request_expired'' ''Request timestamp outside allowed age window''))"

text \<open>Everything \<open>authenticate\<close> checks before it touches the replay store, in order.\<close>

definition verify_request ::
  "'k auth_env \<Rightarrow> runtime_config \<Rightarrow> 'k authenticator \<Rightarrow> int \<Rightarrow> request_payload \<Rightarrow> int option \<Rightarrow> (auth_error, auth_request) result" where
  "verify_request env cfg au now rq peerUid =
     (let a = rq_authority rq in
      res_bind (validatePrincipal (rq_principal rq) cfg) (\<lambda>principal.
      res_bind (check (av_algorithm a \<in> set SUPPORTED_ALGORITHMS)
        (AuthError ''unsupported_algorithm'' (''Algorithm '' @ av_algorithm a @ '' is not supported''))) (\<lambda>_.
      res_bind (check (truthy (av_keyId a))
        (AuthError ''invalid_key_id'' ''Authority key ID is required'')) (\<lambda>_.
      res_bind (check (av_keyId a = Some (cfg_gatewayAuthorityKeyId cfg))
        (AuthError ''invalid_key_id'' ''Authority key ID does not match configured gateway key'')) (\<lambda>_.
      res_bind (check (rq_targetHost rq = env_hostname env)
        (AuthError ''invalid_target_host'' ''Target host does not match this machine'')) (\<lambda>_.
      let machineId = getMachineIdSha256 (env_sha256 env) (env_machineIdFile env) in
      res_bind (check (\<not> (machineId \<noteq> [] \<and> machineId \<noteq> cfg_expectedMachineIdSha256 cfg \<and> cfg_expectedMachineIdSha256 cfg \<noteq> ''test''))
        (AuthError ''invalid_machine_id'' ''Machine identity does not match'')) (\<lambda>_.
      res_bind (check_time env cfg now (rq_timestamp rq)) (\<lambda>_.
      res_bind (check (av_nonce a \<noteq> [])
        (AuthError ''missing_nonce'' ''Authority nonce is required'')) (\<lambda>_.
      res_bind (check (av_gatewayId a = cfg_gatewayId cfg)
        (AuthError ''invalid_gateway_id'' ''Authority gateway ID does not match'')) (\<lambda>_.
      let document = signing_document rq in
      res_bind (check (au_publicKey au \<noteq> None)
        (AuthError ''no_signing_key'' ''Gateway authority public key not configured'')) (\<lambda>_.
      res_bind (check (signature_valid env au document (av_signature a))
        (AuthError ''invalid_signature'' ''Authority signature verification failed'')) (\<lambda>_.
      res_bind (check_peer cfg peerUid) (\<lambda>_.
      Inr \<lparr>ar_payload = rq, ar_signingDocument = document,
           ar_hash = requestHash (env_sha256 env) document,
           ar_fingerprint = semanticRequestFingerprint (env_sha256 env) rq,
           ar_subject = op_subject principal,
           ar_authorityClass = op_authorityClass principal\<rparr>)))))))))))))"

text \<open>A nonce that is already known answers with the stored response of the same signed
  document, if there is one by now.\<close>

definition retry_outcome :: "runtime_config \<Rightarrow> int \<Rightarrow> string \<Rightarrow> replay_store \<Rightarrow> replay_store \<times> auth_outcome" where
  "retry_outcome cfg now hash s =
     (case getIdempotentResponse cfg now hash s of
        (s, Some r) \<Rightarrow> (s, IdempotentReplay r)
      | (s, None) \<Rightarrow> (s, Rejected (AuthError ''replay_detected'' ''Nonce has already been used'')))"

primrec semantic_name :: "semantic_result \<Rightarrow> string" where
  "semantic_name Miss = ''miss''"
| "semantic_name SPending = ''pending''"
| "semantic_name (Conflict _) = ''conflict''"
| "semantic_name (Replay _) = ''replay''"

definition commit_request ::
  "runtime_config \<Rightarrow> (nat \<Rightarrow> int) \<Rightarrow> io_fault \<Rightarrow> auth_request \<Rightarrow> replay_store \<Rightarrow> replay_store \<times> auth_outcome" where
  "commit_request cfg clk fault ar s =
     (let rq = ar_payload ar in
      case tryCommitNonce cfg (clk 3) (av_nonce (rq_authority rq)) s of
        (s, False) \<Rightarrow> retry_outcome cfg (clk 4) (ar_hash ar) s
      | (s, True) \<Rightarrow>
          (case reserveSemantic cfg (clk 4) (rq_requestId rq) (ar_fingerprint ar) (ar_hash ar) s of
             (s, Inl found) \<Rightarrow> (s, Faulted (''Cannot reserve idempotency request in state '' @ semantic_name found))
           | (s, Inr _) \<Rightarrow>
               (case persist fault s of
                  (s, True) \<Rightarrow> (s, Faulted ''persist failed'')
                | (s, False) \<Rightarrow> (s, Authenticated ar))))"

definition conflict_error :: "request_payload \<Rightarrow> string \<Rightarrow> string \<Rightarrow> auth_error" where
  "conflict_error rq existing fingerprint =
     \<lparr>ae_code = ''idempotency_conflict'',
      ae_message = ''The request ID was already used with a different logical operation or payload'',
      ae_retryable = False,
      ae_details = Some [(''requestId'', JStr (rq_requestId rq)), (''existingFingerprint'', JStr existing),
        (''receivedFingerprint'', JStr fingerprint)]\<rparr>"

definition in_progress_error :: "request_payload \<Rightarrow> string \<Rightarrow> auth_error" where
  "in_progress_error rq fingerprint =
     \<lparr>ae_code = ''idempotency_in_progress'',
      ae_message = ''The exact logical request is already in progress'',
      ae_retryable = True,
      ae_details = Some [(''requestId'', JStr (rq_requestId rq)), (''fingerprint'', JStr fingerprint)]\<rparr>"

definition authenticate ::
  "'k auth_env \<Rightarrow> runtime_config \<Rightarrow> 'k authenticator \<Rightarrow> (nat \<Rightarrow> int) \<Rightarrow> io_fault \<Rightarrow> request_payload \<Rightarrow> int option \<Rightarrow>
     replay_store \<Rightarrow> replay_store \<times> auth_outcome" where
  "authenticate env cfg au clk fault rq peerUid s =
     (case verify_request env cfg au (clk 0) rq peerUid of
        Inl e \<Rightarrow> (s, Rejected e)
      | Inr ar \<Rightarrow>
          (case getIdempotentResponse cfg (clk 1) (ar_hash ar) s of
             (s, Some r) \<Rightarrow> (s, IdempotentReplay r)
           | (s, None) \<Rightarrow>
               (case checkSemantic cfg (clk 2) (rq_requestId rq) (ar_fingerprint ar) s of
                  (s, Replay r) \<Rightarrow> (s, IdempotentReplay r)
                | (s, Conflict existing) \<Rightarrow> (s, Rejected (conflict_error rq existing (ar_fingerprint ar)))
                | (s, SPending) \<Rightarrow> (s, Rejected (in_progress_error rq (ar_fingerprint ar)))
                | (s, Miss) \<Rightarrow> commit_request cfg clk fault ar s)))"

subsection \<open>What a verified request satisfies\<close>

text \<open>The claims an owner principal must carry.\<close>

definition principal_acceptable :: "runtime_config \<Rightarrow> json_object \<Rightarrow> bool" where
  "principal_acceptable cfg raw \<longleftrightarrow>
     string_field raw ''subject'' = cfg_expectedSubject cfg \<and>
     string_field raw ''authorityClass'' = cfg_authorityClass cfg \<and>
     string_field raw ''issuer'' = cfg_oauthIssuer cfg \<and>
     string_field raw ''resource'' = cfg_oauthResource cfg \<and>
     string_field raw ''audience'' = cfg_oauthResource cfg \<and>
     string_field raw ''principalType'' = ''owner'' \<and>
     map_of raw ''workspaceAuthority'' \<in> {None, Some JNull} \<and>
     (cfg_ownerPrincipalFingerprint cfg \<in> {'''', ''test''} \<or>
      string_field raw ''principalFingerprint'' = cfg_ownerPrincipalFingerprint cfg)"

definition request_acceptable ::
  "'k auth_env \<Rightarrow> runtime_config \<Rightarrow> 'k authenticator \<Rightarrow> int \<Rightarrow> request_payload \<Rightarrow> int option \<Rightarrow> bool" where
  "request_acceptable env cfg au now rq peerUid \<longleftrightarrow>
     principal_acceptable cfg (rq_principal rq) \<and>
     av_algorithm (rq_authority rq) = ''ed25519'' \<and>
     av_keyId (rq_authority rq) = Some (cfg_gatewayAuthorityKeyId cfg) \<and> cfg_gatewayAuthorityKeyId cfg \<noteq> [] \<and>
     av_gatewayId (rq_authority rq) = cfg_gatewayId cfg \<and>
     av_nonce (rq_authority rq) \<noteq> [] \<and>
     rq_targetHost rq = env_hostname env \<and>
     (getMachineIdSha256 (env_sha256 env) (env_machineIdFile env) \<in> {'''', cfg_expectedMachineIdSha256 cfg} \<or>
      cfg_expectedMachineIdSha256 cfg = ''test'') \<and>
     (\<exists>t. env_dateParse env (rq_timestamp rq) = Some t \<and> \<bar>now - t\<bar> \<le> cfg_requestMaxAgeMs cfg) \<and>
     au_publicKey au \<noteq> None \<and>
     (\<exists>k. (au_publicKey au = Some k \<or> au_previousPublicKey au = Some k) \<and>
        env_verifyEd25519 env k (signing_document rq) (av_signature (rq_authority rq))) \<and>
     (cfg_skipPeerCredCheck cfg \<or> (peerUid \<noteq> None \<and> peerUid = cfg_gatewayUid cfg))"

lemma constantTimeEqual_iff: "constantTimeEqual a b \<longleftrightarrow> a = b"
  by (auto simp: constantTimeEqual_def list_all_iff list_eq_iff_zip_eq)

lemma validatePrincipal_Inr:
  "validatePrincipal raw cfg = Inr p \<longleftrightarrow> principal_acceptable cfg raw \<and> p = read_principal raw"
proof -
  have wa: "nullish x JNull = JNull \<longleftrightarrow> x = None \<or> x = Some JNull" for x
    by (auto simp: nullish_def split: option.splits)
  have fp: "(\<exists>u. check_fingerprint cfg (read_principal raw) = Inr u) \<longleftrightarrow>
      cfg_ownerPrincipalFingerprint cfg \<in> {'''', ''test''} \<or>
      string_field raw ''principalFingerprint'' = cfg_ownerPrincipalFingerprint cfg"
    by (auto simp: check_fingerprint_def res_simps constantTimeEqual_iff read_principal_def)
  show ?thesis
    unfolding validatePrincipal_def Let_def res_simps principal_acceptable_def fp [symmetric]
    by (auto simp: read_principal_def wa)
qed

lemma check_peer_Inr:
  "check_peer cfg peerUid = Inr u \<longleftrightarrow> cfg_skipPeerCredCheck cfg \<or> (peerUid \<noteq> None \<and> peerUid = cfg_gatewayUid cfg)"
  by (auto simp: check_peer_def res_simps split: option.splits)

lemma check_time_Inr:
  "check_time env cfg now ts = Inr u \<longleftrightarrow>
     (\<exists>t. env_dateParse env ts = Some t \<and> \<bar>now - t\<bar> \<le> cfg_requestMaxAgeMs cfg)"
  by (auto simp: check_time_def res_simps split: option.splits)

lemma signature_valid_iff:
  "signature_valid env au d sg \<longleftrightarrow>
     (\<exists>k. (au_publicKey au = Some k \<or> au_previousPublicKey au = Some k) \<and> env_verifyEd25519 env k d sg)"
  by (auto simp: signature_valid_def split: option.splits)

definition verified :: "'k auth_env \<Rightarrow> request_payload \<Rightarrow> auth_request" where
  "verified env rq =
     \<lparr>ar_payload = rq, ar_signingDocument = signing_document rq,
      ar_hash = requestHash (env_sha256 env) (signing_document rq),
      ar_fingerprint = semanticRequestFingerprint (env_sha256 env) rq,
      ar_subject = string_field (rq_principal rq) ''subject'',
      ar_authorityClass = string_field (rq_principal rq) ''authorityClass''\<rparr>"

lemma verify_request_Inr:
  "verify_request env cfg au now rq peerUid = Inr ar \<longleftrightarrow>
     request_acceptable env cfg au now rq peerUid \<and> ar = verified env rq"
proof -
  have mid: "\<not> (m \<noteq> [] \<and> m \<noteq> e \<and> e \<noteq> ''test'') \<longleftrightarrow> m \<in> {'''', e} \<or> e = ''test''" for m e :: string by auto
  show ?thesis
    unfolding verify_request_def Let_def res_simps validatePrincipal_Inr check_peer_Inr check_time_Inr
      signature_valid_iff request_acceptable_def verified_def mid
    by (auto simp: SUPPORTED_ALGORITHMS_def read_principal_def truthy_iff)
qed

subsection \<open>What authentication does to the replay store\<close>

text \<open>The store operations of a call that runs to its end.\<close>

definition auth_ops :: "'k auth_env \<Rightarrow> (nat \<Rightarrow> int) \<Rightarrow> io_fault \<Rightarrow> request_payload \<Rightarrow> store_op list" where
  "auth_ops env clk fault rq =
     (let ar = verified env rq
      in [GetResponse (clk 1) (ar_hash ar),
          CheckSemantic (clk 2) (rq_requestId rq) (ar_fingerprint ar),
          CommitNonce (clk 3) (av_nonce (rq_authority rq)),
          ReserveSemantic (clk 4) (rq_requestId rq) (ar_fingerprint ar) (ar_hash ar),
          Persist fault])"

text \<open>An operation of the call with the given clock: it stores no response and runs at one of
  the clock's readings.\<close>

definition auth_op :: "(nat \<Rightarrow> int) \<Rightarrow> store_op \<Rightarrow> bool" where
  "auth_op clk op = (case op of
     GetResponse t _ \<Rightarrow> t \<in> clk ` {1..4}
   | CheckSemantic t _ _ \<Rightarrow> t \<in> clk ` {1..4}
   | CommitNonce t _ \<Rightarrow> t \<in> clk ` {1..4}
   | ReserveSemantic t _ _ _ \<Rightarrow> t \<in> clk ` {1..4}
   | StoreResponse _ _ _ _ _ \<Rightarrow> False
   | Persist _ \<Rightarrow> True
   | Restart \<Rightarrow> False)"

lemma semantic_of_Miss:
  "semantic_of i f es = Miss \<longleftrightarrow> list_all (\<lambda>e. ie_requestId e \<noteq> Some i) es"
  by (auto simp: semantic_of_def list_all_iff find_None_iff dest: find_SomeD split: option.splits)

text \<open>The reservation never finds the identifier taken: between the check and the reservation
  entries are only pruned.\<close>

lemma reserve_after_miss:
  assumes "checkSemantic cfg t i f s = (s\<^sub>1, Miss)" "tryCommitNonce cfg t' n s\<^sub>1 = (s\<^sub>2, True)"
  shows "\<exists>s\<^sub>3. reserveSemantic cfg t'' i f h s\<^sub>2 = (s\<^sub>3, Inr ())"
proof -
  have "list_all (\<lambda>e. ie_requestId e \<noteq> Some i) (sd_idempotency (rs_data s\<^sub>1))"
    using assms(1) by (auto simp: checkSemantic_def Let_def semantic_of_Miss)
  moreover have "sd_idempotency (rs_data s\<^sub>2) = sd_idempotency (rs_data (prune cfg t' s\<^sub>1))"
    using tryCommitNonce_entries [of cfg t' n s\<^sub>1] assms(2) by simp
  ultimately have "semantic_of i f (sd_idempotency (rs_data (prune cfg t'' s\<^sub>2))) = Miss"
    by (auto simp: semantic_of_Miss list_all_iff)
  then show ?thesis by (auto simp: reserveSemantic_def checkSemantic_def Let_def)
qed

lemma commit_request_cases:
  assumes "checkSemantic cfg t (rq_requestId (ar_payload ar)) (ar_fingerprint ar) s = (s\<^sub>1, Miss)"
    and "commit_request cfg clk fault ar s\<^sub>1 = (s', out)"
  obtains (retry) "\<not> snd (tryCommitNonce cfg (clk 3) (av_nonce (rq_authority (ar_payload ar))) s\<^sub>1)"
      "s' = apply_ops cfg [CommitNonce (clk 3) (av_nonce (rq_authority (ar_payload ar))), GetResponse (clk 4) (ar_hash ar)] s\<^sub>1"
      "(\<exists>r. out = IdempotentReplay r) \<or> (\<exists>e. out = Rejected e)"
  | (commit) "snd (tryCommitNonce cfg (clk 3) (av_nonce (rq_authority (ar_payload ar))) s\<^sub>1)"
      "s' = apply_ops cfg [CommitNonce (clk 3) (av_nonce (rq_authority (ar_payload ar))),
         ReserveSemantic (clk 4) (rq_requestId (ar_payload ar)) (ar_fingerprint ar) (ar_hash ar), Persist fault] s\<^sub>1"
      "out = (if fault = NoFault then Authenticated ar else Faulted ''persist failed'')"
proof (cases "snd (tryCommitNonce cfg (clk 3) (av_nonce (rq_authority (ar_payload ar))) s\<^sub>1)")
  case False
  then show ?thesis
    using assms(2) by (intro retry) (auto simp: commit_request_def retry_outcome_def apply_ops_def Let_def split: prod.splits bool.splits option.splits)
next
  case True
  then obtain s\<^sub>2 where s2: "tryCommitNonce cfg (clk 3) (av_nonce (rq_authority (ar_payload ar))) s\<^sub>1 = (s\<^sub>2, True)" by (metis (full_types) eq_snd_iff)
  then obtain s\<^sub>3 where s3: "reserveSemantic cfg (clk 4) (rq_requestId (ar_payload ar)) (ar_fingerprint ar) (ar_hash ar) s\<^sub>2 = (s\<^sub>3, Inr ())"
    using reserve_after_miss [OF assms(1)] by blast
  then have "rs_dirty s\<^sub>3" by (auto simp: reserveSemantic_def Let_def split: prod.splits semantic_result.splits)
  then have "persist fault s\<^sub>3 = (fst (persist fault s\<^sub>3), fault \<noteq> NoFault)"
    by (simp add: persist_def Let_def split: io_fault.splits)
  with True s2 s3 assms(2) show ?thesis
    by (intro commit) (auto simp: commit_request_def apply_ops_def Let_def split: prod.splits bool.splits)
qed

lemma authenticate_Authenticated:
  assumes "authenticate env cfg au clk fault rq peerUid s = (s', Authenticated ar)"
  shows "request_acceptable env cfg au (clk 0) rq peerUid" "ar = verified env rq" "fault = NoFault"
    "s' = apply_ops cfg (auth_ops env clk fault rq) s"
    "\<exists>s\<^sub>1. checkSemantic cfg (clk 2) (rq_requestId rq) (ar_fingerprint ar) (apply_op cfg (GetResponse (clk 1) (ar_hash ar)) s) = (s\<^sub>1, Miss)
        \<and> snd (tryCommitNonce cfg (clk 3) (av_nonce (rq_authority rq)) s\<^sub>1)"
proof -
  obtain s\<^sub>1 where vr: "verify_request env cfg au (clk 0) rq peerUid = Inr (verified env rq)"
    and acc: "request_acceptable env cfg au (clk 0) rq peerUid"
    and cs: "checkSemantic cfg (clk 2) (rq_requestId (ar_payload (verified env rq))) (ar_fingerprint (verified env rq))
           (fst (getIdempotentResponse cfg (clk 1) (ar_hash (verified env rq)) s)) = (s\<^sub>1, Miss)"
    and cr: "commit_request cfg clk fault (verified env rq) s\<^sub>1 = (s', Authenticated ar)"
    using assms
    by (auto simp: authenticate_def verified_def verify_request_Inr split: sum.splits prod.splits option.splits semantic_result.splits)
  have c: "ar = verified env rq \<and> fault = NoFault \<and> s' = apply_ops cfg (auth_ops env clk fault rq) s \<and>
      snd (tryCommitNonce cfg (clk 3) (av_nonce (rq_authority rq)) s\<^sub>1)"
    using cs cr
    by (cases rule: commit_request_cases [OF cs cr])
      (auto simp: apply_ops_def auth_ops_def Let_def verified_def split: if_splits)
  show "request_acceptable env cfg au (clk 0) rq peerUid" "ar = verified env rq" "fault = NoFault"
    "s' = apply_ops cfg (auth_ops env clk fault rq) s"
    using acc c by auto
  show "\<exists>s\<^sub>1. checkSemantic cfg (clk 2) (rq_requestId rq) (ar_fingerprint ar) (apply_op cfg (GetResponse (clk 1) (ar_hash ar)) s) = (s\<^sub>1, Miss)
        \<and> snd (tryCommitNonce cfg (clk 3) (av_nonce (rq_authority rq)) s\<^sub>1)"
    using cs c by (auto simp: verified_def)
qed

lemma authenticate_ops:
  assumes "authenticate env cfg au clk fault rq peerUid s = (s', out)"
  shows "(\<exists>ops. s' = apply_ops cfg ops s \<and> list_all (auth_op clk) ops) \<and>
    (\<forall>m. out = Faulted m \<longrightarrow> fault \<noteq> NoFault)"
proof (cases "verify_request env cfg au (clk 0) rq peerUid")
  case (Inl e)
  with assms have "s' = apply_ops cfg [] s" "out = Rejected e" by (simp_all add: authenticate_def apply_ops_def)
  then show ?thesis by (auto intro!: exI [of _ "[]"])
next
  case (Inr ar)
  then have ar: "ar_payload ar = rq" by (simp add: verify_request_Inr verified_def)
  let ?g = "GetResponse (clk 1) (ar_hash ar)"
  let ?c = "CheckSemantic (clk 2) (rq_requestId rq) (ar_fingerprint ar)"
  have clk: "auth_op clk ?g" "auth_op clk ?c" by (simp_all add: auth_op_def)
  obtain s\<^sub>1 x where g: "getIdempotentResponse cfg (clk 1) (ar_hash ar) s = (s\<^sub>1, x)" by fastforce
  then have s1: "s\<^sub>1 = apply_ops cfg [?g] s" by (simp add: apply_ops_def)
  show ?thesis
  proof (cases x)
    case (Some r)
    with Inr g assms s1 clk show ?thesis by (auto simp: authenticate_def intro!: exI [of _ "[?g]"])
  next
    case None
    obtain s\<^sub>2 m where c: "checkSemantic cfg (clk 2) (rq_requestId rq) (ar_fingerprint ar) s\<^sub>1 = (s\<^sub>2, m)" by fastforce
    then have s2: "s\<^sub>2 = apply_ops cfg [?g, ?c] s" using s1 by (simp add: apply_ops_def)
    show ?thesis
    proof (cases "m = Miss")
      case False
      with Inr g c None assms s2 clk show ?thesis
        by (cases m) (auto simp: authenticate_def intro!: exI [of _ "[?g, ?c]"])
    next
      case True
      with c ar have c': "checkSemantic cfg (clk 2) (rq_requestId (ar_payload ar)) (ar_fingerprint ar) s\<^sub>1 = (s\<^sub>2, Miss)" by simp
      have "commit_request cfg clk fault ar s\<^sub>2 = (s', out)"
        using Inr g c None assms True by (simp add: authenticate_def)
      with c' show ?thesis
      proof (cases rule: commit_request_cases)
        case retry
        with s2 clk show ?thesis
          by (auto simp: apply_ops_def auth_op_def
            intro!: exI [of _ "[?g, ?c, CommitNonce (clk 3) (av_nonce (rq_authority (ar_payload ar))), GetResponse (clk 4) (ar_hash ar)]"])
      next
        case commit
        with s2 clk show ?thesis
          by (auto simp: apply_ops_def auth_op_def
            intro!: exI [of _ "[?g, ?c, CommitNonce (clk 3) (av_nonce (rq_authority (ar_payload ar))),
              ReserveSemantic (clk 4) (rq_requestId (ar_payload ar)) (ar_fingerprint ar) (ar_hash ar), Persist fault]"])
      qed
    qed
  qed
qed

text \<open>After a request is let through, memory and file know its nonce and its identifier.\<close>

lemma apply_ops_append: "apply_ops cfg (xs @ ys) s = apply_ops cfg ys (apply_ops cfg xs s)"
  by (simp add: apply_ops_def)

lemma persist_remembered:
  "rs_dirty s \<Longrightarrow> e \<in> set (sd_nonces (rs_data s)) \<Longrightarrow> remembered e (fst (persist NoFault s))"
  "rs_dirty s \<Longrightarrow> bound_in t i fp (sd_idempotency (rs_data s)) \<Longrightarrow> bound_id t i fp (fst (persist NoFault s))"
  by (simp_all add: persist_def remembered_def bound_id_def Let_def)

lemma authenticated_known:
  assumes "authenticate env cfg au clk fault rq peerUid s = (s', Authenticated ar)"
  shows "clk 4 < clk 3 + cfg_nonceRetentionMs cfg \<Longrightarrow>
      remembered \<lparr>ne_nonce = av_nonce (rq_authority rq), ne_seenAt = clk 3\<rparr> s'"
    and "bound_id (clk 4) (rq_requestId rq) (ar_fingerprint ar) s'"
proof -
  note a = authenticate_Authenticated [OF assms]
  let ?n = "\<lparr>ne_nonce = av_nonce (rq_authority rq), ne_seenAt = clk 3\<rparr>"
  obtain s\<^sub>1 s\<^sub>2 s\<^sub>3 where c: "checkSemantic cfg (clk 2) (rq_requestId rq) (ar_fingerprint ar)
        (apply_op cfg (GetResponse (clk 1) (ar_hash ar)) s) = (s\<^sub>1, Miss)"
    and t: "tryCommitNonce cfg (clk 3) (av_nonce (rq_authority rq)) s\<^sub>1 = (s\<^sub>2, True)"
    and r: "reserveSemantic cfg (clk 4) (rq_requestId rq) (ar_fingerprint ar) (ar_hash ar) s\<^sub>2 = (s\<^sub>3, Inr ())"
    using a(5) reserve_after_miss by (metis (full_types) eq_snd_iff)
  have s': "s' = fst (persist NoFault s\<^sub>3)"
    using a(2-4) arg_cong [OF c, of fst] arg_cong [OF t, of fst] arg_cong [OF r, of fst]
    by (simp add: auth_ops_def apply_ops_def Let_def)
  have "?n \<in> set (sd_nonces (rs_data s\<^sub>2))" using t by (auto simp: tryCommitNonce_def Let_def split: if_splits)
  then have n: "?n \<in> set (sd_nonces (rs_data s\<^sub>3))" if "clk 4 < clk 3 + cfg_nonceRetentionMs cfg"
    using r that by (auto simp: reserveSemantic_def checkSemantic_def Let_def split: semantic_result.splits)
  have e: "rs_dirty s\<^sub>3 \<and> bound_in (clk 4) (rq_requestId rq) (ar_fingerprint ar) (sd_idempotency (rs_data s\<^sub>3))"
  proof -
    have "semantic_of (rq_requestId rq) (ar_fingerprint ar) (sd_idempotency (rs_data (prune cfg (clk 4) s\<^sub>2))) = Miss"
      using r by (auto simp: reserveSemantic_def checkSemantic_def Let_def split: semantic_result.splits)
    then have "find (\<lambda>e. ie_requestId e = Some (rq_requestId rq)) (sd_idempotency (rs_data (prune cfg (clk 4) s\<^sub>2))) = None"
      unfolding semantic_of_Miss by (simp add: find_None_iff list_all_iff)
    then show ?thesis
      using r by (auto simp: reserveSemantic_def checkSemantic_def Let_def bound_in_def first_entry_def find_append_Some
        split: semantic_result.splits)
  qed
  show "clk 4 < clk 3 + cfg_nonceRetentionMs cfg \<Longrightarrow> remembered ?n s'" "bound_id (clk 4) (rq_requestId rq) (ar_fingerprint ar) s'"
    unfolding s' using n e by (auto intro: persist_remembered)
qed

text \<open>A store that knows the nonce, or the identifier, lets no request with it through.\<close>

lemma known_nonce_refused:
  assumes "remembered e s" "authenticate env cfg au clk fault rq peerUid s = (s', Authenticated ar)"
    and "clk 1 < ne_seenAt e + cfg_nonceRetentionMs cfg" "clk 2 < ne_seenAt e + cfg_nonceRetentionMs cfg"
      "clk 3 < ne_seenAt e + cfg_nonceRetentionMs cfg"
  shows "av_nonce (rq_authority rq) \<noteq> ne_nonce e"
proof
  assume n: "av_nonce (rq_authority rq) = ne_nonce e"
  obtain s\<^sub>1 where c: "checkSemantic cfg (clk 2) (rq_requestId rq) (ar_fingerprint ar)
        (apply_op cfg (GetResponse (clk 1) (ar_hash ar)) s) = (s\<^sub>1, Miss)"
    and t: "snd (tryCommitNonce cfg (clk 3) (av_nonce (rq_authority rq)) s\<^sub>1)"
    using authenticate_Authenticated(5) [OF assms(2)] by blast
  have "s\<^sub>1 = apply_ops cfg [GetResponse (clk 1) (ar_hash ar), CheckSemantic (clk 2) (rq_requestId rq) (ar_fingerprint ar)] s"
    using arg_cong [OF c, of fst] by (simp add: apply_ops_def)
  then have "remembered e s\<^sub>1" using remembered_apply_ops [OF assms(1)] assms(3,4) by (simp add: before_def)
  with assms(5) t n show False by (simp add: remembered_rejects)
qed

lemma known_id_refused:
  assumes "bound_id t i fp s" "fp \<noteq> []" "authenticate env cfg au clk fault rq peerUid s = (s', Authenticated ar)"
    and "clk 1 < t + cfg_idempotencyRetentionMs cfg" "clk 2 < t + cfg_idempotencyRetentionMs cfg"
  shows "rq_requestId rq \<noteq> i"
proof
  assume i: "rq_requestId rq = i"
  let ?g = "GetResponse (clk 1) (ar_hash ar)"
  obtain s\<^sub>1 where c: "checkSemantic cfg (clk 2) (rq_requestId rq) (ar_fingerprint ar) (apply_op cfg ?g s) = (s\<^sub>1, Miss)"
    using authenticate_Authenticated(5) [OF assms(3)] by blast
  have "bound_id t i fp (apply_ops cfg [?g] s)"
    using bound_id_apply_ops [OF assms(1,2), of cfg "[?g]"] assms(4) by (simp add: before_def answers_def)
  then show False using bound_id_semantic(1) [OF _ assms(5,2), of i] c i by (metis apply_ops_def fold_simps(1,2) snd_conv)
qed

subsection \<open>Properties\<close>

text \<open>The store's three questions at one clock reading, on what is not yet expired.\<close>

definition live_nonce :: "runtime_config \<Rightarrow> int \<Rightarrow> string \<Rightarrow> replay_store \<Rightarrow> bool" where
  "live_nonce cfg now n s = list_ex (\<lambda>e. ne_nonce e = n \<and> now - ne_seenAt e < cfg_nonceRetentionMs cfg) (sd_nonces (rs_data s))"

definition live_id :: "runtime_config \<Rightarrow> int \<Rightarrow> string \<Rightarrow> replay_store \<Rightarrow> bool" where
  "live_id cfg now i s =
     list_ex (\<lambda>e. ie_requestId e = Some i \<and> now - ie_storedAt e < cfg_idempotencyRetentionMs cfg) (sd_idempotency (rs_data s))"

definition live_response :: "runtime_config \<Rightarrow> int \<Rightarrow> string \<Rightarrow> replay_store \<Rightarrow> json option" where
  "live_response cfg now h s =
     Option.bind (find (\<lambda>e. ie_requestHash e = h \<and> ie_status e \<noteq> Some Pending \<and> now - ie_storedAt e < cfg_idempotencyRetentionMs cfg)
       (sd_idempotency (rs_data s))) ie_response"

lemma find_filter: "find P (filter Q xs) = find (\<lambda>x. P x \<and> Q x) xs"
  by (induction xs) auto

lemma live_nonce_iff: "snd (tryCommitNonce cfg now n s) \<longleftrightarrow> \<not> live_nonce cfg now n s"
  by (auto simp: tryCommitNonce_def live_nonce_def Let_def list_ex_iff)

lemma live_id_iff: "snd (checkSemantic cfg now i f s) = Miss \<longleftrightarrow> \<not> live_id cfg now i s"
  by (auto simp: checkSemantic_def Let_def semantic_of_Miss live_id_def list_ex_iff list_all_iff)

lemma live_response_iff: "snd (getIdempotentResponse cfg now h s) = live_response cfg now h s"
proof -
  have "x = None \<or> x = Some Completed \<longleftrightarrow> x \<noteq> Some Pending" for x :: "entry_status option"
    by (cases x; cases "the x") auto
  then show ?thesis
    by (simp add: getIdempotentResponse_def live_response_def Let_def find_filter conj_assoc bind_split split: option.split)
qed

lemma prune_prune [simp]: "rs_data (prune cfg now (prune cfg now s)) = rs_data (prune cfg now s)"
  by (simp add: prune_def Let_def)

lemma live_prune [simp]:
  "live_nonce cfg now n (prune cfg now s) = live_nonce cfg now n s"
  "live_id cfg now i (prune cfg now s) = live_id cfg now i s"
  by (auto simp: live_nonce_def live_id_def list_ex_iff)

lemma authenticate_decision:
  "snd (authenticate env cfg au (\<lambda>_. now) NoFault rq peerUid s) = Authenticated ar \<longleftrightarrow>
     request_acceptable env cfg au now rq peerUid \<and> ar = verified env rq \<and>
     live_response cfg now (requestHash (env_sha256 env) (signing_document rq)) s = None \<and>
     \<not> live_id cfg now (rq_requestId rq) s \<and>
     \<not> live_nonce cfg now (av_nonce (rq_authority rq)) s"
proof (cases "verify_request env cfg au now rq peerUid")
  case (Inl e)
  then have "\<not> request_acceptable env cfg au now rq peerUid"
    using verify_request_Inr [of env cfg au now rq peerUid "verified env rq"] by auto
  with Inl show ?thesis by (simp add: authenticate_def)
next
  case (Inr v)
  then have acc: "request_acceptable env cfg au now rq peerUid" and v: "v = verified env rq"
    by (simp_all add: verify_request_Inr)
  then have hash: "ar_hash v = requestHash (env_sha256 env) (signing_document rq)" and pl: "ar_payload v = rq"
    by (simp_all add: verified_def)
  obtain s\<^sub>1 x where g: "getIdempotentResponse cfg now (ar_hash v) s = (s\<^sub>1, x)" by fastforce
  then have s1: "s\<^sub>1 = prune cfg now s" and x: "x = live_response cfg now (requestHash (env_sha256 env) (signing_document rq)) s"
    using live_response_iff [of cfg now "ar_hash v" s] hash by (auto simp: getIdempotentResponse_def Let_def)
  obtain s\<^sub>2 m where c: "checkSemantic cfg now (rq_requestId rq) (ar_fingerprint v) s\<^sub>1 = (s\<^sub>2, m)" by fastforce
  then have m: "m = Miss \<longleftrightarrow> \<not> live_id cfg now (rq_requestId rq) s" and s2: "s\<^sub>2 = prune cfg now s\<^sub>1"
    using live_id_iff [of cfg now "rq_requestId rq" "ar_fingerprint v" s\<^sub>1] s1
    by (auto simp: checkSemantic_def Let_def)
  have t: "snd (tryCommitNonce cfg now (av_nonce (rq_authority rq)) s\<^sub>2) \<longleftrightarrow> \<not> live_nonce cfg now (av_nonce (rq_authority rq)) s"
    by (simp add: live_nonce_iff s2 s1)
  have cm: "snd (commit_request cfg (\<lambda>_. now) NoFault v s\<^sub>2) = Authenticated ar \<longleftrightarrow>
      ar = v \<and> \<not> live_nonce cfg now (av_nonce (rq_authority rq)) s" if "m = Miss"
  proof -
    from c that pl have c': "checkSemantic cfg now (rq_requestId (ar_payload v)) (ar_fingerprint v) s\<^sub>1 = (s\<^sub>2, Miss)" by simp
    show ?thesis
      by (rule commit_request_cases [OF c', of "\<lambda>_. now" NoFault "fst (commit_request cfg (\<lambda>_. now) NoFault v s\<^sub>2)"
          "snd (commit_request cfg (\<lambda>_. now) NoFault v s\<^sub>2)"]) (use t pl in auto)
  qed
  show ?thesis
    using Inr g c x [symmetric] m cm acc v
    by (cases x; cases m) (simp_all add: authenticate_def)
qed

text \<open>
  C10. With a working disk \<open>authenticate\<close> lets a request through exactly when every check
  holds (owner principal, algorithm, key id, gateway, host, machine, age window, nonce present,
  signature by the current or the previous gateway key over the whole canonical document, peer
  user id) and the replay store holds no unexpired response for the same document, no
  unexpired entry for the request identifier and no unexpired use of the nonce; and what it
  hands on is the verified request.
\<close>

theorem authenticate_iff:
  "snd (authenticate env cfg au (\<lambda>_. now) NoFault rq peerUid s) = Authenticated ar \<longleftrightarrow>
     request_acceptable env cfg au now rq peerUid \<and> ar = verified env rq \<and>
     live_response cfg now (requestHash (env_sha256 env) (signing_document rq)) s = None \<and>
     \<not> live_id cfg now (rq_requestId rq) s \<and>
     \<not> live_nonce cfg now (av_nonce (rq_authority rq)) s"
  by (rule authenticate_decision)

text \<open>Nothing is added to the lists, and the file is not touched.\<close>

definition forgets :: "replay_store \<Rightarrow> replay_store \<Rightarrow> bool" where
  "forgets s s' \<longleftrightarrow> set (sd_nonces (rs_data s')) \<subseteq> set (sd_nonces (rs_data s))
     \<and> set (sd_idempotency (rs_data s')) \<subseteq> set (sd_idempotency (rs_data s)) \<and> rs_file s' = rs_file s"

lemma forgets_trans: "forgets s t \<Longrightarrow> forgets t u \<Longrightarrow> forgets s u"
  by (auto simp: forgets_def)

lemma forgets_prune: "forgets s (prune cfg t s)"
  by (auto simp: forgets_def)

lemma forgets_retry:
  assumes "forgets s s'" "\<not> snd (tryCommitNonce cfg t n s')"
  shows "forgets s (fst (getIdempotentResponse cfg t' h (fst (tryCommitNonce cfg t n s'))))"
  using forgets_trans [OF assms(1) forgets_trans [OF forgets_prune forgets_prune]] assms(2)
  by (auto simp: tryCommitNonce_def getIdempotentResponse_def Let_def split: if_splits)

text \<open>
  C19. A request that is not let through costs nothing: a refused or replayed request adds no
  nonce and no idempotency entry (it can only drop expired ones), and \<open>authenticate\<close> never
  stops at its own reservation: it fails only when the disk does.
\<close>

theorem authenticate_refusal_harmless:
  "case authenticate env cfg au clk fault rq peerUid s of
     (s', Rejected e) \<Rightarrow> forgets s s'
   | (s', IdempotentReplay r) \<Rightarrow> forgets s s'
   | (s', Faulted m) \<Rightarrow> fault \<noteq> NoFault
   | (s', Authenticated ar) \<Rightarrow> fault = NoFault"
proof (cases "verify_request env cfg au (clk 0) rq peerUid")
  case (Inl e)
  then show ?thesis by (simp add: authenticate_def forgets_def)
next
  case (Inr v)
  then have pl: "ar_payload v = rq" by (simp add: verify_request_Inr verified_def)
  obtain s\<^sub>1 x where g: "getIdempotentResponse cfg (clk 1) (ar_hash v) s = (s\<^sub>1, x)" by fastforce
  then have s1: "forgets s s\<^sub>1" using forgets_prune by (auto simp: getIdempotentResponse_def Let_def)
  obtain s\<^sub>2 m where c: "checkSemantic cfg (clk 2) (rq_requestId rq) (ar_fingerprint v) s\<^sub>1 = (s\<^sub>2, m)" by fastforce
  then have s2: "forgets s s\<^sub>2" using forgets_trans [OF s1 forgets_prune] by (auto simp: checkSemantic_def Let_def)
  obtain s\<^sub>3 out where cr: "commit_request cfg clk fault v s\<^sub>2 = (s\<^sub>3, out)" by fastforce
  have "case out of Rejected e \<Rightarrow> forgets s s\<^sub>3 | IdempotentReplay r \<Rightarrow> forgets s s\<^sub>3
      | Faulted m \<Rightarrow> fault \<noteq> NoFault | Authenticated ar \<Rightarrow> fault = NoFault" if "m = Miss"
  proof -
    from c that pl have "checkSemantic cfg (clk 2) (rq_requestId (ar_payload v)) (ar_fingerprint v) s\<^sub>1 = (s\<^sub>2, Miss)" by simp
    from this cr show ?thesis
      by (cases rule: commit_request_cases) (use forgets_retry [OF s2] in \<open>auto simp: apply_ops_def\<close>)
  qed
  with Inr g c s1 s2 cr show ?thesis
    by (cases x; cases m; cases out) (simp_all add: authenticate_def)
qed
end
