(* ===== verification/Receipts.thy ===== *)
theory Receipts
  imports Auth
begin

section \<open>Signed receipts and operation errors\<close>

text \<open>
  Models \<^verbatim>\<open>src/src/receipts/receipt.ts\<close>, \<^verbatim>\<open>src/src/receipts/verify.ts\<close> and
  \<^verbatim>\<open>src/src/operations/errors.ts\<close>. Signing and verifying are parameters. A receipt that the
  supervisor signs is accepted by the verifier, and the signed body determines every field of
  the receipt's input.
\<close>

subsection \<open>Receipt data\<close>

datatype release_status = Installed | Unknown

datatype epoch = EpochNumber int | EpochString string

record release_identity =
  rel_status :: release_status
  rel_manifestPath :: string
  rel_manifestSha256 :: "string option"
  rel_version :: "string option"
  rel_commit :: "string option"
  rel_tree :: "string option"
  rel_sourceDateEpoch :: "epoch option"

record receipt_input_v1 =
  ri_requestId :: string
  ri_operation :: string
  ri_subject :: string
  ri_authorityClass :: string
  ri_resultDigest :: string
  ri_timestamp :: string
  ri_machineIdSha256 :: string
  ri_hostname :: string

record receipt_input_v2 = receipt_input_v1 +
  ri_requestDigest :: string
  ri_requestFingerprint :: string
  ri_startedAt :: string
  ri_completedAt :: string
  ri_release :: release_identity

text \<open>What a signed receipt adds to its input. A receipt that arrives carries a schema
  version; for version 2.0.0 it has the members of a version 2 input, for version 1.0.0 those of a
  version 1 input.\<close>

record signed_receipt =
  sr_receiptSchemaVersion :: string
  sr_protocolVersion :: string
  sr_receiptId :: string
  sr_input :: receipt_input_v2
  sr_signature :: string
  sr_keyId :: string

definition RECEIPT_SCHEMA_VERSION :: string where
  "RECEIPT_SCHEMA_VERSION = ''2.0.0''"

primrec epoch_json :: "epoch \<Rightarrow> json" where
  "epoch_json (EpochNumber n) = JNum n"
| "epoch_json (EpochString s) = JStr s"

definition release_json :: "release_identity \<Rightarrow> json" where
  "release_json r = JObj (
     [(''status'', JStr (case rel_status r of Installed \<Rightarrow> ''installed'' | Unknown \<Rightarrow> ''unknown'')),
      (''manifestPath'', JStr (rel_manifestPath r))] @
     opt_entry ''manifestSha256'' (map_option JStr (rel_manifestSha256 r)) @
     opt_entry ''version'' (map_option JStr (rel_version r)) @
     opt_entry ''commit'' (map_option JStr (rel_commit r)) @
     opt_entry ''tree'' (map_option JStr (rel_tree r)) @
     opt_entry ''sourceDateEpoch'' (map_option epoch_json (rel_sourceDateEpoch r)))"

text \<open>\<open>String\<close> members of the installed manifest, \<open>unknown\<close> in place of anything else.\<close>

definition manifest_string :: "json_object \<Rightarrow> string \<Rightarrow> string" where
  "manifest_string m k = (case map_of m k of Some (JStr s) \<Rightarrow> s | _ \<Rightarrow> ''unknown'')"

definition manifest_epoch :: "json_object \<Rightarrow> epoch" where
  "manifest_epoch m = (case map_of m ''sourceDateEpoch'' of
     Some (JNum n) \<Rightarrow> EpochNumber n | Some (JStr s) \<Rightarrow> EpochString s | _ \<Rightarrow> EpochString ''unknown'')"

text \<open>The manifest file is absent, or its raw text with the result of parsing it. A parsed null
  has no members to read and throws, as a text that is not JSON does; any other value without
  members reads as undefined.\<close>

definition readReceiptReleaseIdentity :: "(string \<Rightarrow> string) \<Rightarrow> (string \<times> json option) option \<Rightarrow> release_identity" where
  "readReceiptReleaseIdentity sha256 manifest_file =
     (let manifestPath = dflt_currentLink DEFAULTS @ ''/manifest.json'';
          none = \<lparr>rel_status = Unknown, rel_manifestPath = manifestPath, rel_manifestSha256 = None, rel_version = None,
                  rel_commit = None, rel_tree = None, rel_sourceDateEpoch = None\<rparr>;
          installed = (\<lambda>raw m. \<lparr>rel_status = Installed, rel_manifestPath = manifestPath,
                  rel_manifestSha256 = Some (sha256 raw), rel_version = Some (manifest_string m ''version''),
                  rel_commit = Some (manifest_string m ''commit''), rel_tree = Some (manifest_string m ''tree''),
                  rel_sourceDateEpoch = Some (manifest_epoch m)\<rparr>)
      in case manifest_file of
           None \<Rightarrow> none
         | Some (raw, None) \<Rightarrow> none
         | Some (raw, Some JNull) \<Rightarrow> none
         | Some (raw, Some (JObj m)) \<Rightarrow> installed raw m
         | Some (raw, Some _) \<Rightarrow> installed raw [])"

subsection \<open>Signing and verifying\<close>

definition input_v1_entries :: "'a receipt_input_v1_scheme \<Rightarrow> json_object" where
  "input_v1_entries i =
     [(''requestId'', JStr (ri_requestId i)),
      (''operation'', JStr (ri_operation i)),
      (''subject'', JStr (ri_subject i)),
      (''authorityClass'', JStr (ri_authorityClass i)),
      (''resultDigest'', JStr (ri_resultDigest i)),
      (''timestamp'', JStr (ri_timestamp i)),
      (''machineIdSha256'', JStr (ri_machineIdSha256 i)),
      (''hostname'', JStr (ri_hostname i))]"

text \<open>The registry builds its input in the first order, the verifier in the second.\<close>

definition input_v2_entries :: "receipt_input_v2 \<Rightarrow> json_object" where
  "input_v2_entries i =
     [(''requestId'', JStr (ri_requestId i)),
      (''operation'', JStr (ri_operation i)),
      (''subject'', JStr (ri_subject i)),
      (''authorityClass'', JStr (ri_authorityClass i)),
      (''requestDigest'', JStr (ri_requestDigest i)),
      (''requestFingerprint'', JStr (ri_requestFingerprint i)),
      (''resultDigest'', JStr (ri_resultDigest i)),
      (''timestamp'', JStr (ri_timestamp i)),
      (''startedAt'', JStr (ri_startedAt i)),
      (''completedAt'', JStr (ri_completedAt i)),
      (''release'', release_json (ri_release i)),
      (''machineIdSha256'', JStr (ri_machineIdSha256 i)),
      (''hostname'', JStr (ri_hostname i))]"

definition verify_v2_entries :: "receipt_input_v2 \<Rightarrow> json_object" where
  "verify_v2_entries i =
     [(''requestId'', JStr (ri_requestId i)),
      (''operation'', JStr (ri_operation i)),
      (''subject'', JStr (ri_subject i)),
      (''authorityClass'', JStr (ri_authorityClass i)),
      (''requestDigest'', JStr (ri_requestDigest i)),
      (''requestFingerprint'', JStr (ri_requestFingerprint i)),
      (''resultDigest'', JStr (ri_resultDigest i)),
      (''timestamp'', JStr (ri_timestamp i)),
      (''startedAt'', JStr (ri_startedAt i)),
      (''completedAt'', JStr (ri_completedAt i)),
      (''machineIdSha256'', JStr (ri_machineIdSha256 i)),
      (''hostname'', JStr (ri_hostname i)),
      (''release'', release_json (ri_release i))]"

definition buildReceiptDigest :: "(string \<Rightarrow> string) \<Rightarrow> json_object \<Rightarrow> string" where
  "buildReceiptDigest sha256 input = sha256 (canonicalJson (JObj input))"

definition resultDigest :: "(string \<Rightarrow> string) \<Rightarrow> json \<Rightarrow> string" where
  "resultDigest sha256 result = sha256 (canonicalJson result)"

definition signing_body :: "json_object \<Rightarrow> string \<Rightarrow> string \<Rightarrow> string" where
  "signing_body input receiptId digest =
     canonicalJson (JObj (input @ [(''receiptId'', JStr receiptId), (''digest'', JStr digest)]))"

definition signReceipt ::
  "(string \<Rightarrow> string) \<Rightarrow> ('p \<Rightarrow> string \<Rightarrow> string) \<Rightarrow> receipt_input_v2 \<Rightarrow> 'p \<Rightarrow> string \<Rightarrow> signed_receipt" where
  "signReceipt sha256 signEd25519 input privateKey keyId =
     (let receiptId = take 32 (sha256 (ri_requestDigest input @ '':'' @ ri_resultDigest input @ '':'' @ ri_completedAt input));
          digest = buildReceiptDigest sha256 (input_v2_entries input);
          signature = signEd25519 privateKey (signing_body (input_v2_entries input) receiptId digest)
      in \<lparr>sr_receiptSchemaVersion = RECEIPT_SCHEMA_VERSION, sr_protocolVersion = PROTOCOL_VERSION,
          sr_receiptId = receiptId, sr_input = input, sr_signature = signature, sr_keyId = keyId\<rparr>)"

definition verifyInput ::
  "(string \<Rightarrow> string) \<Rightarrow> ('k \<Rightarrow> string \<Rightarrow> string \<Rightarrow> bool) \<Rightarrow> json_object \<Rightarrow> signed_receipt \<Rightarrow> 'k \<Rightarrow> bool" where
  "verifyInput sha256 verifyEd25519 input receipt publicKey =
     (let digest = buildReceiptDigest sha256 input
      in verifyEd25519 publicKey (signing_body input (sr_receiptId receipt) digest) (sr_signature receipt))"

definition verifyReceipt ::
  "(string \<Rightarrow> string) \<Rightarrow> ('k \<Rightarrow> string \<Rightarrow> string \<Rightarrow> bool) \<Rightarrow> signed_receipt \<Rightarrow> 'k \<Rightarrow> bool" where
  "verifyReceipt sha256 verifyEd25519 receipt publicKey =
     (if sr_receiptSchemaVersion receipt = ''1.0.0'' then
        verifyInput sha256 verifyEd25519 (input_v1_entries (sr_input receipt)) receipt publicKey
      else if sr_receiptSchemaVersion receipt = ''2.0.0'' then
        verifyInput sha256 verifyEd25519 (verify_v2_entries (sr_input receipt)) receipt publicKey
      else False)"

subsection \<open>Operation errors\<close>

record operation_error =
  oe_code :: string
  oe_message :: string
  oe_retryable :: bool
  oe_details :: "json_object option"
  oe_partial :: bool

text \<open>What an operation throws: its own error class, another \<open>Error\<close>, or another value.\<close>

datatype thrown = OperationError operation_error | ErrorMessage string | OtherValue

definition op_error :: "string \<Rightarrow> string \<Rightarrow> json_object option \<Rightarrow> thrown" where
  "op_error c message details =
     OperationError \<lparr>oe_code = c, oe_message = message, oe_retryable = False, oe_details = details, oe_partial = False\<rparr>"

definition inferCode :: "string \<Rightarrow> string" where
  "inferCode message =
     (let normalized = map to_lower message in
      if str_includes normalized ''not found'' then ''not_found''
      else if str_includes normalized ''destination exists'' then ''destination_exists''
      else if str_includes normalized ''required'' then ''invalid_request''
      else if str_includes normalized ''invalid'' then ''invalid_request''
      else if str_includes normalized ''permission denied'' then ''permission_denied''
      else if str_includes normalized ''not active'' \<or> str_includes normalized ''lost'' then ''not_active''
      else if str_includes normalized ''timeout'' then ''timeout''
      else ''operation_failed'')"

definition error_json :: "string \<Rightarrow> string \<Rightarrow> bool \<Rightarrow> string \<Rightarrow> string \<Rightarrow> bool \<Rightarrow> json_object option \<Rightarrow> json" where
  "error_json c message retryable operation requestId partial details = JObj [(''error'', JObj (
     [(''code'', JStr c), (''message'', JStr message), (''retryable'', JBool retryable),
      (''operation'', JStr operation), (''requestId'', JStr requestId), (''partial'', JBool partial)] @
     opt_entry ''details'' (map_option JObj details)))]"

definition normalizeOperationError :: "thrown \<Rightarrow> string \<Rightarrow> string \<Rightarrow> json" where
  "normalizeOperationError err operation requestId =
     (case err of
        OperationError e \<Rightarrow> error_json (oe_code e) (oe_message e) (oe_retryable e) operation requestId (oe_partial e) (oe_details e)
      | _ \<Rightarrow>
          let message = (case err of ErrorMessage m \<Rightarrow> m | _ \<Rightarrow> ''Operation failed'')
          in error_json (inferCode message) message False operation requestId False None)"

subsection \<open>Properties\<close>

lemma signing_body_order:
  "signing_body (verify_v2_entries i) rid d = signing_body (input_v2_entries i) rid d"
  "buildReceiptDigest sha256 (verify_v2_entries i) = buildReceiptDigest sha256 (input_v2_entries i)"
  unfolding signing_body_def buildReceiptDigest_def
  by (auto simp: verify_v2_entries_def input_v2_entries_def fun_eq_iff intro!: canonicalJson_reorder arg_cong [of _ _ sha256])

lemma release_json_inject:
  assumes "sortKeys (release_json r) = sortKeys (release_json r')"
  shows "r = r'"
proof -
  have opt: "map_option sortKeys (map_option JStr x) = map_option sortKeys (map_option JStr y) \<longleftrightarrow> x = y" for x y
    by (cases x; cases y) auto
  have ep: "sortKeys (epoch_json x) = sortKeys (epoch_json y) \<longleftrightarrow> x = y" for x y by (cases x; cases y) auto
  have eopt: "map_option sortKeys (map_option epoch_json x) = map_option sortKeys (map_option epoch_json y) \<longleftrightarrow> x = y" for x y
    by (cases x; cases y) (auto simp: ep)
  have find_opt: "map_of (opt_entry k x) l = (if k = l then x else None)" for k x l
    by (cases x) auto
  have dom_opt: "fst ` set (opt_entry k x) = (if x = None then {} else {k})" "distinct (map fst (opt_entry k x))" for k x
    by (cases x; simp)+
  let ?e = "\<lambda>r. [(''status'', JStr (case rel_status r of Installed \<Rightarrow> ''installed'' | Unknown \<Rightarrow> ''unknown'')),
      (''manifestPath'', JStr (rel_manifestPath r))] @
     opt_entry ''manifestSha256'' (map_option JStr (rel_manifestSha256 r)) @
     opt_entry ''version'' (map_option JStr (rel_version r)) @
     opt_entry ''commit'' (map_option JStr (rel_commit r)) @
     opt_entry ''tree'' (map_option JStr (rel_tree r)) @
     opt_entry ''sourceDateEpoch'' (map_option epoch_json (rel_sourceDateEpoch r)) @ []"
  have d: "distinct (map fst (?e r))" "''__proto__'' \<notin> set (map fst (?e r))" for r
    by (auto simp: dom_opt)
  have "canonicalJson (JObj (?e r)) = canonicalJson (JObj (?e r'))"
    using assms by (simp add: canonicalJson_def release_json_def)
  note l = canonicalJson_lookup [OF this d(1) d(1) d(2) d(2)]
  have "rel_status r = rel_status r'"
    using l [of "''status''"] by (simp split: release_status.splits)
  moreover have "rel_manifestPath r = rel_manifestPath r'" using l [of "''manifestPath''"] by simp
  moreover have "rel_manifestSha256 r = rel_manifestSha256 r'"
    using l [of "''manifestSha256''"] by (simp add: find_opt map_add_def opt split: option.splits)
  moreover have "rel_version r = rel_version r'"
    using l [of "''version''"] by (simp add: find_opt map_add_def opt split: option.splits)
  moreover have "rel_commit r = rel_commit r'"
    using l [of "''commit''"] by (simp add: find_opt map_add_def opt split: option.splits)
  moreover have "rel_tree r = rel_tree r'"
    using l [of "''tree''"] by (simp add: find_opt map_add_def opt split: option.splits)
  moreover have "rel_sourceDateEpoch r = rel_sourceDateEpoch r'"
    using l [of "''sourceDateEpoch''"] by (simp add: find_opt map_add_def eopt)
  ultimately show ?thesis by simp
qed

lemma signing_body_v2_inject:
  assumes "signing_body (input_v2_entries i) rid d = signing_body (input_v2_entries i') rid' d'"
  shows "i = i' \<and> rid = rid' \<and> d = d'"
proof -
  let ?e = "\<lambda>i rid d. input_v2_entries i @ [(''receiptId'', JStr rid), (''digest'', JStr d)]"
  have d: "distinct (map fst (?e i rid d))" "''__proto__'' \<notin> set (map fst (?e i rid d))" for i rid d
    by (simp_all add: input_v2_entries_def)
  note l = canonicalJson_lookup [OF assms [unfolded signing_body_def] d(1) d(1) d(2) d(2), unfolded input_v2_entries_def]
  have "ri_release i = ri_release i'" using l [of "''release''"] by (auto intro: release_json_inject)
  then show ?thesis
    using l [of "''requestId''"] l [of "''operation''"] l [of "''subject''"] l [of "''authorityClass''"] l [of "''requestDigest''"]
      l [of "''requestFingerprint''"] l [of "''resultDigest''"] l [of "''timestamp''"] l [of "''startedAt''"] l [of "''completedAt''"]
      l [of "''machineIdSha256''"] l [of "''hostname''"] l [of "''receiptId''"] l [of "''digest''"]
    by simp
qed

text \<open>
  A receipt the supervisor signs verifies under the matching public key, whatever the
  request, the result and the installed release: the body the verifier rebuilds from the receipt
  is, member for member, the body that was signed.
\<close>

theorem receipt_roundtrip:
  assumes key_pair: "\<And>document. verifyEd25519 publicKey document (signEd25519 privateKey document)"
  shows "verifyReceipt sha256 verifyEd25519 (signReceipt sha256 signEd25519 input privateKey keyId) publicKey"
  using key_pair
  by (simp add: verifyReceipt_def verifyInput_def signReceipt_def RECEIPT_SCHEMA_VERSION_def Let_def signing_body_order)

theorem receipt_roundtrip_witness:
  "verifyReceipt (\<lambda>d. ''h'' @ d) (\<lambda>k d sg. sg = k @ d)
     (signReceipt (\<lambda>d. ''h'' @ d) (\<lambda>k d. k @ d)
        \<lparr>ri_requestId = ''r1'', ri_operation = ''baby.health'', ri_subject = ''owner'', ri_authorityClass = ''unrestricted-owner'',
         ri_resultDigest = ''d'', ri_timestamp = ''t'', ri_machineIdSha256 = ''m'', ri_hostname = ''h'',
         ri_requestDigest = ''q'', ri_requestFingerprint = ''f'', ri_startedAt = ''s'', ri_completedAt = ''t'',
         ri_release = readReceiptReleaseIdentity (\<lambda>d. ''h'' @ d) (Some (''raw'', Some (JObj [(''version'', JStr ''1'')])))\<rparr>
        ''key'' ''key-id'') ''key''"
  by (rule receipt_roundtrip) simp

text \<open>
  The signed body of a receipt fixes everything in it: if two version 2 receipts are verified
  over the same document, they agree in every field of the input (request digest, fingerprint,
  result digest, times, release, host) and in the receipt identifier.
\<close>

theorem receipt_body_binds:
  "signing_body (verify_v2_entries (sr_input r)) (sr_receiptId r) (buildReceiptDigest sha256 (verify_v2_entries (sr_input r))) =
   signing_body (verify_v2_entries (sr_input r')) (sr_receiptId r') (buildReceiptDigest sha256 (verify_v2_entries (sr_input r')))
   \<longleftrightarrow> sr_input r = sr_input r' \<and> sr_receiptId r = sr_receiptId r'"
  by (auto simp: signing_body_order dest: signing_body_v2_inject)

end
