(* ===== verification/Operations.thy ===== *)
theory Operations
  imports Receipts
begin

section \<open>The operation catalogue and the registry's routing\<close>

text \<open>
  Models \<^verbatim>\<open>src/src/operations/definitions.ts\<close> (the catalogue that discovery advertises, without
  the descriptions and JSON schemas of its entries) and the routing of
  \<open>OperationRegistry.executeOperation\<close> in \<^verbatim>\<open>src/src/operations/registry.ts\<close>. What the managers
  behind the routes do is the parameter of \<open>executeOperation\<close>. The theorem shows that the
  catalogue and the routes agree.
\<close>

subsection \<open>The catalogue\<close>

datatype family = Discovery | HealthFamily | Execution | JobFamily | FileFamily | PtyFamily | ArtifactFamily
  | ReleaseFamily | Selfhost | DeliveryFamily

datatype idempotency_kind = ReadOnly | CallerKey | Conditional | NonIdempotent

datatype risk_level = LowRisk | MediumRisk | HighRisk

datatype cancellation_kind = NotApplicable | PreArmCleanupPostArmRollback | PreArmCancelPostArmRollback

datatype restart_kind = RestartReadOnly | DurableReconcile

record operation_definition =
  od_operation :: string
  od_family :: family
  od_version :: string
  od_mutation :: bool
  od_idempotency :: idempotency_kind
  od_risk :: risk_level
  od_cancellation :: "cancellation_kind option"
  od_restartBehavior :: "restart_kind option"

text \<open>An entry that gives neither cancellation nor restart behaviour, and one built by
  \<open>releaseOperation\<close>, which derives both.\<close>

definition plainOperation ::
  "string \<Rightarrow> family \<Rightarrow> string \<Rightarrow> bool \<Rightarrow> idempotency_kind \<Rightarrow> risk_level \<Rightarrow> operation_definition" where
  "plainOperation operation fam version mutation idem risk =
     \<lparr>od_operation = operation, od_family = fam, od_version = version, od_mutation = mutation,
      od_idempotency = idem, od_risk = risk, od_cancellation = None, od_restartBehavior = None\<rparr>"

definition releaseOperation ::
  "string \<Rightarrow> family \<Rightarrow> string \<Rightarrow> bool \<Rightarrow> idempotency_kind \<Rightarrow> risk_level \<Rightarrow> operation_definition" where
  "releaseOperation operation fam version mutation idem risk =
     (plainOperation operation fam version mutation idem risk)
       \<lparr>od_cancellation := Some (if mutation then PreArmCleanupPostArmRollback else NotApplicable),
        od_restartBehavior := Some (if mutation then DurableReconcile else RestartReadOnly)\<rparr>"

definition DELIVERY_OPERATION_VERSION :: string where
  "DELIVERY_OPERATION_VERSION = ''1.0.0''"

definition readContract :: "string \<Rightarrow> operation_definition" where
  "readContract operation =
     (plainOperation operation DeliveryFamily DELIVERY_OPERATION_VERSION False ReadOnly LowRisk)
       \<lparr>od_cancellation := Some NotApplicable, od_restartBehavior := Some RestartReadOnly\<rparr>"

definition mutateContract :: "string \<Rightarrow> risk_level \<Rightarrow> operation_definition" where
  "mutateContract operation risk =
     (plainOperation operation DeliveryFamily DELIVERY_OPERATION_VERSION True CallerKey risk)
       \<lparr>od_cancellation := Some PreArmCancelPostArmRollback, od_restartBehavior := Some DurableReconcile\<rparr>"

definition DELIVERY_DEFINITIONS :: "operation_definition list" where
  "DELIVERY_DEFINITIONS =
     [mutateContract ''baby.delivery.plan'' MediumRisk,
      mutateContract ''baby.delivery.execute'' HighRisk,
      readContract ''baby.delivery.get'',
      readContract ''baby.delivery.list'',
      readContract ''baby.delivery.events'',
      readContract ''baby.delivery.verify'',
      mutateContract ''baby.delivery.cancel'' HighRisk,
      mutateContract ''baby.delivery.rollback'' HighRisk,
      mutateContract ''baby.delivery.repair'' HighRisk,
      readContract ''baby.delivery.evidence.get'']"

definition OPERATION_DEFINITIONS :: "operation_definition list" where
  "OPERATION_DEFINITIONS =
    [plainOperation ''baby.describe'' Discovery ''1.0.0'' False ReadOnly LowRisk,
     plainOperation ''baby.health'' HealthFamily ''1.0.0'' False ReadOnly LowRisk,
     plainOperation ''baby.exec'' Execution ''1.0.0'' True CallerKey HighRisk,
     plainOperation ''baby.shell'' Execution ''1.0.0'' True CallerKey HighRisk,
     plainOperation ''baby.job.get'' JobFamily ''1.0.0'' False ReadOnly LowRisk,
     plainOperation ''baby.job.list'' JobFamily ''1.0.0'' False ReadOnly LowRisk,
     plainOperation ''baby.job.wait'' JobFamily ''1.0.0'' False ReadOnly LowRisk,
     plainOperation ''baby.job.cancel'' JobFamily ''1.0.0'' True CallerKey HighRisk,
     plainOperation ''baby.job.stream.read'' JobFamily ''1.0.0'' False ReadOnly LowRisk,
     plainOperation ''baby.file.stat'' FileFamily ''1.0.0'' False ReadOnly LowRisk,
     plainOperation ''baby.file.read'' FileFamily ''1.0.0'' False ReadOnly LowRisk,
     plainOperation ''baby.file.write'' FileFamily ''1.0.0'' True Conditional HighRisk,
     plainOperation ''baby.file.replace'' FileFamily ''1.0.0'' True CallerKey HighRisk,
     plainOperation ''baby.file.patch'' FileFamily ''1.0.0'' True Conditional HighRisk,
     plainOperation ''baby.file.copy'' FileFamily ''1.0.0'' True Conditional HighRisk,
     plainOperation ''baby.file.move'' FileFamily ''1.0.0'' True Conditional HighRisk,
     plainOperation ''baby.file.remove'' FileFamily ''1.0.0'' True CallerKey HighRisk,
     plainOperation ''baby.file.list'' FileFamily ''1.0.0'' False ReadOnly LowRisk,
     plainOperation ''baby.pty.create'' PtyFamily ''1.0.0'' True CallerKey HighRisk,
     plainOperation ''baby.pty.input'' PtyFamily ''1.0.0'' True NonIdempotent HighRisk,
     plainOperation ''baby.pty.resize'' PtyFamily ''1.0.0'' True CallerKey MediumRisk,
     plainOperation ''baby.pty.read'' PtyFamily ''1.0.0'' False ReadOnly LowRisk,
     plainOperation ''baby.pty.close'' PtyFamily ''1.0.0'' True CallerKey HighRisk,
     plainOperation ''baby.artifact.create'' ArtifactFamily ''1.0.0'' True CallerKey MediumRisk,
     plainOperation ''baby.artifact.begin'' ArtifactFamily ''1.0.0'' True CallerKey MediumRisk,
     plainOperation ''baby.artifact.upload'' ArtifactFamily ''1.0.0'' True Conditional MediumRisk,
     plainOperation ''baby.artifact.finalize'' ArtifactFamily ''1.0.0'' True CallerKey MediumRisk,
     plainOperation ''baby.artifact.abort'' ArtifactFamily ''1.0.0'' True CallerKey MediumRisk,
     plainOperation ''baby.artifact.download'' ArtifactFamily ''1.0.0'' False ReadOnly LowRisk,
     plainOperation ''baby.artifact.list'' ArtifactFamily ''1.0.0'' False ReadOnly LowRisk,
     plainOperation ''baby.artifact.get'' ArtifactFamily ''1.0.0'' False ReadOnly LowRisk,
     releaseOperation ''baby.release.status'' ReleaseFamily ''2.0.0'' False ReadOnly LowRisk,
     releaseOperation ''baby.release.build'' ReleaseFamily ''2.0.0'' True CallerKey MediumRisk,
     releaseOperation ''baby.release.stage'' ReleaseFamily ''2.0.0'' True CallerKey MediumRisk,
     releaseOperation ''baby.release.verify'' ReleaseFamily ''2.0.0'' False ReadOnly LowRisk,
     releaseOperation ''baby.release.activate'' ReleaseFamily ''2.0.0'' True CallerKey HighRisk,
     releaseOperation ''baby.release.rollback'' ReleaseFamily ''2.0.0'' True CallerKey HighRisk,
     releaseOperation ''baby.release.repair'' ReleaseFamily ''2.0.0'' True CallerKey HighRisk,
     releaseOperation ''baby.release.prune'' ReleaseFamily ''2.0.0'' True CallerKey MediumRisk,
     releaseOperation ''baby.selfhost.source.get'' Selfhost ''2.0.0'' True CallerKey MediumRisk,
     releaseOperation ''baby.selfhost.acceptance.run'' Selfhost ''2.0.0'' True CallerKey MediumRisk,
     releaseOperation ''baby.selfhost.evidence.get'' Selfhost ''2.0.0'' False ReadOnly LowRisk,
     plainOperation ''baby.github.describe'' Discovery ''1.0.0'' False ReadOnly LowRisk,
     plainOperation ''baby.github.remote.verify'' DeliveryFamily ''1.0.0'' False ReadOnly LowRisk] @
     DELIVERY_DEFINITIONS"

text \<open>What discovery reports for an entry.\<close>

definition discovered_cancellation :: "operation_definition \<Rightarrow> cancellation_kind" where
  "discovered_cancellation d =
     nullish (od_cancellation d) (if od_mutation d then PreArmCleanupPostArmRollback else NotApplicable)"

definition discovered_restart :: "operation_definition \<Rightarrow> restart_kind" where
  "discovered_restart d = nullish (od_restartBehavior d) (if od_mutation d then DurableReconcile else RestartReadOnly)"

definition OPERATIONS :: "string list" where
  "OPERATIONS = map od_operation OPERATION_DEFINITIONS"

subsection \<open>Routing\<close>

datatype handler = HGithub | HDeployment
  | HDescribe | HHealth | HExec | HShell | HJobGet | HJobList | HJobWait | HJobCancel | HJobStreamRead | HFileStat | HFileRead | HFileWrite | HFileReplace | HFilePatch | HFileCopy | HFileMove | HFileRemove | HFileList | HPtyCreate | HPtyInput | HPtyResize | HPtyRead | HPtyClose | HArtifactCreate | HArtifactBegin | HArtifactUpload | HArtifactFinalize | HArtifactAbort | HArtifactDownload | HArtifactList | HArtifactGet

definition GitHubRuntimeService_handles :: "string \<Rightarrow> bool" where
  "GitHubRuntimeService_handles operation \<longleftrightarrow>
     operation = ''baby.github.describe'' \<or> operation = ''baby.github.remote.verify''"

definition DELIVERY_OPERATIONS :: "string list" where
  "DELIVERY_OPERATIONS =
     [''baby.delivery.plan'', ''baby.delivery.execute'', ''baby.delivery.get'', ''baby.delivery.list'',
      ''baby.delivery.events'', ''baby.delivery.verify'', ''baby.delivery.cancel'', ''baby.delivery.rollback'',
      ''baby.delivery.repair'', ''baby.delivery.evidence.get'']"

definition RELEASE_OPERATIONS :: "string list" where
  "RELEASE_OPERATIONS =
     [''baby.release.status'', ''baby.release.build'', ''baby.release.stage'', ''baby.release.verify'',
      ''baby.release.activate'', ''baby.release.rollback'', ''baby.release.repair'', ''baby.release.prune'',
      ''baby.selfhost.source.get'', ''baby.selfhost.acceptance.run'', ''baby.selfhost.evidence.get'']"

definition AutomatedDeliveryService_handles :: "string \<Rightarrow> bool" where
  "AutomatedDeliveryService_handles operation \<longleftrightarrow> operation \<in> set DELIVERY_OPERATIONS"

definition StandaloneDeploymentService_handles :: "string \<Rightarrow> bool" where
  "StandaloneDeploymentService_handles operation \<longleftrightarrow>
     operation \<in> set RELEASE_OPERATIONS \<or> AutomatedDeliveryService_handles operation"

definition route :: "string \<Rightarrow> handler option" where
  "route operation =
     (if GitHubRuntimeService_handles operation then Some HGithub
      else if StandaloneDeploymentService_handles operation then Some HDeployment
      else if operation = ''baby.describe'' then Some HDescribe
      else if operation = ''baby.health'' then Some HHealth
      else if operation = ''baby.exec'' then Some HExec
      else if operation = ''baby.shell'' then Some HShell
      else if operation = ''baby.job.get'' then Some HJobGet
      else if operation = ''baby.job.list'' then Some HJobList
      else if operation = ''baby.job.wait'' then Some HJobWait
      else if operation = ''baby.job.cancel'' then Some HJobCancel
      else if operation = ''baby.job.stream.read'' then Some HJobStreamRead
      else if operation = ''baby.file.stat'' then Some HFileStat
      else if operation = ''baby.file.read'' then Some HFileRead
      else if operation = ''baby.file.write'' then Some HFileWrite
      else if operation = ''baby.file.replace'' then Some HFileReplace
      else if operation = ''baby.file.patch'' then Some HFilePatch
      else if operation = ''baby.file.copy'' then Some HFileCopy
      else if operation = ''baby.file.move'' then Some HFileMove
      else if operation = ''baby.file.remove'' then Some HFileRemove
      else if operation = ''baby.file.list'' then Some HFileList
      else if operation = ''baby.pty.create'' then Some HPtyCreate
      else if operation = ''baby.pty.input'' then Some HPtyInput
      else if operation = ''baby.pty.resize'' then Some HPtyResize
      else if operation = ''baby.pty.read'' then Some HPtyRead
      else if operation = ''baby.pty.close'' then Some HPtyClose
      else if operation = ''baby.artifact.create'' then Some HArtifactCreate
      else if operation = ''baby.artifact.begin'' then Some HArtifactBegin
      else if operation = ''baby.artifact.upload'' then Some HArtifactUpload
      else if operation = ''baby.artifact.finalize'' then Some HArtifactFinalize
      else if operation = ''baby.artifact.abort'' then Some HArtifactAbort
      else if operation = ''baby.artifact.download'' then Some HArtifactDownload
      else if operation = ''baby.artifact.list'' then Some HArtifactList
      else if operation = ''baby.artifact.get'' then Some HArtifactGet
      else None)"

definition unknown_operation :: "string \<Rightarrow> thrown" where
  "unknown_operation operation = OperationError
     \<lparr>oe_code = ''unknown_operation'', oe_message = ''Unknown operation: '' @ operation, oe_retryable = False,
      oe_details = Some [(''operation'', JStr operation)], oe_partial = False\<rparr>"

text \<open>\<open>run h\<close> is the manager behind route \<open>h\<close>: it takes the operation, the request identifier
  and the body to a new world and a result or a thrown value.\<close>

type_synonym 'w handler_run = "handler \<Rightarrow> string \<Rightarrow> string \<Rightarrow> json \<Rightarrow> 'w \<Rightarrow> 'w \<times> (thrown, json) result"

definition executeOperation :: "'w handler_run \<Rightarrow> string \<Rightarrow> string \<Rightarrow> json \<Rightarrow> 'w \<Rightarrow> 'w \<times> (thrown, json) result" where
  "executeOperation run operation requestId body w =
     (case route operation of
        None \<Rightarrow> (w, Inl (unknown_operation operation))
      | Some h \<Rightarrow> run h operation requestId body w)"

subsection \<open>Properties\<close>

lemmas route_defs = route_def GitHubRuntimeService_handles_def StandaloneDeploymentService_handles_def
  AutomatedDeliveryService_handles_def RELEASE_OPERATIONS_def DELIVERY_OPERATIONS_def

lemma OPERATIONS_eval: "OPERATIONS =
    [''baby.describe'', ''baby.health'', ''baby.exec'',
     ''baby.shell'', ''baby.job.get'', ''baby.job.list'',
     ''baby.job.wait'', ''baby.job.cancel'', ''baby.job.stream.read'',
     ''baby.file.stat'', ''baby.file.read'', ''baby.file.write'',
     ''baby.file.replace'', ''baby.file.patch'', ''baby.file.copy'',
     ''baby.file.move'', ''baby.file.remove'', ''baby.file.list'',
     ''baby.pty.create'', ''baby.pty.input'', ''baby.pty.resize'',
     ''baby.pty.read'', ''baby.pty.close'', ''baby.artifact.create'',
     ''baby.artifact.begin'', ''baby.artifact.upload'', ''baby.artifact.finalize'',
     ''baby.artifact.abort'', ''baby.artifact.download'', ''baby.artifact.list'',
     ''baby.artifact.get'', ''baby.release.status'', ''baby.release.build'',
     ''baby.release.stage'', ''baby.release.verify'', ''baby.release.activate'',
     ''baby.release.rollback'', ''baby.release.repair'', ''baby.release.prune'',
     ''baby.selfhost.source.get'', ''baby.selfhost.acceptance.run'', ''baby.selfhost.evidence.get'',
     ''baby.github.describe'', ''baby.github.remote.verify'', ''baby.delivery.plan'',
     ''baby.delivery.execute'', ''baby.delivery.get'', ''baby.delivery.list'',
     ''baby.delivery.events'', ''baby.delivery.verify'', ''baby.delivery.cancel'',
     ''baby.delivery.rollback'', ''baby.delivery.repair'', ''baby.delivery.evidence.get'']"
  by (simp add: OPERATIONS_def OPERATION_DEFINITIONS_def DELIVERY_DEFINITIONS_def plainOperation_def releaseOperation_def
      readContract_def mutateContract_def)

lemma route_advertised: "operation \<notin> set OPERATIONS \<Longrightarrow> route operation = None"
  unfolding OPERATIONS_eval route_defs by simp

lemma advertised_routes: "list_all (\<lambda>operation. route operation \<noteq> None) OPERATIONS"
  unfolding OPERATIONS_eval by code_simp

text \<open>
  C27. The catalogue and the registry agree: an operation is advertised exactly when the
  registry has a route for it, no operation is advertised twice, an entry is read-only exactly
  when it does not mutate, and what does not mutate is low risk, not cancellable and needs no
  reconciliation after a restart.
\<close>

theorem catalogue_matches_routes:
  "(operation \<in> set OPERATIONS \<longleftrightarrow> route operation \<noteq> None) \<and> distinct OPERATIONS \<and>
   list_all (\<lambda>d. (od_mutation d \<longleftrightarrow> od_idempotency d \<noteq> ReadOnly) \<and> (od_mutation d \<longleftrightarrow> od_risk d \<noteq> LowRisk) \<and>
     (od_mutation d \<longleftrightarrow> discovered_cancellation d \<noteq> NotApplicable) \<and>
     (od_mutation d \<longleftrightarrow> discovered_restart d = DurableReconcile)) OPERATION_DEFINITIONS"
proof (intro conjI)
  show "operation \<in> set OPERATIONS \<longleftrightarrow> route operation \<noteq> None"
  proof
    assume "operation \<in> set OPERATIONS"
    with advertised_routes [unfolded list_all_iff] show "route operation \<noteq> None" by (rule bspec)
  next
    assume "route operation \<noteq> None"
    then show "operation \<in> set OPERATIONS" using route_advertised by (rule contrapos_np)
  qed
  show "distinct OPERATIONS" unfolding OPERATIONS_eval by code_simp
qed code_simp

end
