(* ===== verification/Frame.thy ===== *)
theory Frame
  imports Prelude "HOL-Library.Word"
begin

unbundle bit_operations_syntax

section \<open>QRT1 wire framing\<close>

text \<open>
  Models \<^verbatim>\<open>src/src/protocol/frame.ts\<close>: the 32-byte header, \<open>encodeFrame\<close>,
  \<open>decodeHeader\<close>, \<open>formatUuid\<close> and the incremental reader \<open>feedFrames\<close>, on lists of
  bytes. Header fields keep their width: writing a value that does not fit throws, as
  \<open>writeUInt16BE\<close> and \<open>writeUInt32BE\<close> do. The theorems are the encode/decode round trip,
  that the reader gives the same frames however the byte stream is cut into chunks, and
  the bound on what it buffers.
\<close>

type_synonym byte = "8 word"

subsection \<open>Data\<close>

datatype frame_type = Hello | Welcome | Request | Response | Error | Event | Cancel | Ping | Pong

fun frame_type_code :: "frame_type \<Rightarrow> nat" where
  "frame_type_code Hello = 1"
| "frame_type_code Welcome = 2"
| "frame_type_code Request = 3"
| "frame_type_code Response = 4"
| "frame_type_code Error = 5"
| "frame_type_code Event = 6"
| "frame_type_code Cancel = 7"
| "frame_type_code Ping = 8"
| "frame_type_code Pong = 9"

record frame_header =
  magic :: string
  protocolVersion :: nat
  frameType :: nat
  requestId :: string
  payloadLength :: nat
  flags :: nat

record decoded_frame =
  header :: frame_header
  payload :: "byte list"

datatype protocol_error = TruncatedFrame | InvalidMagic | FrameTooLarge

text \<open>What \<open>Buffer.writeUIntBE\<close> throws on a value out of range.\<close>

datatype range_error = RangeError

definition HEADER_SIZE :: nat where "HEADER_SIZE = 32"

definition FRAME_MAGIC_BYTES :: "byte list" where
  "FRAME_MAGIC_BYTES = [0x51, 0x52, 0x54, 0x31]"

subsection \<open>Bytes and hexadecimal\<close>

definition be16 :: "nat \<Rightarrow> byte list" where
  "be16 n = [of_nat (n div 256), of_nat n]"

definition be32 :: "nat \<Rightarrow> byte list" where
  "be32 n = [of_nat (n div 2 ^ 24), of_nat (n div 2 ^ 16), of_nat (n div 2 ^ 8), of_nat n]"

definition read_be :: "byte list \<Rightarrow> nat" where
  "read_be bs = foldl (\<lambda>n b. 256 * n + unat b) 0 bs"

definition hex_val :: "char \<Rightarrow> nat option" where
  "hex_val c = (if is_digit c then Some (code c - 48)
     else if between (CHR ''a'') (CHR ''f'') c then Some (code c - 87)
     else if between (CHR ''A'') (CHR ''F'') c then Some (code c - 55) else None)"

text \<open>\<open>Buffer.from(s, 'hex')\<close> stops at the first pair that is not hexadecimal and drops an
  odd last digit.\<close>

fun from_hex :: "string \<Rightarrow> byte list" where
  "from_hex (a # b # s) =
     (case (hex_val a, hex_val b) of
        (Some x, Some y) \<Rightarrow> of_nat (16 * x + y) # from_hex s
      | _ \<Rightarrow> [])"
| "from_hex s = []"

definition hex_char :: "nat \<Rightarrow> char" where
  "hex_char d = (if d < 10 then char_of (48 + d) else char_of (87 + d))"

definition to_hex :: "byte list \<Rightarrow> string" where
  "to_hex bs = concat (map (\<lambda>b. [hex_char (unat b div 16), hex_char (unat b mod 16)]) bs)"

text \<open>\<open>toString('ascii')\<close> drops the top bit of every byte.\<close>

definition ascii :: "byte list \<Rightarrow> string" where
  "ascii bs = map (\<lambda>b. char_of (unat (b AND 0x7F))) bs"

subsection \<open>Encoding\<close>

definition encodeFrame ::
  "nat \<Rightarrow> byte list \<Rightarrow> string \<Rightarrow> nat \<Rightarrow> nat \<Rightarrow> (range_error, byte list) result" where
  "encodeFrame ftype body rid fl version =
     (let idBuf = from_hex (filter (\<lambda>c. c \<noteq> CHR ''-'') rid);
          ident = (if length idBuf = 16 then idBuf else replicate 16 0)
      in res_bind (check (version < 2 ^ 16) RangeError) (\<lambda>_.
         res_bind (check (ftype < 2 ^ 16) RangeError) (\<lambda>_.
         res_bind (check (length body < 2 ^ 32) RangeError) (\<lambda>_.
         res_bind (check (fl < 2 ^ 32) RangeError) (\<lambda>_.
         Inr (FRAME_MAGIC_BYTES @ be16 version @ be16 ftype @ ident @ be32 (length body) @ be32 fl @ body))))))"

subsection \<open>Decoding\<close>

definition formatUuid :: "byte list \<Rightarrow> string" where
  "formatUuid buf =
     (let hex = to_hex buf
      in take 8 hex @ ''-'' @ take 4 (drop 8 hex) @ ''-'' @ take 4 (drop 12 hex) @ ''-''
         @ take 4 (drop 16 hex) @ ''-'' @ drop 20 hex)"

definition decodeHeader :: "byte list \<Rightarrow> (protocol_error, frame_header) result" where
  "decodeHeader buf =
     (if length buf < HEADER_SIZE then Inl TruncatedFrame
      else if ascii (take 4 buf) \<noteq> ''QRT1'' then Inl InvalidMagic
      else Inr \<lparr>magic = ascii (take 4 buf),
        protocolVersion = read_be (take 2 (drop 4 buf)),
        frameType = read_be (take 2 (drop 6 buf)),
        requestId = formatUuid (take 16 (drop 8 buf)),
        payloadLength = read_be (take 4 (drop 24 buf)),
        flags = read_be (take 4 (drop 28 buf))\<rparr>)"

text \<open>
  The reader's loop over its buffer. A step takes one whole frame; a throw leaves the
  buffer where it is and loses the frames decoded in this call, so the result is the
  buffer and either the error or the frames.
\<close>

function feed_loop :: "nat \<Rightarrow> byte list \<Rightarrow> decoded_frame list \<Rightarrow> byte list \<times> (protocol_error, decoded_frame list) result" where
  "feed_loop maxFrameSize buffer frames =
     (if HEADER_SIZE \<le> length buffer then
        (case decodeHeader buffer of
           Inl e \<Rightarrow> (buffer, Inl e)
         | Inr h \<Rightarrow>
             if payloadLength h > maxFrameSize then (buffer, Inl FrameTooLarge)
             else if length buffer < HEADER_SIZE + payloadLength h then (buffer, Inr frames)
             else feed_loop maxFrameSize (drop (HEADER_SIZE + payloadLength h) buffer)
                    (frames @ [\<lparr>header = h, payload = take (payloadLength h) (drop HEADER_SIZE buffer)\<rparr>]))
      else (buffer, Inr frames))"
  by pat_completeness auto
termination
  by (relation "measure (\<lambda>(m, b, f). length b)") (auto simp: HEADER_SIZE_def)

declare feed_loop.simps [simp del]

record frame_reader =
  buffer :: "byte list"

definition createFrameReader :: frame_reader where
  "createFrameReader = \<lparr>buffer = []\<rparr>"

definition feedFrames ::
  "frame_reader \<Rightarrow> byte list \<Rightarrow> nat \<Rightarrow> frame_reader \<times> (protocol_error, decoded_frame list) result" where
  "feedFrames state chunk maxFrameSize =
     (case feed_loop maxFrameSize (buffer state @ chunk) [] of
        (b, r) \<Rightarrow> (state\<lparr>buffer := b\<rparr>, r))"

text \<open>A connection feeds chunk after chunk until one of them throws.\<close>

fun feed_all :: "frame_reader \<Rightarrow> byte list list \<Rightarrow> nat \<Rightarrow> frame_reader \<times> (protocol_error, decoded_frame list) result" where
  "feed_all state [] m = (state, Inr [])"
| "feed_all state (c # cs) m =
     (case feedFrames state c m of
        (state', Inl e) \<Rightarrow> (state', Inl e)
      | (state', Inr fs) \<Rightarrow>
          (case feed_all state' cs m of
             (state'', Inl e) \<Rightarrow> (state'', Inl e)
           | (state'', Inr gs) \<Rightarrow> (state'', Inr (fs @ gs))))"

subsection \<open>Integers and hexadecimal round trips\<close>

lemma byte_nibbles: "unat b div 16 < 16" for b :: byte
proof -
  have "unat b < 2 ^ LENGTH(8)" by (rule unsigned_less)
  then show ?thesis by (simp add: less_mult_imp_div_less)
qed

lemma unat_of_nat_byte: "unat (of_nat n :: byte) = n mod 256"
  by (simp add: unat_of_nat)

lemma read_be_be16: "n < 2 ^ 16 \<Longrightarrow> read_be (be16 n) = n"
  by (simp add: read_be_def be16_def unat_of_nat_byte)

lemma read_be_be32: "n < 2 ^ 32 \<Longrightarrow> read_be (be32 n) = n"
proof -
  assume n: "n < 2 ^ 32"
  have "256 * (256 * (256 * (n div 2 ^ 24 mod 256) + n div 2 ^ 16 mod 256) + n div 2 ^ 8 mod 256) + n mod 256 = n"
  proof -
    have "n div 2 ^ 24 < 256" using n by (simp add: less_mult_imp_div_less)
    moreover have "n div 2 ^ 24 = n div 2 ^ 16 div 256" "n div 2 ^ 16 = n div 2 ^ 8 div 256" "n div 2 ^ 8 = n div 256"
      by (simp_all add: div_mult2_eq [symmetric])
    ultimately show ?thesis
      using mult_div_mod_eq [of 256 "n div 2 ^ 16"] mult_div_mod_eq [of 256 "n div 2 ^ 8"] mult_div_mod_eq [of 256 n]
      by (simp only: mod_less)
  qed
  then show ?thesis by (simp only: read_be_def be32_def foldl.simps unat_of_nat_byte mult_0_right add_0)
qed

lemma length_be [simp]: "length (be16 n) = 2" "length (be32 n) = 4" "length FRAME_MAGIC_BYTES = 4"
  by (simp_all add: be16_def be32_def FRAME_MAGIC_BYTES_def)

lemma hex_val_hex_char: "d < 16 \<Longrightarrow> hex_val (hex_char d) = Some d"
  by (auto simp: hex_val_def hex_char_def is_digit_def between_def code_def)

lemma from_hex_to_hex: "from_hex (to_hex bs @ s) = bs @ from_hex s"
proof (induction bs)
  case Nil
  then show ?case by (simp add: to_hex_def)
next
  case (Cons b bs)
  show ?case using Cons byte_nibbles [of b] by (simp add: to_hex_def hex_val_hex_char)
qed

lemma hex_char_no_dash: "d < 16 \<Longrightarrow> hex_char d \<noteq> CHR ''-''"
  using hex_val_hex_char [of d] by (auto simp: hex_val_def is_digit_def between_def code_def)

lemma to_hex_no_dash: "filter (\<lambda>c. c \<noteq> CHR ''-'') (to_hex bs) = to_hex bs"
  by (induction bs) (simp_all add: to_hex_def hex_char_no_dash byte_nibbles)

lemma length_to_hex [simp]: "length (to_hex bs) = 2 * length bs"
  by (induction bs) (simp_all add: to_hex_def)

lemma formatUuid_from_hex:
  assumes "length bs = 16"
  shows "from_hex (filter (\<lambda>c. c \<noteq> CHR ''-'') (formatUuid bs)) = bs"
proof -
  have "take 8 (to_hex bs) @ take 4 (drop 8 (to_hex bs)) @ take 4 (drop 12 (to_hex bs)) @ take 4 (drop 16 (to_hex bs))
      @ drop 20 (to_hex bs) = to_hex bs"
    using append_take_drop_id [of 8 "to_hex bs"] append_take_drop_id [of 4 "drop 8 (to_hex bs)"]
      append_take_drop_id [of 4 "drop 12 (to_hex bs)"] append_take_drop_id [of 4 "drop 16 (to_hex bs)"]
    by (simp del: append_take_drop_id)
  moreover have "filter (\<lambda>c. c \<noteq> CHR ''-'') (formatUuid bs) =
      filter (\<lambda>c. c \<noteq> CHR ''-'') (take 8 (to_hex bs) @ take 4 (drop 8 (to_hex bs)) @ take 4 (drop 12 (to_hex bs))
        @ take 4 (drop 16 (to_hex bs)) @ drop 20 (to_hex bs))"
    by (simp add: formatUuid_def Let_def)
  ultimately show ?thesis using from_hex_to_hex [of bs "[]"] by (simp add: to_hex_no_dash)
qed

subsection \<open>One frame\<close>

definition frame_bytes :: "nat \<Rightarrow> byte list \<Rightarrow> byte list \<Rightarrow> nat \<Rightarrow> nat \<Rightarrow> byte list" where
  "frame_bytes ftype body ident fl version =
     FRAME_MAGIC_BYTES @ be16 version @ be16 ftype @ ident @ be32 (length body) @ be32 fl @ body"

definition sent_frame :: "nat \<Rightarrow> byte list \<Rightarrow> byte list \<Rightarrow> nat \<Rightarrow> nat \<Rightarrow> decoded_frame" where
  "sent_frame ftype body ident fl version =
     \<lparr>header = \<lparr>magic = ''QRT1'', protocolVersion = version, frameType = ftype, requestId = formatUuid ident,
        payloadLength = length body, flags = fl\<rparr>, payload = body\<rparr>"

definition encodable :: "nat \<Rightarrow> byte list \<Rightarrow> byte list \<Rightarrow> nat \<Rightarrow> nat \<Rightarrow> bool" where
  "encodable ftype body ident fl version \<longleftrightarrow>
     ftype < 2 ^ 16 \<and> version < 2 ^ 16 \<and> fl < 2 ^ 32 \<and> length body < 2 ^ 32 \<and> length ident = 16"

lemma encodeFrame_uuid:
  "encodable ftype body ident fl version \<Longrightarrow>
     encodeFrame ftype body (formatUuid ident) fl version = Inr (frame_bytes ftype body ident fl version)"
  by (simp add: encodable_def encodeFrame_def formatUuid_from_hex frame_bytes_def)

lemma ascii_magic: "ascii FRAME_MAGIC_BYTES = ''QRT1''"
  by code_simp

lemma decodeHeader_frame_bytes:
  assumes "encodable ftype body ident fl version"
  shows "decodeHeader (frame_bytes ftype body ident fl version @ rest) = Inr (header (sent_frame ftype body ident fl version))"
  using assms
  by (simp add: encodable_def decodeHeader_def frame_bytes_def sent_frame_def HEADER_SIZE_def ascii_magic
      read_be_be16 read_be_be32 numeral_2_eq_2 [symmetric] drop_append take_append)

subsection \<open>The reader does not depend on chunk boundaries\<close>

lemma decodeHeader_append: "HEADER_SIZE \<le> length a \<Longrightarrow> decodeHeader (a @ c) = decodeHeader a"
  by (simp add: decodeHeader_def HEADER_SIZE_def)

lemma feed_loop_frames:
  "feed_loop m b fs = (case feed_loop m b [] of (b', Inl e) \<Rightarrow> (b', Inl e) | (b', Inr gs) \<Rightarrow> (b', Inr (fs @ gs)))"
proof (induction "length b" arbitrary: b fs rule: less_induct)
  case less
  show ?case
  proof (cases "HEADER_SIZE \<le> length b")
    case False
    then show ?thesis by (simp add: feed_loop.simps [of m b])
  next
    case True
    show ?thesis
    proof (cases "decodeHeader b")
      case (Inl e)
      with True show ?thesis by (simp add: feed_loop.simps [of m b])
    next
      case (Inr h)
      let ?n = "HEADER_SIZE + payloadLength h"
      let ?f = "\<lparr>header = h, payload = take (payloadLength h) (drop HEADER_SIZE b)\<rparr>"
      have shorter: "length (drop ?n b) < length b" using True by (simp add: HEADER_SIZE_def)
      from less [OF shorter, of "fs @ [?f]"] less [OF shorter, of "[?f]"] True Inr show ?thesis
        by (simp add: feed_loop.simps [of m b] split: prod.splits sum.splits)
    qed
  qed
qed

lemma feed_loop_append_Inr:
  "feed_loop m a [] = (b, Inr fs) \<Longrightarrow> feed_loop m (a @ c) gs = feed_loop m (b @ c) (gs @ fs)"
proof (induction "length a" arbitrary: a fs gs rule: less_induct)
  case less
  show ?case
  proof (cases "HEADER_SIZE \<le> length a")
    case False
    with less.prems show ?thesis by (simp add: feed_loop.simps [of m a])
  next
    case True
    then obtain h where h: "decodeHeader a = Inr h" "\<not> m < payloadLength h"
      using less.prems by (auto simp: feed_loop.simps [of m a] split: sum.splits if_splits)
    let ?n = "HEADER_SIZE + payloadLength h"
    let ?f = "\<lparr>header = h, payload = take (payloadLength h) (drop HEADER_SIZE a)\<rparr>"
    show ?thesis
    proof (cases "length a < ?n")
      case True
      with less.prems h \<open>HEADER_SIZE \<le> length a\<close> show ?thesis by (simp add: feed_loop.simps [of m a])
    next
      case False
      have rest: "feed_loop m (drop ?n a) [?f] = (b, Inr fs)"
        using less.prems h True False by (simp add: feed_loop.simps [of m a])
      then obtain fs' where fs': "feed_loop m (drop ?n a) [] = (b, Inr fs')" "fs = ?f # fs'"
        by (subst (asm) feed_loop_frames) (auto split: prod.splits sum.splits)
      have shorter: "length (drop ?n a) < length a" using True by (simp add: HEADER_SIZE_def)
      have "feed_loop m (a @ c) gs = feed_loop m (drop ?n a @ c) (gs @ [?f])"
        using True False h by (simp add: feed_loop.simps [of m "a @ c"] decodeHeader_append)
      also have "\<dots> = feed_loop m (b @ c) (gs @ fs)"
        using less.hyps [OF shorter fs'(1), of "gs @ [?f]"] fs'(2) by simp
      finally show ?thesis .
    qed
  qed
qed

lemma feed_loop_append_Inl:
  "feed_loop m a [] = (b, Inl e) \<Longrightarrow> feed_loop m (a @ c) gs = (b @ c, Inl e)"
proof (induction "length a" arbitrary: a gs rule: less_induct)
  case less
  then have True: "HEADER_SIZE \<le> length a" by (auto simp: feed_loop.simps [of m a] split: if_splits)
  show ?case
  proof (cases "decodeHeader a")
    case (Inl e')
    with less.prems True have "b = a" "e' = e" by (auto simp: feed_loop.simps [of m a])
    with Inl True show ?thesis
      by (simp add: feed_loop.simps [of m "a @ c"] decodeHeader_append)
  next
    case (Inr h)
    let ?n = "HEADER_SIZE + payloadLength h"
    let ?f = "\<lparr>header = h, payload = take (payloadLength h) (drop HEADER_SIZE a)\<rparr>"
    show ?thesis
    proof (cases "m < payloadLength h")
      case True
      with less.prems Inr \<open>HEADER_SIZE \<le> length a\<close> have "b = a" "e = FrameTooLarge"
        by (auto simp: feed_loop.simps [of m a])
      with Inr True \<open>HEADER_SIZE \<le> length a\<close> show ?thesis
        by (simp add: feed_loop.simps [of m "a @ c"] decodeHeader_append)
    next
      case False
      have n: "?n \<le> length a"
        using less.prems Inr True False by (auto simp: feed_loop.simps [of m a] split: if_splits)
      have "feed_loop m (drop ?n a) [?f] = (b, Inl e)"
        using less.prems Inr True False n by (simp add: feed_loop.simps [of m a])
      then have "feed_loop m (drop ?n a) [] = (b, Inl e)"
        by (subst (asm) feed_loop_frames) (auto split: prod.splits sum.splits)
      moreover have "length (drop ?n a) < length a" using True by (simp add: HEADER_SIZE_def)
      ultimately show ?thesis
        using less.hyps [of "drop ?n a" "gs @ [?f]"] True Inr False n
        by (simp add: feed_loop.simps [of m "a @ c"] decodeHeader_append)
    qed
  qed
qed

text \<open>A buffer is drained when it holds no further whole frame and no detectable error.\<close>

definition drained :: "nat \<Rightarrow> byte list \<Rightarrow> bool" where
  "drained m b \<longleftrightarrow> feed_loop m b [] = (b, Inr [])"

lemma feed_loop_drained: "feed_loop m a [] = (b, Inr fs) \<Longrightarrow> drained m b"
proof (induction "length a" arbitrary: a fs rule: less_induct)
  case less
  show ?case
  proof (cases "HEADER_SIZE \<le> length a")
    case False
    with less.prems have "b = a" by (simp add: feed_loop.simps [of m a])
    with False show ?thesis by (simp add: drained_def feed_loop.simps [of m a])
  next
    case len: True
    then obtain h where h: "decodeHeader a = Inr h" "\<not> m < payloadLength h"
      using less.prems by (auto simp: feed_loop.simps [of m a] split: sum.splits if_splits)
    let ?n = "HEADER_SIZE + payloadLength h"
    show ?thesis
    proof (cases "length a < ?n")
      case True
      with less.prems len h have "b = a" by (simp add: feed_loop.simps [of m a])
      with True len h show ?thesis by (simp add: drained_def feed_loop.simps [of m a])
    next
      case False
      with less.prems len h have
        "feed_loop m (drop ?n a) [\<lparr>header = h, payload = take (payloadLength h) (drop HEADER_SIZE a)\<rparr>] = (b, Inr fs)"
        by (simp add: feed_loop.simps [of m a])
      then obtain gs where "feed_loop m (drop ?n a) [] = (b, Inr gs)"
        by (subst (asm) feed_loop_frames) (auto split: prod.splits sum.splits)
      from less.hyps [OF _ this] len show ?thesis by (simp add: HEADER_SIZE_def)
    qed
  qed
qed

lemma drained_bound:
  assumes "drained m b"
  shows "length b < HEADER_SIZE + m"
proof (cases "HEADER_SIZE \<le> length b")
  case True
  with assms obtain h where h: "decodeHeader b = Inr h" "payloadLength h \<le> m"
    by (auto simp: drained_def feed_loop.simps [of m b] split: sum.splits if_splits)
  let ?n = "HEADER_SIZE + payloadLength h"
  let ?f = "\<lparr>header = h, payload = take (payloadLength h) (drop HEADER_SIZE b)\<rparr>"
  have "length b < ?n"
  proof (rule ccontr)
    assume "\<not> length b < ?n"
    with assms True h have "feed_loop m (drop ?n b) [?f] = (b, Inr [])"
      by (simp add: drained_def feed_loop.simps [of m b])
    then show False by (subst (asm) feed_loop_frames) (auto split: prod.splits sum.splits)
  qed
  with h show ?thesis by simp
next
  case False
  then show ?thesis by simp
qed

lemma feed_all_chunks:
  assumes "drained m (buffer st)"
  shows "snd (feed_all st cs m) = snd (feedFrames st (concat cs) m)
    \<and> (ok (snd (feed_all st cs m)) \<longrightarrow> fst (feed_all st cs m) = fst (feedFrames st (concat cs) m))"
  using assms
proof (induction cs arbitrary: st)
  case Nil
  then show ?case by (simp add: drained_def feedFrames_def)
next
  case (Cons c cs)
  obtain b r where br: "feed_loop m (buffer st @ c) [] = (b, r)" by (cases "feed_loop m (buffer st @ c) []")
  show ?case
  proof (cases r)
    case (Inl e)
    with br feed_loop_append_Inl [of m "buffer st @ c" b e "concat cs" "[]"] show ?thesis
      by (simp add: feedFrames_def)
  next
    case (Inr fs)
    let ?st = "st\<lparr>buffer := b\<rparr>"
    have whole: "feed_loop m (buffer st @ c @ concat cs) [] = feed_loop m (b @ concat cs) fs"
      using br Inr feed_loop_append_Inr [of m "buffer st @ c" b fs "concat cs" "[]"] by simp
    have "drained m (buffer ?st)" using br Inr feed_loop_drained by simp
    note IH = Cons.IH [OF this]
    show ?thesis
      using br Inr IH whole feed_loop_frames [of m "b @ concat cs" fs]
      by (auto simp: feedFrames_def split: prod.splits sum.splits)
  qed
qed

lemma drained_empty: "drained m (buffer createFrameReader)"
  by (simp add: drained_def createFrameReader_def feed_loop.simps [of m "[]"] HEADER_SIZE_def)

subsection \<open>Properties\<close>

lemma feed_loop_frame_bytes:
  assumes "encodable ftype body ident fl version" "length body \<le> m"
  shows "feed_loop m (frame_bytes ftype body ident fl version @ rest) fs
    = feed_loop m rest (fs @ [sent_frame ftype body ident fl version])"
proof -
  let ?bs = "frame_bytes ftype body ident fl version"
  have len: "length ?bs = HEADER_SIZE + length body" "drop HEADER_SIZE ?bs = body"
    using assms(1) by (simp_all add: frame_bytes_def encodable_def HEADER_SIZE_def)
  have "payloadLength (header (sent_frame ftype body ident fl version)) = length body"
    by (simp add: sent_frame_def)
  moreover have "\<lparr>header = header (sent_frame ftype body ident fl version), payload = body\<rparr> = sent_frame ftype body ident fl version"
    by (simp add: sent_frame_def)
  ultimately show ?thesis
    using assms len by (simp add: feed_loop.simps [of m "?bs @ rest"] decodeHeader_frame_bytes)
qed

lemma encodeFrame_uuidD:
  assumes "encodeFrame ftype body (formatUuid ident) fl version = Inr bs" "length ident = 16"
  shows "encodable ftype body ident fl version \<and> bs = frame_bytes ftype body ident fl version"
  using assms
  by (auto simp: encodeFrame_def Let_def res_simps formatUuid_from_hex frame_bytes_def encodable_def)

lemma feed_loop_stream:
  assumes "list_all2 (\<lambda>(ft, body, ident, fl, v) bs. encodeFrame ft body (formatUuid ident) fl v = Inr bs
      \<and> length ident = 16 \<and> length body \<le> m) fs bss"
  shows "feed_loop m (concat bss) gs = ([], Inr (gs @ map (\<lambda>(ft, body, ident, fl, v). sent_frame ft body ident fl v) fs))"
  using assms
proof (induction fs bss arbitrary: gs rule: list_all2_induct)
  case Nil
  then show ?case by (simp add: feed_loop.simps [of m "[]"] HEADER_SIZE_def)
next
  case (Cons f fs bs bss)
  then show ?case
    by (auto dest!: encodeFrame_uuidD simp: feed_loop_frame_bytes)
qed

text \<open>
  C21. A stream of encoded frames is read back exactly: whatever way the concatenated
  encodings of frames (each with a 16-byte identifier and a payload within the limit) are
  cut into chunks, the reader delivers the same frames in order, with their type, version,
  flags, identifier and payload, and nothing else.
\<close>

theorem feedFrames_roundtrip:
  assumes "list_all2 (\<lambda>(ft, body, ident, fl, v) bs. encodeFrame ft body (formatUuid ident) fl v = Inr bs
      \<and> length ident = 16 \<and> length body \<le> m) fs bss"
    and "concat cs = concat bss"
  shows "snd (feed_all createFrameReader cs m) =
    Inr (map (\<lambda>(ft, body, ident, fl, v). sent_frame ft body ident fl v) fs)"
proof -
  have "snd (feed_all createFrameReader cs m) = snd (feedFrames createFrameReader (concat bss) m)"
    using feed_all_chunks [OF drained_empty, where cs = cs] assms(2) by simp
  also have "\<dots> = Inr (map (\<lambda>(ft, body, ident, fl, v). sent_frame ft body ident fl v) fs)"
    using feed_loop_stream [OF assms(1), of "[]"] by (simp add: feedFrames_def createFrameReader_def)
  finally show ?thesis .
qed

theorem feedFrames_roundtrip_witness:
  "snd (feed_all createFrameReader
      [take 5 (frame_bytes 8 [1, 2] (replicate 16 7) 0 1), drop 5 (frame_bytes 8 [1, 2] (replicate 16 7) 0 1)] 1024) =
   Inr (map (\<lambda>(ft, body, ident, fl, v). sent_frame ft body ident fl v) [(8, [1, 2], replicate 16 7, 0, 1)])"
  by (rule feedFrames_roundtrip [where bss = "[frame_bytes 8 [1, 2] (replicate 16 7) 0 1]"])
    (simp_all add: encodeFrame_uuid encodable_def)

text \<open>
  The reader does not depend on how the byte stream is cut: feeding chunk after chunk to
  a fresh reader gives the frames (or the error) of feeding all bytes at once, and the same
  rest in the buffer.
\<close>

theorem feedFrames_chunk_independent:
  "snd (feed_all createFrameReader cs m) = snd (feedFrames createFrameReader (concat cs) m)
   \<and> (ok (snd (feed_all createFrameReader cs m)) \<longrightarrow>
      fst (feed_all createFrameReader cs m) = fst (feedFrames createFrameReader (concat cs) m))"
  by (rule feed_all_chunks [OF drained_empty])

theorem feedFrames_chunk_independent_witness:
  "snd (feed_all createFrameReader [[0x51, 0x52], [0x54, 0x31] @ replicate 28 0] 16) =
     snd (feedFrames createFrameReader (concat [[0x51, 0x52], [0x54, 0x31] @ replicate 28 0]) 16)"
  using feedFrames_chunk_independent [of "[[0x51, 0x52], [0x54, 0x31] @ replicate 28 0]" 16] by (rule conjunct1)

lemma feed_loop_payloads:
  "feed_loop m a fs = (b, Inr gs) \<Longrightarrow> \<forall>f\<in>set fs. length (payload f) \<le> m \<Longrightarrow> \<forall>f\<in>set gs. length (payload f) \<le> m"
proof (induction m a fs rule: feed_loop.induct)
  case (1 m a fs)
  show ?case
  proof (cases "HEADER_SIZE \<le> length a")
    case False
    with 1(2,3) show ?thesis by (simp add: feed_loop.simps [of m a])
  next
    case True
    then obtain h where h: "decodeHeader a = Inr h" "\<not> m < payloadLength h"
      using 1(2) by (auto simp: feed_loop.simps [of m a] split: sum.splits if_splits)
    show ?thesis
    proof (cases "length a < HEADER_SIZE + payloadLength h")
      case True
      with 1(2,3) h \<open>HEADER_SIZE \<le> length a\<close> show ?thesis by (simp add: feed_loop.simps [of m a])
    next
      case False
      with 1(2,3) h True show ?thesis
        by (intro 1(1)) (auto simp: feed_loop.simps [of m a])
    qed
  qed
qed

text \<open>
  C28. Memory is bounded: after a chunk was read without error the buffer holds less than one
  header and one maximal payload, and every delivered payload is within the limit.
\<close>

theorem feedFrames_bounded:
  assumes "feedFrames st chunk m = (st', Inr fs)"
  shows "length (buffer st') < HEADER_SIZE + m \<and> (\<forall>f\<in>set fs. length (payload f) \<le> m)"
proof
  from assms have r: "feed_loop m (buffer st @ chunk) [] = (buffer st', Inr fs)"
    by (auto simp: feedFrames_def split: prod.splits)
  show "length (buffer st') < HEADER_SIZE + m"
    by (rule drained_bound [OF feed_loop_drained [OF r]])
  show "\<forall>f\<in>set fs. length (payload f) \<le> m" by (rule feed_loop_payloads [OF r]) simp
qed

theorem feedFrames_bounded_witness:
  "feedFrames createFrameReader (frame_bytes 8 [1, 2] (replicate 16 7) 0 1 @ [0x51]) 1024
     = (\<lparr>buffer = [0x51]\<rparr>, Inr [sent_frame 8 [1, 2] (replicate 16 7) 0 1])
   \<and> length (buffer \<lparr>buffer = [0x51]\<rparr>) < HEADER_SIZE + 1024
   \<and> length (payload (sent_frame 8 [1, 2] (replicate 16 7) 0 1)) \<le> 1024"
proof -
  have run: "feedFrames createFrameReader (frame_bytes 8 [1, 2] (replicate 16 7) 0 1 @ [0x51]) 1024
      = (\<lparr>buffer = [0x51]\<rparr>, Inr [sent_frame 8 [1, 2] (replicate 16 7) 0 1])"
    by (simp add: feedFrames_def createFrameReader_def feed_loop_frame_bytes encodable_def
        feed_loop.simps [of 1024 "[0x51]"] HEADER_SIZE_def)
  show ?thesis using run feedFrames_bounded [OF run] by simp
qed

text \<open>
  The magic check looks at seven bits of each byte only: a header whose four magic bytes
  all have their top bit set is decoded like one with the exact magic.
\<close>

theorem decodeHeader_magic_top_bit:
  "decodeHeader (map (\<lambda>b. b OR 0x80) FRAME_MAGIC_BYTES @ rest) = decodeHeader (FRAME_MAGIC_BYTES @ rest)"
proof -
  have "ascii (map (\<lambda>b. b OR 0x80) FRAME_MAGIC_BYTES) = ascii FRAME_MAGIC_BYTES" by code_simp
  then show ?thesis by (simp add: decodeHeader_def)
qed

end
