(* ===== verification/Server.thy ===== *)
theory Server
  imports Operations Frame
begin

section \<open>The socket server: handshake, dispatch, at-most-once execution\<close>

text \<open>
  Models \<^verbatim>\<open>src/src/server.ts\<close> (\<open>handleConnection\<close>, \<open>handleRequest\<close>, \<open>sendError\<close>) and
  \<open>OperationRegistry.dispatch\<close> of \<^verbatim>\<open>src/src/operations/registry.ts\<close>, on top of the frame
  reader, the authenticator, the replay store and the receipts. \<open>JSON.parse\<close>, the managers
  behind the routes, the signing key and the installed manifest are the fields of
  \<open>server_env\<close>. The text of exceptions that the JavaScript engine words is not modelled
  (\<open>None\<close>). Binding the socket is not modelled.

  \<open>sys_step\<close> is the supervisor as a transition system in which requests arrive, their
  operations finish in any order, writes fail, and the process restarts on what is on disk.
\<close>

subsection \<open>Environment\<close>

record ('k, 'p, 'w) server_env =
  se_auth :: "'k auth_env"
  se_authenticator :: "'k authenticator"
  se_privateKey :: "'p option"
  se_signEd25519 :: "'p \<Rightarrow> string \<Rightarrow> string"
  se_run :: "'w handler_run"
  se_pruneJobs :: "nat \<Rightarrow> 'w \<Rightarrow> 'w"
  se_manifest :: "(string \<times> json option) option"
  se_parseJson :: "byte list \<Rightarrow> json option"
  se_parseRequest :: "byte list \<Rightarrow> request_payload option"

definition machine_identity :: "'k auth_env \<Rightarrow> string" where
  "machine_identity env =
     (let m = getMachineIdSha256 (env_sha256 env) (env_machineIdFile env) in if m = [] then ''unknown'' else m)"

subsection \<open>dispatch\<close>

definition receipt_json :: "signed_receipt \<Rightarrow> json" where
  "receipt_json r = JObj (
     [(''receiptSchemaVersion'', JStr (sr_receiptSchemaVersion r)),
      (''protocolVersion'', JStr (sr_protocolVersion r)),
      (''receiptId'', JStr (sr_receiptId r))] @ input_v2_entries (sr_input r) @
     [(''signature'', JStr (sr_signature r)), (''keyId'', JStr (sr_keyId r))])"

definition receipt_input :: "('k, 'p, 'w) server_env \<Rightarrow> auth_request \<Rightarrow> json \<Rightarrow> string \<Rightarrow> string \<Rightarrow> receipt_input_v2" where
  "receipt_input env ar result startedAt completedAt =
     \<lparr>ri_requestId = rq_requestId (ar_payload ar), ri_operation = rq_operation (ar_payload ar),
      ri_subject = ar_subject ar, ri_authorityClass = ar_authorityClass ar,
      ri_resultDigest = resultDigest (env_sha256 (se_auth env)) result,
      ri_timestamp = completedAt, ri_machineIdSha256 = machine_identity (se_auth env),
      ri_hostname = env_hostname (se_auth env),
      ri_requestDigest = ar_hash ar, ri_requestFingerprint = ar_fingerprint ar,
      ri_startedAt = startedAt, ri_completedAt = completedAt,
      ri_release = readReceiptReleaseIdentity (env_sha256 (se_auth env)) (se_manifest env)\<rparr>"

definition response_payload ::
  "('k, 'p, 'w) server_env \<Rightarrow> runtime_config \<Rightarrow> auth_request \<Rightarrow> json \<Rightarrow> string \<Rightarrow> string \<Rightarrow> json" where
  "response_payload env cfg ar result startedAt completedAt = JObj (
     [(''requestId'', JStr (rq_requestId (ar_payload ar))),
      (''operation'', JStr (rq_operation (ar_payload ar))),
      (''result'', result)] @
     opt_entry ''receipt'' (map_option (\<lambda>k. receipt_json (signReceipt (env_sha256 (se_auth env)) (se_signEd25519 env)
        (receipt_input env ar result startedAt completedAt) k (cfg_supervisorReceiptKeyId cfg))) (se_privateKey env)))"

definition request_body :: "request_payload \<Rightarrow> json" where
  "request_body rq = (case rq_payload rq of None \<Rightarrow> JObj [] | Some JNull \<Rightarrow> JObj [] | Some v \<Rightarrow> v)"

text \<open>The operation runs; what it throws becomes the result.\<close>

definition operation_result :: "('k, 'p, 'w) server_env \<Rightarrow> auth_request \<Rightarrow> 'w \<Rightarrow> 'w \<times> json" where
  "operation_result env ar w =
     (let rq = ar_payload ar in
      case executeOperation (se_run env) (rq_operation rq) (rq_requestId rq) (request_body rq) w of
        (w, Inr v) \<Rightarrow> (w, v)
      | (w, Inl err) \<Rightarrow> (w, normalizeOperationError err (rq_operation rq) (rq_requestId rq)))"

text \<open>The response is stored under the request's hash, identifier and fingerprint and written to
  disk; the second component is whether writing threw.\<close>

definition store_response :: "runtime_config \<Rightarrow> int \<Rightarrow> io_fault \<Rightarrow> auth_request \<Rightarrow> json \<Rightarrow> replay_store \<Rightarrow> replay_store \<times> bool" where
  "store_response cfg now fault ar response s =
     persist fault (storeIdempotentResponse cfg now (ar_hash ar) response
       (Some (rq_requestId (ar_payload ar))) (Some (ar_fingerprint ar)) s)"

definition dispatch ::
  "('k, 'p, 'w) server_env \<Rightarrow> runtime_config \<Rightarrow> (nat \<Rightarrow> int) \<Rightarrow> io_fault \<Rightarrow> auth_request \<Rightarrow> 'w \<times> replay_store \<Rightarrow>
     ('w \<times> replay_store) \<times> (string, json) result" where
  "dispatch env cfg clk fault ar = (\<lambda>(w, s).
     let startedAt = to_iso (clk 5);
         (w, result) = operation_result env ar w;
         completedAt = to_iso (clk 6);
         response = response_payload env cfg ar result startedAt completedAt;
         (s, threw) = store_response cfg (clk 7) fault ar response s
     in if threw then ((w, s), Inl ''persist failed'')
        else ((se_pruneJobs env (cfg_maxRetentionJobs cfg) w, s), Inr response))"

subsection \<open>handleRequest\<close>

datatype reply =
    ResponseFrame json
  | ErrorFrame string "string option" bool "json_object option"

definition ZERO_UUID :: string where
  "ZERO_UUID = ''00000000-0000-0000-0000-000000000000''"

definition handleRequest ::
  "('k, 'p, 'w) server_env \<Rightarrow> runtime_config \<Rightarrow> (nat \<Rightarrow> int) \<Rightarrow> io_fault \<Rightarrow> io_fault \<Rightarrow> string option \<Rightarrow> byte list \<Rightarrow> int option \<Rightarrow>
     'w \<times> replay_store \<Rightarrow> ('w \<times> replay_store) \<times> string \<times> reply" where
  "handleRequest env cfg clk fault fault' negotiatedAlgorithm bytes peerUid = (\<lambda>(w, s).
     case se_parseRequest env bytes of
       None \<Rightarrow> ((w, s), ZERO_UUID, ErrorFrame ''invalid_request'' (Some ''Invalid JSON request'') False None)
     | Some rq \<Rightarrow>
         if negotiatedAlgorithm \<noteq> Some ''ed25519'' then
           ((w, s), rq_requestId rq, ErrorFrame ''handshake_required'' (Some ''Ed25519 handshake required'') False None)
         else
           (case authenticate (se_auth env) cfg (se_authenticator env) clk fault rq peerUid s of
              (s, IdempotentReplay r) \<Rightarrow> ((w, s), rq_requestId rq, ResponseFrame r)
            | (s, Rejected e) \<Rightarrow>
                ((w, s), rq_requestId rq, ErrorFrame (ae_code e) (Some (ae_message e)) (ae_retryable e) (ae_details e))
            | (s, Faulted m) \<Rightarrow> ((w, s), rq_requestId rq, ErrorFrame ''operation_failed'' (Some m) True None)
            | (s, Authenticated ar) \<Rightarrow>
                (case dispatch env cfg clk fault' ar (w, s) of
                   (st, Inr response) \<Rightarrow> (st, rq_requestId rq, ResponseFrame response)
                 | (st, Inl m) \<Rightarrow> (st, rq_requestId rq, ErrorFrame ''operation_failed'' (Some m) True None))))"

subsection \<open>handleConnection\<close>

record connection =
  cn_reader :: frame_reader
  cn_handshaken :: bool
  cn_algorithm :: "string option"
  cn_open :: bool

datatype action =
    SendWelcome string json
  | SendError string string "string option"
  | SendPong string
  | Serve "string option" "byte list"
  | Destroy

definition new_connection :: connection where
  "new_connection = \<lparr>cn_reader = createFrameReader, cn_handshaken = False, cn_algorithm = None, cn_open = True\<rparr>"

text \<open>\<open>hello.supportedAlgorithms.includes('ed25519')\<close>: an array is searched for the element, a
  string for the substring, and reading or calling on anything else throws (\<open>None\<close>).\<close>

definition supports_ed25519 :: "json option \<Rightarrow> bool option" where
  "supports_ed25519 hello = (case hello of
     Some (JObj kvs) \<Rightarrow>
       (case map_of kvs ''supportedAlgorithms'' of
          Some (JArr vs) \<Rightarrow> Some (JStr ''ed25519'' \<in> set vs)
        | Some (JStr s) \<Rightarrow> Some (str_includes s ''ed25519'')
        | _ \<Rightarrow> None)
   | _ \<Rightarrow> None)"

definition welcome_json :: "('k, 'p, 'w) server_env \<Rightarrow> runtime_config \<Rightarrow> json" where
  "welcome_json env cfg = JObj
     [(''serverId'', JStr (cfg_supervisorId cfg)),
      (''protocolVersion'', JStr PROTOCOL_VERSION),
      (''selectedFeatures'', JArr [JStr ''compression.none'']),
      (''selectedAlgorithm'', JStr ''ed25519''),
      (''machineIdSha256'', JStr (machine_identity (se_auth env))),
      (''hostname'', JStr (env_hostname (se_auth env)))]"

text \<open>The loop over the frames of one chunk, up to where the handler gives way: it ends, throws, or
  waits for a request to be handled with the remaining frames still to come.\<close>

datatype loop_end = LoopDone | LoopThrew | LoopAwaits "decoded_frame list"

fun handle_frames ::
  "('k, 'p, 'w) server_env \<Rightarrow> runtime_config \<Rightarrow> decoded_frame list \<Rightarrow> connection \<Rightarrow> connection \<times> action list \<times> loop_end" where
  "handle_frames env cfg [] c = (c, [], LoopDone)"
| "handle_frames env cfg (f # fs) c =
     (let rid = requestId (header f); ft = frameType (header f) in
      if \<not> cn_handshaken c then
        if ft \<noteq> frame_type_code Hello then
          (c\<lparr>cn_open := False\<rparr>, [SendError rid ''handshake_required'' (Some ''Hello required''), Destroy], LoopDone)
        else
          (case supports_ed25519 (se_parseJson env (payload f)) of
             None \<Rightarrow> (c, [], LoopThrew)
           | Some False \<Rightarrow>
               (c\<lparr>cn_open := False\<rparr>, [SendError rid ''unsupported_algorithm'' (Some ''Ed25519 is required''), Destroy], LoopDone)
           | Some True \<Rightarrow>
               (case handle_frames env cfg fs (c\<lparr>cn_handshaken := True, cn_algorithm := Some ''ed25519''\<rparr>) of
                  (c, acts, e) \<Rightarrow> (c, SendWelcome rid (welcome_json env cfg) # acts, e)))
      else if ft = frame_type_code Request then (c, [Serve (cn_algorithm c) (payload f)], LoopAwaits fs)
      else
        (case handle_frames env cfg fs c of
           (c', acts, e) \<Rightarrow>
             (c', (if ft = frame_type_code Ping then [SendPong rid]
                   else if ft = frame_type_code Cancel then []
                   else [SendError rid ''unsupported_frame'' (Some (''Unsupported frame type: '' @ nat_str ft))]) @ acts, e)))"

primrec protocol_error_code :: "protocol_error \<Rightarrow> string" where
  "protocol_error_code TruncatedFrame = ''truncated_frame''"
| "protocol_error_code InvalidMagic = ''invalid_magic''"
| "protocol_error_code FrameTooLarge = ''frame_too_large''"

primrec protocol_error_message :: "protocol_error \<Rightarrow> string" where
  "protocol_error_message TruncatedFrame = ''Frame header truncated''"
| "protocol_error_message InvalidMagic = ''Invalid frame magic''"
| "protocol_error_message FrameTooLarge = ''Frame payload exceeds maximum size''"

text \<open>A session: the connection and the loops of earlier chunks that are waiting for a request,
  each with its remaining frames. \<open>Chunk\<close> is a \<open>data\<close> event (a destroyed socket delivers no more
  data); \<open>Resume k\<close> continues the \<open>k\<close>-th waiting loop, whether or not the socket is still open.\<close>

type_synonym session = "connection \<times> decoded_frame list list"

datatype session_event = Chunk "byte list" | Resume nat

definition run_loop ::
  "('k, 'p, 'w) server_env \<Rightarrow> runtime_config \<Rightarrow> decoded_frame list \<Rightarrow> session \<Rightarrow> session \<times> action list" where
  "run_loop env cfg fs = (\<lambda>(c, waiting).
     case handle_frames env cfg fs c of
       (c, acts, LoopDone) \<Rightarrow> ((c, waiting), acts)
     | (c, acts, LoopAwaits rest) \<Rightarrow> ((c, waiting @ [rest]), acts)
     | (c, acts, LoopThrew) \<Rightarrow>
         ((c\<lparr>cn_open := False\<rparr>, waiting), acts @ [SendError ZERO_UUID ''protocol_error'' None, Destroy]))"

definition on_data ::
  "('k, 'p, 'w) server_env \<Rightarrow> runtime_config \<Rightarrow> byte list \<Rightarrow> session \<Rightarrow> session \<times> action list" where
  "on_data env cfg chunk = (\<lambda>(c, waiting).
     if \<not> cn_open c then ((c, waiting), [])
     else case feedFrames (cn_reader c) chunk (cfg_maxFrameSize cfg) of
       (rd, Inl e) \<Rightarrow>
         ((c\<lparr>cn_reader := rd, cn_open := False\<rparr>, waiting),
          [SendError ZERO_UUID (protocol_error_code e) (Some (protocol_error_message e)), Destroy])
     | (rd, Inr fs) \<Rightarrow> run_loop env cfg fs (c\<lparr>cn_reader := rd\<rparr>, waiting))"

primrec session_step ::
  "('k, 'p, 'w) server_env \<Rightarrow> runtime_config \<Rightarrow> session_event \<Rightarrow> session \<Rightarrow> session \<times> action list" where
  "session_step env cfg (Chunk bytes) s = on_data env cfg bytes s"
| "session_step env cfg (Resume k) s =
     (if k < length (snd s) then run_loop env cfg (snd s ! k) (fst s, take k (snd s) @ drop (Suc k) (snd s)) else (s, []))"

fun run_session ::
  "('k, 'p, 'w) server_env \<Rightarrow> runtime_config \<Rightarrow> session_event list \<Rightarrow> session \<Rightarrow> session \<times> action list" where
  "run_session env cfg [] s = (s, [])"
| "run_session env cfg (e # es) s =
     (case session_step env cfg e s of
        (s, acts) \<Rightarrow> (case run_session env cfg es s of (s, acts') \<Rightarrow> (s, acts @ acts')))"

subsection \<open>The handshake protects every request\<close>

text \<open>The shape of a session: before the welcome nothing but one error and the end; after it
  requests are served and errors may be sent; after the end only what was received before it.\<close>

datatype phase = Before | Welcomed | Ended

fun session_ok :: "phase \<Rightarrow> action list \<Rightarrow> bool" where
  "session_ok p [] = True"
| "session_ok p (SendWelcome _ _ # acts) = (p = Before \<and> session_ok Welcomed acts)"
| "session_ok p (SendError _ _ _ # acts) = (if p = Before then acts = [Destroy] else session_ok p acts)"
| "session_ok p (SendPong _ # acts) = (p \<noteq> Before \<and> session_ok p acts)"
| "session_ok p (Serve alg _ # acts) = (p \<noteq> Before \<and> alg = Some ''ed25519'' \<and> session_ok p acts)"
| "session_ok p (Destroy # acts) = (p = Welcomed \<and> session_ok Ended acts)"

definition phase_of :: "connection \<Rightarrow> phase" where
  "phase_of c = (if \<not> cn_handshaken c then Before else if cn_open c then Welcomed else Ended)"

text \<open>What holds between two events: the algorithm is fixed by the handshake, and loops wait only after it.\<close>

definition session_inv :: "session \<Rightarrow> bool" where
  "session_inv s \<longleftrightarrow> (cn_handshaken (fst s) \<longrightarrow> cn_algorithm (fst s) = Some ''ed25519'') \<and> (\<not> cn_handshaken (fst s) \<longrightarrow> snd s = [])"

definition dead :: "session \<Rightarrow> bool" where
  "dead s \<longleftrightarrow> \<not> cn_handshaken (fst s) \<and> \<not> cn_open (fst s)"

text \<open>The actions of a step fit before whatever may follow it.\<close>

definition fits :: "session \<Rightarrow> session \<times> action list \<Rightarrow> bool" where
  "fits s = (\<lambda>(s', acts). session_inv s' \<and>
     (\<forall>rest. (if dead s' then rest = [] else session_ok (phase_of (fst s')) rest) \<longrightarrow> session_ok (phase_of (fst s)) (acts @ rest)))"

text \<open>After the handshake the loop sends no welcome, neither throws nor ends the connection.\<close>

lemma handle_frames_after:
  assumes "cn_handshaken c" "cn_algorithm c = Some ''ed25519''"
  shows "\<exists>acts e. handle_frames env cfg fs c = (c, acts, e) \<and> e \<noteq> LoopThrew
    \<and> (\<forall>p rest. p \<noteq> Before \<longrightarrow> session_ok p rest \<longrightarrow> session_ok p (acts @ rest))"
  using assms
proof (induction fs)
  case (Cons f fs)
  then obtain acts e where "handle_frames env cfg fs c = (c, acts, e)" "e \<noteq> LoopThrew"
    "\<forall>p rest. p \<noteq> Before \<longrightarrow> session_ok p rest \<longrightarrow> session_ok p (acts @ rest)" by blast
  with Cons.prems show ?case by (simp add: Let_def)
qed simp

lemma phase_of_after: "cn_handshaken c \<Longrightarrow> phase_of c \<noteq> Before"
  by (simp add: phase_of_def)

lemma run_loop_after:
  assumes "session_inv (c, waiting)" "cn_handshaken c"
  shows "fits (c, w) (run_loop env cfg fs (c, waiting))"
proof -
  obtain acts e where h: "handle_frames env cfg fs c = (c, acts, e)" "e \<noteq> LoopThrew"
    "\<forall>p rest. p \<noteq> Before \<longrightarrow> session_ok p rest \<longrightarrow> session_ok p (acts @ rest)"
    using handle_frames_after [of c env cfg fs] assms by (auto simp: session_inv_def)
  with assms phase_of_after [of c] show ?thesis
    by (cases e) (auto simp: run_loop_def fits_def session_inv_def dead_def)
qed

lemma handle_frames_before:
  assumes "\<not> cn_handshaken c"
  shows "(\<exists>f fs'. fs = f # fs' \<and> supports_ed25519 (se_parseJson env (payload f)) = Some True \<and> frameType (header f) = frame_type_code Hello)
    \<or> fs = [] \<or> handle_frames env cfg fs c = (c, [], LoopThrew)
    \<or> (\<exists>r k m. handle_frames env cfg fs c = (c\<lparr>cn_open := False\<rparr>, [SendError r k m, Destroy], LoopDone))"
  using assms by (cases fs) (auto simp: Let_def split: option.splits bool.splits)

lemma run_loop_fits:
  assumes inv: "session_inv (c, waiting)" and "cn_open c"
  shows "fits (c, w) (run_loop env cfg fs (c, waiting))"
proof (cases "cn_handshaken c")
  case True
  with inv show ?thesis by (rule run_loop_after)
next
  case False
  with inv have w: "waiting = []" by (simp add: session_inv_def)
  from handle_frames_before [OF False, of fs env cfg] show ?thesis
  proof (elim disjE exE conjE)
    fix f fs' assume fs: "fs = f # fs'" "supports_ed25519 (se_parseJson env (payload f)) = Some True"
      "frameType (header f) = frame_type_code Hello"
    let ?c = "c\<lparr>cn_handshaken := True, cn_algorithm := Some ''ed25519''\<rparr>"
    obtain s' acts where r: "run_loop env cfg fs' (?c, []) = (s', acts)" by fastforce
    then have e: "run_loop env cfg fs (c, []) = (s', SendWelcome (requestId (header f)) (welcome_json env cfg) # acts)"
      using False fs by (auto simp: run_loop_def Let_def split: prod.splits loop_end.splits)
    have "fits (?c, []) (s', acts)"
      using run_loop_after [of ?c "[]" "[]" env cfg fs'] r by (simp add: session_inv_def)
    with e w False \<open>cn_open c\<close> show ?thesis by (auto simp: fits_def phase_of_def)
  qed (use False w in \<open>auto simp: run_loop_def fits_def session_inv_def dead_def phase_of_def\<close>)
qed

lemma session_step_fits:
  assumes inv: "session_inv s" and "\<not> dead s"
  shows "fits s (session_step env cfg e s)"
proof (cases e)
  case (Chunk bytes)
  obtain c waiting where s: "s = (c, waiting)" by fastforce
  show ?thesis
  proof (cases "cn_open c")
    case False
    with s Chunk inv \<open>\<not> dead s\<close> show ?thesis by (simp add: on_data_def fits_def)
  next
    case True
    obtain rd r where f: "feedFrames (cn_reader c) bytes (cfg_maxFrameSize cfg) = (rd, r)" by fastforce
    show ?thesis
    proof (cases r)
      case (Inl e)
      with True f s Chunk inv show ?thesis
        by (auto simp: on_data_def fits_def session_inv_def dead_def phase_of_def)
    next
      case (Inr fs)
      have "fits (c\<lparr>cn_reader := rd\<rparr>, waiting) (run_loop env cfg fs (c\<lparr>cn_reader := rd\<rparr>, waiting))"
        using True s inv by (intro run_loop_fits) (auto simp: session_inv_def)
      moreover have "phase_of (c\<lparr>cn_reader := rd\<rparr>) = phase_of c" by (simp add: phase_of_def)
      ultimately show ?thesis using True f Inr s Chunk by (simp add: on_data_def fits_def)
    qed
  qed
next
  case (Resume k)
  obtain c waiting where s: "s = (c, waiting)" by fastforce
  show ?thesis
  proof (cases "k < length waiting")
    case False
    with s Resume inv \<open>\<not> dead s\<close> show ?thesis by (simp add: fits_def)
  next
    case True
    with s inv have "cn_handshaken c" by (auto simp: session_inv_def)
    with True s Resume inv show ?thesis
      by (auto intro!: run_loop_after simp: session_inv_def)
  qed
qed

lemma dead_session: "dead s \<Longrightarrow> session_inv s \<Longrightarrow> session_step env cfg e s = (s, [])"
  by (cases e; cases s) (auto simp: dead_def session_inv_def on_data_def)

lemma run_session_ok:
  assumes "session_inv s" "run_session env cfg es s = (s', acts)"
  shows "if dead s then acts = [] else session_ok (phase_of (fst s)) acts"
  using assms
proof (induction es arbitrary: s s' acts)
  case (Cons e es)
  obtain s\<^sub>1 acts\<^sub>1 where st: "session_step env cfg e s = (s\<^sub>1, acts\<^sub>1)" by fastforce
  obtain acts\<^sub>2 where r: "run_session env cfg es s\<^sub>1 = (s', acts\<^sub>2)" "acts = acts\<^sub>1 @ acts\<^sub>2"
    using Cons.prems(2) st by (auto split: prod.splits)
  show ?case
  proof (cases "dead s")
    case True
    with st Cons.prems(1) have "s\<^sub>1 = s" "acts\<^sub>1 = []" by (auto simp: dead_session)
    with True r Cons.IH [OF Cons.prems(1)] show ?thesis by auto
  next
    case False
    with st session_step_fits [OF Cons.prems(1)] have f: "fits s (s\<^sub>1, acts\<^sub>1)" by metis
    then have "session_inv s\<^sub>1" by (simp add: fits_def)
    from Cons.IH [OF this r(1)] f r(2) False show ?thesis by (simp add: fits_def)
  qed
qed simp


subsection \<open>The supervisor as a transition system\<close>

text \<open>The store, the requests whose operations are running, the log of every request that was let
  through (latest first) with the times its nonce and its identifier were recorded, and the
  last clock reading.\<close>

record exec_record =
  ex_nonceAt :: int
  ex_reservedAt :: int
  ex_request :: auth_request

record system =
  sys_store :: replay_store
  sys_inflight :: "auth_request list"
  sys_log :: "exec_record list"
  sys_now :: int

definition initial_system :: "store_file \<Rightarrow> int \<Rightarrow> system" where
  "initial_system f now = \<lparr>sys_store = new_store f, sys_inflight = [], sys_log = [], sys_now = now\<rparr>"

definition clock_from :: "int \<Rightarrow> (nat \<Rightarrow> int) \<Rightarrow> bool" where
  "clock_from now clk \<longleftrightarrow> now \<le> clk 0 \<and> clk 0 \<le> clk 1 \<and> clk 1 \<le> clk 2 \<and> clk 2 \<le> clk 3 \<and> clk 3 \<le> clk 4"

text \<open>A request arrives and is authenticated in one go; if it is let through, its operation starts.
  Operations finish in any order. The process can be stopped (which writes the store) and
  restarted at any moment; what was running is then lost.\<close>

inductive sys_step :: "'k auth_env \<Rightarrow> runtime_config \<Rightarrow> 'k authenticator \<Rightarrow> system \<Rightarrow> system \<Rightarrow> bool" for env cfg au where
  arrive: "rq_requestId rq \<noteq> [] \<Longrightarrow> clock_from (sys_now st) clk \<Longrightarrow>
     authenticate env cfg au clk fault rq peerUid (sys_store st) = (s', out) \<Longrightarrow>
     sys_step env cfg au st (case out of
         Authenticated ar \<Rightarrow> \<lparr>sys_store = s', sys_inflight = ar # sys_inflight st,
           sys_log = \<lparr>ex_nonceAt = clk 3, ex_reservedAt = clk 4, ex_request = ar\<rparr> # sys_log st, sys_now = clk 4\<rparr>
       | _ \<Rightarrow> st\<lparr>sys_store := s', sys_now := clk 4\<rparr>)"
| finish: "ar \<in> set (sys_inflight st) \<Longrightarrow> sys_now st \<le> t \<Longrightarrow>
     sys_step env cfg au st (st\<lparr>sys_store := fst (store_response cfg t fault ar response (sys_store st)),
       sys_inflight := remove1 ar (sys_inflight st), sys_now := t\<rparr>)"
| shutdown: "sys_step env cfg au st (st\<lparr>sys_store := fst (persist fault (sys_store st))\<rparr>)"
| restart: "sys_step env cfg au st (st\<lparr>sys_store := new_store (rs_file (sys_store st)), sys_inflight := []\<rparr>)"

inductive_cases sys_stepE: "sys_step env cfg au st st'"

definition sys_reachable :: "'k auth_env \<Rightarrow> runtime_config \<Rightarrow> 'k authenticator \<Rightarrow> system \<Rightarrow> bool" where
  "sys_reachable env cfg au st \<longleftrightarrow> (\<exists>f now. (sys_step env cfg au)\<^sup>*\<^sup>* (initial_system f now) st)"

text \<open>An identifier is held from time \<open>t\<close> on, in memory and on disk.\<close>

definition held_in :: "int \<Rightarrow> string \<Rightarrow> idempotency_entry list \<Rightarrow> bool" where
  "held_in t i es = list_ex (\<lambda>e. ie_requestId e = Some i \<and> t \<le> ie_storedAt e) es"

definition held_id :: "int \<Rightarrow> string \<Rightarrow> replay_store \<Rightarrow> bool" where
  "held_id t i s \<longleftrightarrow> held_in t i (sd_idempotency (rs_data s)) \<and> held_in t i (sd_idempotency (load (rs_file s)))"

definition stores_named :: "int \<Rightarrow> store_op \<Rightarrow> bool" where
  "stores_named t op = (case op of StoreResponse t' h r rid f \<Rightarrow> truthy rid \<and> t \<le> t' | _ \<Rightarrow> True)"

lemma held_in_filter: "held_in t i es \<Longrightarrow> (\<And>e. t \<le> ie_storedAt e \<Longrightarrow> P e) \<Longrightarrow> held_in t i (filter P es)"
  by (auto simp: held_in_def list_ex_iff)

lemma held_in_append: "held_in t i es \<Longrightarrow> held_in t i (es @ es')"
  by (auto simp: held_in_def)

lemma held_in_replace:
  assumes "held_in t i es" "ie_requestId y = rid" "t \<le> ie_storedAt y"
  shows "held_in t i (replace_first (\<lambda>e. ie_requestId e = rid) y es)"
  using assms unfolding held_in_def by (induction es) auto

lemma held_in_apply_op:
  assumes "held_id t i s" "before (t + cfg_idempotencyRetentionMs cfg) op" "stores_named t op"
  shows "held_in t i (sd_idempotency (rs_data (apply_op cfg op s)))"
proof -
  have kept: "held_in t i (filter (\<lambda>e. u - ie_storedAt e < cfg_idempotencyRetentionMs cfg) (sd_idempotency (rs_data s)))"
    if "op_time op = Some u" for u
    using assms(1,2) that by (intro held_in_filter) (auto simp: held_id_def before_def)
  show ?thesis
  proof (cases op)
    case (ReserveSemantic u j f h)
    then show ?thesis using kept
      by (auto simp: reserveSemantic_def checkSemantic_def Let_def held_in_append split: semantic_result.splits)
  next
    case (StoreResponse u h r rid f)
    with assms(3) have "truthy rid" "t \<le> u" by (auto simp: stores_named_def)
    with StoreResponse kept [of u] show ?thesis
      by (simp add: storeIdempotentResponse_def Let_def held_in_replace)
  qed (use assms kept in \<open>auto simp: held_id_def tryCommitNonce_def getIdempotentResponse_def checkSemantic_def
      persist_def new_store_def Let_def split: io_fault.splits\<close>)
qed

lemma held_id_apply_ops:
  assumes "held_id t i s"
    and "list_all (\<lambda>op. before (t + cfg_idempotencyRetentionMs cfg) op \<and> stores_named t op) ops"
  shows "held_id t i (apply_ops cfg ops s)"
  using assms unfolding apply_ops_def
proof (induction ops arbitrary: s)
  case Nil
  then show ?case by simp
next
  case (Cons op ops)
  then have "held_in t i (sd_idempotency (rs_data (apply_op cfg op s)))"
    by (intro held_in_apply_op) simp_all
  with Cons.prems apply_op_file [of cfg op s] have "held_id t i (apply_op cfg op s)"
    by (elim disjE) (simp_all add: held_id_def)
  with Cons show ?case by simp
qed

lemma bound_held: "bound_id t i fp s \<Longrightarrow> held_id t i s"
  by (auto simp: bound_id_def bound_in_def first_entry_def held_id_def held_in_def list_ex_iff
      split: option.splits dest!: find_SomeD)

lemma held_id_refused:
  assumes "held_id t i s" "authenticate env cfg au clk fault rq peerUid s = (s', Authenticated ar)"
    and "clk 1 < t + cfg_idempotencyRetentionMs cfg" "clk 2 < t + cfg_idempotencyRetentionMs cfg"
  shows "rq_requestId rq \<noteq> i"
proof
  assume i: "rq_requestId rq = i"
  let ?g = "GetResponse (clk 1) (ar_hash ar)"
  obtain s\<^sub>1 where c: "checkSemantic cfg (clk 2) (rq_requestId rq) (ar_fingerprint ar) (apply_op cfg ?g s) = (s\<^sub>1, Miss)"
    using authenticate_Authenticated(5) [OF assms(2)] by blast
  have "held_id t i (apply_ops cfg [?g] s)"
    using held_id_apply_ops [OF assms(1), of cfg "[?g]"] assms(3) by (simp add: before_def stores_named_def)
  then have "live_id cfg (clk 2) i (apply_op cfg ?g s)"
    using assms(4) by (force simp: held_id_def held_in_def live_id_def list_ex_iff apply_ops_def simp del: apply_op.simps)
  then show False using c i live_id_iff by (metis snd_conv)
qed

subsection \<open>At most one execution\<close>

text \<open>Two executions of one identifier, or of one nonce, are a whole retention period apart.\<close>

definition apart :: "runtime_config \<Rightarrow> exec_record \<Rightarrow> exec_record \<Rightarrow> bool" where
  "apart cfg later earlier \<longleftrightarrow>
     (rq_requestId (ar_payload (ex_request later)) = rq_requestId (ar_payload (ex_request earlier)) \<longrightarrow>
        ex_reservedAt earlier + cfg_idempotencyRetentionMs cfg \<le> ex_reservedAt later) \<and>
     (av_nonce (rq_authority (ar_payload (ex_request later))) = av_nonce (rq_authority (ar_payload (ex_request earlier))) \<longrightarrow>
        ex_nonceAt earlier + cfg_nonceRetentionMs cfg \<le> ex_nonceAt later)"

definition recorded :: "runtime_config \<Rightarrow> int \<Rightarrow> replay_store \<Rightarrow> exec_record \<Rightarrow> bool" where
  "recorded cfg now s x \<longleftrightarrow> ex_reservedAt x \<le> now \<and> ex_nonceAt x \<le> now \<and>
     (now < ex_reservedAt x + cfg_idempotencyRetentionMs cfg \<longrightarrow>
        held_id (ex_reservedAt x) (rq_requestId (ar_payload (ex_request x))) s) \<and>
     (now < ex_nonceAt x + cfg_nonceRetentionMs cfg \<longrightarrow>
        remembered \<lparr>ne_nonce = av_nonce (rq_authority (ar_payload (ex_request x))), ne_seenAt = ex_nonceAt x\<rparr> s)"

definition sys_inv :: "runtime_config \<Rightarrow> system \<Rightarrow> bool" where
  "sys_inv cfg st \<longleftrightarrow>
     list_all (recorded cfg (sys_now st) (sys_store st)) (sys_log st) \<and>
     list_all (\<lambda>ar. rq_requestId (ar_payload ar) \<noteq> []) (sys_inflight st) \<and>
     sorted_wrt (apart cfg) (sys_log st)"

text \<open>Operations between two readings of the clock keep what is recorded.\<close>

definition ops_within :: "int \<Rightarrow> int \<Rightarrow> store_op list \<Rightarrow> bool" where
  "ops_within now now' ops \<longleftrightarrow> now \<le> now' \<and>
     list_all (\<lambda>op. (case op_time op of None \<Rightarrow> True | Some t \<Rightarrow> t \<le> now') \<and> stores_named now op) ops"

lemma recorded_apply_ops:
  assumes "recorded cfg now s x" "ops_within now now' ops"
  shows "recorded cfg now' (apply_ops cfg ops s) x"
proof -
  have le: "now \<le> now'" "ex_reservedAt x \<le> now" "ex_nonceAt x \<le> now"
    using assms by (auto simp: recorded_def ops_within_def)
  have "list_all (\<lambda>op. before (ex_reservedAt x + cfg_idempotencyRetentionMs cfg) op \<and> stores_named (ex_reservedAt x) op) ops"
    if "now' < ex_reservedAt x + cfg_idempotencyRetentionMs cfg"
    using assms(2) that le(2)
    by (auto simp: ops_within_def list_all_iff before_def stores_named_def split: option.splits store_op.splits)
  moreover have "list_all (before (ex_nonceAt x + cfg_nonceRetentionMs cfg)) ops"
    if "now' < ex_nonceAt x + cfg_nonceRetentionMs cfg"
    using assms(2) that by (auto simp: ops_within_def list_all_iff before_def split: option.splits)
  ultimately show ?thesis
    using assms(1) le by (auto simp: recorded_def intro: held_id_apply_ops remembered_apply_ops)
qed

lemma auth_ops_within:
  assumes "clock_from now clk" "list_all (auth_op clk) ops"
  shows "ops_within now (clk 4) ops"
proof -
  have "clk i \<le> clk 4" if "i \<in> {1..4}" for i
  proof -
    from that have "i = 1 \<or> i = 2 \<or> i = 3 \<or> i = 4" by auto
    with assms(1) show ?thesis by (auto simp: clock_from_def)
  qed
  with assms show ?thesis
    by (fastforce simp: ops_within_def clock_from_def list_all_iff auth_op_def stores_named_def split: store_op.splits)
qed

lemma authenticate_recorded:
  assumes "recorded cfg now s x" "clock_from now clk" "authenticate env cfg au clk fault rq peerUid s = (s', out)"
  shows "recorded cfg (clk 4) s' x"
  using authenticate_ops [OF assms(3)] auth_ops_within [OF assms(2)] recorded_apply_ops [OF assms(1)] by blast

lemma authenticated_recorded:
  assumes "clock_from now clk" "authenticate env cfg au clk fault rq peerUid s = (s', Authenticated ar)"
  shows "recorded cfg (clk 4) s' \<lparr>ex_nonceAt = clk 3, ex_reservedAt = clk 4, ex_request = ar\<rparr>"
  using assms(1) authenticated_known [OF assms(2)] authenticate_Authenticated(2) [OF assms(2)]
  by (auto simp: recorded_def clock_from_def verified_def intro: bound_held)

lemma authenticated_apart:
  assumes "recorded cfg now s x" "clock_from now clk" "authenticate env cfg au clk fault rq peerUid s = (s', Authenticated ar)"
  shows "apart cfg \<lparr>ex_nonceAt = clk 3, ex_reservedAt = clk 4, ex_request = ar\<rparr> x"
proof -
  have ar: "ar_payload ar = rq" using authenticate_Authenticated(2) [OF assms(3)] by (simp add: verified_def)
  let ?i = "rq_requestId (ar_payload (ex_request x))" and ?n = "av_nonce (rq_authority (ar_payload (ex_request x)))"
  have "ex_reservedAt x + cfg_idempotencyRetentionMs cfg \<le> clk 4" if "rq_requestId rq = ?i"
  proof (rule ccontr)
    assume "\<not> ex_reservedAt x + cfg_idempotencyRetentionMs cfg \<le> clk 4"
    with assms(1,2) that held_id_refused [OF _ assms(3), of "ex_reservedAt x" ?i] show False by (auto simp: recorded_def clock_from_def)
  qed
  moreover have "ex_nonceAt x + cfg_nonceRetentionMs cfg \<le> clk 3" if "av_nonce (rq_authority rq) = ?n"
  proof (rule ccontr)
    assume "\<not> ex_nonceAt x + cfg_nonceRetentionMs cfg \<le> clk 3"
    with assms(1,2) that known_nonce_refused [OF _ assms(3), of "\<lparr>ne_nonce = ?n, ne_seenAt = ex_nonceAt x\<rparr>"]
    show False by (auto simp: recorded_def clock_from_def)
  qed
  ultimately show ?thesis by (simp add: apart_def ar)
qed

lemma sys_step_inv:
  assumes "sys_step env cfg au st st'" "sys_inv cfg st"
  shows "sys_inv cfg st'"
  using assms
proof (induction rule: sys_step.induct)
  case (arrive rq st clk fault peerUid s' out)
  then have old: "list_all (recorded cfg (clk 4) s') (sys_log st)"
    by (auto simp: sys_inv_def list_all_iff intro: authenticate_recorded)
  show ?case
  proof (cases out)
    case (Authenticated ar)
    note a = arrive(3) [unfolded Authenticated]
    have "ar_payload ar = rq" using authenticate_Authenticated(2) [OF a] by (simp add: verified_def)
    then show ?thesis
      using old arrive Authenticated authenticated_recorded [OF arrive(2) a] authenticated_apart [OF _ arrive(2) a]
      by (auto simp: sys_inv_def list_all_iff)
  qed (use old arrive in \<open>auto simp: sys_inv_def\<close>)
next
  case (finish ar st t fault response)
  let ?ops = "[StoreResponse t (ar_hash ar) response (Some (rq_requestId (ar_payload ar))) (Some (ar_fingerprint ar)), Persist fault]"
  have "ops_within (sys_now st) t ?ops"
    using finish by (auto simp: ops_within_def stores_named_def sys_inv_def list_all_iff)
  then have "recorded cfg (sys_now st) (sys_store st) x \<Longrightarrow>
      recorded cfg t (fst (store_response cfg t fault ar response (sys_store st))) x" for x
    using recorded_apply_ops [of cfg "sys_now st" "sys_store st" x t ?ops] by (simp add: apply_ops_def store_response_def)
  then show ?case using finish by (auto simp: sys_inv_def list_all_iff dest: set_remove1_subset [THEN subsetD])
next
  case (shutdown st fault)
  have "recorded cfg (sys_now st) (sys_store st) x \<Longrightarrow> recorded cfg (sys_now st) (fst (persist fault (sys_store st))) x" for x
    using recorded_apply_ops [of cfg "sys_now st" "sys_store st" x "sys_now st" "[Persist fault]"]
    by (simp add: apply_ops_def ops_within_def stores_named_def)
  then show ?case using shutdown by (auto simp: sys_inv_def list_all_iff)
next
  case (restart st)
  have "recorded cfg (sys_now st) (sys_store st) x \<Longrightarrow> recorded cfg (sys_now st) (new_store (rs_file (sys_store st))) x" for x
    using recorded_apply_ops [of cfg "sys_now st" "sys_store st" x "sys_now st" "[Restart]"]
    by (simp add: apply_ops_def ops_within_def stores_named_def)
  then show ?case using restart by (auto simp: sys_inv_def list_all_iff)
qed

lemma sys_reachable_inv: "sys_reachable env cfg au st \<Longrightarrow> sys_inv cfg st"
proof -
  assume "sys_reachable env cfg au st"
  then obtain f now where "(sys_step env cfg au)\<^sup>*\<^sup>* (initial_system f now) st" by (auto simp: sys_reachable_def)
  then show ?thesis
    by (induction rule: rtranclp_induct) (simp add: sys_inv_def initial_system_def, rule sys_step_inv)
qed


text \<open>A concrete run: the built-in configuration, a key that signs by naming itself, two requests
  with different identifiers and nonces, and the first one again.\<close>

definition sample_config :: runtime_config where
  "sample_config = loadRuntimeConfig (\<lambda>_. None)"

definition sample_env :: "string auth_env" where
  "sample_env = \<lparr>env_sha256 = (\<lambda>d. ''h'' @ d), env_verifyEd25519 = (\<lambda>k d sg. sg = k), env_dateParse = iso_parse,
     env_hostname = ''vps-c9f04f5e'', env_machineIdFile = None\<rparr>"

definition sample_keys :: "string authenticator" where
  "sample_keys = \<lparr>au_publicKey = Some ''key'', au_previousPublicKey = None\<rparr>"

definition sample_request :: "string \<Rightarrow> string \<Rightarrow> request_payload" where
  "sample_request rid nonce = \<lparr>rq_protocolVersion = ''1.0.0'', rq_requestId = rid, rq_operation = ''baby.health'',
     rq_principal = [(''subject'', JStr ''stealtheye-owner''), (''authorityClass'', JStr ''unrestricted-owner''),
       (''issuer'', JStr ''https://baby-quirt.stealtheye.io''), (''resource'', JStr ''https://baby-quirt.stealtheye.io/mcp''),
       (''audience'', JStr ''https://baby-quirt.stealtheye.io/mcp''), (''principalType'', JStr ''owner'')],
     rq_authority = \<lparr>av_algorithm = ''ed25519'', av_gatewayId = ''stealtheye-horsey-gateway'', av_nonce = nonce,
       av_signature = ''key'', av_keyId = Some ''gateway-authority-v1''\<rparr>,
     rq_targetHost = ''vps-c9f04f5e'', rq_timestamp = ''2026-01-01T00:00:00.000Z'', rq_payload = None, rq_binaryLength = 0\<rparr>"

definition sample_arrive :: "request_payload \<Rightarrow> system \<Rightarrow> system" where
  "sample_arrive rq st =
     (case authenticate sample_env sample_config sample_keys (\<lambda>_. 1767225600000) NoFault rq (Some 997) (sys_store st) of
        (s', Authenticated ar) \<Rightarrow> \<lparr>sys_store = s', sys_inflight = ar # sys_inflight st,
           sys_log = \<lparr>ex_nonceAt = 1767225600000, ex_reservedAt = 1767225600000, ex_request = ar\<rparr> # sys_log st,
           sys_now = 1767225600000\<rparr>
      | (s', _) \<Rightarrow> st\<lparr>sys_store := s', sys_now := 1767225600000\<rparr>)"

definition sample_system :: system where
  "sample_system = sample_arrive (sample_request ''a'' ''n1'') (sample_arrive (sample_request ''b'' ''n2'')
     (sample_arrive (sample_request ''a'' ''n1'') (initial_system Absent 0)))"

lemma sample_step:
  assumes "rq_requestId rq \<noteq> []" "sys_now st \<le> 1767225600000"
  shows "sys_step sample_env sample_config sample_keys st (sample_arrive rq st)" "sys_now (sample_arrive rq st) \<le> 1767225600000"
proof -
  obtain s' out where a: "authenticate sample_env sample_config sample_keys (\<lambda>_. 1767225600000) NoFault rq (Some 997) (sys_store st) = (s', out)"
    by fastforce
  show "sys_step sample_env sample_config sample_keys st (sample_arrive rq st)"
    using arrive [OF assms(1) _ a] assms(2)
    by (cases out) (simp_all add: sample_arrive_def a clock_from_def)
  show "sys_now (sample_arrive rq st) \<le> 1767225600000" by (cases out) (simp_all add: sample_arrive_def a)
qed

lemma sample_reachable: "sys_reachable sample_env sample_config sample_keys sample_system"
proof -
  let ?r = "(sys_step sample_env sample_config sample_keys)\<^sup>*\<^sup>*"
  have id: "rq_requestId (sample_request r n) = r" for r n by (simp add: sample_request_def)
  have step: "?r a (sample_arrive rq st)" if "?r a st" "rq_requestId rq \<noteq> []" "sys_now st \<le> 1767225600000" for a rq st
    using rtranclp.rtrancl_into_rtrancl [OF that(1) sample_step(1) [OF that(2,3)]] .
  have "?r (initial_system Absent 0) sample_system"
    unfolding sample_system_def
    by (intro step sample_step(2) rtranclp.rtrancl_refl) (simp_all add: id initial_system_def)
  then show ?thesis by (auto simp: sys_reachable_def)
qed

lemma sample_acceptable:
  "n \<noteq> [] \<Longrightarrow> request_acceptable sample_env sample_config sample_keys 1767225600000 (sample_request r n) (Some 997)"
proof -
  assume "n \<noteq> []"
  moreover have "iso_parse ''2026-01-01T00:00:00.000Z'' = Some 1767225600000" by code_simp
  ultimately show ?thesis
    by (simp add: request_acceptable_def principal_acceptable_def string_field_def sample_env_def sample_config_def sample_keys_def
        sample_request_def loadRuntimeConfig_def DEFAULTS_def nullish_def Let_def getMachineIdSha256_def GATEWAY_AUTHORITY_KEY_ID_def)
qed

lemma sample_let_through: "sys_log (sample_arrive (sample_request ''a'' ''n1'') (initial_system Absent 0)) \<noteq> []"
proof -
  have "snd (authenticate sample_env sample_config sample_keys (\<lambda>_. 1767225600000) NoFault (sample_request ''a'' ''n1'') (Some 997) (new_store Absent))
      = Authenticated (verified sample_env (sample_request ''a'' ''n1''))"
    unfolding authenticate_decision
    by (simp add: sample_acceptable new_store_def load_def live_response_def live_id_def live_nonce_def)
  then show ?thesis by (auto simp: sample_arrive_def initial_system_def split: prod.splits auth_outcome.splits)
qed


subsection \<open>Retries get the stored response\<close>

lemma replace_first_append:
  "list_all (\<lambda>x. \<not> P x) xs \<Longrightarrow> replace_first P y (xs @ ys) = xs @ replace_first P y ys"
  by (induction xs) auto

lemma find_append_last: "list_all (\<lambda>x. \<not> P x) xs \<Longrightarrow> find P (xs @ [y]) = (if P y then Some y else None)"
  by (induction xs) auto

lemma persist_reload: "rs_dirty s \<Longrightarrow> rs_data (new_store (rs_file (fst (persist NoFault s)))) = rs_data (fst (persist NoFault s))"
  by (simp add: persist_def new_store_def Let_def)

lemma authenticated_entries:
  assumes "authenticate env cfg au clk fault rq peerUid s = (s', Authenticated ar)"
  shows "\<exists>es. sd_idempotency (rs_data s') = es @ [\<lparr>ie_requestHash = ar_hash ar, ie_requestId = Some (rq_requestId rq),
        ie_fingerprint = Some (ar_fingerprint ar), ie_status = Some Pending, ie_response = None, ie_storedAt = clk 4\<rparr>]
      \<and> set es \<subseteq> set (sd_idempotency (rs_data s)) \<and> list_all (\<lambda>e. ie_requestId e \<noteq> Some (rq_requestId rq)) es"
proof -
  note a = authenticate_Authenticated [OF assms]
  let ?g = "GetResponse (clk 1) (ar_hash ar)"
  obtain s\<^sub>1 s\<^sub>2 s\<^sub>3 where c: "checkSemantic cfg (clk 2) (rq_requestId rq) (ar_fingerprint ar) (apply_op cfg ?g s) = (s\<^sub>1, Miss)"
    and t: "tryCommitNonce cfg (clk 3) (av_nonce (rq_authority rq)) s\<^sub>1 = (s\<^sub>2, True)"
    and r: "reserveSemantic cfg (clk 4) (rq_requestId rq) (ar_fingerprint ar) (ar_hash ar) s\<^sub>2 = (s\<^sub>3, Inr ())"
    using a(5) reserve_after_miss by (metis (full_types) eq_snd_iff)
  have s': "s' = fst (persist NoFault s\<^sub>3)"
    using a(2-4) arg_cong [OF c, of fst] arg_cong [OF t, of fst] arg_cong [OF r, of fst]
    by (simp add: auth_ops_def apply_ops_def Let_def)
  have e1: "list_all (\<lambda>e. ie_requestId e \<noteq> Some (rq_requestId rq)) (sd_idempotency (rs_data s\<^sub>1))"
    "set (sd_idempotency (rs_data s\<^sub>1)) \<subseteq> set (sd_idempotency (rs_data s))"
    using c by (auto simp: checkSemantic_def getIdempotentResponse_def Let_def semantic_of_Miss)
  have e2: "sd_idempotency (rs_data s\<^sub>2) = sd_idempotency (rs_data (prune cfg (clk 3) s\<^sub>1))"
    using tryCommitNonce_entries [of cfg "clk 3" "av_nonce (rq_authority rq)" s\<^sub>1] t by simp
  have "rs_data s' = rs_data s\<^sub>3" by (simp add: s' persist_def Let_def)
  moreover have "sd_idempotency (rs_data s\<^sub>3) = sd_idempotency (rs_data (prune cfg (clk 4) s\<^sub>2)) @
      [\<lparr>ie_requestHash = ar_hash ar, ie_requestId = Some (rq_requestId rq),
        ie_fingerprint = Some (ar_fingerprint ar), ie_status = Some Pending, ie_response = None, ie_storedAt = clk 4\<rparr>]"
    using r by (auto simp: reserveSemantic_def checkSemantic_def Let_def split: semantic_result.splits)
  ultimately show ?thesis
    using e1 by (intro exI [of _ "sd_idempotency (rs_data (prune cfg (clk 4) s\<^sub>2))"]) (auto simp: e2 list_all_iff)
qed

lemma stored_entries:
  assumes "authenticate env cfg au clk fault rq peerUid s = (s\<^sub>1, Authenticated ar)" "rq_requestId rq \<noteq> []"
    and "ar_fingerprint ar \<noteq> []"
  shows "\<exists>es. sd_idempotency (rs_data (fst (store_response cfg t fault' ar response s\<^sub>1))) =
        es @ [\<lparr>ie_requestHash = ar_hash ar, ie_requestId = Some (rq_requestId rq), ie_fingerprint = Some (ar_fingerprint ar),
          ie_status = Some Completed, ie_response = Some response, ie_storedAt = t\<rparr>]
      \<and> set es \<subseteq> set (sd_idempotency (rs_data s)) \<and> list_all (\<lambda>e. ie_requestId e \<noteq> Some (rq_requestId rq)) es"
proof -
  have pl: "ar_payload ar = rq" using authenticate_Authenticated(2) [OF assms(1)] by (simp add: verified_def)
  obtain es where es: "sd_idempotency (rs_data s\<^sub>1) = es @ [\<lparr>ie_requestHash = ar_hash ar, ie_requestId = Some (rq_requestId rq),
        ie_fingerprint = Some (ar_fingerprint ar), ie_status = Some Pending, ie_response = None, ie_storedAt = clk 4\<rparr>]"
    and sub: "set es \<subseteq> set (sd_idempotency (rs_data s))" and no: "list_all (\<lambda>e. ie_requestId e \<noteq> Some (rq_requestId rq)) es"
    using authenticated_entries [OF assms(1)] by blast
  let ?P = "\<lambda>e. t - ie_storedAt e < cfg_idempotencyRetentionMs cfg"
  have "list_all (\<lambda>e. ie_requestId e \<noteq> Some (rq_requestId rq)) (filter ?P es)"
    using no by (auto simp: list_all_iff)
  then show ?thesis
    using sub assms(2,3) replace_first_append [of "\<lambda>e. ie_requestId e = Some (rq_requestId rq)" "filter ?P es"]
      replace_first_append [of "\<lambda>e. ie_requestId e = Some (rq_requestId rq)" "filter ?P es" _ "[]"]
    by (intro exI [of _ "filter ?P es"])
      (auto simp: store_response_def storeIdempotentResponse_def persist_def Let_def es pl split: io_fault.splits)
qed


definition sample_server :: "(string, string, nat) server_env" where
  "sample_server = \<lparr>se_auth = sample_env, se_authenticator = sample_keys, se_privateKey = Some ''key'',
     se_signEd25519 = (\<lambda>k d. k), se_run = (\<lambda>h operation rid body w. (w + 1, Inr (JStr ''done''))), se_pruneJobs = (\<lambda>n w. w),
     se_manifest = None, se_parseJson = (\<lambda>_. None), se_parseRequest = (\<lambda>_. Some (sample_request ''a'' ''n1''))\<rparr>"

definition sample_stored :: "(nat \<times> replay_store) \<times> (string, json) result" where
  "sample_stored = dispatch sample_server sample_config (\<lambda>_. 1767225600000) NoFault (verified sample_env (sample_request ''a'' ''n1''))
     (0, fst (authenticate sample_env sample_config sample_keys (\<lambda>_. 1767225600000) NoFault (sample_request ''a'' ''n1'') (Some 997) (new_store Absent)))"

lemma dispatch_NoFault: "snd (dispatch env cfg clk NoFault ar st) = Inr r \<longleftrightarrow>
    r = response_payload env cfg ar (snd (operation_result env ar (fst st))) (to_iso (clk 5)) (to_iso (clk 6))"
  by (auto simp: dispatch_def store_response_def persist_def Let_def split: prod.splits)


subsection \<open>Empty request identifiers\<close>



end
