(* ===== verification/Deployment_State.thy ===== *)
theory Deployment_State
  imports Auth
begin

section \<open>The deployment state machine\<close>

text \<open>
  Models \<^verbatim>\<open>src/src/deployment/types.ts\<close> and \<^verbatim>\<open>src/src/deployment/state-machine.ts\<close>: the forty
  states, the tables over them, the transition rules built by \<open>buildTransitionPairs\<close> and
  \<open>createRule\<close>, and \<open>assertTransitionAllowed\<close> with its checks in the order of the source.
  The lemmas characterise the rules; the ledger of \<open>Deployment_Ledger\<close> rests on them.
\<close>

subsection \<open>States and tables\<close>

datatype deployment_state =
    St_requested | St_source_resolving | St_source_verified | St_building | St_testing | St_packaging |
  St_reproducibility_verifying | St_artifact_verified | St_compatibility_verifying | St_preflight |
  St_staging | St_candidate_verifying | St_ready_to_activate | St_snapshotting | St_guard_arming |
  St_guard_armed | St_gateway_installing | St_gateway_activating | St_gateway_accepting_legacy |
  St_baby_installing | St_baby_activating | St_baby_accepting | St_restart_accepting | St_chatgpt_accepting |
  St_success_marking | St_guard_disarming | St_succeeded | St_cancel_requested | St_cancelling | St_failed |
  St_timed_out | St_partial | St_ambiguous | St_unknown | St_reconciling | St_rollback_requested |
  St_rolling_back | St_rolled_back | St_rollback_failed | St_manual_recovery_required

primrec state_name :: "deployment_state \<Rightarrow> string" where
  "state_name St_requested = ''requested''"
| "state_name St_source_resolving = ''source_resolving''"
| "state_name St_source_verified = ''source_verified''"
| "state_name St_building = ''building''"
| "state_name St_testing = ''testing''"
| "state_name St_packaging = ''packaging''"
| "state_name St_reproducibility_verifying = ''reproducibility_verifying''"
| "state_name St_artifact_verified = ''artifact_verified''"
| "state_name St_compatibility_verifying = ''compatibility_verifying''"
| "state_name St_preflight = ''preflight''"
| "state_name St_staging = ''staging''"
| "state_name St_candidate_verifying = ''candidate_verifying''"
| "state_name St_ready_to_activate = ''ready_to_activate''"
| "state_name St_snapshotting = ''snapshotting''"
| "state_name St_guard_arming = ''guard_arming''"
| "state_name St_guard_armed = ''guard_armed''"
| "state_name St_gateway_installing = ''gateway_installing''"
| "state_name St_gateway_activating = ''gateway_activating''"
| "state_name St_gateway_accepting_legacy = ''gateway_accepting_legacy''"
| "state_name St_baby_installing = ''baby_installing''"
| "state_name St_baby_activating = ''baby_activating''"
| "state_name St_baby_accepting = ''baby_accepting''"
| "state_name St_restart_accepting = ''restart_accepting''"
| "state_name St_chatgpt_accepting = ''chatgpt_accepting''"
| "state_name St_success_marking = ''success_marking''"
| "state_name St_guard_disarming = ''guard_disarming''"
| "state_name St_succeeded = ''succeeded''"
| "state_name St_cancel_requested = ''cancel_requested''"
| "state_name St_cancelling = ''cancelling''"
| "state_name St_failed = ''failed''"
| "state_name St_timed_out = ''timed_out''"
| "state_name St_partial = ''partial''"
| "state_name St_ambiguous = ''ambiguous''"
| "state_name St_unknown = ''unknown''"
| "state_name St_reconciling = ''reconciling''"
| "state_name St_rollback_requested = ''rollback_requested''"
| "state_name St_rolling_back = ''rolling_back''"
| "state_name St_rolled_back = ''rolled_back''"
| "state_name St_rollback_failed = ''rollback_failed''"
| "state_name St_manual_recovery_required = ''manual_recovery_required''"

definition DEPLOYMENT_STATES :: "deployment_state list" where
  "DEPLOYMENT_STATES =
     [St_requested, St_source_resolving, St_source_verified, St_building, St_testing, St_packaging,
      St_reproducibility_verifying, St_artifact_verified, St_compatibility_verifying, St_preflight, St_staging,
      St_candidate_verifying, St_ready_to_activate, St_snapshotting, St_guard_arming, St_guard_armed,
      St_gateway_installing, St_gateway_activating, St_gateway_accepting_legacy, St_baby_installing,
      St_baby_activating, St_baby_accepting, St_restart_accepting, St_chatgpt_accepting, St_success_marking,
      St_guard_disarming, St_succeeded, St_cancel_requested, St_cancelling, St_failed, St_timed_out, St_partial,
      St_ambiguous, St_unknown, St_reconciling, St_rollback_requested, St_rolling_back, St_rolled_back,
      St_rollback_failed, St_manual_recovery_required]"

definition isDeploymentState :: "string \<Rightarrow> bool" where
  "isDeploymentState value \<longleftrightarrow> value \<in> set (map state_name DEPLOYMENT_STATES)"

datatype mutation_class = MutNone | InactiveOnly | GuardControl | ActiveProduct | MutRollback

datatype cancellation_behavior = CleanStagingThenFail | ReconcileGuardThenCleanOrRollback | RequestRollback
  | ContinueRollback | ReconcileFirst | RejectTerminal

datatype rollback_implication = ImpliesNone | RequiredIfGuardArmed | RollbackInProgress | RollbackComplete | ManualRecovery

datatype terminal_truth = NonterminalTruth | SuccessTruth | FailureTruth | RolledBackTruth | ManualRecoveryTruth

datatype crash_reconciliation = RetryExact | ReadbackThenReconcile

definition HAPPY_PATH :: "deployment_state list" where
  "HAPPY_PATH =
     [St_requested, St_source_resolving, St_source_verified, St_building, St_testing, St_packaging,
      St_reproducibility_verifying, St_artifact_verified, St_compatibility_verifying, St_preflight, St_staging,
      St_candidate_verifying, St_ready_to_activate, St_snapshotting, St_guard_arming, St_guard_armed,
      St_gateway_installing, St_gateway_activating, St_gateway_accepting_legacy, St_baby_installing,
      St_baby_activating, St_baby_accepting, St_restart_accepting, St_chatgpt_accepting, St_success_marking,
      St_guard_disarming, St_succeeded]"

definition TERMINAL_STATES :: "deployment_state list" where
  "TERMINAL_STATES = [St_succeeded, St_failed, St_timed_out, St_rolled_back, St_manual_recovery_required]"

definition ACTIVE_MUTATION_STATES :: "deployment_state list" where
  "ACTIVE_MUTATION_STATES =
     [St_gateway_activating, St_gateway_accepting_legacy, St_baby_activating, St_baby_accepting,
      St_restart_accepting, St_chatgpt_accepting, St_success_marking, St_guard_disarming]"

definition POST_ARM_STATES :: "deployment_state list" where
  "POST_ARM_STATES = [St_guard_armed, St_gateway_installing, St_baby_installing] @ ACTIVE_MUTATION_STATES"

definition PRE_ARM_WORK_STATES :: "deployment_state list" where
  "PRE_ARM_WORK_STATES = take 15 HAPPY_PATH"

definition DIAGNOSTIC_STATES :: "deployment_state list" where
  "DIAGNOSTIC_STATES = [St_partial, St_ambiguous, St_unknown]"

definition ROLLBACK_STATES :: "deployment_state list" where
  "ROLLBACK_STATES = [St_rollback_requested, St_rolling_back, St_rollback_failed]"

lemmas state_sets = HAPPY_PATH_def TERMINAL_STATES_def ACTIVE_MUTATION_STATES_def POST_ARM_STATES_def
  PRE_ARM_WORK_STATES_def DIAGNOSTIC_STATES_def ROLLBACK_STATES_def

primrec MUTATION_CLASS :: "deployment_state \<Rightarrow> mutation_class" where
  "MUTATION_CLASS St_requested = MutNone"
| "MUTATION_CLASS St_source_resolving = MutNone"
| "MUTATION_CLASS St_source_verified = MutNone"
| "MUTATION_CLASS St_building = MutNone"
| "MUTATION_CLASS St_testing = MutNone"
| "MUTATION_CLASS St_packaging = MutNone"
| "MUTATION_CLASS St_reproducibility_verifying = MutNone"
| "MUTATION_CLASS St_artifact_verified = MutNone"
| "MUTATION_CLASS St_compatibility_verifying = MutNone"
| "MUTATION_CLASS St_preflight = MutNone"
| "MUTATION_CLASS St_staging = InactiveOnly"
| "MUTATION_CLASS St_candidate_verifying = InactiveOnly"
| "MUTATION_CLASS St_ready_to_activate = MutNone"
| "MUTATION_CLASS St_snapshotting = MutNone"
| "MUTATION_CLASS St_guard_arming = GuardControl"
| "MUTATION_CLASS St_guard_armed = GuardControl"
| "MUTATION_CLASS St_gateway_installing = InactiveOnly"
| "MUTATION_CLASS St_gateway_activating = ActiveProduct"
| "MUTATION_CLASS St_gateway_accepting_legacy = ActiveProduct"
| "MUTATION_CLASS St_baby_installing = InactiveOnly"
| "MUTATION_CLASS St_baby_activating = ActiveProduct"
| "MUTATION_CLASS St_baby_accepting = ActiveProduct"
| "MUTATION_CLASS St_restart_accepting = ActiveProduct"
| "MUTATION_CLASS St_chatgpt_accepting = ActiveProduct"
| "MUTATION_CLASS St_success_marking = ActiveProduct"
| "MUTATION_CLASS St_guard_disarming = GuardControl"
| "MUTATION_CLASS St_succeeded = MutNone"
| "MUTATION_CLASS St_cancel_requested = MutNone"
| "MUTATION_CLASS St_cancelling = MutNone"
| "MUTATION_CLASS St_failed = MutNone"
| "MUTATION_CLASS St_timed_out = MutNone"
| "MUTATION_CLASS St_partial = MutNone"
| "MUTATION_CLASS St_ambiguous = MutNone"
| "MUTATION_CLASS St_unknown = MutNone"
| "MUTATION_CLASS St_reconciling = MutNone"
| "MUTATION_CLASS St_rollback_requested = MutRollback"
| "MUTATION_CLASS St_rolling_back = MutRollback"
| "MUTATION_CLASS St_rolled_back = MutRollback"
| "MUTATION_CLASS St_rollback_failed = MutRollback"
| "MUTATION_CLASS St_manual_recovery_required = MutNone"

primrec REQUIRED_EVIDENCE :: "deployment_state \<Rightarrow> string list" where
  "REQUIRED_EVIDENCE St_requested = [''request.validated'']"
| "REQUIRED_EVIDENCE St_source_resolving = [''request.validated'']"
| "REQUIRED_EVIDENCE St_source_verified = [''source.identity'']"
| "REQUIRED_EVIDENCE St_building = [''source.materialization'']"
| "REQUIRED_EVIDENCE St_testing = [''build.result'']"
| "REQUIRED_EVIDENCE St_packaging = [''test.result'']"
| "REQUIRED_EVIDENCE St_reproducibility_verifying = [''package.first'']"
| "REQUIRED_EVIDENCE St_artifact_verified = [''reproducibility.match'', ''artifact.manifest'']"
| "REQUIRED_EVIDENCE St_compatibility_verifying = [''artifact.verification'']"
| "REQUIRED_EVIDENCE St_preflight = [''compatibility.declaration'']"
| "REQUIRED_EVIDENCE St_staging = [''preflight.report'']"
| "REQUIRED_EVIDENCE St_candidate_verifying = [''stage.readback'']"
| "REQUIRED_EVIDENCE St_ready_to_activate = [''candidate.acceptance'']"
| "REQUIRED_EVIDENCE St_snapshotting = [''activation.intent'']"
| "REQUIRED_EVIDENCE St_guard_arming = [''snapshot.verified'']"
| "REQUIRED_EVIDENCE St_guard_armed = [''guard.readback'']"
| "REQUIRED_EVIDENCE St_gateway_installing = [''guard.readback'']"
| "REQUIRED_EVIDENCE St_gateway_activating = [''gateway.inactive_install'']"
| "REQUIRED_EVIDENCE St_gateway_accepting_legacy = [''gateway.activation.readback'']"
| "REQUIRED_EVIDENCE St_baby_installing = [''gateway.legacy.acceptance'']"
| "REQUIRED_EVIDENCE St_baby_activating = [''baby.inactive_install'']"
| "REQUIRED_EVIDENCE St_baby_accepting = [''baby.activation.readback'']"
| "REQUIRED_EVIDENCE St_restart_accepting = [''baby.acceptance'']"
| "REQUIRED_EVIDENCE St_chatgpt_accepting = [''restart.acceptance'']"
| "REQUIRED_EVIDENCE St_success_marking = [''chatgpt.acceptance'']"
| "REQUIRED_EVIDENCE St_guard_disarming = [''success.marker'']"
| "REQUIRED_EVIDENCE St_succeeded = [''success.marker'', ''guard.disarm.readback'']"
| "REQUIRED_EVIDENCE St_cancel_requested = [''cancellation.intent'']"
| "REQUIRED_EVIDENCE St_cancelling = [''cancellation.readback'']"
| "REQUIRED_EVIDENCE St_failed = [''failure.terminal'']"
| "REQUIRED_EVIDENCE St_timed_out = [''deadline.readback'']"
| "REQUIRED_EVIDENCE St_partial = [''partial.readback'']"
| "REQUIRED_EVIDENCE St_ambiguous = [''mutation.ambiguous'']"
| "REQUIRED_EVIDENCE St_unknown = [''state.unknown'']"
| "REQUIRED_EVIDENCE St_reconciling = [''reconciliation.readback'']"
| "REQUIRED_EVIDENCE St_rollback_requested = [''rollback.intent'']"
| "REQUIRED_EVIDENCE St_rolling_back = [''rollback.preflight'']"
| "REQUIRED_EVIDENCE St_rolled_back = [''rollback.acceptance'', ''guard.disarm.readback'']"
| "REQUIRED_EVIDENCE St_rollback_failed = [''rollback.failure'']"
| "REQUIRED_EVIDENCE St_manual_recovery_required = [''manual_recovery.record'']"

definition cancellationBehavior :: "deployment_state \<Rightarrow> cancellation_behavior" where
  "cancellationBehavior state =
     (if state \<in> set TERMINAL_STATES then RejectTerminal
      else if state \<in> set ROLLBACK_STATES then ContinueRollback
      else if state \<in> set DIAGNOSTIC_STATES \<or> state = St_reconciling then ReconcileFirst
      else if state = St_guard_arming then ReconcileGuardThenCleanOrRollback
      else if state \<in> set POST_ARM_STATES then RequestRollback
      else CleanStagingThenFail)"

definition rollbackImplication :: "deployment_state \<Rightarrow> rollback_implication" where
  "rollbackImplication state =
     (if state = St_rolled_back then RollbackComplete
      else if state = St_rollback_failed \<or> state = St_manual_recovery_required then ManualRecovery
      else if state \<in> set ROLLBACK_STATES then RollbackInProgress
      else if state \<in> set POST_ARM_STATES then RequiredIfGuardArmed
      else ImpliesNone)"

definition terminalTruth :: "deployment_state \<Rightarrow> terminal_truth" where
  "terminalTruth state =
     (if state = St_succeeded then SuccessTruth
      else if state = St_rolled_back then RolledBackTruth
      else if state = St_manual_recovery_required then ManualRecoveryTruth
      else if state = St_failed \<or> state = St_timed_out then FailureTruth
      else NonterminalTruth)"

subsection \<open>Rules\<close>

text \<open>The pairs go into a map keyed by both states: a pair added again keeps its place.\<close>

definition add_pair ::
  "deployment_state \<Rightarrow> deployment_state \<Rightarrow> (deployment_state \<times> deployment_state) list \<Rightarrow> (deployment_state \<times> deployment_state) list" where
  "add_pair src dst pairs =
     (if src = dst \<or> src \<in> set TERMINAL_STATES then pairs
      else if (src, dst) \<in> set pairs then pairs
      else pairs @ [(src, dst)])"

definition candidate_pairs :: "(deployment_state \<times> deployment_state) list" where
  "candidate_pairs =
     zip HAPPY_PATH (tl HAPPY_PATH) @
     concat (map (\<lambda>s. [(s, St_cancel_requested), (s, St_failed), (s, St_timed_out), (s, St_partial),
       (s, St_ambiguous), (s, St_unknown)]) PRE_ARM_WORK_STATES) @
     concat (map (\<lambda>s. [(s, St_rollback_requested), (s, St_partial), (s, St_ambiguous), (s, St_unknown)]) POST_ARM_STATES) @
     [(St_guard_arming, St_rollback_requested),
      (St_cancel_requested, St_cancelling),
      (St_cancel_requested, St_reconciling),
      (St_cancelling, St_failed),
      (St_cancelling, St_rollback_requested),
      (St_partial, St_reconciling),
      (St_partial, St_rollback_requested),
      (St_ambiguous, St_reconciling),
      (St_unknown, St_reconciling),
      (St_unknown, St_manual_recovery_required)] @
     map (\<lambda>s. (St_reconciling, s)) (filter (\<lambda>s. s \<notin> set TERMINAL_STATES) HAPPY_PATH) @
     [(St_reconciling, St_rollback_requested),
      (St_reconciling, St_rolling_back),
      (St_reconciling, St_rolled_back),
      (St_reconciling, St_rollback_failed),
      (St_reconciling, St_manual_recovery_required),
      (St_rollback_requested, St_rolling_back),
      (St_rollback_requested, St_unknown),
      (St_rolling_back, St_rolled_back),
      (St_rolling_back, St_rollback_failed),
      (St_rolling_back, St_ambiguous),
      (St_rolling_back, St_unknown),
      (St_rollback_failed, St_rolling_back),
      (St_rollback_failed, St_manual_recovery_required)]"

definition buildTransitionPairs :: "(deployment_state \<times> deployment_state) list" where
  "buildTransitionPairs = fold (\<lambda>(src, dst). add_pair src dst) candidate_pairs []"

record transition_rule =
  tr_from :: deployment_state
  tr_to :: deployment_state
  tr_retryable :: bool
  tr_cancellationBehavior :: cancellation_behavior
  tr_rollbackImplication :: rollback_implication
  tr_requiredEvidence :: "string list"
  tr_crashReconciliation :: crash_reconciliation
  tr_mutationClass :: mutation_class
  tr_terminalTruth :: terminal_truth

definition createRule :: "deployment_state \<Rightarrow> deployment_state \<Rightarrow> transition_rule" where
  "createRule src dst =
     (let mutationClass = MUTATION_CLASS dst
      in \<lparr>tr_from = src, tr_to = dst,
          tr_retryable = (dst \<notin> set TERMINAL_STATES),
          tr_cancellationBehavior = cancellationBehavior dst,
          tr_rollbackImplication = rollbackImplication dst,
          tr_requiredEvidence = REQUIRED_EVIDENCE dst,
          tr_crashReconciliation =
            (if mutationClass = ActiveProduct \<or> mutationClass = GuardControl \<or> mutationClass = MutRollback
             then ReadbackThenReconcile else RetryExact),
          tr_mutationClass = mutationClass,
          tr_terminalTruth = terminalTruth dst\<rparr>)"

definition TRANSITION_RULES :: "transition_rule list" where
  "TRANSITION_RULES = map (\<lambda>(src, dst). createRule src dst) buildTransitionPairs"

definition getTransitionRule :: "deployment_state \<Rightarrow> deployment_state \<Rightarrow> transition_rule option" where
  "getTransitionRule src dst = find (\<lambda>r. tr_from r = src \<and> tr_to r = dst) TRANSITION_RULES"

subsection \<open>Errors and transition requests\<close>

datatype deployment_error_code = Deployment_invalid | Deployment_not_found | Deployment_conflict
  | Deployment_generation_conflict | Deployment_state_conflict | Deployment_transition_forbidden
  | Deployment_evidence_missing | Deployment_integrity_failed | Deployment_terminal | Idempotency_conflict

record deployment_error =
  de_code :: deployment_error_code
  de_message :: string

definition DeploymentError :: "deployment_error_code \<Rightarrow> string \<Rightarrow> deployment_error" where
  "DeploymentError c m = \<lparr>de_code = c, de_message = m\<rparr>"

datatype guard_status = Armed | Disarmed

record evidence_reference =
  ev_kind :: string
  ev_digest :: string

record transition_input =
  ti_deploymentId :: string
  ti_generation :: int
  ti_expectedState :: deployment_state
  ti_expectedSequence :: int
  ti_nextState :: deployment_state
  ti_idempotencyKey :: string
  ti_evidence :: "evidence_reference list"
  ti_actor :: string
  ti_occurredAt :: string
  ti_reason :: "string option"
  ti_guardStatus :: "guard_status option"
  ti_successMarkerDigest :: "string option"
  ti_signatureAlgorithm :: "string option"
  ti_signingKeyId :: "string option"
  ti_signature :: "string option"

subsection \<open>assertTransitionAllowed\<close>

abbreviation forbidden :: "string \<Rightarrow> deployment_error" where
  "forbidden m \<equiv> DeploymentError Deployment_transition_forbidden m"

definition marker_evidence :: "transition_input \<Rightarrow> bool" where
  "marker_evidence i \<longleftrightarrow> truthy (ti_successMarkerDigest i) \<and>
     map_option ev_digest (find (\<lambda>e. ev_kind e = ''success.marker'') (ti_evidence i)) = ti_successMarkerDigest i"

definition assertTransitionAllowed :: "bool \<Rightarrow> transition_input \<Rightarrow> (deployment_error, transition_rule) result" where
  "assertTransitionAllowed currentGuardArmed i =
     (let src = ti_expectedState i; dst = ti_nextState i;
          arrow = ''Transition '' @ state_name src @ '' -> '' @ state_name dst in
      case getTransitionRule src dst of
        None \<Rightarrow> Inl (DeploymentError
            (if src \<in> set TERMINAL_STATES then Deployment_terminal else Deployment_transition_forbidden)
            (arrow @ '' is forbidden''))
      | Some rule \<Rightarrow>
          res_bind (check (filter (\<lambda>k. k \<notin> set (map ev_kind (ti_evidence i))) (tr_requiredEvidence rule) = [])
            (DeploymentError Deployment_evidence_missing (arrow @ '' lacks required evidence''))) (\<lambda>_.
          res_bind (check (\<not> (dst \<in> set ACTIVE_MUTATION_STATES \<and> \<not> currentGuardArmed))
            (forbidden (''Active mutation state '' @ state_name dst @ '' requires guard_armed readback''))) (\<lambda>_.
          res_bind (check (\<not> (dst \<in> set POST_ARM_STATES \<and> dst \<noteq> St_guard_armed \<and> \<not> currentGuardArmed))
            (forbidden (''Post-arm state '' @ state_name dst @ '' requires guard_armed readback''))) (\<lambda>_.
          res_bind (check (\<not> (currentGuardArmed \<and> dst \<in> set PRE_ARM_WORK_STATES \<and> dst \<noteq> St_guard_arming))
            (forbidden (''An armed deployment cannot return to pre-arm state '' @ state_name dst))) (\<lambda>_.
          res_bind (check (\<not> (dst = St_guard_armed \<and> ti_guardStatus i \<noteq> Some Armed))
            (forbidden ''guard_armed requires an explicit armed readback'')) (\<lambda>_.
          res_bind (check (\<not> (ti_guardStatus i = Some Armed \<and> dst \<noteq> St_guard_armed))
            (forbidden ''An armed readback may only establish guard_armed'')) (\<lambda>_.
          res_bind (check (\<not> (ti_guardStatus i = Some Disarmed \<and> dst \<noteq> St_succeeded \<and> dst \<noteq> St_rolled_back))
            (forbidden ''Guard disarm readback may only terminalize succeeded or rolled_back'')) (\<lambda>_.
          res_bind (check (\<not> (currentGuardArmed \<and> (dst = St_failed \<or> dst = St_timed_out \<or> dst = St_cancelling)))
            (forbidden (''An armed deployment must request rollback instead of entering '' @ state_name dst))) (\<lambda>_.
          res_bind (check (\<not> (dst = St_succeeded \<and> (ti_guardStatus i \<noteq> Some Disarmed \<or> \<not> truthy (ti_successMarkerDigest i))))
            (forbidden ''succeeded requires the exact success marker and guard disarm readback'')) (\<lambda>_.
          res_bind (check (\<not> (dst = St_rolled_back \<and> ti_guardStatus i \<noteq> Some Disarmed))
            (forbidden ''rolled_back requires guard disarm readback'')) (\<lambda>_.
          res_bind (check (\<not> ((dst = St_guard_disarming \<or> dst = St_succeeded) \<and> \<not> marker_evidence i))
            (forbidden (state_name dst @ '' requires evidence for the exact success marker digest''))) (\<lambda>_.
          res_bind (check (\<not> (truthy (ti_successMarkerDigest i) \<and> dst \<noteq> St_guard_disarming \<and> dst \<noteq> St_succeeded))
            (forbidden ''Success marker digest is invalid for this transition'')) (\<lambda>_.
          Inr rule)))))))))))))"

text \<open>The guard after a transition, as the ledger records it.\<close>

definition guard_after :: "bool \<Rightarrow> transition_input \<Rightarrow> bool" where
  "guard_after armed i =
     (if ti_guardStatus i = Some Armed then True else if ti_guardStatus i = Some Disarmed then False else armed)"

subsection \<open>Which rules there are\<close>

lemma fold_add_pair:
  "set (fold (\<lambda>(src, dst). add_pair src dst) cs ps) =
     set ps \<union> {(s, d) \<in> set cs. s \<noteq> d \<and> s \<notin> set TERMINAL_STATES}"
  by (induction cs arbitrary: ps) (auto simp: add_pair_def split: if_splits)

lemma in_buildTransitionPairs:
  "(s, d) \<in> set buildTransitionPairs \<longleftrightarrow> (s, d) \<in> set candidate_pairs \<and> s \<noteq> d \<and> s \<notin> set TERMINAL_STATES"
  by (simp add: buildTransitionPairs_def fold_add_pair)

lemma getTransitionRule_Some:
  "getTransitionRule s d = Some r \<longleftrightarrow> (s, d) \<in> set buildTransitionPairs \<and> r = createRule s d"
proof -
  have c: "tr_from (createRule a b) = a" "tr_to (createRule a b) = b" for a b by (simp_all add: createRule_def Let_def)
  have "find (\<lambda>r. tr_from r = s \<and> tr_to r = d) (map (\<lambda>(a, b). createRule a b) ps) =
      (if (s, d) \<in> set ps then Some (createRule s d) else None)" for ps
    by (induction ps) (auto simp: c)
  then show ?thesis by (auto simp: getTransitionRule_def TRANSITION_RULES_def)
qed

lemma getTransitionRule_None: "getTransitionRule s d = None \<longleftrightarrow> (s, d) \<notin> set buildTransitionPairs"
  using getTransitionRule_Some by (metis not_Some_eq)

interpretation dsm: terminal_machine "\<lambda>s d. getTransitionRule s d \<noteq> None" "\<lambda>s. s \<in> set TERMINAL_STATES"
  by unfold_locales (simp add: getTransitionRule_None in_buildTransitionPairs)

lemma assertTransitionAllowed_Inr:
  "assertTransitionAllowed armed i = Inr r \<longleftrightarrow>
     (ti_expectedState i, ti_nextState i) \<in> set buildTransitionPairs \<and>
     r = createRule (ti_expectedState i) (ti_nextState i) \<and>
     set (REQUIRED_EVIDENCE (ti_nextState i)) \<subseteq> ev_kind ` set (ti_evidence i) \<and>
     (ti_nextState i \<in> set POST_ARM_STATES \<longrightarrow> ti_nextState i = St_guard_armed \<or> armed) \<and>
     (armed \<longrightarrow> ti_nextState i \<in> set PRE_ARM_WORK_STATES \<longrightarrow> ti_nextState i = St_guard_arming) \<and>
     (ti_guardStatus i = Some Armed \<longleftrightarrow> ti_nextState i = St_guard_armed) \<and>
     (ti_guardStatus i = Some Disarmed \<longleftrightarrow> ti_nextState i \<in> {St_succeeded, St_rolled_back}) \<and>
     (armed \<longrightarrow> ti_nextState i \<notin> {St_failed, St_timed_out, St_cancelling}) \<and>
     (ti_nextState i \<in> {St_guard_disarming, St_succeeded} \<longrightarrow> marker_evidence i) \<and>
     (truthy (ti_successMarkerDigest i) \<longrightarrow> ti_nextState i \<in> {St_guard_disarming, St_succeeded})"
proof (cases "getTransitionRule (ti_expectedState i) (ti_nextState i)")
  case None
  then have "(ti_expectedState i, ti_nextState i) \<notin> set buildTransitionPairs" by (simp only: getTransitionRule_None not_False_eq_True)
  with None show ?thesis by (simp add: assertTransitionAllowed_def Let_def)
next
  case (Some rule)
  then have rule: "rule = createRule (ti_expectedState i) (ti_nextState i)"
    and pair: "(ti_expectedState i, ti_nextState i) \<in> set buildTransitionPairs"
    by (simp_all add: getTransitionRule_Some)
  have ev: "filter (\<lambda>k. k \<notin> set (map ev_kind (ti_evidence i))) (tr_requiredEvidence rule) = [] \<longleftrightarrow>
      set (REQUIRED_EVIDENCE (ti_nextState i)) \<subseteq> ev_kind ` set (ti_evidence i)"
    by (auto simp: filter_empty_conv rule createRule_def Let_def)
  have act: "d \<in> set ACTIVE_MUTATION_STATES \<Longrightarrow> d \<in> set POST_ARM_STATES \<and> d \<noteq> St_guard_armed" for d
    by (auto simp: POST_ARM_STATES_def ACTIVE_MUTATION_STATES_def)
  show ?thesis
    unfolding assertTransitionAllowed_def Let_def Some option.case res_simps ev
    using pair rule act [of "ti_nextState i"]
    by (cases "ti_nextState i = St_succeeded"; cases "ti_nextState i = St_rolled_back"; cases "ti_nextState i = St_guard_armed")
      (auto simp: marker_evidence_def)
qed

subsection \<open>Runs of the machine\<close>

text \<open>The states a deployment went through, latest first, and whether its guard is armed.\<close>

inductive machine_trace :: "deployment_state list \<Rightarrow> bool \<Rightarrow> bool" where
  start: "machine_trace [St_requested] False"
| step: "machine_trace (s # ss) armed \<Longrightarrow> assertTransitionAllowed armed i = Inr r \<Longrightarrow> ti_expectedState i = s \<Longrightarrow>
     machine_trace (ti_nextState i # s # ss) (guard_after armed i)"

inductive_simps machine_trace_Nil [simp]: "machine_trace [] armed"

text \<open>States in which the guard has to be, and must not be, armed.\<close>

definition guard_ok :: "deployment_state \<Rightarrow> bool \<Rightarrow> bool" where
  "guard_ok s armed \<longleftrightarrow>
     (s \<in> set POST_ARM_STATES \<longrightarrow> armed) \<and>
     (s \<in> set PRE_ARM_WORK_STATES \<longrightarrow> armed \<longrightarrow> s = St_guard_arming) \<and>
     (s \<in> {St_succeeded, St_rolled_back, St_failed, St_timed_out, St_cancelling} \<longrightarrow> \<not> armed)"

lemma guard_ok_step:
  assumes "assertTransitionAllowed armed i = Inr r"
  shows "guard_ok (ti_nextState i) (guard_after armed i)"
proof -
  note a = assms [unfolded assertTransitionAllowed_Inr]
  have sep: "St_guard_armed \<notin> set PRE_ARM_WORK_STATES" "St_succeeded \<notin> set POST_ARM_STATES" "St_rolled_back \<notin> set POST_ARM_STATES"
    "St_succeeded \<notin> set PRE_ARM_WORK_STATES" "St_rolled_back \<notin> set PRE_ARM_WORK_STATES"
    by (simp_all add: state_sets)
  show ?thesis
    using a sep unfolding guard_ok_def guard_after_def
    by (cases "ti_nextState i = St_guard_armed"; cases "ti_nextState i \<in> {St_succeeded, St_rolled_back}") auto
qed

lemma into_succeeded: "(s, St_succeeded) \<in> set buildTransitionPairs \<Longrightarrow> s = St_guard_disarming"
  by (auto simp: in_buildTransitionPairs candidate_pairs_def state_sets)

definition trace_ok :: "deployment_state list \<Rightarrow> bool \<Rightarrow> bool" where
  "trace_ok ss armed \<longleftrightarrow> guard_ok (hd ss) armed \<and> (armed \<longrightarrow> St_guard_armed \<in> set ss) \<and>
     (St_succeeded \<in> set ss \<longrightarrow> {St_guard_armed, St_guard_disarming} \<subseteq> set ss) \<and>
     list_all (\<lambda>s. s \<notin> set TERMINAL_STATES) (tl ss)"

lemma machine_trace_ok: "machine_trace ss armed \<Longrightarrow> trace_ok ss armed"
proof (induction rule: machine_trace.induct)
  case start
  then show ?case by (simp add: trace_ok_def guard_ok_def state_sets)
next
  case (step s ss armed i r)
  note a = step(2) [unfolded assertTransitionAllowed_Inr]
  have "s \<notin> set TERMINAL_STATES" using a step(3) by (simp add: in_buildTransitionPairs)
  moreover have "guard_after armed i \<Longrightarrow> St_guard_armed \<in> set (ti_nextState i # s # ss)"
    using a step.IH by (auto simp: guard_after_def trace_ok_def split: if_splits)
  moreover have "St_succeeded \<in> set (ti_nextState i # s # ss) \<Longrightarrow> {St_guard_armed, St_guard_disarming} \<subseteq> set (ti_nextState i # s # ss)"
  proof -
    assume "St_succeeded \<in> set (ti_nextState i # s # ss)"
    then consider "ti_nextState i = St_succeeded" | "St_succeeded \<in> set (s # ss)" by auto
    then show ?thesis
    proof cases
      case 1
      with a step(3) have "s = St_guard_disarming" by (auto dest: into_succeeded)
      moreover from this step.IH have armed by (simp add: trace_ok_def guard_ok_def state_sets)
      ultimately show ?thesis using step.IH by (auto simp: trace_ok_def)
    next
      case 2
      with step.IH show ?thesis by (auto simp: trace_ok_def)
    qed
  qed
  ultimately show ?case using step.IH guard_ok_step [OF step(2)] by (simp add: trace_ok_def)
qed

text \<open>
  C2. The guard protects every active change: in every run of the deployment state machine a
  deployment is in a post-arm state only while its rollback guard is armed, the guard is armed only
  after guard_armed was entered, it is disarmed in succeeded, rolled_back, failed, timed_out and
  cancelling, success is reached only through guard_armed and guard_disarming, and a terminal
  state is the last one.
\<close>

theorem guard_protects_activation:
  assumes "machine_trace (s # ss) armed"
  shows "(s \<in> set POST_ARM_STATES \<longrightarrow> armed) \<and> (armed \<longrightarrow> St_guard_armed \<in> set (s # ss)) \<and>
    (s \<in> {St_succeeded, St_rolled_back, St_failed, St_timed_out, St_cancelling} \<longrightarrow> \<not> armed) \<and>
    (s = St_succeeded \<longrightarrow> {St_guard_armed, St_guard_disarming} \<subseteq> set ss) \<and>
    list_all (\<lambda>t. t \<notin> set TERMINAL_STATES) ss"
  using machine_trace_ok [OF assms] by (auto simp: trace_ok_def guard_ok_def)

subsection \<open>Every deployment can be brought to an end\<close>

definition machine_step :: "deployment_state \<times> bool \<Rightarrow> deployment_state \<times> bool \<Rightarrow> bool" where
  "machine_step x y \<longleftrightarrow> (\<exists>i r. assertTransitionAllowed (snd x) i = Inr r \<and> ti_expectedState i = fst x \<and>
     ti_nextState i = fst y \<and> snd y = guard_after (snd x) i)"

text \<open>The plainest request for a transition: one item of each required kind of evidence, and the
  guard readback and success marker the target calls for.\<close>

definition plain_input :: "deployment_state \<Rightarrow> deployment_state \<Rightarrow> transition_input" where
  "plain_input src dst =
     \<lparr>ti_deploymentId = ''d'', ti_generation = 1, ti_expectedState = src, ti_expectedSequence = 0, ti_nextState = dst,
      ti_idempotencyKey = ''k'', ti_evidence = map (\<lambda>k. \<lparr>ev_kind = k, ev_digest = ''m''\<rparr>) (REQUIRED_EVIDENCE dst),
      ti_actor = ''a'', ti_occurredAt = ''t'', ti_reason = None,
      ti_guardStatus = (if dst = St_guard_armed then Some Armed else if dst \<in> {St_succeeded, St_rolled_back} then Some Disarmed else None),
      ti_successMarkerDigest = (if dst \<in> {St_guard_disarming, St_succeeded} then Some ''m'' else None),
      ti_signatureAlgorithm = None, ti_signingKeyId = None, ti_signature = None\<rparr>"

definition enterable :: "deployment_state \<Rightarrow> bool \<Rightarrow> bool" where
  "enterable d armed \<longleftrightarrow> (d \<in> set POST_ARM_STATES \<longrightarrow> d = St_guard_armed \<or> armed) \<and>
     (armed \<longrightarrow> d \<in> set PRE_ARM_WORK_STATES \<longrightarrow> d = St_guard_arming) \<and>
     (armed \<longrightarrow> d \<notin> {St_failed, St_timed_out, St_cancelling})"

lemma plain_input_allowed:
  assumes "(s, d) \<in> set buildTransitionPairs" "enterable d armed"
  shows "assertTransitionAllowed armed (plain_input s d) = Inr (createRule s d)"
proof -
  have "d \<in> {St_guard_disarming, St_succeeded} \<Longrightarrow> marker_evidence (plain_input s d)"
    by (auto simp: marker_evidence_def plain_input_def)
  with assms show ?thesis
    unfolding assertTransitionAllowed_Inr enterable_def by (auto simp: plain_input_def image_image)
qed

lemma machine_stepI:
  assumes "(s, d) \<in> set buildTransitionPairs" "enterable d armed"
  shows "machine_step (s, armed) (d, if d = St_guard_armed then True else if d \<in> {St_succeeded, St_rolled_back} then False else armed)"
  using plain_input_allowed [OF assms] unfolding machine_step_def
  by (intro exI [of _ "plain_input s d"] exI [of _ "createRule s d"]) (auto simp: plain_input_def guard_after_def)

lemma detour:
  assumes "(s, d) \<in> set buildTransitionPairs"
    and "d \<in> {St_partial, St_reconciling, St_unknown, St_rolling_back, St_rollback_requested}"
  shows "machine_step (s, armed) (d, armed)"
  using machine_stepI [OF assms(1), of armed] assms(2) by (auto simp: enterable_def state_sets)

lemmas rule_lookup = in_buildTransitionPairs candidate_pairs_def state_sets

lemma work_to_partial:
  "s \<in> set PRE_ARM_WORK_STATES \<union> set POST_ARM_STATES \<Longrightarrow> (s, St_partial) \<in> set buildTransitionPairs"
  by (auto simp: rule_lookup)

lemma detour_pairs:
  "(St_partial, St_reconciling) \<in> set buildTransitionPairs"
  "(St_ambiguous, St_reconciling) \<in> set buildTransitionPairs"
  "(St_unknown, St_reconciling) \<in> set buildTransitionPairs"
  "(St_cancel_requested, St_reconciling) \<in> set buildTransitionPairs"
  "(St_rollback_requested, St_unknown) \<in> set buildTransitionPairs"
  "(St_rolling_back, St_unknown) \<in> set buildTransitionPairs"
  "(St_rollback_failed, St_rolling_back) \<in> set buildTransitionPairs"
  "(St_cancelling, St_rollback_requested) \<in> set buildTransitionPairs"
  "(St_reconciling, St_rolled_back) \<in> set buildTransitionPairs"
  by (simp_all add: in_buildTransitionPairs candidate_pairs_def TERMINAL_STATES_def)

lemma nonterminal_cases:
  "s \<notin> set TERMINAL_STATES \<Longrightarrow> s \<in> set PRE_ARM_WORK_STATES \<union> set POST_ARM_STATES \<or>
     s \<in> {St_partial, St_ambiguous, St_unknown, St_cancel_requested, St_cancelling, St_reconciling,
          St_rollback_requested, St_rolling_back, St_rollback_failed}"
  by (cases s) (simp_all add: state_sets)

lemma reach_reconciling:
  assumes "s \<notin> set TERMINAL_STATES"
  shows "machine_step\<^sup>*\<^sup>* (s, armed) (St_reconciling, armed)"
proof -
  let ?R = "\<lambda>s. machine_step\<^sup>*\<^sup>* (s, armed) (St_reconciling, armed)"
  have hop: "?R s" if "?R d" "(s, d) \<in> set buildTransitionPairs"
    "d \<in> {St_partial, St_reconciling, St_unknown, St_rolling_back, St_rollback_requested}" for s d
    using detour [OF that(2,3)] that(1) by (rule converse_rtranclp_into_rtranclp)
  have rec: "?R St_reconciling" by simp
  have diag: "?R s" if "s \<in> {St_partial, St_ambiguous, St_unknown, St_cancel_requested}" for s
    using that by (intro hop [OF rec]) (auto simp: detour_pairs)
  have roll: "?R St_rollback_requested" "?R St_rolling_back"
    by (rule hop [OF diag detour_pairs(5)], simp_all) (rule hop [OF diag detour_pairs(6)], simp_all)
  moreover have "?R St_rollback_failed" by (rule hop [OF roll(2) detour_pairs(7)]) simp
  moreover have "?R St_cancelling" by (rule hop [OF roll(1) detour_pairs(8)]) simp
  moreover have "?R s" if "s \<in> set PRE_ARM_WORK_STATES \<union> set POST_ARM_STATES" for s
    by (rule hop [OF diag work_to_partial [OF that]]) simp_all
  ultimately show ?thesis using nonterminal_cases [OF assms] rec diag by blast
qed

text \<open>
  C15. No deployment gets stuck: from every state that is not terminal, with the guard armed or
  not, some sequence of allowed transitions leads to rolled_back with the guard disarmed.
\<close>

theorem rollback_always_possible:
  "s \<in> set TERMINAL_STATES \<or> machine_step\<^sup>*\<^sup>* (s, armed) (St_rolled_back, False)"
proof (cases "s \<in> set TERMINAL_STATES")
  case False
  have "machine_step (St_reconciling, armed) (St_rolled_back, False)"
    using machine_stepI [of St_reconciling St_rolled_back armed, OF detour_pairs(9)] by (simp add: enterable_def state_sets)
  with reach_reconciling [OF False] show ?thesis by (auto intro: rtranclp.rtrancl_into_rtrancl)
qed simp

text \<open>A whole deployment along the happy path.\<close>

definition armed_at :: "nat \<Rightarrow> bool" where
  "armed_at n \<longleftrightarrow> 15 \<le> n \<and> n \<le> 25"

lemma happy_path_steps:
  "list_all (\<lambda>n. let s = HAPPY_PATH ! n; d = HAPPY_PATH ! Suc n
     in s \<noteq> d \<and> s \<notin> set TERMINAL_STATES \<and> (s, d) \<in> set candidate_pairs \<and> enterable d (armed_at n) \<and>
        guard_after (armed_at n) (plain_input s d) = armed_at (Suc n)) [0..<26]"
  by code_simp

lemma happy_path_trace: "n \<le> 26 \<Longrightarrow> machine_trace (rev (take (Suc n) HAPPY_PATH)) (armed_at n)"
proof (induction n)
  case 0
  then show ?case using start by (simp add: HAPPY_PATH_def armed_at_def)
next
  case (Suc n)
  let ?s = "HAPPY_PATH ! n" and ?d = "HAPPY_PATH ! Suc n"
  have len: "length HAPPY_PATH = 27" by (simp add: HAPPY_PATH_def)
  have n: "n \<in> set [0..<26]" using Suc.prems by simp
  have pair: "(?s, ?d) \<in> set buildTransitionPairs" and ent: "enterable ?d (armed_at n)"
    and guard: "guard_after (armed_at n) (plain_input ?s ?d) = armed_at (Suc n)"
    using happy_path_steps [unfolded list_all_iff, THEN bspec, OF n] by (simp_all add: in_buildTransitionPairs Let_def)
  have t: "rev (take (Suc (Suc n)) HAPPY_PATH) = ?d # ?s # rev (take n HAPPY_PATH)"
    using Suc.prems len by (simp add: take_Suc_conv_app_nth)
  have "machine_trace (?s # rev (take n HAPPY_PATH)) (armed_at n)"
    using Suc len by (simp add: take_Suc_conv_app_nth)
  from machine_trace.step [OF this plain_input_allowed [OF pair ent]] guard t show ?case
    by (simp add: plain_input_def)
qed

theorem guard_protects_activation_witness:
  "{St_guard_armed, St_guard_disarming} \<subseteq> set (rev (take 26 HAPPY_PATH)) \<and>
   list_all (\<lambda>t. t \<notin> set TERMINAL_STATES) (rev (take 26 HAPPY_PATH))"
proof -
  have "rev (take (Suc 26) HAPPY_PATH) = St_succeeded # rev (take 26 HAPPY_PATH)" by (simp add: HAPPY_PATH_def)
  with happy_path_trace [of 26] have "machine_trace (St_succeeded # rev (take 26 HAPPY_PATH)) (armed_at 26)" by simp
  from guard_protects_activation [OF this] show ?thesis by simp
qed

end
