(* ===== verification/Deployment_Ledger.thy ===== *)
theory Deployment_Ledger
  imports Deployment_State
begin

section \<open>The deployment ledger\<close>

text \<open>
  Models \<^verbatim>\<open>src/src/deployment/database.ts\<close>: the tables of the first migration as lists of typed
  rows in insertion order, and every operation that reads or writes them. A transaction that
  throws rolls back, so an operation gives either an error or a new database and a result.
  SHA-256 and \<open>localeCompare\<close> are parameters. Texts that are written as canonical JSON and only
  read back by parsing (evidence lists, results) are kept as the value they parse to. The CHECK
  constraints on digest lengths hold for the output of SHA-256 and are written out only for
  the success marker, which a request supplies. Opening, migrating and checkpointing the
  file are not modelled.
\<close>

subsection \<open>Formats\<close>

definition DIGEST_PATTERN :: "string \<Rightarrow> bool" where
  "DIGEST_PATTERN s = chars_between is_lower_hex 64 64 s"

definition GIT_OBJECT_PATTERN :: "string \<Rightarrow> bool" where
  "GIT_OBJECT_PATTERN s \<longleftrightarrow> chars_between is_lower_hex 40 40 s \<or> chars_between is_lower_hex 64 64 s"

definition identifier_char :: "char \<Rightarrow> bool" where
  "identifier_char c \<longleftrightarrow> is_alnum c \<or> c \<in> {CHR ''.'', CHR ''_'', CHR '':'', CHR ''-''}"

definition IDENTIFIER_PATTERN :: "string \<Rightarrow> bool" where
  "IDENTIFIER_PATTERN s \<longleftrightarrow> s \<noteq> [] \<and> is_alnum (hd s) \<and> chars_between identifier_char 0 255 (tl s)"

definition IDEMPOTENCY_PATTERN :: "string \<Rightarrow> bool" where
  "IDEMPOTENCY_PATTERN s = chars_between identifier_char 8 256 s"

definition base64_char :: "char \<Rightarrow> bool" where
  "base64_char c \<longleftrightarrow> is_alnum c \<or> c = CHR ''+'' \<or> c = CHR ''/''"

definition SIGNATURE_PATTERN :: "string \<Rightarrow> bool" where
  "SIGNATURE_PATTERN s \<longleftrightarrow> 32 \<le> length (takeWhile base64_char s) \<and> dropWhile base64_char s \<in> {'''', ''='', ''==''}"

lemmas ledger_pattern_defs [pattern_defs] = DIGEST_PATTERN_def GIT_OBJECT_PATTERN_def IDENTIFIER_PATTERN_def
  IDEMPOTENCY_PATTERN_def SIGNATURE_PATTERN_def

definition safe_integer :: "int \<Rightarrow> bool" where
  "safe_integer n \<longleftrightarrow> \<bar>n\<bar> \<le> 2 ^ 53 - 1"

subsection \<open>Errors\<close>

text \<open>The ledger's own errors, and a constraint of the database that refuses a statement.\<close>

datatype ledger_error = LedgerError deployment_error | ConstraintError

abbreviation invalid :: "string \<Rightarrow> ledger_error" where
  "invalid m \<equiv> LedgerError (DeploymentError Deployment_invalid m)"

abbreviation ledger_forbidden :: "string \<Rightarrow> ledger_error" where
  "ledger_forbidden m \<equiv> LedgerError (forbidden m)"

primrec lift_error :: "(deployment_error, 'a) result \<Rightarrow> (ledger_error, 'a) result" where
  "lift_error (Inl e) = Inl (LedgerError e)"
| "lift_error (Inr v) = Inr v"

definition assertIdentifier :: "string \<Rightarrow> string \<Rightarrow> (ledger_error, unit) result" where
  "assertIdentifier value label = check (IDENTIFIER_PATTERN value) (invalid (label @ '' is invalid''))"

definition assertIdempotencyKey :: "string \<Rightarrow> (ledger_error, unit) result" where
  "assertIdempotencyKey value = check (IDEMPOTENCY_PATTERN value) (invalid ''idempotencyKey is invalid'')"

definition assertDigest :: "string \<Rightarrow> string \<Rightarrow> (ledger_error, unit) result" where
  "assertDigest value label = check (DIGEST_PATTERN value) (invalid (label @ '' must be a lowercase SHA-256''))"

definition assertGitObject :: "string \<Rightarrow> string \<Rightarrow> (ledger_error, unit) result" where
  "assertGitObject value label = check (GIT_OBJECT_PATTERN value) (invalid (label @ '' is not a Git object ID''))"

definition assertTimestamp :: "string \<Rightarrow> string \<Rightarrow> (ledger_error, unit) result" where
  "assertTimestamp value label = check (canonical_timestamp value) (invalid (label @ '' must be canonical ISO-8601''))"

lemmas assert_defs = assertIdentifier_def assertIdempotencyKey_def assertDigest_def assertGitObject_def assertTimestamp_def

subsection \<open>Rows\<close>

definition DEPLOYMENT_PRODUCTS :: "string list" where
  "DEPLOYMENT_PRODUCTS = [''baby-quirt'', ''baby-quirt-mcp'']"

record deployment_request =
  dr_deploymentId :: string
  dr_generation :: int
  dr_machineId :: string
  dr_planDigest :: string
  dr_requestDigest :: string
  dr_deadline :: string
  dr_requestedAt :: string
  dr_requestedBy :: string
  dr_idempotencyKey :: string

record deployment_record =
  dp_request :: deployment_request
  dp_sourceSetDigest :: string
  dp_state :: deployment_state
  dp_stateSequence :: int
  dp_guardArmed :: bool
  dp_successMarkerDigest :: "string option"
  dp_terminal :: bool
  dp_recordDigest :: string
  dp_createdAt :: string
  dp_updatedAt :: string

record source_record =
  so_deploymentId :: string
  so_product :: string
  so_repository :: string
  so_commit :: string
  so_tree :: string

record product_record =
  pr_deploymentId :: string
  pr_product :: string
  pr_repository :: string
  pr_commit :: string
  pr_tree :: string
  pr_manifestDigest :: string
  pr_artifactDigest :: string
  pr_compatibilityDigest :: string

record evidence_record =
  ee_deploymentId :: string
  ee_digest :: string
  ee_kind :: string
  ee_contentLength :: int
  ee_artifactReference :: string
  ee_redacted :: bool
  ee_signatureAlgorithm :: string
  ee_signingKeyId :: string
  ee_signature :: string
  ee_createdAt :: string

text \<open>A transition row is the request it records, with what the ledger adds; the row's prior state
  and sequence are the request's expected state and the successor of its expected sequence.\<close>

record transition_record =
  tx_input :: transition_input
  tx_sequence :: int
  tx_intentDigest :: string
  tx_transitionDigest :: string
  tx_terminal :: bool

record intent_row =
  in_idempotencyKey :: string
  in_semanticDigest :: string
  in_operation :: string
  in_deploymentId :: "string option"
  in_status :: entry_status
  in_resultDigest :: "string option"
  in_result :: "json option"
  in_createdAt :: string
  in_completedAt :: "string option"

record ledger_db =
  db_deployments :: "deployment_record list"
  db_sources :: "source_record list"
  db_products :: "product_record list"
  db_evidence :: "evidence_record list"
  db_transitions :: "transition_record list"
  db_intents :: "intent_row list"

definition empty_ledger :: ledger_db where
  "empty_ledger = \<lparr>db_deployments = [], db_sources = [], db_products = [], db_evidence = [], db_transitions = [], db_intents = []\<rparr>"

abbreviation dp_id :: "deployment_record \<Rightarrow> string" where
  "dp_id d \<equiv> dr_deploymentId (dp_request d)"

subsection \<open>Documents\<close>

definition opt_json :: "string option \<Rightarrow> json" where
  "opt_json x = (case x of None \<Rightarrow> JNull | Some s \<Rightarrow> JStr s)"

definition request_entries :: "deployment_request \<Rightarrow> json_object" where
  "request_entries r =
     [(''deploymentId'', JStr (dr_deploymentId r)), (''generation'', JNum (dr_generation r)),
      (''machineId'', JStr (dr_machineId r)), (''planDigest'', JStr (dr_planDigest r)),
      (''requestDigest'', JStr (dr_requestDigest r)), (''deadline'', JStr (dr_deadline r)),
      (''requestedAt'', JStr (dr_requestedAt r)), (''requestedBy'', JStr (dr_requestedBy r)),
      (''idempotencyKey'', JStr (dr_idempotencyKey r))]"

definition source_json :: "source_record \<Rightarrow> json" where
  "source_json s = JObj
     [(''deploymentId'', JStr (so_deploymentId s)), (''product'', JStr (so_product s)),
      (''repository'', JStr (so_repository s)), (''commit'', JStr (so_commit s)), (''tree'', JStr (so_tree s))]"

definition product_json :: "product_record \<Rightarrow> json" where
  "product_json p = JObj
     [(''deploymentId'', JStr (pr_deploymentId p)), (''product'', JStr (pr_product p)),
      (''repository'', JStr (pr_repository p)), (''commit'', JStr (pr_commit p)), (''tree'', JStr (pr_tree p)),
      (''manifestDigest'', JStr (pr_manifestDigest p)), (''artifactDigest'', JStr (pr_artifactDigest p)),
      (''compatibilityDigest'', JStr (pr_compatibilityDigest p))]"

definition evidence_json :: "evidence_record \<Rightarrow> json" where
  "evidence_json e = JObj
     [(''deploymentId'', JStr (ee_deploymentId e)), (''digest'', JStr (ee_digest e)), (''kind'', JStr (ee_kind e)),
      (''contentLength'', JNum (ee_contentLength e)), (''artifactReference'', JStr (ee_artifactReference e)),
      (''redacted'', JBool (ee_redacted e)), (''signatureAlgorithm'', JStr (ee_signatureAlgorithm e)),
      (''signingKeyId'', JStr (ee_signingKeyId e)), (''signature'', JStr (ee_signature e)), (''createdAt'', JStr (ee_createdAt e))]"

definition reference_json :: "evidence_reference \<Rightarrow> json" where
  "reference_json e = JObj [(''kind'', JStr (ev_kind e)), (''digest'', JStr (ev_digest e))]"

definition reference_key :: "evidence_reference \<Rightarrow> string" where
  "reference_key e = ev_kind e @ '':'' @ ev_digest e"

primrec guard_status_name :: "guard_status \<Rightarrow> string" where
  "guard_status_name Armed = ''armed''"
| "guard_status_name Disarmed = ''disarmed''"

primrec mutation_class_name :: "mutation_class \<Rightarrow> string" where
  "mutation_class_name MutNone = ''none''"
| "mutation_class_name InactiveOnly = ''inactive_only''"
| "mutation_class_name GuardControl = ''guard_control''"
| "mutation_class_name ActiveProduct = ''active_product''"
| "mutation_class_name MutRollback = ''rollback''"

primrec terminal_truth_name :: "terminal_truth \<Rightarrow> string" where
  "terminal_truth_name NonterminalTruth = ''nonterminal''"
| "terminal_truth_name SuccessTruth = ''success''"
| "terminal_truth_name FailureTruth = ''failure''"
| "terminal_truth_name RolledBackTruth = ''rolled_back''"
| "terminal_truth_name ManualRecoveryTruth = ''manual_recovery''"

text \<open>What the code takes from outside the repository.\<close>

record ledger_env =
  le_sha256 :: "string \<Rightarrow> string"
  le_localeLe :: "string \<Rightarrow> string \<Rightarrow> bool"

definition intent_digest :: "ledger_env \<Rightarrow> transition_input \<Rightarrow> string" where
  "intent_digest env i = le_sha256 env (canonicalJson (JObj
     [(''deploymentId'', JStr (ti_deploymentId i)), (''generation'', JNum (ti_generation i)),
      (''expectedState'', JStr (state_name (ti_expectedState i))), (''expectedSequence'', JNum (ti_expectedSequence i)),
      (''nextState'', JStr (state_name (ti_nextState i))),
      (''evidence'', JArr (map reference_json
         (sort_by (\<lambda>a b. le_localeLe env (reference_key a) (reference_key b)) (ti_evidence i)))),
      (''actor'', JStr (ti_actor i)), (''occurredAt'', JStr (ti_occurredAt i)), (''reason'', opt_json (ti_reason i)),
      (''guardStatus'', opt_json (map_option guard_status_name (ti_guardStatus i))),
      (''successMarkerDigest'', opt_json (ti_successMarkerDigest i)),
      (''signatureAlgorithm'', opt_json (ti_signatureAlgorithm i))]))"

definition transition_digest :: "ledger_env \<Rightarrow> string \<Rightarrow> string \<Rightarrow> int \<Rightarrow> transition_rule \<Rightarrow> string" where
  "transition_digest env priorRecordDigest intentDigest sequence rule = le_sha256 env (canonicalJson (JObj
     [(''priorRecordDigest'', JStr priorRecordDigest), (''intentDigest'', JStr intentDigest), (''sequence'', JNum sequence),
      (''mutationClass'', JStr (mutation_class_name (tr_mutationClass rule))),
      (''terminalTruth'', JStr (terminal_truth_name (tr_terminalTruth rule)))]))"

definition record_digest :: "ledger_env \<Rightarrow> string \<Rightarrow> string \<Rightarrow> deployment_state \<Rightarrow> int \<Rightarrow> bool \<Rightarrow> string option \<Rightarrow> bool \<Rightarrow> string" where
  "record_digest env priorRecordDigest transitionDigest state sequence guardArmed marker terminal =
     le_sha256 env (canonicalJson (JObj
     [(''priorRecordDigest'', JStr priorRecordDigest), (''transitionDigest'', JStr transitionDigest),
      (''state'', JStr (state_name state)), (''stateSequence'', JNum sequence), (''guardArmed'', JBool guardArmed),
      (''successMarkerDigest'', opt_json marker), (''terminal'', JBool terminal)]))"

subsection \<open>Reading\<close>

definition getDeployment :: "string \<Rightarrow> ledger_db \<Rightarrow> deployment_record option" where
  "getDeployment did db = find (\<lambda>d. dp_id d = did) (db_deployments db)"

definition getDeploymentRequired :: "string \<Rightarrow> ledger_db \<Rightarrow> (ledger_error, deployment_record) result" where
  "getDeploymentRequired did db =
     (case getDeployment did db of
        None \<Rightarrow> Inl (LedgerError (DeploymentError Deployment_not_found (''Deployment '' @ did @ '' not found'')))
      | Some d \<Rightarrow> Inr d)"

definition listDeployments :: "int \<Rightarrow> int \<Rightarrow> ledger_db \<Rightarrow> (ledger_error, deployment_record list) result" where
  "listDeployments offset limit db =
     res_bind (check (safe_integer offset \<and> 0 \<le> offset) (invalid ''offset must be nonnegative'')) (\<lambda>_.
     res_bind (check (safe_integer limit \<and> 1 \<le> limit \<and> limit \<le> 200) (invalid ''limit must be between 1 and 200'')) (\<lambda>_.
     Inr (take (nat limit) (drop (nat offset)
       (sort_by (\<lambda>a b. dr_generation (dp_request a) > dr_generation (dp_request b)
          \<or> dr_generation (dp_request a) = dr_generation (dp_request b) \<and> dp_id a \<le> dp_id b) (db_deployments db))))))"

definition listSources :: "string \<Rightarrow> ledger_db \<Rightarrow> source_record list" where
  "listSources did db = sort_key so_product (filter (\<lambda>s. so_deploymentId s = did) (db_sources db))"

definition listProducts :: "string \<Rightarrow> ledger_db \<Rightarrow> product_record list" where
  "listProducts did db = sort_key pr_product (filter (\<lambda>p. pr_deploymentId p = did) (db_products db))"

definition listEvidence :: "string \<Rightarrow> string option \<Rightarrow> ledger_db \<Rightarrow> evidence_record list" where
  "listEvidence did kind db =
     sort_by (\<lambda>a b. ee_createdAt a < ee_createdAt b \<or> ee_createdAt a = ee_createdAt b \<and> ee_digest a \<le> ee_digest b)
       (filter (\<lambda>e. ee_deploymentId e = did \<and> (truthy kind \<longrightarrow> kind = Some (ee_kind e))) (db_evidence db))"

definition listTransitions :: "string \<Rightarrow> ledger_db \<Rightarrow> transition_record list" where
  "listTransitions did db = sort_key tx_sequence (filter (\<lambda>t. ti_deploymentId (tx_input t) = did) (db_transitions db))"

subsection \<open>createDeployment\<close>

definition validateRequest :: "deployment_request \<Rightarrow> (ledger_error, unit) result" where
  "validateRequest r =
     res_bind (assertIdentifier (dr_deploymentId r) ''deploymentId'') (\<lambda>_.
     res_bind (assertIdentifier (dr_machineId r) ''machineId'') (\<lambda>_.
     res_bind (assertIdentifier (dr_requestedBy r) ''requestedBy'') (\<lambda>_.
     res_bind (assertIdempotencyKey (dr_idempotencyKey r)) (\<lambda>_.
     res_bind (assertDigest (dr_planDigest r) ''planDigest'') (\<lambda>_.
     res_bind (assertDigest (dr_requestDigest r) ''requestDigest'') (\<lambda>_.
     res_bind (assertTimestamp (dr_requestedAt r) ''requestedAt'') (\<lambda>_.
     res_bind (assertTimestamp (dr_deadline r) ''deadline'') (\<lambda>_.
     res_bind (check (\<not> time_of (dr_deadline r) \<le> time_of (dr_requestedAt r)) (invalid ''deadline must be after requestedAt'')) (\<lambda>_.
     check (safe_integer (dr_generation r) \<and> 0 < dr_generation r) (invalid ''generation must be a positive integer''))))))))))"

definition canonical_repository :: "string \<Rightarrow> string" where
  "canonical_repository product = ''StealthEyeLLC/'' @ product"

primrec validate_each_source :: "string \<Rightarrow> string list \<Rightarrow> source_record list \<Rightarrow> (ledger_error, unit) result" where
  "validate_each_source did seen [] = Inr ()"
| "validate_each_source did seen (s # ss) =
     res_bind (check (so_deploymentId s = did) (invalid ''Source deployment ID does not match'')) (\<lambda>_.
     res_bind (check (so_product s \<in> set DEPLOYMENT_PRODUCTS) (invalid ''Unknown source product'')) (\<lambda>_.
     res_bind (check (so_product s \<notin> set seen) (invalid ''Duplicate source product'')) (\<lambda>_.
     res_bind (check (so_repository s = canonical_repository (so_product s))
       (invalid (''Repository for '' @ so_product s @ '' must be '' @ canonical_repository (so_product s)))) (\<lambda>_.
     res_bind (assertGitObject (so_commit s) ''source commit'') (\<lambda>_.
     res_bind (assertGitObject (so_tree s) ''source tree'') (\<lambda>_.
     validate_each_source did (so_product s # seen) ss))))))"

text \<open>\<open>localeCompare\<close> on the two product names: the shorter one is a prefix and comes first.\<close>

definition product_le :: "string \<Rightarrow> string \<Rightarrow> bool" where
  "product_le a b \<longleftrightarrow> a = ''baby-quirt'' \<or> b = ''baby-quirt-mcp''"

definition validateSources :: "string \<Rightarrow> source_record list \<Rightarrow> (ledger_error, source_record list) result" where
  "validateSources did sources =
     res_bind (check (length sources = length DEPLOYMENT_PRODUCTS)
       (invalid ''A coordinated deployment requires exactly Baby and gateway source identities'')) (\<lambda>_.
     res_bind (validate_each_source did [] sources) (\<lambda>_.
     Inr (sort_by (\<lambda>a b. product_le (so_product a) (so_product b)) sources)))"

definition initial_record_digest :: "ledger_env \<Rightarrow> deployment_request \<Rightarrow> string \<Rightarrow> string" where
  "initial_record_digest env r sourceSetDigest = le_sha256 env (canonicalJson (JObj (request_entries r @
     [(''sourceSetDigest'', JStr sourceSetDigest), (''state'', JStr ''requested''), (''stateSequence'', JNum 0),
      (''guardArmed'', JBool False), (''terminal'', JBool False)])))"

definition initial_record :: "ledger_env \<Rightarrow> deployment_request \<Rightarrow> string \<Rightarrow> deployment_record" where
  "initial_record env r sourceSetDigest =
     \<lparr>dp_request = r, dp_sourceSetDigest = sourceSetDigest, dp_state = St_requested, dp_stateSequence = 0,
      dp_guardArmed = False, dp_successMarkerDigest = None, dp_terminal = False,
      dp_recordDigest = initial_record_digest env r sourceSetDigest,
      dp_createdAt = dr_requestedAt r, dp_updatedAt = dr_requestedAt r\<rparr>"

definition createDeployment ::
  "ledger_env \<Rightarrow> deployment_request \<Rightarrow> source_record list \<Rightarrow> ledger_db \<Rightarrow> (ledger_error, ledger_db \<times> deployment_record) result" where
  "createDeployment env r sources db =
     res_bind (validateRequest r) (\<lambda>_.
     res_bind (validateSources (dr_deploymentId r) sources) (\<lambda>canonicalSources.
     let sourceSetDigest = le_sha256 env (canonicalJson (JArr (map source_json canonicalSources))) in
     case find (\<lambda>d. dr_idempotencyKey (dp_request d) = dr_idempotencyKey r) (db_deployments db) of
       Some existing \<Rightarrow>
         res_bind (check (dr_requestDigest (dp_request existing) = dr_requestDigest r \<and> dp_sourceSetDigest existing = sourceSetDigest)
           (LedgerError (DeploymentError Idempotency_conflict ''Idempotency key has changed intent''))) (\<lambda>_.
         Inr (db, existing))
     | None \<Rightarrow>
         res_bind (check (\<not> list_ex (\<lambda>d. dp_id d = dr_deploymentId r \<or> dr_generation (dp_request d) = dr_generation r) (db_deployments db))
           (LedgerError (DeploymentError Deployment_conflict ''Deployment ID or generation already exists''))) (\<lambda>_.
         let d = initial_record env r sourceSetDigest
         in Inr (db\<lparr>db_deployments := db_deployments db @ [d], db_sources := db_sources db @ canonicalSources\<rparr>, d))))"

subsection \<open>addProduct and appendEvidence\<close>

definition validate_product :: "product_record \<Rightarrow> (ledger_error, unit) result" where
  "validate_product p =
     res_bind (assertIdentifier (pr_deploymentId p) ''deploymentId'') (\<lambda>_.
     res_bind (check (pr_product p \<in> set DEPLOYMENT_PRODUCTS) (invalid ''Unknown deployment product'')) (\<lambda>_.
     res_bind (check (pr_repository p = canonical_repository (pr_product p))
       (invalid (''Repository for '' @ pr_product p @ '' must be '' @ canonical_repository (pr_product p)))) (\<lambda>_.
     res_bind (assertGitObject (pr_commit p) ''commit'') (\<lambda>_.
     res_bind (assertGitObject (pr_tree p) ''tree'') (\<lambda>_.
     res_bind (assertDigest (pr_manifestDigest p) ''manifestDigest'') (\<lambda>_.
     res_bind (assertDigest (pr_artifactDigest p) ''artifactDigest'') (\<lambda>_.
     assertDigest (pr_compatibilityDigest p) ''compatibilityDigest'')))))))"

definition addProduct :: "product_record \<Rightarrow> ledger_db \<Rightarrow> (ledger_error, ledger_db \<times> product_record) result" where
  "addProduct p db =
     res_bind (validate_product p) (\<lambda>_.
     res_bind (getDeploymentRequired (pr_deploymentId p) db) (\<lambda>d.
     res_bind (check (dp_state d \<in> {St_requested, St_artifact_verified, St_compatibility_verifying})
       (LedgerError (DeploymentError Deployment_state_conflict
          ''Products may only be frozen before compatibility verification completes''))) (\<lambda>_.
     case find (\<lambda>s. so_deploymentId s = pr_deploymentId p \<and> so_product s = pr_product p) (db_sources db) of
       None \<Rightarrow> Inl (invalid ''Product has no frozen source identity'')
     | Some source \<Rightarrow>
         res_bind (check (so_repository source = pr_repository p \<and> so_commit source = pr_commit p \<and> so_tree source = pr_tree p)
           (LedgerError (DeploymentError Deployment_conflict ''Product differs from frozen source''))) (\<lambda>_.
         case find (\<lambda>q. pr_deploymentId q = pr_deploymentId p \<and> pr_product q = pr_product p) (db_products db) of
           Some existing \<Rightarrow>
             res_bind (check (canonicalJson (product_json existing) = canonicalJson (product_json p))
               (LedgerError (DeploymentError Deployment_conflict ''Product identity is immutable''))) (\<lambda>_.
             Inr (db, existing))
         | None \<Rightarrow> Inr (db\<lparr>db_products := db_products db @ [p]\<rparr>, p)))))"

definition validate_evidence :: "evidence_record \<Rightarrow> (ledger_error, unit) result" where
  "validate_evidence e =
     res_bind (assertIdentifier (ee_deploymentId e) ''deploymentId'') (\<lambda>_.
     res_bind (assertIdentifier (ee_kind e) ''evidence kind'') (\<lambda>_.
     res_bind (assertIdentifier (ee_signingKeyId e) ''signingKeyId'') (\<lambda>_.
     res_bind (assertDigest (ee_digest e) ''evidence digest'') (\<lambda>_.
     res_bind (assertTimestamp (ee_createdAt e) ''createdAt'') (\<lambda>_.
     res_bind (check (safe_integer (ee_contentLength e) \<and> 0 \<le> ee_contentLength e) (invalid ''contentLength must be nonnegative'')) (\<lambda>_.
     res_bind (check (ee_artifactReference e = ''artifact:sha256:'' @ ee_digest e)
       (invalid ''Evidence must use its exact content-addressed artifact reference'')) (\<lambda>_.
     res_bind (check (ee_redacted e) (invalid ''Durable public evidence must be redacted'')) (\<lambda>_.
     res_bind (check (ee_signatureAlgorithm e = ''ed25519'') (invalid ''Evidence must use Ed25519'')) (\<lambda>_.
     check (SIGNATURE_PATTERN (ee_signature e)) (invalid ''Evidence signature is invalid''))))))))))"

definition appendEvidence :: "evidence_record \<Rightarrow> ledger_db \<Rightarrow> (ledger_error, ledger_db \<times> evidence_record) result" where
  "appendEvidence e db =
     res_bind (validate_evidence e) (\<lambda>_.
     res_bind (getDeploymentRequired (ee_deploymentId e) db) (\<lambda>_.
     case find (\<lambda>f. ee_deploymentId f = ee_deploymentId e \<and> ee_digest f = ee_digest e \<and> ee_kind f = ee_kind e) (db_evidence db) of
       Some existing \<Rightarrow>
         res_bind (check (canonicalJson (evidence_json existing) = canonicalJson (evidence_json e))
           (LedgerError (DeploymentError Deployment_conflict ''Evidence identity is immutable''))) (\<lambda>_.
         Inr (db, existing))
     | None \<Rightarrow> Inr (db\<lparr>db_evidence := db_evidence db @ [e]\<rparr>, e)))"

subsection \<open>transition\<close>

primrec validate_references :: "string list \<Rightarrow> evidence_reference list \<Rightarrow> (ledger_error, unit) result" where
  "validate_references seen [] = Inr ()"
| "validate_references seen (e # es) =
     res_bind (assertIdentifier (ev_kind e) ''evidence kind'') (\<lambda>_.
     res_bind (assertDigest (ev_digest e) ''evidence digest'') (\<lambda>_.
     res_bind (check (reference_key e \<notin> set seen) (invalid ''Duplicate transition evidence'')) (\<lambda>_.
     validate_references (reference_key e # seen) es)))"

definition validateTransitionInput :: "transition_input \<Rightarrow> (ledger_error, unit) result" where
  "validateTransitionInput i =
     res_bind (assertIdentifier (ti_deploymentId i) ''deploymentId'') (\<lambda>_.
     res_bind (assertIdentifier (ti_actor i) ''actor'') (\<lambda>_.
     res_bind (assertIdempotencyKey (ti_idempotencyKey i)) (\<lambda>_.
     res_bind (assertTimestamp (ti_occurredAt i) ''occurredAt'') (\<lambda>_.
     res_bind (check (safe_integer (ti_generation i) \<and> 0 < ti_generation i) (invalid ''generation must be positive'')) (\<lambda>_.
     res_bind (check (safe_integer (ti_expectedSequence i) \<and> 0 \<le> ti_expectedSequence i)
       (invalid ''expectedSequence must be nonnegative'')) (\<lambda>_.
     res_bind (check (ti_evidence i \<noteq> [])
       (LedgerError (DeploymentError Deployment_evidence_missing ''Transition evidence is required''))) (\<lambda>_.
     res_bind (validate_references [] (ti_evidence i)) (\<lambda>_.
     res_bind (if truthy (ti_signingKeyId i) then assertIdentifier (the (ti_signingKeyId i)) ''signingKeyId'' else Inr ()) (\<lambda>_.
     res_bind (check (\<not> (truthy (ti_signatureAlgorithm i) \<and> ti_signatureAlgorithm i \<noteq> Some ''ed25519''))
       (invalid ''Transition must use Ed25519'')) (\<lambda>_.
     check (\<not> (truthy (ti_signature i) \<and> \<not> SIGNATURE_PATTERN (the (ti_signature i))))
       (invalid ''Transition signature is invalid'')))))))))))"

definition check_preflight :: "transition_input \<Rightarrow> ledger_db \<Rightarrow> (ledger_error, unit) result" where
  "check_preflight i db =
     (if ti_nextState i = St_preflight then
        let products = listProducts (ti_deploymentId i) db in
        res_bind (check (length products = length DEPLOYMENT_PRODUCTS)
          (ledger_forbidden ''Preflight requires immutable manifests for both products'')) (\<lambda>_.
        check (card (pr_compatibilityDigest ` set products) = 1)
          (ledger_forbidden ''Product manifests do not bind one compatibility declaration''))
      else Inr ())"

definition in_evidence :: "string \<Rightarrow> evidence_reference \<Rightarrow> ledger_db \<Rightarrow> bool" where
  "in_evidence did ref db =
     list_ex (\<lambda>e. ee_deploymentId e = did \<and> ee_digest e = ev_digest ref \<and> ee_kind e = ev_kind ref) (db_evidence db)"

primrec check_evidence :: "string \<Rightarrow> evidence_reference list \<Rightarrow> ledger_db \<Rightarrow> (ledger_error, unit) result" where
  "check_evidence did [] db = Inr ()"
| "check_evidence did (ref # refs) db =
     res_bind (check (in_evidence did ref db)
       (LedgerError (DeploymentError Deployment_evidence_missing
          (''Evidence '' @ reference_key ref @ '' is not in the deployment ledger'')))) (\<lambda>_.
     check_evidence did refs db)"

text \<open>The row a transition writes and the record it leaves.\<close>

definition transition_row :: "ledger_env \<Rightarrow> deployment_record \<Rightarrow> transition_input \<Rightarrow> transition_record" where
  "transition_row env d i =
     (let sequence = dp_stateSequence d + 1; intentDigest = intent_digest env i
      in \<lparr>tx_input = i, tx_sequence = sequence, tx_intentDigest = intentDigest,
          tx_transitionDigest = transition_digest env (dp_recordDigest d) intentDigest sequence
            (createRule (ti_expectedState i) (ti_nextState i)),
          tx_terminal = (ti_nextState i \<in> set TERMINAL_STATES)\<rparr>)"

definition next_record :: "ledger_env \<Rightarrow> deployment_record \<Rightarrow> transition_record \<Rightarrow> deployment_record" where
  "next_record env d t =
     (let i = tx_input t;
          guardArmed = guard_after (dp_guardArmed d) i;
          marker = (case ti_successMarkerDigest i of None \<Rightarrow> dp_successMarkerDigest d | Some m \<Rightarrow> Some m)
      in d\<lparr>dp_state := ti_nextState i, dp_stateSequence := tx_sequence t, dp_guardArmed := guardArmed,
           dp_successMarkerDigest := marker, dp_terminal := tx_terminal t,
           dp_recordDigest := record_digest env (dp_recordDigest d) (tx_transitionDigest t) (ti_nextState i) (tx_sequence t)
             guardArmed marker (tx_terminal t),
           dp_updatedAt := ti_occurredAt i\<rparr>)"

text \<open>The CHECK on the success marker column.\<close>

definition marker_length_ok :: "string option \<Rightarrow> bool" where
  "marker_length_ok m = (case m of None \<Rightarrow> True | Some s \<Rightarrow> length s = 64)"

text \<open>\<open>UPDATE ... WHERE deployment_id, generation, state and state_sequence\<close> match; the number of
  changed rows is the second component.\<close>

definition update_deployments ::
  "transition_input \<Rightarrow> (deployment_record \<Rightarrow> deployment_record) \<Rightarrow> deployment_record list \<Rightarrow> deployment_record list \<times> nat" where
  "update_deployments i f ds =
     (let hit = (\<lambda>d. dp_id d = ti_deploymentId i \<and> dr_generation (dp_request d) = ti_generation i
           \<and> dp_state d = ti_expectedState i \<and> dp_stateSequence d = ti_expectedSequence i)
      in (map (\<lambda>d. if hit d then f d else d) ds, length (filter hit ds)))"

definition check_cas :: "transition_input \<Rightarrow> deployment_record \<Rightarrow> (ledger_error, unit) result" where
  "check_cas i d =
     res_bind (check (\<not> dp_terminal d)
       (LedgerError (DeploymentError Deployment_terminal ''Terminal deployment is immutable''))) (\<lambda>_.
     res_bind (check (dr_generation (dp_request d) = ti_generation i)
       (LedgerError (DeploymentError Deployment_generation_conflict ''Deployment generation compare-and-swap failed''))) (\<lambda>_.
     check (dp_state d = ti_expectedState i \<and> dp_stateSequence d = ti_expectedSequence i)
       (LedgerError (DeploymentError Deployment_state_conflict ''Deployment state compare-and-swap failed''))))"

definition check_terminal_and_marker :: "transition_input \<Rightarrow> deployment_record \<Rightarrow> (ledger_error, unit) result" where
  "check_terminal_and_marker i d =
     res_bind (check (\<not> (ti_nextState i \<in> set TERMINAL_STATES \<and> (ti_signatureAlgorithm i \<noteq> Some ''ed25519''
         \<or> \<not> truthy (ti_signingKeyId i) \<or> \<not> truthy (ti_signature i))))
       (ledger_forbidden ''Every terminal transition requires a signature'')) (\<lambda>_.
     res_bind (if truthy (ti_successMarkerDigest i) then assertDigest (the (ti_successMarkerDigest i)) ''successMarkerDigest'' else Inr ()) (\<lambda>_.
     check (\<not> (ti_nextState i = St_succeeded \<and> dp_successMarkerDigest d \<noteq> ti_successMarkerDigest i))
       (ledger_forbidden ''Success marker changed after guard disarming began'')))"

definition transition :: "ledger_env \<Rightarrow> transition_input \<Rightarrow> ledger_db \<Rightarrow> (ledger_error, ledger_db \<times> transition_record) result" where
  "transition env i db =
     res_bind (validateTransitionInput i) (\<lambda>_.
     case find (\<lambda>t. ti_deploymentId (tx_input t) = ti_deploymentId i \<and> ti_idempotencyKey (tx_input t) = ti_idempotencyKey i)
            (db_transitions db) of
       Some prior \<Rightarrow>
         res_bind (check (tx_intentDigest prior = intent_digest env i)
           (LedgerError (DeploymentError Idempotency_conflict ''Transition idempotency key changed intent''))) (\<lambda>_.
         Inr (db, prior))
     | None \<Rightarrow>
         res_bind (getDeploymentRequired (ti_deploymentId i) db) (\<lambda>d.
         res_bind (check_cas i d) (\<lambda>_.
         res_bind (lift_error (assertTransitionAllowed (dp_guardArmed d) i)) (\<lambda>rule.
         res_bind (check_preflight i db) (\<lambda>_.
         res_bind (check_evidence (ti_deploymentId i) (ti_evidence i) db) (\<lambda>_.
         res_bind (check_terminal_and_marker i d) (\<lambda>_.
         res_bind (check (marker_length_ok (ti_successMarkerDigest i)) ConstraintError) (\<lambda>_.
         let t = transition_row env d i;
             (ds, changes) = update_deployments i (\<lambda>d. next_record env d t) (db_deployments db) in
         res_bind (check (changes = 1)
           (LedgerError (DeploymentError Deployment_state_conflict ''Deployment CAS update failed''))) (\<lambda>_.
         Inr (db\<lparr>db_transitions := db_transitions db @ [t], db_deployments := ds\<rparr>, t))))))))))"

subsection \<open>Request intents\<close>

datatype intent_reservation =
    IntentReserved
  | IntentPending
  | IntentCompleted string json
  | IntentConflict string

record intent_input =
  ii_idempotencyKey :: string
  ii_semanticDigest :: string
  ii_operation :: string
  ii_deploymentId :: "string option"
  ii_createdAt :: string

definition reserveIntent :: "intent_input \<Rightarrow> ledger_db \<Rightarrow> (ledger_error, ledger_db \<times> intent_reservation) result" where
  "reserveIntent i db =
     res_bind (assertIdempotencyKey (ii_idempotencyKey i)) (\<lambda>_.
     res_bind (assertDigest (ii_semanticDigest i) ''semanticDigest'') (\<lambda>_.
     res_bind (assertIdentifier (ii_operation i) ''operation'') (\<lambda>_.
     res_bind (assertTimestamp (ii_createdAt i) ''createdAt'') (\<lambda>_.
     res_bind (if truthy (ii_deploymentId i) then res_bind (getDeploymentRequired (the (ii_deploymentId i)) db) (\<lambda>_. Inr ())
               else Inr ()) (\<lambda>_.
     case find (\<lambda>r. in_idempotencyKey r = ii_idempotencyKey i) (db_intents db) of
       Some existing \<Rightarrow>
         if in_semanticDigest existing \<noteq> ii_semanticDigest i then Inr (db, IntentConflict (in_semanticDigest existing))
         else if in_status existing = Pending then Inr (db, IntentPending)
         else (case (in_result existing, in_resultDigest existing) of
                 (Some result, Some resultDigest) \<Rightarrow>
                   res_bind (check (resultDigest \<noteq> [])
                     (LedgerError (DeploymentError Deployment_integrity_failed ''Completed intent has no result''))) (\<lambda>_.
                   Inr (db, IntentCompleted resultDigest result))
               | _ \<Rightarrow> Inl (LedgerError (DeploymentError Deployment_integrity_failed ''Completed intent has no result'')))
     | None \<Rightarrow>
         res_bind (check (case ii_deploymentId i of None \<Rightarrow> True | Some did \<Rightarrow> getDeployment did db \<noteq> None) ConstraintError) (\<lambda>_.
         Inr (db\<lparr>db_intents := db_intents db @
           [\<lparr>in_idempotencyKey = ii_idempotencyKey i, in_semanticDigest = ii_semanticDigest i, in_operation = ii_operation i,
             in_deploymentId = ii_deploymentId i, in_status = Pending, in_resultDigest = None, in_result = None,
             in_createdAt = ii_createdAt i, in_completedAt = None\<rparr>]\<rparr>, IntentReserved)))))))"

definition completeIntent ::
  "ledger_env \<Rightarrow> string \<Rightarrow> string \<Rightarrow> json \<Rightarrow> string \<Rightarrow> ledger_db \<Rightarrow> (ledger_error, ledger_db \<times> string) result" where
  "completeIntent env key semanticDigest result completedAt db =
     res_bind (assertIdempotencyKey key) (\<lambda>_.
     res_bind (assertDigest semanticDigest ''semanticDigest'') (\<lambda>_.
     res_bind (assertTimestamp completedAt ''completedAt'') (\<lambda>_.
     let resultDigest = le_sha256 env (canonicalJson result) in
     case find (\<lambda>r. in_idempotencyKey r = key) (db_intents db) of
       None \<Rightarrow> Inl (LedgerError (DeploymentError Deployment_not_found ''Request intent was not reserved''))
     | Some current \<Rightarrow>
         res_bind (check (in_semanticDigest current = semanticDigest)
           (LedgerError (DeploymentError Idempotency_conflict ''Request intent changed''))) (\<lambda>_.
         if in_status current = Completed then
           res_bind (check (in_resultDigest current = Some resultDigest)
             (LedgerError (DeploymentError Idempotency_conflict ''Completed result changed''))) (\<lambda>_.
           Inr (db, resultDigest))
         else
           let hit = (\<lambda>r. in_idempotencyKey r = key \<and> in_status r = Pending) in
           res_bind (check (length (filter hit (db_intents db)) = 1)
             (LedgerError (DeploymentError Deployment_conflict ''Request intent completion raced''))) (\<lambda>_.
           Inr (db\<lparr>db_intents := map (\<lambda>r. if hit r then r\<lparr>in_status := Completed, in_resultDigest := Some resultDigest,
                  in_result := Some (sortKeys result), in_completedAt := Some completedAt\<rparr> else r) (db_intents db)\<rparr>,
                resultDigest))))))"

subsection \<open>The ledger as a system\<close>

datatype ledger_op =
    CreateDeployment deployment_request "source_record list"
  | AddProduct product_record
  | AppendEvidence evidence_record
  | Transition transition_input
  | ReserveIntent intent_input
  | CompleteIntent string string json string

definition ledger_step :: "ledger_env \<Rightarrow> ledger_op \<Rightarrow> ledger_db \<Rightarrow> (ledger_error, ledger_db \<times> unit) result" where
  "ledger_step env op db =
     (case op of
        CreateDeployment r sources \<Rightarrow> res_bind (createDeployment env r sources db) (\<lambda>(db, _). Inr (db, ()))
      | AddProduct p \<Rightarrow> res_bind (addProduct p db) (\<lambda>(db, _). Inr (db, ()))
      | AppendEvidence e \<Rightarrow> res_bind (appendEvidence e db) (\<lambda>(db, _). Inr (db, ()))
      | Transition i \<Rightarrow> res_bind (transition env i db) (\<lambda>(db, _). Inr (db, ()))
      | ReserveIntent i \<Rightarrow> res_bind (reserveIntent i db) (\<lambda>(db, _). Inr (db, ()))
      | CompleteIntent k sd r at \<Rightarrow> res_bind (completeIntent env k sd r at db) (\<lambda>(db, _). Inr (db, ())))"

abbreviation run_ledger :: "ledger_env \<Rightarrow> ledger_op list \<Rightarrow> ledger_db \<Rightarrow> ledger_db" where
  "run_ledger env \<equiv> run_ops (ledger_step env)"

subsection \<open>What a successful operation did\<close>

lemma lift_error_Inr [res_simps]: "lift_error r = Inr v \<longleftrightarrow> r = Inr v"
  by (cases r) auto

lemma check_evidence_Inr: "check_evidence did refs db = Inr u \<longleftrightarrow> list_all (\<lambda>ref. in_evidence did ref db) refs"
  by (induction refs) (auto simp: res_simps)

lemma getDeploymentRequired_Inr: "getDeploymentRequired did db = Inr d \<longleftrightarrow> getDeployment did db = Some d"
  by (auto simp: getDeploymentRequired_def split: option.splits)

lemma getDeployment_Some: "getDeployment did db = Some d \<Longrightarrow> d \<in> set (db_deployments db) \<and> dp_id d = did"
  by (auto simp: getDeployment_def dest: find_SomeD)

text \<open>The conditions under which a transition is recorded.\<close>

definition applicable :: "deployment_record \<Rightarrow> transition_input \<Rightarrow> bool" where
  "applicable d i \<longleftrightarrow> \<not> dp_terminal d \<and> dp_id d = ti_deploymentId i \<and> dr_generation (dp_request d) = ti_generation i \<and>
     dp_state d = ti_expectedState i \<and> dp_stateSequence d = ti_expectedSequence i \<and>
     ok (assertTransitionAllowed (dp_guardArmed d) i) \<and>
     (ti_nextState i \<in> set TERMINAL_STATES \<longrightarrow>
        ti_signatureAlgorithm i = Some ''ed25519'' \<and> truthy (ti_signingKeyId i) \<and> truthy (ti_signature i)) \<and>
     (truthy (ti_successMarkerDigest i) \<longrightarrow> DIGEST_PATTERN (the (ti_successMarkerDigest i))) \<and>
     (ti_nextState i = St_succeeded \<longrightarrow> dp_successMarkerDigest d = ti_successMarkerDigest i) \<and>
     marker_length_ok (ti_successMarkerDigest i)"

lemma check_terminal_and_marker_Inr:
  "check_terminal_and_marker i d = Inr u \<longleftrightarrow>
     (ti_nextState i \<in> set TERMINAL_STATES \<longrightarrow>
        ti_signatureAlgorithm i = Some ''ed25519'' \<and> truthy (ti_signingKeyId i) \<and> truthy (ti_signature i)) \<and>
     (truthy (ti_successMarkerDigest i) \<longrightarrow> DIGEST_PATTERN (the (ti_successMarkerDigest i))) \<and>
     (ti_nextState i = St_succeeded \<longrightarrow> dp_successMarkerDigest d = ti_successMarkerDigest i)"
  by (auto simp: check_terminal_and_marker_def res_simps assertDigest_def)

lemma transition_cases:
  assumes "transition env i db = Inr (db', t)"
  obtains
    (replay) "db' = db" "t \<in> set (db_transitions db)" "tx_intentDigest t = intent_digest env i"
      "find (\<lambda>t. ti_deploymentId (tx_input t) = ti_deploymentId i \<and> ti_idempotencyKey (tx_input t) = ti_idempotencyKey i)
            (db_transitions db) = Some t"
  | (new) d where "getDeployment (ti_deploymentId i) db = Some d" "applicable d i"
      "list_all (\<lambda>ref. in_evidence (ti_deploymentId i) ref db) (ti_evidence i)"
      "check_preflight i db = Inr ()"
      "t = transition_row env d i"
      "db' = db\<lparr>db_transitions := db_transitions db @ [t],
         db_deployments := fst (update_deployments i (\<lambda>d. next_record env d t) (db_deployments db))\<rparr>"
      "find (\<lambda>t. ti_deploymentId (tx_input t) = ti_deploymentId i \<and> ti_idempotencyKey (tx_input t) = ti_idempotencyKey i)
            (db_transitions db) = None"
proof (cases "find (\<lambda>t. ti_deploymentId (tx_input t) = ti_deploymentId i \<and> ti_idempotencyKey (tx_input t) = ti_idempotencyKey i)
            (db_transitions db)")
  case (Some prior)
  with assms have "db' = db" "t = prior" "tx_intentDigest prior = intent_digest env i"
    by (auto simp: transition_def res_simps)
  with Some show ?thesis by (intro replay) (auto dest: find_SomeD)
next
  case None
  obtain d rule where d: "getDeployment (ti_deploymentId i) db = Some d" and cas: "check_cas i d = Inr ()"
    and al: "assertTransitionAllowed (dp_guardArmed d) i = Inr rule" and pf: "check_preflight i db = Inr ()"
    and ev: "list_all (\<lambda>ref. in_evidence (ti_deploymentId i) ref db) (ti_evidence i)"
    and tm: "check_terminal_and_marker i d = Inr ()" and ml: "marker_length_ok (ti_successMarkerDigest i)"
    and t: "t = transition_row env d i"
    and db': "db' = db\<lparr>db_transitions := db_transitions db @ [t],
         db_deployments := fst (update_deployments i (\<lambda>d. next_record env d t) (db_deployments db))\<rparr>"
    using assms None
    by (auto simp: transition_def res_simps check_evidence_Inr getDeploymentRequired_Inr Let_def case_prod_unfold)
  have "applicable d i"
    using cas al tm ml getDeployment_Some [OF d]
    by (auto simp: applicable_def check_cas_def res_simps check_terminal_and_marker_Inr)
  then show ?thesis using d pf ev t db' None by (intro new) auto
qed

lemma createDeployment_cases:
  assumes "createDeployment env r sources db = Inr (db', d)"
  obtains
    (existing) "db' = db" "d \<in> set (db_deployments db)" "dr_idempotencyKey (dp_request d) = dr_idempotencyKey r"
      "dr_requestDigest (dp_request d) = dr_requestDigest r"
  | (fresh) canonical where "validateSources (dr_deploymentId r) sources = Inr canonical"
      "d = initial_record env r (le_sha256 env (canonicalJson (JArr (map source_json canonical))))"
      "db' = db\<lparr>db_deployments := db_deployments db @ [d], db_sources := db_sources db @ canonical\<rparr>"
      "\<not> list_ex (\<lambda>d. dp_id d = dr_deploymentId r \<or> dr_generation (dp_request d) = dr_generation r) (db_deployments db)"
      "find (\<lambda>d. dr_idempotencyKey (dp_request d) = dr_idempotencyKey r) (db_deployments db) = None"
proof (cases "find (\<lambda>d. dr_idempotencyKey (dp_request d) = dr_idempotencyKey r) (db_deployments db)")
  case (Some e)
  with assms show ?thesis by (intro existing) (auto simp: createDeployment_def res_simps Let_def dest: find_SomeD)
next
  case None
  with assms show ?thesis by (auto simp: createDeployment_def res_simps Let_def intro!: fresh)
qed

lemma addProduct_db: "addProduct p db = Inr (db', q) \<Longrightarrow> db' = db \<or> db' = db\<lparr>db_products := db_products db @ [p]\<rparr>"
  by (auto simp: addProduct_def res_simps split: option.splits)

lemma appendEvidence_db: "appendEvidence e db = Inr (db', f) \<Longrightarrow> db' = db \<or> db' = db\<lparr>db_evidence := db_evidence db @ [e]\<rparr>"
  by (auto simp: appendEvidence_def res_simps split: option.splits)

end
