(* ===== verification/Deployment_Audit.thy ===== *)
theory Deployment_Audit
  imports Deployment_Ledger
begin

section \<open>Correctness of the deployment ledger\<close>

text \<open>
  The ledger is a replay of its own log: every deployment record is what its transition rows, in
  order, make of the initial record, each row being allowed where it was applied. This is the
  invariant \<open>ledger_inv\<close>; with the growth order \<open>ledger_grows\<close> (rows are only added,
  identities never change, terminal records and completed intents never change) it makes
  the ledger a \<open>growing_system\<close>. From these follow the refinement of the state machine, the
  immutability of what is terminal, and the replay of repeated requests.
\<close>

subsection \<open>Replaying the log\<close>

definition txs_of :: "string \<Rightarrow> ledger_db \<Rightarrow> transition_record list" where
  "txs_of did db = filter (\<lambda>t. ti_deploymentId (tx_input t) = did) (db_transitions db)"

definition replay :: "ledger_env \<Rightarrow> deployment_record \<Rightarrow> transition_record list \<Rightarrow> deployment_record" where
  "replay env d ts = foldl (next_record env) d ts"

primrec chain_ok :: "ledger_env \<Rightarrow> deployment_record \<Rightarrow> transition_record list \<Rightarrow> bool" where
  "chain_ok env d [] = True"
| "chain_ok env d (t # ts) \<longleftrightarrow>
     t = transition_row env d (tx_input t) \<and> applicable d (tx_input t) \<and> chain_ok env (next_record env d t) ts"

definition start_of :: "ledger_env \<Rightarrow> deployment_record \<Rightarrow> deployment_record" where
  "start_of env d = initial_record env (dp_request d) (dp_sourceSetDigest d)"

definition audited :: "ledger_env \<Rightarrow> ledger_db \<Rightarrow> deployment_record \<Rightarrow> bool" where
  "audited env db d \<longleftrightarrow> chain_ok env (start_of env d) (txs_of (dp_id d) db) \<and> d = replay env (start_of env d) (txs_of (dp_id d) db)"

text \<open>A completed intent holds its result and the digest of its text.\<close>

definition intent_ok :: "ledger_env \<Rightarrow> intent_row \<Rightarrow> bool" where
  "intent_ok env r \<longleftrightarrow> (in_status r = Completed \<longrightarrow>
     (\<exists>v. in_result r = Some v \<and> in_resultDigest r = Some (le_sha256 env (stringify v))))"

definition ledger_inv :: "ledger_env \<Rightarrow> ledger_db \<Rightarrow> bool" where
  "ledger_inv env db \<longleftrightarrow>
     distinct (map dp_id (db_deployments db)) \<and>
     list_all (audited env db) (db_deployments db) \<and>
     list_all (\<lambda>t. ti_deploymentId (tx_input t) \<in> set (map dp_id (db_deployments db)) \<and>
        list_all (\<lambda>ref. in_evidence (ti_deploymentId (tx_input t)) ref db) (ti_evidence (tx_input t))) (db_transitions db) \<and>
     distinct (map in_idempotencyKey (db_intents db)) \<and>
     list_all (intent_ok env) (db_intents db)"

lemma replay_snoc [simp]: "replay env d (ts @ [t]) = next_record env (replay env d ts) t"
  by (simp add: replay_def)

lemma replay_Nil [simp]: "replay env d [] = d"
  by (simp add: replay_def)

lemma replay_Cons [simp]: "replay env d (t # ts) = replay env (next_record env d t) ts"
  by (simp add: replay_def)

lemma chain_ok_snoc:
  "chain_ok env d (ts @ [t]) \<longleftrightarrow> chain_ok env d ts \<and> t = transition_row env (replay env d ts) (tx_input t)
     \<and> applicable (replay env d ts) (tx_input t)"
  by (induction ts arbitrary: d) auto

lemma next_record_fixed [simp]:
  "dp_request (next_record env d t) = dp_request d" "dp_sourceSetDigest (next_record env d t) = dp_sourceSetDigest d"
  "dp_createdAt (next_record env d t) = dp_createdAt d"
  by (simp_all add: next_record_def Let_def)

lemma start_of_next [simp]: "start_of env (next_record env d t) = start_of env d"
  by (simp add: start_of_def)

lemma transition_row_simps [simp]:
  "tx_input (transition_row env d i) = i" "tx_sequence (transition_row env d i) = dp_stateSequence d + 1"
  "tx_terminal (transition_row env d i) \<longleftrightarrow> ti_nextState i \<in> set TERMINAL_STATES"
  "tx_intentDigest (transition_row env d i) = intent_digest env i"
  by (simp_all add: transition_row_def Let_def)

lemma txs_of_snoc: "txs_of did (db\<lparr>db_transitions := db_transitions db @ [t], db_deployments := ds\<rparr>) =
    txs_of did db @ (if ti_deploymentId (tx_input t) = did then [t] else [])"
  by (simp add: txs_of_def)

lemma in_evidence_grows: "in_evidence did ref db \<Longrightarrow> set (db_evidence db) \<subseteq> set (db_evidence db') \<Longrightarrow> in_evidence did ref db'"
  by (auto simp: in_evidence_def list_ex_iff)

subsection \<open>Operations keep the invariant\<close>

text \<open>With distinct identifiers the update changes exactly the deployment it names.\<close>

lemma update_deployments_fst:
  assumes "distinct (map dp_id ds)" "d \<in> set ds" "applicable d i"
  shows "fst (update_deployments i f ds) = map (\<lambda>x. if dp_id x = ti_deploymentId i then f x else x) ds"
proof -
  have "x = d" if "x \<in> set ds" "dp_id x = ti_deploymentId i" for x
    using assms that distinct_map_eq [OF assms(1) that(1) assms(2)] by (simp add: applicable_def)
  then show ?thesis
    using assms(3) by (auto simp: update_deployments_def Let_def applicable_def)
qed

lemma inv_transition:
  assumes inv: "ledger_inv env db" and tr: "transition env i db = Inr (db', t)"
  shows "ledger_inv env db'"
  using tr
proof (cases rule: transition_cases)
  case replay
  with inv show ?thesis by simp
next
  case (new d)
  note d = getDeployment_Some [OF new(1)]
  have ids: "distinct (map dp_id (db_deployments db))" using inv by (simp add: ledger_inv_def)
  let ?f = "\<lambda>x. if dp_id x = ti_deploymentId i then next_record env x t else x"
  have ds: "db_deployments db' = map ?f (db_deployments db)"
    using update_deployments_fst [OF ids conjunct1 [OF d] new(2)] by (simp add: new(6))
  have ids': "map dp_id (db_deployments db') = map dp_id (db_deployments db)" by (simp add: ds comp_def)
  have txs: "txs_of x db' = txs_of x db @ (if ti_deploymentId i = x then [t] else [])" for x
    unfolding new(6) txs_of_snoc by (simp add: new(5))
  have old: "audited env db x" if "x \<in> set (db_deployments db)" for x
    using inv that by (simp add: ledger_inv_def list_all_iff)
  have "audited env db' (?f x)" if x: "x \<in> set (db_deployments db)" for x
  proof (cases "dp_id x = ti_deploymentId i")
    case True
    with d x distinct_map_eq [OF ids x, of d] have xd: "x = d" by simp
    have "audited env db d" using old d by simp
    then have "chain_ok env (start_of env d) (txs_of (dp_id d) db @ [t]) \<and>
        replay env (start_of env d) (txs_of (dp_id d) db @ [t]) = next_record env d t"
      using new(2,5) by (simp add: audited_def chain_ok_snoc)
    with True xd show ?thesis by (simp add: audited_def txs)
  next
    case False
    with old [OF x] show ?thesis by (simp add: audited_def txs)
  qed
  then have "list_all (audited env db') (db_deployments db')" unfolding ds list_all_iff set_map by blast
  moreover have "in_evidence did ref db' = in_evidence did ref db" for did ref by (simp add: new(6) in_evidence_def)
  moreover have "db_transitions db' = db_transitions db @ [t]" "db_intents db' = db_intents db" "tx_input t = i"
    by (simp_all add: new(5,6))
  moreover have "ti_deploymentId i \<in> set (map dp_id (db_deployments db))" using d by force
  ultimately show ?thesis
    using inv new(3) unfolding ledger_inv_def ids' by (simp add: list_all_iff)
qed

lemma audited_same_log: "db_transitions db' = db_transitions db \<Longrightarrow> audited env db' = audited env db"
  by (simp add: audited_def txs_of_def fun_eq_iff)

lemma inv_createDeployment:
  assumes inv: "ledger_inv env db" and cr: "createDeployment env r sources db = Inr (db', d)"
  shows "ledger_inv env db'"
  using cr
proof (cases rule: createDeployment_cases)
  case existing
  with inv show ?thesis by simp
next
  case (fresh canonical)
  have "txs_of (dr_deploymentId r) db = []"
    using inv fresh(4) by (auto simp: ledger_inv_def txs_of_def filter_empty_conv list_all_iff list_ex_iff)
  then have "audited env db' d" by (simp add: audited_def fresh(2,3) txs_of_def start_of_def initial_record_def)
  moreover have "in_evidence did ref db' = in_evidence did ref db" for did ref by (simp add: fresh(3) in_evidence_def)
  ultimately show ?thesis
    using inv fresh(4) audited_same_log [of db' db env]
    by (auto simp: ledger_inv_def fresh(2,3) initial_record_def list_all_iff list_ex_iff)
qed

lemma inv_addProduct:
  assumes "ledger_inv env db" "addProduct p db = Inr (db', q)"
  shows "ledger_inv env db'"
proof -
  from addProduct_db [OF assms(2)] have "db_deployments db' = db_deployments db" "db_transitions db' = db_transitions db"
    "db_intents db' = db_intents db" "db_evidence db' = db_evidence db" by auto
  with assms(1) audited_same_log [of db' db env] show ?thesis by (simp add: ledger_inv_def in_evidence_def)
qed

lemma inv_appendEvidence:
  assumes "ledger_inv env db" "appendEvidence e db = Inr (db', f)"
  shows "ledger_inv env db'"
proof -
  from appendEvidence_db [OF assms(2)] have "db' = db \<or> db' = db\<lparr>db_evidence := db_evidence db @ [e]\<rparr>" .
  then show ?thesis
  proof
    assume db': "db' = db\<lparr>db_evidence := db_evidence db @ [e]\<rparr>"
    then have "in_evidence did ref db \<Longrightarrow> in_evidence did ref db'" for did ref by (auto simp: in_evidence_def)
    with assms(1) audited_same_log [of db' db env] show ?thesis by (auto simp: ledger_inv_def list_all_iff db')
  qed (use assms in simp)
qed

lemma reserveIntent_db:
  assumes "reserveIntent i db = Inr (db', r)"
  shows "db' = db \<or> (\<exists>row. db' = db\<lparr>db_intents := db_intents db @ [row]\<rparr> \<and> in_status row = Pending \<and>
    in_idempotencyKey row = ii_idempotencyKey i \<and> in_semanticDigest row = ii_semanticDigest i \<and>
    find (\<lambda>r. in_idempotencyKey r = ii_idempotencyKey i) (db_intents db) = None)"
  using assms by (auto simp: reserveIntent_def res_simps split: option.splits if_splits)

definition completed_row :: "ledger_env \<Rightarrow> json \<Rightarrow> string \<Rightarrow> intent_row \<Rightarrow> intent_row" where
  "completed_row env result at r = r\<lparr>in_status := Completed, in_resultDigest := Some (le_sha256 env (canonicalJson result)),
     in_result := Some (sortKeys result), in_completedAt := Some at\<rparr>"

lemma completeIntent_db:
  assumes "completeIntent env key sd result at db = Inr (db', rd)"
  shows "db' = db \<or> db' = db\<lparr>db_intents := map (\<lambda>r. if in_idempotencyKey r = key \<and> in_status r = Pending
      then completed_row env result at r else r) (db_intents db)\<rparr>"
  using assms by (auto simp: completeIntent_def completed_row_def res_simps Let_def split: option.splits if_splits)

lemma inv_intents:
  assumes "ledger_inv env db" "db_deployments db' = db_deployments db" "db_transitions db' = db_transitions db"
    "db_evidence db' = db_evidence db" "distinct (map in_idempotencyKey (db_intents db'))"
    "list_all (intent_ok env) (db_intents db')"
  shows "ledger_inv env db'"
  using assms audited_same_log [of db' db env] by (simp add: ledger_inv_def in_evidence_def)

lemma inv_reserveIntent:
  assumes "ledger_inv env db" "reserveIntent i db = Inr (db', r)"
  shows "ledger_inv env db'"
  using reserveIntent_db [OF assms(2)]
proof (elim disjE exE conjE)
  fix row
  assume r: "db' = db\<lparr>db_intents := db_intents db @ [row]\<rparr>" "in_status row = Pending"
    "in_idempotencyKey row = ii_idempotencyKey i" "find (\<lambda>r. in_idempotencyKey r = ii_idempotencyKey i) (db_intents db) = None"
  show ?thesis
    using assms(1) r by (intro inv_intents [OF assms(1)]) (auto simp: ledger_inv_def find_None_iff intent_ok_def)
qed (use assms in simp)

lemma inv_completeIntent:
  assumes "ledger_inv env db" "completeIntent env key sd result at db = Inr (db', rd)"
  shows "ledger_inv env db'"
  using completeIntent_db [OF assms(2)]
proof (elim disjE)
  let ?f = "\<lambda>r. if in_idempotencyKey r = key \<and> in_status r = Pending then completed_row env result at r else r"
  assume db': "db' = db\<lparr>db_intents := map ?f (db_intents db)\<rparr>"
  have keys: "map in_idempotencyKey (db_intents db') = map in_idempotencyKey (db_intents db)"
    by (simp add: db' completed_row_def)
  show ?thesis
  proof (rule inv_intents [OF assms(1)])
    show "distinct (map in_idempotencyKey (db_intents db'))" using assms(1) by (simp add: keys ledger_inv_def)
    show "list_all (intent_ok env) (db_intents db')"
      using assms(1) by (auto simp: db' ledger_inv_def list_all_iff completed_row_def intent_ok_def canonicalJson_def)
  qed (simp_all add: db')
qed (use assms in simp)

lemma ledger_step_inv: "ledger_inv env db \<Longrightarrow> ledger_step env op db = Inr (db', u) \<Longrightarrow> ledger_inv env db'"
  by (cases op)
    (auto simp: ledger_step_def res_simps intro: inv_createDeployment inv_addProduct inv_appendEvidence inv_transition
      inv_reserveIntent inv_completeIntent)

lemma ledger_inv_empty: "ledger_inv env empty_ledger"
  by (simp add: ledger_inv_def empty_ledger_def)

subsection \<open>The ledger only grows\<close>

text \<open>What an update may do to a deployment record and to an intent.\<close>

definition deployment_le :: "deployment_record \<Rightarrow> deployment_record \<Rightarrow> bool" where
  "deployment_le d d' \<longleftrightarrow> dp_request d' = dp_request d \<and> dp_sourceSetDigest d' = dp_sourceSetDigest d \<and>
     dp_createdAt d' = dp_createdAt d \<and> dp_stateSequence d \<le> dp_stateSequence d' \<and> (dp_terminal d \<longrightarrow> d' = d)"

definition intent_le :: "intent_row \<Rightarrow> intent_row \<Rightarrow> bool" where
  "intent_le r r' \<longleftrightarrow> in_idempotencyKey r' = in_idempotencyKey r \<and> in_semanticDigest r' = in_semanticDigest r \<and>
     in_operation r' = in_operation r \<and> in_deploymentId r' = in_deploymentId r \<and> in_createdAt r' = in_createdAt r \<and>
     (in_status r = Completed \<longrightarrow> r' = r)"

definition ledger_grows :: "ledger_db \<Rightarrow> ledger_db \<Rightarrow> bool" where
  "ledger_grows db db' \<longleftrightarrow>
     grown deployment_le (db_deployments db) (db_deployments db') \<and>
     grown (=) (db_sources db) (db_sources db') \<and>
     grown (=) (db_products db) (db_products db') \<and>
     grown (=) (db_evidence db) (db_evidence db') \<and>
     grown (=) (db_transitions db) (db_transitions db') \<and>
     grown intent_le (db_intents db) (db_intents db')"

lemma deployment_le_refl [simp]: "deployment_le d d"
  by (simp add: deployment_le_def)

lemma intent_le_refl [simp]: "intent_le r r"
  by (simp add: intent_le_def)

lemma deployment_le_trans: "deployment_le a b \<Longrightarrow> deployment_le b c \<Longrightarrow> deployment_le a c"
  by (auto simp: deployment_le_def)

lemma intent_le_trans: "intent_le a b \<Longrightarrow> intent_le b c \<Longrightarrow> intent_le a c"
  by (auto simp: intent_le_def)

lemma grown_refls [simp]:
  "grown deployment_le xs xs" "grown intent_le rs rs" "grown (=) ys ys" "grown (=) ys (ys @ zs)"
  "grown deployment_le xs (xs @ xs')" "grown intent_le rs (rs @ rs')"
  by (auto intro: grown_refl grown_append)

lemma ledger_grows_refl [simp]: "ledger_grows db db"
  by (simp add: ledger_grows_def)

lemma ledger_grows_trans: "ledger_grows a b \<Longrightarrow> ledger_grows b c \<Longrightarrow> ledger_grows a c"
  by (auto simp: ledger_grows_def intro: grown_trans deployment_le_trans intent_le_trans)

lemma transition_grows:
  assumes "ledger_inv env db" "transition env i db = Inr (db', t)"
  shows "ledger_grows db db'"
  using assms(2)
proof (cases rule: transition_cases)
  case (new d)
  have ids: "distinct (map dp_id (db_deployments db))" using assms(1) by (simp add: ledger_inv_def)
  let ?f = "\<lambda>x. if dp_id x = ti_deploymentId i then next_record env x t else x"
  note d = getDeployment_Some [OF new(1)]
  have "deployment_le x (?f x)" if "x \<in> set (db_deployments db)" for x
  proof (cases "dp_id x = ti_deploymentId i")
    case True
    with that d distinct_map_eq [OF ids that, of d] have "x = d" by simp
    with new(2,5) True show ?thesis by (simp add: deployment_le_def applicable_def next_record_def Let_def)
  qed simp
  then have "grown deployment_le (db_deployments db) (map ?f (db_deployments db))" by (rule grown_map)
  then show ?thesis
    using update_deployments_fst [OF ids conjunct1 [OF d] new(2), of "\<lambda>d. next_record env d t"]
    by (simp add: ledger_grows_def new(6))
qed simp

lemma completeIntent_grows:
  assumes "completeIntent env key sd result at db = Inr (db', rd)"
  shows "ledger_grows db db'"
  using completeIntent_db [OF assms] by (auto simp: ledger_grows_def intent_le_def completed_row_def intro!: grown_map)

lemma createDeployment_grows:
  assumes "createDeployment env r sources db = Inr (db', d)"
  shows "ledger_grows db db'"
  using assms by (cases rule: createDeployment_cases) (auto simp: ledger_grows_def)

lemma insert_grows:
  "addProduct p db = Inr (db', q) \<Longrightarrow> ledger_grows db db'"
  "appendEvidence e db = Inr (db', f) \<Longrightarrow> ledger_grows db db'"
  "reserveIntent i db = Inr (db', r) \<Longrightarrow> ledger_grows db db'"
  by (auto simp: ledger_grows_def dest!: addProduct_db appendEvidence_db reserveIntent_db)

lemma ledger_step_grows: "ledger_inv env db \<Longrightarrow> ledger_step env op db = Inr (db', u) \<Longrightarrow> ledger_grows db db'"
  by (cases op)
    (auto simp: ledger_step_def res_simps intro: createDeployment_grows transition_grows completeIntent_grows insert_grows)

interpretation ledger: growing_system "ledger_step env" "ledger_inv env" ledger_grows for env
  by unfold_locales (auto intro: ledger_step_inv ledger_step_grows ledger_grows_trans)

subsection \<open>Refinement of the state machine\<close>

definition states_of :: "transition_record list \<Rightarrow> deployment_state list" where
  "states_of ts = rev (map (\<lambda>t. ti_nextState (tx_input t)) ts) @ [St_requested]"

lemma next_record_state [simp]:
  "dp_state (next_record env d t) = ti_nextState (tx_input t)"
  "dp_guardArmed (next_record env d t) = guard_after (dp_guardArmed d) (tx_input t)"
  "dp_stateSequence (next_record env d t) = tx_sequence t"
  "dp_terminal (next_record env d t) = tx_terminal t"
  by (simp_all add: next_record_def Let_def)

lemma initial_record_state [simp]:
  "dp_state (initial_record env r sd) = St_requested" "\<not> dp_guardArmed (initial_record env r sd)"
  "dp_stateSequence (initial_record env r sd) = 0" "\<not> dp_terminal (initial_record env r sd)"
  by (simp_all add: initial_record_def)

lemma chain_machine:
  assumes "chain_ok env (initial_record env r sd) ts"
  shows "machine_trace (states_of ts) (dp_guardArmed (replay env (initial_record env r sd) ts)) \<and>
    hd (states_of ts) = dp_state (replay env (initial_record env r sd) ts) \<and>
    dp_stateSequence (replay env (initial_record env r sd) ts) = int (length ts) \<and>
    (dp_terminal (replay env (initial_record env r sd) ts) \<longleftrightarrow> dp_state (replay env (initial_record env r sd) ts) \<in> set TERMINAL_STATES)"
  using assms
proof (induction ts rule: rev_induct)
  case Nil
  then show ?case by (auto simp: states_of_def state_sets intro: machine_trace.start)
next
  case (snoc t ts)
  let ?d = "replay env (initial_record env r sd) ts"
  have c: "chain_ok env (initial_record env r sd) ts" "t = transition_row env ?d (tx_input t)" "applicable ?d (tx_input t)"
    using snoc.prems by (simp_all add: chain_ok_snoc)
  note IH = snoc.IH [OF c(1)]
  obtain rest where st: "states_of ts = dp_state ?d # rest" using IH by (cases "states_of ts") (auto simp: states_of_def)
  obtain rule where "assertTransitionAllowed (dp_guardArmed ?d) (tx_input t) = Inr rule"
    using c(3) by (auto simp: applicable_def ok_iff)
  then have "machine_trace (ti_nextState (tx_input t) # states_of ts) (guard_after (dp_guardArmed ?d) (tx_input t))"
    using IH st c(3) by (auto simp: applicable_def intro: machine_trace.step)
  moreover have "tx_sequence t = dp_stateSequence ?d + 1" "tx_terminal t \<longleftrightarrow> ti_nextState (tx_input t) \<in> set TERMINAL_STATES"
    by (subst c(2), simp)+
  ultimately show ?case using IH by (simp add: states_of_def)
qed

lemma run_ledger_inv: "ledger_inv env (run_ledger env ops empty_ledger)"
  by (rule ledger.run_inv [OF ledger_inv_empty])

lemma audited_machine:
  assumes "audited env db d"
  shows "machine_trace (states_of (txs_of (dp_id d) db)) (dp_guardArmed d) \<and>
    hd (states_of (txs_of (dp_id d) db)) = dp_state d \<and> dp_stateSequence d = int (length (txs_of (dp_id d) db)) \<and>
    (dp_terminal d \<longleftrightarrow> dp_state d \<in> set TERMINAL_STATES)"
  using chain_machine [of env "dp_request d" "dp_sourceSetDigest d" "txs_of (dp_id d) db"] assms
  unfolding audited_def start_of_def by metis

text \<open>
  C3. The ledger refines the state machine: after any sequence of operations, failed ones
  included, the transition rows of every deployment spell a run of the state machine that ends in
  the recorded state with the recorded guard, the sequence number is the number of rows, and the
  terminal flag says whether the state is terminal.
\<close>

theorem ledger_refines_machine:
  "let db = run_ledger env ops empty_ledger in
   list_all (\<lambda>d. machine_trace (states_of (txs_of (dp_id d) db)) (dp_guardArmed d) \<and>
     hd (states_of (txs_of (dp_id d) db)) = dp_state d \<and> dp_stateSequence d = int (length (txs_of (dp_id d) db)) \<and>
     (dp_terminal d \<longleftrightarrow> dp_state d \<in> set TERMINAL_STATES)) (db_deployments db)"
proof -
  let ?db = "run_ledger env ops empty_ledger"
  have "list_all (audited env ?db) (db_deployments ?db)"
    using run_ledger_inv [of env ops] by (simp add: ledger_inv_def)
  then show ?thesis unfolding Let_def list_all_iff using audited_machine by fast
qed

text \<open>
  C12. The ledger can be audited from its log: after any sequence of operations every deployment
  record, its digest included, is what replaying its transition rows from the initial record
  gives, each row carries the digests computed from the record it was applied to, and all
  evidence a row refers to is in the evidence table.
\<close>

theorem ledger_audit:
  "let db = run_ledger env ops empty_ledger in
   list_all (audited env db) (db_deployments db) \<and>
   list_all (\<lambda>t. list_all (\<lambda>ref. in_evidence (ti_deploymentId (tx_input t)) ref db) (ti_evidence (tx_input t))) (db_transitions db)"
  using run_ledger_inv [of env ops] by (simp add: ledger_inv_def Let_def list_all_iff)

text \<open>
  C13. The ledger is append-only: whatever operations follow, rows of sources, products, evidence
  and transitions stay where they are unchanged, a deployment keeps its identity and its sequence
  never falls, a terminal deployment and a completed intent never change.
\<close>

theorem ledger_append_only:
  "ledger_grows (run_ledger env ops empty_ledger) (run_ledger env (ops @ later) empty_ledger)"
  using ledger.run_grows [OF run_ledger_inv, of env ops later] by (simp add: run_ops_append)

subsection \<open>Success needs its evidence\<close>

lemma audited_last:
  assumes "audited env db d" "dp_state d \<noteq> St_requested"
  obtains ts t where "txs_of (dp_id d) db = ts @ [t]" "ti_nextState (tx_input t) = dp_state d"
    "applicable (replay env (start_of env d) ts) (tx_input t)" "d = next_record env (replay env (start_of env d) ts) t"
proof (cases "txs_of (dp_id d) db" rule: rev_cases)
  case Nil
  with assms show ?thesis by (metis audited_def initial_record_state(1) replay_Nil start_of_def)
next
  case (snoc ts t)
  with assms(1) have "applicable (replay env (start_of env d) ts) (tx_input t)" "d = next_record env (replay env (start_of env d) ts) t"
    by (simp_all add: audited_def chain_ok_snoc)
  then show ?thesis using snoc that next_record_state(1) by metis
qed

definition has_evidence :: "ledger_db \<Rightarrow> deployment_record \<Rightarrow> string \<Rightarrow> string option \<Rightarrow> bool" where
  "has_evidence db d kind digest =
     list_ex (\<lambda>e. ee_deploymentId e = dp_id d \<and> ee_kind e = kind \<and> (digest = None \<or> digest = Some (ee_digest e))) (db_evidence db)"

lemma succeeded_evidence:
  assumes inv: "ledger_inv env db" and d: "d \<in> set (db_deployments db)" "dp_state d = St_succeeded"
  shows "truthy (dp_successMarkerDigest d) \<and> has_evidence db d ''success.marker'' (dp_successMarkerDigest d) \<and>
    has_evidence db d ''guard.disarm.readback'' None \<and> \<not> dp_guardArmed d \<and> dp_terminal d"
proof -
  have aud: "audited env db d" using inv d by (simp add: ledger_inv_def list_all_iff)
  obtain ts t where ts: "txs_of (dp_id d) db = ts @ [t]" and nx: "ti_nextState (tx_input t) = St_succeeded"
    and ap: "applicable (replay env (start_of env d) ts) (tx_input t)" and nr: "d = next_record env (replay env (start_of env d) ts) t"
    by (rule audited_last [OF aud]) (use d(2) in simp_all)
  let ?i = "tx_input t"
  have "t \<in> set (txs_of (dp_id d) db)" by (simp add: ts)
  then have t: "t \<in> set (db_transitions db)" "ti_deploymentId ?i = dp_id d" by (auto simp: txs_of_def)
  obtain rule where al: "assertTransitionAllowed (dp_guardArmed (replay env (start_of env d) ts)) ?i = Inr rule"
    using ap by (auto simp: applicable_def ok_iff)
  note a = al [unfolded assertTransitionAllowed_Inr]
  have me: "marker_evidence ?i" and kinds: "{''success.marker'', ''guard.disarm.readback''} \<subseteq> ev_kind ` set (ti_evidence ?i)"
    and dis: "ti_guardStatus ?i = Some Disarmed" using a nx by auto
  obtain m where m: "ti_successMarkerDigest ?i = Some m" "m \<noteq> []" using me by (auto simp: marker_evidence_def truthy_iff)
  have dm: "dp_successMarkerDigest d = Some m" by (subst nr) (simp add: next_record_def Let_def m)
  have ev: "in_evidence (dp_id d) ref db" if "ref \<in> set (ti_evidence ?i)" for ref
    using inv t that by (auto simp: ledger_inv_def list_all_iff)
  obtain ref where "ref \<in> set (ti_evidence ?i)" "ev_kind ref = ''success.marker''" "ev_digest ref = m"
    using me m by (auto simp: marker_evidence_def dest: find_SomeD)
  with ev have "has_evidence db d ''success.marker'' (Some m)" by (force simp: in_evidence_def has_evidence_def list_ex_iff)
  moreover have "has_evidence db d ''guard.disarm.readback'' None"
    using kinds ev by (force simp: in_evidence_def has_evidence_def list_ex_iff)
  moreover have "\<not> dp_guardArmed d" by (subst nr) (simp add: guard_after_def dis)
  moreover have "dp_terminal d" using audited_machine [OF aud] d(2) by (simp add: TERMINAL_STATES_def)
  ultimately show ?thesis using dm m by simp
qed

text \<open>
  C14. A deployment is recorded as succeeded only with the proof of it: after any sequence of
  operations, every deployment in state succeeded has a success marker digest, evidence of kind
  success.marker with exactly that digest and evidence of the guard being disarmed are in the
  evidence table, the guard is disarmed and the record is terminal.
\<close>

theorem success_is_proved:
  "let db = run_ledger env ops empty_ledger in
   list_all (\<lambda>d. truthy (dp_successMarkerDigest d) \<and> has_evidence db d ''success.marker'' (dp_successMarkerDigest d) \<and>
     has_evidence db d ''guard.disarm.readback'' None \<and> \<not> dp_guardArmed d \<and> dp_terminal d)
     (filter (\<lambda>d. dp_state d = St_succeeded) (db_deployments db))"
  using succeeded_evidence [OF run_ledger_inv, of _ env ops] by (simp add: Let_def list_all_iff)

subsection \<open>Repeated requests\<close>

lemma transition_recorded:
  assumes "transition env i db = Inr (db', t)"
  shows "find (\<lambda>t. ti_deploymentId (tx_input t) = ti_deploymentId i \<and> ti_idempotencyKey (tx_input t) = ti_idempotencyKey i)
      (db_transitions db') = Some t \<and> tx_intentDigest t = intent_digest env i"
  using assms by (cases rule: transition_cases) (auto simp: find_append_Some)

lemma later_transitions:
  assumes "ledger_inv env db"
  shows "\<exists>ts. db_transitions (run_ledger env ops db) = db_transitions db @ ts"
  using ledger.run_grows [OF assms, of ops] by (simp add: ledger_grows_def grown_eq_prefix)

text \<open>
  Transitions are idempotent under their key: once a transition was recorded, a request for
  the same deployment with the same idempotency key, at any later time, gives back the recorded
  row and changes nothing when its intent digest is the same, and is refused as an idempotency
  conflict when it differs.
\<close>

theorem transition_replay_or_conflict:
  assumes db: "db = run_ledger env ops empty_ledger" and first: "transition env i db = Inr (db\<^sub>1, t)"
    and later: "db\<^sub>2 = run_ledger env later db\<^sub>1"
    and same: "ti_deploymentId i' = ti_deploymentId i" "ti_idempotencyKey i' = ti_idempotencyKey i"
    and valid: "validateTransitionInput i' = Inr ()"
  shows "transition env i' db\<^sub>2 = (if intent_digest env i' = intent_digest env i then Inr (db\<^sub>2, t)
    else Inl (LedgerError (DeploymentError Idempotency_conflict ''Transition idempotency key changed intent'')))"
proof -
  have "ledger_inv env db\<^sub>1" using inv_transition [OF run_ledger_inv first [unfolded db]] .
  then obtain ts where "db_transitions db\<^sub>2 = db_transitions db\<^sub>1 @ ts" using later_transitions later by blast
  then have "find (\<lambda>t. ti_deploymentId (tx_input t) = ti_deploymentId i \<and> ti_idempotencyKey (tx_input t) = ti_idempotencyKey i)
      (db_transitions db\<^sub>2) = Some t" "tx_intentDigest t = intent_digest env i"
    using transition_recorded [OF first] by (simp_all add: find_append_found)
  then show ?thesis by (auto simp: transition_def valid same check_def)
qed

lemma completed_lookup:
  assumes "completeIntent env key sd result at db = Inr (db', rd)" "ledger_inv env db"
  shows "\<exists>r \<in> set (db_intents db'). in_idempotencyKey r = key \<and> in_semanticDigest r = sd \<and> in_status r = Completed \<and> in_resultDigest r = Some rd"
proof -
  obtain c where c: "find (\<lambda>r. in_idempotencyKey r = key) (db_intents db) = Some c" "in_semanticDigest c = sd"
    "rd = le_sha256 env (canonicalJson result)" "in_status c = Completed \<longrightarrow> db' = db \<and> in_resultDigest c = Some rd"
    "in_status c \<noteq> Completed \<longrightarrow> db' = db\<lparr>db_intents := map (\<lambda>r. if in_idempotencyKey r = key \<and> in_status r = Pending
      then completed_row env result at r else r) (db_intents db)\<rparr>"
    using assms(1) by (auto simp: completeIntent_def completed_row_def res_simps Let_def split: option.splits if_splits)
  from find_SomeD [OF c(1)] have "c \<in> set (db_intents db)" "in_idempotencyKey c = key" by auto
  moreover have "in_status c = Pending" if "in_status c \<noteq> Completed" using that by (cases "in_status c") auto
  ultimately show ?thesis
  proof (cases "in_status c = Completed")
    case False
    let ?f = "\<lambda>r. if in_idempotencyKey r = key \<and> in_status r = Pending then completed_row env result at r else r"
    from False c(5) have "?f c \<in> set (db_intents db')" using \<open>c \<in> set (db_intents db)\<close> by auto
    with False \<open>in_status c \<noteq> Completed \<Longrightarrow> in_status c = Pending\<close> c(2,3) \<open>in_idempotencyKey c = key\<close> show ?thesis
      by (intro bexI [of _ "?f c"]) (auto simp: completed_row_def)
  qed (use c in auto)
qed

text \<open>
  A completed intent answers for good: after \<open>completeIntent\<close> succeeded, every later
  reservation with the same key and the same semantic digest returns the completed state with
  that result digest and a result whose text has that digest, and changes nothing; one with
  another semantic digest is a conflict.
\<close>

theorem intent_completed_for_good:
  assumes db: "db = run_ledger env ops empty_ledger" and compl: "completeIntent env key sd result at db = Inr (db\<^sub>1, rd)"
    and later: "db\<^sub>2 = run_ledger env later db\<^sub>1" and sha: "\<And>x. le_sha256 env x \<noteq> []"
    and key: "ii_idempotencyKey i = key" "ii_deploymentId i = None"
    and valid: "IDEMPOTENCY_PATTERN key" "DIGEST_PATTERN (ii_semanticDigest i)" "IDENTIFIER_PATTERN (ii_operation i)"
      "canonical_timestamp (ii_createdAt i)"
  shows "if ii_semanticDigest i = sd
    then \<exists>v. reserveIntent i db\<^sub>2 = Inr (db\<^sub>2, IntentCompleted rd v) \<and> rd = le_sha256 env (stringify v)
    else reserveIntent i db\<^sub>2 = Inr (db\<^sub>2, IntentConflict sd)"
proof -
  have inv: "ledger_inv env db" using db run_ledger_inv by simp
  have inv1: "ledger_inv env db\<^sub>1" by (rule inv_completeIntent [OF inv compl])
  have inv2: "ledger_inv env db\<^sub>2" unfolding later by (rule ledger.run_inv [OF inv1])
  obtain r where r: "r \<in> set (db_intents db\<^sub>1)" "in_idempotencyKey r = key" "in_semanticDigest r = sd" "in_status r = Completed"
    "in_resultDigest r = Some rd"
    using completed_lookup [OF compl inv] by blast
  have "grown intent_le (db_intents db\<^sub>1) (db_intents db\<^sub>2)"
    using ledger.run_grows [OF inv1, of later] later by (simp add: ledger_grows_def)
  from grown_in [OF this r(1)] have r2: "r \<in> set (db_intents db\<^sub>2)" using r(4) by (auto simp: intent_le_def)
  obtain c where c: "find (\<lambda>r. in_idempotencyKey r = key) (db_intents db\<^sub>2) = Some c"
    using r2 r(2) find_NoneD by (metis (mono_tags, lifting) not_Some_eq)
  have "c = r"
    using inv2 distinct_map_eq [of in_idempotencyKey "db_intents db\<^sub>2" c r] find_SomeD [OF c] r2 r(2) by (simp add: ledger_inv_def)
  moreover have "intent_ok env r" using inv2 r2 by (simp add: ledger_inv_def list_all_iff)
  then obtain v where "in_result r = Some v" "rd = le_sha256 env (stringify v)" using r(4,5) by (auto simp: intent_ok_def)
  ultimately show ?thesis
    using c r sha valid key by (auto simp: reserveIntent_def assert_defs check_def)
qed

end
