(* ===== verification/Deployment_Samples.thy ===== *)
theory Deployment_Samples
  imports Deployment_Audit
begin

section \<open>A concrete ledger\<close>

text \<open>
  One coordinated deployment with its first transition and one request intent, at which the
  properties of \<open>Deployment_Audit\<close> with hypotheses are applied. The digest function is constant;
  nothing here depends on digests being different.
\<close>

definition hex64 :: string where
  "hex64 = replicate 64 CHR ''a''"

definition demo_env :: ledger_env where
  "demo_env = \<lparr>le_sha256 = (\<lambda>d. hex64), le_localeLe = (\<lambda>a b. True)\<rparr>"

definition demo_request :: deployment_request where
  "demo_request = \<lparr>dr_deploymentId = ''d1'', dr_generation = 1, dr_machineId = ''m1'', dr_planDigest = hex64,
     dr_requestDigest = hex64, dr_deadline = ''2026-01-02T00:00:00.000Z'', dr_requestedAt = ''2026-01-01T00:00:00.000Z'',
     dr_requestedBy = ''owner'', dr_idempotencyKey = ''create-key-1''\<rparr>"

definition demo_source :: "string \<Rightarrow> source_record" where
  "demo_source p = \<lparr>so_deploymentId = ''d1'', so_product = p, so_repository = ''StealthEyeLLC/'' @ p, so_commit = hex64, so_tree = hex64\<rparr>"

definition demo_sources :: "source_record list" where
  "demo_sources = [demo_source ''baby-quirt'', demo_source ''baby-quirt-mcp'']"

definition demo_evidence :: evidence_record where
  "demo_evidence = \<lparr>ee_deploymentId = ''d1'', ee_digest = hex64, ee_kind = ''request.validated'', ee_contentLength = 1,
     ee_artifactReference = ''artifact:sha256:'' @ hex64, ee_redacted = True, ee_signatureAlgorithm = ''ed25519'',
     ee_signingKeyId = ''key-1'', ee_signature = hex64, ee_createdAt = ''2026-01-01T00:00:00.000Z''\<rparr>"

definition demo_transition :: transition_input where
  "demo_transition = \<lparr>ti_deploymentId = ''d1'', ti_generation = 1, ti_expectedState = St_requested, ti_expectedSequence = 0,
     ti_nextState = St_source_resolving, ti_idempotencyKey = ''step-key-1'',
     ti_evidence = [\<lparr>ev_kind = ''request.validated'', ev_digest = hex64\<rparr>], ti_actor = ''owner'',
     ti_occurredAt = ''2026-01-01T00:00:00.000Z'', ti_reason = None, ti_guardStatus = None, ti_successMarkerDigest = None,
     ti_signatureAlgorithm = None, ti_signingKeyId = None, ti_signature = None\<rparr>"

definition demo_intent :: intent_input where
  "demo_intent = \<lparr>ii_idempotencyKey = ''intent-key-1'', ii_semanticDigest = hex64, ii_operation = ''baby.release.status'',
     ii_deploymentId = None, ii_createdAt = ''2026-01-01T00:00:00.000Z''\<rparr>"

definition demo_ops :: "ledger_op list" where
  "demo_ops = [CreateDeployment demo_request demo_sources, AppendEvidence demo_evidence, ReserveIntent demo_intent]"

definition demo_record :: deployment_record where
  "demo_record = initial_record demo_env demo_request hex64"

definition demo_row :: intent_row where
  "demo_row = \<lparr>in_idempotencyKey = ''intent-key-1'', in_semanticDigest = hex64, in_operation = ''baby.release.status'',
     in_deploymentId = None, in_status = Pending, in_resultDigest = None, in_result = None,
     in_createdAt = ''2026-01-01T00:00:00.000Z'', in_completedAt = None\<rparr>"

definition demo_db :: ledger_db where
  "demo_db = \<lparr>db_deployments = [demo_record], db_sources = demo_sources, db_products = [], db_evidence = [demo_evidence],
     db_transitions = [], db_intents = [demo_row]\<rparr>"

subsection \<open>The operations succeed\<close>

lemma demo_request_valid: "validateRequest demo_request = Inr ()"
  by code_simp

lemma demo_sources_valid: "validateSources ''d1'' demo_sources = Inr demo_sources"
  by code_simp

lemma demo_evidence_valid: "validate_evidence demo_evidence = Inr ()"
  by code_simp

lemma demo_transition_valid: "validateTransitionInput demo_transition = Inr ()"
  by code_simp

lemma demo_transition_allowed: "assertTransitionAllowed False demo_transition = Inr (createRule St_requested St_source_resolving)"
  by code_simp

lemma demo_key_valid: "IDEMPOTENCY_PATTERN ''intent-key-1''"
  by code_simp

lemma hex64_valid: "DIGEST_PATTERN hex64"
  by code_simp

lemma demo_operation_valid: "IDENTIFIER_PATTERN ''baby.release.status''"
  by code_simp

lemma demo_time_valid: "canonical_timestamp ''2026-01-01T00:00:00.000Z''"
  by code_simp

lemmas demo_valid = demo_request_valid demo_sources_valid demo_evidence_valid demo_transition_valid demo_transition_allowed demo_key_valid hex64_valid demo_operation_valid demo_time_valid

lemma demo_fields [simp]:
  "le_sha256 demo_env x = hex64" "dr_deploymentId demo_request = ''d1''" "ee_deploymentId demo_evidence = ''d1''"
  "ti_deploymentId demo_transition = ''d1''" "dp_request demo_record = demo_request"
  by (simp_all add: demo_env_def demo_request_def demo_evidence_def demo_transition_def demo_record_def initial_record_def)

lemma demo_run: "run_ledger demo_env demo_ops empty_ledger = demo_db"
proof -
  let ?db1 = "empty_ledger\<lparr>db_deployments := [demo_record], db_sources := demo_sources\<rparr>"
  let ?db2 = "?db1\<lparr>db_evidence := [demo_evidence]\<rparr>"
  have "ledger_step demo_env (CreateDeployment demo_request demo_sources) empty_ledger = Inr (?db1, ())"
    by (simp add: ledger_step_def createDeployment_def Let_def demo_valid empty_ledger_def demo_record_def)
  moreover have "ledger_step demo_env (AppendEvidence demo_evidence) ?db1 = Inr (?db2, ())"
    by (simp add: ledger_step_def appendEvidence_def demo_valid empty_ledger_def getDeploymentRequired_def getDeployment_def)
  moreover have "ledger_step demo_env (ReserveIntent demo_intent) ?db2 = Inr (demo_db, ())"
    by (simp add: ledger_step_def reserveIntent_def assert_defs demo_valid empty_ledger_def demo_intent_def demo_db_def demo_row_def)
  ultimately show ?thesis by (simp add: demo_ops_def)
qed

lemma demo_transition_recorded:
  "\<exists>db\<^sub>1 t. transition demo_env demo_transition demo_db = Inr (db\<^sub>1, t) \<and> db_transitions db\<^sub>1 = [t]"
proof -
  have d: "getDeploymentRequired ''d1'' demo_db = Inr demo_record"
    by (simp add: getDeploymentRequired_def getDeployment_def demo_db_def)
  have cas: "check_cas demo_transition demo_record = Inr ()" and g: "\<not> dp_guardArmed demo_record"
    by (simp_all add: check_cas_def demo_record_def initial_record_def demo_transition_def demo_request_def)
  have ev: "check_evidence ''d1'' (ti_evidence demo_transition) demo_db = Inr ()"
    by (simp add: demo_transition_def in_evidence_def demo_db_def demo_evidence_def)
  have rest: "check_preflight demo_transition demo_db = Inr ()" "check_terminal_and_marker demo_transition demo_record = Inr ()"
    "marker_length_ok (ti_successMarkerDigest demo_transition)"
    by (simp_all add: check_preflight_def check_terminal_and_marker_def marker_length_ok_def demo_transition_def TERMINAL_STATES_def)
  have up: "snd (update_deployments demo_transition f (db_deployments demo_db)) = 1" for f
    by (simp add: update_deployments_def demo_db_def demo_record_def initial_record_def demo_transition_def demo_request_def Let_def)
  show ?thesis
    using d cas g ev rest up demo_valid(4,5)
    by (auto simp: transition_def Let_def case_prod_unfold demo_db_def)
qed

lemma demo_completed: "\<exists>db\<^sub>1. completeIntent demo_env ''intent-key-1'' hex64 (JStr ''ok'') ''2026-01-01T00:00:00.000Z'' demo_db = Inr (db\<^sub>1, hex64)"
  by (simp add: completeIntent_def assert_defs demo_valid demo_db_def demo_row_def)

subsection \<open>Witnesses\<close>

theorem transition_replay_or_conflict_witness:
  "\<exists>db\<^sub>1 t. transition demo_env demo_transition demo_db = Inr (db\<^sub>1, t) \<and>
     transition demo_env demo_transition (run_ledger demo_env demo_ops db\<^sub>1) = Inr (run_ledger demo_env demo_ops db\<^sub>1, t)"
proof -
  obtain db\<^sub>1 t where t: "transition demo_env demo_transition demo_db = Inr (db\<^sub>1, t)" using demo_transition_recorded by blast
  from transition_replay_or_conflict [OF demo_run [symmetric] t refl refl refl demo_valid(4)] t show ?thesis by auto
qed

theorem intent_completed_for_good_witness:
  "\<exists>db\<^sub>1 v. completeIntent demo_env ''intent-key-1'' hex64 (JStr ''ok'') ''2026-01-01T00:00:00.000Z'' demo_db = Inr (db\<^sub>1, hex64) \<and>
     reserveIntent demo_intent (run_ledger demo_env demo_ops db\<^sub>1) = Inr (run_ledger demo_env demo_ops db\<^sub>1, IntentCompleted hex64 v)"
proof -
  obtain db\<^sub>1 where c: "completeIntent demo_env ''intent-key-1'' hex64 (JStr ''ok'') ''2026-01-01T00:00:00.000Z'' demo_db = Inr (db\<^sub>1, hex64)"
    using demo_completed by blast
  have "hex64 \<noteq> []" by (simp add: hex64_def)
  with intent_completed_for_good [OF demo_run [symmetric] c refl, of demo_intent demo_ops] c show ?thesis
    by (auto simp: demo_intent_def demo_valid)
qed

end
