(* ===== verification/State_Store.thy ===== *)
theory State_Store
  imports Receipts Js_Date Interfaces "HOL-Library.AList"
begin

section \<open>The state store: job and session records on disk\<close>

text \<open>
  Models \<^verbatim>\<open>src/src/state/store.ts\<close>. A directory of record files is an association list
  from file names to contents in directory order; a content is the record that
  \<open>JSON.parse\<close> gives back, or corrupt. \<open>writeJsonAtomically\<close> may fail before the rename (the old
  file stays) or after it (the new file is there, but the caller sees an exception); the
  temporary file never ends in \<open>.json\<close>, so no listing sees it. \<open>localeCompare\<close>, \<open>randomUUID\<close>, the clock and
  the wording of parse errors are arguments. Record identifiers are taken to be file names:
  an identifier with a slash, which the code would resolve outside the directory, is not
  modelled.
\<close>

subsection \<open>Directories of records\<close>

datatype 'a disk_file = Good 'a | CorruptFile

type_synonym 'a directory = "(string \<times> 'a disk_file) list"

definition json_file :: "string \<Rightarrow> string" where
  "json_file ident = ident @ ''.json''"

definition writeJsonAtomically :: "io_fault \<Rightarrow> string \<Rightarrow> 'a \<Rightarrow> 'a directory \<Rightarrow> 'a directory \<times> bool" where
  "writeJsonAtomically fault path value dir =
     (case fault of
        FaultBeforeRename \<Rightarrow> (dir, True)
      | FaultAfterRename \<Rightarrow> (AList.update path (Good value) dir, True)
      | NoFault \<Rightarrow> (AList.update path (Good value) dir, False))"

text \<open>Reading one record: absent, parsed, or an exception from \<open>JSON.parse\<close>.\<close>

definition read_record :: "string \<Rightarrow> string \<Rightarrow> 'a directory \<Rightarrow> (thrown, 'a option) result" where
  "read_record parse_message ident dir =
     (case map_of dir (json_file ident) of
        None \<Rightarrow> Inr None
      | Some (Good v) \<Rightarrow> Inr (Some v)
      | Some CorruptFile \<Rightarrow> Inl (ErrorMessage parse_message))"

text \<open>The loop over \<open>readdirSync\<close>: files of another extension and corrupt ones are skipped.\<close>

definition ends_with :: "string \<Rightarrow> string \<Rightarrow> bool" where
  "ends_with e s \<longleftrightarrow> length e \<le> length s \<and> drop (length s - length e) s = e"

definition list_records :: "'a directory \<Rightarrow> 'a list" where
  "list_records dir = [v. (file, Good v) \<leftarrow> dir, ends_with ''.json'' file]"

lemma json_file_inject [simp]: "json_file a = json_file b \<longleftrightarrow> a = b"
  by (simp add: json_file_def)

lemma ends_with_json_file [simp]: "ends_with ''.json'' (json_file a)"
  by (simp add: ends_with_def json_file_def)

lemma writeJsonAtomically_NoFault [simp]:
  "writeJsonAtomically NoFault path v dir = (AList.update path (Good v) dir, False)"
  by (simp add: writeJsonAtomically_def)

text \<open>Whatever fails, the directory is the old one or the fully updated one.\<close>

lemma writeJsonAtomically_cases:
  obtains "fst (writeJsonAtomically fault path v dir) = dir" "snd (writeJsonAtomically fault path v dir)"
  | "fst (writeJsonAtomically fault path v dir) = AList.update path (Good v) dir"
  by (cases fault) (auto simp: writeJsonAtomically_def)

lemma distinct_writeJsonAtomically:
  "distinct (map fst dir) \<Longrightarrow> distinct (map fst (fst (writeJsonAtomically fault path v dir)))"
  by (cases fault) (auto simp: writeJsonAtomically_def distinct_update)

lemma list_records_mem:
  assumes "distinct (map fst dir)"
  shows "v \<in> set (list_records dir) \<longleftrightarrow> (\<exists>file. ends_with ''.json'' file \<and> map_of dir file = Some (Good v))"
  using assms by (force simp: list_records_def split: disk_file.splits)

text \<open>
  The interface the managers rely on: a record is found after it was saved, other records
  are untouched, and nothing but whole records is ever found.
\<close>

locale record_store =
  fixes lookup :: "'d \<Rightarrow> string \<Rightarrow> 'v option"
    and save :: "string \<Rightarrow> 'v \<Rightarrow> 'd \<Rightarrow> 'd"
  assumes lookup_save: "lookup (save k v d) k' = (if k' = k then Some v else lookup d k')"
begin

text \<open>A loop that saves a revised version of some records: each record is revised once.\<close>

lemma lookup_fold_save:
  assumes "distinct (map key xs)"
  shows "lookup (fold (\<lambda>x d. if P x then save (key x) (revise x) d else d) xs d) k =
    (case find (\<lambda>x. key x = k \<and> P x) xs of None \<Rightarrow> lookup d k | Some x \<Rightarrow> Some (revise x))"
  using assms
proof (induction xs arbitrary: d)
  case (Cons x xs)
  have none: "find (\<lambda>y. key y = key x \<and> P y) xs = None"
    using Cons.prems by (auto simp: find_None_iff) (metis imageI)
  show ?case
  proof (cases "key x = k \<and> P x")
    case True
    with Cons none show ?thesis by (auto simp: lookup_save)
  next
    case False
    with Cons show ?thesis by (auto simp: lookup_save split: option.splits)
  qed
qed simp

end

definition dir_lookup :: "'a directory \<Rightarrow> string \<Rightarrow> 'a disk_file option" where
  "dir_lookup dir ident = map_of dir (json_file ident)"

interpretation dstore: record_store dir_lookup "\<lambda>ident c. AList.update (json_file ident) c"
  by unfold_locales (simp add: dir_lookup_def update_conv')

subsection \<open>Job records\<close>

datatype job_status = JPending | JRunning | JAdopted | JCompleted | JFailed | JCancelled | JDetached | JLost

record stream_state =
  ss_stdoutPath :: string
  ss_stderrPath :: string
  ss_stdoutOffset :: nat
  ss_stderrOffset :: nat
  ss_stdoutClosed :: bool
  ss_stderrClosed :: bool

record process_identity =
  pi_pid :: int
  pi_processStartTime :: string
  pi_executablePath :: string
  pi_pgid :: int
  pi_bootId :: string

text \<open>An entry of the persisted environment: a literal, or a reference to a secret.\<close>

datatype env_entry = LiteralEntry string string | SecretEntry string string

text \<open>In \<open>exitCode\<close> and \<open>signal\<close> the outer option is \<open>undefined\<close>, the inner one \<open>null\<close>. The
  members \<open>ptySessionId\<close> and \<open>metadata\<close> are never written by the code.\<close>

record job_record =
  jb_jobId :: string
  jb_requestId :: string
  jb_operation :: string
  jb_status :: job_status
  jb_pid :: "int option"
  jb_exitCode :: "int option option"
  jb_signal :: "string option option"
  jb_createdAt :: string
  jb_startedAt :: "string option"
  jb_completedAt :: "string option"
  jb_cwd :: string
  jb_argv :: "string list option"
  jb_shell :: "string option"
  jb_script :: "string option"
  jb_env :: "env_entry list option"
  jb_detached :: bool
  jb_pgid :: "int option"
  jb_identity :: "process_identity option"
  jb_streams :: stream_state

datatype pty_status = PtyActive | PtyClosed | PtyLost

record pty_session =
  ps_sessionId :: string
  ps_jobId :: string
  ps_pid :: "int option"
  ps_cols :: int
  ps_rows :: int
  ps_createdAt :: string
  ps_status :: pty_status
  ps_outputPath :: string
  ps_outputOffset :: nat
  ps_tmuxServer :: "string option"
  ps_tmuxSession :: "string option"
  ps_tmuxWindow :: "string option"

subsection \<open>StateStore\<close>

text \<open>\<open>join(stateRoot, ...)\<close> for a state root in normal form.\<close>

definition streamsDir :: "runtime_config \<Rightarrow> string" where
  "streamsDir cfg = cfg_stateRoot cfg @ ''/streams''"

definition artifactsDir :: "runtime_config \<Rightarrow> string" where
  "artifactsDir cfg = cfg_stateRoot cfg @ ''/artifacts''"

definition new_streams :: "runtime_config \<Rightarrow> string \<Rightarrow> stream_state" where
  "new_streams cfg jobId =
     \<lparr>ss_stdoutPath = streamsDir cfg @ ''/'' @ jobId @ ''.stdout'', ss_stderrPath = streamsDir cfg @ ''/'' @ jobId @ ''.stderr'',
      ss_stdoutOffset = 0, ss_stderrOffset = 0, ss_stdoutClosed = False, ss_stderrClosed = False\<rparr>"

definition saveJob :: "io_fault \<Rightarrow> job_record \<Rightarrow> job_record directory \<Rightarrow> job_record directory \<times> bool" where
  "saveJob fault job dir = writeJsonAtomically fault (json_file (jb_jobId job)) job dir"

text \<open>The partial record of a new job is completed with the identifier, the time and the streams.\<close>

definition createJob ::
  "runtime_config \<Rightarrow> string \<Rightarrow> int \<Rightarrow> io_fault \<Rightarrow> job_record \<Rightarrow> job_record directory \<Rightarrow> job_record directory \<times> bool \<times> job_record" where
  "createJob cfg uuid now fault partial dir =
     (let job = partial\<lparr>jb_jobId := uuid, jb_createdAt := to_iso now, jb_streams := new_streams cfg uuid\<rparr>;
          (dir, threw) = saveJob fault job dir
      in (dir, threw, job))"

definition getJob :: "string \<Rightarrow> string \<Rightarrow> job_record directory \<Rightarrow> (thrown, job_record option) result" where
  "getJob parse_message jobId dir = read_record parse_message jobId dir"

text \<open>Newest first by \<open>b.createdAt.localeCompare(a.createdAt)\<close>.\<close>

definition listJobs :: "(string \<Rightarrow> string \<Rightarrow> bool) \<Rightarrow> job_record directory \<Rightarrow> job_record list" where
  "listJobs localeLe dir = sort_by (\<lambda>a b. localeLe (jb_createdAt b) (jb_createdAt a)) (list_records dir)"

definition prunable :: "job_record \<Rightarrow> bool" where
  "prunable j \<longleftrightarrow> jb_status j \<in> {JCompleted, JFailed, JCancelled}"

text \<open>\<open>unlinkable\<close> says for which files \<open>unlinkSync\<close> succeeds.\<close>

definition pruneJobs ::
  "(string \<Rightarrow> string \<Rightarrow> bool) \<Rightarrow> (string \<Rightarrow> bool) \<Rightarrow> nat \<Rightarrow> job_record directory \<Rightarrow> job_record directory \<times> nat" where
  "pruneJobs localeLe unlinkable maxRetention dir =
     (let terminal = filter prunable (listJobs localeLe dir)
      in if length terminal \<le> maxRetention then (dir, 0)
         else fold (\<lambda>job (dir, removed).
                if unlinkable (json_file (jb_jobId job)) \<and> map_of dir (json_file (jb_jobId job)) \<noteq> None
                then (AList.delete (json_file (jb_jobId job)) dir, removed + 1) else (dir, removed))
              (drop maxRetention terminal) (dir, 0))"

definition savePtySession :: "io_fault \<Rightarrow> pty_session \<Rightarrow> pty_session directory \<Rightarrow> pty_session directory \<times> bool" where
  "savePtySession fault session dir = writeJsonAtomically fault (json_file (ps_sessionId session)) session dir"

definition getPtySession :: "string \<Rightarrow> string \<Rightarrow> pty_session directory \<Rightarrow> (thrown, pty_session option) result" where
  "getPtySession parse_message sessionId dir = read_record parse_message sessionId dir"

definition listPtySessions :: "pty_session directory \<Rightarrow> pty_session list" where
  "listPtySessions dir = list_records dir"

subsection \<open>Well-formed directories\<close>

text \<open>Every file is named after the record it holds.\<close>

definition dir_ok :: "('a \<Rightarrow> string) \<Rightarrow> ('a \<Rightarrow> bool) \<Rightarrow> 'a directory \<Rightarrow> bool" where
  "dir_ok ident good dir \<longleftrightarrow> distinct (map fst dir) \<and>
     (\<forall>file v. map_of dir file = Some (Good v) \<longrightarrow> file = json_file (ident v) \<and> good v)"

lemma dir_ok_write:
  assumes "dir_ok ident good dir" "good v"
  shows "dir_ok ident good (fst (writeJsonAtomically fault (json_file (ident v)) v dir))"
  by (rule writeJsonAtomically_cases [of fault "json_file (ident v)" v dir])
    (use assms in \<open>auto simp: dir_ok_def distinct_update update_conv' split: if_splits\<close>)

lemma dir_ok_lookup: "dir_ok ident good dir \<Longrightarrow> map_of dir file = Some (Good v) \<Longrightarrow> file = json_file (ident v) \<and> good v"
  by (auto simp: dir_ok_def)

lemma dir_ok_listed: "dir_ok ident good dir \<Longrightarrow> v \<in> set (list_records dir) \<longleftrightarrow> map_of dir (json_file (ident v)) = Some (Good v)"
proof -
  assume ok: "dir_ok ident good dir"
  then have d: "distinct (map fst dir)" by (simp add: dir_ok_def)
  show ?thesis unfolding list_records_mem [OF d] using dir_ok_lookup [OF ok] ends_with_json_file by metis
qed

lemma dir_ok_good: "dir_ok ident good dir \<Longrightarrow> v \<in> set (list_records dir) \<Longrightarrow> good v"
  using dir_ok_listed [of ident good dir v] dir_ok_lookup [of ident good dir "json_file (ident v)" v] by simp

lemma list_records_Cons:
  "list_records ((file, c) # dir) =
     (case c of Good v \<Rightarrow> if ends_with ''.json'' file then [v] else [] | CorruptFile \<Rightarrow> []) @ list_records dir"
  by (simp add: list_records_def split: disk_file.splits)

lemma dir_ok_distinct:
  assumes "dir_ok ident good dir"
  shows "distinct (map ident (list_records dir))"
  using assms
proof (induction dir)
  case Nil
  then show ?case by (simp add: list_records_def)
next
  case (Cons e dir)
  obtain f c where e: "e = (f, c)" by fastforce
  have d: "dir_ok ident good dir" "f \<notin> fst ` set dir"
    using Cons.prems e by (auto simp: dir_ok_def dest: map_of_SomeD split: if_splits)
  then have "distinct (map ident (list_records dir))" using Cons.IH by blast
  moreover have "ident v \<notin> ident ` set (list_records dir)" if "c = Good v" for v
  proof
    assume "ident v \<in> ident ` set (list_records dir)"
    then obtain w where "w \<in> set (list_records dir)" "ident w = ident v" by auto
    then have "map_of dir (json_file (ident v)) = Some (Good w)" using dir_ok_listed [OF d(1)] by force
    moreover have "f = json_file (ident v)" using Cons.prems e that by (auto simp: dir_ok_def)
    ultimately show False using d(2) by (metis domI dom_map_of_conv_image_fst)
  qed
  ultimately show ?case using e by (auto simp: list_records_Cons split: disk_file.splits)
qed

lemma distinct_listJobs: "dir_ok jb_jobId good dir \<Longrightarrow> distinct (map jb_jobId (listJobs localeLe dir))"
proof -
  assume ok: "dir_ok jb_jobId good dir"
  have "inj_on jb_jobId (set (list_records dir))" "distinct (list_records dir)"
    using dir_ok_distinct [OF ok] by (simp_all add: distinct_map)
  then show ?thesis by (simp add: listJobs_def distinct_map)
qed

subsection \<open>Pruning\<close>

definition without :: "string set \<Rightarrow> 'a directory \<Rightarrow> 'a directory" where
  "without ids dir = filter (\<lambda>e. fst e \<notin> json_file ` ids) dir"

lemma without_empty [simp]: "without {} dir = dir"
  by (simp add: without_def)

lemma delete_without: "AList.delete (json_file k) (without ids dir) = without (insert k ids) dir"
  by (auto simp: without_def AList.delete_eq case_prod_unfold intro!: filter_cong)

lemma map_of_without: "map_of (without ids dir) f = (if f \<in> json_file ` ids then None else map_of dir f)"
  by (induction dir) (auto simp: without_def)

lemma list_records_without:
  assumes "dir_ok ident good dir"
  shows "list_records (without ids dir) = filter (\<lambda>v. ident v \<notin> ids) (list_records dir)"
  using assms
proof (induction dir)
  case (Cons e dir)
  obtain f c where e: "e = (f, c)" by fastforce
  have ok: "dir_ok ident good dir"
    using Cons.prems e by (auto simp: dir_ok_def dest: map_of_SomeD split: if_splits)
  have f: "f = json_file (ident v)" if "c = Good v" for v
    using Cons.prems e that by (auto simp: dir_ok_def)
  have "without ids (e # dir) = (if f \<in> json_file ` ids then [] else [e]) @ without ids dir"
    by (simp add: without_def e)
  with Cons.IH [OF ok] f e show ?case by (auto simp: list_records_Cons split: disk_file.splits)
qed (simp add: without_def list_records_def)

lemma prune_fold:
  assumes "distinct (map jb_jobId xs)" "\<forall>j\<in>set xs. map_of dir (json_file (jb_jobId j)) \<noteq> None \<and> unlinkable (json_file (jb_jobId j))"
    "ids \<inter> jb_jobId ` set xs = {}"
  shows "fold (\<lambda>job (dir, removed).
                if unlinkable (json_file (jb_jobId job)) \<and> map_of dir (json_file (jb_jobId job)) \<noteq> None
                then (AList.delete (json_file (jb_jobId job)) dir, removed + 1) else (dir, removed)) xs (without ids dir, n)
    = (without (ids \<union> jb_jobId ` set xs) dir, n + length xs)"
  using assms
proof (induction xs arbitrary: ids n)
  case (Cons j xs)
  have "map_of (without ids dir) (json_file (jb_jobId j)) \<noteq> None"
    using Cons.prems by (auto simp: map_of_without)
  with Cons.prems Cons.IH [of "insert (jb_jobId j) ids" "n + 1"] show ?case
    by (auto simp: delete_without)
qed simp

text \<open>
  Pruning keeps what it must: when the files can be unlinked, the jobs left are exactly those
  that are not completed, failed or cancelled, and the newest of those that are, up to the
  retention limit; the number returned is the number removed.
\<close>

theorem pruneJobs_retention:
  assumes "dir_ok jb_jobId (\<lambda>_. True) dir" "pruneJobs localeLe (\<lambda>_. True) maxRetention dir = (dir', n)"
  shows "list_records dir' = filter (\<lambda>j. \<not> prunable j \<or> j \<in> set (take maxRetention (filter prunable (listJobs localeLe dir)))) (list_records dir)
    \<and> length (filter prunable (list_records dir)) = length (filter prunable (list_records dir')) + n
    \<and> length (filter prunable (list_records dir')) \<le> maxRetention"
proof -
  define terminal where "terminal = filter prunable (listJobs localeLe dir)"
  let ?old = "drop maxRetention terminal"
  have d: "distinct (map jb_jobId terminal)"
    using distinct_listJobs [OF assms(1)] by (auto simp: terminal_def distinct_map inj_on_def)
  then have dt: "distinct terminal" by (simp add: distinct_map)
  have mem: "j \<in> set terminal \<longleftrightarrow> j \<in> set (list_records dir) \<and> prunable j" for j
    by (auto simp: terminal_def listJobs_def)
  have "dir' = without (jb_jobId ` set ?old) dir \<and> n = length ?old"
  proof (cases "length terminal \<le> maxRetention")
    case True
    with assms(2) show ?thesis by (simp add: pruneJobs_def terminal_def [symmetric])
  next
    case False
    have "distinct (map jb_jobId ?old)" using d by (simp add: drop_map [symmetric] distinct_drop)
    moreover have "map_of dir (json_file (jb_jobId j)) \<noteq> None" if "j \<in> set ?old" for j
      using that mem [of j] dir_ok_listed [OF assms(1), of j] by (auto dest: in_set_dropD)
    ultimately show ?thesis
      using False assms(2) prune_fold [of ?old dir "\<lambda>_. True" "{}" 0]
      by (simp add: pruneJobs_def terminal_def [symmetric])
  qed
  then have dir': "dir' = without (jb_jobId ` set ?old) dir" and n: "n = length ?old" by simp_all
  have "distinct (list_records dir)" "inj_on jb_jobId (set (list_records dir))"
    using dir_ok_distinct [OF assms(1)] by (simp_all add: distinct_map)
  note dl = this
  have split: "j \<in> set (take maxRetention terminal) \<longleftrightarrow> j \<notin> set ?old" if "j \<in> set terminal" for j
    using that dt by (metis Un_iff append_take_drop_id disjoint_iff set_append set_take_disj_set_drop_if_distinct order_refl)
  have idold: "jb_jobId j \<in> jb_jobId ` set ?old \<longleftrightarrow> j \<in> set ?old" if "j \<in> set (list_records dir)" for j
    using that dl(2) mem by (auto simp: inj_on_def dest: in_set_dropD)
  have recs: "list_records dir' = filter (\<lambda>j. \<not> prunable j \<or> j \<in> set (take maxRetention terminal)) (list_records dir)"
    unfolding dir' list_records_without [OF assms(1)]
    by (intro filter_cong refl) (use idold split mem in \<open>metis in_set_dropD in_set_takeD\<close>)
  have len: "length (filter prunable (list_records dir)) = length terminal"
  proof -
    have "set (filter prunable (list_records dir)) = set terminal" using mem by auto
    then show ?thesis using dt dl(1) by (metis distinct_card distinct_filter)
  qed
  have "filter prunable (list_records dir') = filter (\<lambda>j. j \<in> set (take maxRetention terminal)) (list_records dir)"
    using mem unfolding recs filter_filter by (intro filter_cong) (auto dest: in_set_takeD)
  moreover have "set (filter (\<lambda>j. j \<in> set (take maxRetention terminal)) (list_records dir)) = set (take maxRetention terminal)"
    using mem by (auto dest: in_set_takeD)
  ultimately have "length (filter prunable (list_records dir')) = length (take maxRetention terminal)"
    using dl(1) dt by (metis distinct_card distinct_filter distinct_take)
  with recs len n show ?thesis by (simp add: terminal_def)
qed

end
