(* ===== verification/Secrets.thy ===== *)
theory Secrets
  imports State_Store
begin

section \<open>Secret references in job environments\<close>

text \<open>
  Models \<^verbatim>\<open>src/src/secrets/provider.ts\<close>. A provider is a function from references to
  values. The environment of a request is any JSON value; \<open>resolveEnvironment\<close> reads it
  entry by entry and returns the environment of the child process and the list that is
  written to the job record.
\<close>

definition secret_words :: "string list" where
  "secret_words = [''token'', ''secret'', ''password'', ''passwd'', ''api_key'', ''private_key'', ''credential'', ''auth'']"

text \<open>\<open>/(?:^|_)(?:TOKEN|...|AUTH)(?:_|$)/iu\<close>, on the lower-cased name: a word that starts at the
  beginning or after an underscore and ends at the end or before one.\<close>

definition word_here :: "string \<Rightarrow> string \<Rightarrow> bool" where
  "word_here w s \<longleftrightarrow> take (length w) s = w \<and> (drop (length w) s = [] \<or> hd (drop (length w) s) = CHR ''_'')"

fun secret_scan :: "bool \<Rightarrow> string \<Rightarrow> bool" where
  "secret_scan start [] = False"
| "secret_scan start (c # s) \<longleftrightarrow>
     start \<and> list_ex (\<lambda>w. word_here w (c # s)) secret_words \<or> secret_scan (c = CHR ''_'') s"

definition isSecretLikeEnvironmentName :: "string \<Rightarrow> bool" where
  "isSecretLikeEnvironmentName name = secret_scan True (map to_lower name)"

definition rejectSecretLikeLiteral :: "string \<Rightarrow> (thrown, unit) result" where
  "rejectSecretLikeLiteral name = check (\<not> isSecretLikeEnvironmentName name)
     (ErrorMessage (''Environment variable '' @ name @ '' must use secretReference''))"

type_synonym secret_provider = "string \<Rightarrow> string option"

text \<open>\<open>/^github:(.+)$/\<close>, where the dot matches no line terminator.\<close>

definition ProcessEnvSecretProvider :: "environment \<Rightarrow> secret_provider" where
  "ProcessEnvSecretProvider env reference =
     (let name = drop 7 reference in
      if take 7 reference = ''github:'' \<and> name \<noteq> [] \<and> CHR 0x0A \<notin> set name \<and> CHR 0x0D \<notin> set name
      then env name else None)"

definition resolve_entry ::
  "secret_provider \<Rightarrow> json \<Rightarrow> json_object \<times> env_entry list \<Rightarrow> (thrown, json_object \<times> env_entry list) result" where
  "resolve_entry provider entry = (\<lambda>(env, persisted).
     case entry of
       JObj obj \<Rightarrow>
         (let name = string_field obj ''name'' in
          if name = [] then Inr (env, persisted)
          else case map_of obj ''secretReference'' of
            Some (JStr reference) \<Rightarrow>
              (case provider reference of
                 None \<Rightarrow> Inl (ErrorMessage (''Secret reference not resolved: '' @ reference))
               | Some value \<Rightarrow> Inr (js_set name (JStr value) env, persisted @ [SecretEntry name reference]))
          | _ \<Rightarrow>
              (case map_of obj ''value'' of
                 Some (JStr value) \<Rightarrow>
                   res_bind (rejectSecretLikeLiteral name) (\<lambda>_.
                   Inr (js_set name (JStr value) env, persisted @ [LiteralEntry name value]))
               | _ \<Rightarrow> Inr (env, persisted)))
     | _ \<Rightarrow> Inr (env, persisted))"

primrec resolve_entries ::
  "secret_provider \<Rightarrow> json list \<Rightarrow> json_object \<times> env_entry list \<Rightarrow> (thrown, json_object \<times> env_entry list) result" where
  "resolve_entries provider [] acc = Inr acc"
| "resolve_entries provider (e # es) acc = res_bind (resolve_entry provider e acc) (resolve_entries provider es)"

definition resolveEnvironment :: "secret_provider \<Rightarrow> json \<Rightarrow> (thrown, json_object \<times> env_entry list) result" where
  "resolveEnvironment provider environment =
     (case environment of JArr entries \<Rightarrow> resolve_entries provider entries ([], []) | _ \<Rightarrow> Inr ([], []))"

subsection \<open>What is persisted\<close>

text \<open>An entry that may be written to disk: a reference, or a literal under an unsuspicious name
  that the request itself spelled out.\<close>

definition literal_in :: "json \<Rightarrow> string \<Rightarrow> string \<Rightarrow> bool" where
  "literal_in environment name value \<longleftrightarrow>
     (case environment of
        JArr entries \<Rightarrow> list_ex (\<lambda>e. case e of
           JObj obj \<Rightarrow> string_field obj ''name'' = name \<and> map_of obj ''value'' = Some (JStr value)
             \<and> (\<forall>r. map_of obj ''secretReference'' \<noteq> Some (JStr r))
         | _ \<Rightarrow> False) entries
      | _ \<Rightarrow> False)"

definition persistable :: "json \<Rightarrow> env_entry \<Rightarrow> bool" where
  "persistable environment e =
     (case e of
        SecretEntry name reference \<Rightarrow> True
      | LiteralEntry name value \<Rightarrow> \<not> isSecretLikeEnvironmentName name \<and> literal_in environment name value)"

lemma resolve_entry_persisted:
  assumes "resolve_entry provider e (env, persisted) = Inr (env', persisted')" "list_all (persistable (JArr (es @ e # es'))) persisted"
  shows "list_all (persistable (JArr (es @ e # es'))) persisted'"
  using assms
  by (auto simp: resolve_entry_def Let_def persistable_def literal_in_def rejectSecretLikeLiteral_def res_simps
      split: json.splits option.splits if_splits)

lemma resolve_entries_persisted:
  assumes "resolve_entries provider es (env, persisted) = Inr (env', persisted')" "list_all (persistable (JArr (es\<^sub>0 @ es))) persisted"
  shows "list_all (persistable (JArr (es\<^sub>0 @ es))) persisted'"
  using assms
proof (induction es arbitrary: env persisted es\<^sub>0)
  case (Cons e es)
  then obtain env\<^sub>1 persisted\<^sub>1 where r: "resolve_entry provider e (env, persisted) = Inr (env\<^sub>1, persisted\<^sub>1)"
    "resolve_entries provider es (env\<^sub>1, persisted\<^sub>1) = Inr (env', persisted')"
    by (auto simp: res_simps)
  from resolve_entry_persisted [OF r(1) Cons.prems(2)]
  have "list_all (persistable (JArr ((es\<^sub>0 @ [e]) @ es))) persisted\<^sub>1" by simp
  from Cons.IH [OF r(2) this] show ?case by simp
qed simp

text \<open>What is persisted does not depend on the values of the secrets.\<close>

lemma resolve_entry_indep:
  assumes "resolve_entry p\<^sub>1 e (env\<^sub>1, persisted) = Inr (env\<^sub>1', q\<^sub>1)" "resolve_entry p\<^sub>2 e (env\<^sub>2, persisted) = Inr (env\<^sub>2', q\<^sub>2)"
  shows "q\<^sub>1 = q\<^sub>2"
  using assms by (auto simp: resolve_entry_def Let_def res_simps split: json.splits option.splits if_splits)

lemma resolve_entries_indep:
  assumes "resolve_entries p\<^sub>1 es (env\<^sub>1, persisted) = Inr (env\<^sub>1', q\<^sub>1)" "resolve_entries p\<^sub>2 es (env\<^sub>2, persisted) = Inr (env\<^sub>2', q\<^sub>2)"
  shows "q\<^sub>1 = q\<^sub>2"
  using assms
proof (induction es arbitrary: env\<^sub>1 env\<^sub>2 persisted)
  case (Cons e es)
  then obtain a\<^sub>1 r\<^sub>1 a\<^sub>2 r\<^sub>2 where
    "resolve_entry p\<^sub>1 e (env\<^sub>1, persisted) = Inr (a\<^sub>1, r\<^sub>1)" "resolve_entries p\<^sub>1 es (a\<^sub>1, r\<^sub>1) = Inr (env\<^sub>1', q\<^sub>1)"
    "resolve_entry p\<^sub>2 e (env\<^sub>2, persisted) = Inr (a\<^sub>2, r\<^sub>2)" "resolve_entries p\<^sub>2 es (a\<^sub>2, r\<^sub>2) = Inr (env\<^sub>2', q\<^sub>2)"
    by (auto simp: res_simps)
  moreover from this have "r\<^sub>1 = r\<^sub>2" by (auto dest: resolve_entry_indep)
  ultimately show ?case using Cons.IH by blast
qed simp

text \<open>
  No secret reaches the disk: the environment that is written to a job record does not depend
  on what the secret provider answered (two providers that both resolve the request lead to
  the same record), and every literal in it was spelled out in the request under a name that is
  not secret-like.
\<close>

theorem resolveEnvironment_no_secrets:
  assumes "resolveEnvironment p\<^sub>1 environment = Inr (env\<^sub>1, q\<^sub>1)" "resolveEnvironment p\<^sub>2 environment = Inr (env\<^sub>2, q\<^sub>2)"
  shows "q\<^sub>1 = q\<^sub>2 \<and> list_all (persistable environment) q\<^sub>1"
proof (cases environment)
  case (JArr es)
  with assms resolve_entries_indep resolve_entries_persisted [of p\<^sub>1 es "[]" "[]" env\<^sub>1 q\<^sub>1 "[]"] show ?thesis
    by (auto simp: resolveEnvironment_def)
qed (use assms in \<open>auto simp: resolveEnvironment_def\<close>)

definition sample_environment :: json where
  "sample_environment = JArr
     [JObj [(''name'', JStr ''GITHUB_TOKEN''), (''secretReference'', JStr ''github:TOKEN'')],
      JObj [(''name'', JStr ''LANG''), (''value'', JStr ''C'')]]"

definition sample_provider :: "string \<Rightarrow> secret_provider" where
  "sample_provider v = (\<lambda>reference. if reference = ''github:TOKEN'' then Some v else None)"

lemma sample_resolved:
  "resolveEnvironment (sample_provider v) sample_environment =
     Inr ([(''GITHUB_TOKEN'', JStr v), (''LANG'', JStr ''C'')], [SecretEntry ''GITHUB_TOKEN'' ''github:TOKEN'', LiteralEntry ''LANG'' ''C''])"
proof -
  have "\<not> isSecretLikeEnvironmentName ''LANG''" by code_simp
  then show ?thesis
    by (simp add: resolveEnvironment_def sample_environment_def sample_provider_def resolve_entry_def string_field_def
        rejectSecretLikeLiteral_def js_set_def is_array_index_def is_digit_def between_def code_def Let_def)
qed

theorem resolveEnvironment_no_secrets_witness:
  "list_all (persistable sample_environment) [SecretEntry ''GITHUB_TOKEN'' ''github:TOKEN'', LiteralEntry ''LANG'' ''C'']"
  using resolveEnvironment_no_secrets [OF sample_resolved [of "''s3cr3t''"] sample_resolved [of "''other''"]] by blast

end
