(* ===== verification/Jobs.thy ===== *)
theory Jobs
  imports Secrets Frame
begin

section \<open>The job manager\<close>

text \<open>
  Models \<^verbatim>\<open>src/src/process/identity.ts\<close> and \<^verbatim>\<open>src/src/jobs/manager.ts\<close>. What the code asks the
  operating system is the record \<open>os_view\<close>, an argument of every operation: the boot id,
  \<open>/proc\<close>, \<open>ps\<close>, whether a signal can be delivered, the process id a spawn returns, and the clock.
  The state is the directory of job records, the stream files, and what lives only in the memory
  of the supervisor: the job objects held by the event listeners of its children
  (\<open>js_live\<close>; they are not the records read back from disk) and the keys of
  \<open>runningProcesses\<close>. Signals sent are logged. An operation returns the new state with
  either an exception or a value, because an exception from writing a record leaves the
  changes made before it. Stream data is kept as bytes (it travels as base64); writes of the
  output streams are taken to reach the file at once.
\<close>

subsection \<open>Process identity\<close>

record os_view =
  os_bootId :: "string option"
  os_stat :: "int \<Rightarrow> string option"
  os_exe :: "int \<Rightarrow> string option"
  os_psPgid :: "int \<Rightarrow> string option"
  os_kill :: "int \<Rightarrow> bool"
  os_spawn :: "string list \<Rightarrow> string \<Rightarrow> json_object \<Rightarrow> int option"
  os_cwd :: string
  os_now :: int
  os_parseMessage :: string
  os_ioMessage :: string

definition js_trim :: "string \<Rightarrow> string" where
  "js_trim s = rev (dropWhile is_space (rev (dropWhile is_space s)))"

fun split_on :: "char \<Rightarrow> string \<Rightarrow> string list" where
  "split_on c [] = [[]]"
| "split_on c (x # s) = (if x = c then [] # split_on c s
     else case split_on c s of [] \<Rightarrow> [[x]] | w # ws \<Rightarrow> (x # w) # ws)"

definition readBootId :: "os_view \<Rightarrow> string" where
  "readBootId os = (case os_bootId os of None \<Rightarrow> ''unknown'' | Some s \<Rightarrow> js_trim s)"

text \<open>Field 20 after the command name: \<open>stat.slice(stat.lastIndexOf(')') + 2).split(' ')[19]\<close>.\<close>

definition start_field :: "string \<Rightarrow> string option option" where
  "start_field stat =
     (if CHR '')'' \<notin> set stat then None
      else let tail = rev (takeWhile (\<lambda>c. c \<noteq> CHR '')'') (rev stat)); rest = split_on (CHR '' '') (drop 1 tail)
           in Some (if 19 < length rest then Some (rest ! 19) else None))"

definition readProcessStartTime :: "os_view \<Rightarrow> int \<Rightarrow> string" where
  "readProcessStartTime os pid =
     (case os_stat os pid of
        None \<Rightarrow> ''0''
      | Some stat \<Rightarrow> (case start_field stat of None \<Rightarrow> ''0'' | Some f \<Rightarrow> nullish f ''0''))"

definition readExecutablePath :: "os_view \<Rightarrow> int \<Rightarrow> string" where
  "readExecutablePath os pid = nullish (os_exe os pid) ''''"

definition captureProcessIdentity :: "os_view \<Rightarrow> int \<Rightarrow> int option \<Rightarrow> process_identity" where
  "captureProcessIdentity os pid pgid =
     \<lparr>pi_pid = pid, pi_processStartTime = readProcessStartTime os pid, pi_executablePath = readExecutablePath os pid,
      pi_pgid = nullish pgid pid, pi_bootId = readBootId os\<rparr>"

definition processAlive :: "os_view \<Rightarrow> process_identity \<Rightarrow> bool" where
  "processAlive os i =
     (if pi_bootId i \<noteq> ''unknown'' \<and> readBootId os \<noteq> pi_bootId i then False
      else case os_stat os (pi_pid i) of
        None \<Rightarrow> False
      | Some stat \<Rightarrow>
          (case start_field stat of
             None \<Rightarrow> False
           | Some f \<Rightarrow> nullish f '''' = pi_processStartTime i
               \<and> (pi_executablePath i = [] \<or> readExecutablePath os (pi_pid i) = pi_executablePath i)))"

text \<open>\<open>parseInt(out.trim(), 10) || pid\<close>.\<close>

definition readProcessGroup :: "os_view \<Rightarrow> int \<Rightarrow> int" where
  "readProcessGroup os pid =
     (case os_psPgid os pid of
        None \<Rightarrow> pid
      | Some out \<Rightarrow> (case parseInt 10 (js_trim out) of None \<Rightarrow> pid | Some n \<Rightarrow> if n = 0 then pid else n))"

subsection \<open>State\<close>

record live_job =
  lv_job :: job_record
  lv_detached :: bool

datatype signal_target = ToGroup int | ToProcess int

record job_system =
  js_dir :: "job_record directory"
  js_live :: "live_job list"
  js_running :: "string list"
  js_streams :: "(string \<times> byte list) list"
  js_signals :: "(signal_target \<times> string) list"

subsection \<open>Starting processes\<close>

record exec_payload =
  ep_argv :: "string list option"
  ep_cwd :: "string option"
  ep_environment :: "json option"
  ep_env :: "json_object option"
  ep_detached :: "bool option"

record shell_payload =
  sp_shell :: "string option"
  sp_command :: "string option"
  sp_script :: "string option"
  sp_cwd :: "string option"
  sp_environment :: "json option"
  sp_env :: "json_object option"
  sp_detached :: "bool option"

definition json_truthy :: "json \<Rightarrow> bool" where
  "json_truthy v \<longleftrightarrow> v \<notin> {JNull, JBool False, JNum 0, JStr ''''}"

definition resolveEnv ::
  "secret_provider \<Rightarrow> json option \<Rightarrow> json_object option \<Rightarrow> (thrown, json_object \<times> env_entry list) result" where
  "resolveEnv provider environment env =
     (case environment of
        Some e \<Rightarrow> if json_truthy e then resolveEnvironment provider e else
          (case env of Some kvs \<Rightarrow> resolveEnvironment provider (JArr (map (\<lambda>(n, v). JObj [(''name'', JStr n), (''value'', v)]) kvs)) | None \<Rightarrow> Inr ([], []))
      | None \<Rightarrow>
          (case env of Some kvs \<Rightarrow> resolveEnvironment provider (JArr (map (\<lambda>(n, v). JObj [(''name'', JStr n), (''value'', v)]) kvs)) | None \<Rightarrow> Inr ([], [])))"

definition blank_job :: job_record where
  "blank_job =
     \<lparr>jb_jobId = [], jb_requestId = [], jb_operation = [], jb_status = JPending, jb_pid = None, jb_exitCode = None,
      jb_signal = None, jb_createdAt = [], jb_startedAt = None, jb_completedAt = None, jb_cwd = [], jb_argv = None,
      jb_shell = None, jb_script = None, jb_env = None, jb_detached = False, jb_pgid = None, jb_identity = None,
      jb_streams = \<lparr>ss_stdoutPath = [], ss_stderrPath = [], ss_stdoutOffset = 0, ss_stderrOffset = 0,
                    ss_stdoutClosed = False, ss_stderrClosed = False\<rparr>\<rparr>"

text \<open>The stream files are opened for appending, which creates them.\<close>

definition open_append :: "string \<Rightarrow> (string \<times> byte list) list \<Rightarrow> (string \<times> byte list) list" where
  "open_append path files = (case map_of files path of None \<Rightarrow> AList.update path [] files | Some _ \<Rightarrow> files)"

definition started_job :: "os_view \<Rightarrow> string list \<Rightarrow> json_object \<Rightarrow> bool \<Rightarrow> job_record \<Rightarrow> job_record" where
  "started_job os argv env detached job =
     (let pid = os_spawn os argv (jb_cwd job) env;
          pgid = (case pid of None \<Rightarrow> None | Some p \<Rightarrow> if p = 0 then None else Some (readProcessGroup os p))
      in job\<lparr>jb_status := (if detached then JDetached else JRunning), jb_pid := pid, jb_pgid := pgid,
             jb_identity := (case pid of None \<Rightarrow> jb_identity job
                | Some p \<Rightarrow> if p = 0 then jb_identity job else Some (captureProcessIdentity os p pgid)),
             jb_startedAt := Some (to_iso (os_now os))\<rparr>)"

definition startProcess ::
  "os_view \<Rightarrow> io_fault \<Rightarrow> job_record \<Rightarrow> string list \<Rightarrow> json_object \<Rightarrow> bool \<Rightarrow> job_system \<Rightarrow> job_system \<times> bool" where
  "startProcess os fault job argv env detached s =
     (let s = s\<lparr>js_streams := open_append (ss_stderrPath (jb_streams job)) (open_append (ss_stdoutPath (jb_streams job)) (js_streams s))\<rparr>;
          job = started_job os argv env detached job;
          (dir, threw) = saveJob fault job (js_dir s)
      in if threw then (s\<lparr>js_dir := dir\<rparr>, True)
         else (s\<lparr>js_dir := dir, js_live := js_live s @ [\<lparr>lv_job = job, lv_detached = detached\<rparr>],
                 js_running := jb_jobId job # js_running s\<rparr>, False))"

text \<open>The tail of \<open>exec\<close> and \<open>shell\<close>: create the record, start the process, read the record back.\<close>

definition launch ::
  "runtime_config \<Rightarrow> os_view \<Rightarrow> string \<Rightarrow> io_fault \<Rightarrow> io_fault \<Rightarrow> job_record \<Rightarrow> string list \<Rightarrow> json_object \<Rightarrow> bool \<Rightarrow> job_system \<Rightarrow>
     job_system \<times> (thrown, job_record option) result" where
  "launch cfg os uuid fault fault' partial argv env detached s =
     (let (dir, threw, job) = createJob cfg uuid (os_now os) fault partial (js_dir s); s = s\<lparr>js_dir := dir\<rparr> in
      if threw then (s, Inl (ErrorMessage (os_ioMessage os)))
      else let (s, threw) = startProcess os fault' job argv env detached s in
        if threw then (s, Inl (ErrorMessage (os_ioMessage os)))
        else (s, getJob (os_parseMessage os) (jb_jobId job) (js_dir s)))"

definition exec_job ::
  "runtime_config \<Rightarrow> os_view \<Rightarrow> secret_provider \<Rightarrow> string \<Rightarrow> io_fault \<Rightarrow> io_fault \<Rightarrow> string \<Rightarrow> exec_payload \<Rightarrow> job_system \<Rightarrow>
     job_system \<times> (thrown, job_record option) result" where
  "exec_job cfg os provider uuid fault fault' rid pl s =
     (let argv = nullish (ep_argv pl) []; cwd = nullish (ep_cwd pl) (os_cwd os); detached = nullish (ep_detached pl) False in
      if argv = [] then (s, Inl (ErrorMessage ''argv must be a non-empty array''))
      else case resolveEnv provider (ep_environment pl) (ep_env pl) of
        Inl e \<Rightarrow> (s, Inl e)
      | Inr (env, persisted) \<Rightarrow>
          launch cfg os uuid fault fault' (blank_job\<lparr>jb_requestId := rid, jb_operation := ''baby.exec'', jb_status := JPending,
            jb_cwd := cwd, jb_argv := Some argv, jb_env := Some persisted, jb_detached := detached\<rparr>) argv env detached s)"

definition shell_argv :: "shell_payload \<Rightarrow> (thrown, string list) result" where
  "shell_argv pl =
     (if truthy (sp_script pl) then Inr [nullish (sp_shell pl) ''/bin/sh'', ''-c'', the (sp_script pl)]
      else if truthy (sp_command pl) then Inr [nullish (sp_shell pl) ''/bin/sh'', ''-c'', the (sp_command pl)]
      else Inl (ErrorMessage ''Either command or script is required''))"

definition shell_job ::
  "runtime_config \<Rightarrow> os_view \<Rightarrow> secret_provider \<Rightarrow> string \<Rightarrow> io_fault \<Rightarrow> io_fault \<Rightarrow> string \<Rightarrow> shell_payload \<Rightarrow> job_system \<Rightarrow>
     job_system \<times> (thrown, job_record option) result" where
  "shell_job cfg os provider uuid fault fault' rid pl s =
     (let cwd = nullish (sp_cwd pl) (os_cwd os); detached = nullish (sp_detached pl) False in
      case shell_argv pl of
        Inl e \<Rightarrow> (s, Inl e)
      | Inr argv \<Rightarrow>
          (case resolveEnv provider (sp_environment pl) (sp_env pl) of
             Inl e \<Rightarrow> (s, Inl e)
           | Inr (env, persisted) \<Rightarrow>
               launch cfg os uuid fault fault' (blank_job\<lparr>jb_requestId := rid, jb_operation := ''baby.shell'', jb_status := JPending,
                 jb_cwd := cwd, jb_argv := Some argv, jb_shell := sp_shell pl,
                 jb_script := (case sp_script pl of None \<Rightarrow> sp_command pl | Some x \<Rightarrow> Some x),
                 jb_env := Some persisted, jb_detached := detached\<rparr>) argv env detached s))"

subsection \<open>Events of a child process\<close>

definition send :: "signal_target \<Rightarrow> string \<Rightarrow> job_system \<Rightarrow> job_system" where
  "send target sig s = s\<lparr>js_signals := js_signals s @ [(target, sig)]\<rparr>"

text \<open>\<open>child.kill(sig)\<close>: a child that could not be spawned has no process id.\<close>

definition kill_child :: "job_record \<Rightarrow> string \<Rightarrow> job_system \<Rightarrow> job_system" where
  "kill_child job sig s = (case jb_pid job of None \<Rightarrow> s | Some p \<Rightarrow> send (ToProcess p) sig s)"

datatype stream_name = Stdout | Stderr

definition stream_path :: "stream_name \<Rightarrow> job_record \<Rightarrow> string" where
  "stream_path st job = (case st of Stdout \<Rightarrow> ss_stdoutPath (jb_streams job) | Stderr \<Rightarrow> ss_stderrPath (jb_streams job))"

definition append_stream :: "string \<Rightarrow> byte list \<Rightarrow> job_system \<Rightarrow> job_system" where
  "append_stream path chunk s =
     s\<lparr>js_streams := AList.update path (nullish (map_of (js_streams s) path) [] @ chunk) (js_streams s)\<rparr>"

definition count_output :: "stream_name \<Rightarrow> nat \<Rightarrow> job_record \<Rightarrow> job_record" where
  "count_output st n job = job\<lparr>jb_streams :=
     (case st of Stdout \<Rightarrow> (jb_streams job)\<lparr>ss_stdoutOffset := ss_stdoutOffset (jb_streams job) + n\<rparr>
               | Stderr \<Rightarrow> (jb_streams job)\<lparr>ss_stderrOffset := ss_stderrOffset (jb_streams job) + n\<rparr>)\<rparr>"

definition stream_offset :: "stream_name \<Rightarrow> job_record \<Rightarrow> nat" where
  "stream_offset st job = (case st of Stdout \<Rightarrow> ss_stdoutOffset (jb_streams job) | Stderr \<Rightarrow> ss_stderrOffset (jb_streams job))"

text \<open>The \<open>data\<close> listeners, which exist only for attached children.\<close>

definition on_output :: "runtime_config \<Rightarrow> nat \<Rightarrow> stream_name \<Rightarrow> byte list \<Rightarrow> job_system \<Rightarrow> job_system" where
  "on_output cfg k st chunk s =
     (if k < length (js_live s) \<and> \<not> lv_detached (js_live s ! k) then
        let job = count_output st (length chunk) (lv_job (js_live s ! k));
            s = append_stream (stream_path st job) chunk (s\<lparr>js_live := (js_live s)[k := (js_live s ! k)\<lparr>lv_job := job\<rparr>]\<rparr>)
        in if stream_offset st job > cfg_maxOutputBytes cfg then kill_child job ''SIGTERM'' s else s
      else s)"

definition close_streams :: "stream_state \<Rightarrow> stream_state" where
  "close_streams ss = ss\<lparr>ss_stdoutClosed := True, ss_stderrClosed := True\<rparr>"

definition finalized_job :: "os_view \<Rightarrow> job_status \<Rightarrow> int option \<Rightarrow> string option \<Rightarrow> job_record \<Rightarrow> job_record" where
  "finalized_job os status exitCode sig job =
     job\<lparr>jb_status := status, jb_exitCode := Some exitCode, jb_signal := Some sig, jb_completedAt := Some (to_iso (os_now os)),
         jb_streams := close_streams (jb_streams job)\<rparr>"

text \<open>\<open>finalize\<close> changes the listener's own job object; an exception from saving it is dropped.\<close>

definition finalize ::
  "os_view \<Rightarrow> io_fault \<Rightarrow> nat \<Rightarrow> job_status \<Rightarrow> int option \<Rightarrow> string option \<Rightarrow> job_system \<Rightarrow> job_system" where
  "finalize os fault k status exitCode sig s =
     (let job = finalized_job os status exitCode sig (lv_job (js_live s ! k))
      in s\<lparr>js_live := (js_live s)[k := (js_live s ! k)\<lparr>lv_job := job\<rparr>],
           js_dir := fst (saveJob fault job (js_dir s)),
           js_running := removeAll (jb_jobId job) (js_running s)\<rparr>)"

definition on_error :: "os_view \<Rightarrow> io_fault \<Rightarrow> nat \<Rightarrow> job_system \<Rightarrow> job_system" where
  "on_error os fault k s = (if k < length (js_live s) then finalize os fault k JFailed None None s else s)"

text \<open>After \<open>close\<close> no listener runs again.\<close>

definition on_close :: "os_view \<Rightarrow> io_fault \<Rightarrow> nat \<Rightarrow> int option \<Rightarrow> string option \<Rightarrow> job_system \<Rightarrow> job_system" where
  "on_close os fault k exitCode sig s =
     (if k < length (js_live s) then
        let s = (if lv_detached (js_live s ! k) then s
                 else finalize os fault k (if exitCode = Some 0 then JCompleted else JFailed) exitCode sig s)
        in s\<lparr>js_live := take k (js_live s) @ drop (Suc k) (js_live s)\<rparr>
      else s)"

subsection \<open>Queries\<close>

primrec status_name :: "job_status \<Rightarrow> string" where
  "status_name JPending = ''pending''"
| "status_name JRunning = ''running''"
| "status_name JAdopted = ''adopted''"
| "status_name JCompleted = ''completed''"
| "status_name JFailed = ''failed''"
| "status_name JCancelled = ''cancelled''"
| "status_name JDetached = ''detached''"
| "status_name JLost = ''lost''"

text \<open>\<open>xs.slice(0, n)\<close>.\<close>

definition slice_to :: "int \<Rightarrow> 'a list \<Rightarrow> 'a list" where
  "slice_to n xs = (if 0 \<le> n then take (nat n) xs else take (length xs - nat (- n)) xs)"

definition JobManager_listJobs :: "(string \<Rightarrow> string \<Rightarrow> bool) \<Rightarrow> string option \<Rightarrow> int option \<Rightarrow> job_system \<Rightarrow> job_record list" where
  "JobManager_listJobs localeLe status limit s =
     (let jobs = listJobs localeLe (js_dir s);
          jobs = (if truthy status then filter (\<lambda>j. Some (status_name (jb_status j)) = status) jobs else jobs)
      in slice_to (nullish limit 100) jobs)"

definition require_job :: "os_view \<Rightarrow> string \<Rightarrow> job_system \<Rightarrow> (thrown, job_record) result" where
  "require_job os jobId s =
     res_bind (getJob (os_parseMessage os) jobId (js_dir s)) (\<lambda>j.
     case j of None \<Rightarrow> Inl (ErrorMessage (''Job not found: '' @ jobId)) | Some job \<Rightarrow> Inr job)"

text \<open>\<open>waitForJob\<close> polls every 100 ms; \<open>poll n\<close> is what the \<open>n\<close>-th look at the store gives and
  \<open>clock n\<close> the time then. \<open>None\<close> is still polling when the fuel runs out.\<close>

fun wait_loop :: "nat \<Rightarrow> (nat \<Rightarrow> (thrown, job_record option) result) \<Rightarrow> (nat \<Rightarrow> int) \<Rightarrow> int \<Rightarrow> int \<Rightarrow> nat \<Rightarrow> (thrown, job_record) result option" where
  "wait_loop 0 poll clock start timeout n = None"
| "wait_loop (Suc fuel) poll clock start timeout n =
     (case poll n of
        Inl e \<Rightarrow> Some (Inl e)
      | Inr None \<Rightarrow> Some (Inl (ErrorMessage ''Job disappeared''))
      | Inr (Some current) \<Rightarrow>
          if jb_status current \<in> {JCompleted, JFailed, JCancelled, JDetached, JAdopted, JLost} then Some (Inr current)
          else if clock n - start > timeout then Some (Inl (ErrorMessage ''Job wait timeout''))
          else wait_loop fuel poll clock start timeout (Suc n))"

definition waitForJob ::
  "nat \<Rightarrow> os_view \<Rightarrow> (nat \<Rightarrow> (thrown, job_record option) result) \<Rightarrow> (nat \<Rightarrow> int) \<Rightarrow> string \<Rightarrow> int option \<Rightarrow> job_system \<Rightarrow> (thrown, job_record) result option" where
  "waitForJob fuel os poll clock jobId timeoutMs s =
     (case require_job os jobId s of
        Inl e \<Rightarrow> Some (Inl e)
      | Inr job \<Rightarrow>
          if jb_status job \<in> {JCompleted, JFailed, JCancelled, JLost} then Some (Inr job)
          else wait_loop fuel poll clock (os_now os) (nullish timeoutMs 300000) 0)"

record stream_chunk =
  sc_data :: "byte list"
  sc_offset :: nat
  sc_eof :: bool

definition readStream ::
  "os_view \<Rightarrow> string \<Rightarrow> stream_name \<Rightarrow> nat option \<Rightarrow> nat option \<Rightarrow> job_system \<Rightarrow> (thrown, stream_chunk) result" where
  "readStream os jobId st offset limit s =
     res_bind (require_job os jobId s) (\<lambda>job.
     let offset = nullish offset 0 in
     case map_of (js_streams s) (stream_path st job) of
       None \<Rightarrow> Inr \<lparr>sc_data = [], sc_offset = offset, sc_eof = True\<rparr>
     | Some content \<Rightarrow>
         let limit = min (nullish limit (64 * 1024)) (64 * 1024);
             toRead = min limit (length content - offset);
             closed = (case st of Stderr \<Rightarrow> ss_stderrClosed (jb_streams job) | Stdout \<Rightarrow> ss_stdoutClosed (jb_streams job))
         in Inr \<lparr>sc_data = take toRead (drop offset content), sc_offset = offset + toRead,
                 sc_eof = (closed \<and> length content \<le> offset + toRead)\<rparr>)"

subsection \<open>Cancelling\<close>

text \<open>The signal goes to the group, or when that fails to the process, then to the tracked child.\<close>

definition signal_group :: "os_view \<Rightarrow> int option \<Rightarrow> string \<Rightarrow> job_system \<Rightarrow> job_system" where
  "signal_group os pgid sig s =
     (case pgid of
        None \<Rightarrow> s
      | Some p \<Rightarrow>
          if p = 0 then s
          else if os_kill os (- p) then send (ToGroup p) sig s
          else if os_kill os p then send (ToProcess p) sig s
          else s)"

definition first_some :: "'a option \<Rightarrow> 'a option \<Rightarrow> 'a option" where
  "first_some a b = (case a of None \<Rightarrow> b | Some x \<Rightarrow> Some x)"

definition tracked :: "string \<Rightarrow> job_system \<Rightarrow> job_record option" where
  "tracked jobId s =
     (if jobId \<in> set (js_running s) then map_option lv_job (find (\<lambda>l. jb_jobId (lv_job l) = jobId) (rev (js_live s))) else None)"

definition cancelled_job :: "os_view \<Rightarrow> job_record \<Rightarrow> job_record" where
  "cancelled_job os job = job\<lparr>jb_status := JCancelled, jb_completedAt := Some (to_iso (os_now os)),
     jb_streams := close_streams (jb_streams job)\<rparr>"

definition cancelJob ::
  "os_view \<Rightarrow> io_fault \<Rightarrow> string \<Rightarrow> string option \<Rightarrow> job_system \<Rightarrow> job_system \<times> (thrown, job_record) result" where
  "cancelJob os fault jobId sig s =
     (case require_job os jobId s of
        Inl e \<Rightarrow> (s, Inl e)
      | Inr job \<Rightarrow>
          let sig = nullish sig ''SIGTERM'';
              s = signal_group os (first_some (jb_pgid job) (jb_pid job)) sig s;
              s = (case tracked jobId s of None \<Rightarrow> s | Some child \<Rightarrow> kill_child child sig s);
              job = cancelled_job os job;
              (dir, threw) = saveJob fault job (js_dir s)
          in if threw then (s\<lparr>js_dir := dir\<rparr>, Inl (ErrorMessage (os_ioMessage os)))
             else (s\<lparr>js_dir := dir, js_running := removeAll jobId (js_running s)\<rparr>, Inr job))"

subsection \<open>Recovery after a restart\<close>

text \<open>The memory of the supervisor is gone; children and files stay.\<close>

definition restart_jobs :: "job_system \<Rightarrow> job_system" where
  "restart_jobs s = s\<lparr>js_live := [], js_running := []\<rparr>"

definition identity_alive :: "os_view \<Rightarrow> job_record \<Rightarrow> bool" where
  "identity_alive os job = (case jb_identity job of None \<Rightarrow> False | Some i \<Rightarrow> processAlive os i)"

definition pid_exists :: "os_view \<Rightarrow> int option \<Rightarrow> bool" where
  "pid_exists os pid = (case pid of None \<Rightarrow> False | Some p \<Rightarrow> p \<noteq> 0 \<and> os_kill os p)"

definition adopted_job :: "job_record \<Rightarrow> job_record" where
  "adopted_job job = job\<lparr>jb_status := JAdopted\<rparr>"

definition lost_job :: "os_view \<Rightarrow> job_record \<Rightarrow> job_record" where
  "lost_job os job = job\<lparr>jb_status := JLost, jb_completedAt := Some (to_iso (os_now os))\<rparr>"

text \<open>One running job. The record of a job found by its process id alone is saved inside the
  \<open>try\<close> block: when that write fails the job is saved again as lost.\<close>

definition recover_one :: "os_view \<Rightarrow> io_fault \<times> io_fault \<Rightarrow> job_record \<Rightarrow> job_record directory \<Rightarrow> job_record directory \<times> bool \<times> bool" where
  "recover_one os faults job dir =
     (if identity_alive os job then
        let (dir, threw) = saveJob (fst faults) (adopted_job job) dir in (dir, True, threw)
      else if pid_exists os (jb_pid job) then
        let (dir, threw) = saveJob (fst faults) (adopted_job job) dir in
        if threw then let (dir, threw) = saveJob (snd faults) (lost_job os job) dir in (dir, False, threw)
        else (dir, True, False)
      else let (dir, threw) = saveJob (fst faults) (lost_job os job) dir in (dir, False, threw))"

fun recover_running ::
  "os_view \<Rightarrow> (string \<Rightarrow> io_fault \<times> io_fault) \<Rightarrow> job_record list \<Rightarrow> job_record directory \<Rightarrow> nat \<Rightarrow> job_record directory \<times> nat \<times> bool" where
  "recover_running os faults [] dir n = (dir, n, False)"
| "recover_running os faults (job # jobs) dir n =
     (let (dir, found, threw) = recover_one os (faults (jb_jobId job)) job dir
      in if threw then (dir, n, True) else recover_running os faults jobs dir (if found then n + 1 else n))"

definition recoverRunningJobs ::
  "(string \<Rightarrow> string \<Rightarrow> bool) \<Rightarrow> os_view \<Rightarrow> (string \<Rightarrow> io_fault \<times> io_fault) \<Rightarrow> job_system \<Rightarrow> job_system \<times> (thrown, nat) result" where
  "recoverRunningJobs localeLe os faults s =
     (let jobs = filter (\<lambda>j. jb_status j = JRunning) (listJobs localeLe (js_dir s));
          (dir, n, threw) = recover_running os faults jobs (js_dir s) 0
      in (s\<lparr>js_dir := dir\<rparr>, if threw then Inl (ErrorMessage (os_ioMessage os)) else Inr n))"

definition completed_detached :: "os_view \<Rightarrow> job_record \<Rightarrow> job_record" where
  "completed_detached os job = job\<lparr>jb_status := JCompleted, jb_completedAt := Some (to_iso (os_now os)),
     jb_streams := close_streams (jb_streams job)\<rparr>"

definition failed_detached :: "os_view \<Rightarrow> job_record \<Rightarrow> job_record" where
  "failed_detached os job = job\<lparr>jb_status := JFailed, jb_completedAt := Some (to_iso (os_now os))\<rparr>"

text \<open>\<open>None\<close>: the detached job still runs and its record is left as it is.\<close>

definition detached_outcome :: "os_view \<Rightarrow> job_record \<Rightarrow> job_record option" where
  "detached_outcome os job =
     (case first_some (jb_pgid job) (jb_pid job) of
        None \<Rightarrow> Some (failed_detached os job)
      | Some p \<Rightarrow>
          if p = 0 then Some (failed_detached os job)
          else if identity_alive os job \<or> os_kill os p then None
          else Some (completed_detached os job))"

fun recover_detached :: "os_view \<Rightarrow> (string \<Rightarrow> io_fault) \<Rightarrow> job_record list \<Rightarrow> job_record directory \<Rightarrow> nat \<Rightarrow> job_record directory \<times> nat \<times> bool" where
  "recover_detached os faults [] dir n = (dir, n, False)"
| "recover_detached os faults (job # jobs) dir n =
     (case detached_outcome os job of
        None \<Rightarrow> recover_detached os faults jobs dir (n + 1)
      | Some job \<Rightarrow>
          let (dir, threw) = saveJob (faults (jb_jobId job)) job dir
          in if threw then (dir, n, True) else recover_detached os faults jobs dir n)"

definition recoverDetachedJobs ::
  "(string \<Rightarrow> string \<Rightarrow> bool) \<Rightarrow> os_view \<Rightarrow> (string \<Rightarrow> io_fault) \<Rightarrow> job_system \<Rightarrow> job_system \<times> (thrown, nat) result" where
  "recoverDetachedJobs localeLe os faults s =
     (let jobs = filter (\<lambda>j. jb_status j = JDetached) (listJobs localeLe (js_dir s));
          (dir, n, threw) = recover_detached os faults jobs (js_dir s) 0
      in (s\<lparr>js_dir := dir\<rparr>, if threw then Inl (ErrorMessage (os_ioMessage os)) else Inr n))"

definition adoptDetachedJob ::
  "os_view \<Rightarrow> io_fault \<times> io_fault \<Rightarrow> string \<Rightarrow> job_system \<Rightarrow> job_system \<times> (thrown, job_record option) result" where
  "adoptDetachedJob os faults jobId s =
     (case getJob (os_parseMessage os) jobId (js_dir s) of
        Inl e \<Rightarrow> (s, Inl e)
      | Inr None \<Rightarrow> (s, Inr None)
      | Inr (Some job) \<Rightarrow>
          if jb_status job \<noteq> JDetached \<or> first_some (jb_pgid job) (jb_pid job) \<in> {None, Some 0} then (s, Inr (Some job))
          else let adopt = adopted_job job; (dir, threw) = saveJob (fst faults) adopt (js_dir s) in
            if identity_alive os job then
              (s\<lparr>js_dir := dir\<rparr>, if threw then Inl (ErrorMessage (os_ioMessage os)) else Inr (Some adopt))
            else if pid_exists os (first_some (jb_pgid job) (jb_pid job)) \<and> \<not> threw then (s\<lparr>js_dir := dir\<rparr>, Inr (Some adopt))
            else let dir = (if pid_exists os (first_some (jb_pgid job) (jb_pid job)) then dir else js_dir s);
                     fault = (if pid_exists os (first_some (jb_pgid job) (jb_pid job)) then snd faults else fst faults);
                     job = completed_detached os job; (dir, threw) = saveJob fault job dir
                 in (s\<lparr>js_dir := dir\<rparr>, if threw then Inl (ErrorMessage (os_ioMessage os)) else Inr (Some job)))"

subsection \<open>The manager as a system of operations\<close>

datatype job_event =
    Exec os_view secret_provider string io_fault io_fault string exec_payload
  | Shell os_view secret_provider string io_fault io_fault string shell_payload
  | Output nat stream_name "byte list"
  | DetachedOutput string "byte list"
  | ChildError os_view io_fault nat
  | ChildClose os_view io_fault nat "int option" "string option"
  | CancelJob os_view io_fault string "string option"
  | Prune "string \<Rightarrow> bool" nat
  | RestartJobs os_view "string \<Rightarrow> io_fault \<times> io_fault" "string \<Rightarrow> io_fault"
  | AdoptDetached os_view "io_fault \<times> io_fault" string

text \<open>\<open>RestartJobs\<close> is a restart with the recovery of \<open>start\<close>: running jobs first, and detached ones
  only when that did not throw.\<close>

definition recover_jobs ::
  "(string \<Rightarrow> string \<Rightarrow> bool) \<Rightarrow> os_view \<Rightarrow> (string \<Rightarrow> io_fault \<times> io_fault) \<Rightarrow> (string \<Rightarrow> io_fault) \<Rightarrow> job_system \<Rightarrow> job_system" where
  "recover_jobs localeLe os faults faults' s =
     (case recoverRunningJobs localeLe os faults (restart_jobs s) of
        (s, Inl e) \<Rightarrow> s
      | (s, Inr n) \<Rightarrow> fst (recoverDetachedJobs localeLe os faults' s))"

primrec job_event_step :: "runtime_config \<Rightarrow> (string \<Rightarrow> string \<Rightarrow> bool) \<Rightarrow> job_event \<Rightarrow> job_system \<Rightarrow> job_system" where
  "job_event_step cfg localeLe (Exec os provider uuid f f' rid pl) s = fst (exec_job cfg os provider uuid f f' rid pl s)"
| "job_event_step cfg localeLe (Shell os provider uuid f f' rid pl) s = fst (shell_job cfg os provider uuid f f' rid pl s)"
| "job_event_step cfg localeLe (Output k st chunk) s = on_output cfg k st chunk s"
| "job_event_step cfg localeLe (DetachedOutput path chunk) s = append_stream path chunk s"
| "job_event_step cfg localeLe (ChildError os f k) s = on_error os f k s"
| "job_event_step cfg localeLe (ChildClose os f k c sig) s = on_close os f k c sig s"
| "job_event_step cfg localeLe (CancelJob os f jobId sig) s = fst (cancelJob os f jobId sig s)"
| "job_event_step cfg localeLe (Prune unlinkable n) s = s\<lparr>js_dir := fst (pruneJobs localeLe unlinkable n (js_dir s))\<rparr>"
| "job_event_step cfg localeLe (RestartJobs os f f') s = recover_jobs localeLe os f f' s"
| "job_event_step cfg localeLe (AdoptDetached os f jobId) s = fst (adoptDetachedJob os f jobId s)"

definition job_step :: "runtime_config \<Rightarrow> (string \<Rightarrow> string \<Rightarrow> bool) \<Rightarrow> job_event \<Rightarrow> job_system \<Rightarrow> (thrown, job_system \<times> unit) result" where
  "job_step cfg localeLe ev s = Inr (job_event_step cfg localeLe ev s, ())"

definition empty_jobs :: job_system where
  "empty_jobs = \<lparr>js_dir = [], js_live = [], js_running = [], js_streams = [], js_signals = []\<rparr>"

subsection \<open>The invariant of the job records\<close>

text \<open>A finished job has an end time, a started one a start time, its streams are its own files, and
  the streams of a completed or cancelled job are closed.\<close>

definition job_ok :: "runtime_config \<Rightarrow> job_record \<Rightarrow> bool" where
  "job_ok cfg j \<longleftrightarrow>
     (jb_status j \<in> {JCompleted, JFailed, JCancelled, JLost} \<longrightarrow> jb_completedAt j \<noteq> None)
     \<and> (jb_status j \<in> {JRunning, JAdopted, JDetached} \<longrightarrow> jb_startedAt j \<noteq> None)
     \<and> ss_stdoutPath (jb_streams j) = ss_stdoutPath (new_streams cfg (jb_jobId j))
     \<and> ss_stderrPath (jb_streams j) = ss_stderrPath (new_streams cfg (jb_jobId j))
     \<and> (jb_status j \<in> {JCompleted, JCancelled} \<longrightarrow> ss_stdoutClosed (jb_streams j) \<and> ss_stderrClosed (jb_streams j))"

definition job_inv :: "runtime_config \<Rightarrow> job_system \<Rightarrow> bool" where
  "job_inv cfg s \<longleftrightarrow> dir_ok jb_jobId (job_ok cfg) (js_dir s)
     \<and> (\<forall>l\<in>set (js_live s). job_ok cfg (lv_job l) \<and> jb_startedAt (lv_job l) \<noteq> None)"

lemma saveJob_ok: "dir_ok jb_jobId (job_ok cfg) dir \<Longrightarrow> job_ok cfg j \<Longrightarrow> dir_ok jb_jobId (job_ok cfg) (fst (saveJob f j dir))"
  unfolding saveJob_def by (rule dir_ok_write)

lemma saved_ok: "saveJob f j dir = (dir', threw) \<Longrightarrow> dir_ok jb_jobId (job_ok cfg) dir \<Longrightarrow> job_ok cfg j \<Longrightarrow> dir_ok jb_jobId (job_ok cfg) dir'"
  using saveJob_ok [of cfg dir j f] by simp

lemma getJob_ok:
  assumes "dir_ok jb_jobId (job_ok cfg) dir" "getJob m jobId dir = Inr (Some j)"
  shows "job_ok cfg j \<and> jb_jobId j = jobId \<and> map_of dir (json_file jobId) = Some (Good j)"
  using assms by (auto simp: getJob_def read_record_def dest: dir_ok_lookup split: option.splits disk_file.splits)

lemma started_job_ok: "job_ok cfg j \<Longrightarrow> job_ok cfg (started_job os argv env detached j) \<and> jb_startedAt (started_job os argv env detached j) \<noteq> None
    \<and> jb_jobId (started_job os argv env detached j) = jb_jobId j"
  by (simp add: job_ok_def started_job_def Let_def)

lemma finalized_job_ok:
  "job_ok cfg j \<Longrightarrow> jb_startedAt j \<noteq> None \<Longrightarrow>
     job_ok cfg (finalized_job os status c sig j) \<and> jb_startedAt (finalized_job os status c sig j) \<noteq> None"
  by (simp add: job_ok_def finalized_job_def close_streams_def)

lemma count_output_ok: "job_ok cfg j \<Longrightarrow> job_ok cfg (count_output st n j) \<and> jb_startedAt (count_output st n j) = jb_startedAt j"
  by (cases st) (simp_all add: job_ok_def count_output_def)

lemma cancelled_job_ok: "job_ok cfg j \<Longrightarrow> job_ok cfg (cancelled_job os j)"
  by (simp add: job_ok_def cancelled_job_def close_streams_def)

lemma revised_ok:
  "job_ok cfg j \<Longrightarrow> jb_startedAt j \<noteq> None \<Longrightarrow> job_ok cfg (adopted_job j)"
  "job_ok cfg j \<Longrightarrow> job_ok cfg (lost_job os j)"
  "job_ok cfg j \<Longrightarrow> job_ok cfg (completed_detached os j)"
  "job_ok cfg j \<Longrightarrow> job_ok cfg (failed_detached os j)"
  by (simp_all add: job_ok_def failed_detached_def adopted_job_def lost_job_def completed_detached_def close_streams_def)

lemma signals_frame [simp]:
  "js_dir (send t g s) = js_dir s" "js_live (send t g s) = js_live s"
  "js_dir (kill_child j g s) = js_dir s" "js_live (kill_child j g s) = js_live s"
  "js_dir (signal_group os p g s) = js_dir s" "js_live (signal_group os p g s) = js_live s"
  "js_dir (append_stream path c s) = js_dir s" "js_live (append_stream path c s) = js_live s"
  by (simp_all add: send_def kill_child_def signal_group_def append_stream_def split: option.splits)

lemma launch_inv:
  assumes "job_inv cfg s" "jb_status partial = JPending"
  shows "job_inv cfg (fst (launch cfg os uuid f f' partial argv env detached s))"
proof -
  let ?job = "partial\<lparr>jb_jobId := uuid, jb_createdAt := to_iso (os_now os), jb_streams := new_streams cfg uuid\<rparr>"
  have j: "job_ok cfg ?job" using assms(2) by (simp add: job_ok_def)
  have "dir_ok jb_jobId (job_ok cfg) (fst (saveJob f ?job (js_dir s)))"
    using assms(1) j by (simp add: job_inv_def saveJob_ok)
  moreover from this
  have "dir_ok jb_jobId (job_ok cfg) (fst (saveJob f' (started_job os argv env detached ?job) (fst (saveJob f ?job (js_dir s)))))"
    by (rule saveJob_ok) (simp add: started_job_ok [OF j])
  ultimately show ?thesis using assms(1) started_job_ok [OF j]
    by (auto simp: launch_def createJob_def startProcess_def Let_def job_inv_def split: prod.splits if_splits)
qed

lemma exec_job_inv: "job_inv cfg s \<Longrightarrow> job_inv cfg (fst (exec_job cfg os provider uuid f f' rid pl s))"
  by (auto simp: exec_job_def Let_def blank_job_def intro!: launch_inv split: sum.splits)

lemma shell_job_inv: "job_inv cfg s \<Longrightarrow> job_inv cfg (fst (shell_job cfg os provider uuid f f' rid pl s))"
  by (auto simp: shell_job_def Let_def blank_job_def intro!: launch_inv split: sum.splits)

lemma live_update_inv:
  assumes "job_inv cfg s" "job_ok cfg j" "jb_startedAt j \<noteq> None"
  shows "job_inv cfg (s\<lparr>js_live := (js_live s)[k := l\<lparr>lv_job := j\<rparr>]\<rparr>)"
  using assms by (auto simp: job_inv_def dest: set_update_subset_insert [THEN subsetD])

lemma on_output_inv: "job_inv cfg s \<Longrightarrow> job_inv cfg (on_output cfg k st chunk s)"
proof (cases "k < length (js_live s) \<and> \<not> lv_detached (js_live s ! k)")
  case True
  assume inv: "job_inv cfg s"
  let ?j = "count_output st (length chunk) (lv_job (js_live s ! k))"
  have "job_ok cfg (lv_job (js_live s ! k))" "jb_startedAt (lv_job (js_live s ! k)) \<noteq> None"
    using inv True by (auto simp: job_inv_def)
  then have "job_ok cfg ?j" "jb_startedAt ?j \<noteq> None" using count_output_ok by metis+
  from live_update_inv [OF inv this, of k "js_live s ! k"] True show ?thesis
    by (simp add: on_output_def Let_def job_inv_def)
qed (auto simp: on_output_def)

lemma finalize_inv:
  assumes inv: "job_inv cfg s" and k: "k < length (js_live s)"
  shows "job_inv cfg (finalize os f k status c sig s)"
proof -
  let ?j = "finalized_job os status c sig (lv_job (js_live s ! k))"
  have "job_ok cfg (lv_job (js_live s ! k))" "jb_startedAt (lv_job (js_live s ! k)) \<noteq> None"
    using inv k by (auto simp: job_inv_def)
  then have j: "job_ok cfg ?j" "jb_startedAt ?j \<noteq> None" by (simp_all add: finalized_job_ok)
  from live_update_inv [OF inv this, of k "js_live s ! k"] saveJob_ok [OF _ j(1), of "js_dir s" f] inv show ?thesis
    by (simp add: finalize_def Let_def job_inv_def)
qed

lemma on_close_inv: "job_inv cfg s \<Longrightarrow> job_inv cfg (on_close os f k c sig s)"
proof -
  assume inv: "job_inv cfg s"
  have drop_live: "job_inv cfg (s'\<lparr>js_live := take k (js_live s') @ drop (Suc k) (js_live s')\<rparr>)" if "job_inv cfg s'" for s'
    using that by (auto simp: job_inv_def dest: in_set_takeD in_set_dropD)
  show ?thesis using inv finalize_inv [OF inv] by (auto simp: on_close_def Let_def intro!: drop_live)
qed

lemma cancelJob_inv:
  assumes inv: "job_inv cfg s"
  shows "job_inv cfg (fst (cancelJob os f jobId sig s))"
proof (cases "require_job os jobId s")
  case (Inl e)
  with inv show ?thesis by (simp add: cancelJob_def)
next
  case (Inr job)
  with inv have "job_ok cfg job"
    by (auto simp: require_job_def res_simps job_inv_def dest: getJob_ok split: option.splits)
  then have "dir_ok jb_jobId (job_ok cfg) (fst (saveJob f (cancelled_job os job) (js_dir s)))"
    using inv by (intro saveJob_ok cancelled_job_ok) (simp_all add: job_inv_def)
  with inv Inr show ?thesis
    by (auto simp: cancelJob_def Let_def job_inv_def split: prod.splits option.splits)
qed

lemma dir_ok_without: "dir_ok ident good dir \<Longrightarrow> dir_ok ident good (AList.delete f dir)"
  by (auto simp: dir_ok_def distinct_delete delete_conv' split: if_splits)

lemma pruneJobs_ok: "dir_ok jb_jobId good dir \<Longrightarrow> dir_ok jb_jobId good (fst (pruneJobs localeLe unlinkable n dir))"
proof -
  have step: "dir_ok jb_jobId good (fst (fold (\<lambda>job (dir, removed).
      if unlinkable (json_file (jb_jobId job)) \<and> map_of dir (json_file (jb_jobId job)) \<noteq> None
      then (AList.delete (json_file (jb_jobId job)) dir, removed + 1) else (dir, removed)) xs (dir, m)))"
    if "dir_ok jb_jobId good dir" for xs dir and m :: nat
    using that by (induction xs arbitrary: dir m) (auto simp: dir_ok_without)
  show "dir_ok jb_jobId good dir \<Longrightarrow> ?thesis"
    using step [of dir "drop n (filter prunable (listJobs localeLe dir))" 0] by (simp add: pruneJobs_def Let_def)
qed

lemma recover_one_ok:
  assumes "dir_ok jb_jobId (job_ok cfg) dir" "job_ok cfg j" "jb_startedAt j \<noteq> None"
  shows "dir_ok jb_jobId (job_ok cfg) (fst (recover_one os fs j dir))"
proof -
  have "job_ok cfg (adopted_job j)" "job_ok cfg (lost_job os j)" using assms by (simp_all add: revised_ok)
  with assms(1) show ?thesis by (auto simp: recover_one_def Let_def split: prod.splits intro: saved_ok)
qed

lemma recover_running_ok:
  assumes "dir_ok jb_jobId (job_ok cfg) dir" "\<forall>j\<in>set jobs. job_ok cfg j \<and> jb_startedAt j \<noteq> None"
  shows "dir_ok jb_jobId (job_ok cfg) (fst (recover_running os fs jobs dir n))"
  using assms
proof (induction jobs arbitrary: dir n)
  case (Cons j jobs)
  obtain dir' found threw where r: "recover_one os (fs (jb_jobId j)) j dir = (dir', found, threw)" using prod_cases3 by blast
  have "dir_ok jb_jobId (job_ok cfg) dir'" using recover_one_ok [of cfg dir j os "fs (jb_jobId j)"] Cons.prems r by simp
  with Cons r show ?case by simp
qed simp

lemma detached_outcome_ok: "job_ok cfg j \<Longrightarrow> detached_outcome os j = Some j' \<Longrightarrow> job_ok cfg j'"
  by (auto simp: detached_outcome_def split: option.splits if_splits intro: revised_ok)

lemma recover_detached_ok:
  assumes "dir_ok jb_jobId (job_ok cfg) dir" "\<forall>j\<in>set jobs. job_ok cfg j"
  shows "dir_ok jb_jobId (job_ok cfg) (fst (recover_detached os fs jobs dir n))"
  using assms
proof (induction jobs arbitrary: dir n)
  case (Cons j jobs)
  show ?case
  proof (cases "detached_outcome os j")
    case (Some j')
    obtain dir' threw where r: "saveJob (fs (jb_jobId j')) j' dir = (dir', threw)" by fastforce
    have "dir_ok jb_jobId (job_ok cfg) dir'"
      using saved_ok [OF r Cons.prems(1)] detached_outcome_ok [OF _ Some] Cons.prems(2) by simp
    with Cons r Some show ?thesis by simp
  qed (use Cons in simp)
qed simp

lemma listed_ok: "dir_ok jb_jobId good dir \<Longrightarrow> j \<in> set (listJobs localeLe dir) \<Longrightarrow> good j"
  by (auto simp: listJobs_def dest: dir_ok_good)

lemma recover_jobs_inv:
  assumes "job_inv cfg s"
  shows "job_inv cfg (recover_jobs localeLe os fs fs' s)"
proof -
  have ok: "dir_ok jb_jobId (job_ok cfg) (js_dir s)" using assms by (simp add: job_inv_def)
  let ?jobs = "filter (\<lambda>j. jb_status j = JRunning) (listJobs localeLe (js_dir s))"
  have run: "\<forall>j\<in>set ?jobs. job_ok cfg j \<and> jb_startedAt j \<noteq> None"
    using listed_ok [OF ok] by (auto simp: job_ok_def)
  obtain dir n threw where r: "recover_running os fs ?jobs (js_dir s) 0 = (dir, n, threw)" using prod_cases3 by blast
  have d: "dir_ok jb_jobId (job_ok cfg) dir" using recover_running_ok [OF ok run, of os fs 0] r by simp
  have "\<forall>j\<in>set (filter (\<lambda>j. jb_status j = JDetached) (listJobs localeLe dir)). job_ok cfg j"
    using listed_ok [OF d] by auto
  from recover_detached_ok [OF d this, of os fs' 0] d r show ?thesis
    by (auto simp: recover_jobs_def recoverRunningJobs_def recoverDetachedJobs_def restart_jobs_def job_inv_def Let_def split: prod.splits)
qed

lemma adoptDetachedJob_inv:
  assumes inv: "job_inv cfg s"
  shows "job_inv cfg (fst (adoptDetachedJob os fs jobId s))"
proof (cases "getJob (os_parseMessage os) jobId (js_dir s)")
  case (Inr j)
  show ?thesis
  proof (cases j)
    case (Some job)
    with Inr inv have "job_ok cfg job" by (auto simp: job_inv_def dest: getJob_ok)
    moreover have "dir_ok jb_jobId (job_ok cfg) (js_dir s)" using inv by (simp add: job_inv_def)
    moreover have "job_ok cfg (adopted_job job)" if "jb_status job = JDetached"
      using that \<open>job_ok cfg job\<close> by (intro revised_ok) (simp_all add: job_ok_def)
    moreover have "job_ok cfg (completed_detached os job)" using \<open>job_ok cfg job\<close> by (rule revised_ok)
    ultimately show ?thesis using Inr Some inv
      by (auto simp: adoptDetachedJob_def Let_def job_inv_def split: prod.splits intro: saved_ok)
  qed (use Inr inv in \<open>simp add: adoptDetachedJob_def\<close>)
qed (use inv in \<open>simp add: adoptDetachedJob_def\<close>)

lemma job_event_step_inv:
  assumes inv: "job_inv cfg s"
  shows "job_inv cfg (job_event_step cfg localeLe ev s)"
proof (cases ev)
  case (Prune unlinkable n)
  with inv pruneJobs_ok [of "job_ok cfg" "js_dir s" localeLe unlinkable n] show ?thesis by (simp add: job_inv_def)
next
  case (DetachedOutput path chunk)
  with inv show ?thesis by (simp add: job_inv_def)
qed (use inv finalize_inv [OF inv] in \<open>simp_all add: exec_job_inv shell_job_inv on_output_inv on_error_def on_close_inv
  cancelJob_inv recover_jobs_inv adoptDetachedJob_inv\<close>)

interpretation jobs: inv_system "job_step cfg localeLe" "job_inv cfg" for cfg localeLe
  by unfold_locales (auto simp: job_step_def job_event_step_inv)

text \<open>
  C30. After any sequence of job operations, child events, failed writes, restarts and prunings,
  every readable job file is named after its job, a finished job has an end time, a started
  one a start time, the streams are the job's own files, and those of a completed or
  cancelled job are closed.
\<close>

theorem job_records_well_formed:
  "job_inv cfg (run_ops (job_step cfg localeLe) events empty_jobs)"
  by (rule jobs.run_inv) (simp add: job_inv_def empty_jobs_def dir_ok_def)

subsection \<open>Recovery\<close>

definition adoptable :: "os_view \<Rightarrow> job_record \<Rightarrow> bool" where
  "adoptable os job \<longleftrightarrow> identity_alive os job \<or> pid_exists os (jb_pid job)"

definition recovered_job :: "os_view \<Rightarrow> job_record \<Rightarrow> job_record" where
  "recovered_job os job = (if adoptable os job then adopted_job job else lost_job os job)"

abbreviation no_faults :: "string \<Rightarrow> io_fault \<times> io_fault" where
  "no_faults \<equiv> \<lambda>_. (NoFault, NoFault)"

lemma revised_id [simp]:
  "jb_jobId (adopted_job j) = jb_jobId j" "jb_jobId (lost_job os j) = jb_jobId j" "jb_jobId (recovered_job os j) = jb_jobId j"
  "jb_jobId (cancelled_job os j) = jb_jobId j" "jb_jobId (finalized_job os st c g j) = jb_jobId j"
  by (simp_all add: adopted_job_def lost_job_def recovered_job_def cancelled_job_def finalized_job_def)

lemma recover_running_fold:
  "recover_running os no_faults jobs dir n =
     (fold (\<lambda>j d. if True then AList.update (json_file (jb_jobId j)) (Good (recovered_job os j)) d else d) jobs dir,
      n + length (filter (adoptable os) jobs), False)"
  by (induction jobs arbitrary: dir n)
    (auto simp: recover_one_def saveJob_def recovered_job_def adoptable_def)

lemma find_listed:
  assumes "dir_ok jb_jobId good dir"
  shows "find (\<lambda>j. jb_jobId j = i \<and> True) (filter P (listJobs localeLe dir)) =
    (case dir_lookup dir i of Some (Good j) \<Rightarrow> if P j then Some j else None | _ \<Rightarrow> None)" (is "?f = ?r")
proof -
  have mem: "j \<in> set (listJobs localeLe dir) \<longleftrightarrow> dir_lookup dir (jb_jobId j) = Some (Good j)" for j
    using dir_ok_listed [OF assms] by (simp add: listJobs_def dir_lookup_def)
  have d: "distinct (map jb_jobId (filter P (listJobs localeLe dir)))"
    using distinct_listJobs [OF assms] by (simp add: distinct_map_filter)
  have id: "dir_lookup dir i = Some (Good j) \<Longrightarrow> jb_jobId j = i" for j
    using dir_ok_lookup [OF assms, of "json_file i" j] by (simp add: dir_lookup_def)
  show ?thesis
  proof (cases ?f)
    case None
    then have "dir_lookup dir i = Some (Good j) \<Longrightarrow> \<not> P j" for j using mem [of j] id [of j] by (auto simp: find_None_iff)
    with None show ?thesis by (auto split: option.splits disk_file.splits)
  next
    case (Some j)
    from find_SomeD [OF Some] mem [of j] have "dir_lookup dir i = Some (Good j)" "P j" by auto
    with Some show ?thesis by simp
  qed
qed

text \<open>What the recovery does to the record of every job, and what it returns.\<close>

lemma recoverRunningJobs_lookup:
  assumes "job_inv cfg s"
  shows "dir_lookup (js_dir (fst (recoverRunningJobs localeLe os no_faults s))) i =
      (case dir_lookup (js_dir s) i of
         Some (Good j) \<Rightarrow> Some (Good (if jb_status j = JRunning then recovered_job os j else j))
       | c \<Rightarrow> c)"
    "snd (recoverRunningJobs localeLe os no_faults s) =
      Inr (length (filter (\<lambda>j. jb_status j = JRunning \<and> adoptable os j) (listJobs localeLe (js_dir s))))"
proof -
  have ok: "dir_ok jb_jobId (job_ok cfg) (js_dir s)" using assms by (simp add: job_inv_def)
  let ?jobs = "filter (\<lambda>j. jb_status j = JRunning) (listJobs localeLe (js_dir s))"
  have d: "distinct (map jb_jobId ?jobs)" using distinct_listJobs [OF ok] by (simp add: distinct_map_filter)
  show "dir_lookup (js_dir (fst (recoverRunningJobs localeLe os no_faults s))) i =
      (case dir_lookup (js_dir s) i of
         Some (Good j) \<Rightarrow> Some (Good (if jb_status j = JRunning then recovered_job os j else j))
       | c \<Rightarrow> c)"
    using dstore.lookup_fold_save [OF d, of "\<lambda>_. True" "\<lambda>j. Good (recovered_job os j)" "js_dir s" i] find_listed [OF ok]
    by (auto simp: recoverRunningJobs_def Let_def recover_running_fold split: option.splits disk_file.splits)
  show "snd (recoverRunningJobs localeLe os no_faults s) =
      Inr (length (filter (\<lambda>j. jb_status j = JRunning \<and> adoptable os j) (listJobs localeLe (js_dir s))))"
    by (simp add: recoverRunningJobs_def Let_def recover_running_fold conj_commute)
qed

text \<open>
  Recovery after a restart is complete: whatever happened before, when the records can be
  written no job is left as running; each one that was is adopted if its process is found and
  lost otherwise, every other record is untouched, and the number returned is the number of
  adopted jobs.
\<close>

theorem recovery_complete:
  "let s = run_ops (job_step cfg localeLe) events empty_jobs; (s', r) = recoverRunningJobs localeLe os no_faults s in
     r = Inr (length (filter (\<lambda>j. jb_status j = JRunning \<and> adoptable os j) (listJobs localeLe (js_dir s))))
     \<and> (\<forall>i. dir_lookup (js_dir s') i =
          (case dir_lookup (js_dir s) i of
             Some (Good j) \<Rightarrow> Some (Good (if jb_status j = JRunning then recovered_job os j else j))
           | c \<Rightarrow> c))
     \<and> list_all (\<lambda>j. jb_status j \<noteq> JRunning) (listJobs localeLe (js_dir s'))"
proof -
  define s where "s = run_ops (job_step cfg localeLe) events empty_jobs"
  have inv: "job_inv cfg s" unfolding s_def by (rule jobs.run_inv) (simp add: job_inv_def empty_jobs_def dir_ok_def)
  obtain s' r where r: "recoverRunningJobs localeLe os no_faults s = (s', r)" by fastforce
  note l = recoverRunningJobs_lookup [OF inv, of localeLe os, unfolded r fst_conv snd_conv]
  have "jb_status j \<noteq> JRunning" if "j \<in> set (listJobs localeLe (js_dir s'))" for j
  proof -
    have "dir_ok jb_jobId (job_ok cfg) (js_dir s')"
    proof -
      have "\<forall>j\<in>set (filter (\<lambda>j. jb_status j = JRunning) (listJobs localeLe (js_dir s))). job_ok cfg j \<and> jb_startedAt j \<noteq> None"
        using inv listed_ok [of "job_ok cfg" "js_dir s"] by (auto simp: job_inv_def job_ok_def)
      from recover_running_ok [OF _ this, of "js_dir s" os no_faults 0] inv r show ?thesis
        by (auto simp: job_inv_def recoverRunningJobs_def Let_def split: prod.splits)
    qed
    with that have "dir_lookup (js_dir s') (jb_jobId j) = Some (Good j)"
      using dir_ok_listed [of jb_jobId "job_ok cfg" "js_dir s'" j] by (simp add: listJobs_def dir_lookup_def)
    with l(1) [of "jb_jobId j"] show ?thesis
      by (auto simp: recovered_job_def adopted_job_def lost_job_def split: option.splits disk_file.splits if_splits)
  qed
  with l r show ?thesis unfolding s_def [symmetric] by (simp add: Let_def list_all_iff)
qed

text \<open>The identity recorded for a job does not decide: a live process that merely has the recorded
  process id makes the recovery adopt the job.\<close>

lemma recovery_adopts_reused_pid:
  assumes "job_inv cfg s" "dir_lookup (js_dir s) i = Some (Good j)" "jb_status j = JRunning"
    "\<not> identity_alive os j" "jb_pid j = Some p" "p \<noteq> 0" "os_kill os p"
  shows "dir_lookup (js_dir (fst (recoverRunningJobs localeLe os no_faults s))) i = Some (Good (adopted_job j))"
  using assms by (simp add: recoverRunningJobs_lookup recovered_job_def adoptable_def pid_exists_def)

subsection \<open>Cancelling and the listeners\<close>

lemma cancelJob_Inr:
  assumes "job_inv cfg s" "cancelJob os NoFault jobId sig s = (s', Inr j)"
  obtains job where "dir_lookup (js_dir s) jobId = Some (Good job)" "j = cancelled_job os job" "jb_jobId job = jobId"
    "js_live s' = js_live s" "js_dir s' = AList.update (json_file jobId) (Good j) (js_dir s)"
proof -
  from assms(2) obtain job where r: "require_job os jobId s = Inr job" by (auto simp: cancelJob_def split: sum.splits)
  then have "getJob (os_parseMessage os) jobId (js_dir s) = Inr (Some job)"
    by (auto simp: require_job_def res_simps split: option.splits)
  moreover have "dir_ok jb_jobId (job_ok cfg) (js_dir s)" using assms(1) by (simp add: job_inv_def)
  ultimately have g: "jb_jobId job = jobId" "dir_lookup (js_dir s) jobId = Some (Good job)"
    by (auto simp: dir_lookup_def dest: getJob_ok)
  with r assms(2) that show thesis
    by (auto simp: cancelJob_def Let_def saveJob_def split: option.splits)
qed

text \<open>
  Cancelling does not last: after \<open>cancelJob\<close> succeeded for a job whose child is attached to this
  supervisor the record says cancelled, but the child's \<open>close\<close> event, whenever it comes, writes
  the listener's own job object, and the record says completed or failed.
\<close>

theorem cancelled_job_overwritten:
  assumes "job_inv cfg s" "cancelJob os NoFault jobId sig s = (s', Inr j)"
    "k < length (js_live s)" "jb_jobId (lv_job (js_live s ! k)) = jobId" "\<not> lv_detached (js_live s ! k)"
  shows "dir_lookup (js_dir s') jobId = Some (Good j) \<and> jb_status j = JCancelled
    \<and> map_option (\<lambda>c. case c of Good j' \<Rightarrow> Some (jb_status j') | CorruptFile \<Rightarrow> None)
        (dir_lookup (js_dir (on_close os' NoFault k exitCode sig' s')) jobId)
      = Some (Some (if exitCode = Some 0 then JCompleted else JFailed))"
proof -
  from assms(1,2) obtain job where c: "j = cancelled_job os job" "jb_jobId job = jobId"
    "js_live s' = js_live s" "js_dir s' = AList.update (json_file jobId) (Good j) (js_dir s)" by (rule cancelJob_Inr)
  let ?l = "lv_job (js_live s ! k)"
  have "dir_lookup (js_dir (on_close os' NoFault k exitCode sig' s')) jobId =
      Some (Good (finalized_job os' (if exitCode = Some 0 then JCompleted else JFailed) exitCode sig' ?l))"
    using assms(3-5) c(3) by (simp add: on_close_def finalize_def Let_def saveJob_def dir_lookup_def update_conv')
  with c show ?thesis by (simp add: dir_lookup_def update_conv' cancelled_job_def finalized_job_def)
qed

subsection \<open>Reading streams\<close>

text \<open>What a client takes from a reply: the data and the next offset.\<close>

definition stream_read :: "os_view \<Rightarrow> string \<Rightarrow> stream_name \<Rightarrow> nat option \<Rightarrow> job_system \<Rightarrow> nat \<Rightarrow> byte list \<times> nat" where
  "stream_read os jobId st limit s offset =
     (case readStream os jobId st (Some offset) limit s of Inl e \<Rightarrow> ([], offset) | Inr c \<Rightarrow> (sc_data c, sc_offset c))"

definition stream_content :: "os_view \<Rightarrow> string \<Rightarrow> stream_name \<Rightarrow> job_system \<Rightarrow> byte list option" where
  "stream_content os jobId st s =
     (case require_job os jobId s of Inl e \<Rightarrow> None | Inr job \<Rightarrow> map_of (js_streams s) (stream_path st job))"

lemma readStream_content:
  assumes "stream_content os jobId st s = Some content"
  obtains eof where "readStream os jobId st (Some offset) limit s =
    Inr \<lparr>sc_data = take (min (nullish limit 65536) 65536) (drop offset content),
         sc_offset = offset + min (min (nullish limit 65536) 65536) (length content - offset), sc_eof = eof\<rparr>"
proof -
  from assms obtain job where "require_job os jobId s = Inr job" "map_of (js_streams s) (stream_path st job) = Some content"
    by (auto simp: stream_content_def split: sum.splits)
  moreover have "take (min a (length (drop offset content))) (drop offset content) = take a (drop offset content)" for a
    by (simp add: min_def)
  ultimately show thesis using that by (simp add: readStream_def Let_def nullish_def)
qed

text \<open>
  A stream is read completely and exactly: for every stored job with a stream file and every
  positive chunk limit, reading chunk after chunk from any offset until nothing comes gives exactly
  the bytes from that offset on, and no chunk is longer than the limit or 64 KiB.
\<close>

theorem readStream_complete:
  assumes "stream_content os jobId st s = Some content" "0 < nullish limit 65536"
  shows "read_chunks (Suc (length content)) (stream_read os jobId st limit s) offset = drop offset content
    \<and> (case readStream os jobId st (Some offset) limit s of
         Inl e \<Rightarrow> False | Inr c \<Rightarrow> length (sc_data c) \<le> nullish limit 65536 \<and> length (sc_data c) \<le> 65536)"
proof -
  let ?l = "min (nullish limit 65536) (65536 :: nat)"
  have r: "\<exists>eof. readStream os jobId st (Some off) limit s =
    Inr \<lparr>sc_data = take ?l (drop off content), sc_offset = off + min ?l (length content - off), sc_eof = eof\<rparr>" for off
    using readStream_content [OF assms(1)] by blast
  have "read_chunks (Suc (length content)) (stream_read os jobId st limit s) offset = drop offset content"
  proof (rule read_chunks_all)
    show "stream_read os jobId st limit s off = (take ?l (drop off content), off + min ?l (length content - off))" for off
      using r [of off] by (auto simp: stream_read_def)
  qed (use assms(2) in auto)
  with r [of offset] show ?thesis by (auto simp: min_def)
qed

text \<open>A lost job keeps its streams open: no read of its stream files ever reports the end.\<close>

lemma lost_stream_never_ends:
  assumes "require_job os jobId s = Inr (lost_job os' j)" "\<not> ss_stdoutClosed (jb_streams j)"
    "map_of (js_streams s) (stream_path Stdout (lost_job os' j)) = Some content"
  shows "case readStream os jobId Stdout offset limit s of Inl e \<Rightarrow> False | Inr c \<Rightarrow> \<not> sc_eof c"
  using assms by (simp add: readStream_def Let_def lost_job_def)

subsection \<open>Waiting\<close>

lemma wait_loop_terminates:
  assumes "\<And>n. clock n + 1 \<le> clock (Suc n)" "timeout + 1 < clock n - start + int fuel" "0 < fuel"
  shows "wait_loop fuel poll clock start timeout n \<noteq> None"
  using assms(2,3)
proof (induction fuel arbitrary: n)
  case (Suc fuel)
  show ?case
  proof (cases "clock n - start > timeout")
    case False
    then have "timeout + 1 < clock (Suc n) - start + int fuel" "0 < fuel" using Suc.prems assms(1) [of n] by linarith+
    with Suc.IH show ?thesis by (auto split: sum.splits option.splits)
  qed (auto split: sum.splits option.splits)
qed simp

lemma wait_loop_finished:
  "wait_loop fuel poll clock start timeout n = Some (Inr j) \<Longrightarrow> jb_status j \<notin> {JPending, JRunning}"
  by (induction fuel poll clock start timeout n rule: wait_loop.induct)
    (auto split: sum.splits option.splits if_splits)


end
