(* ===== verification/Jobs_Samples.thy ===== *)
theory Jobs_Samples
  imports Jobs
begin

section \<open>Concrete runs of the job manager\<close>

text \<open>One job that is started, writes two bytes, and is then cancelled, read, waited for and pruned:
  the inputs on which the job properties are applied.\<close>

definition sample_cfg :: runtime_config where
  "sample_cfg = loadRuntimeConfig (\<lambda>_. None)"

definition sample_os :: os_view where
  "sample_os = \<lparr>os_bootId = None, os_stat = \<lambda>_. None, os_exe = \<lambda>_. None, os_psPgid = \<lambda>_. None, os_kill = \<lambda>_. False,
     os_spawn = \<lambda>_ _ _. Some 7, os_cwd = ''/'', os_now = 0, os_parseMessage = [], os_ioMessage = []\<rparr>"

definition sample_exec :: exec_payload where
  "sample_exec = \<lparr>ep_argv = Some [''true''], ep_cwd = None, ep_environment = None, ep_env = None, ep_detached = None\<rparr>"

definition sample_started :: job_system where
  "sample_started = fst (exec_job sample_cfg sample_os (\<lambda>_. None) ''j1'' NoFault NoFault ''r1'' sample_exec empty_jobs)"

definition sample_job :: job_record where
  "sample_job = started_job sample_os [''true''] [] False
     (blank_job\<lparr>jb_requestId := ''r1'', jb_operation := ''baby.exec'', jb_cwd := ''/'', jb_argv := Some [''true''],
        jb_env := Some [], jb_jobId := ''j1'', jb_createdAt := to_iso 0, jb_streams := new_streams sample_cfg ''j1''\<rparr>)"

lemma sample_started_eq:
  "js_dir sample_started = [(json_file ''j1'', Good sample_job)]"
  "js_live sample_started = [\<lparr>lv_job = sample_job, lv_detached = False\<rparr>]"
  by (simp_all add: sample_started_def exec_job_def sample_exec_def nullish_def resolveEnv_def launch_def createJob_def
      startProcess_def saveJob_def empty_jobs_def sample_job_def blank_job_def sample_os_def started_job_def Let_def)

lemma sample_started_inv: "job_inv sample_cfg sample_started"
  unfolding sample_started_def by (rule exec_job_inv) (simp add: job_inv_def empty_jobs_def dir_ok_def)

lemma sample_job_simps [simp]: "jb_jobId sample_job = ''j1''" "jb_status sample_job = JRunning" "jb_createdAt sample_job = to_iso 0"
  by (simp_all add: sample_job_def started_job_def Let_def)

lemma sample_require: "require_job sample_os ''j1'' s = Inr sample_job" if "js_dir s = js_dir sample_started"
  using that by (simp add: require_job_def getJob_def read_record_def sample_started_eq)

definition sample_cancelled :: "job_system \<times> (thrown, job_record) result" where
  "sample_cancelled = cancelJob sample_os NoFault ''j1'' None sample_started"

lemma sample_cancelled_eq: "cancelJob sample_os NoFault ''j1'' None sample_started = (fst sample_cancelled, Inr (cancelled_job sample_os sample_job))"
  using sample_require [OF refl] by (simp add: sample_cancelled_def cancelJob_def Let_def saveJob_def)

theorem cancelled_job_overwritten_witness:
  "map_option (\<lambda>c. case c of Good j' \<Rightarrow> Some (jb_status j') | CorruptFile \<Rightarrow> None)
     (dir_lookup (js_dir (on_close sample_os NoFault 0 None (Some ''SIGTERM'') (fst sample_cancelled))) ''j1'') = Some (Some JFailed)"
  using cancelled_job_overwritten [OF sample_started_inv sample_cancelled_eq, of 0 sample_os None "Some ''SIGTERM''"]
  by (simp add: sample_started_eq)

definition sample_output :: job_system where
  "sample_output = append_stream (stream_path Stdout sample_job) [104, 105] sample_started"

lemma sample_content: "stream_content sample_os ''j1'' Stdout sample_output = Some [104, 105]"
proof -
  have "map_of (js_streams sample_started) (stream_path Stdout sample_job) = Some []"
    by (simp add: sample_started_def exec_job_def sample_exec_def nullish_def resolveEnv_def launch_def createJob_def
      startProcess_def saveJob_def empty_jobs_def sample_job_def started_job_def Let_def stream_path_def new_streams_def open_append_def update_conv')
  then show ?thesis
    by (simp add: stream_content_def sample_require sample_output_def append_stream_def nullish_def update_conv')
qed

theorem readStream_complete_witness: "read_chunks 3 (stream_read sample_os ''j1'' Stdout (Some 1) sample_output) 0 = [104, 105]"
  using readStream_complete [OF sample_content, of "Some 1" 0] by (simp add: nullish_def numeral_3_eq_3)


definition sample_dir :: "job_record directory" where
  "sample_dir = [(json_file ''a'', Good (blank_job\<lparr>jb_jobId := ''a'', jb_status := JCompleted, jb_createdAt := ''1''\<rparr>)),
     (json_file ''b'', Good (blank_job\<lparr>jb_jobId := ''b'', jb_status := JFailed, jb_createdAt := ''2''\<rparr>)),
     (json_file ''c'', Good (blank_job\<lparr>jb_jobId := ''c'', jb_status := JRunning, jb_createdAt := ''0''\<rparr>))]"

theorem pruneJobs_retention_witness:
  "length (filter prunable (list_records sample_dir)) =
     length (filter prunable (list_records (fst (pruneJobs (\<lambda>a b. a \<le> b) (\<lambda>_. True) 1 sample_dir)))) +
     snd (pruneJobs (\<lambda>a b. a \<le> b) (\<lambda>_. True) 1 sample_dir)"
proof -
  have "dir_ok jb_jobId (\<lambda>_. True) sample_dir" by (auto simp: dir_ok_def sample_dir_def split: if_splits)
  from pruneJobs_retention [OF this, of "\<lambda>a b. a \<le> b" 1 "fst (pruneJobs (\<lambda>a b. a \<le> b) (\<lambda>_. True) 1 sample_dir)"
      "snd (pruneJobs (\<lambda>a b. a \<le> b) (\<lambda>_. True) 1 sample_dir)"]
  show ?thesis by simp
qed

end
