(* ===== verification/Artifacts.thy ===== *)
theory Artifacts
  imports State_Store Frame Deployment_Ledger
begin

section \<open>Content-addressed artifacts\<close>

text \<open>
  Models \<^verbatim>\<open>src/src/artifacts/manager.ts\<close>. The state is the manifest file and the files beneath the
  artifact directory, by path. A source file outside that directory is what the code
  observed of it (\<open>file_view\<close>: its identity before and after, and the bytes read); two views
  are arguments where the code reads it twice. The files the manager itself wrote do not
  change while it runs, so their view is their content. SHA-256, \<open>randomUUID\<close>, the clock and
  failing writes are arguments. An operation returns the new state with an exception or a
  value. Buffer sizes of the copy loops, file modes and base64 are not modelled.
\<close>

subsection \<open>Records\<close>

datatype artifact_status = Uploading | Finalized | Aborted

record artifact_record =
  at_artifactId :: string
  at_name :: string
  at_status :: artifact_status
  at_sha256 :: string
  at_size :: nat
  at_createdAt :: string
  at_updatedAt :: string
  at_finalizedAt :: "string option"
  at_abortedAt :: "string option"
  at_expectedSize :: "int option"
  at_expectedSha256 :: "string option"
  at_metadata :: "json option"
  at_path :: string

text \<open>A record as found in the manifest, where older versions left members out.\<close>

record artifact_raw =
  aw_artifactId :: string
  aw_name :: string
  aw_status :: "artifact_status option"
  aw_sha256 :: "string option"
  aw_size :: "nat option"
  aw_createdAt :: "string option"
  aw_updatedAt :: "string option"
  aw_finalizedAt :: "string option"
  aw_abortedAt :: "string option"
  aw_expectedSize :: "int option"
  aw_expectedSha256 :: "string option"
  aw_metadata :: "json option"
  aw_path :: string

datatype manifest_file = ManifestAbsent | ManifestCorrupt | ManifestOther | ManifestRecords "artifact_raw list"

record artifact_system =
  as_manifest :: manifest_file
  as_files :: "(string \<times> byte list) list"

record artifact_env =
  ae_sha256 :: "byte list \<Rightarrow> string"
  ae_root :: string
  ae_maximum :: nat
  ae_ioMessage :: string

definition uploadPath :: "artifact_env \<Rightarrow> string \<Rightarrow> string" where
  "uploadPath env artifactId = ae_root env @ ''/uploads/'' @ artifactId @ ''.upload''"

definition objectPath :: "artifact_env \<Rightarrow> string \<Rightarrow> string" where
  "objectPath env sha256 = ae_root env @ ''/sha256/'' @ sha256"

subsection \<open>Hashing\<close>

record file_identity =
  fi_dev :: int
  fi_ino :: int
  fi_size :: nat
  fi_mtime :: int

record file_view =
  fv_isFile :: bool
  fv_before :: file_identity
  fv_bytes :: "byte list"
  fv_after :: file_identity

definition too_large :: "nat \<Rightarrow> nat \<Rightarrow> thrown" where
  "too_large sz maximum = op_error ''artifact_too_large'' ''Artifact source exceeds the configured hard bound''
     (Some [(''size'', JNum (int sz)), (''maximumBytes'', JNum (int maximum))])"

text \<open>The loop reads at most one byte more than the bound.\<close>

definition hashFile :: "artifact_env \<Rightarrow> file_view option \<Rightarrow> (thrown, string \<times> nat \<times> file_identity) result" where
  "hashFile env view =
     (case view of
        None \<Rightarrow> Inl (ErrorMessage (ae_ioMessage env))
      | Some v \<Rightarrow>
          res_bind (check (fv_isFile v) (op_error ''artifact_source_invalid'' ''Artifact source must be a regular file'' None)) (\<lambda>_.
          res_bind (check (fi_size (fv_before v) \<le> ae_maximum env) (too_large (fi_size (fv_before v)) (ae_maximum env))) (\<lambda>_.
          res_bind (check (length (fv_bytes v) \<le> ae_maximum env) (too_large (ae_maximum env + 1) (ae_maximum env))) (\<lambda>_.
          res_bind (check (fv_before v = fv_after v \<and> length (fv_bytes v) = fi_size (fv_before v))
            (op_error ''artifact_source_changed'' ''Artifact source changed while it was being hashed'' None)) (\<lambda>_.
          Inr (ae_sha256 env (fv_bytes v), length (fv_bytes v), fv_before v))))))"

text \<open>The view of a file the manager owns.\<close>

definition own_view :: "artifact_system \<Rightarrow> string \<Rightarrow> file_view option" where
  "own_view s path =
     map_option (\<lambda>bytes. let i = \<lparr>fi_dev = 0, fi_ino = 0, fi_size = length bytes, fi_mtime = 0\<rparr>
       in \<lparr>fv_isFile = True, fv_before = i, fv_bytes = bytes, fv_after = i\<rparr>) (map_of (as_files s) path)"

subsection \<open>The manifest\<close>

definition migrateRecord :: "artifact_raw \<Rightarrow> artifact_record" where
  "migrateRecord r =
     (let createdAt = nullish (aw_createdAt r) (to_iso 0); status = nullish (aw_status r) Finalized in
      \<lparr>at_artifactId = aw_artifactId r, at_name = aw_name r, at_status = status,
       at_sha256 = nullish (aw_sha256 r) '''', at_size = nullish (aw_size r) 0, at_createdAt = createdAt,
       at_updatedAt = nullish (aw_updatedAt r) (nullish (aw_finalizedAt r) createdAt),
       at_finalizedAt = (if truthy (aw_finalizedAt r) then aw_finalizedAt r else if status = Finalized then Some createdAt else None),
       at_abortedAt = (if truthy (aw_abortedAt r) then aw_abortedAt r else None),
       at_expectedSize = aw_expectedSize r,
       at_expectedSha256 = (if truthy (aw_expectedSha256 r) then aw_expectedSha256 r else None),
       at_metadata = aw_metadata r, at_path = aw_path r\<rparr>)"

definition loadManifest :: "artifact_system \<Rightarrow> (thrown, artifact_record list) result" where
  "loadManifest s =
     (case as_manifest s of
        ManifestAbsent \<Rightarrow> Inr []
      | ManifestCorrupt \<Rightarrow> Inl (op_error ''artifact_manifest_corrupt'' ''Artifact manifest is not valid JSON'' None)
      | ManifestOther \<Rightarrow> Inr []
      | ManifestRecords rs \<Rightarrow> Inr (map migrateRecord rs))"

definition to_raw :: "artifact_record \<Rightarrow> artifact_raw" where
  "to_raw r =
     \<lparr>aw_artifactId = at_artifactId r, aw_name = at_name r, aw_status = Some (at_status r), aw_sha256 = Some (at_sha256 r),
      aw_size = Some (at_size r), aw_createdAt = Some (at_createdAt r), aw_updatedAt = Some (at_updatedAt r),
      aw_finalizedAt = at_finalizedAt r, aw_abortedAt = at_abortedAt r, aw_expectedSize = at_expectedSize r,
      aw_expectedSha256 = at_expectedSha256 r, aw_metadata = at_metadata r, aw_path = at_path r\<rparr>"

text \<open>Written to a temporary file and renamed; the flag says whether an exception came.\<close>

definition saveManifest :: "io_fault \<Rightarrow> artifact_record list \<Rightarrow> artifact_system \<Rightarrow> artifact_system \<times> bool" where
  "saveManifest fault records s =
     (case fault of
        FaultBeforeRename \<Rightarrow> (s, True)
      | FaultAfterRename \<Rightarrow> (s\<lparr>as_manifest := ManifestRecords (map to_raw records)\<rparr>, True)
      | NoFault \<Rightarrow> (s\<lparr>as_manifest := ManifestRecords (map to_raw records)\<rparr>, False))"

text \<open>Saving and returning the record.\<close>

definition save_and_return ::
  "artifact_env \<Rightarrow> io_fault \<Rightarrow> artifact_record list \<Rightarrow> artifact_record \<Rightarrow> artifact_system \<Rightarrow> artifact_system \<times> (thrown, artifact_record) result" where
  "save_and_return env fault records r s =
     (let (s, threw) = saveManifest fault records s in (s, if threw then Inl (ErrorMessage (ae_ioMessage env)) else Inr r))"

subsection \<open>createFromFile\<close>

text \<open>Copying into the object store. \<open>None\<close> for the view: the source cannot be opened.\<close>

definition persistObject ::
  "artifact_env \<Rightarrow> file_view option \<Rightarrow> string \<Rightarrow> nat \<Rightarrow> file_identity \<Rightarrow> artifact_system \<Rightarrow> artifact_system \<times> (thrown, string) result" where
  "persistObject env view sha256 expectedSize expectedIdentity s =
     (let destination = objectPath env sha256 in
      if map_of (as_files s) destination \<noteq> None then (s, Inr destination)
      else case view of
        None \<Rightarrow> (s, Inl (ErrorMessage (ae_ioMessage env)))
      | Some v \<Rightarrow>
          if ae_maximum env < length (fv_bytes v) then (s, Inl (too_large (ae_maximum env + 1) (ae_maximum env)))
          else if expectedIdentity \<noteq> fv_after v \<or> length (fv_bytes v) \<noteq> expectedSize \<or> ae_sha256 env (fv_bytes v) \<noteq> sha256
            then (s, Inl (op_error ''artifact_source_changed'' ''Artifact source changed while it was being captured'' None))
          else (s\<lparr>as_files := AList.update destination (fv_bytes v) (as_files s)\<rparr>, Inr destination))"

definition createFromFile ::
  "artifact_env \<Rightarrow> string \<Rightarrow> int \<Rightarrow> io_fault \<Rightarrow> file_view option \<Rightarrow> file_view option \<Rightarrow> string \<Rightarrow> string \<Rightarrow> json option \<Rightarrow> artifact_system \<Rightarrow>
     artifact_system \<times> (thrown, artifact_record) result" where
  "createFromFile env uuid now fault view view' name sourcePath metadata s =
     (if name = [] \<or> sourcePath = [] then (s, Inl (op_error ''invalid_request'' ''name and sourcePath are required'' None))
      else case hashFile env view of
        Inl e \<Rightarrow> (s, Inl e)
      | Inr (sha256, sz, identity) \<Rightarrow>
          (case persistObject env view' sha256 sz identity s of
             (s, Inl e) \<Rightarrow> (s, Inl e)
           | (s, Inr destPath) \<Rightarrow>
               let now = to_iso now;
                   r = \<lparr>at_artifactId = uuid, at_name = name, at_status = Finalized, at_sha256 = sha256, at_size = sz,
                        at_createdAt = now, at_updatedAt = now, at_finalizedAt = Some now, at_abortedAt = None,
                        at_expectedSize = None, at_expectedSha256 = None, at_metadata = metadata, at_path = destPath\<rparr>
               in case loadManifest s of
                    Inl e \<Rightarrow> (s, Inl e)
                  | Inr manifest \<Rightarrow> save_and_return env fault (manifest @ [r]) r s))"

subsection \<open>Uploads\<close>

definition beginUpload ::
  "artifact_env \<Rightarrow> string \<Rightarrow> int \<Rightarrow> io_fault \<Rightarrow> string \<Rightarrow> json option \<Rightarrow> int option \<Rightarrow> string option \<Rightarrow> artifact_system \<Rightarrow>
     artifact_system \<times> (thrown, artifact_record) result" where
  "beginUpload env uuid now fault name metadata expectedSize expectedSha256 s =
     (if name = [] then (s, Inl (op_error ''invalid_request'' ''name is required'' None))
      else if expectedSize \<noteq> None \<and> the expectedSize < 0 then (s, Inl (op_error ''invalid_request'' ''expectedSize must be non-negative'' None))
      else if truthy expectedSha256 \<and> \<not> DIGEST_PATTERN (the expectedSha256)
        then (s, Inl (op_error ''invalid_request'' ''expectedSha256 must be a lowercase SHA-256'' None))
      else let destPath = uploadPath env uuid in
        if map_of (as_files s) destPath \<noteq> None then (s, Inl (ErrorMessage (ae_ioMessage env)))
        else let s = s\<lparr>as_files := AList.update destPath [] (as_files s)\<rparr>; now = to_iso now;
                 r = \<lparr>at_artifactId = uuid, at_name = name, at_status = Uploading, at_sha256 = '''', at_size = 0,
                      at_createdAt = now, at_updatedAt = now, at_finalizedAt = None, at_abortedAt = None,
                      at_expectedSize = expectedSize, at_expectedSha256 = (if truthy expectedSha256 then expectedSha256 else None),
                      at_metadata = metadata, at_path = destPath\<rparr>
             in case loadManifest s of
                  Inl e \<Rightarrow> (s, Inl e)
                | Inr manifest \<Rightarrow> save_and_return env fault (manifest @ [r]) r s)"

text \<open>The record an operation is about, and the manifest it came from.\<close>

definition find_record :: "string \<Rightarrow> artifact_system \<Rightarrow> (thrown, artifact_record list \<times> artifact_record) result" where
  "find_record artifactId s =
     res_bind (loadManifest s) (\<lambda>manifest.
     case find (\<lambda>r. at_artifactId r = artifactId) manifest of
       None \<Rightarrow> Inl (op_error ''artifact_not_found'' (''Artifact not found: '' @ artifactId) None)
     | Some r \<Rightarrow> Inr (manifest, r))"

fun replace_record :: "artifact_record \<Rightarrow> artifact_record list \<Rightarrow> artifact_record list" where
  "replace_record r [] = []"
| "replace_record r (x # xs) = (if at_artifactId x = at_artifactId r then r # xs else x # replace_record r xs)"

primrec artifact_status_name :: "artifact_status \<Rightarrow> string" where
  "artifact_status_name Uploading = ''uploading''"
| "artifact_status_name Finalized = ''finalized''"
| "artifact_status_name Aborted = ''aborted''"

definition require_uploading :: "string \<Rightarrow> artifact_record \<Rightarrow> (thrown, unit) result" where
  "require_uploading message r = check (at_status r = Uploading) (op_error ''artifact_immutable'' message
     (Some [(''artifactId'', JStr (at_artifactId r)), (''status'', JStr (artifact_status_name (at_status r)))]))"

definition finalize_checks ::
  "artifact_record \<Rightarrow> string \<Rightarrow> nat \<Rightarrow> int \<Rightarrow> string \<Rightarrow> (thrown, unit) result" where
  "finalize_checks r sha256 sz expectedSize expectedSha256 =
     res_bind (check (int sz = expectedSize) (op_error ''artifact_size_mismatch'' ''Artifact size does not match''
       (Some [(''expectedSize'', JNum expectedSize), (''actualSize'', JNum (int sz))]))) (\<lambda>_.
     res_bind (check (sha256 = expectedSha256) (op_error ''artifact_digest_mismatch'' ''Artifact SHA-256 does not match''
       (Some [(''expectedSha256'', JStr expectedSha256), (''actualSha256'', JStr sha256)]))) (\<lambda>_.
     res_bind (check (at_expectedSize r = None \<or> at_expectedSize r = Some (int sz))
       (op_error ''artifact_size_mismatch'' ''Artifact size differs from begin metadata'' None)) (\<lambda>_.
     check (\<not> truthy (at_expectedSha256 r) \<or> at_expectedSha256 r = Some sha256)
       (op_error ''artifact_digest_mismatch'' ''Artifact digest differs from begin metadata'' None))))"

definition finalized_record :: "artifact_env \<Rightarrow> string \<Rightarrow> string \<Rightarrow> nat \<Rightarrow> artifact_record \<Rightarrow> artifact_record" where
  "finalized_record env now sha256 sz r =
     r\<lparr>at_status := Finalized, at_sha256 := sha256, at_size := sz, at_updatedAt := now, at_finalizedAt := Some now,
       at_path := objectPath env sha256\<rparr>"

text \<open>The upload becomes the object, unless the object is there already; then it is removed.\<close>

definition move_to_object :: "artifact_env \<Rightarrow> string \<Rightarrow> string \<Rightarrow> artifact_system \<Rightarrow> artifact_system" where
  "move_to_object env path sha256 s =
     (let destination = objectPath env sha256 in
      if map_of (as_files s) destination \<noteq> None then s\<lparr>as_files := AList.delete path (as_files s)\<rparr>
      else case map_of (as_files s) path of
        None \<Rightarrow> s
      | Some content \<Rightarrow> s\<lparr>as_files := AList.update destination content (AList.delete path (as_files s))\<rparr>)"

definition finalize_artifact ::
  "artifact_env \<Rightarrow> int \<Rightarrow> io_fault \<Rightarrow> string \<Rightarrow> int \<Rightarrow> string \<Rightarrow> artifact_system \<Rightarrow> artifact_system \<times> (thrown, artifact_record) result" where
  "finalize_artifact env now fault artifactId expectedSize expectedSha256 s =
     (if \<not> DIGEST_PATTERN expectedSha256 then (s, Inl (op_error ''invalid_request'' ''expectedSha256 must be a lowercase SHA-256'' None))
      else case find_record artifactId s of
        Inl e \<Rightarrow> (s, Inl e)
      | Inr (manifest, r) \<Rightarrow>
          (case res_bind (require_uploading ''Only uploading artifacts can be finalized'' r) (\<lambda>_.
                res_bind (hashFile env (own_view s (at_path r))) (\<lambda>(sha256, sz, identity).
                res_bind (finalize_checks r sha256 sz expectedSize expectedSha256) (\<lambda>_. Inr (sha256, sz)))) of
             Inl e \<Rightarrow> (s, Inl e)
           | Inr (sha256, sz) \<Rightarrow>
               let s = move_to_object env (at_path r) sha256 s; r = finalized_record env (to_iso now) sha256 sz r
               in save_and_return env fault (replace_record r manifest) r s))"

definition uploadChunk ::
  "artifact_env \<Rightarrow> int \<Rightarrow> io_fault \<Rightarrow> io_fault \<Rightarrow> string \<Rightarrow> int \<Rightarrow> byte list \<Rightarrow> bool \<Rightarrow> artifact_system \<Rightarrow>
     artifact_system \<times> (thrown, artifact_record) result" where
  "uploadChunk env now fault fault' artifactId offset data finalizeNow s =
     (case find_record artifactId s of
        Inl e \<Rightarrow> (s, Inl e)
      | Inr (manifest, r) \<Rightarrow>
          (case res_bind (require_uploading ''Only uploading artifacts accept chunks'' r) (\<lambda>_.
                check (offset = int (at_size r)) (op_error ''artifact_offset_mismatch'' ''Artifact chunks must be contiguous''
                  (Some [(''expectedOffset'', JNum (int (at_size r))), (''receivedOffset'', JNum offset)]))) of
             Inl e \<Rightarrow> (s, Inl e)
           | Inr _ \<Rightarrow>
               (case map_of (as_files s) (at_path r) of
                  None \<Rightarrow> (s, Inl (ErrorMessage (ae_ioMessage env)))
                | Some content \<Rightarrow>
                    let s = s\<lparr>as_files := AList.update (at_path r) (write_at (at_size r) data content) (as_files s)\<rparr>;
                        r = r\<lparr>at_size := at_size r + length data, at_updatedAt := to_iso now\<rparr>
                    in case save_and_return env fault (replace_record r manifest) r s of
                         (s, Inl e) \<Rightarrow> (s, Inl e)
                       | (s, Inr r) \<Rightarrow>
                           if \<not> finalizeNow then (s, Inr r)
                           else (case hashFile env (own_view s (at_path r)) of
                                   Inl e \<Rightarrow> (s, Inl e)
                                 | Inr (sha256, sz, identity) \<Rightarrow>
                                     finalize_artifact env now fault' (at_artifactId r) (nullish (at_expectedSize r) (int sz))
                                       (nullish (at_expectedSha256 r) sha256) s))))"

definition abort_artifact ::
  "artifact_env \<Rightarrow> int \<Rightarrow> io_fault \<Rightarrow> string \<Rightarrow> artifact_system \<Rightarrow> artifact_system \<times> (thrown, artifact_record) result" where
  "abort_artifact env now fault artifactId s =
     (case find_record artifactId s of
        Inl e \<Rightarrow> (s, Inl e)
      | Inr (manifest, r) \<Rightarrow>
          (case require_uploading ''Only uploading artifacts can be aborted'' r of
             Inl e \<Rightarrow> (s, Inl e)
           | Inr _ \<Rightarrow>
               let s = s\<lparr>as_files := AList.delete (at_path r) (as_files s)\<rparr>;
                   r = r\<lparr>at_status := Aborted, at_updatedAt := to_iso now, at_abortedAt := Some (to_iso now), at_path := ''''\<rparr>
               in save_and_return env fault (replace_record r manifest) r s))"

subsection \<open>Reading\<close>

record artifact_chunk =
  ac_artifactId :: string
  ac_data :: "byte list"
  ac_offset :: nat
  ac_eof :: bool
  ac_sha256 :: string
  ac_size :: nat

definition download ::
  "artifact_env \<Rightarrow> string \<Rightarrow> nat option \<Rightarrow> nat option \<Rightarrow> artifact_system \<Rightarrow> (thrown, artifact_chunk) result" where
  "download env artifactId offset limit s =
     res_bind (find_record artifactId s) (\<lambda>(manifest, r).
     res_bind (check (at_status r = Finalized) (op_error ''artifact_not_finalized'' ''Artifact is not finalized''
       (Some [(''artifactId'', JStr (at_artifactId r)), (''status'', JStr (artifact_status_name (at_status r)))]))) (\<lambda>_.
     case map_of (as_files s) (at_path r) of
       None \<Rightarrow> Inl (ErrorMessage (ae_ioMessage env))
     | Some content \<Rightarrow>
         let offset = nullish offset 0; limit = min (nullish limit (64 * 1024)) (64 * 1024);
             toRead = min limit (length content - offset)
         in Inr \<lparr>ac_artifactId = at_artifactId r, ac_data = take toRead (drop offset content), ac_offset = offset + toRead,
                 ac_eof = (length content \<le> offset + toRead), ac_sha256 = at_sha256 r, ac_size = at_size r\<rparr>))"

definition list_artifacts :: "artifact_system \<Rightarrow> (thrown, artifact_record list) result" where
  "list_artifacts s = loadManifest s"

definition get_artifact :: "string \<Rightarrow> artifact_system \<Rightarrow> (thrown, artifact_record option) result" where
  "get_artifact artifactId s = res_bind (loadManifest s) (\<lambda>manifest. Inr (find (\<lambda>r. at_artifactId r = artifactId) manifest))"

subsection \<open>The manager as a system of operations\<close>

datatype artifact_event =
    CreateArtifact string int io_fault "file_view option" "file_view option" string string "json option"
  | BeginUpload string int io_fault string "json option" "int option" "string option"
  | UploadChunk int io_fault io_fault string int "byte list" bool
  | FinalizeArtifact int io_fault string int string
  | AbortArtifact int io_fault string

primrec artifact_event_step :: "artifact_env \<Rightarrow> artifact_event \<Rightarrow> artifact_system \<Rightarrow> artifact_system" where
  "artifact_event_step env (CreateArtifact uuid now f v v' name path md) s = fst (createFromFile env uuid now f v v' name path md s)"
| "artifact_event_step env (BeginUpload uuid now f name md es eh) s = fst (beginUpload env uuid now f name md es eh s)"
| "artifact_event_step env (UploadChunk now f f' i off data fin) s = fst (uploadChunk env now f f' i off data fin s)"
| "artifact_event_step env (FinalizeArtifact now f i es eh) s = fst (finalize_artifact env now f i es eh s)"
| "artifact_event_step env (AbortArtifact now f i) s = fst (abort_artifact env now f i s)"

definition artifact_step :: "artifact_env \<Rightarrow> artifact_event \<Rightarrow> artifact_system \<Rightarrow> (thrown, artifact_system \<times> unit) result" where
  "artifact_step env ev s = Inr (artifact_event_step env ev s, ())"

definition empty_artifacts :: artifact_system where
  "empty_artifacts = \<lparr>as_manifest = ManifestAbsent, as_files = []\<rparr>"

subsection \<open>The invariant\<close>

text \<open>A record the code writes survives a round trip through the manifest.\<close>

definition stable_record :: "artifact_record \<Rightarrow> bool" where
  "stable_record r \<longleftrightarrow> at_finalizedAt r \<noteq> Some [] \<and> at_abortedAt r \<noteq> Some [] \<and> at_expectedSha256 r \<noteq> Some []
     \<and> (at_status r = Finalized \<longrightarrow> at_finalizedAt r \<noteq> None)"

definition content_ok :: "artifact_env \<Rightarrow> (string \<times> byte list) list \<Rightarrow> artifact_record \<Rightarrow> bool" where
  "content_ok env files r \<longleftrightarrow>
     (at_status r = Finalized \<longrightarrow> at_path r = objectPath env (at_sha256 r)
        \<and> (\<exists>c. map_of files (at_path r) = Some c \<and> ae_sha256 env c = at_sha256 r))
     \<and> (at_status r = Uploading \<longrightarrow> at_path r = uploadPath env (at_artifactId r))"

definition records_of :: "artifact_system \<Rightarrow> artifact_record list" where
  "records_of s = (case loadManifest s of Inl e \<Rightarrow> [] | Inr rs \<Rightarrow> rs)"

definition art_inv :: "artifact_env \<Rightarrow> artifact_system \<Rightarrow> bool" where
  "art_inv env s \<longleftrightarrow> (\<exists>rs. loadManifest s = Inr rs)
     \<and> (\<forall>r\<in>set (records_of s). stable_record r \<and> content_ok env (as_files s) r)
     \<and> (\<forall>h c. map_of (as_files s) (objectPath env h) = Some c \<longrightarrow> ae_sha256 env c = h)"

lemma kept_if_stable: "x \<noteq> Some [] \<Longrightarrow> (if truthy x then x else None) = x" "x \<noteq> Some [] \<Longrightarrow> truthy x \<longleftrightarrow> x \<noteq> None"
  by (cases x; simp)+

lemma migrate_to_raw: "stable_record r \<Longrightarrow> migrateRecord (to_raw r) = r"
  by (rule artifact_record.equality)
    (simp_all add: migrateRecord_def to_raw_def stable_record_def nullish_def Let_def kept_if_stable)

lemma to_iso_nonempty [simp]: "to_iso t \<noteq> []"
  by (simp add: to_iso_def Let_def split: prod.split)

lemma paths_differ [simp]: "uploadPath env i \<noteq> objectPath env h" "objectPath env h \<noteq> uploadPath env i"
  by (simp_all add: uploadPath_def objectPath_def)

lemma objectPath_inject [simp]: "objectPath env h = objectPath env h' \<longleftrightarrow> h = h'"
  by (simp add: objectPath_def)

text \<open>Saving a manifest of good records: the records are the old ones or the new ones, the files stay.\<close>

lemma save_and_return_cases:
  assumes "\<forall>r\<in>set rs. stable_record r"
  obtains "fst (save_and_return env f rs r s) = s"
  | "as_files (fst (save_and_return env f rs r s)) = as_files s" "loadManifest (fst (save_and_return env f rs r s)) = Inr rs"
      "records_of (fst (save_and_return env f rs r s)) = rs"
proof -
  have "map migrateRecord (map to_raw rs) = rs" using assms by (induction rs) (simp_all add: migrate_to_raw)
  then show thesis using that
    by (cases f) (simp_all add: save_and_return_def saveManifest_def records_of_def loadManifest_def)
qed

text \<open>Finalized and aborted records stay, and objects stay.\<close>

definition record_le :: "artifact_record \<Rightarrow> artifact_record \<Rightarrow> bool" where
  "record_le r r' \<longleftrightarrow> at_artifactId r' = at_artifactId r \<and> (at_status r \<noteq> Uploading \<longrightarrow> r' = r)"

definition art_grows :: "artifact_env \<Rightarrow> artifact_system \<Rightarrow> artifact_system \<Rightarrow> bool" where
  "art_grows env s s' \<longleftrightarrow> grown record_le (records_of s) (records_of s')
     \<and> (\<forall>h c. map_of (as_files s) (objectPath env h) = Some c \<longrightarrow> map_of (as_files s') (objectPath env h) = Some c)"

text \<open>A file change that is safe: objects stay, and a new object has the name of its content.\<close>

definition safe_files :: "artifact_env \<Rightarrow> (string \<times> byte list) list \<Rightarrow> (string \<times> byte list) list \<Rightarrow> bool" where
  "safe_files env files files' \<longleftrightarrow>
     (\<forall>h c. map_of files (objectPath env h) = Some c \<longrightarrow> map_of files' (objectPath env h) = Some c)
     \<and> (\<forall>h c. map_of files' (objectPath env h) = Some c \<longrightarrow> map_of files (objectPath env h) = Some c \<or> ae_sha256 env c = h)"

lemma safe_files_refl: "safe_files env files files"
  by (simp add: safe_files_def)

lemma safe_upload: "safe_files env files (AList.update (uploadPath env i) c files)"
  "safe_files env files (AList.delete (uploadPath env i) files)"
  by (auto simp: safe_files_def update_conv' delete_conv')

lemma content_ok_safe: "content_ok env files r \<Longrightarrow> safe_files env files files' \<Longrightarrow> content_ok env files' r"
  by (auto simp: content_ok_def safe_files_def)

lemma safe_objects:
  "art_inv env s \<Longrightarrow> safe_files env (as_files s) files \<Longrightarrow> map_of files (objectPath env h) = Some c \<Longrightarrow> ae_sha256 env c = h"
  unfolding art_inv_def safe_files_def by metis

lemma record_le_refl: "record_le r r"
  by (simp add: record_le_def)

lemma grown_replace:
  "find (\<lambda>x. at_artifactId x = i) rs = Some r \<Longrightarrow> record_le r r' \<Longrightarrow> at_artifactId r' = i \<Longrightarrow> grown record_le rs (replace_record r' rs)"
proof (induction rs)
  case (Cons x rs)
  then show ?case
    by (cases "at_artifactId x = i") (auto simp: grown_def record_le_refl list.rel_refl)
qed simp

lemma set_replace: "x \<in> set (replace_record r rs) \<Longrightarrow> x = r \<or> x \<in> set rs"
  by (induction rs) (auto split: if_splits)

text \<open>The step every operation takes: files change safely, then a manifest with one new or revised
  record is saved.\<close>

lemma step_ok:
  assumes inv: "art_inv env s" and safe: "safe_files env (as_files s) files"
    and rs: "grown record_le (records_of s) rs" "\<And>x. x \<in> set rs \<Longrightarrow> x = r \<or> x \<in> set (records_of s)"
    and r: "stable_record r" "content_ok env files r"
  defines "s\<^sub>1 \<equiv> s\<lparr>as_files := files\<rparr>"
  shows "art_inv env (fst (save_and_return env f rs r s\<^sub>1)) \<and> art_grows env s (fst (save_and_return env f rs r s\<^sub>1))"
proof -
  have load: "loadManifest s\<^sub>1 = loadManifest s" "records_of s\<^sub>1 = records_of s" "as_files s\<^sub>1 = files"
    by (simp_all add: s\<^sub>1_def loadManifest_def records_of_def)
  have good: "\<forall>x\<in>set rs. stable_record x \<and> content_ok env files x"
    using inv rs(2) r content_ok_safe [OF _ safe] by (fastforce simp: art_inv_def)
  have objs: "map_of files (objectPath env h) = Some c \<Longrightarrow> ae_sha256 env c = h" for h c
    using inv safe by (rule safe_objects)
  have old: "\<forall>x\<in>set (records_of s). stable_record x \<and> content_ok env files x"
    using inv content_ok_safe [OF _ safe] by (auto simp: art_inv_def)
  have "\<forall>x\<in>set rs. stable_record x" using good by blast
  then show ?thesis
  proof (cases rule: save_and_return_cases [of rs env f r s\<^sub>1])
    case 1
    with inv load old objs safe show ?thesis
      by (auto simp: art_inv_def art_grows_def safe_files_def grown_refl record_le_refl)
  next
    case 2
    with inv load good objs safe rs(1) show ?thesis by (auto simp: art_inv_def art_grows_def safe_files_def)
  qed
qed

lemma files_only_ok:
  assumes inv: "art_inv env s" and safe: "safe_files env (as_files s) files"
  shows "art_inv env (s\<lparr>as_files := files\<rparr>) \<and> art_grows env s (s\<lparr>as_files := files\<rparr>)"
proof -
  have "records_of (s\<lparr>as_files := files\<rparr>) = records_of s" "loadManifest (s\<lparr>as_files := files\<rparr>) = loadManifest s"
    by (simp_all add: records_of_def loadManifest_def)
  with inv safe content_ok_safe [OF _ safe] safe_objects [OF inv safe] show ?thesis
    by (auto simp: art_inv_def art_grows_def safe_files_def grown_refl record_le_refl)
qed

lemma art_inv_same: "art_inv env s \<Longrightarrow> art_inv env s \<and> art_grows env s s"
  by (simp add: art_grows_def grown_refl record_le_refl)

lemma loaded_records: "art_inv env s \<Longrightarrow> loadManifest s = Inr (records_of s)"
  by (auto simp: art_inv_def records_of_def)

lemma find_record_Inr:
  assumes "find_record i s = Inr (m, r)"
  shows "m = records_of s" "find (\<lambda>x. at_artifactId x = i) (records_of s) = Some r" "r \<in> set (records_of s)" "at_artifactId r = i"
  using assms by (auto simp: find_record_def res_simps records_of_def dest: find_SomeD split: option.splits)

lemma loadManifest_files [simp]: "loadManifest (s\<lparr>as_files := files\<rparr>) = loadManifest s"
  by (simp add: loadManifest_def)

lemma uploading_path:
  assumes "art_inv env s" "find_record i s = Inr (m, r)" "at_status r = Uploading"
  shows "at_path r = uploadPath env i" "stable_record r"
  using assms find_record_Inr [OF assms(2)] by (auto simp: art_inv_def content_ok_def)

lemma hashFile_Inr:
  "hashFile env v = Inr (h, n, i) \<Longrightarrow> \<exists>w. v = Some w \<and> h = ae_sha256 env (fv_bytes w) \<and> n = length (fv_bytes w)"
  by (auto simp: hashFile_def res_simps split: option.splits)

lemma own_view_bytes: "own_view s p = Some w \<Longrightarrow> map_of (as_files s) p = Some (fv_bytes w)"
  by (auto simp: own_view_def Let_def)

lemma persistObject_ok:
  assumes inv: "art_inv env s" and p: "persistObject env view h n i s = (s', r)"
  obtains files where "s' = s\<lparr>as_files := files\<rparr>" "safe_files env (as_files s) files"
    "\<forall>path. r = Inr path \<longrightarrow> path = objectPath env h \<and> (\<exists>c. map_of files path = Some c \<and> ae_sha256 env c = h)"
proof (cases "map_of (as_files s) (objectPath env h)")
  case (Some c)
  with p inv show thesis
    by (intro that [of "as_files s"]) (auto simp: persistObject_def safe_files_refl art_inv_def)
next
  case None
  show thesis
  proof (cases r)
    case (Inl e)
    with p None show thesis
      by (intro that [of "as_files s"]) (auto simp: persistObject_def safe_files_refl Let_def split: option.splits if_splits)
  next
    case (Inr path)
    with p None obtain v where v: "view = Some v" by (auto simp: persistObject_def Let_def split: option.splits)
    with p None Inr have "ae_sha256 env (fv_bytes v) = h" "path = objectPath env h"
      "s' = s\<lparr>as_files := AList.update (objectPath env h) (fv_bytes v) (as_files s)\<rparr>"
      by (auto simp: persistObject_def Let_def split: if_splits)
    with None Inr show thesis
      by (intro that [of "AList.update (objectPath env h) (fv_bytes v) (as_files s)"]) (auto simp: safe_files_def update_conv')
  qed
qed

lemma createFromFile_ok:
  assumes inv: "art_inv env s"
  shows "art_inv env (fst (createFromFile env uuid now f v v' name path md s)) \<and> art_grows env s (fst (createFromFile env uuid now f v v' name path md s))"
proof (cases "name = [] \<or> path = [] \<or> (\<exists>e. hashFile env v = Inl e)")
  case True
  then show ?thesis using art_inv_same [OF inv] by (auto simp: createFromFile_def)
next
  case False
  then obtain h n i where h: "hashFile env v = Inr (h, n, i)" by (cases "hashFile env v") auto
  obtain s' r where p: "persistObject env v' h n i s = (s', r)" by fastforce
  from inv p obtain files where fl: "s' = s\<lparr>as_files := files\<rparr>" "safe_files env (as_files s) files"
    "\<forall>path. r = Inr path \<longrightarrow> path = objectPath env h \<and> (\<exists>c. map_of files path = Some c \<and> ae_sha256 env c = h)"
    by (rule persistObject_ok)
  show ?thesis
  proof (cases r)
    case (Inl e)
    with False h p fl files_only_ok [OF inv fl(2)] show ?thesis by (simp add: createFromFile_def)
  next
    case (Inr dest)
    define x where "x = \<lparr>at_artifactId = uuid, at_name = name, at_status = Finalized, at_sha256 = h, at_size = n,
      at_createdAt = to_iso now, at_updatedAt = to_iso now, at_finalizedAt = Some (to_iso now), at_abortedAt = None,
      at_expectedSize = None, at_expectedSha256 = None, at_metadata = md, at_path = dest\<rparr>"
    have "stable_record x" "content_ok env files x" using fl(3) Inr by (auto simp: x_def stable_record_def content_ok_def)
    moreover have "grown record_le (records_of s) (records_of s @ [x])" by (rule grown_append) (rule record_le_refl)
    ultimately have "art_inv env (fst (save_and_return env f (records_of s @ [x]) x s')) \<and> art_grows env s (fst (save_and_return env f (records_of s @ [x]) x s'))"
      unfolding fl(1) using inv fl(2) by (intro step_ok) auto
    with False h p Inr loaded_records [OF inv] fl(1) show ?thesis by (simp add: createFromFile_def Let_def x_def)
  qed
qed

lemma beginUpload_ok:
  assumes inv: "art_inv env s"
  shows "art_inv env (fst (beginUpload env uuid now f name md es eh s)) \<and> art_grows env s (fst (beginUpload env uuid now f name md es eh s))"
proof -
  define x where "x = \<lparr>at_artifactId = uuid, at_name = name, at_status = Uploading, at_sha256 = '''', at_size = 0,
      at_createdAt = to_iso now, at_updatedAt = to_iso now, at_finalizedAt = None, at_abortedAt = None,
      at_expectedSize = es, at_expectedSha256 = (if truthy eh then eh else None), at_metadata = md, at_path = uploadPath env uuid\<rparr>"
  let ?files = "AList.update (uploadPath env uuid) [] (as_files s)"
  have "stable_record x" "content_ok env ?files x" by (auto simp: x_def stable_record_def content_ok_def)
  moreover have "grown record_le (records_of s) (records_of s @ [x])" by (rule grown_append) (rule record_le_refl)
  ultimately have "art_inv env (fst (save_and_return env f (records_of s @ [x]) x (s\<lparr>as_files := ?files\<rparr>)))
    \<and> art_grows env s (fst (save_and_return env f (records_of s @ [x]) x (s\<lparr>as_files := ?files\<rparr>)))"
    using inv safe_upload(1) by (intro step_ok) auto
  with art_inv_same [OF inv] loaded_records [OF inv] show ?thesis
    unfolding beginUpload_def Let_def x_def [symmetric] by simp
qed

text \<open>Revising an uploading record.\<close>

lemma revise_ok:
  assumes inv: "art_inv env s" and fr: "find_record i s = Inr (m, r)" "at_status r = Uploading"
    and safe: "safe_files env (as_files s) files"
    and r': "at_artifactId r' = i" "stable_record r'" "content_ok env files r'"
  shows "art_inv env (fst (save_and_return env f (replace_record r' m) r' (s\<lparr>as_files := files\<rparr>)))
    \<and> art_grows env s (fst (save_and_return env f (replace_record r' m) r' (s\<lparr>as_files := files\<rparr>)))"
proof -
  note fr' = find_record_Inr [OF fr(1)]
  have "record_le r r'" using fr(2) fr'(4) r'(1) by (simp add: record_le_def)
  then have "grown record_le (records_of s) (replace_record r' m)"
    using grown_replace [OF fr'(2) _ r'(1)] fr'(1) by simp
  with inv safe r' fr'(1) show ?thesis by (intro step_ok) (auto dest: set_replace)
qed

lemma move_to_object_ok:
  assumes inv: "art_inv env s" and c: "map_of (as_files s) (uploadPath env i) = Some c" "ae_sha256 env c = h"
  obtains files where "move_to_object env (uploadPath env i) h s = s\<lparr>as_files := files\<rparr>" "safe_files env (as_files s) files"
    "\<exists>c'. map_of files (objectPath env h) = Some c' \<and> ae_sha256 env c' = h"
proof (cases "map_of (as_files s) (objectPath env h)")
  case (Some c')
  with inv have "ae_sha256 env c' = h" by (simp add: art_inv_def)
  with Some show thesis
    by (intro that [of "AList.delete (uploadPath env i) (as_files s)"]) (auto simp: move_to_object_def safe_upload delete_conv')
next
  case None
  with c show thesis
    by (intro that [of "AList.update (objectPath env h) c (AList.delete (uploadPath env i) (as_files s))"])
      (auto simp: move_to_object_def safe_files_def update_conv' delete_conv')
qed

lemma finalize_ok:
  assumes inv: "art_inv env s"
  shows "art_inv env (fst (finalize_artifact env now f i es eh s)) \<and> art_grows env s (fst (finalize_artifact env now f i es eh s))"
proof (cases "find_record i s")
  case (Inl e)
  then show ?thesis using art_inv_same [OF inv] by (simp add: finalize_artifact_def)
next
  case (Inr mr)
  obtain m r where mr: "mr = (m, r)" by fastforce
  let ?checks = "res_bind (require_uploading ''Only uploading artifacts can be finalized'' r) (\<lambda>_.
                res_bind (hashFile env (own_view s (at_path r))) (\<lambda>(sha256, sz, identity).
                res_bind (finalize_checks r sha256 sz es eh) (\<lambda>_. Inr (sha256, sz))))"
  show ?thesis
  proof (cases ?checks)
    case (Inl e)
    with Inr mr art_inv_same [OF inv] show ?thesis by (simp add: finalize_artifact_def)
  next
    case ch: (Inr hn)
    obtain h n where hn: "hn = (h, n)" by fastforce
    from ch hn have up: "at_status r = Uploading" and "\<exists>j. hashFile env (own_view s (at_path r)) = Inr (h, n, j)"
      by (auto simp: res_simps require_uploading_def)
    then obtain w where w: "own_view s (at_path r) = Some w" "h = ae_sha256 env (fv_bytes w)" using hashFile_Inr by metis
    note path = uploading_path [OF inv Inr [unfolded mr] up]
    from move_to_object_ok [OF inv, of i "fv_bytes w" h] own_view_bytes [OF w(1)] w(2) path(1)
    obtain files where fl: "move_to_object env (at_path r) h s = s\<lparr>as_files := files\<rparr>" "safe_files env (as_files s) files"
      "\<exists>c'. map_of files (objectPath env h) = Some c' \<and> ae_sha256 env c' = h" by metis
    let ?r = "finalized_record env (to_iso now) h n r"
    have "at_artifactId ?r = i" "stable_record ?r" "content_ok env files ?r"
      using find_record_Inr(4) [OF Inr [unfolded mr]] path(2) fl(3)
      by (auto simp: finalized_record_def stable_record_def content_ok_def)
    from revise_ok [OF inv Inr [unfolded mr] up fl(2) this, of f] fl(1) Inr mr ch hn art_inv_same [OF inv] show ?thesis
      by (simp add: finalize_artifact_def Let_def)
  qed
qed

lemma art_grows_trans: "art_grows env s t \<Longrightarrow> art_grows env t u \<Longrightarrow> art_grows env s u"
  unfolding art_grows_def by (auto intro: grown_trans simp: record_le_def)

lemma uploadChunk_ok:
  assumes inv: "art_inv env s"
  shows "art_inv env (fst (uploadChunk env now f f' i off data fin s)) \<and> art_grows env s (fst (uploadChunk env now f f' i off data fin s))"
proof (cases "find_record i s")
  case (Inl e)
  then show ?thesis using art_inv_same [OF inv] by (simp add: uploadChunk_def)
next
  case (Inr mr)
  obtain m r where mr: "mr = (m, r)" by fastforce
  show ?thesis
  proof (cases "at_status r = Uploading \<and> off = int (at_size r) \<and> map_of (as_files s) (at_path r) \<noteq> None")
    case False
    then have "fst (uploadChunk env now f f' i off data fin s) = s"
      using Inr mr by (auto simp: uploadChunk_def require_uploading_def check_def)
    with art_inv_same [OF inv] show ?thesis by simp
  next
    case True
    then obtain c where c: "map_of (as_files s) (at_path r) = Some c" by blast
    note path = uploading_path [OF inv Inr [unfolded mr] conjunct1 [OF True]]
    let ?files = "AList.update (at_path r) (write_at (at_size r) data c) (as_files s)"
    let ?r = "r\<lparr>at_size := at_size r + length data, at_updatedAt := to_iso now\<rparr>"
    let ?s = "s\<lparr>as_files := ?files\<rparr>"
    have "at_artifactId ?r = i" "stable_record ?r" "content_ok env ?files ?r"
      using find_record_Inr(4) [OF Inr [unfolded mr]] path True by (auto simp: stable_record_def content_ok_def)
    moreover have "safe_files env (as_files s) ?files" using path(1) safe_upload(1) by simp
    ultimately have ok: "art_inv env (fst (save_and_return env f (replace_record ?r m) ?r ?s))"
        "art_grows env s (fst (save_and_return env f (replace_record ?r m) ?r ?s))"
      using revise_ok [OF inv Inr [unfolded mr] conjunct1 [OF True]] by blast+
    have up: "uploadChunk env now f f' i off data fin s =
      (case save_and_return env f (replace_record ?r m) ?r ?s of
         (s, Inl e) \<Rightarrow> (s, Inl e)
       | (s, Inr r) \<Rightarrow> if \<not> fin then (s, Inr r)
           else (case hashFile env (own_view s (at_path r)) of
                   Inl e \<Rightarrow> (s, Inl e)
                 | Inr (sha256, sz, identity) \<Rightarrow>
                     finalize_artifact env now f' (at_artifactId r) (nullish (at_expectedSize r) (int sz))
                       (nullish (at_expectedSha256 r) sha256) s))"
      using True Inr mr c by (simp add: uploadChunk_def require_uploading_def Let_def)
    obtain s' res where sr: "save_and_return env f (replace_record ?r m) ?r ?s = (s', res)" by fastforce
    with ok finalize_ok show ?thesis unfolding up sr
      by (auto split: sum.splits prod.splits if_splits intro: art_grows_trans)
  qed
qed

lemma abort_ok:
  assumes inv: "art_inv env s"
  shows "art_inv env (fst (abort_artifact env now f i s)) \<and> art_grows env s (fst (abort_artifact env now f i s))"
proof (cases "find_record i s")
  case (Inl e)
  then show ?thesis using art_inv_same [OF inv] by (simp add: abort_artifact_def)
next
  case (Inr mr)
  obtain m r where mr: "mr = (m, r)" by fastforce
  show ?thesis
  proof (cases "at_status r = Uploading")
    case False
    with Inr mr art_inv_same [OF inv] show ?thesis by (simp add: abort_artifact_def require_uploading_def check_def)
  next
    case True
    note path = uploading_path [OF inv Inr [unfolded mr] True]
    let ?files = "AList.delete (at_path r) (as_files s)"
    let ?r = "r\<lparr>at_status := Aborted, at_updatedAt := to_iso now, at_abortedAt := Some (to_iso now), at_path := ''''\<rparr>"
    have "at_artifactId ?r = i" "stable_record ?r" "content_ok env ?files ?r"
      using find_record_Inr(4) [OF Inr [unfolded mr]] path by (auto simp: stable_record_def content_ok_def)
    moreover have "safe_files env (as_files s) ?files" using path(1) safe_upload(2) by simp
    ultimately show ?thesis using revise_ok [OF inv Inr [unfolded mr] True] Inr mr True
      by (simp add: abort_artifact_def require_uploading_def Let_def)
  qed
qed

lemma artifact_event_ok: "art_inv env s \<Longrightarrow> art_inv env (artifact_event_step env ev s) \<and> art_grows env s (artifact_event_step env ev s)"
  by (cases ev) (simp_all only: artifact_event_step.simps createFromFile_ok beginUpload_ok uploadChunk_ok finalize_ok abort_ok)

interpretation artifacts: growing_system "artifact_step env" "art_inv env" "art_grows env" for env
proof
  show "art_grows env s s" for s by (simp add: art_grows_def grown_refl record_le_refl)
  show "art_grows env s t \<Longrightarrow> art_grows env t u \<Longrightarrow> art_grows env s u" for s t u by (rule art_grows_trans)
qed (auto simp: artifact_step_def artifact_event_ok)

lemma empty_artifacts_inv: "art_inv env empty_artifacts"
  by (simp add: art_inv_def empty_artifacts_def records_of_def loadManifest_def)

abbreviation run_artifacts :: "artifact_env \<Rightarrow> artifact_event list \<Rightarrow> artifact_system \<Rightarrow> artifact_system" where
  "run_artifacts env \<equiv> run_ops (artifact_step env)"

lemma find_grown:
  assumes "grown record_le rs rs'" "find (\<lambda>x. at_artifactId x = i) rs = Some r" "at_status r \<noteq> Uploading"
  shows "find (\<lambda>x. at_artifactId x = i) rs' = Some r"
  using assms
proof (induction rs arbitrary: rs')
  case (Cons x rs)
  then obtain y ys where ys: "rs' = y # ys" "record_le x y" "grown record_le rs ys"
    by (cases rs') (auto simp: grown_def)
  have "at_artifactId y = at_artifactId x" "at_status x \<noteq> Uploading \<longrightarrow> y = x" using ys(2) by (simp_all add: record_le_def)
  with Cons.IH [OF ys(3)] Cons.prems(2,3) ys(1) show ?case by (auto split: if_splits)
qed simp


text \<open>What a client takes from a reply: the data and the next offset.\<close>

definition download_read :: "artifact_env \<Rightarrow> string \<Rightarrow> nat option \<Rightarrow> artifact_system \<Rightarrow> nat \<Rightarrow> byte list \<times> nat" where
  "download_read env i limit s offset =
     (case download env i (Some offset) limit s of Inl e \<Rightarrow> ([], offset) | Inr c \<Rightarrow> (ac_data c, ac_offset c))"


subsection \<open>A crash while an object is copied\<close>

text \<open>\<open>persistObject\<close> writes straight into the object's final path. A process that dies in the middle
  (\<open>n\<close> bytes written) leaves the prefix there; the cleanup in the exception handler does not run.\<close>

definition crash_in_persist :: "artifact_env \<Rightarrow> file_view \<Rightarrow> nat \<Rightarrow> artifact_system \<Rightarrow> artifact_system" where
  "crash_in_persist env v n s =
     (let destination = objectPath env (ae_sha256 env (fv_bytes v)) in
      if map_of (as_files s) destination \<noteq> None then s
      else s\<lparr>as_files := AList.update destination (take n (fv_bytes v)) (as_files s)\<rparr>)"

text \<open>A regular file that does not change while it is read.\<close>

definition steady_view :: "artifact_env \<Rightarrow> file_view \<Rightarrow> bool" where
  "steady_view env v \<longleftrightarrow> fv_isFile v \<and> fv_before v = fv_after v \<and> fi_size (fv_after v) = length (fv_bytes v) \<and> length (fv_bytes v) \<le> ae_maximum env"

text \<open>
  C38. The object store is not crash-safe: if the supervisor dies while \<open>createFromFile\<close> copies a
  file, storing the same file again after the restart succeeds without copying and yields a
  finalized artifact with the right digest in its record and only the truncated bytes in its
  object.
\<close>

theorem crash_truncates_artifact:
  assumes "steady_view env v" "n < length (fv_bytes v)" "name \<noteq> []" "path \<noteq> []" "loadManifest s = Inr rs"
    "map_of (as_files s) (objectPath env (ae_sha256 env (fv_bytes v))) = None"
  shows "let (s', res) = createFromFile env uuid now NoFault (Some v) (Some v) name path md (crash_in_persist env v n s) in
     case res of Inl e \<Rightarrow> False
     | Inr r \<Rightarrow> at_status r = Finalized \<and> at_sha256 r = ae_sha256 env (fv_bytes v) \<and> at_size r = length (fv_bytes v)
         \<and> map_of (as_files s') (at_path r) = Some (take n (fv_bytes v))"
proof -
  let ?h = "ae_sha256 env (fv_bytes v)"
  have "hashFile env (Some v) = Inr (?h, length (fv_bytes v), fv_before v)"
    using assms(1) by (simp add: hashFile_def steady_view_def)
  with assms show ?thesis
    by (simp add: createFromFile_def crash_in_persist_def persistObject_def update_conv' save_and_return_def saveManifest_def Let_def)
qed

subsection \<open>A concrete upload\<close>

definition sample_art_env :: artifact_env where
  "sample_art_env = \<lparr>ae_sha256 = (\<lambda>bs. replicate 64 (if bs = [] then CHR ''0'' else CHR ''1'')), ae_root = ''/a'', ae_maximum = 10, ae_ioMessage = []\<rparr>"

definition sample_upload :: "artifact_event list" where
  "sample_upload = [BeginUpload ''u'' 0 NoFault ''n'' None None None, UploadChunk 0 NoFault NoFault ''u'' 0 [7, 8] True]"

definition sample_view :: file_view where
  "sample_view = (let i = \<lparr>fi_dev = 1, fi_ino = 1, fi_size = 2, fi_mtime = 0\<rparr>
     in \<lparr>fv_isFile = True, fv_before = i, fv_bytes = [7, 8], fv_after = i\<rparr>)"

definition sample_artifact :: artifact_record where
  "sample_artifact = \<lparr>at_artifactId = ''u'', at_name = ''n'', at_status = Finalized, at_sha256 = replicate 64 (CHR ''1''), at_size = 2,
     at_createdAt = to_iso 0, at_updatedAt = to_iso 0, at_finalizedAt = Some (to_iso 0), at_abortedAt = None,
     at_expectedSize = None, at_expectedSha256 = None, at_metadata = None,
     at_path = objectPath sample_art_env (replicate 64 (CHR ''1''))\<rparr>"

lemma sample_digest: "DIGEST_PATTERN (replicate 64 (CHR ''1''))"
  by (simp add: DIGEST_PATTERN_def chars_between_def list_all_iff is_lower_hex_def is_digit_def between_def code_def)

lemma sample_uploaded: "get_artifact ''u'' (run_artifacts sample_art_env sample_upload empty_artifacts) = Inr (Some sample_artifact)"
proof -
  have iso: "truthy (Some (to_iso 0))" by simp
  have 1: "artifact_event_step sample_art_env (BeginUpload ''u'' 0 NoFault ''n'' None None None) empty_artifacts =
      \<lparr>as_manifest = ManifestRecords [to_raw \<lparr>at_artifactId = ''u'', at_name = ''n'', at_status = Uploading, at_sha256 = [], at_size = 0,
          at_createdAt = to_iso 0, at_updatedAt = to_iso 0, at_finalizedAt = None, at_abortedAt = None, at_expectedSize = None,
          at_expectedSha256 = None, at_metadata = None, at_path = uploadPath sample_art_env ''u''\<rparr>],
       as_files = [(uploadPath sample_art_env ''u'', [])]\<rparr>"
    by (simp add: beginUpload_def empty_artifacts_def loadManifest_def save_and_return_def saveManifest_def Let_def)
  show ?thesis
    by (simp add: sample_upload_def artifact_step_def 1 del: artifact_event_step.simps(2))
      (simp add: uploadChunk_def find_record_def loadManifest_def migrateRecord_def to_raw_def nullish_def require_uploading_def
        save_and_return_def saveManifest_def write_at_def hashFile_def own_view_def finalize_artifact_def finalize_checks_def
        move_to_object_def finalized_record_def get_artifact_def update_conv' sample_art_env_def sample_digest sample_artifact_def iso Let_def)
qed



theorem crash_truncates_artifact_witness:
  "let (s', res) = createFromFile sample_art_env ''x'' 0 NoFault (Some sample_view) (Some sample_view) ''n'' ''/f'' None
       (crash_in_persist sample_art_env sample_view 1 empty_artifacts) in
     case res of Inl e \<Rightarrow> False
     | Inr r \<Rightarrow> at_status r = Finalized \<and> at_sha256 r = ae_sha256 sample_art_env (fv_bytes sample_view)
         \<and> at_size r = length (fv_bytes sample_view) \<and> map_of (as_files s') (at_path r) = Some (take 1 (fv_bytes sample_view))"
  by (rule crash_truncates_artifact)
    (simp_all add: steady_view_def sample_view_def sample_art_env_def empty_artifacts_def loadManifest_def Let_def)

end
