(* ===== verification/File_System.thy ===== *)
theory File_System
  imports Receipts Js_Date Frame "HOL-Library.AList" "HOL-Library.Sublist"
begin

section \<open>Paths and a file system\<close>

text \<open>
  What the file operations use of \<open>node:path\<close> and \<open>node:fs\<close> on Linux. A resolved path is its list of
  components; the file system is an association list from physical paths (no symbolic link
  on the way) to nodes, the root directory being the empty list. \<open>namei\<close> is the kernel's
  path walk, which follows symbolic links on the way and, if asked, at the end, at most forty of
  them. Permissions are not checked, the supervisor runs as root; there is one file system, and
  other processes do not change it during an operation. \<open>None\<close> is an exception from
  the operating system.
\<close>

subsection \<open>Paths\<close>

type_synonym path = "string list"

fun split_path :: "string \<Rightarrow> string list" where
  "split_path [] = [[]]"
| "split_path (c # s) = (if c = CHR ''/'' then [] # split_path s
     else case split_path s of [] \<Rightarrow> [[c]] | w # ws \<Rightarrow> (c # w) # ws)"

definition isAbsolute :: "string \<Rightarrow> bool" where
  "isAbsolute s \<longleftrightarrow> s \<noteq> [] \<and> hd s = CHR ''/''"

definition push_component :: "string \<Rightarrow> path \<Rightarrow> path" where
  "push_component c p = (if c = [] \<or> c = ''.'' then p else if c = ''..'' then butlast p else p @ [c])"

text \<open>\<open>resolve(path)\<close> with a working directory, and \<open>resolve(join(root, path))\<close>.\<close>

definition resolve_from :: "path \<Rightarrow> string \<Rightarrow> path" where
  "resolve_from base s = fold push_component (split_path s) base"

definition resolve :: "path \<Rightarrow> string \<Rightarrow> path" where
  "resolve cwd s = resolve_from (if isAbsolute s then [] else cwd) s"

definition path_str :: "path \<Rightarrow> string" where
  "path_str p = (if p = [] then ''/'' else concat (map (\<lambda>c. CHR ''/'' # c) p))"

text \<open>The components of \<open>relative(from, to)\<close>: up from the one, down to the other.\<close>

fun relative :: "path \<Rightarrow> path \<Rightarrow> path" where
  "relative (a # as) (b # bs) = (if a = b then relative as bs else replicate (length (a # as)) ''..'' @ b # bs)"
| "relative as bs = replicate (length as) ''..'' @ bs"

definition normal :: "string \<Rightarrow> bool" where
  "normal c \<longleftrightarrow> c \<noteq> [] \<and> c \<noteq> ''.'' \<and> c \<noteq> ''..''"

lemma normal_push_component: "list_all normal p \<Longrightarrow> list_all normal (push_component c p)"
  unfolding push_component_def normal_def by (auto simp: list_all_iff dest: in_set_butlastD)

lemma normal_resolve_from: "list_all normal base \<Longrightarrow> list_all normal (resolve_from base s)"
  unfolding resolve_from_def by (rule fold_invariant [where Q = "\<lambda>_. True"]) (simp_all add: normal_push_component)

lemma normal_resolve: "list_all normal cwd \<Longrightarrow> list_all normal (resolve cwd s)"
  by (simp add: resolve_def normal_resolve_from)

lemma relative_below [simp]: "relative r (r @ rest) = rest"
  by (induction r) (cases rest, simp_all)

lemma relative_inside: "hd (relative r p) \<noteq> ''..'' \<Longrightarrow> relative r p \<noteq> [] \<Longrightarrow> p = r @ relative r p"
  by (induction r p rule: relative.induct) (auto split: if_splits)

subsection \<open>Nodes\<close>

record attributes =
  nd_mode :: nat
  nd_uid :: int
  nd_gid :: int
  nd_mtime :: int

datatype node = FileN "byte list" attributes | DirN nat attributes | LinkN string attributes | OtherN nat nat attributes

type_synonym fs = "(path \<times> node) list"

definition root_node :: node where
  "root_node = DirN 4096 \<lparr>nd_mode = 493, nd_uid = 0, nd_gid = 0, nd_mtime = 0\<rparr>"

definition node_at :: "fs \<Rightarrow> path \<Rightarrow> node option" where
  "node_at fs p = (if p = [] then Some root_node else map_of fs p)"

fun is_dir :: "node \<Rightarrow> bool" where
  "is_dir (DirN n a) = True"
| "is_dir _ = False"

fun is_link :: "node \<Rightarrow> bool" where
  "is_link (LinkN t a) = True"
| "is_link _ = False"

fun is_file :: "node \<Rightarrow> bool" where
  "is_file (FileN c a) = True"
| "is_file _ = False"

definition dir_at :: "fs \<Rightarrow> path \<Rightarrow> bool" where
  "dir_at fs p \<longleftrightarrow> (case node_at fs p of None \<Rightarrow> False | Some n \<Rightarrow> is_dir n)"

definition link_at :: "fs \<Rightarrow> path \<Rightarrow> bool" where
  "link_at fs p \<longleftrightarrow> (case node_at fs p of None \<Rightarrow> False | Some n \<Rightarrow> is_link n)"

definition link_base :: "string \<Rightarrow> path \<Rightarrow> path" where
  "link_base target cur = (if isAbsolute target then [] else cur)"

text \<open>The walk: the number of links that may still be followed, the directory reached, the rest.\<close>

fun namei :: "nat \<Rightarrow> fs \<Rightarrow> bool \<Rightarrow> path \<Rightarrow> path \<Rightarrow> path option" where
  "namei k fs follow cur [] = Some cur"
| "namei k fs follow cur (c # cs) =
     (if c = [] \<or> c = ''.'' then namei k fs follow cur cs
      else if c = ''..'' then namei k fs follow (butlast cur) cs
      else case node_at fs (cur @ [c]) of
        Some (LinkN target a) \<Rightarrow>
          if cs = [] \<and> \<not> follow then Some (cur @ [c])
          else (case k of 0 \<Rightarrow> None | Suc k \<Rightarrow> namei k fs follow (link_base target cur) (split_path target @ cs))
      | Some (DirN n a) \<Rightarrow> namei k fs follow (cur @ [c]) cs
      | _ \<Rightarrow> if cs = [] then Some (cur @ [c]) else None)"

definition MAXSYMLINKS :: nat where "MAXSYMLINKS = 40"

definition physical :: "fs \<Rightarrow> bool \<Rightarrow> path \<Rightarrow> path option" where
  "physical fs follow p = namei MAXSYMLINKS fs follow [] p"

definition lstatSync :: "fs \<Rightarrow> path \<Rightarrow> node option" where
  "lstatSync fs p = Option.bind (physical fs False p) (node_at fs)"

definition statSync :: "fs \<Rightarrow> path \<Rightarrow> node option" where
  "statSync fs p = Option.bind (physical fs True p) (node_at fs)"

definition existsSync :: "fs \<Rightarrow> path \<Rightarrow> bool" where
  "existsSync fs p \<longleftrightarrow> statSync fs p \<noteq> None"

definition put :: "path \<Rightarrow> node \<Rightarrow> fs \<Rightarrow> fs" where
  "put p n fs = AList.update p n fs"

definition del :: "path \<Rightarrow> fs \<Rightarrow> fs" where
  "del p fs = AList.delete p fs"

lemma node_at_put [simp]: "p \<noteq> [] \<Longrightarrow> node_at (put p n fs) q = (if q = p then Some n else node_at fs q)"
  by (simp add: node_at_def put_def update_conv')

lemma node_at_del [simp]: "p \<noteq> [] \<Longrightarrow> node_at (del p fs) q = (if q = p then None else node_at fs q)"
  by (simp add: node_at_def del_def delete_conv')

lemma node_at_root [simp]: "node_at fs [] = Some root_node"
  by (simp add: node_at_def)

lemma dir_at_root [simp]: "dir_at fs []"
  by (simp add: dir_at_def root_node_def)

lemma is_dir_iff: "is_dir n \<longleftrightarrow> (\<exists>m a. n = DirN m a)"
  by (cases n) auto

lemma is_link_iff: "is_link n \<longleftrightarrow> (\<exists>t a. n = LinkN t a)"
  by (cases n) auto

lemma is_file_iff: "is_file n \<longleftrightarrow> (\<exists>c a. n = FileN c a)"
  by (cases n) auto

lemma dir_at_iff: "dir_at fs p \<longleftrightarrow> (\<exists>m a. node_at fs p = Some (DirN m a))"
  by (auto simp: dir_at_def is_dir_iff split: option.splits)

subsection \<open>System calls\<close>

definition mkdirSync :: "attributes \<Rightarrow> path \<Rightarrow> fs \<Rightarrow> fs option" where
  "mkdirSync a p fs =
     (case physical fs False p of
        None \<Rightarrow> None
      | Some q \<Rightarrow> if q = [] \<or> node_at fs q \<noteq> None then None else Some (put q (DirN 4096 a) fs))"

text \<open>With \<open>recursive\<close>: every missing prefix is made, an existing one must be a directory.\<close>

fun mkdir_prefixes :: "attributes \<Rightarrow> path \<Rightarrow> path \<Rightarrow> fs \<Rightarrow> fs option" where
  "mkdir_prefixes a p [] fs = Some fs"
| "mkdir_prefixes a p (c # cs) fs =
     (case statSync fs (p @ [c]) of
        Some n \<Rightarrow> if is_dir n then mkdir_prefixes a (p @ [c]) cs fs else None
      | None \<Rightarrow> (case mkdirSync a (p @ [c]) fs of None \<Rightarrow> None | Some fs' \<Rightarrow> mkdir_prefixes a (p @ [c]) cs fs'))"

definition readdirSync :: "fs \<Rightarrow> path \<Rightarrow> string list option" where
  "readdirSync fs p =
     (case physical fs True p of
        None \<Rightarrow> None
      | Some q \<Rightarrow> if dir_at fs q then Some (map (\<lambda>(r, n). last r) (filter (\<lambda>(r, n). butlast r = q) fs)) else None)"

definition unlinkSync :: "path \<Rightarrow> fs \<Rightarrow> fs option" where
  "unlinkSync p fs =
     (case physical fs False p of
        None \<Rightarrow> None
      | Some q \<Rightarrow> (case node_at fs q of None \<Rightarrow> None | Some n \<Rightarrow> if is_dir n then None else Some (del q fs)))"

definition remove_tree :: "path \<Rightarrow> fs \<Rightarrow> fs" where
  "remove_tree q fs = filter (\<lambda>(r, n). \<not> prefix q r) fs"

definition move_tree :: "path \<Rightarrow> path \<Rightarrow> fs \<Rightarrow> fs" where
  "move_tree s d fs = map (\<lambda>(r, n). (if prefix s r then d @ drop (length s) r else r, n)) (remove_tree d fs)"

text \<open>\<open>rename(2)\<close>: neither end follows a final link; a directory may only replace an empty one.\<close>

definition renameSync :: "path \<Rightarrow> path \<Rightarrow> fs \<Rightarrow> fs option" where
  "renameSync p p' fs =
     (case (physical fs False p, physical fs False p') of
        (Some s, Some d) \<Rightarrow>
          (case (node_at fs s, node_at fs d) of
             (None, _) \<Rightarrow> None
           | (Some n, None) \<Rightarrow> if prefix s d then None else Some (move_tree s d fs)
           | (Some n, Some n') \<Rightarrow>
               if s = d then Some fs
               else if prefix s d \<or> prefix d s then None
               else if is_dir n then if is_dir n' \<and> list_all (\<lambda>(r, _). \<not> strict_prefix d r) fs then Some (move_tree s d fs) else None
               else if is_dir n' then None
               else Some (move_tree s d fs))
      | _ \<Rightarrow> None)"

subsection \<open>Well-formed file systems\<close>

definition fs_ok :: "fs \<Rightarrow> bool" where
  "fs_ok fs \<longleftrightarrow> distinct (map fst fs) \<and> list_all (\<lambda>(p, n). p \<noteq> [] \<and> dir_at fs (butlast p)) fs"

lemma fs_ok_parent: "fs_ok fs \<Longrightarrow> node_at fs p \<noteq> None \<Longrightarrow> p \<noteq> [] \<Longrightarrow> dir_at fs (butlast p)"
  by (auto simp: fs_ok_def list_all_iff node_at_def dest!: map_of_SomeD)

lemma fs_ok_nodes:
  assumes "distinct (map fst fs)" "[] \<notin> fst ` set fs"
  shows "fs_ok fs \<longleftrightarrow> (\<forall>p. p \<noteq> [] \<longrightarrow> node_at fs p \<noteq> None \<longrightarrow> dir_at fs (butlast p))"
proof -
  have mem: "(p, n) \<in> set fs \<longleftrightarrow> p \<noteq> [] \<and> node_at fs p = Some n" for p n
    using assms by (force simp: node_at_def)
  have "list_all (\<lambda>(p, n). p \<noteq> [] \<and> dir_at fs (butlast p)) fs
    \<longleftrightarrow> (\<forall>p n. (p, n) \<in> set fs \<longrightarrow> p \<noteq> [] \<and> dir_at fs (butlast p))"
    by (auto simp: list_all_iff)
  then show ?thesis unfolding fs_ok_def mem using assms(1) by auto
qed

lemma fs_ok_keys: "fs_ok fs \<Longrightarrow> distinct (map fst fs) \<and> [] \<notin> fst ` set fs"
  by (auto simp: fs_ok_def list_all_iff)

lemma fs_ok_put:
  assumes "fs_ok fs" "p \<noteq> []" "dir_at fs (butlast p)" "dir_at fs p \<Longrightarrow> is_dir n"
  shows "fs_ok (put p n fs)"
proof -
  have k: "distinct (map fst (put p n fs))" "[] \<notin> fst ` set (put p n fs)"
    using fs_ok_keys [OF assms(1)] assms(2)
    by (auto simp: put_def distinct_update dom_update)
  have d: "dir_at fs q \<Longrightarrow> dir_at (put p n fs) q" for q
    using assms(2,4) by (auto simp: dir_at_def split: option.splits)
  show ?thesis
    unfolding fs_ok_nodes [OF k] using assms(1-3) d fs_ok_parent [OF assms(1)] by (auto split: if_splits)
qed

lemma fs_ok_del:
  assumes "fs_ok fs" "p \<noteq> []" "\<not> dir_at fs p"
  shows "fs_ok (del p fs)"
proof -
  have k: "distinct (map fst (del p fs))" "[] \<notin> fst ` set (del p fs)"
    using fs_ok_keys [OF assms(1)] dom_delete_subset [of p fs] by (auto simp: del_def intro: distinct_delete)
  have d: "dir_at fs q \<Longrightarrow> dir_at (del p fs) q" for q
    using assms(2,3) by (cases "q = p") (auto simp: dir_at_def)
  show ?thesis
    unfolding fs_ok_nodes [OF k] using assms(1,2) d fs_ok_parent [OF assms(1)] by (auto split: if_splits)
qed

text \<open>Where a walk ends, the parent is a directory.\<close>

lemma fs_ok_butlast: "fs_ok fs \<Longrightarrow> dir_at fs p \<Longrightarrow> dir_at fs (butlast p)"
  using fs_ok_parent [of fs p] by (cases "p = []") (auto simp: dir_at_iff)

lemma namei_parent:
  assumes "fs_ok fs" "dir_at fs cur" "namei k fs follow cur cs = Some q"
  shows "dir_at fs (butlast q)"
  using assms
proof (induction k fs follow cur cs rule: namei.induct)
  case (1 k fs follow cur)
  then show ?case by (simp add: fs_ok_butlast)
next
  case (2 k fs follow cur c cs)
  consider "c = [] \<or> c = ''.''" | "c = ''..''" | "normal c" by (auto simp: normal_def)
  then show ?case
  proof cases
    case 1
    with "2.IH"(1) "2.prems" show ?thesis by auto
  next
    case 2
    with "2.IH"(2) "2.prems" show ?thesis by (auto intro: fs_ok_butlast)
  next
    case 3
    with "2.IH"(3,4) "2.prems" show ?thesis
      by (auto simp: normal_def dir_at_iff root_node_def link_base_def split: option.splits node.splits if_splits nat.splits)
  qed
qed

lemma physical_parent: "fs_ok fs \<Longrightarrow> physical fs follow p = Some q \<Longrightarrow> dir_at fs (butlast q)"
  unfolding physical_def by (erule namei_parent) simp_all

subsection \<open>Walks through real directories\<close>

text \<open>A walk that ends in a real directory can be continued from there.\<close>

lemma namei_cut:
  assumes "namei k fs f cur cs = Some d" "dir_at fs d"
  obtains k' where "\<And>follow ds. ds \<noteq> [] \<Longrightarrow> namei k fs follow cur (cs @ ds) = namei k' fs follow d ds"
proof -
  have "\<exists>k'. \<forall>follow ds. ds \<noteq> [] \<longrightarrow> namei k fs follow cur (cs @ ds) = namei k' fs follow d ds"
    using assms
  proof (induction k fs f cur cs rule: namei.induct)
    case (2 k fs f cur c cs)
    consider "c = [] \<or> c = ''.''" | "c = ''..''" | "normal c" by (auto simp: normal_def)
    then show ?case
    proof cases
      case 3
      then have c: "\<not> (c = [] \<or> c = ''.'')" "c \<noteq> ''..''" by (auto simp: normal_def)
      show ?thesis
      proof (cases "node_at fs (cur @ [c])")
        case (Some n)
        show ?thesis
        proof (cases n)
          case (LinkN t a)
          have cs: "\<not> (cs = [] \<and> \<not> f)" using Some LinkN c "2.prems" by (cases f) (auto simp: dir_at_iff)
          with Some LinkN c "2.prems" obtain j where j: "k = Suc j" by (cases k) auto
          from "2.prems" Some LinkN c cs j have "namei j fs f (link_base t cur) (split_path t @ cs) = Some d" by auto
          from "2.IH"(4) [OF c Some LinkN cs j this "2.prems"(2)] Some LinkN c j show ?thesis by simp
        next
          case (DirN m a)
          with Some c "2.IH"(3) "2.prems" show ?thesis by auto
        qed (use Some c "2.prems" in \<open>auto simp: dir_at_iff split: if_splits\<close>)
      qed (use c "2.prems" in \<open>auto simp: dir_at_iff split: if_splits\<close>)
    qed (use "2.IH"(1,2) "2.prems" in auto)
  qed auto
  with that show thesis by blast
qed

text \<open>The path \<open>r\<close> leads to the directory \<open>R\<close>, and below \<open>r\<close> the walk goes on from \<open>R\<close>.\<close>

definition leads_to :: "fs \<Rightarrow> path \<Rightarrow> path \<Rightarrow> bool" where
  "leads_to fs r R \<longleftrightarrow> physical fs True r = Some R \<and> dir_at fs R"

lemma leads_to_step:
  assumes "physical fs f r = Some R" "dir_at fs R" "normal c"
  shows "physical fs False (r @ [c]) = Some (R @ [c])"
    and "\<not> link_at fs (R @ [c]) \<Longrightarrow> physical fs True (r @ [c]) = Some (R @ [c])"
proof -
  from assms(1,2) obtain k' where
    k': "\<And>follow ds. ds \<noteq> [] \<Longrightarrow> namei MAXSYMLINKS fs follow [] (r @ ds) = namei k' fs follow R ds"
    unfolding physical_def by (metis namei_cut)
  have c: "\<not> (c = [] \<or> c = ''.'')" "c \<noteq> ''..''" using assms(3) by (auto simp: normal_def)
  show "physical fs False (r @ [c]) = Some (R @ [c])"
    unfolding physical_def using k' [of "[c]" False] c by (simp split: option.split node.split)
  show "physical fs True (r @ [c]) = Some (R @ [c])" if "\<not> link_at fs (R @ [c])"
    unfolding physical_def using k' [of "[c]" True] c that by (auto simp: link_at_def split: option.splits node.split)
qed

lemma leads_to_lstat: "leads_to fs r R \<Longrightarrow> normal c \<Longrightarrow> lstatSync fs (r @ [c]) = node_at fs (R @ [c])"
  using leads_to_step(1) [of fs True r R c] by (simp add: leads_to_def lstatSync_def)

lemma leads_to_child: "leads_to fs r R \<Longrightarrow> normal c \<Longrightarrow> dir_at fs (R @ [c]) \<Longrightarrow> leads_to fs (r @ [c]) (R @ [c])"
  using leads_to_step(2) [of fs True r R c] by (auto simp: leads_to_def link_at_def dir_at_iff)

definition real_dir :: "fs \<Rightarrow> path \<Rightarrow> path \<Rightarrow> bool" where
  "real_dir fs r R \<longleftrightarrow> physical fs False r = Some R \<and> dir_at fs R"

lemma real_dir_step:
  assumes "real_dir fs r R" "normal c"
  shows "physical fs False (r @ [c]) = Some (R @ [c])"
    and "\<not> (\<exists>n. node_at fs (R @ [c]) = Some n \<and> is_link n) \<Longrightarrow> physical fs True (r @ [c]) = Some (R @ [c])"
  using assms leads_to_step [of fs False r R c] by (auto simp: real_dir_def link_at_def split: option.splits)

lemma real_dir_lstat: "real_dir fs r R \<Longrightarrow> normal c \<Longrightarrow> lstatSync fs (r @ [c]) = node_at fs (R @ [c])"
  by (simp add: lstatSync_def real_dir_step)

lemma real_dir_exists:
  "real_dir fs r R \<Longrightarrow> normal c \<Longrightarrow> node_at fs (R @ [c]) = None \<Longrightarrow> \<not> existsSync fs (r @ [c])"
  "real_dir fs r R \<Longrightarrow> normal c \<Longrightarrow> node_at fs (R @ [c]) = Some n \<Longrightarrow> \<not> is_link n \<Longrightarrow> existsSync fs (r @ [c])"
  by (simp_all add: existsSync_def statSync_def real_dir_step)

lemma real_dir_child: "real_dir fs r R \<Longrightarrow> normal c \<Longrightarrow> dir_at fs (R @ [c]) \<Longrightarrow> real_dir fs (r @ [c]) (R @ [c])"
  by (simp add: real_dir_def real_dir_step)

text \<open>A new node that is not a link does not disturb a walk.\<close>

lemma namei_put:
  assumes "namei k fs follow cur cs = Some d" "node_at fs q = None" "q \<noteq> []" "\<not> is_link n"
  shows "namei k (put q n fs) follow cur cs = Some d"
  using assms
proof (induction k fs follow cur cs rule: namei.induct)
  case (2 k fs follow cur c cs)
  consider "c = [] \<or> c = ''.''" | "c = ''..''" | "normal c" by (auto simp: normal_def)
  then show ?case
  proof cases
    case 3
    then have c: "\<not> (c = [] \<or> c = ''.'')" "c \<noteq> ''..''" by (auto simp: normal_def)
    show ?thesis
    proof (cases "node_at fs (cur @ [c])")
      case (Some m)
      then show ?thesis
        using c "2.IH"(3,4) "2.prems" by (cases m) (auto split: if_splits nat.splits)
    next
      case None
      then show ?thesis using c "2.prems" by (cases n) (auto split: if_splits)
    qed
  qed (use "2.IH"(1,2) "2.prems" in auto)
qed simp

lemma real_dir_put:
  assumes "real_dir fs r R" "node_at fs q = None" "q \<noteq> []" "\<not> is_link n"
  shows "real_dir (put q n fs) r R"
  using assms unfolding real_dir_def physical_def by (auto simp: namei_put dir_at_def)

subsection \<open>Moving and removing trees\<close>

lemma mem_node_at: "fs_ok fs \<Longrightarrow> (p, n) \<in> set fs \<longleftrightarrow> p \<noteq> [] \<and> node_at fs p = Some n"
  using fs_ok_keys [of fs] by (force simp: node_at_def)

lemma node_at_remove_tree: "q \<noteq> [] \<Longrightarrow> node_at (remove_tree q fs) r = (if prefix q r then None else node_at fs r)"
proof -
  have "map_of (remove_tree q fs) r = (if prefix q r then None else map_of fs r)"
    by (induction fs) (auto simp: remove_tree_def)
  then show "q \<noteq> [] \<Longrightarrow> ?thesis" by (auto simp: node_at_def)
qed

lemma remove_tree_keys: "fs_ok fs \<Longrightarrow> distinct (map fst (remove_tree q fs)) \<and> [] \<notin> fst ` set (remove_tree q fs)"
  using fs_ok_keys [of fs] by (auto simp: remove_tree_def distinct_map inj_on_def)

lemma prefix_butlastD: "prefix q (butlast p) \<Longrightarrow> prefix q p"
  by (cases p rule: rev_cases) auto

lemma prefix_butlastI: "prefix q p \<Longrightarrow> q \<noteq> p \<Longrightarrow> prefix q (butlast p)"
  by (cases p rule: rev_cases) auto

lemma fs_ok_remove_tree:
  assumes "fs_ok fs" "q \<noteq> []"
  shows "fs_ok (remove_tree q fs)"
  unfolding fs_ok_nodes [OF remove_tree_keys [OF assms(1), THEN conjunct1] remove_tree_keys [OF assms(1), THEN conjunct2]]
  using fs_ok_parent [OF assms(1)] assms(2)
  by (auto simp: node_at_remove_tree dir_at_def split: if_splits dest: prefix_butlastD)

lemma move_tree_keys:
  assumes "fs_ok fs" "\<not> prefix s d" "\<not> prefix d s"
  shows "distinct (map fst (move_tree s d fs)) \<and> [] \<notin> fst ` set (move_tree s d fs)"
proof -
  let ?f = "\<lambda>r. if prefix s r then d @ drop (length s) r else r"
  have k: "map fst (move_tree s d fs) = map ?f (map fst (remove_tree d fs))"
    by (simp add: move_tree_def case_prod_unfold)
  have "inj_on ?f (fst ` set (remove_tree d fs))"
    by (rule inj_onI) (auto simp: prefix_def remove_tree_def split: if_splits)
  then have "distinct (map ?f (map fst (remove_tree d fs)))"
    using remove_tree_keys [OF assms(1), of d] by (simp add: distinct_map comp_inj_on)
  moreover have "[] \<notin> ?f ` fst ` set (remove_tree d fs)"
    using remove_tree_keys [OF assms(1), of d] assms(3) by auto
  ultimately show ?thesis unfolding k by (metis k list.set_map)
qed

lemma mem_move_tree:
  assumes "fs_ok fs" "\<not> prefix s d" "\<not> prefix d s"
  shows "(q, n) \<in> set (move_tree s d fs) \<longleftrightarrow>
    (if prefix d q then (s @ drop (length d) q, n) \<in> set fs else \<not> prefix s q \<and> (q, n) \<in> set fs)"
proof -
  let ?f = "\<lambda>r. if prefix s r then d @ drop (length s) r else r"
  have e: "(q, n) \<in> set (move_tree s d fs) \<longleftrightarrow> (\<exists>r. (r, n) \<in> set fs \<and> \<not> prefix d r \<and> q = ?f r)"
    by (auto simp: move_tree_def remove_tree_def image_iff)
  show ?thesis
  proof (cases "prefix d q")
    case True
    then obtain t where t: "q = d @ t" by (auto simp: prefix_def)
    have "\<not> prefix d (s @ t)" using assms(2,3) prefix_same_cases [of d "s @ t" s] by auto
    moreover have "r = s @ t" if "\<not> prefix d r" "q = ?f r" for r
      using that t by (auto simp: prefix_def split: if_splits)
    moreover have "q = ?f (s @ t)" using t by simp
    ultimately have "(q, n) \<in> set (move_tree s d fs) \<longleftrightarrow> (s @ t, n) \<in> set fs" unfolding e by blast
    with t show ?thesis by simp
  next
    case False
    then have "q = ?f r \<longleftrightarrow> r = q \<and> \<not> prefix s q" for r by auto
    with False show ?thesis unfolding e by auto
  qed
qed

lemma node_at_move_tree:
  assumes "fs_ok fs" "\<not> prefix s d" "\<not> prefix d s"
  shows "node_at (move_tree s d fs) q =
    (if prefix d q then node_at fs (s @ drop (length d) q) else if prefix s q then None else node_at fs q)"
proof (cases "q = []")
  case True
  then show ?thesis using assms by auto
next
  case False
  have "node_at (move_tree s d fs) q = Some n \<longleftrightarrow> (q, n) \<in> set (move_tree s d fs)" for n
    using False move_tree_keys [OF assms] by (simp add: node_at_def)
  then have "node_at (move_tree s d fs) q = Some n \<longleftrightarrow>
    (if prefix d q then node_at fs (s @ drop (length d) q) else if prefix s q then None else node_at fs q) = Some n" for n
    using False assms by (auto simp: mem_move_tree mem_node_at)
  then show ?thesis by (metis not_None_eq)
qed

lemma fs_ok_move_tree:
  assumes "fs_ok fs" "\<not> prefix s d" "\<not> prefix d s" "dir_at fs (butlast d)" "node_at fs s \<noteq> None"
  shows "fs_ok (move_tree s d fs)"
proof -
  note k = move_tree_keys [OF assms(1-3), THEN conjunct1] move_tree_keys [OF assms(1-3), THEN conjunct2]
  note n = node_at_move_tree [OF assms(1-3)]
  have "dir_at (move_tree s d fs) (butlast q)" if q: "q \<noteq> []" "node_at (move_tree s d fs) q \<noteq> None" for q
  proof (cases "prefix d q")
    case True
    then obtain r where r: "q = d @ r" by (auto simp: prefix_def)
    show ?thesis
    proof (cases "r = []")
      case True
      have "d \<noteq> []" using assms(3) by auto
      then have "\<not> prefix d (butlast d)" by (metis append_butlast_last_id not_Cons_self2 prefix_order.antisym prefixI append_self_conv)
      moreover have "\<not> prefix s (butlast d)" using assms(2) prefix_butlastD by blast
      ultimately show ?thesis using r True assms(4) by (simp add: dir_at_def n)
    next
      case False
      with r q have "dir_at fs (butlast (s @ r))" using fs_ok_parent [OF assms(1), of "s @ r"] by (simp add: n)
      with r False show ?thesis by (simp add: dir_at_def n butlast_append)
    qed
  next
    case False
    with q have "\<not> prefix s q" "dir_at fs (butlast q)" using fs_ok_parent [OF assms(1)] by (auto simp: n split: if_splits)
    with False show ?thesis by (auto simp: dir_at_def n dest: prefix_butlastD)
  qed
  then show ?thesis unfolding fs_ok_nodes [OF k] by blast
qed

lemma fs_ok_mkdirSync: "fs_ok fs \<Longrightarrow> mkdirSync a p fs = Some fs' \<Longrightarrow> fs_ok fs'"
  by (auto simp: mkdirSync_def intro!: fs_ok_put dest: physical_parent split: option.splits if_splits)

lemma fs_ok_mkdir_prefixes: "fs_ok fs \<Longrightarrow> mkdir_prefixes a p cs fs = Some fs' \<Longrightarrow> fs_ok fs'"
  by (induction a p cs fs rule: mkdir_prefixes.induct)
    (auto split: option.splits if_splits dest: fs_ok_mkdirSync)

lemma fs_ok_unlinkSync: "fs_ok fs \<Longrightarrow> unlinkSync p fs = Some fs' \<Longrightarrow> fs_ok fs'"
  by (auto simp: unlinkSync_def dir_at_def root_node_def intro!: fs_ok_del split: option.splits if_splits)

text \<open>Below something that is not a directory there is nothing.\<close>

lemma no_nodes_below:
  assumes "fs_ok fs" "\<not> dir_at fs p"
  shows "r \<noteq> [] \<Longrightarrow> node_at fs (p @ r) = None"
proof (induction r rule: rev_induct)
  case (snoc c r)
  then have "\<not> dir_at fs (p @ r)" using assms(2) by (cases "r = []") (auto simp: dir_at_def)
  then show ?case using fs_ok_parent [OF assms(1), of "(p @ r) @ [c]"] by (cases "node_at fs (p @ r @ [c])") (auto simp: butlast_append)
qed simp

lemma renameSync_cases:
  assumes "renameSync p p' fs = Some fs'"
  obtains s d n where "physical fs False p = Some s" "physical fs False p' = Some d" "node_at fs s = Some n"
    "fs' = fs \<or> (fs' = move_tree s d fs \<and> \<not> prefix s d \<and> (node_at fs d = None \<or> \<not> prefix d s))"
proof -
  from assms obtain s d where sd: "physical fs False p = Some s" "physical fs False p' = Some d"
    by (auto simp: renameSync_def split: option.splits)
  with assms obtain n where n: "node_at fs s = Some n" by (cases "node_at fs s") (auto simp: renameSync_def)
  have "fs' = fs \<or> (fs' = move_tree s d fs \<and> \<not> prefix s d \<and> (node_at fs d = None \<or> \<not> prefix d s))"
    using assms by (cases "node_at fs d") (auto simp: renameSync_def sd n split: if_splits)
  with sd n that show thesis by blast
qed

lemma fs_ok_renameSync:
  assumes "fs_ok fs" "renameSync p p' fs = Some fs'"
  shows "fs_ok fs'"
proof -
  from assms(2) obtain s d n where sd: "physical fs False p = Some s" "physical fs False p' = Some d" "node_at fs s = Some n"
    "fs' = fs \<or> (fs' = move_tree s d fs \<and> \<not> prefix s d \<and> (node_at fs d = None \<or> \<not> prefix d s))"
    by (rule renameSync_cases)
  have "\<not> prefix d s" if "node_at fs d = None"
  proof
    assume "prefix d s"
    then obtain r where "s = d @ r" by (auto simp: prefix_def)
    with that sd(3) no_nodes_below [OF assms(1), of d r] show False by (cases r) (auto simp: dir_at_def)
  qed
  with sd assms(1) physical_parent [OF assms(1) sd(2)] show ?thesis by (auto intro!: fs_ok_move_tree)
qed

subsection \<open>Walks after a file has been put in place\<close>

text \<open>Where nodes that are no directories became something that is neither directory nor link, a walk
  leads to the same place or nowhere.\<close>

lemma namei_changed:
  assumes "namei k fs False cur cs = Some d"
    "\<And>q. node_at fs' q = node_at fs q \<or> \<not> dir_at fs q \<and> \<not> dir_at fs' q \<and> \<not> link_at fs' q"
  shows "namei k fs' False cur cs = Some d \<or> namei k fs' False cur cs = None"
  using assms
proof (induction k fs "False" cur cs rule: namei.induct)
  case (2 k fs cur c cs)
  consider "c = [] \<or> c = ''.''" | "c = ''..''" | "normal c" by (auto simp: normal_def)
  then show ?case
  proof cases
    case 3
    then have c: "\<not> (c = [] \<or> c = ''.'')" "c \<noteq> ''..''" by (auto simp: normal_def)
    show ?thesis
    proof (cases "node_at fs' (cur @ [c]) = node_at fs (cur @ [c])")
      case True
      then show ?thesis using c "2.hyps"(3,4) "2.prems"
        by (cases "node_at fs (cur @ [c])"; cases "the (node_at fs (cur @ [c]))") (auto split: if_splits nat.splits)
    next
      case False
      then have "\<not> dir_at fs (cur @ [c])" "\<not> dir_at fs' (cur @ [c])" "\<not> link_at fs' (cur @ [c])" using "2.prems"(2) by blast+
      then show ?thesis using c "2.prems"(1)
        by (auto simp: dir_at_def link_at_def split: option.splits node.splits if_splits)
    qed
  qed (use "2.hyps"(1,2) "2.prems" in auto)
qed simp

lemma namei_follow: "namei k fs False cur cs = Some q \<Longrightarrow> \<not> link_at fs q \<Longrightarrow> namei k fs True cur cs = Some q"
proof (induction k fs "False" cur cs rule: namei.induct)
  case (2 k fs cur c cs)
  consider "c = [] \<or> c = ''.''" | "c = ''..''" | "normal c" by (auto simp: normal_def)
  then show ?case
  proof cases
    case 3
    then have c: "\<not> (c = [] \<or> c = ''.'')" "c \<noteq> ''..''" by (auto simp: normal_def)
    then show ?thesis using "2.hyps"(3,4) "2.prems"
      by (cases "node_at fs (cur @ [c])"; cases "the (node_at fs (cur @ [c]))") (auto simp: link_at_def split: if_splits nat.splits)
  qed (use "2.hyps"(1,2) "2.prems" in auto)
qed simp

lemma lstat_not_link: "lstatSync fs p = Some l \<Longrightarrow> \<not> is_link l \<Longrightarrow> statSync fs p = Some l"
  using namei_follow [of MAXSYMLINKS fs "[]" p]
  by (auto simp: lstatSync_def statSync_def physical_def link_at_def split: bind_splits)

lemma namei_None_append: "namei k fs False cur cs = None \<Longrightarrow> namei k fs follow cur (cs @ ds) = None"
proof (induction k fs "False" cur cs rule: namei.induct)
  case (2 k fs cur c cs)
  consider "c = [] \<or> c = ''.''" | "c = ''..''" | "normal c" by (auto simp: normal_def)
  then show ?case
  proof cases
    case 3
    then have c: "\<not> (c = [] \<or> c = ''.'')" "c \<noteq> ''..''" by (auto simp: normal_def)
    then show ?thesis using "2.hyps"(3,4) "2.prems"
      by (cases "node_at fs (cur @ [c])"; cases "the (node_at fs (cur @ [c]))") (auto split: if_splits nat.splits)
  qed (use "2.hyps"(1,2) "2.prems" in auto)
qed simp

lemma real_dir_changed:
  assumes "real_dir fs r R"
    "\<And>q. node_at fs' q = node_at fs q \<or> \<not> dir_at fs q \<and> \<not> dir_at fs' q \<and> \<not> link_at fs' q"
  shows "real_dir fs' r R \<or> (\<forall>follow x. physical fs' follow (r @ [x]) = None)"
proof -
  have "physical fs' False r = Some R \<or> physical fs' False r = None"
    using assms unfolding real_dir_def physical_def by (intro namei_changed) blast+
  moreover have "dir_at fs' R" using assms(1) assms(2) [of R] by (auto simp: real_dir_def dir_at_def)
  ultimately show ?thesis by (auto simp: real_dir_def physical_def namei_None_append)
qed

end
