(* ===== verification/Files.thy ===== *)
theory Files
  imports File_System Interfaces
begin

section \<open>File operations\<close>

text \<open>
  Models \<^verbatim>\<open>src/src/files/manager.ts\<close>: every operation of \<open>FileManager\<close> over the file system of
  \<open>File_System\<close>. An operation gives the file system it leaves behind, also when it throws. File
  contents are bytes: the base64 or UTF-8 text they travel in is not modelled, nor are the
  permissions a call may lack. Offsets and limits are natural numbers. The theorems show that
  \<open>replace\<close> never changes anything outside the physical root it was given and is a
  compare-and-swap, that every operation keeps the file system a tree, that an untruncated listing
  is complete and exact, and what \<open>read\<close> returns through a symbolic link.
\<close>

record file_env =
  fe_cwd :: path
  fe_sha256 :: "byte list \<Rightarrow> string"
  fe_umask :: "nat \<Rightarrow> nat"
  fe_uid :: int
  fe_gid :: int
  fe_now :: int
  fe_device :: "path \<Rightarrow> nat \<Rightarrow> nat \<Rightarrow> byte list"
  fe_ioMessage :: string

definition io_error :: "file_env \<Rightarrow> thrown" where
  "io_error env = ErrorMessage (fe_ioMessage env)"

definition new_attr :: "file_env \<Rightarrow> nat \<Rightarrow> attributes" where
  "new_attr env mode = \<lparr>nd_mode = fe_umask env mode, nd_uid = fe_uid env, nd_gid = fe_gid env, nd_mtime = fe_now env\<rparr>"

subsection \<open>Paths\<close>

definition assertSafePath :: "file_env \<Rightarrow> string \<Rightarrow> (thrown, path) result" where
  "assertSafePath env path =
     (let resolved = resolve (fe_cwd env) path in
      if CHR 0x00 \<in> set (concat resolved) then Inl (op_error ''invalid_path'' ''Path contains null byte'' None)
      else Inr resolved)"

text \<open>\<open>relative\<close> gives an absolute path on Windows only.\<close>

definition isWithinRoot :: "path \<Rightarrow> path \<Rightarrow> bool" where
  "isWithinRoot root path \<longleftrightarrow> (let rel = relative root path in rel \<noteq> [] \<and> hd rel \<noteq> ''..'')"

definition sha256File :: "file_env \<Rightarrow> path \<Rightarrow> fs \<Rightarrow> (thrown, string) result" where
  "sha256File env path fs =
     (case statSync fs path of Some (FileN c a) \<Rightarrow> Inr (fe_sha256 env c) | _ \<Rightarrow> Inl (io_error env))"

definition not_real_dir :: "path \<Rightarrow> thrown" where
  "not_real_dir p = op_error ''unsafe_path'' (''Path component is not a real directory: '' @ path_str p) None"

definition ensure_component :: "file_env \<Rightarrow> bool \<Rightarrow> path \<Rightarrow> fs \<Rightarrow> (thrown, fs) result" where
  "ensure_component env createParents current fs =
     (if existsSync fs current then Inr fs
      else if \<not> createParents then
        Inl (op_error ''parent_not_found'' (''Parent directory does not exist: '' @ path_str current) None)
      else case mkdirSync (new_attr env 488) current fs of None \<Rightarrow> Inl (io_error env) | Some fs' \<Rightarrow> Inr fs')"

fun check_components :: "file_env \<Rightarrow> bool \<Rightarrow> path \<Rightarrow> path \<Rightarrow> fs \<Rightarrow> fs \<times> (thrown, unit) result" where
  "check_components env createParents current [] fs = (fs, Inr ())"
| "check_components env createParents current (component # components) fs =
     (case ensure_component env createParents (current @ [component]) fs of
        Inl e \<Rightarrow> (fs, Inl e)
      | Inr fs' \<Rightarrow>
          (case lstatSync fs' (current @ [component]) of
             None \<Rightarrow> (fs', Inl (io_error env))
           | Some n \<Rightarrow>
               if is_link n \<or> \<not> is_dir n then (fs', Inl (not_real_dir (current @ [component])))
               else check_components env createParents (current @ [component]) components fs'))"

definition assertNoSymlinkComponents :: "file_env \<Rightarrow> path \<Rightarrow> path \<Rightarrow> bool \<Rightarrow> fs \<Rightarrow> fs \<times> (thrown, unit) result" where
  "assertNoSymlinkComponents env root targetParent createParents fs =
     (case lstatSync fs root of
        None \<Rightarrow> (fs, Inl (io_error env))
      | Some n \<Rightarrow>
          if \<not> is_dir n \<or> is_link n then (fs, Inl (op_error ''unsafe_path'' ''Confinement root must be a real directory'' None))
          else check_components env createParents root (relative root targetParent) fs)"

subsection \<open>Reading\<close>

primrec node_attr :: "node \<Rightarrow> attributes" where
  "node_attr (FileN c a) = a"
| "node_attr (DirN n a) = a"
| "node_attr (LinkN t a) = a"
| "node_attr (OtherN k n a) = a"

primrec node_size :: "node \<Rightarrow> nat" where
  "node_size (FileN c a) = length c"
| "node_size (DirN n a) = n"
| "node_size (LinkN t a) = length t"
| "node_size (OtherN k n a) = n"

text \<open>The type bits of \<open>st_mode\<close>, then the permission bits.\<close>

primrec type_bits :: "node \<Rightarrow> nat" where
  "type_bits (FileN c a) = 32768"
| "type_bits (DirN n a) = 16384"
| "type_bits (LinkN t a) = 40960"
| "type_bits (OtherN k n a) = k"

primrec type_name :: "node \<Rightarrow> string" where
  "type_name (FileN c a) = ''file''"
| "type_name (DirN n a) = ''directory''"
| "type_name (LinkN t a) = ''symlink''"
| "type_name (OtherN k n a) = ''other''"

record file_details =
  fd_type :: string
  fd_size :: nat
  fd_mode :: nat
  fd_uid :: int
  fd_gid :: int
  fd_mtime :: string
  fd_sha256 :: "string option"

record file_stat_result =
  fr_path :: string
  fr_details :: "file_details option"

definition file_stat :: "file_env \<Rightarrow> string \<Rightarrow> fs \<Rightarrow> (thrown, file_stat_result) result" where
  "file_stat env path fs =
     res_bind (assertSafePath env path) (\<lambda>p.
     if \<not> existsSync fs p then Inr \<lparr>fr_path = path_str p, fr_details = None\<rparr>
     else case lstatSync fs p of
       None \<Rightarrow> Inl (io_error env)
     | Some n \<Rightarrow>
         res_bind (if is_file n \<and> node_size n \<le> 10 * 1024 * 1024 then (case sha256File env p fs of Inl e \<Rightarrow> Inl e | Inr h \<Rightarrow> Inr (Some h))
                   else Inr None) (\<lambda>sha256.
         Inr \<lparr>fr_path = path_str p, fr_details = Some
           \<lparr>fd_type = type_name n, fd_size = node_size n, fd_mode = type_bits n + nd_mode (node_attr n),
            fd_uid = nd_uid (node_attr n), fd_gid = nd_gid (node_attr n), fd_mtime = to_iso (nd_mtime (node_attr n)),
            fd_sha256 = sha256\<rparr>\<rparr>))"

record file_chunk =
  fc_data :: "byte list"
  fc_offset :: nat
  fc_eof :: bool

text \<open>What \<open>readSync\<close> puts into a buffer of zeros; a directory cannot be read.\<close>

definition read_into :: "file_env \<Rightarrow> path \<Rightarrow> node \<Rightarrow> nat \<Rightarrow> nat \<Rightarrow> (thrown, byte list) result" where
  "read_into env q n toRead offset =
     (case n of
        FileN c a \<Rightarrow> (let got = take toRead (drop offset c) in Inr (got @ replicate (toRead - length got) 0))
      | OtherN k m a \<Rightarrow> (let got = take toRead (fe_device env q toRead offset) in Inr (got @ replicate (toRead - length got) 0))
      | _ \<Rightarrow> Inl (io_error env))"

definition FILE_READ_MAX_CHUNK :: nat where "FILE_READ_MAX_CHUNK = 64 * 1024"

definition file_read :: "file_env \<Rightarrow> string \<Rightarrow> nat option \<Rightarrow> nat option \<Rightarrow> fs \<Rightarrow> (thrown, file_chunk) result" where
  "file_read env path offset limit fs =
     res_bind (assertSafePath env path) (\<lambda>p.
     let offset = nullish offset 0; limit = min (nullish limit FILE_READ_MAX_CHUNK) FILE_READ_MAX_CHUNK in
     case (physical fs True p, statSync fs p, lstatSync fs p) of
       (Some q, Some n, Some l) \<Rightarrow>
         let available = node_size l - offset; toRead = min limit available in
         res_bind (if toRead > 0 then read_into env q n toRead offset else Inr []) (\<lambda>buf.
         Inr \<lparr>fc_data = buf, fc_offset = offset + toRead, fc_eof = (offset + toRead \<ge> node_size l)\<rparr>)
     | _ \<Rightarrow> Inl (io_error env))"

subsection \<open>Writing\<close>

text \<open>\<open>writeFileSync(path)\<close> and a positioned write through a descriptor opened with \<open>r+\<close>. What is written to a
  device leaves the file system as it is.\<close>

definition touch :: "file_env \<Rightarrow> attributes \<Rightarrow> attributes" where
  "touch env a = a\<lparr>nd_mtime := fe_now env\<rparr>"

definition writeFileSync :: "file_env \<Rightarrow> path \<Rightarrow> byte list \<Rightarrow> fs \<Rightarrow> fs option" where
  "writeFileSync env p data fs =
     (case physical fs True p of
        None \<Rightarrow> None
      | Some q \<Rightarrow>
          (case node_at fs q of
             None \<Rightarrow> Some (put q (FileN data (new_attr env 438)) fs)
           | Some (FileN c a) \<Rightarrow> Some (put q (FileN data (touch env a)) fs)
           | Some (OtherN k n a) \<Rightarrow> Some fs
           | _ \<Rightarrow> None))"

definition write_existing :: "file_env \<Rightarrow> path \<Rightarrow> (byte list \<Rightarrow> byte list) \<Rightarrow> fs \<Rightarrow> fs option" where
  "write_existing env p change fs =
     (case physical fs True p of
        None \<Rightarrow> None
      | Some q \<Rightarrow>
          (case node_at fs q of
             Some (FileN c a) \<Rightarrow> Some (put q (FileN (change c) (touch env a)) fs)
           | Some (OtherN k n a) \<Rightarrow> Some fs
           | _ \<Rightarrow> None))"

definition mkdir_recursive :: "file_env \<Rightarrow> path \<Rightarrow> fs \<Rightarrow> fs option" where
  "mkdir_recursive env p fs = mkdir_prefixes (new_attr env 511) [] p fs"

definition or_io :: "file_env \<Rightarrow> fs \<Rightarrow> 'a \<Rightarrow> fs option \<Rightarrow> fs \<times> (thrown, 'a) result" where
  "or_io env fs v r = (case r of None \<Rightarrow> (fs, Inl (io_error env)) | Some fs' \<Rightarrow> (fs', Inr v))"

definition file_write ::
  "file_env \<Rightarrow> string \<Rightarrow> byte list \<Rightarrow> nat option \<Rightarrow> bool option \<Rightarrow> fs \<Rightarrow> fs \<times> (thrown, path \<times> nat) result" where
  "file_write env path buf offset create fs =
     (case assertSafePath env path of
        Inl e \<Rightarrow> (fs, Inl e)
      | Inr p \<Rightarrow>
          if nullish offset 0 > 0 then
            or_io env fs (p, length buf) (write_existing env p (write_at (nullish offset 0) buf) fs)
          else
            (case (if create \<noteq> Some False then mkdir_recursive env (butlast p) fs else Some fs) of
               None \<Rightarrow> (fs, Inl (io_error env))
             | Some fs \<Rightarrow> or_io env fs (p, length buf) (writeFileSync env p buf fs)))"

subsection \<open>Replacing\<close>

record file_replace_payload =
  rp_root :: string
  rp_path :: string
  rp_data :: "byte list"
  rp_expectedSha256 :: "string option"
  rp_expectedAbsent :: "bool option"
  rp_preserveMode :: "bool option"
  rp_durable :: "bool option"
  rp_createParents :: "bool option"

record file_replace_result =
  rr_path :: path
  rr_bytesWritten :: nat
  rr_created :: bool
  rr_previousSha256 :: "string option"
  rr_sha256 :: string
  rr_durable :: bool

text \<open>Where the operating system may fail once the checks are done.\<close>

datatype replace_fault = ReplaceOk | OpenFails | WriteFails | RenameFails | DirSyncFails

text \<open>\<open>chown\<close> takes the set-user-ID bit away, and the set-group-ID bit of a group-executable file.\<close>

definition chown_mode :: "nat \<Rightarrow> nat" where
  "chown_mode m = m - (if odd (m div 2048) then 2048 else 0) - (if odd (m div 1024) \<and> odd (m div 8) then 1024 else 0)"

definition temporary_path :: "string \<Rightarrow> path \<Rightarrow> path" where
  "temporary_path uuid path = butlast path @ [''.'' @ last path @ ''.baby-quirt-'' @ uuid @ ''.tmp'']"

definition cleanup :: "path \<Rightarrow> fs \<Rightarrow> fs option" where
  "cleanup temporary fs = (if existsSync fs temporary then unlinkSync temporary fs else Some fs)"

definition replaced_attr :: "file_env \<Rightarrow> bool option \<Rightarrow> attributes option \<Rightarrow> attributes" where
  "replaced_attr env preserveMode previous =
     (case previous of
        Some a \<Rightarrow>
          if preserveMode = Some False then new_attr env 384
          else (new_attr env (nd_mode a mod 4096))\<lparr>nd_mode := chown_mode (nd_mode a mod 4096), nd_uid := nd_uid a, nd_gid := nd_gid a\<rparr>
      | None \<Rightarrow> new_attr env 384)"

text \<open>From \<open>openSync\<close> to the end of the \<open>finally\<close> block.\<close>

definition open_temporary :: "replace_fault \<Rightarrow> path \<Rightarrow> byte list \<Rightarrow> attributes \<Rightarrow> fs \<Rightarrow> fs option" where
  "open_temporary fault temporary data a fs =
     (case physical fs False temporary of
        None \<Rightarrow> None
      | Some q \<Rightarrow> if node_at fs q \<noteq> None \<or> fault = OpenFails then None else Some (put q (FileN data a) fs))"

definition abandon :: "file_env \<Rightarrow> path \<Rightarrow> fs \<Rightarrow> fs \<times> (thrown, unit) result" where
  "abandon env temporary fs = (case cleanup temporary fs of None \<Rightarrow> fs | Some fs' \<Rightarrow> fs', Inl (io_error env))"

definition swap_in ::
  "file_env \<Rightarrow> replace_fault \<Rightarrow> bool \<Rightarrow> path \<Rightarrow> path \<Rightarrow> byte list \<Rightarrow> attributes \<Rightarrow> fs \<Rightarrow> fs \<times> (thrown, unit) result" where
  "swap_in env fault durable temporary path data a fs =
     (case open_temporary fault temporary data a fs of
        None \<Rightarrow> abandon env temporary fs
      | Some fs \<Rightarrow>
          if fault = WriteFails \<or> fault = RenameFails then abandon env temporary fs
          else (case renameSync temporary path fs of
                  None \<Rightarrow> abandon env temporary fs
                | Some fs \<Rightarrow>
                    if durable \<and> fault = DirSyncFails then abandon env temporary fs
                    else or_io env fs () (cleanup temporary fs)))"

text \<open>What is at the target: nothing, or the digest and the attributes of a regular file.\<close>

definition previous_file :: "file_env \<Rightarrow> path \<Rightarrow> fs \<Rightarrow> (thrown, (string \<times> attributes) option) result" where
  "previous_file env path fs =
     (if \<not> existsSync fs path then Inr None
      else case lstatSync fs path of
        None \<Rightarrow> Inl (io_error env)
      | Some n \<Rightarrow>
          if is_link n \<or> \<not> is_file n then
            Inl (op_error ''unsafe_path'' ''Target must be a regular file and not a symlink'' None)
          else (case sha256File env path fs of Inl e \<Rightarrow> Inl e | Inr h \<Rightarrow> Inr (Some (h, node_attr n))))"

definition check_precondition :: "file_replace_payload \<Rightarrow> string option \<Rightarrow> (thrown, unit) result" where
  "check_precondition rp previousSha256 =
     res_bind (check (\<not> (rp_expectedAbsent rp = Some True \<and> previousSha256 \<noteq> None))
       (op_error ''precondition_failed'' ''Target already exists''
         (Some [(''expectedAbsent'', JBool True), (''actualSha256'', JStr (nullish previousSha256 []))]))) (\<lambda>_.
     check (\<not> truthy (rp_expectedSha256 rp) \<or> previousSha256 = rp_expectedSha256 rp)
       (op_error ''precondition_failed'' ''Target SHA-256 does not match''
         (Some [(''expectedSha256'', JStr (nullish (rp_expectedSha256 rp) [])),
           (''actualSha256'', case previousSha256 of None \<Rightarrow> JNull | Some h \<Rightarrow> JStr h)])))"

definition replace_paths :: "file_env \<Rightarrow> file_replace_payload \<Rightarrow> (thrown, path \<times> path) result" where
  "replace_paths env rp =
     res_bind (check (rp_root rp \<noteq> [] \<and> rp_path rp \<noteq> []) (op_error ''invalid_request'' ''root and path are required'' None)) (\<lambda>_.
     res_bind (check (\<not> (rp_expectedAbsent rp = Some True \<and> truthy (rp_expectedSha256 rp)))
       (op_error ''invalid_request'' ''expectedAbsent and expectedSha256 cannot be used together'' None)) (\<lambda>_.
     res_bind (assertSafePath env (rp_root rp)) (\<lambda>root.
     let path = (if isAbsolute (rp_path rp) then resolve (fe_cwd env) (rp_path rp) else resolve_from root (rp_path rp)) in
     res_bind (check (CHR 0x00 \<notin> set (concat path)) (op_error ''invalid_path'' ''Path contains null byte'' None)) (\<lambda>_.
     res_bind (check (isWithinRoot root path) (op_error ''path_outside_root'' ''Target path must be strictly beneath root''
       (Some [(''root'', JStr (path_str root)), (''path'', JStr (path_str path))]))) (\<lambda>_.
     Inr (root, path))))))"

definition replace_target ::
  "file_env \<Rightarrow> string \<Rightarrow> replace_fault \<Rightarrow> file_replace_payload \<Rightarrow> path \<Rightarrow> fs \<Rightarrow> fs \<times> (thrown, file_replace_result) result" where
  "replace_target env uuid fault rp path fs =
     (case res_bind (previous_file env path fs) (\<lambda>previous.
             res_bind (check_precondition rp (map_option fst previous)) (\<lambda>_. Inr previous)) of
        Inl e \<Rightarrow> (fs, Inl e)
      | Inr previous \<Rightarrow>
          (case swap_in env fault (nullish (rp_durable rp) True) (temporary_path uuid path) path (rp_data rp)
                  (replaced_attr env (rp_preserveMode rp) (map_option snd previous)) fs of
             (fs, Inl e) \<Rightarrow> (fs, Inl e)
           | (fs, Inr _) \<Rightarrow>
               (fs, res_bind (sha256File env path fs) (\<lambda>sha256.
                  Inr \<lparr>rr_path = path, rr_bytesWritten = length (rp_data rp), rr_created = (previous = None),
                       rr_previousSha256 = (if truthy (map_option fst previous) then map_option fst previous else None),
                       rr_sha256 = sha256, rr_durable = nullish (rp_durable rp) True\<rparr>))))"

definition file_replace ::
  "file_env \<Rightarrow> string \<Rightarrow> replace_fault \<Rightarrow> file_replace_payload \<Rightarrow> fs \<Rightarrow> fs \<times> (thrown, file_replace_result) result" where
  "file_replace env uuid fault rp fs =
     (case replace_paths env rp of
        Inl e \<Rightarrow> (fs, Inl e)
      | Inr (root, path) \<Rightarrow>
          (case assertNoSymlinkComponents env root (butlast path) (nullish (rp_createParents rp) False) fs of
             (fs, Inl e) \<Rightarrow> (fs, Inl e)
           | (fs, Inr _) \<Rightarrow> replace_target env uuid fault rp path fs))"

subsection \<open>The other operations\<close>

text \<open>A write of a patch may fail (\<open>fault\<close> gives its position): the earlier ones stay.\<close>

definition apply_patches :: "nat option \<Rightarrow> (nat \<times> byte list) list \<Rightarrow> byte list \<Rightarrow> byte list" where
  "apply_patches fault patches content =
     fold (\<lambda>(offset, data). write_at offset data) (case fault of None \<Rightarrow> patches | Some k \<Rightarrow> take k patches) content"

definition file_patch ::
  "file_env \<Rightarrow> nat option \<Rightarrow> string \<Rightarrow> (nat \<times> byte list) list \<Rightarrow> fs \<Rightarrow> fs \<times> (thrown, path \<times> nat) result" where
  "file_patch env fault path patches fs =
     (case assertSafePath env path of
        Inl e \<Rightarrow> (fs, Inl e)
      | Inr p \<Rightarrow>
          (case write_existing env p (apply_patches fault patches) fs of
             None \<Rightarrow> (fs, Inl (io_error env))
           | Some fs' \<Rightarrow>
               (fs', case fault of
                       Some k \<Rightarrow> if k < length patches then Inl (io_error env) else Inr (p, length patches)
                     | None \<Rightarrow> Inr (p, length patches))))"

text \<open>\<open>copyFileSync\<close>: a file copied to itself stays; the destination takes the mode of the source.\<close>

definition copyFileSync :: "file_env \<Rightarrow> path \<Rightarrow> path \<Rightarrow> fs \<Rightarrow> fs option" where
  "copyFileSync env source destination fs =
     (case (physical fs True source, physical fs True destination) of
        (Some s, Some d) \<Rightarrow>
          (case node_at fs s of
             Some (FileN c a) \<Rightarrow>
               if s = d then Some fs
               else (case node_at fs d of
                       None \<Rightarrow> Some (put d (FileN c (new_attr env (nd_mode a))) fs)
                     | Some (FileN c' a') \<Rightarrow> Some (put d (FileN c ((touch env a')\<lparr>nd_mode := nd_mode a\<rparr>)) fs)
                     | Some (OtherN k n a') \<Rightarrow> Some fs
                     | _ \<Rightarrow> None)
           | _ \<Rightarrow> None)
      | _ \<Rightarrow> None)"

definition transfer ::
  "(path \<Rightarrow> path \<Rightarrow> fs \<Rightarrow> fs option) \<Rightarrow> file_env \<Rightarrow> string \<Rightarrow> string \<Rightarrow> bool option \<Rightarrow> fs \<Rightarrow> fs \<times> (thrown, path \<times> path) result" where
  "transfer act env source destination overwrite fs =
     (case res_bind (assertSafePath env source) (\<lambda>s. res_bind (assertSafePath env destination) (\<lambda>d.
             res_bind (check (overwrite = Some True \<or> \<not> existsSync fs d) (op_error ''destination_exists'' ''Destination exists'' None)) (\<lambda>_.
             Inr (s, d)))) of
        Inl e \<Rightarrow> (fs, Inl e)
      | Inr (s, d) \<Rightarrow>
          (case mkdir_recursive env (butlast d) fs of
             None \<Rightarrow> (fs, Inl (io_error env))
           | Some fs \<Rightarrow> or_io env fs (s, d) (act s d fs)))"

definition file_copy :: "file_env \<Rightarrow> string \<Rightarrow> string \<Rightarrow> bool option \<Rightarrow> fs \<Rightarrow> fs \<times> (thrown, path \<times> path) result" where
  "file_copy env = transfer (copyFileSync env) env"

definition file_move :: "file_env \<Rightarrow> string \<Rightarrow> string \<Rightarrow> bool option \<Rightarrow> fs \<Rightarrow> fs \<times> (thrown, path \<times> path) result" where
  "file_move env = transfer renameSync env"

definition file_remove :: "file_env \<Rightarrow> string \<Rightarrow> bool option \<Rightarrow> fs \<Rightarrow> fs \<times> (thrown, path \<times> bool) result" where
  "file_remove env path recursive fs =
     (case assertSafePath env path of
        Inl e \<Rightarrow> (fs, Inl e)
      | Inr p \<Rightarrow>
          if \<not> existsSync fs p then (fs, Inr (p, False))
          else (case (lstatSync fs p, physical fs False p) of
                  (Some n, Some q) \<Rightarrow>
                    if is_dir n \<and> \<not> is_link n then
                      if recursive = Some True then
                        if q = [] then (fs, Inl (io_error env)) else (remove_tree q fs, Inr (p, True))
                      else (fs, Inl (op_error ''recursive_required'' ''Cannot remove directory without recursive flag'' None))
                    else or_io env fs (p, True) (unlinkSync p fs)
                | _ \<Rightarrow> (fs, Inl (io_error env))))"

subsection \<open>Listing\<close>

record file_entry =
  en_name :: string
  en_type :: string
  en_path :: path

text \<open>
  The nested function \<open>walk\<close>: the entries and the flag \<open>truncated\<close> so far, and whether it threw. The
  first argument is the number of levels that may still be entered.
\<close>

type_synonym listing = "file_entry list \<times> bool"

fun walk_names ::
  "(path \<Rightarrow> listing \<Rightarrow> listing \<times> bool) \<Rightarrow> fs \<Rightarrow> bool \<Rightarrow> nat \<Rightarrow> path \<Rightarrow> string list \<Rightarrow> listing \<Rightarrow> listing" where
  "walk_names enter fs recursive maxEntries dir [] listing = listing"
| "walk_names enter fs recursive maxEntries dir (name # names) (entries, truncated) =
     (if length entries \<ge> maxEntries then (entries, True)
      else let fullPath = dir @ [name]; inaccessible = \<lparr>en_name = name, en_type = ''inaccessible'', en_path = fullPath\<rparr> in
        walk_names enter fs recursive maxEntries dir names
          (case lstatSync fs fullPath of
             None \<Rightarrow> (entries @ [inaccessible], truncated)
           | Some n \<Rightarrow>
               (let listing = (entries @ [\<lparr>en_name = name, en_type = type_name n, en_path = fullPath\<rparr>], truncated) in
                if recursive \<and> is_dir n \<and> \<not> is_link n then
                  (case enter fullPath listing of
                     ((entries, truncated), threw) \<Rightarrow> (if threw then entries @ [inaccessible] else entries, truncated))
                else listing)))"

primrec walk :: "nat \<Rightarrow> fs \<Rightarrow> bool \<Rightarrow> nat \<Rightarrow> path \<Rightarrow> listing \<Rightarrow> listing \<times> bool" where
  "walk 0 fs recursive maxEntries dir listing = ((fst listing, True), False)"
| "walk (Suc d) fs recursive maxEntries dir listing =
     (if length (fst listing) \<ge> maxEntries then ((fst listing, True), False)
      else case readdirSync fs dir of
        None \<Rightarrow> (listing, True)
      | Some names \<Rightarrow> (walk_names (walk d fs recursive maxEntries) fs recursive maxEntries dir names listing, False))"

definition FILE_LIST_MAX_DEPTH :: int where "FILE_LIST_MAX_DEPTH = 32"

definition FILE_LIST_MAX_ENTRIES :: int where "FILE_LIST_MAX_ENTRIES = 4096"

record file_listing =
  fl_path :: path
  fl_entries :: "file_entry list"
  fl_truncated :: bool

definition file_list ::
  "file_env \<Rightarrow> string \<Rightarrow> bool option \<Rightarrow> int option \<Rightarrow> int option \<Rightarrow> fs \<Rightarrow> (thrown, file_listing) result" where
  "file_list env path recursive maxDepth maxEntries fs =
     res_bind (assertSafePath env path) (\<lambda>basePath.
     case walk (nat (nullish maxDepth FILE_LIST_MAX_DEPTH + 1)) fs (nullish recursive False)
            (nat (nullish maxEntries FILE_LIST_MAX_ENTRIES)) basePath ([], False) of
       ((entries, truncated), threw) \<Rightarrow>
         if threw then Inl (io_error env)
         else Inr \<lparr>fl_path = basePath, fl_entries = entries, fl_truncated = truncated\<rparr>)"

subsection \<open>The file system stays a tree\<close>

lemma put_file_ok:
  assumes "fs_ok fs" "physical fs follow p = Some q" "\<not> dir_at fs q" "\<not> is_dir n"
  shows "fs_ok (put q n fs)"
  using assms physical_parent [OF assms(1,2)] by (intro fs_ok_put) auto

lemma writeFileSync_ok: "fs_ok fs \<Longrightarrow> writeFileSync env p data fs = Some fs' \<Longrightarrow> fs_ok fs'"
  by (auto simp: writeFileSync_def dir_at_iff intro!: put_file_ok split: option.splits node.splits)

lemma write_existing_ok: "fs_ok fs \<Longrightarrow> write_existing env p f fs = Some fs' \<Longrightarrow> fs_ok fs'"
  by (auto simp: write_existing_def dir_at_iff intro!: put_file_ok split: option.splits node.splits)

lemma mkdir_recursive_ok: "fs_ok fs \<Longrightarrow> mkdir_recursive env p fs = Some fs' \<Longrightarrow> fs_ok fs'"
  by (simp add: mkdir_recursive_def fs_ok_mkdir_prefixes)

lemma copyFileSync_ok: "fs_ok fs \<Longrightarrow> copyFileSync env s d fs = Some fs' \<Longrightarrow> fs_ok fs'"
  by (auto simp: copyFileSync_def dir_at_iff intro!: put_file_ok split: option.splits node.splits if_splits)

lemma cleanup_ok: "fs_ok fs \<Longrightarrow> cleanup t fs = Some fs' \<Longrightarrow> fs_ok fs'"
  by (auto simp: cleanup_def dest: fs_ok_unlinkSync split: if_splits)

lemma or_io_ok: "fs_ok fs \<Longrightarrow> (\<And>fs'. r = Some fs' \<Longrightarrow> fs_ok fs') \<Longrightarrow> fs_ok (fst (or_io env fs v r))"
  by (simp add: or_io_def split: option.splits)

lemma file_write_ok: "fs_ok fs \<Longrightarrow> fs_ok (fst (file_write env path buf offset create fs))"
  by (auto simp: file_write_def intro!: or_io_ok dest: write_existing_ok writeFileSync_ok mkdir_recursive_ok
      split: sum.splits option.splits if_splits)

lemma file_patch_ok: "fs_ok fs \<Longrightarrow> fs_ok (fst (file_patch env fault path patches fs))"
  by (auto simp: file_patch_def dest: write_existing_ok split: sum.splits option.splits)

lemma transfer_ok:
  assumes "fs_ok fs" "\<And>s d fs fs'. fs_ok fs \<Longrightarrow> act s d fs = Some fs' \<Longrightarrow> fs_ok fs'"
  shows "fs_ok (fst (transfer act env source destination overwrite fs))"
  using assms(1) by (auto simp: transfer_def intro!: or_io_ok dest: mkdir_recursive_ok assms(2) split: sum.splits option.splits)

lemma file_remove_ok: "fs_ok fs \<Longrightarrow> fs_ok (fst (file_remove env path recursive fs))"
  by (auto simp: file_remove_def intro!: or_io_ok fs_ok_remove_tree dest: fs_ok_unlinkSync split: sum.splits option.splits)

lemma ensure_component_ok: "fs_ok fs \<Longrightarrow> ensure_component env createParents p fs = Inr fs' \<Longrightarrow> fs_ok fs'"
  by (auto simp: ensure_component_def dest: fs_ok_mkdirSync split: if_splits option.splits)

lemma check_components_ok: "fs_ok fs \<Longrightarrow> fs_ok (fst (check_components env createParents r cs fs))"
  by (induction cs arbitrary: r fs) (auto dest: ensure_component_ok split: sum.splits option.splits)

lemma assertNoSymlinkComponents_ok: "fs_ok fs \<Longrightarrow> fs_ok (fst (assertNoSymlinkComponents env root parent create fs))"
  by (simp add: assertNoSymlinkComponents_def check_components_ok split: option.splits)

lemma abandon_ok: "fs_ok fs \<Longrightarrow> fs_ok (fst (abandon env temporary fs))"
  by (auto simp: abandon_def split: option.splits dest: cleanup_ok)

lemma open_temporary_ok: "fs_ok fs \<Longrightarrow> open_temporary fault temporary data a fs = Some fs' \<Longrightarrow> fs_ok fs'"
  by (auto simp: open_temporary_def dir_at_def intro!: put_file_ok split: option.splits if_splits)

lemma swap_in_ok: "fs_ok fs \<Longrightarrow> fs_ok (fst (swap_in env fault durable temporary path data a fs))"
  by (auto simp: swap_in_def intro!: abandon_ok or_io_ok dest: open_temporary_ok fs_ok_renameSync split: option.split)
    (meson cleanup_ok fs_ok_renameSync open_temporary_ok)+

lemma replace_target_ok: "fs_ok fs \<Longrightarrow> fs_ok (fst (replace_target env uuid fault rp path fs))"
  using swap_in_ok [of fs] by (auto simp: replace_target_def split: sum.split prod.split) (metis fst_conv)+

lemma file_replace_ok: "fs_ok fs \<Longrightarrow> fs_ok (fst (file_replace env uuid fault rp fs))"
  using assertNoSymlinkComponents_ok [of fs]
  by (auto simp: file_replace_def replace_target_ok split: sum.split prod.split) (metis fst_conv replace_target_ok)+

lemma file_copy_ok: "fs_ok fs \<Longrightarrow> fs_ok (fst (file_copy env s d overwrite fs))"
  unfolding file_copy_def by (rule transfer_ok) (auto intro: copyFileSync_ok)

lemma file_move_ok: "fs_ok fs \<Longrightarrow> fs_ok (fst (file_move env s d overwrite fs))"
  unfolding file_move_def by (rule transfer_ok) (auto intro: fs_ok_renameSync)

datatype file_event =
    WriteFile string "byte list" "nat option" "bool option"
  | ReplaceFile string replace_fault file_replace_payload
  | PatchFile "nat option" string "(nat \<times> byte list) list"
  | CopyFile string string "bool option"
  | MoveFile string string "bool option"
  | RemoveFile string "bool option"

primrec file_event_step :: "file_env \<Rightarrow> file_event \<Rightarrow> fs \<Rightarrow> fs" where
  "file_event_step env (WriteFile path buf offset create) fs = fst (file_write env path buf offset create fs)"
| "file_event_step env (ReplaceFile uuid fault rp) fs = fst (file_replace env uuid fault rp fs)"
| "file_event_step env (PatchFile fault path patches) fs = fst (file_patch env fault path patches fs)"
| "file_event_step env (CopyFile s d overwrite) fs = fst (file_copy env s d overwrite fs)"
| "file_event_step env (MoveFile s d overwrite) fs = fst (file_move env s d overwrite fs)"
| "file_event_step env (RemoveFile path recursive) fs = fst (file_remove env path recursive fs)"

definition file_step :: "file_event \<times> file_env \<Rightarrow> fs \<Rightarrow> (thrown, fs \<times> unit) result" where
  "file_step e fs = Inr (file_event_step (snd e) (fst e) fs, ())"

lemma file_event_ok: "fs_ok fs \<Longrightarrow> fs_ok (file_event_step env e fs)"
  by (cases e) (simp_all add: file_write_ok file_replace_ok file_patch_ok file_copy_ok file_move_ok file_remove_ok)

interpretation files: inv_system file_step fs_ok
  by unfold_locales (auto simp: file_step_def file_event_ok)

subsection \<open>Replacing stays beneath the root\<close>

text \<open>Only directories were added, strictly below \<open>R\<close> and on the way to \<open>T\<close>.\<close>

definition dirs_added :: "path \<Rightarrow> path \<Rightarrow> fs \<Rightarrow> fs \<Rightarrow> bool" where
  "dirs_added R T fs fs' \<longleftrightarrow>
     (\<forall>q. node_at fs' q = node_at fs q \<or> (node_at fs q = None \<and> dir_at fs' q \<and> strict_prefix R q \<and> prefix q T))"

lemma dirs_added_refl [simp]: "dirs_added R T fs fs"
  by (simp add: dirs_added_def)

lemma dirs_added_trans: "dirs_added R T fs fs1 \<Longrightarrow> dirs_added R T fs1 fs2 \<Longrightarrow> dirs_added R T fs fs2"
proof -
  have "dir_at fs q \<Longrightarrow> node_at fs q \<noteq> None" for fs q by (auto simp: dir_at_iff)
  moreover have "dir_at fs1 q = dir_at fs2 q" if "node_at fs2 q = node_at fs1 q" for q using that by (simp add: dir_at_def)
  ultimately show "dirs_added R T fs fs1 \<Longrightarrow> dirs_added R T fs1 fs2 \<Longrightarrow> ?thesis" unfolding dirs_added_def by metis
qed

lemma dirs_added_mono: "dirs_added (R @ [c]) T fs fs' \<Longrightarrow> dirs_added R T fs fs'"
proof -
  have "strict_prefix (R @ [c]) q \<Longrightarrow> strict_prefix R q" for q by (auto simp: strict_prefix_def prefix_def)
  then show "dirs_added (R @ [c]) T fs fs' \<Longrightarrow> ?thesis" unfolding dirs_added_def by blast
qed

lemma ensure_component_real:
  assumes "real_dir fs r R" "normal c" "ensure_component env createParents (r @ [c]) fs = Inr fs'"
  shows "dirs_added R (R @ c # cs) fs fs' \<and> real_dir fs' r R"
proof (cases "existsSync fs (r @ [c])")
  case False
  with assms(3) obtain a where "mkdirSync a (r @ [c]) fs = Some fs'"
    by (auto simp: ensure_component_def split: if_splits option.splits)
  with assms(1,2) have "node_at fs (R @ [c]) = None" "fs' = put (R @ [c]) (DirN 4096 a) fs"
    by (auto simp: mkdirSync_def real_dir_step split: if_splits)
  with assms(1) real_dir_put [of fs r R "R @ [c]" "DirN 4096 a"] show ?thesis
    by (auto simp: dirs_added_def dir_at_def strict_prefix_def)
qed (use assms in \<open>simp add: ensure_component_def\<close>)

lemma check_components_real:
  assumes "real_dir fs r R" "list_all normal cs" "check_components env createParents r cs fs = (fs', res)"
  shows "dirs_added R (R @ cs) fs fs' \<and> (res = Inr u \<longrightarrow> real_dir fs' (r @ cs) (R @ cs))"
  using assms
proof (induction cs arbitrary: r R fs)
  case (Cons c cs)
  show ?case
  proof (cases "ensure_component env createParents (r @ [c]) fs")
    case (Inl e)
    with Cons.prems(3) show ?thesis by auto
  next
    case (Inr fs1)
    have c: "normal c" "list_all normal cs" using Cons.prems(2) by simp_all
    from ensure_component_real [OF Cons.prems(1) c(1) Inr]
    have 1: "dirs_added R (R @ c # cs) fs fs1" "real_dir fs1 r R" by blast+
    show ?thesis
    proof (cases "dir_at fs1 (R @ [c])")
      case True
      then obtain n where n: "lstatSync fs1 (r @ [c]) = Some n" "is_dir n" "\<not> is_link n"
        using real_dir_lstat [OF 1(2) c(1)] by (auto simp: dir_at_iff)
      with Cons.prems(3) Inr have "check_components env createParents (r @ [c]) cs fs1 = (fs', res)" by simp
      from Cons.IH [OF real_dir_child [OF 1(2) c(1) True] c(2) this]
      have "dirs_added (R @ [c]) (R @ c # cs) fs1 fs'" "res = Inr u \<longrightarrow> real_dir fs' (r @ c # cs) (R @ c # cs)" by simp_all
      with 1(1) show ?thesis by (auto intro: dirs_added_trans dirs_added_mono)
    next
      case False
      then have "fs' = fs1 \<and> res \<noteq> Inr u"
        using Cons.prems(3) Inr real_dir_lstat [OF 1(2) c(1)] by (auto simp: dir_at_def split: option.splits if_splits)
      with 1(1) show ?thesis by simp
    qed
  qed
qed simp

lemma assertNoSymlinkComponents_real:
  assumes "list_all normal cs" "assertNoSymlinkComponents env root (root @ cs) createParents fs = (fs', res)"
  shows "(case physical fs False root of None \<Rightarrow> fs' = fs \<and> res \<noteq> Inr u
    | Some R \<Rightarrow> dirs_added R (R @ cs) fs fs' \<and> (res = Inr u \<longrightarrow> real_dir fs' (root @ cs) (R @ cs)))"
proof (cases "physical fs False root")
  case None
  with assms(2) show ?thesis by (auto simp: assertNoSymlinkComponents_def lstatSync_def)
next
  case (Some R)
  show ?thesis
  proof (cases "dir_at fs R")
    case True
    then have "check_components env createParents root cs fs = (fs', res)"
      using assms(2) Some by (auto simp: assertNoSymlinkComponents_def lstatSync_def dir_at_iff)
    with check_components_real [OF _ assms(1)] Some True show ?thesis by (simp add: real_dir_def)
  next
    case False
    then have "fs' = fs \<and> res \<noteq> Inr u"
      using assms(2) Some by (auto simp: assertNoSymlinkComponents_def lstatSync_def dir_at_def split: option.splits)
    with Some show ?thesis by simp
  qed
qed

lemma temporary_name:
  "normal (''.'' @ c @ ''.baby-quirt-'' @ uuid @ ''.tmp'')" "''.'' @ c @ ''.baby-quirt-'' @ uuid @ ''.tmp'' \<noteq> c"
proof -
  show "normal (''.'' @ c @ ''.baby-quirt-'' @ uuid @ ''.tmp'')" by (cases c) (simp_all add: normal_def)
  have "length (''.'' @ c @ ''.baby-quirt-'' @ uuid @ ''.tmp'') \<noteq> length c" by simp
  then show "''.'' @ c @ ''.baby-quirt-'' @ uuid @ ''.tmp'' \<noteq> c" by metis
qed

text \<open>The rename of the new file over the target.\<close>

lemma rename_file:
  assumes "fs_ok fs" "real_dir fs p P" "normal c" "normal t" "c \<noteq> t" "node_at fs (P @ [t]) = Some (FileN data a)"
    "renameSync (p @ [t]) (p @ [c]) fs = Some fs'"
  shows "node_at fs' q = (if q = P @ [c] then Some (FileN data a) else if q = P @ [t] then None else node_at fs q)"
proof -
  have ph: "physical fs False (p @ [t]) = Some (P @ [t])" "physical fs False (p @ [c]) = Some (P @ [c])"
    using assms(2-4) by (simp_all add: real_dir_step)
  have pr: "\<not> prefix (P @ [t]) (P @ [c])" "\<not> prefix (P @ [c]) (P @ [t])" "P @ [t] \<noteq> P @ [c]" using assms(5) by simp_all
  have nd: "\<not> dir_at fs (P @ [t])" "\<not> dir_at fs (P @ [c])"
    using assms(6,7) pr ph by (auto simp: dir_at_iff renameSync_def)
  have fs': "fs' = move_tree (P @ [t]) (P @ [c]) fs"
    using assms(6,7) pr ph by (auto simp: renameSync_def split: option.splits if_splits)
  have below: "prefix d q \<Longrightarrow> q = d \<or> (\<exists>r. q = d @ r \<and> r \<noteq> [])" for d by (auto simp: prefix_def)
  show ?thesis unfolding fs' node_at_move_tree [OF assms(1) pr(1,2)]
    using assms(6) pr(3) below [of "P @ [c]"] below [of "P @ [t]"] no_nodes_below [OF assms(1) nd(1)] no_nodes_below [OF assms(1) nd(2)]
    by auto
qed

lemma cleanup_temporary:
  assumes "real_dir fs p P" "normal t" "fs' = (case cleanup (p @ [t]) fs of None \<Rightarrow> fs | Some fs' \<Rightarrow> fs')"
  shows "node_at fs' q = node_at fs q \<or> (q = P @ [t] \<and> node_at fs' q = None)"
    and "node_at fs (P @ [t]) = Some (FileN data a) \<Longrightarrow> node_at fs' (P @ [t]) = None"
    and "node_at fs (P @ [t]) = None \<Longrightarrow> cleanup (p @ [t]) fs = Some fs"
proof -
  have ph: "physical fs False (p @ [t]) = Some (P @ [t])" using assms(1,2) by (rule real_dir_step)
  have P: "P @ [t] \<noteq> []" by simp
  show "node_at fs' q = node_at fs q \<or> (q = P @ [t] \<and> node_at fs' q = None)"
    using assms(3) ph P by (auto simp: cleanup_def unlinkSync_def split: option.splits if_splits)
  show "node_at fs' (P @ [t]) = None" if "node_at fs (P @ [t]) = Some (FileN data a)"
    using that assms(3) ph real_dir_exists(2) [OF assms(1,2) that] by (auto simp: cleanup_def unlinkSync_def)
  show "cleanup (p @ [t]) fs = Some fs" if "node_at fs (P @ [t]) = None"
    using real_dir_exists(1) [OF assms(1,2) that] by (simp add: cleanup_def)
qed

text \<open>
  What \<open>swap_in\<close> does to the file system: only the temporary name and the target change, the
  temporary name is free afterwards or as before, the target is as before or the new file.
\<close>

definition swapped :: "path \<Rightarrow> string \<Rightarrow> string \<Rightarrow> node \<Rightarrow> fs \<Rightarrow> fs \<Rightarrow> bool" where
  "swapped P c t n fs fs' \<longleftrightarrow>
     (\<forall>q. q \<noteq> P @ [c] \<longrightarrow> node_at fs' q = node_at fs q \<or> (q = P @ [t] \<and> node_at fs' q = None))
     \<and> (node_at fs' (P @ [c]) = node_at fs (P @ [c]) \<or> node_at fs' (P @ [c]) = Some n)"

lemma swap_in_swapped:
  assumes "fs_ok fs" "real_dir fs p P" "normal c" "normal t" "c \<noteq> t"
    "swap_in env fault durable (p @ [t]) (p @ [c]) data a fs = (fs', res)" and target: "\<not> dir_at fs (P @ [c])"
  shows "swapped P c t (FileN data a) fs fs' \<and> (res = Inr u \<longrightarrow> node_at fs' (P @ [c]) = Some (FileN data a)
    \<and> (real_dir fs' p P \<or> (\<forall>follow x. physical fs' follow (p @ [x]) = None)))"
proof (cases "open_temporary fault (p @ [t]) data a fs")
  case None
  with assms cleanup_temporary(1) [OF assms(2,4) refl] show ?thesis
    by (auto simp: swap_in_def abandon_def swapped_def)
next
  case (Some fs1)
  have fresh: "node_at fs (P @ [t]) = None" and fs1: "fs1 = put (P @ [t]) (FileN data a) fs"
    using Some assms(2,4) by (auto simp: open_temporary_def real_dir_step split: if_splits)
  have r1: "real_dir fs1 p P" unfolding fs1 using assms(2) fresh by (intro real_dir_put) auto
  have n1: "node_at fs1 q = (if q = P @ [t] then Some (FileN data a) else node_at fs q)" for q
    unfolding fs1 by simp
  have ok1: "fs_ok fs1" using assms(1) Some by (rule open_temporary_ok)
  have undone: "swapped P c t (FileN data a) fs (fst (abandon env (p @ [t]) fs1))"
  proof -
    have "node_at (fst (abandon env (p @ [t]) fs1)) q = node_at fs q" for q
      using cleanup_temporary(1) [OF r1 assms(4) refl, of q] cleanup_temporary(2) [OF r1 assms(4) refl] fresh n1
      unfolding abandon_def fst_conv by (cases "q = P @ [t]") auto
    then show ?thesis by (simp add: swapped_def)
  qed
  show ?thesis
  proof (cases "(fault = WriteFails \<or> fault = RenameFails) \<or> renameSync (p @ [t]) (p @ [c]) fs1 = None")
    case True
    then have "(fs', res) = abandon env (p @ [t]) fs1" using assms(6) Some by (auto simp: swap_in_def split: option.splits)
    then show ?thesis using undone by (auto simp: abandon_def)
  next
    case False
    then obtain fs2 where fs2: "renameSync (p @ [t]) (p @ [c]) fs1 = Some fs2" by auto
    have n2: "node_at fs2 q = (if q = P @ [c] then Some (FileN data a) else if q = P @ [t] then None else node_at fs q)" for q
      using rename_file [OF ok1 r1 assms(3-5) _ fs2] n1 by auto
    have ch: "node_at fs2 q = node_at fs1 q \<or> \<not> dir_at fs1 q \<and> \<not> dir_at fs2 q \<and> \<not> link_at fs2 q" for q
      using n1 n2 target by (auto simp: dir_at_def link_at_def)
    have clean: "cleanup (p @ [t]) fs2 = Some fs2"
      using real_dir_changed [OF r1 ch]
    proof
      assume "real_dir fs2 p P"
      with cleanup_temporary(3) [OF _ assms(4) refl] n2 assms(5) show ?thesis by auto
    qed (simp add: cleanup_def existsSync_def statSync_def)
    have "swapped P c t (FileN data a) fs fs2" using n2 by (simp add: swapped_def)
    moreover have "fs' = fs2" using assms(6) Some False fs2 clean
      by (auto simp: swap_in_def abandon_def or_io_def split: if_splits)
    ultimately show ?thesis using n2 real_dir_changed [OF r1 ch] by auto
  qed
qed

subsection \<open>The contract of replace\<close>

text \<open>What a successful replacement requires of the node that was at the target.\<close>

fun replaceable :: "file_env \<Rightarrow> file_replace_payload \<Rightarrow> node option \<Rightarrow> bool" where
  "replaceable env rp (Some (FileN c a)) \<longleftrightarrow>
     rp_expectedAbsent rp \<noteq> Some True \<and> (truthy (rp_expectedSha256 rp) \<longrightarrow> rp_expectedSha256 rp = Some (fe_sha256 env c))"
| "replaceable env rp None \<longleftrightarrow> \<not> truthy (rp_expectedSha256 rp)"
| "replaceable env rp (Some (LinkN t a)) \<longleftrightarrow> \<not> truthy (rp_expectedSha256 rp)"
| "replaceable env rp (Some n) \<longleftrightarrow> False"

definition target_attr :: "file_env \<Rightarrow> file_replace_payload \<Rightarrow> node option \<Rightarrow> attributes" where
  "target_attr env rp n = replaced_attr env (rp_preserveMode rp)
     (case n of Some (FileN c a) \<Rightarrow> Some a | _ \<Rightarrow> None)"

lemma previous_file_real:
  assumes "real_dir fs p P" "normal c" "previous_file env (p @ [c]) fs = Inr previous" "check_precondition rp (map_option fst previous) = Inr u"
  shows "replaceable env rp (node_at fs (P @ [c])) \<and> replaced_attr env (rp_preserveMode rp) (map_option snd previous) = target_attr env rp (node_at fs (P @ [c]))"
proof (cases "node_at fs (P @ [c])")
  case None
  with real_dir_exists(1) [OF assms(1,2)] assms(3,4) show ?thesis
    by (auto simp: previous_file_def check_precondition_def target_attr_def res_simps truthy_iff)
next
  case (Some n)
  show ?thesis
  proof (cases "is_link n")
    case True
    then have "previous = None" using assms(3) real_dir_lstat [OF assms(1,2)] Some
      by (auto simp: previous_file_def split: if_splits)
    with True assms(4) Some show ?thesis
      by (auto simp: is_link_iff check_precondition_def target_attr_def res_simps truthy_iff)
  next
    case False
    then have "existsSync fs (p @ [c])" "statSync fs (p @ [c]) = Some n"
      using real_dir_exists(2) [OF assms(1,2) Some] real_dir_step(2) [OF assms(1,2)] Some by (auto simp: statSync_def)
    with False Some assms(3,4) real_dir_lstat [OF assms(1,2)] show ?thesis
      by (cases n) (auto simp: previous_file_def sha256File_def check_precondition_def target_attr_def res_simps truthy_iff split: if_splits)
  qed
qed

lemma replaceable_not_dir: "replaceable env rp (node_at fs q) \<Longrightarrow> \<not> dir_at fs q"
  by (auto simp: dir_at_iff)

lemma replace_target_real:
  assumes "fs_ok fs" "real_dir fs p P" "normal c" "replace_target env uuid fault rp (p @ [c]) fs = (fs', res)"
  shows "swapped P c (last (temporary_path uuid (p @ [c]))) (FileN (rp_data rp) (target_attr env rp (node_at fs (P @ [c])))) fs fs'
    \<and> (case res of Inl e \<Rightarrow> True
       | Inr r \<Rightarrow> replaceable env rp (node_at fs (P @ [c])) \<and> rr_sha256 r = fe_sha256 env (rp_data rp)
           \<and> node_at fs' (P @ [c]) = Some (FileN (rp_data rp) (target_attr env rp (node_at fs (P @ [c])))))"
proof (cases "res_bind (previous_file env (p @ [c]) fs) (\<lambda>previous.
    res_bind (check_precondition rp (map_option fst previous)) (\<lambda>_. Inr previous))")
  case (Inl e)
  with assms(4) show ?thesis by (auto simp: replace_target_def swapped_def)
next
  case (Inr previous)
  let ?t = "last (temporary_path uuid (p @ [c]))"
  let ?a = "target_attr env rp (node_at fs (P @ [c]))"
  have t: "temporary_path uuid (p @ [c]) = p @ [?t]" "normal ?t" "c \<noteq> ?t"
    using temporary_name [of c uuid] by (simp_all add: temporary_path_def)
  from Inr have "previous_file env (p @ [c]) fs = Inr previous" "check_precondition rp (map_option fst previous) = Inr ()"
    by (auto simp: res_simps)
  from previous_file_real [OF assms(2,3) this]
  have pre: "replaceable env rp (node_at fs (P @ [c]))" "replaced_attr env (rp_preserveMode rp) (map_option snd previous) = ?a" by blast+
  obtain fs1 res1 where sw: "swap_in env fault (nullish (rp_durable rp) True) (p @ [?t]) (p @ [c]) (rp_data rp) ?a fs = (fs1, res1)"
    by fastforce
  note s = swap_in_swapped [OF assms(1-3) t(2,3) sw replaceable_not_dir [OF pre(1)], of "()"]
  have fs': "fs' = fs1" using assms(4) Inr sw t(1) pre(2) by (auto simp: replace_target_def split: sum.splits)
  show ?thesis
  proof (cases res1)
    case (Inl e)
    with assms(4) \<open>res_bind _ _ = Inr previous\<close> sw t(1) pre(2) s fs' show ?thesis by (auto simp: replace_target_def)
  next
    case (Inr u)
    have "rr_sha256 r = fe_sha256 env (rp_data rp)" if "res = Inr r" for r
    proof -
      from that assms(4) Inr \<open>res_bind _ _ = Inr previous\<close> sw t(1) pre(2) fs'
      have "sha256File env (p @ [c]) fs' = Inr (rr_sha256 r)" by (auto simp: replace_target_def res_simps)
      moreover have "node_at fs' (P @ [c]) = Some (FileN (rp_data rp) ?a)" "real_dir fs' p P \<or> (\<forall>follow x. physical fs' follow (p @ [x]) = None)"
        using s Inr fs' by auto
      ultimately show ?thesis
        by (auto simp: sha256File_def statSync_def real_dir_step(2) [OF _ assms(3)])
    qed
    with s Inr fs' pre(1) show ?thesis by (auto split: sum.splits)
  qed
qed

lemma replace_paths_Inr:
  assumes "replace_paths env rp = Inr (root, path)" "list_all normal (fe_cwd env)"
  obtains cs c where "path = root @ cs @ [c]" "list_all normal cs" "normal c"
proof -
  have n: "list_all normal root" "list_all normal path"
    using assms by (auto simp: replace_paths_def res_simps Let_def assertSafePath_def normal_resolve normal_resolve_from split: if_splits)
  have "path = root @ relative root path" "relative root path \<noteq> []"
    using assms(1) relative_inside [of root path]
    by (auto simp: replace_paths_def res_simps Let_def isWithinRoot_def split: if_splits)
  then obtain cs c where "path = root @ cs @ [c]" by (metis rev_exhaust)
  with n that show thesis by simp
qed

text \<open>
  The promise of \<open>replace\<close>: besides the target only directories on the way to it were added and the
  temporary name was freed; the target is what it was or the new file; on success it is the new file.
\<close>

definition replace_contract ::
  "file_env \<Rightarrow> file_replace_payload \<Rightarrow> path \<Rightarrow> path \<Rightarrow> path \<Rightarrow> fs \<Rightarrow> fs \<Rightarrow> (thrown, file_replace_result) result \<Rightarrow> bool" where
  "replace_contract env rp R target temporary fs fs' res \<longleftrightarrow>
     (let new = FileN (rp_data rp) (target_attr env rp (node_at fs target)) in
      (\<forall>q. node_at fs' q = node_at fs q \<or> q = target \<or> (q = temporary \<and> node_at fs' q = None)
         \<or> (node_at fs q = None \<and> dir_at fs' q \<and> strict_prefix R q \<and> strict_prefix q target))
      \<and> (node_at fs' target = node_at fs target \<or> node_at fs' target = Some new)
      \<and> (case res of Inl e \<Rightarrow> True
         | Inr r \<Rightarrow> replaceable env rp (node_at fs target) \<and> node_at fs' target = Some new
             \<and> rr_sha256 r = fe_sha256 env (rp_data rp)))"

lemma dirs_added_below:
  assumes "dirs_added R (R @ cs) fs fs'"
  shows "node_at fs' q = node_at fs q \<or> (node_at fs q = None \<and> dir_at fs' q \<and> strict_prefix R q \<and> strict_prefix q (R @ cs @ [c]))"
    and "node_at fs' (R @ cs @ [c]) = node_at fs (R @ cs @ [c])"
  using assms by (auto simp: dirs_added_def prefix_def strict_prefix_def)

lemma dirs_added_contract:
  "dirs_added R (R @ cs) fs fs' \<Longrightarrow> replace_contract env rp R (R @ cs @ [c]) temporary fs fs' (Inl e)"
  using dirs_added_below [of R cs fs fs'] unfolding replace_contract_def Let_def by simp blast

lemma swapped_contract:
  assumes "dirs_added R (R @ cs) fs fs1"
    "swapped (R @ cs) c t (FileN (rp_data rp) (target_attr env rp (node_at fs1 ((R @ cs) @ [c])))) fs1 fs'"
    "case res of Inl e \<Rightarrow> True
     | Inr r \<Rightarrow> replaceable env rp (node_at fs1 ((R @ cs) @ [c])) \<and> rr_sha256 r = fe_sha256 env (rp_data rp)
         \<and> node_at fs' ((R @ cs) @ [c]) = Some (FileN (rp_data rp) (target_attr env rp (node_at fs1 ((R @ cs) @ [c]))))"
  shows "replace_contract env rp R (R @ cs @ [c]) (R @ cs @ [t]) fs fs' res"
proof -
  have old: "node_at fs1 ((R @ cs) @ [c]) = node_at fs (R @ cs @ [c])" using dirs_added_below(2) [OF assms(1)] by simp
  have s: "node_at fs' q = node_at fs1 q \<or> q = R @ cs @ [c] \<or> q = R @ cs @ [t] \<and> node_at fs' q = None" for q
    using assms(2) by (auto simp: swapped_def)
  have dir: "dir_at fs' q = dir_at fs1 q" if "node_at fs' q = node_at fs1 q" for q using that by (simp add: dir_at_def)
  have "node_at fs' q = node_at fs q \<or> q = R @ cs @ [c] \<or> (q = R @ cs @ [t] \<and> node_at fs' q = None)
      \<or> (node_at fs q = None \<and> dir_at fs' q \<and> strict_prefix R q \<and> strict_prefix q (R @ cs @ [c]))" for q
    using s [of q] dirs_added_below(1) [OF assms(1), of q c] dir [of q] by auto
  moreover have "node_at fs' (R @ cs @ [c]) = node_at fs (R @ cs @ [c])
      \<or> node_at fs' (R @ cs @ [c]) = Some (FileN (rp_data rp) (target_attr env rp (node_at fs (R @ cs @ [c]))))"
    using assms(2) old by (simp add: swapped_def)
  ultimately show ?thesis using assms(3) unfolding replace_contract_def Let_def old by (auto split: sum.splits)
qed

text \<open>
  C33. Replacing is confined, atomic and a compare-and-swap. Whatever the file system looks like and
  whatever fails, \<open>replace\<close> changes nothing unless the root leads to a real directory; then it only adds
  directories strictly beneath that directory on the way to the target, frees its own temporary
  name, and leaves at the target either what was there or the complete new file. When it
  returns, the target holds exactly the data, the previous content had the expected digest (or was
  absent, if that was demanded), and the returned digest is that of the data.
\<close>

theorem replace_confined:
  assumes "fs_ok fs" "list_all normal (fe_cwd env)" "file_replace env uuid fault rp fs = (fs', res)"
  shows "case replace_paths env rp of Inl e \<Rightarrow> fs' = fs \<and> res = Inl e
    | Inr (root, path) \<Rightarrow>
        (case physical fs False root of None \<Rightarrow> fs' = fs \<and> \<not> ok res
         | Some R \<Rightarrow>
             let target = R @ relative root path
             in replace_contract env rp R target (temporary_path uuid target) fs fs' res)"
proof (cases "replace_paths env rp")
  case (Inl e)
  with assms(3) show ?thesis by (simp add: file_replace_def)
next
  case (Inr rp')
  obtain root path where p: "rp' = (root, path)" by (cases rp')
  with Inr assms(2) obtain cs c where path: "path = root @ cs @ [c]" and n: "list_all normal cs" "normal c"
    by (auto elim: replace_paths_Inr)
  obtain fs1 res1 where 1: "assertNoSymlinkComponents env root (root @ cs) (nullish (rp_createParents rp) False) fs = (fs1, res1)"
    by fastforce
  note c1 = assertNoSymlinkComponents_real [OF n(1) 1, of "()"]
  have ok1: "fs_ok fs1" using assertNoSymlinkComponents_ok [OF assms(1), of env root "root @ cs"] 1 by (metis fst_conv)
  have bl: "butlast path = root @ cs" using path by (simp add: butlast_append)
  show ?thesis
  proof (cases "physical fs False root")
    case None
    with c1 assms(3) Inr p 1 bl show ?thesis by (cases res1) (auto simp: file_replace_def)
  next
    case (Some R)
    with c1 have d: "dirs_added R (R @ cs) fs fs1" "res1 = Inr () \<longrightarrow> real_dir fs1 (root @ cs) (R @ cs)" by simp_all
    let ?t = "last (temporary_path uuid ((root @ cs) @ [c]))"
    have tmp: "temporary_path uuid (R @ cs @ [c]) = R @ cs @ [?t]" by (simp add: temporary_path_def butlast_append)
    have "replace_contract env rp R (R @ cs @ [c]) (R @ cs @ [?t]) fs fs' res"
    proof (cases res1)
      case (Inl e)
      then have "fs' = fs1" "res = Inl e" using assms(3) Inr p 1 bl by (simp_all add: file_replace_def)
      with dirs_added_contract [OF d(1)] show ?thesis by simp
    next
      case (Inr u)
      then have rt: "replace_target env uuid fault rp ((root @ cs) @ [c]) fs1 = (fs', res)" and r: "real_dir fs1 (root @ cs) (R @ cs)"
        using assms(3) \<open>replace_paths env rp = _\<close> p 1 bl path d(2) by (simp_all add: file_replace_def)
      from replace_target_real [OF ok1 r n(2) rt] show ?thesis by (auto intro!: swapped_contract [OF d(1)])
    qed
    with Inr p Some path tmp show ?thesis by simp
  qed
qed


subsection \<open>Listings\<close>

text \<open>The entries below the directory \<open>R\<close> that \<open>r\<close> leads to whose first component is in \<open>names\<close>.\<close>

definition entries_below :: "fs \<Rightarrow> bool \<Rightarrow> path \<Rightarrow> path \<Rightarrow> string set \<Rightarrow> file_entry set" where
  "entries_below fs recursive r R names =
     {\<lparr>en_name = last s, en_type = type_name n, en_path = r @ s\<rparr> | s n.
        s \<noteq> [] \<and> hd s \<in> names \<and> (recursive \<or> length s = 1) \<and> node_at fs (R @ s) = Some n}"

lemma entries_below_empty [simp]: "entries_below fs recursive r R {} = {}"
  by (simp add: entries_below_def)

lemma entries_below_insert:
  assumes "fs_ok fs" "node_at fs (R @ [c]) = Some n"
  shows "entries_below fs recursive r R (insert c names) =
    insert \<lparr>en_name = c, en_type = type_name n, en_path = r @ [c]\<rparr>
      ((if recursive \<and> is_dir n then entries_below fs recursive (r @ [c]) (R @ [c]) UNIV else {}) \<union> entries_below fs recursive r R names)"
proof -
  let ?E = "\<lambda>s m. \<lparr>en_name = last s, en_type = type_name m, en_path = r @ s\<rparr>"
  have split: "entries_below fs recursive r R (insert c names) = entries_below fs recursive r R {c} \<union> entries_below fs recursive r R names"
    by (auto simp: entries_below_def)
  have below: "entries_below fs recursive (r @ [c]) (R @ [c]) UNIV = {?E (c # s) m | s m. s \<noteq> [] \<and> (recursive \<or> length s = 1) \<and> node_at fs (R @ c # s) = Some m}"
    by (auto simp: entries_below_def)
  have leaf: "node_at fs (R @ c # s) = None" if "\<not> is_dir n" "s \<noteq> []" for s
    using no_nodes_below [OF assms(1), of "R @ [c]" s] that assms(2) by (auto simp: dir_at_def)
  have "entries_below fs recursive r R {c} =
    insert (?E [c] n) (if recursive \<and> is_dir n then entries_below fs recursive (r @ [c]) (R @ [c]) UNIV else {})"
  proof (intro set_eqI iffI)
    fix e
    assume "e \<in> entries_below fs recursive r R {c}"
    then obtain s m where s: "e = ?E (c # s) m" "recursive \<or> s = []" "node_at fs (R @ c # s) = Some m"
      unfolding entries_below_def by (auto simp: neq_Nil_conv)
    show "e \<in> insert (?E [c] n) (if recursive \<and> is_dir n then entries_below fs recursive (r @ [c]) (R @ [c]) UNIV else {})"
    proof (cases "s = []")
      case False
      with s(3) leaf have "is_dir n" by force
      with s False show ?thesis unfolding below by auto
    qed (use s assms(2) in auto)
  next
    fix e
    assume "e \<in> insert (?E [c] n) (if recursive \<and> is_dir n then entries_below fs recursive (r @ [c]) (R @ [c]) UNIV else {})"
    then consider "e = ?E [c] n" | "recursive" "e \<in> entries_below fs recursive (r @ [c]) (R @ [c]) UNIV" by (auto split: if_splits)
    then show "e \<in> entries_below fs recursive r R {c}"
    proof cases
      case 1
      then show ?thesis unfolding entries_below_def using assms(2) by (force intro!: exI [of _ "[c]"])
    next
      case 2
      then obtain s m where "e = ?E (c # s) m" "node_at fs (R @ c # s) = Some m" unfolding below by blast
      with 2(1) show ?thesis unfolding entries_below_def by (force intro!: exI [of _ "c # s"])
    qed
  qed
  then show ?thesis unfolding split by auto
qed

lemma entries_below_paths: "e \<in> entries_below fs recursive r R names \<Longrightarrow> \<exists>s. en_path e = r @ s \<and> s \<noteq> [] \<and> hd s \<in> names"
  by (auto simp: entries_below_def)

text \<open>An untruncated listing adds exactly the entries, once each, within the limit.\<close>

definition lists_exactly :: "nat \<Rightarrow> file_entry set \<Rightarrow> listing \<Rightarrow> listing \<Rightarrow> bool" where
  "lists_exactly maxEntries E l l' \<longleftrightarrow>
     \<not> snd l' \<longrightarrow> \<not> snd l \<and> (length (fst l) \<le> maxEntries \<longrightarrow> length (fst l') \<le> maxEntries)
       \<and> (\<exists>new. fst l' = fst l @ new \<and> set new = E \<and> distinct (map en_path new))"

lemma lists_exactly_step:
  assumes "lists_exactly m B (fst l @ [e], snd l) l1" "lists_exactly m N l1 l2" "length (fst l) < m"
    "en_path e \<notin> en_path ` B" "en_path e \<notin> en_path ` N" "en_path ` B \<inter> en_path ` N = {}"
  shows "lists_exactly m (insert e (B \<union> N)) l l2"
  unfolding lists_exactly_def
proof (intro impI)
  assume t: "\<not> snd l2"
  then obtain N' where N': "\<not> snd l1" "fst l2 = fst l1 @ N'" "set N' = N" "distinct (map en_path N')"
    "length (fst l1) \<le> m \<longrightarrow> length (fst l2) \<le> m" using assms(2) by (auto simp: lists_exactly_def)
  then obtain B' where B': "\<not> snd l" "fst l1 = (fst l @ [e]) @ B'" "set B' = B" "distinct (map en_path B')"
    "length (fst l @ [e]) \<le> m \<longrightarrow> length (fst l1) \<le> m" using assms(1) by (auto simp: lists_exactly_def)
  let ?new = "e # B' @ N'"
  have "fst l2 = fst l @ ?new" "set ?new = insert e (B \<union> N)" "distinct (map en_path ?new)"
    using N' B' assms(4-6) by (auto simp: distinct_map image_iff)
  moreover have "length (fst l2) \<le> m" using N'(5) B'(5) assms(3) by simp
  ultimately show "\<not> snd l \<and> (length (fst l) \<le> m \<longrightarrow> length (fst l2) \<le> m)
      \<and> (\<exists>new. fst l2 = fst l @ new \<and> set new = insert e (B \<union> N) \<and> distinct (map en_path new))"
    using B'(1) by blast
qed

lemma walk_names_exact:
  assumes "fs_ok fs" "leads_to fs r R" "list_all normal names" "distinct names" "\<forall>c\<in>set names. node_at fs (R @ [c]) \<noteq> None"
    and enter: "\<And>c l. recursive \<Longrightarrow> c \<in> set names \<Longrightarrow> dir_at fs (R @ [c]) \<Longrightarrow>
      lists_exactly maxEntries (entries_below fs recursive (r @ [c]) (R @ [c]) UNIV) l (fst (enter (r @ [c]) l)) \<and> \<not> snd (enter (r @ [c]) l)"
  shows "lists_exactly maxEntries (entries_below fs recursive r R (set names)) l (walk_names enter fs recursive maxEntries r names l)"
  using assms(3-)
proof (induction names arbitrary: l)
  case Nil
  then show ?case by (simp add: lists_exactly_def)
next
  case (Cons c names)
  obtain entries truncated where l: "l = (entries, truncated)" by (cases l)
  obtain n where n: "node_at fs (R @ [c]) = Some n" using Cons.prems(3) by auto
  have ls: "lstatSync fs (r @ [c]) = Some n" using leads_to_lstat [OF assms(2), of c] Cons.prems(1) n by simp
  let ?here = "(entries @ [\<lparr>en_name = c, en_type = type_name n, en_path = r @ [c]\<rparr>], truncated)"
  let ?l1 = "if recursive \<and> is_dir n then fst (enter (r @ [c]) ?here) else ?here"
  let ?B = "if recursive \<and> is_dir n then entries_below fs recursive (r @ [c]) (R @ [c]) UNIV else {}"
  show ?case
  proof (cases "maxEntries \<le> length entries")
    case True
    then show ?thesis by (simp add: l lists_exactly_def)
  next
    case False
    have here: "lists_exactly maxEntries ?B ?here ?l1"
      using Cons.prems(4) [of c ?here] n by (auto simp: lists_exactly_def dir_at_def)
    have "recursive \<and> is_dir n \<longrightarrow> \<not> snd (enter (r @ [c]) ?here)" using Cons.prems(4) [of c ?here] n by (auto simp: dir_at_def)
    then have "walk_names enter fs recursive maxEntries r (c # names) l = walk_names enter fs recursive maxEntries r names ?l1"
      using False l ls by (cases n) (auto simp: Let_def split: prod.split)
    moreover have "lists_exactly maxEntries (entries_below fs recursive r R (set names)) ?l1 (walk_names enter fs recursive maxEntries r names ?l1)"
      using Cons.prems by (intro Cons.IH) auto
    moreover have "en_path ` ?B \<inter> en_path ` entries_below fs recursive r R (set names) = {}"
      "r @ [c] \<notin> en_path ` ?B" "r @ [c] \<notin> en_path ` entries_below fs recursive r R (set names)"
      using Cons.prems(2) by (auto dest!: entries_below_paths split: if_splits)
    ultimately have "lists_exactly maxEntries (insert \<lparr>en_name = c, en_type = type_name n, en_path = r @ [c]\<rparr>
        (?B \<union> entries_below fs recursive r R (set names))) l (walk_names enter fs recursive maxEntries r (c # names) l)"
      using here False l by (intro lists_exactly_step [where ?l1.0 = ?l1]) simp_all
    then show ?thesis using entries_below_insert [OF assms(1) n, of recursive r "set names"] by simp
  qed
qed

lemma readdirSync_names:
  assumes "fs_ok fs" "leads_to fs r R"
  obtains names where "readdirSync fs r = Some names" "distinct names" "set names = {c. node_at fs (R @ [c]) \<noteq> None}"
proof -
  let ?in = "filter (\<lambda>(q, n). butlast q = R) fs"
  have d: "distinct (map fst fs)" "[] \<notin> fst ` set fs" using fs_ok_keys [OF assms(1)] by auto
  have q: "q = R @ [last q]" if "(q, n) \<in> set ?in" for q n
    using that d(2) append_butlast_last_id [of q] by (force simp: image_iff)
  have names: "readdirSync fs r = Some (map (\<lambda>(q, n). last q) ?in)" using assms(2) by (simp add: readdirSync_def leads_to_def)
  moreover have "distinct (map (\<lambda>(q, n). last q) ?in)"
  proof -
    have "inj_on (\<lambda>(q, n). last q) (set ?in)"
      using q d(1) by (intro inj_onI) (metis (no_types, lifting) case_prod_beta' eq_key_imp_eq_value mem_Collect_eq prod.collapse set_filter)
    moreover have "distinct ?in" using d(1) by (simp add: distinct_map)
    ultimately show ?thesis by (simp add: distinct_map)
  qed
  moreover have "set (map (\<lambda>(q, n). last q) ?in) = {c. node_at fs (R @ [c]) \<noteq> None}"
  proof (intro set_eqI iffI)
    fix c
    assume "c \<in> set (map (\<lambda>(q, n). last q) ?in)"
    then obtain q n where "(q, n) \<in> set ?in" "c = last q" by auto
    with q [of q n] mem_node_at [OF assms(1), of q n] show "c \<in> {c. node_at fs (R @ [c]) \<noteq> None}" by auto
  next
    fix c
    assume "c \<in> {c. node_at fs (R @ [c]) \<noteq> None}"
    then obtain n where "node_at fs (R @ [c]) = Some n" by auto
    then have "(R @ [c], n) \<in> set ?in" using mem_node_at [OF assms(1), of "R @ [c]" n] by simp
    then show "c \<in> set (map (\<lambda>(q, n). last q) ?in)" by force
  qed
  ultimately show thesis using that by blast
qed

text \<open>No entry is called \<open>.\<close> or \<open>..\<close>.\<close>

definition names_ok :: "fs \<Rightarrow> bool" where
  "names_ok fs \<longleftrightarrow> list_all (\<lambda>(p, n). normal (last p)) fs"

lemma names_ok_node: "fs_ok fs \<Longrightarrow> names_ok fs \<Longrightarrow> node_at fs (R @ [c]) \<noteq> None \<Longrightarrow> normal c"
  using mem_node_at [of fs "R @ [c]"] by (fastforce simp: names_ok_def list_all_iff)

lemma walk_exact:
  assumes "fs_ok fs" "names_ok fs" "leads_to fs r R"
  shows "lists_exactly m (entries_below fs recursive r R UNIV) l (fst (walk d fs recursive m r l)) \<and> \<not> snd (walk d fs recursive m r l)"
  using assms(3)
proof (induction d arbitrary: r R l)
  case 0
  then show ?case by (simp add: lists_exactly_def)
next
  case (Suc d)
  show ?case
  proof (cases "m \<le> length (fst l)")
    case True
    then show ?thesis by (simp add: lists_exactly_def)
  next
    case False
    obtain names where n: "readdirSync fs r = Some names" "distinct names" "set names = {c. node_at fs (R @ [c]) \<noteq> None}"
      using readdirSync_names [OF assms(1) Suc.prems] .
    have norm: "list_all normal names" using n(3) names_ok_node [OF assms(1,2)] by (auto simp: list_all_iff)
    have all: "entries_below fs recursive r R (set names) = entries_below fs recursive r R UNIV"
    proof -
      have "node_at fs (R @ [hd s]) \<noteq> None" if "s \<noteq> []" "node_at fs (R @ s) = Some k" for s k
      proof
        assume "node_at fs (R @ [hd s]) = None"
        with that no_nodes_below [OF assms(1), of "R @ [hd s]" "tl s"] show False
          by (cases s; cases "tl s = []") (auto simp: dir_at_def)
      qed
      then show ?thesis unfolding n(3) entries_below_def by blast
    qed
    have "lists_exactly m (entries_below fs recursive r R (set names)) l (walk_names (walk d fs recursive m) fs recursive m r names l)"
    proof (rule walk_names_exact [OF assms(1) Suc.prems norm n(2)])
      fix c l
      assume "c \<in> set names" "dir_at fs (R @ [c])"
      with norm have "leads_to fs (r @ [c]) (R @ [c])" using leads_to_child [OF Suc.prems] by (simp add: list_all_iff)
      then show "lists_exactly m (entries_below fs recursive (r @ [c]) (R @ [c]) UNIV) l (fst (walk d fs recursive m (r @ [c]) l))
        \<and> \<not> snd (walk d fs recursive m (r @ [c]) l)" by (rule Suc.IH)
    qed (simp add: n(3))
    with False n(1) all show ?thesis by simp
  qed
qed

text \<open>
  A listing that does not say it was truncated is complete and exact: it has one entry, with the
  right name, type and path, for every node in the directory (for every node beneath it if the
  listing is recursive, without entering symbolic links), nothing else, and no more entries than
  the limit.
\<close>

theorem file_list_complete:
  assumes "fs_ok fs" "names_ok fs" "file_list env path recursive maxDepth maxEntries fs = Inr l" "\<not> fl_truncated l"
  shows "case physical fs True (fl_path l) of None \<Rightarrow> False
    | Some R \<Rightarrow> set (fl_entries l) = {\<lparr>en_name = last s, en_type = type_name n, en_path = fl_path l @ s\<rparr> | s n.
          s \<noteq> [] \<and> (nullish recursive False \<or> length s = 1) \<and> node_at fs (R @ s) = Some n}
        \<and> distinct (map en_path (fl_entries l))
        \<and> int (length (fl_entries l)) \<le> max 0 (nullish maxEntries FILE_LIST_MAX_ENTRIES)"
proof -
  let ?m = "nat (nullish maxEntries FILE_LIST_MAX_ENTRIES)" and ?d = "nat (nullish maxDepth FILE_LIST_MAX_DEPTH + 1)"
  have w: "walk ?d fs (nullish recursive False) ?m (fl_path l) ([], False) = ((fl_entries l, False), False)"
    using assms(3,4) by (cases "assertSafePath env path") (auto simp: file_list_def split: prod.splits if_splits)
  then obtain names where "readdirSync fs (fl_path l) = Some names"
    by (cases ?d) (auto split: if_splits option.splits)
  then obtain R where R: "physical fs True (fl_path l) = Some R" "leads_to fs (fl_path l) R"
    by (auto simp: readdirSync_def leads_to_def split: option.splits if_splits)
  from walk_exact [OF assms(1,2) R(2), of ?m "nullish recursive False" "([], False)" ?d] w
  have "length (fl_entries l) \<le> ?m" "set (fl_entries l) = entries_below fs (nullish recursive False) (fl_path l) R UNIV"
    "distinct (map en_path (fl_entries l))" by (auto simp: lists_exactly_def)
  with R(1) show ?thesis by (simp add: entries_below_def)
qed

subsection \<open>Reading through a link\<close>

text \<open>What a client takes from a reply: the data and the next offset.\<close>

definition file_reader :: "file_env \<Rightarrow> string \<Rightarrow> nat option \<Rightarrow> fs \<Rightarrow> nat \<Rightarrow> byte list \<times> nat" where
  "file_reader env path limit fs offset =
     (case file_read env path (Some offset) limit fs of Inl e \<Rightarrow> ([], offset) | Inr r \<Rightarrow> (fc_data r, fc_offset r))"

definition sized :: "nat \<Rightarrow> byte list \<Rightarrow> byte list" where
  "sized n c = take n c @ replicate (n - length c) 0"

lemma length_sized [simp]: "length (sized n c) = n"
  by (simp add: sized_def)

lemma sized_slice:
  assumes "k \<le> n - off"
  shows "take k (drop off c) @ replicate (k - length (take k (drop off c))) 0 = take k (drop off (sized n c))"
  using assms by (intro nth_equalityI) (auto simp: sized_def nth_append less_diff_conv)

text \<open>
  \<open>read\<close> takes the size from \<open>lstat\<close> but the bytes from the opened file. Read chunk by chunk, a
  regular file comes back exactly; through a symbolic link the file is cut off, or filled up with
  zero bytes, to the length of the link's target string, and the reply says end of file there.
\<close>

theorem file_read_uses_link_size:
  assumes "assertSafePath env path = Inr p" "statSync fs p = Some (FileN c a)" "lstatSync fs p = Some l"
    "0 < nullish limit FILE_READ_MAX_CHUNK"
  shows "read_chunks (Suc (node_size l)) (file_reader env path limit fs) 0 = (if is_link l then sized (node_size l) c else c)"
proof -
  let ?l = "min (nullish limit FILE_READ_MAX_CHUNK) FILE_READ_MAX_CHUNK"
  obtain q where q: "physical fs True p = Some q" using assms(2) by (auto simp: statSync_def split: bind_splits)
  have rd: "file_reader env path limit fs off = (take ?l (drop off (sized (node_size l) c)), off + min ?l (length (sized (node_size l) c) - off))" for off
  proof (cases "min ?l (node_size l - off) = 0")
    case True
    then have "off \<ge> node_size l" using assms(4) by (auto simp: FILE_READ_MAX_CHUNK_def min_def split: if_splits)
    with True assms(1-3) q show ?thesis by (simp add: file_reader_def file_read_def Let_def nullish_def)
  next
    case False
    have "take ?l (drop off (sized (node_size l) c)) = take (min ?l (node_size l - off)) (drop off (sized (node_size l) c))"
      by (simp add: min_def)
    with False assms(1-3) q sized_slice [of "min ?l (node_size l - off)" "node_size l" off c] show ?thesis
      by (simp add: file_reader_def file_read_def read_into_def Let_def nullish_def)
  qed
  have "read_chunks (Suc (node_size l)) (file_reader env path limit fs) 0 = drop 0 (sized (node_size l) c)"
    by (rule read_chunks_all [OF rd]) (use assms(4) in \<open>auto simp: FILE_READ_MAX_CHUNK_def\<close>)
  moreover have "\<not> is_link l \<Longrightarrow> sized (node_size l) c = c" using lstat_not_link [OF assms(3)] assms(2) by (auto simp: sized_def)
  ultimately show ?thesis by simp
qed

subsection \<open>A concrete file system\<close>

definition sample_file_env :: file_env where
  "sample_file_env = \<lparr>fe_cwd = [], fe_sha256 = (\<lambda>bs. if bs = [] then ''0'' else ''1''), fe_umask = (\<lambda>m. m), fe_uid = 0, fe_gid = 0,
     fe_now = 0, fe_device = (\<lambda>_ _ _. []), fe_ioMessage = []\<rparr>"

definition sample_attr :: attributes where
  "sample_attr = \<lparr>nd_mode = 420, nd_uid = 0, nd_gid = 0, nd_mtime = 0\<rparr>"

definition sample_fs :: fs where
  "sample_fs = [([''d''], DirN 4096 sample_attr), ([''d'', ''f''], FileN [7] sample_attr), ([''l''], LinkN ''d/f'' sample_attr)]"

definition sample_replace :: file_replace_payload where
  "sample_replace = \<lparr>rp_root = ''/d'', rp_path = ''f'', rp_data = [], rp_expectedSha256 = Some ''1'', rp_expectedAbsent = None,
     rp_preserveMode = None, rp_durable = None, rp_createParents = None\<rparr>"

lemma sample_fs_ok: "fs_ok sample_fs"
  by (simp add: fs_ok_def sample_fs_def dir_at_def node_at_def root_node_def)


lemma sample_replace_paths: "replace_paths sample_file_env sample_replace = Inr ([''d''], [''d'', ''f''])"
  by code_simp

lemma sample_root: "physical sample_fs False [''d''] = Some [''d'']"
  by code_simp

theorem replace_confined_witness:
  "let (fs', res) = file_replace sample_file_env ''u'' ReplaceOk sample_replace sample_fs
   in ok res \<and> replace_contract sample_file_env sample_replace [''d''] [''d'', ''f''] (temporary_path ''u'' [''d'', ''f'']) sample_fs fs' res"
proof -
  obtain fs' res where r: "file_replace sample_file_env ''u'' ReplaceOk sample_replace sample_fs = (fs', res)" by fastforce
  have "list_all normal (fe_cwd sample_file_env)" by (simp add: sample_file_env_def)
  from replace_confined [OF sample_fs_ok this r] have
    "replace_contract sample_file_env sample_replace [''d''] [''d'', ''f''] (temporary_path ''u'' [''d'', ''f'']) sample_fs fs' res"
    by (simp add: sample_replace_paths sample_root Let_def)
  moreover have "ok (snd (file_replace sample_file_env ''u'' ReplaceOk sample_replace sample_fs))" by code_simp
  ultimately show ?thesis by (simp add: r)
qed

definition sample_entries :: "file_entry list" where
  "sample_entries = [\<lparr>en_name = ''d'', en_type = ''directory'', en_path = [''d'']\<rparr>,
     \<lparr>en_name = ''f'', en_type = ''file'', en_path = [''d'', ''f'']\<rparr>, \<lparr>en_name = ''l'', en_type = ''symlink'', en_path = [''l'']\<rparr>]"

theorem file_list_complete_witness:
  "set sample_entries = {\<lparr>en_name = last s, en_type = type_name n, en_path = s\<rparr> | s n. s \<noteq> [] \<and> node_at sample_fs s = Some n}"
proof -
  let ?l = "\<lparr>fl_path = [], fl_entries = sample_entries, fl_truncated = False\<rparr>"
  have n: "names_ok sample_fs" by code_simp
  have l: "file_list sample_file_env ''/'' (Some True) None None sample_fs = Inr ?l" by code_simp
  have r: "physical sample_fs True [] = Some []" by code_simp
  from file_list_complete [OF sample_fs_ok n l] show ?thesis by (simp add: r nullish_def)
qed

theorem file_read_uses_link_size_witness:
  "read_chunks (Suc (node_size (LinkN ''d/f'' sample_attr))) (file_reader sample_file_env ''/l'' None sample_fs) 0 = [7, 0, 0]"
proof -
  have 1: "assertSafePath sample_file_env ''/l'' = Inr [''l'']" by code_simp
  have 2: "statSync sample_fs [''l''] = Some (FileN [7] sample_attr)" by code_simp
  have 3: "lstatSync sample_fs [''l''] = Some (LinkN ''d/f'' sample_attr)" by code_simp
  have 4: "0 < nullish None FILE_READ_MAX_CHUNK" by (simp add: nullish_def FILE_READ_MAX_CHUNK_def)
  have 5: "sized (node_size (LinkN ''d/f'' sample_attr)) [7] = [7, 0, 0]" by code_simp
  show ?thesis unfolding file_read_uses_link_size [OF 1 2 3 4] 5 by simp
qed

end
