(* ===== verification/Delivery_Plan.thy ===== *)
theory Delivery_Plan
  imports Deployment_Ledger
begin

section \<open>Delivery plans\<close>

text \<open>
  Models \<^verbatim>\<open>src/src/delivery/plan.ts\<close> and the plan types of \<^verbatim>\<open>src/src/delivery/types.ts\<close>: the strict
  reading of an untrusted JSON value into the canonical plan, field by field in the order of
  the code, and its digest. Plans are JSON values; a missing property is \<open>None\<close>. SHA-256 and
  \<open>localeCompare\<close> are parameters (\<open>ledger_env\<close>). The theorem shows that a canonical plan is a
  fixed point: read again it gives the same plan and the same digest.
\<close>

subsection \<open>Errors\<close>

datatype delivery_error_code =
    Delivery_invalid | Delivery_not_found | Delivery_conflict | Delivery_plan_changed | Delivery_authorization_invalid
  | Delivery_expired | Delivery_wrong_host | Delivery_wrong_machine | Delivery_source_mismatch | Delivery_tree_mismatch
  | Delivery_source_digest_mismatch | Delivery_credential_unavailable | Delivery_controller_conflict
  | Delivery_generation_conflict | Delivery_state_conflict | Delivery_receipt_invalid | Delivery_evidence_insufficient
  | Delivery_rollback_failed | Delivery_manual_recovery_required | Delivery_unknown | Delivery_idempotency_conflict

text \<open>\<open>SqliteError\<close> is what the database itself throws when a constraint refuses a statement.\<close>

datatype delivery_error = DeliveryError delivery_error_code string json_object | SqliteError

abbreviation plan_invalid :: "string \<Rightarrow> delivery_error" where
  "plan_invalid message \<equiv> DeliveryError Delivery_invalid message []"

subsection \<open>Formats\<close>

definition reference_char :: "char \<Rightarrow> bool" where
  "reference_char c \<longleftrightarrow> identifier_char c \<or> c \<in> {CHR ''/'', CHR ''@'', CHR ''+''}"

definition REFERENCE_PATTERN :: "string \<Rightarrow> bool" where
  "REFERENCE_PATTERN s \<longleftrightarrow> s \<noteq> [] \<and> is_alnum (hd s) \<and> chars_between reference_char 0 511 (tl s)"

fun double_slash :: "string \<Rightarrow> bool" where
  "double_slash (a # b # s) \<longleftrightarrow> a = CHR ''/'' \<and> b = CHR ''/'' \<or> double_slash (b # s)"
| "double_slash _ \<longleftrightarrow> False"

definition PATH_PATTERN :: "string \<Rightarrow> bool" where
  "PATH_PATTERN s \<longleftrightarrow> s \<noteq> [] \<and> hd s = CHR ''/'' \<and> CHR 0x00 \<notin> set s \<and> \<not> double_slash s"

definition CURRENCY_PATTERN :: "string \<Rightarrow> bool" where
  "CURRENCY_PATTERN s = chars_between (between (CHR ''A'') (CHR ''Z'')) 3 3 s"

abbreviation any_text :: "string \<Rightarrow> bool" where
  "any_text s \<equiv> True"

subsection \<open>Readers of JSON values\<close>

definition json_prop :: "string \<Rightarrow> json_object \<Rightarrow> json option" where
  "json_prop k item = map_of item k"

definition plan_object :: "json option \<Rightarrow> string \<Rightarrow> (delivery_error, json_object) result" where
  "plan_object value label = (case value of Some (JObj kvs) \<Rightarrow> Inr kvs | _ \<Rightarrow> Inl (plan_invalid (label @ '' must be an object'')))"

definition string_array :: "string list \<Rightarrow> json" where
  "string_array xs = JArr (map JStr xs)"

definition exact :: "json_object \<Rightarrow> string list \<Rightarrow> string \<Rightarrow> (delivery_error, unit) result" where
  "exact value expected label =
     (let actual = sort (map fst value); wanted = sort expected in
      check (canonicalJson (string_array actual) = canonicalJson (string_array wanted))
        (DeliveryError Delivery_invalid (label @ '' has unexpected or missing fields'')
           [(''expected'', string_array wanted), (''actual'', string_array actual)]))"

definition plan_text :: "json option \<Rightarrow> string \<Rightarrow> (string \<Rightarrow> bool) \<Rightarrow> (delivery_error, string) result" where
  "plan_text value label pattern =
     (case value of
        Some (JStr s) \<Rightarrow>
          res_bind (check (s \<noteq> [] \<and> length s \<le> 4096) (plan_invalid (label @ '' must be a nonempty bounded string''))) (\<lambda>_.
          res_bind (check (pattern s) (plan_invalid (label @ '' has invalid format''))) (\<lambda>_. Inr s))
      | _ \<Rightarrow> Inl (plan_invalid (label @ '' must be a nonempty bounded string'')))"

definition plan_bool :: "json option \<Rightarrow> string \<Rightarrow> (delivery_error, bool) result" where
  "plan_bool value label = (case value of Some (JBool b) \<Rightarrow> Inr b | _ \<Rightarrow> Inl (plan_invalid (label @ '' must be boolean'')))"

definition plan_integer :: "json option \<Rightarrow> string \<Rightarrow> int \<Rightarrow> (delivery_error, int) result" where
  "plan_integer value label minimum =
     (let e = plan_invalid (label @ '' must be an integer >= '' @ int_str minimum) in
      case value of Some (JNum n) \<Rightarrow> res_bind (check (safe_integer n \<and> minimum \<le> n) e) (\<lambda>_. Inr n) | _ \<Rightarrow> Inl e)"

definition plan_timestamp :: "json option \<Rightarrow> string \<Rightarrow> (delivery_error, string) result" where
  "plan_timestamp value label =
     res_bind (plan_text value label any_text) (\<lambda>s.
     res_bind (check (canonical_timestamp s) (plan_invalid (label @ '' must be canonical ISO-8601''))) (\<lambda>_. Inr s))"

definition indexed :: "string \<Rightarrow> nat \<Rightarrow> string" where
  "indexed label i = label @ ''['' @ nat_str i @ '']''"

text \<open>\<open>map((item, index) => ...)\<close> with a callback that may throw.\<close>

definition map_indexed :: "('a \<Rightarrow> nat \<Rightarrow> ('e, 'b) result) \<Rightarrow> 'a list \<Rightarrow> ('e, 'b list) result" where
  "map_indexed f xs = res_map (\<lambda>(x, i). f x i) (zip xs [0..<length xs])"

definition plan_strings :: "json option \<Rightarrow> string \<Rightarrow> bool \<Rightarrow> (string \<Rightarrow> bool) \<Rightarrow> (delivery_error, string list) result" where
  "plan_strings value label nonempty pattern =
     (let e = plan_invalid (label @ '' must be a bounded string array'') in
      case value of
        Some (JArr items) \<Rightarrow>
          res_bind (check (\<not> (nonempty \<and> items = []) \<and> length items \<le> 512) e) (\<lambda>_.
          res_bind (map_indexed (\<lambda>item i. plan_text (Some item) (indexed label i) pattern) items) (\<lambda>texts.
          res_bind (check (distinct texts) (plan_invalid (label @ '' must not contain duplicates''))) (\<lambda>_. Inr texts)))
      | _ \<Rightarrow> Inl e)"

definition plan_sorted :: "ledger_env \<Rightarrow> string list \<Rightarrow> string list" where
  "plan_sorted env values = sort_by (le_localeLe env) values"

subsection \<open>Parts of a plan\<close>

definition SOURCE_MATERIALIZATION_ADAPTERS :: "string list" where
  "SOURCE_MATERIALIZATION_ADAPTERS = [''baby_selfhost'', ''immutable_source_artifact'', ''authenticated_git'', ''connector_handoff'']"

definition source_fields :: "string list" where
  "source_fields = [''product'', ''repository'', ''commit'', ''tree'', ''adapter'', ''immutableDigest'']"

definition plan_source :: "json \<Rightarrow> nat \<Rightarrow> (delivery_error, json_object) result" where
  "plan_source value i =
     (let l = indexed ''products'' i in
      res_bind (plan_object (Some value) l) (\<lambda>item.
      res_bind (check (list_all (\<lambda>(k, v). k \<in> set source_fields \<or> k = ''credentialReference'') item
          \<and> list_all (\<lambda>k. k \<in> fst ` set item) source_fields) (plan_invalid (l @ '' has unexpected or missing fields''))) (\<lambda>_.
      res_bind (plan_text (json_prop ''product'' item) (l @ ''.product'') any_text) (\<lambda>product.
      res_bind (check (product = ''baby-quirt'' \<or> product = ''baby-quirt-mcp'') (plan_invalid (l @ ''.product is unsupported''))) (\<lambda>_.
      res_bind (plan_text (json_prop ''repository'' item) (l @ ''.repository'') REFERENCE_PATTERN) (\<lambda>repository.
      res_bind (check (repository = canonical_repository product) (plan_invalid (product @ '' repository identity is not canonical''))) (\<lambda>_.
      res_bind (plan_text (json_prop ''adapter'' item) (l @ ''.adapter'') any_text) (\<lambda>adapter.
      res_bind (check (adapter \<in> set SOURCE_MATERIALIZATION_ADAPTERS) (plan_invalid (l @ ''.adapter is unsupported''))) (\<lambda>_.
      res_bind (case json_prop ''credentialReference'' item of None \<Rightarrow> Inr None
                | Some v \<Rightarrow> res_bind (plan_text (Some v) (l @ ''.credentialReference'') REFERENCE_PATTERN) (\<lambda>s. Inr (Some s))) (\<lambda>credentialReference.
      res_bind (check (\<not> (adapter = ''authenticated_git'' \<and> credentialReference = None))
        (DeliveryError Delivery_credential_unavailable ''authenticated_git requires a credential reference'' [])) (\<lambda>_.
      res_bind (check (\<not> (adapter \<noteq> ''authenticated_git'' \<and> credentialReference \<noteq> None))
        (plan_invalid ''credentialReference is valid only for authenticated_git'')) (\<lambda>_.
      res_bind (plan_text (json_prop ''commit'' item) (l @ ''.commit'') GIT_OBJECT_PATTERN) (\<lambda>commit.
      res_bind (plan_text (json_prop ''tree'' item) (l @ ''.tree'') GIT_OBJECT_PATTERN) (\<lambda>tree.
      res_bind (plan_text (json_prop ''immutableDigest'' item) (l @ ''.immutableDigest'') DIGEST_PATTERN) (\<lambda>immutableDigest.
      Inr ([(''product'', JStr product), (''repository'', JStr repository), (''commit'', JStr commit), (''tree'', JStr tree),
            (''adapter'', JStr adapter), (''immutableDigest'', JStr immutableDigest)]
           @ (case credentialReference of None \<Rightarrow> [] | Some c \<Rightarrow> [(''credentialReference'', JStr c)])))))))))))))))))"

definition toolchain :: "json \<Rightarrow> nat \<Rightarrow> (delivery_error, json_object) result" where
  "toolchain value i =
     (let l = indexed ''buildProfile.toolchains'' i in
      res_bind (plan_object (Some value) l) (\<lambda>item.
      res_bind (exact item (if json_prop ''digest'' item = None then [''name'', ''version''] else [''name'', ''version'', ''digest'']) l) (\<lambda>_.
      res_bind (plan_text (json_prop ''name'' item) (l @ ''.name'') IDENTIFIER_PATTERN) (\<lambda>name.
      res_bind (plan_text (json_prop ''version'' item) (l @ ''.version'') REFERENCE_PATTERN) (\<lambda>version.
      res_bind (case json_prop ''digest'' item of None \<Rightarrow> Inr []
                | Some v \<Rightarrow> res_bind (plan_text (Some v) (l @ ''.digest'') DIGEST_PATTERN) (\<lambda>d. Inr [(''digest'', JStr d)])) (\<lambda>digest.
      Inr ([(''name'', JStr name), (''version'', JStr version)] @ digest)))))))"

definition lockfile :: "json \<Rightarrow> nat \<Rightarrow> (delivery_error, json_object) result" where
  "lockfile value i =
     (let l = indexed ''buildProfile.lockfiles'' i in
      res_bind (plan_object (Some value) l) (\<lambda>item.
      res_bind (exact item [''path'', ''sha256''] l) (\<lambda>_.
      res_bind (plan_text (json_prop ''path'' item) (l @ ''.path'') any_text) (\<lambda>path.
      res_bind (plan_text (json_prop ''sha256'' item) (l @ ''.sha256'') DIGEST_PATTERN) (\<lambda>sha256.
      Inr [(''path'', JStr path), (''sha256'', JStr sha256)])))))"

text \<open>The entries of an array field, sorted by a string field of theirs, which must be unique.\<close>

definition key_text :: "string \<Rightarrow> json_object \<Rightarrow> string" where
  "key_text k item = (case json_prop k item of Some (JStr s) \<Rightarrow> s | _ \<Rightarrow> [])"

definition bounded_array :: "json option \<Rightarrow> string \<Rightarrow> (delivery_error, json list) result" where
  "bounded_array value label =
     (let e = plan_invalid (label @ '' must be a nonempty bounded array'') in
      case value of Some (JArr items) \<Rightarrow> res_bind (check (items \<noteq> [] \<and> length items \<le> 64) e) (\<lambda>_. Inr items) | _ \<Rightarrow> Inl e)"

definition sort_objects :: "ledger_env \<Rightarrow> string \<Rightarrow> json_object list \<Rightarrow> json_object list" where
  "sort_objects env k items = sort_by (\<lambda>a b. le_localeLe env (key_text k a) (key_text k b)) items"

definition buildProfile :: "ledger_env \<Rightarrow> json option \<Rightarrow> (delivery_error, json) result" where
  "buildProfile env value =
     res_bind (plan_object value ''buildProfile'') (\<lambda>item.
     res_bind (exact item [''name'', ''version'', ''commands'', ''toolchains'', ''lockfiles'', ''cleanEnvironment'', ''reproducibleBuilds''] ''buildProfile'') (\<lambda>_.
     res_bind (bounded_array (json_prop ''toolchains'' item) ''buildProfile.toolchains'') (\<lambda>ts.
     res_bind (bounded_array (json_prop ''lockfiles'' item) ''buildProfile.lockfiles'') (\<lambda>ls.
     res_bind (map_indexed toolchain ts) (\<lambda>ts.
     let toolchains = sort_objects env ''name'' ts in
     res_bind (map_indexed lockfile ls) (\<lambda>ls.
     let lockfiles = sort_objects env ''path'' ls in
     res_bind (check (distinct (map (key_text ''name'') toolchains)) (plan_invalid ''buildProfile.toolchains contains duplicate names'')) (\<lambda>_.
     res_bind (check (distinct (map (key_text ''path'') lockfiles)) (plan_invalid ''buildProfile.lockfiles contains duplicate paths'')) (\<lambda>_.
     res_bind (plan_text (json_prop ''name'' item) ''buildProfile.name'' IDENTIFIER_PATTERN) (\<lambda>name.
     res_bind (plan_text (json_prop ''version'' item) ''buildProfile.version'' REFERENCE_PATTERN) (\<lambda>version.
     res_bind (plan_strings (json_prop ''commands'' item) ''buildProfile.commands'' True any_text) (\<lambda>commands.
     res_bind (plan_bool (json_prop ''cleanEnvironment'' item) ''buildProfile.cleanEnvironment'') (\<lambda>cleanEnvironment.
     res_bind (plan_integer (json_prop ''reproducibleBuilds'' item) ''buildProfile.reproducibleBuilds'' 2) (\<lambda>reproducibleBuilds.
     Inr (JObj [(''name'', JStr name), (''version'', JStr version), (''commands'', string_array commands),
       (''toolchains'', JArr (map JObj toolchains)), (''lockfiles'', JArr (map JObj lockfiles)),
       (''cleanEnvironment'', JBool cleanEnvironment), (''reproducibleBuilds'', JNum reproducibleBuilds)]))))))))))))))"

definition testProfile :: "json option \<Rightarrow> (delivery_error, json) result" where
  "testProfile value =
     res_bind (plan_object value ''testProfile'') (\<lambda>item.
     res_bind (exact item [''name'', ''version'', ''commands'', ''requireZeroSkips'', ''requireStableCounts''] ''testProfile'') (\<lambda>_.
     res_bind (plan_text (json_prop ''name'' item) ''testProfile.name'' IDENTIFIER_PATTERN) (\<lambda>name.
     res_bind (plan_text (json_prop ''version'' item) ''testProfile.version'' REFERENCE_PATTERN) (\<lambda>version.
     res_bind (plan_strings (json_prop ''commands'' item) ''testProfile.commands'' True any_text) (\<lambda>commands.
     res_bind (plan_bool (json_prop ''requireZeroSkips'' item) ''testProfile.requireZeroSkips'') (\<lambda>requireZeroSkips.
     res_bind (plan_bool (json_prop ''requireStableCounts'' item) ''testProfile.requireStableCounts'') (\<lambda>requireStableCounts.
     Inr (JObj [(''name'', JStr name), (''version'', JStr version), (''commands'', string_array commands),
       (''requireZeroSkips'', JBool requireZeroSkips), (''requireStableCounts'', JBool requireStableCounts)]))))))))"

definition certificationProfile :: "ledger_env \<Rightarrow> json option \<Rightarrow> (delivery_error, json) result" where
  "certificationProfile env value =
     res_bind (plan_object value ''certificationProfile'') (\<lambda>item.
     res_bind (exact item [''name'', ''version'', ''requiredNspawnProperties'', ''cycles'', ''requireSystemdPid1'', ''requireUid0Supervisor'',
       ''requireGatewayUid997'', ''destroyAfterCertification''] ''certificationProfile'') (\<lambda>_.
     res_bind (plan_strings (json_prop ''cycles'' item) ''certificationProfile.cycles'' True any_text) (\<lambda>cycles.
     res_bind (check (set [''success'', ''automatic_rollback'', ''restart_or_reboot_recovery''] \<subseteq> set cycles)
       (plan_invalid ''certificationProfile.cycles lacks a required production-shaped cycle'')) (\<lambda>_.
     res_bind (plan_text (json_prop ''name'' item) ''certificationProfile.name'' IDENTIFIER_PATTERN) (\<lambda>name.
     res_bind (plan_text (json_prop ''version'' item) ''certificationProfile.version'' REFERENCE_PATTERN) (\<lambda>version.
     res_bind (plan_strings (json_prop ''requiredNspawnProperties'' item) ''certificationProfile.requiredNspawnProperties'' True any_text) (\<lambda>properties.
     res_bind (plan_bool (json_prop ''requireSystemdPid1'' item) ''certificationProfile.requireSystemdPid1'') (\<lambda>pid1.
     res_bind (plan_bool (json_prop ''requireUid0Supervisor'' item) ''certificationProfile.requireUid0Supervisor'') (\<lambda>uid0.
     res_bind (plan_bool (json_prop ''requireGatewayUid997'' item) ''certificationProfile.requireGatewayUid997'') (\<lambda>uid997.
     res_bind (plan_bool (json_prop ''destroyAfterCertification'' item) ''certificationProfile.destroyAfterCertification'') (\<lambda>destroy.
     Inr (JObj [(''name'', JStr name), (''version'', JStr version), (''requiredNspawnProperties'', string_array (plan_sorted env properties)),
       (''cycles'', string_array cycles), (''requireSystemdPid1'', JBool pid1), (''requireUid0Supervisor'', JBool uid0),
       (''requireGatewayUid997'', JBool uid997), (''destroyAfterCertification'', JBool destroy)]))))))))))))"

definition candidateProfile :: "json option \<Rightarrow> (delivery_error, json) result" where
  "candidateProfile value =
     res_bind (plan_object value ''candidateVerificationProfile'') (\<lambda>item.
     res_bind (exact item [''name'', ''version'', ''checks''] ''candidateVerificationProfile'') (\<lambda>_.
     res_bind (plan_text (json_prop ''name'' item) ''candidateVerificationProfile.name'' IDENTIFIER_PATTERN) (\<lambda>name.
     res_bind (plan_text (json_prop ''version'' item) ''candidateVerificationProfile.version'' REFERENCE_PATTERN) (\<lambda>version.
     res_bind (plan_strings (json_prop ''checks'' item) ''candidateVerificationProfile.checks'' True any_text) (\<lambda>checks.
     Inr (JObj [(''name'', JStr name), (''version'', JStr version), (''checks'', string_array checks)]))))))"

definition acceptanceProfile :: "json option \<Rightarrow> (delivery_error, json) result" where
  "acceptanceProfile value =
     res_bind (plan_object value ''acceptanceProfile'') (\<lambda>item.
     res_bind (exact item [''privateChecks'', ''publicChecks'', ''requireAll''] ''acceptanceProfile'') (\<lambda>_.
     res_bind (plan_strings (json_prop ''privateChecks'' item) ''acceptanceProfile.privateChecks'' True any_text) (\<lambda>privateChecks.
     res_bind (plan_strings (json_prop ''publicChecks'' item) ''acceptanceProfile.publicChecks'' True any_text) (\<lambda>publicChecks.
     res_bind (plan_bool (json_prop ''requireAll'' item) ''acceptanceProfile.requireAll'') (\<lambda>requireAll.
     Inr (JObj [(''privateChecks'', string_array privateChecks), (''publicChecks'', string_array publicChecks), (''requireAll'', JBool requireAll)]))))))"

definition soakProfile :: "json option \<Rightarrow> (delivery_error, json) result" where
  "soakProfile value =
     res_bind (plan_object value ''soakProfile'') (\<lambda>item.
     res_bind (exact item [''durationSeconds'', ''checkpointSeconds'', ''checks''] ''soakProfile'') (\<lambda>_.
     res_bind (plan_integer (json_prop ''durationSeconds'' item) ''soakProfile.durationSeconds'' 1) (\<lambda>durationSeconds.
     res_bind (case json_prop ''checkpointSeconds'' item of
         Some (JArr items) \<Rightarrow> if items = [] then Inl (plan_invalid ''soakProfile.checkpointSeconds must be nonempty'') else Inr items
       | _ \<Rightarrow> Inl (plan_invalid ''soakProfile.checkpointSeconds must be nonempty'')) (\<lambda>items.
     res_bind (map_indexed (\<lambda>entry i. plan_integer (Some entry) (indexed ''soakProfile.checkpointSeconds'' i) 1) items) (\<lambda>checkpoints.
     res_bind (check (list_all (\<lambda>e. e \<le> durationSeconds) checkpoints) (plan_invalid ''soak checkpoint exceeds duration'')) (\<lambda>_.
     res_bind (check (distinct checkpoints) (plan_invalid ''soak checkpoints must be unique'')) (\<lambda>_.
     res_bind (plan_strings (json_prop ''checks'' item) ''soakProfile.checks'' True any_text) (\<lambda>checks.
     Inr (JObj [(''durationSeconds'', JNum durationSeconds), (''checkpointSeconds'', JArr (map JNum (sort checkpoints))),
       (''checks'', string_array checks)])))))))))"

definition rollbackPolicy :: "json option \<Rightarrow> (delivery_error, json) result" where
  "rollbackPolicy value =
     res_bind (plan_object value ''rollbackPolicy'') (\<lambda>item.
     res_bind (exact item [''automaticOnAcceptanceFailure'', ''automaticOnSoakFailure'', ''automaticOnDeadline'', ''cancellationAfterArm'',
       ''unknownDisposition'', ''rollbackFailureDisposition''] ''rollbackPolicy'') (\<lambda>_.
     res_bind (check (json_prop ''cancellationAfterArm'' item = Some (JStr ''rollback'')
         \<and> json_prop ''unknownDisposition'' item = Some (JStr ''repair_required'')
         \<and> json_prop ''rollbackFailureDisposition'' item = Some (JStr ''manual_recovery_required''))
       (plan_invalid ''rollback policy weakens fixed recovery semantics'')) (\<lambda>_.
     res_bind (plan_bool (json_prop ''automaticOnAcceptanceFailure'' item) ''rollbackPolicy.automaticOnAcceptanceFailure'') (\<lambda>onAcceptance.
     res_bind (plan_bool (json_prop ''automaticOnSoakFailure'' item) ''rollbackPolicy.automaticOnSoakFailure'') (\<lambda>onSoak.
     res_bind (plan_bool (json_prop ''automaticOnDeadline'' item) ''rollbackPolicy.automaticOnDeadline'') (\<lambda>onDeadline.
     Inr (JObj [(''automaticOnAcceptanceFailure'', JBool onAcceptance), (''automaticOnSoakFailure'', JBool onSoak),
       (''automaticOnDeadline'', JBool onDeadline), (''cancellationAfterArm'', JStr ''rollback''),
       (''unknownDisposition'', JStr ''repair_required''), (''rollbackFailureDisposition'', JStr ''manual_recovery_required'')])))))))"

text \<open>An object whose fields are all positive integers (\<open>Object.fromEntries(keys.map(...))\<close>).\<close>

definition positive_fields :: "string \<Rightarrow> string list \<Rightarrow> json option \<Rightarrow> (delivery_error, json) result" where
  "positive_fields label keys value =
     res_bind (plan_object value label) (\<lambda>item.
     res_bind (exact item keys label) (\<lambda>_.
     res_bind (res_map (\<lambda>k. res_bind (plan_integer (json_prop k item) (label @ ''.'' @ k) 1) (\<lambda>n. Inr (k, JNum n))) keys) (\<lambda>kvs.
     Inr (JObj kvs))))"

definition resourceBounds :: "json option \<Rightarrow> (delivery_error, json) result" where
  "resourceBounds = positive_fields ''resourceBounds'' [''maxWallSeconds'', ''maxCpuSeconds'', ''maxMemoryBytes'', ''maxDiskBytes'',
     ''maxInodes'', ''maxOutputBytes'', ''maxArtifacts'']"

definition retentionPolicy :: "json option \<Rightarrow> (delivery_error, json) result" where
  "retentionPolicy = positive_fields ''retentionPolicy'' [''eventDays'', ''evidenceDays'', ''artifactDays'', ''retainTerminalRuns'']"

definition timeBounds :: "json option \<Rightarrow> (delivery_error, json) result" where
  "timeBounds value =
     res_bind (plan_object value ''timeBounds'') (\<lambda>item.
     res_bind (exact item [''notBefore'', ''expiresAt'', ''guardDeadline''] ''timeBounds'') (\<lambda>_.
     res_bind (plan_timestamp (json_prop ''notBefore'' item) ''timeBounds.notBefore'') (\<lambda>notBefore.
     res_bind (plan_timestamp (json_prop ''expiresAt'' item) ''timeBounds.expiresAt'') (\<lambda>expiresAt.
     res_bind (plan_timestamp (json_prop ''guardDeadline'' item) ''timeBounds.guardDeadline'') (\<lambda>guardDeadline.
     res_bind (check (time_of notBefore < time_of guardDeadline \<and> time_of guardDeadline \<le> time_of expiresAt)
       (plan_invalid ''time bounds must satisfy notBefore < guardDeadline <= expiresAt'')) (\<lambda>_.
     Inr (JObj [(''notBefore'', JStr notBefore), (''expiresAt'', JStr expiresAt), (''guardDeadline'', JStr guardDeadline)])))))))"

definition costBounds :: "json option \<Rightarrow> (delivery_error, json) result" where
  "costBounds value =
     res_bind (plan_object value ''costBounds'') (\<lambda>item.
     res_bind (exact item [''currency'', ''maximumMinorUnits''] ''costBounds'') (\<lambda>_.
     res_bind (plan_text (json_prop ''currency'' item) ''costBounds.currency'' CURRENCY_PATTERN) (\<lambda>currency.
     res_bind (plan_integer (json_prop ''maximumMinorUnits'' item) ''costBounds.maximumMinorUnits'' 0) (\<lambda>maximumMinorUnits.
     Inr (JObj [(''currency'', JStr currency), (''maximumMinorUnits'', JNum maximumMinorUnits)])))))"

subsection \<open>Plans\<close>

definition plan_keys :: "string list" where
  "plan_keys = [''schemaVersion'', ''deliveryId'', ''ownerPrincipal'', ''authorizationReference'', ''targetHostname'', ''targetMachineIdentity'',
     ''products'', ''buildProfile'', ''testProfile'', ''certificationProfile'', ''targetReleaseIdentifiers'', ''protectedReleases'',
     ''protectedPaths'', ''candidateVerificationProfile'', ''activationOrder'', ''acceptanceProfile'', ''soakProfile'', ''rollbackPolicy'',
     ''timeBounds'', ''allowedExternalSideEffects'', ''resourceBounds'', ''costBounds'', ''evidenceRequirements'', ''retentionPolicy'']"

definition plan_products :: "ledger_env \<Rightarrow> json option \<Rightarrow> (delivery_error, json) result" where
  "plan_products env value =
     res_bind (case value of Some (JArr items) \<Rightarrow> if length items = 2 then Inr items else Inl (plan_invalid ''products must contain exactly Baby and Gateway'')
               | _ \<Rightarrow> Inl (plan_invalid ''products must contain exactly Baby and Gateway'')) (\<lambda>items.
     res_bind (map_indexed plan_source items) (\<lambda>sources.
     let products = sort_objects env ''product'' sources in
     res_bind (check (card (set (map (key_text ''product'') products)) = 2) (plan_invalid ''products must contain unique Baby and Gateway identities'')) (\<lambda>_.
     Inr (JArr (map JObj products)))))"

definition activation_order :: "json option \<Rightarrow> (delivery_error, json) result" where
  "activation_order value =
     res_bind (plan_strings value ''activationOrder'' False any_text) (\<lambda>order.
     res_bind (check (canonicalJson (string_array order) = canonicalJson (string_array [''baby-quirt-mcp'', ''baby-quirt'']))
       (plan_invalid ''activationOrder must preserve gateway-before-Baby compatibility'')) (\<lambda>_. Inr (string_array order)))"

definition sorted_strings :: "ledger_env \<Rightarrow> json option \<Rightarrow> string \<Rightarrow> bool \<Rightarrow> (string \<Rightarrow> bool) \<Rightarrow> (delivery_error, json) result" where
  "sorted_strings env value label nonempty pattern =
     res_bind (plan_strings value label nonempty pattern) (\<lambda>xs. Inr (string_array (plan_sorted env xs)))"

definition plan_body :: "ledger_env \<Rightarrow> json_object \<Rightarrow> (delivery_error, json_object) result" where
  "plan_body env item =
     res_bind (plan_products env (json_prop ''products'' item)) (\<lambda>products.
     res_bind (plan_object (json_prop ''targetReleaseIdentifiers'' item) ''targetReleaseIdentifiers'') (\<lambda>targets.
     res_bind (exact targets [''baby-quirt'', ''baby-quirt-mcp''] ''targetReleaseIdentifiers'') (\<lambda>_.
     res_bind (activation_order (json_prop ''activationOrder'' item)) (\<lambda>activationOrder.
     res_bind (plan_text (json_prop ''deliveryId'' item) ''deliveryId'' IDENTIFIER_PATTERN) (\<lambda>deliveryId.
     res_bind (plan_text (json_prop ''ownerPrincipal'' item) ''ownerPrincipal'' IDENTIFIER_PATTERN) (\<lambda>ownerPrincipal.
     res_bind (plan_text (json_prop ''authorizationReference'' item) ''authorizationReference'' REFERENCE_PATTERN) (\<lambda>authorizationReference.
     res_bind (plan_text (json_prop ''targetHostname'' item) ''targetHostname'' IDENTIFIER_PATTERN) (\<lambda>targetHostname.
     res_bind (plan_text (json_prop ''targetMachineIdentity'' item) ''targetMachineIdentity'' DIGEST_PATTERN) (\<lambda>targetMachineIdentity.
     res_bind (buildProfile env (json_prop ''buildProfile'' item)) (\<lambda>build.
     res_bind (testProfile (json_prop ''testProfile'' item)) (\<lambda>test.
     res_bind (certificationProfile env (json_prop ''certificationProfile'' item)) (\<lambda>certification.
     res_bind (plan_text (json_prop ''baby-quirt'' targets) ''targetReleaseIdentifiers.baby-quirt'' IDENTIFIER_PATTERN) (\<lambda>targetBaby.
     res_bind (plan_text (json_prop ''baby-quirt-mcp'' targets) ''targetReleaseIdentifiers.baby-quirt-mcp'' IDENTIFIER_PATTERN) (\<lambda>targetGateway.
     res_bind (sorted_strings env (json_prop ''protectedReleases'' item) ''protectedReleases'' True IDENTIFIER_PATTERN) (\<lambda>protectedReleases.
     res_bind (sorted_strings env (json_prop ''protectedPaths'' item) ''protectedPaths'' True PATH_PATTERN) (\<lambda>protectedPaths.
     res_bind (candidateProfile (json_prop ''candidateVerificationProfile'' item)) (\<lambda>candidate.
     res_bind (acceptanceProfile (json_prop ''acceptanceProfile'' item)) (\<lambda>acceptance.
     res_bind (soakProfile (json_prop ''soakProfile'' item)) (\<lambda>soak.
     res_bind (rollbackPolicy (json_prop ''rollbackPolicy'' item)) (\<lambda>rollback.
     res_bind (timeBounds (json_prop ''timeBounds'' item)) (\<lambda>times.
     res_bind (sorted_strings env (json_prop ''allowedExternalSideEffects'' item) ''allowedExternalSideEffects'' False any_text) (\<lambda>sideEffects.
     res_bind (resourceBounds (json_prop ''resourceBounds'' item)) (\<lambda>resources.
     res_bind (costBounds (json_prop ''costBounds'' item)) (\<lambda>costs.
     res_bind (sorted_strings env (json_prop ''evidenceRequirements'' item) ''evidenceRequirements'' True IDENTIFIER_PATTERN) (\<lambda>evidence.
     res_bind (retentionPolicy (json_prop ''retentionPolicy'' item)) (\<lambda>retention.
     Inr [(''schemaVersion'', JStr ''1.0.0''), (''deliveryId'', JStr deliveryId), (''ownerPrincipal'', JStr ownerPrincipal),
       (''authorizationReference'', JStr authorizationReference), (''targetHostname'', JStr targetHostname),
       (''targetMachineIdentity'', JStr targetMachineIdentity), (''products'', products), (''buildProfile'', build), (''testProfile'', test),
       (''certificationProfile'', certification),
       (''targetReleaseIdentifiers'', JObj [(''baby-quirt'', JStr targetBaby), (''baby-quirt-mcp'', JStr targetGateway)]),
       (''protectedReleases'', protectedReleases), (''protectedPaths'', protectedPaths), (''candidateVerificationProfile'', candidate),
       (''activationOrder'', activationOrder), (''acceptanceProfile'', acceptance), (''soakProfile'', soak), (''rollbackPolicy'', rollback),
       (''timeBounds'', times), (''allowedExternalSideEffects'', sideEffects), (''resourceBounds'', resources), (''costBounds'', costs),
       (''evidenceRequirements'', evidence), (''retentionPolicy'', retention)]))))))))))))))))))))))))))"

definition canonicalizeDeliveryPlan :: "ledger_env \<Rightarrow> json \<Rightarrow> (delivery_error, json_object) result" where
  "canonicalizeDeliveryPlan env value =
     res_bind (plan_object (Some value) ''delivery plan'') (\<lambda>item.
     res_bind (exact item plan_keys ''delivery plan'') (\<lambda>_.
     res_bind (check (json_prop ''schemaVersion'' item = Some (JStr ''1.0.0'')) (plan_invalid ''schemaVersion must be 1.0.0'')) (\<lambda>_.
     res_bind (plan_body env item) (\<lambda>body.
     Inr (body @ [(''planDigest'', JStr (le_sha256 env (canonicalJson (JObj body))))])))))"

definition canonicalDeliveryPlanJson :: "ledger_env \<Rightarrow> json \<Rightarrow> (delivery_error, string) result" where
  "canonicalDeliveryPlanJson env value = res_bind (canonicalizeDeliveryPlan env value) (\<lambda>plan. Inr (canonicalJson (JObj plan)))"

definition assertAuthorizedPlan :: "json_object \<Rightarrow> string \<Rightarrow> (delivery_error, unit) result" where
  "assertAuthorizedPlan plan authorizedPlanDigest =
     check (DIGEST_PATTERN authorizedPlanDigest \<and> json_prop ''planDigest'' plan = Some (JStr authorizedPlanDigest))
       (DeliveryError Delivery_authorization_invalid ''Authorization does not bind the exact canonical delivery plan''
          [(''expected'', JStr (key_text ''planDigest'' plan)), (''authorized'', JStr authorizedPlanDigest)])"

text \<open>\<open>canonicalPlan\<close> of \<^verbatim>\<open>delivery/persistence.ts\<close>: a plan that claims to be canonical is read again.\<close>

definition canonicalPlan :: "ledger_env \<Rightarrow> json_object \<Rightarrow> (delivery_error, json_object) result" where
  "canonicalPlan env plan =
     res_bind (canonicalizeDeliveryPlan env (JObj (filter (\<lambda>(k, v). k \<noteq> ''planDigest'') plan))) (\<lambda>canonical.
     res_bind (check (json_prop ''planDigest'' canonical = json_prop ''planDigest'' plan)
       (DeliveryError Delivery_plan_changed ''Delivery plan digest does not match canonical content''
          ((''expected'', JStr (key_text ''planDigest'' canonical)) #
           (case json_prop ''planDigest'' plan of None \<Rightarrow> [] | Some v \<Rightarrow> [(''actual'', v)])))) (\<lambda>_.
     Inr canonical))"

subsection \<open>What the readers accept\<close>

named_theorems plan_simps \<open>what a reader of plan values accepted\<close>

lemma plan_object_Inr [plan_simps]: "plan_object v l = Inr kvs \<longleftrightarrow> v = Some (JObj kvs)"
  by (auto simp: plan_object_def split: option.splits json.splits)

lemma plan_text_Inr [plan_simps]:
  "plan_text v l P = Inr s \<longleftrightarrow> v = Some (JStr s) \<and> s \<noteq> [] \<and> length s \<le> 4096 \<and> P s"
  by (auto simp: plan_text_def res_simps split: option.splits json.splits)

lemma plan_bool_Inr [plan_simps]: "plan_bool v l = Inr b \<longleftrightarrow> v = Some (JBool b)"
  by (auto simp: plan_bool_def split: option.splits json.splits)

lemma plan_integer_Inr [plan_simps]: "plan_integer v l m = Inr n \<longleftrightarrow> v = Some (JNum n) \<and> safe_integer n \<and> m \<le> n"
  by (auto simp: plan_integer_def Let_def res_simps split: option.splits json.splits)

lemma plan_timestamp_Inr [plan_simps]:
  "plan_timestamp v l = Inr s \<longleftrightarrow> v = Some (JStr s) \<and> s \<noteq> [] \<and> length s \<le> 4096 \<and> canonical_timestamp s"
  by (auto simp: plan_timestamp_def plan_text_Inr res_simps)

lemma bounded_array_Inr [plan_simps]: "bounded_array v l = Inr xs \<longleftrightarrow> v = Some (JArr xs) \<and> xs \<noteq> [] \<and> length xs \<le> 64"
  by (auto simp: bounded_array_def Let_def res_simps split: option.splits json.splits)

lemma res_map_nth: "res_map f xs = Inr ys \<longleftrightarrow> length ys = length xs \<and> (\<forall>i<length xs. f (xs ! i) = Inr (ys ! i))"
proof (induction xs arbitrary: ys)
  case (Cons x xs)
  then show ?case by (cases ys) (auto simp: res_simps nth_Cons split: nat.splits)
qed auto

lemma map_indexed_Inr: "map_indexed f xs = Inr ys \<longleftrightarrow> length ys = length xs \<and> (\<forall>i<length xs. f (xs ! i) i = Inr (ys ! i))"
  by (auto simp: map_indexed_def res_map_nth)

lemma plan_strings_Inr [plan_simps]:
  "plan_strings v l ne P = Inr xs \<longleftrightarrow> v = Some (string_array xs) \<and> \<not> (ne \<and> xs = []) \<and> length xs \<le> 512
     \<and> distinct xs \<and> list_all (\<lambda>s. s \<noteq> [] \<and> length s \<le> 4096 \<and> P s) xs"
proof (cases "\<exists>items. v = Some (JArr items)")
  case True
  then obtain items where v: "v = Some (JArr items)" by blast
  have *: "map_indexed (\<lambda>item i. plan_text (Some item) (indexed l i) P) items = Inr xs \<longleftrightarrow>
      items = map JStr xs \<and> list_all (\<lambda>s. s \<noteq> [] \<and> length s \<le> 4096 \<and> P s) xs"
    by (auto simp: map_indexed_Inr plan_text_Inr list_all_length intro: nth_equalityI)
  show ?thesis unfolding v plan_strings_def by (auto simp: Let_def res_simps * string_array_def)
next
  case False
  then show ?thesis by (auto simp: plan_strings_def Let_def string_array_def split: option.splits json.splits)
qed

lemma exact_refl: "map fst kvs = ks \<Longrightarrow> exact kvs ks l = Inr ()"
  by (simp add: exact_def Let_def)

subsection \<open>Sorting\<close>

text \<open>\<open>localeCompare\<close> is a total preorder.\<close>

definition collation :: "ledger_env \<Rightarrow> bool" where
  "collation env \<longleftrightarrow> (\<forall>a b. le_localeLe env a b \<or> le_localeLe env b a)
     \<and> (\<forall>a b c. le_localeLe env a b \<longrightarrow> le_localeLe env b c \<longrightarrow> le_localeLe env a c)"

lemma sort_by_fixed: "sorted_wrt le xs \<Longrightarrow> sort_by le xs = xs"
proof (induction xs)
  case (Cons x xs)
  then show ?case by (cases xs) (simp_all add: sort_by_Cons sort_by_def)
qed (simp add: sort_by_def)

lemma sorted_insort_by:
  assumes "\<And>a b. le a b \<or> le b a" "\<And>a b c. le a b \<Longrightarrow> le b c \<Longrightarrow> le a c"
  shows "sorted_wrt le xs \<Longrightarrow> sorted_wrt le (insort_by le x xs)"
proof (induction xs)
  case (Cons y ys)
  then show ?case using assms(1) [of x y] by (auto intro: assms(2))
qed simp

lemma sort_by_idem:
  assumes "\<And>a b. le a b \<or> le b a" "\<And>a b c. le a b \<Longrightarrow> le b c \<Longrightarrow> le a c"
  shows "sort_by le (sort_by le xs) = sort_by le xs"
proof (rule sort_by_fixed)
  show "sorted_wrt le (sort_by le xs)"
    by (induction xs) (simp_all add: sort_by_Cons sort_by_def sorted_insort_by [OF assms])
qed

lemma plan_sorted_idem: "collation env \<Longrightarrow> plan_sorted env (plan_sorted env xs) = plan_sorted env xs"
  unfolding plan_sorted_def collation_def by (rule sort_by_idem) blast+

lemma sort_objects_idem: "collation env \<Longrightarrow> sort_objects env k (sort_objects env k xs) = sort_objects env k xs"
  unfolding sort_objects_def collation_def by (rule sort_by_idem) blast+

subsection \<open>A canonical plan is a fixed point\<close>

lemma string_array_inject [simp]: "string_array xs = string_array ys \<longleftrightarrow> xs = ys"
  by (auto simp: string_array_def dest: map_injective intro: injI)

lemma map_indexed_sorted:
  assumes "\<And>x i y j. f x i = Inr y \<Longrightarrow> f (JObj y) j = Inr y"
    and "map_indexed f xs = Inr ys"
  shows "map_indexed f (map JObj (sort_objects env k ys)) = Inr (sort_objects env k ys)"
proof -
  have "\<forall>y\<in>set ys. \<forall>j. f (JObj y) j = Inr y"
    using assms by (metis in_set_conv_nth map_indexed_Inr)
  then show ?thesis by (simp add: map_indexed_Inr) (metis nth_mem set_sort_by sort_objects_def length_sort_by)
qed

lemma toolchain_stable: "toolchain v i = Inr t \<Longrightarrow> toolchain (JObj t) j = Inr t"
  by (auto simp: toolchain_def Let_def res_simps plan_simps exact_refl json_prop_def split: option.splits if_splits)

lemma lockfile_stable: "lockfile v i = Inr t \<Longrightarrow> lockfile (JObj t) j = Inr t"
  by (auto simp: lockfile_def Let_def res_simps plan_simps exact_refl json_prop_def)

lemma optional_text_Inr:
  "(case x of None \<Rightarrow> Inr None | Some v \<Rightarrow> res_bind (plan_text (Some v) l P) (\<lambda>s. Inr (Some s))) = Inr c \<longleftrightarrow>
     x = map_option JStr c \<and> (case c of None \<Rightarrow> True | Some s \<Rightarrow> s \<noteq> [] \<and> length s \<le> 4096 \<and> P s)"
  by (cases c; cases x) (auto simp: res_simps plan_text_Inr)


lemma plan_source_stable:
  assumes "plan_source v i = Inr t"
  shows "plan_source (JObj t) j = Inr t"
proof -
  obtain product repository commit tree adapter digest cred where
    t: "t = [(''product'', JStr product), (''repository'', JStr repository), (''commit'', JStr commit), (''tree'', JStr tree),
         (''adapter'', JStr adapter), (''immutableDigest'', JStr digest)] @ (case cred of None \<Rightarrow> [] | Some c \<Rightarrow> [(''credentialReference'', JStr c)])"
    and *: "product = ''baby-quirt'' \<or> product = ''baby-quirt-mcp''" "repository = canonical_repository product" "repository \<noteq> []" "length repository \<le> 4096"
      "REFERENCE_PATTERN repository" "product \<noteq> []" "length product \<le> 4096" "adapter \<noteq> []" "length adapter \<le> 4096"
      "adapter \<in> set SOURCE_MATERIALIZATION_ADAPTERS" "\<not> (adapter = ''authenticated_git'' \<and> cred = None)" "\<not> (adapter \<noteq> ''authenticated_git'' \<and> cred \<noteq> None)"
      "case cred of None \<Rightarrow> True | Some s \<Rightarrow> s \<noteq> [] \<and> length s \<le> 4096 \<and> REFERENCE_PATTERN s"
      "commit \<noteq> []" "length commit \<le> 4096" "GIT_OBJECT_PATTERN commit" "tree \<noteq> []" "length tree \<le> 4096" "GIT_OBJECT_PATTERN tree"
      "digest \<noteq> []" "length digest \<le> 4096" "DIGEST_PATTERN digest"
    using assms unfolding plan_source_def Let_def res_bind_Inr check_Inr plan_simps optional_text_Inr sum.inject
    apply (elim exE conjE)
    apply (rule that)
    apply (erule sym)
    apply assumption+
    done
  show ?thesis
    unfolding plan_source_def Let_def res_bind_Inr check_Inr plan_simps optional_text_Inr sum.inject
    using * by (cases cred) (auto simp: t json_prop_def source_fields_def intro: exI [of _ cred])
qed

lemma sort_objects_props [simp]:
  "length (sort_objects env k xs) = length xs" "sort_objects env k xs = [] \<longleftrightarrow> xs = []"
  by (auto simp: sort_objects_def simp flip: length_0_conv)


lemma buildProfile_stable:
  assumes "collation env" "buildProfile env v = Inr w"
  shows "buildProfile env (Some w) = Inr w"
proof -
  obtain ts ls toolchains lockfiles name version commands clean builds where
    w: "w = JObj [(''name'', JStr name), (''version'', JStr version), (''commands'', string_array commands),
       (''toolchains'', JArr (map JObj (sort_objects env ''name'' toolchains))), (''lockfiles'', JArr (map JObj (sort_objects env ''path'' lockfiles))),
       (''cleanEnvironment'', JBool clean), (''reproducibleBuilds'', JNum builds)]"
    and *: "map_indexed toolchain ts = Inr toolchains" "map_indexed lockfile ls = Inr lockfiles"
      "ts \<noteq> []" "length ts \<le> 64" "ls \<noteq> []" "length ls \<le> 64"
      "distinct (map (key_text ''name'') (sort_objects env ''name'' toolchains))"
      "distinct (map (key_text ''path'') (sort_objects env ''path'' lockfiles))"
      "name \<noteq> []" "length name \<le> 4096" "IDENTIFIER_PATTERN name" "version \<noteq> []" "length version \<le> 4096" "REFERENCE_PATTERN version"
      "\<not> (True \<and> commands = [])" "length commands \<le> 512" "distinct commands" "list_all (\<lambda>s. s \<noteq> [] \<and> length s \<le> 4096 \<and> True) commands"
      "safe_integer builds" "2 \<le> builds"
    using assms(2) unfolding buildProfile_def Let_def res_bind_Inr check_Inr plan_simps sum.inject
    apply (elim exE conjE)
    apply (rule that)
    apply (erule sym)
    apply assumption+
    done
  have m: "map_indexed toolchain (map JObj (sort_objects env ''name'' toolchains)) = Inr (sort_objects env ''name'' toolchains)"
    "map_indexed lockfile (map JObj (sort_objects env ''path'' lockfiles)) = Inr (sort_objects env ''path'' lockfiles)"
    using map_indexed_sorted [OF toolchain_stable *(1)]  map_indexed_sorted [OF lockfile_stable *(2)] by auto
  have "length toolchains = length ts" "length lockfiles = length ls" using * by (auto simp: map_indexed_Inr)
  with * have "toolchains \<noteq> []" "lockfiles \<noteq> []" "length toolchains \<le> 64" "length lockfiles \<le> 64"
    by auto
  then  show ?thesis
    unfolding buildProfile_def Let_def res_bind_Inr check_Inr plan_simps sum.inject
    using * by (simp add: w m json_prop_def exact_refl sort_objects_idem [OF assms(1)])
qed




lemma positive_fields_stable:
  assumes "distinct ks" "positive_fields l ks v = Inr w"
  shows "positive_fields l ks (Some w) = Inr w"
proof -
  obtain item kvs where w: "w = JObj kvs"
    and kvs: "res_map (\<lambda>k. res_bind (plan_integer (json_prop k item) (l @ ''.'' @ k) 1) (\<lambda>n. Inr (k, JNum n))) ks = Inr kvs"
    using assms(2) by (auto simp: positive_fields_def res_simps)
  have len: "length kvs = length ks" using kvs by (simp add: res_map_nth)
  have nth: "\<exists>n. kvs ! i = (ks ! i, JNum n) \<and> safe_integer n \<and> 1 \<le> n" if "i < length ks" for i
    using kvs that by (auto simp: res_map_nth res_bind_Inr plan_integer_Inr dest!: spec [of _ i]) metis
  have ks: "map fst kvs = ks" by (rule nth_equalityI) (use len nth in fastforce)+
  have look: "map_of kvs (ks ! i) = Some (snd (kvs ! i))" if "i < length ks" for i
  proof (rule map_of_is_SomeI)
    show "distinct (map fst kvs)" using assms(1) ks by simp
    have "kvs ! i \<in> set kvs" using that len by simp
    then show "(ks ! i, snd (kvs ! i)) \<in> set kvs" using nth [OF that] by auto
  qed
  have "res_bind (plan_integer (json_prop (ks ! i) kvs) (l @ ''.'' @ ks ! i) 1) (\<lambda>n. Inr (ks ! i, JNum n)) = Inr (kvs ! i)"
    if "i < length ks" for i
    using nth [OF that] look [OF that] by (auto simp: res_bind_Inr plan_integer_Inr json_prop_def)
  with len have "res_map (\<lambda>k. res_bind (plan_integer (json_prop k kvs) (l @ ''.'' @ k) 1) (\<lambda>n. Inr (k, JNum n))) ks = Inr kvs"
    by (simp add: res_map_nth)
  then show ?thesis by (simp add: positive_fields_def w plan_object_def exact_refl [OF ks])
qed

lemma soak_numbers_stable:
  assumes "map_indexed (\<lambda>entry i. plan_integer (Some entry) (indexed l i) 1) ys = Inr xs"
  shows "map_indexed (\<lambda>entry i. plan_integer (Some entry) (indexed l i) 1) (map JNum (sort xs)) = Inr (sort xs)"
proof -
  have "\<forall>x\<in>set (sort xs). safe_integer x \<and> 1 \<le> x"
    using assms by (auto simp: map_indexed_Inr plan_simps in_set_conv_nth)
  then show ?thesis by (simp add: map_indexed_Inr plan_simps del: set_sort)
qed

lemma nonempty_array_Inr:
  "(case v of Some (JArr items) \<Rightarrow> if items = [] then Inl e else Inr items | _ \<Rightarrow> Inl e) = Inr xs \<longleftrightarrow> v = Some (JArr xs) \<and> xs \<noteq> []"
  by (auto split: option.splits json.splits)

lemma soakProfile_stable:
  assumes "soakProfile v = Inr w"
  shows "soakProfile (Some w) = Inr w"
proof -
  obtain duration items points checks where
    w: "w = JObj [(''durationSeconds'', JNum duration), (''checkpointSeconds'', JArr (map JNum (sort points))), (''checks'', string_array checks)]"
    and *: "safe_integer duration" "1 \<le> duration" "list_all (\<lambda>e. e \<le> duration) points" "distinct points"
      "\<not> (True \<and> checks = [])" "length checks \<le> 512" "distinct checks" "list_all (\<lambda>s. s \<noteq> [] \<and> length s \<le> 4096 \<and> True) checks"
    and points: "map_indexed (\<lambda>entry i. plan_integer (Some entry) (indexed ''soakProfile.checkpointSeconds'' i) 1) items = Inr points" "items \<noteq> []"
    using assms unfolding soakProfile_def res_bind_Inr check_Inr plan_simps nonempty_array_Inr sum.inject
    apply (elim exE conjE)
    apply (rule that)
    apply (erule sym)
    apply assumption+
    done
  have "points \<noteq> []" using points by (auto simp: map_indexed_Inr)
  then have "sort points \<noteq> []" by (metis length_0_conv length_sort)
  then show ?thesis using * soak_numbers_stable [OF points(1)]
    by (simp add: soakProfile_def w res_bind_Inr check_Inr plan_simps json_prop_def exact_refl list_all_iff sorted_sort_id)
qed

lemma plan_products_stable:
  assumes "collation env" "plan_products env v = Inr w"
  shows "plan_products env (Some w) = Inr w"
proof -
  obtain items sources where w: "w = JArr (map JObj (sort_objects env ''product'' sources))" and "length items = 2"
    and sources: "map_indexed plan_source items = Inr sources"
    and two: "card (set (map (key_text ''product'') (sort_objects env ''product'' sources))) = 2"
    using assms(2) unfolding plan_products_def
    by (auto simp: res_bind_Inr check_Inr Let_def split: option.splits json.splits if_splits)
  then have "length sources = 2" by (simp add: map_indexed_Inr)
  with two show ?thesis using map_indexed_sorted [OF plan_source_stable sources, where env = env and k = "''product''"]
    by (simp add: plan_products_def w Let_def sort_objects_idem [OF assms(1)])
qed

lemma testProfile_stable: "testProfile v = Inr w \<Longrightarrow> testProfile (Some w) = Inr w"
  by (auto simp: testProfile_def res_simps plan_simps exact_refl json_prop_def)

lemma candidateProfile_stable: "candidateProfile v = Inr w \<Longrightarrow> candidateProfile (Some w) = Inr w"
  by (auto simp: candidateProfile_def res_simps plan_simps exact_refl json_prop_def)

lemma acceptanceProfile_stable: "acceptanceProfile v = Inr w \<Longrightarrow> acceptanceProfile (Some w) = Inr w"
  by (auto simp: acceptanceProfile_def res_simps plan_simps exact_refl json_prop_def)

lemma rollbackPolicy_stable: "rollbackPolicy v = Inr w \<Longrightarrow> rollbackPolicy (Some w) = Inr w"
  by (auto simp: rollbackPolicy_def res_simps plan_simps exact_refl json_prop_def)

lemma timeBounds_stable: "timeBounds v = Inr w \<Longrightarrow> timeBounds (Some w) = Inr w"
  by (auto simp: timeBounds_def res_simps plan_simps exact_refl json_prop_def)

lemma costBounds_stable: "costBounds v = Inr w \<Longrightarrow> costBounds (Some w) = Inr w"
  by (auto simp: costBounds_def res_simps plan_simps exact_refl json_prop_def)

lemma activation_order_stable: "activation_order v = Inr w \<Longrightarrow> activation_order (Some w) = Inr w"
  by (auto simp: activation_order_def res_simps plan_simps)

lemma plan_sorted_props [simp]:
  "set (plan_sorted env xs) = set xs" "length (plan_sorted env xs) = length xs" "distinct (plan_sorted env xs) = distinct xs"
  "plan_sorted env xs = [] \<longleftrightarrow> xs = []" "list_all P (plan_sorted env xs) = list_all P xs"
  by (auto simp: plan_sorted_def list_all_iff simp flip: length_0_conv)

lemma sorted_strings_stable:
  "collation env \<Longrightarrow> sorted_strings env v l ne P = Inr w \<Longrightarrow> sorted_strings env (Some w) l ne P = Inr w"
  by (auto simp: sorted_strings_def res_simps plan_simps plan_sorted_idem)

lemma certificationProfile_stable:
  "collation env \<Longrightarrow> certificationProfile env v = Inr w \<Longrightarrow> certificationProfile env (Some w) = Inr w"
  by (auto simp: certificationProfile_def res_simps plan_simps exact_refl json_prop_def plan_sorted_idem)

lemma resourceBounds_stable: "resourceBounds v = Inr w \<Longrightarrow> resourceBounds (Some w) = Inr w"
  unfolding resourceBounds_def by (erule positive_fields_stable [rotated]) simp

lemma retentionPolicy_stable: "retentionPolicy v = Inr w \<Longrightarrow> retentionPolicy (Some w) = Inr w"
  unfolding retentionPolicy_def by (erule positive_fields_stable [rotated]) simp

lemma plan_body_keys: "plan_body env item = Inr body \<Longrightarrow> map fst body = plan_keys \<and> json_prop ''schemaVersion'' body = Some (JStr ''1.0.0'')"
  by (auto simp: plan_body_def res_bind_Inr plan_keys_def json_prop_def)

lemma plan_body_stable:
  assumes c: "collation env" and "plan_body env item = Inr body"
  shows "plan_body env body = Inr body"
proof -
  obtain products targets order deliveryId owner authorization host machine build test certification baby gateway releases paths
      candidate acceptance soak rollback bounds effects resources costs evidence retention where
    body: "body = [(''schemaVersion'', JStr ''1.0.0''), (''deliveryId'', JStr deliveryId), (''ownerPrincipal'', JStr owner),
       (''authorizationReference'', JStr authorization), (''targetHostname'', JStr host),
       (''targetMachineIdentity'', JStr machine), (''products'', products), (''buildProfile'', build), (''testProfile'', test),
       (''certificationProfile'', certification),
       (''targetReleaseIdentifiers'', JObj [(''baby-quirt'', JStr baby), (''baby-quirt-mcp'', JStr gateway)]),
       (''protectedReleases'', releases), (''protectedPaths'', paths), (''candidateVerificationProfile'', candidate),
       (''activationOrder'', order), (''acceptanceProfile'', acceptance), (''soakProfile'', soak), (''rollbackPolicy'', rollback),
       (''timeBounds'', bounds), (''allowedExternalSideEffects'', effects), (''resourceBounds'', resources), (''costBounds'', costs),
       (''evidenceRequirements'', evidence), (''retentionPolicy'', retention)]"
    and accepted: "plan_products env (json_prop ''products'' item) = Inr products"
      "activation_order (json_prop ''activationOrder'' item) = Inr order"
      "buildProfile env (json_prop ''buildProfile'' item) = Inr build"
      "testProfile (json_prop ''testProfile'' item) = Inr test"
      "certificationProfile env (json_prop ''certificationProfile'' item) = Inr certification"
      "sorted_strings env (json_prop ''protectedReleases'' item) ''protectedReleases'' True IDENTIFIER_PATTERN = Inr releases"
      "sorted_strings env (json_prop ''protectedPaths'' item) ''protectedPaths'' True PATH_PATTERN = Inr paths"
      "candidateProfile (json_prop ''candidateVerificationProfile'' item) = Inr candidate"
      "acceptanceProfile (json_prop ''acceptanceProfile'' item) = Inr acceptance"
      "soakProfile (json_prop ''soakProfile'' item) = Inr soak"
      "rollbackPolicy (json_prop ''rollbackPolicy'' item) = Inr rollback"
      "timeBounds (json_prop ''timeBounds'' item) = Inr bounds"
      "sorted_strings env (json_prop ''allowedExternalSideEffects'' item) ''allowedExternalSideEffects'' False any_text = Inr effects"
      "resourceBounds (json_prop ''resourceBounds'' item) = Inr resources"
      "costBounds (json_prop ''costBounds'' item) = Inr costs"
      "sorted_strings env (json_prop ''evidenceRequirements'' item) ''evidenceRequirements'' True IDENTIFIER_PATTERN = Inr evidence"
      "retentionPolicy (json_prop ''retentionPolicy'' item) = Inr retention"
    and texts: "plan_text (json_prop ''deliveryId'' item) ''deliveryId'' IDENTIFIER_PATTERN = Inr deliveryId"
      "plan_text (json_prop ''ownerPrincipal'' item) ''ownerPrincipal'' IDENTIFIER_PATTERN = Inr owner"
      "plan_text (json_prop ''authorizationReference'' item) ''authorizationReference'' REFERENCE_PATTERN = Inr authorization"
      "plan_text (json_prop ''targetHostname'' item) ''targetHostname'' IDENTIFIER_PATTERN = Inr host"
      "plan_text (json_prop ''targetMachineIdentity'' item) ''targetMachineIdentity'' DIGEST_PATTERN = Inr machine"
      "plan_text (json_prop ''baby-quirt'' targets) ''targetReleaseIdentifiers.baby-quirt'' IDENTIFIER_PATTERN = Inr baby"
      "plan_text (json_prop ''baby-quirt-mcp'' targets) ''targetReleaseIdentifiers.baby-quirt-mcp'' IDENTIFIER_PATTERN = Inr gateway"
    using assms(2) unfolding plan_body_def res_bind_Inr sum.inject
    apply (elim exE conjE)
    apply (rule that)
    apply (erule sym)
    apply assumption+
    done
  have text_again: "plan_text (Some (JStr s)) l P = Inr s" if "plan_text x l P = Inr s" for x s l P
    using that by (simp add: plan_text_Inr)
  note again = plan_products_stable [OF c accepted(1)] activation_order_stable [OF accepted(2)] buildProfile_stable [OF c accepted(3)]
    testProfile_stable [OF accepted(4)] certificationProfile_stable [OF c accepted(5)] sorted_strings_stable [OF c accepted(6)]
    sorted_strings_stable [OF c accepted(7)] candidateProfile_stable [OF accepted(8)] acceptanceProfile_stable [OF accepted(9)]
    soakProfile_stable [OF accepted(10)] rollbackPolicy_stable [OF accepted(11)] timeBounds_stable [OF accepted(12)]
    sorted_strings_stable [OF c accepted(13)] resourceBounds_stable [OF accepted(14)] costBounds_stable [OF accepted(15)]
    sorted_strings_stable [OF c accepted(16)] retentionPolicy_stable [OF accepted(17)]
  show ?thesis
    unfolding plan_body_def
    by (simp add: body json_prop_def plan_object_def exact_refl again texts [THEN text_again])
qed

text \<open>Reading a canonical plan again, as every read of the ledger does, gives the same plan.\<close>

lemma canonical_plan_stable:
  assumes "collation env" "canonicalizeDeliveryPlan env v = Inr p"
  shows "canonicalPlan env p = Inr p"
proof -
  obtain item body where body: "plan_body env item = Inr body"
    and p: "p = body @ [(''planDigest'', JStr (le_sha256 env (canonicalJson (JObj body))))]"
    using assms(2) by (auto simp: canonicalizeDeliveryPlan_def res_bind_Inr)
  have keys: "map fst body = plan_keys" "json_prop ''schemaVersion'' body = Some (JStr ''1.0.0'')"
    using plan_body_keys [OF body] by auto
  have "''planDigest'' \<notin> set (map fst body)" unfolding keys(1) by (simp add: plan_keys_def)
  then have other: "\<forall>(k, x)\<in>set body. k \<noteq> ''planDigest''" by force
  then have "filter (\<lambda>(k, x). k \<noteq> ''planDigest'') p = body"
    by (simp add: p filter_id_conv)
  then show ?thesis
    by (simp add: canonicalPlan_def canonicalizeDeliveryPlan_def plan_object_def exact_refl [OF keys(1)] keys(2)
        plan_body_stable [OF assms(1) body] p)
qed

end
