(* ===== verification/Delivery_Ledger.thy ===== *)
theory Delivery_Ledger
  imports Delivery_Plan Deployment_Audit
begin

section \<open>The delivery ledger\<close>

text \<open>
  Models \<^verbatim>\<open>src/src/delivery/persistence.ts\<close>: the tables that the second migration adds to the
  deployment database, as lists of typed rows in insertion order, and every operation of
  \<open>DeliveryPersistence\<close>. The database is one file, so its state holds the deployment ledger
  too: runs and evidence refer to its deployments by foreign keys, and both ledgers keep their
  intents in \<open>request_intents\<close>, whose column \<open>delivery_id\<close> is \<open>dd_intentDelivery\<close>. A transaction
  that throws rolls back. UNIQUE, CHECK, foreign-key constraints and the triggers that a
  statement of the code can meet give \<open>SqliteError\<close>. Texts that are written as canonical JSON and
  read back only by parsing (plans, results) are kept as the value they parse to.
\<close>

subsection \<open>States\<close>

datatype delivery_state =
    PLANNED | SOURCE_VERIFIED | SOURCE_MATERIALIZED | BUILDING | TESTING | CERTIFYING | ARTIFACT_FINALIZED | STAGING
  | CANDIDATE_VERIFIED | ROLLBACK_ARMED | ACTIVATING | ACCEPTING | SOAKING | SUCCEEDED | REJECTED | FAILED
  | CANCELLED_PRE_ARM | ROLLBACK_REQUESTED | ROLLING_BACK | ROLLED_BACK | ROLLBACK_FAILED | REPAIR_REQUIRED
  | MANUAL_RECOVERY_REQUIRED | PARTIAL | AMBIGUOUS | UNKNOWN

primrec delivery_state_name :: "delivery_state \<Rightarrow> string" where
  "delivery_state_name PLANNED = ''PLANNED''"
| "delivery_state_name SOURCE_VERIFIED = ''SOURCE_VERIFIED''"
| "delivery_state_name SOURCE_MATERIALIZED = ''SOURCE_MATERIALIZED''"
| "delivery_state_name BUILDING = ''BUILDING''"
| "delivery_state_name TESTING = ''TESTING''"
| "delivery_state_name CERTIFYING = ''CERTIFYING''"
| "delivery_state_name ARTIFACT_FINALIZED = ''ARTIFACT_FINALIZED''"
| "delivery_state_name STAGING = ''STAGING''"
| "delivery_state_name CANDIDATE_VERIFIED = ''CANDIDATE_VERIFIED''"
| "delivery_state_name ROLLBACK_ARMED = ''ROLLBACK_ARMED''"
| "delivery_state_name ACTIVATING = ''ACTIVATING''"
| "delivery_state_name ACCEPTING = ''ACCEPTING''"
| "delivery_state_name SOAKING = ''SOAKING''"
| "delivery_state_name SUCCEEDED = ''SUCCEEDED''"
| "delivery_state_name REJECTED = ''REJECTED''"
| "delivery_state_name FAILED = ''FAILED''"
| "delivery_state_name CANCELLED_PRE_ARM = ''CANCELLED_PRE_ARM''"
| "delivery_state_name ROLLBACK_REQUESTED = ''ROLLBACK_REQUESTED''"
| "delivery_state_name ROLLING_BACK = ''ROLLING_BACK''"
| "delivery_state_name ROLLED_BACK = ''ROLLED_BACK''"
| "delivery_state_name ROLLBACK_FAILED = ''ROLLBACK_FAILED''"
| "delivery_state_name REPAIR_REQUIRED = ''REPAIR_REQUIRED''"
| "delivery_state_name MANUAL_RECOVERY_REQUIRED = ''MANUAL_RECOVERY_REQUIRED''"
| "delivery_state_name PARTIAL = ''PARTIAL''"
| "delivery_state_name AMBIGUOUS = ''AMBIGUOUS''"
| "delivery_state_name UNKNOWN = ''UNKNOWN''"

definition DELIVERY_STATES :: "delivery_state list" where
  "DELIVERY_STATES =
     [PLANNED, SOURCE_VERIFIED, SOURCE_MATERIALIZED, BUILDING, TESTING, CERTIFYING, ARTIFACT_FINALIZED, STAGING, CANDIDATE_VERIFIED,
      ROLLBACK_ARMED, ACTIVATING, ACCEPTING, SOAKING, SUCCEEDED, REJECTED, FAILED, CANCELLED_PRE_ARM, ROLLBACK_REQUESTED, ROLLING_BACK,
      ROLLED_BACK, ROLLBACK_FAILED, REPAIR_REQUIRED, MANUAL_RECOVERY_REQUIRED, PARTIAL, AMBIGUOUS, UNKNOWN]"

definition TERMINAL_DELIVERY_STATES :: "delivery_state list" where
  "TERMINAL_DELIVERY_STATES = [SUCCEEDED, REJECTED, FAILED, CANCELLED_PRE_ARM, ROLLED_BACK, ROLLBACK_FAILED,
     MANUAL_RECOVERY_REQUIRED, PARTIAL, AMBIGUOUS, UNKNOWN]"

definition MAX_EVENTS_PER_RUN :: nat where
  "MAX_EVENTS_PER_RUN = 100000"

subsection \<open>Checks\<close>

abbreviation delivery_failure :: "delivery_error_code \<Rightarrow> string \<Rightarrow> delivery_error" where
  "delivery_failure c message \<equiv> DeliveryError c message []"

definition delivery_assertIdentifier :: "string \<Rightarrow> string \<Rightarrow> (delivery_error, unit) result" where
  "delivery_assertIdentifier value label = check (IDENTIFIER_PATTERN value) (plan_invalid (label @ '' is invalid''))"

definition delivery_assertIdempotencyKey :: "string \<Rightarrow> (delivery_error, unit) result" where
  "delivery_assertIdempotencyKey value = check (IDEMPOTENCY_PATTERN value) (plan_invalid ''idempotencyKey is invalid'')"

definition delivery_assertDigest :: "string \<Rightarrow> string \<Rightarrow> (delivery_error, unit) result" where
  "delivery_assertDigest value label = check (DIGEST_PATTERN value) (plan_invalid (label @ '' must be a lowercase SHA-256''))"

definition delivery_assertTimestamp :: "string \<Rightarrow> string \<Rightarrow> (delivery_error, unit) result" where
  "delivery_assertTimestamp value label = check (canonical_timestamp value) (plan_invalid (label @ '' must be canonical ISO-8601''))"

definition assertPositiveInteger :: "int \<Rightarrow> string \<Rightarrow> (delivery_error, unit) result" where
  "assertPositiveInteger value label = check (safe_integer value \<and> \<not> value \<le> 0) (plan_invalid (label @ '' must be a positive integer''))"

definition assertNonnegativeInteger :: "int \<Rightarrow> string \<Rightarrow> (delivery_error, unit) result" where
  "assertNonnegativeInteger value label = check (safe_integer value \<and> \<not> value < 0) (plan_invalid (label @ '' must be a nonnegative integer''))"

text \<open>A state that arrives as a text.\<close>

definition assertDeliveryState :: "string \<Rightarrow> (delivery_error, delivery_state) result" where
  "assertDeliveryState value =
     (case find (\<lambda>s. delivery_state_name s = value) DELIVERY_STATES of
        None \<Rightarrow> Inl (delivery_failure Delivery_unknown (''Unknown delivery state '' @ value))
      | Some s \<Rightarrow> Inr s)"

definition assert_optional :: "(string \<Rightarrow> string \<Rightarrow> (delivery_error, unit) result) \<Rightarrow> string option \<Rightarrow> string \<Rightarrow> (delivery_error, unit) result" where
  "assert_optional f value label = (case value of None \<Rightarrow> Inr () | Some v \<Rightarrow> f v label)"

definition page_bounds :: "int \<Rightarrow> int \<Rightarrow> (delivery_error, unit) result" where
  "page_bounds offset limit =
     res_bind (assertNonnegativeInteger offset ''offset'') (\<lambda>_.
     check (safe_integer limit \<and> \<not> (limit < 1 \<or> limit > 200)) (plan_invalid ''limit must be between 1 and 200''))"

text \<open>SQLite's \<open>length\<close> of a text stops at the first NUL character.\<close>

definition sqlite_length :: "string \<Rightarrow> nat" where
  "sqlite_length s = length (takeWhile (\<lambda>c. c \<noteq> CHR 0x00) s)"

subsection \<open>Rows and records\<close>

record plan_row =
  pw_deliveryId :: string
  pw_planDigest :: string
  pw_plan :: json_object
  pw_ownerPrincipal :: string
  pw_authorizationReference :: string
  pw_targetHostname :: string
  pw_targetMachineIdentity :: string
  pw_expiresAt :: string
  pw_createdAt :: string

record run_row =
  rn_deliveryId :: string
  rn_planDigest :: string
  rn_generation :: int
  rn_state :: delivery_state
  rn_stateSequence :: int
  rn_deploymentId :: "string option"
  rn_deploymentState :: "deployment_state option"
  rn_activeControllerLease :: "string option"
  rn_terminal :: bool
  rn_recordDigest :: string
  rn_createdAt :: string
  rn_updatedAt :: string
  rn_expiresAt :: string

record child_job =
  cj_phase :: string
  cj_jobId :: string
  cj_resultDigest :: "string option"
  cj_receiptId :: "string option"
  cj_stdoutOffset :: int
  cj_stderrOffset :: int
  cj_terminal :: bool

record child_job_row =
  cr_deliveryId :: string
  cr_generation :: int
  cr_reference :: child_job
  cr_recordDigest :: string

record delivery_artifact =
  da_phase :: string
  da_artifactId :: string
  da_sha256 :: string
  da_size :: int
  da_immutable :: bool

record artifact_row =
  aw_deliveryId :: string
  aw_generation :: int
  aw_reference :: delivery_artifact

record run_record =
  rr_deliveryId :: string
  rr_planDigest :: string
  rr_ownerPrincipal :: string
  rr_authorizationReference :: string
  rr_targetHostname :: string
  rr_targetMachineIdentity :: string
  rr_generation :: int
  rr_state :: delivery_state
  rr_stateSequence :: int
  rr_deploymentId :: "string option"
  rr_deploymentState :: "deployment_state option"
  rr_activeControllerLease :: "string option"
  rr_childJobs :: "child_job list"
  rr_artifacts :: "delivery_artifact list"
  rr_createdAt :: string
  rr_updatedAt :: string
  rr_expiresAt :: string
  rr_terminal :: bool

record delivery_event =
  dv_deliveryId :: string
  dv_offset :: int
  dv_generation :: int
  dv_planDigest :: string
  dv_state :: delivery_state
  dv_phase :: string
  dv_kind :: string
  dv_message :: string
  dv_childJobId :: "string option"
  dv_artifactReference :: "string option"
  dv_receiptId :: "string option"
  dv_occurredAt :: string
  dv_eventDigest :: string

record transition_outcome =
  to_run :: run_record
  to_event :: delivery_event
  to_replayed :: bool

record event_row =
  er_event :: delivery_event
  er_priorEventDigest :: "string option"
  er_idempotencyKey :: string
  er_semanticDigest :: string
  er_result :: transition_outcome
  er_resultDigest :: string

record delivery_evidence =
  ve_deliveryId :: string
  ve_generation :: int
  ve_planDigest :: string
  ve_deploymentId :: "string option"
  ve_kind :: string
  ve_digest :: string
  ve_artifactReference :: string
  ve_receiptId :: "string option"
  ve_redacted :: bool
  ve_createdAt :: string

record evidence_row =
  vr_sequence :: int
  vr_record :: delivery_evidence

datatype lease_status = LeaseActive | LeaseReleased | LeaseExpired

record controller_lease =
  cl_deliveryId :: string
  cl_leaseId :: string
  cl_generation :: int
  cl_holder :: string
  cl_acquiredAt :: string
  cl_heartbeatAt :: string
  cl_expiresAt :: string
  cl_status :: lease_status
  cl_releasedAt :: "string option"
  cl_recordDigest :: string

record delivery_db =
  dd_ledger :: ledger_db
  dd_plans :: "plan_row list"
  dd_runs :: "run_row list"
  dd_childJobs :: "child_job_row list"
  dd_artifacts :: "artifact_row list"
  dd_events :: "event_row list"
  dd_evidence :: "evidence_row list"
  dd_leases :: "controller_lease list"
  dd_intentDelivery :: "(string \<times> string) list"

definition empty_delivery_db :: delivery_db where
  "empty_delivery_db = \<lparr>dd_ledger = empty_ledger, dd_plans = [], dd_runs = [], dd_childJobs = [], dd_artifacts = [],
     dd_events = [], dd_evidence = [], dd_leases = [], dd_intentDelivery = []\<rparr>"

subsection \<open>Triggers\<close>

text \<open>An UPDATE of the rows that satisfy the condition; a trigger that raises aborts it. It gives
  the new table and the number of changed rows.\<close>

definition sql_update :: "('r \<Rightarrow> bool) \<Rightarrow> ('r \<Rightarrow> 'r \<Rightarrow> bool) \<Rightarrow> ('r \<Rightarrow> 'r) \<Rightarrow> 'r list \<Rightarrow> (delivery_error, 'r list \<times> nat) result" where
  "sql_update hit raises f rows =
     res_bind (check (\<not> list_ex (\<lambda>r. hit r \<and> raises r (f r)) rows) SqliteError) (\<lambda>_.
     Inr (map (\<lambda>r. if hit r then f r else r) rows, length (filter hit rows)))"

definition delivery_runs_identity_immutable :: "run_row \<Rightarrow> run_row \<Rightarrow> bool" where
  "delivery_runs_identity_immutable r s \<longleftrightarrow> rn_deliveryId r \<noteq> rn_deliveryId s \<or> rn_planDigest r \<noteq> rn_planDigest s
     \<or> rn_createdAt r \<noteq> rn_createdAt s \<or> rn_expiresAt r \<noteq> rn_expiresAt s"

definition delivery_runs_state_sequence_cas :: "run_row \<Rightarrow> run_row \<Rightarrow> bool" where
  "delivery_runs_state_sequence_cas r s \<longleftrightarrow>
     (rn_generation r \<noteq> rn_generation s \<or> rn_state r \<noteq> rn_state s \<or> rn_deploymentId r \<noteq> rn_deploymentId s
      \<or> rn_deploymentState r \<noteq> rn_deploymentState s \<or> rn_terminal r \<noteq> rn_terminal s)
     \<and> rn_stateSequence s \<noteq> rn_stateSequence r + 1"

definition delivery_runs_terminal_state_immutable :: "run_row \<Rightarrow> run_row \<Rightarrow> bool" where
  "delivery_runs_terminal_state_immutable r s \<longleftrightarrow> rn_terminal r \<and>
     (rn_generation r \<noteq> rn_generation s \<or> rn_state r \<noteq> rn_state s \<or> rn_stateSequence r \<noteq> rn_stateSequence s
      \<or> rn_deploymentId r \<noteq> rn_deploymentId s \<or> rn_deploymentState r \<noteq> rn_deploymentState s \<or> rn_terminal r \<noteq> rn_terminal s)"

definition delivery_runs_raises :: "run_row \<Rightarrow> run_row \<Rightarrow> bool" where
  "delivery_runs_raises r s \<longleftrightarrow> delivery_runs_identity_immutable r s \<or> delivery_runs_state_sequence_cas r s
     \<or> delivery_runs_terminal_state_immutable r s"

definition delivery_child_jobs_identity_immutable :: "child_job_row \<Rightarrow> child_job_row \<Rightarrow> bool" where
  "delivery_child_jobs_identity_immutable r s \<longleftrightarrow> cr_deliveryId r \<noteq> cr_deliveryId s \<or> cr_generation r \<noteq> cr_generation s
     \<or> cj_phase (cr_reference r) \<noteq> cj_phase (cr_reference s) \<or> cj_jobId (cr_reference r) \<noteq> cj_jobId (cr_reference s)"

definition delivery_controller_leases_identity_immutable :: "controller_lease \<Rightarrow> controller_lease \<Rightarrow> bool" where
  "delivery_controller_leases_identity_immutable r s \<longleftrightarrow> cl_deliveryId r \<noteq> cl_deliveryId s \<or> cl_leaseId r \<noteq> cl_leaseId s
     \<or> cl_generation r \<noteq> cl_generation s \<or> cl_holder r \<noteq> cl_holder s \<or> cl_acquiredAt r \<noteq> cl_acquiredAt s"

lemmas trigger_defs = delivery_runs_raises_def delivery_runs_identity_immutable_def delivery_runs_state_sequence_cas_def
  delivery_runs_terminal_state_immutable_def delivery_child_jobs_identity_immutable_def delivery_controller_leases_identity_immutable_def

subsection \<open>Documents\<close>

definition optional_field :: "string \<Rightarrow> string option \<Rightarrow> json_object" where
  "optional_field k value = (case value of None \<Rightarrow> [] | Some s \<Rightarrow> [(k, JStr s)])"

definition child_job_entries :: "child_job \<Rightarrow> json_object" where
  "child_job_entries c =
     [(''phase'', JStr (cj_phase c)), (''jobId'', JStr (cj_jobId c))]
     @ optional_field ''resultDigest'' (cj_resultDigest c) @ optional_field ''receiptId'' (cj_receiptId c)
     @ [(''stdoutOffset'', JNum (cj_stdoutOffset c)), (''stderrOffset'', JNum (cj_stderrOffset c)), (''terminal'', JBool (cj_terminal c))]"

definition artifact_json :: "delivery_artifact \<Rightarrow> json" where
  "artifact_json a = JObj [(''phase'', JStr (da_phase a)), (''artifactId'', JStr (da_artifactId a)), (''sha256'', JStr (da_sha256 a)),
     (''size'', JNum (da_size a)), (''immutable'', JBool (da_immutable a))]"

definition delivery_evidence_json :: "delivery_evidence \<Rightarrow> json" where
  "delivery_evidence_json e = JObj
     ([(''deliveryId'', JStr (ve_deliveryId e)), (''generation'', JNum (ve_generation e)), (''planDigest'', JStr (ve_planDigest e))]
      @ optional_field ''deploymentId'' (ve_deploymentId e)
      @ [(''kind'', JStr (ve_kind e)), (''digest'', JStr (ve_digest e)), (''artifactReference'', JStr (ve_artifactReference e))]
      @ optional_field ''receiptId'' (ve_receiptId e)
      @ [(''redacted'', JBool (ve_redacted e)), (''createdAt'', JStr (ve_createdAt e))])"

definition run_json :: "run_record \<Rightarrow> json" where
  "run_json r = JObj
     ([(''deliveryId'', JStr (rr_deliveryId r)), (''planDigest'', JStr (rr_planDigest r)), (''ownerPrincipal'', JStr (rr_ownerPrincipal r)),
       (''authorizationReference'', JStr (rr_authorizationReference r)), (''targetHostname'', JStr (rr_targetHostname r)),
       (''targetMachineIdentity'', JStr (rr_targetMachineIdentity r)), (''generation'', JNum (rr_generation r)),
       (''state'', JStr (delivery_state_name (rr_state r))), (''stateSequence'', JNum (rr_stateSequence r))]
      @ optional_field ''deploymentId'' (rr_deploymentId r) @ optional_field ''deploymentState'' (map_option state_name (rr_deploymentState r))
      @ optional_field ''activeControllerLease'' (rr_activeControllerLease r)
      @ [(''childJobs'', JArr (map (JObj \<circ> child_job_entries) (rr_childJobs r))), (''artifacts'', JArr (map artifact_json (rr_artifacts r))),
         (''createdAt'', JStr (rr_createdAt r)), (''updatedAt'', JStr (rr_updatedAt r)), (''expiresAt'', JStr (rr_expiresAt r)),
         (''terminal'', JBool (rr_terminal r))])"

definition event_json :: "delivery_event \<Rightarrow> json" where
  "event_json e = JObj
     ([(''deliveryId'', JStr (dv_deliveryId e)), (''offset'', JNum (dv_offset e)), (''generation'', JNum (dv_generation e)),
       (''planDigest'', JStr (dv_planDigest e)), (''state'', JStr (delivery_state_name (dv_state e))), (''phase'', JStr (dv_phase e)),
       (''kind'', JStr (dv_kind e)), (''message'', JStr (dv_message e))]
      @ optional_field ''childJobId'' (dv_childJobId e) @ optional_field ''artifactReference'' (dv_artifactReference e)
      @ optional_field ''receiptId'' (dv_receiptId e)
      @ [(''occurredAt'', JStr (dv_occurredAt e)), (''eventDigest'', JStr (dv_eventDigest e))])"

definition outcome_json :: "transition_outcome \<Rightarrow> json" where
  "outcome_json r = JObj [(''run'', run_json (to_run r)), (''event'', event_json (to_event r)), (''replayed'', JBool (to_replayed r))]"

definition sha256_json :: "ledger_env \<Rightarrow> json \<Rightarrow> string" where
  "sha256_json env v = le_sha256 env (canonicalJson v)"

subsection \<open>Reading plans and runs\<close>

definition plan_expiresAt :: "json_object \<Rightarrow> string" where
  "plan_expiresAt plan = (case json_prop ''timeBounds'' plan of Some (JObj bounds) \<Rightarrow> key_text ''expiresAt'' bounds | _ \<Rightarrow> [])"

definition getPlan :: "ledger_env \<Rightarrow> string \<Rightarrow> delivery_db \<Rightarrow> (delivery_error, json_object option) result" where
  "getPlan env did db =
     res_bind (delivery_assertIdentifier did ''deliveryId'') (\<lambda>_.
     case find (\<lambda>p. pw_deliveryId p = did) (dd_plans db) of
       None \<Rightarrow> Inr None
     | Some row \<Rightarrow>
         res_bind (canonicalPlan env (pw_plan row)) (\<lambda>plan.
         res_bind (check (key_text ''planDigest'' plan = pw_planDigest row)
           (delivery_failure Delivery_unknown ''Stored delivery plan digest is inconsistent'')) (\<lambda>_.
         Inr (Some plan))))"

definition child_jobs_of :: "string \<Rightarrow> delivery_db \<Rightarrow> child_job list" where
  "child_jobs_of did db = sort_by (\<lambda>a b. cj_phase a < cj_phase b \<or> cj_phase a = cj_phase b \<and> cj_jobId a \<le> cj_jobId b)
     (map cr_reference (filter (\<lambda>c. cr_deliveryId c = did) (dd_childJobs db)))"

definition artifacts_of :: "string \<Rightarrow> delivery_db \<Rightarrow> delivery_artifact list" where
  "artifacts_of did db = sort_by (\<lambda>a b. da_phase a < da_phase b \<or> da_phase a = da_phase b \<and> da_artifactId a \<le> da_artifactId b)
     (map aw_reference (filter (\<lambda>a. aw_deliveryId a = did) (dd_artifacts db)))"

definition run_view :: "json_object \<Rightarrow> run_row \<Rightarrow> delivery_db \<Rightarrow> run_record" where
  "run_view plan row db =
     \<lparr>rr_deliveryId = rn_deliveryId row, rr_planDigest = rn_planDigest row, rr_ownerPrincipal = key_text ''ownerPrincipal'' plan,
      rr_authorizationReference = key_text ''authorizationReference'' plan, rr_targetHostname = key_text ''targetHostname'' plan,
      rr_targetMachineIdentity = key_text ''targetMachineIdentity'' plan, rr_generation = rn_generation row, rr_state = rn_state row,
      rr_stateSequence = rn_stateSequence row, rr_deploymentId = rn_deploymentId row, rr_deploymentState = rn_deploymentState row,
      rr_activeControllerLease = rn_activeControllerLease row, rr_childJobs = child_jobs_of (rn_deliveryId row) db,
      rr_artifacts = artifacts_of (rn_deliveryId row) db, rr_createdAt = rn_createdAt row, rr_updatedAt = rn_updatedAt row,
      rr_expiresAt = rn_expiresAt row, rr_terminal = rn_terminal row\<rparr>"

definition getRun :: "ledger_env \<Rightarrow> string \<Rightarrow> delivery_db \<Rightarrow> (delivery_error, run_record option) result" where
  "getRun env did db =
     res_bind (delivery_assertIdentifier did ''deliveryId'') (\<lambda>_.
     case find (\<lambda>r. rn_deliveryId r = did) (dd_runs db) of
       None \<Rightarrow> Inr None
     | Some row \<Rightarrow>
         res_bind (getPlan env did db) (\<lambda>p.
         case p of
           None \<Rightarrow> Inl (delivery_failure Delivery_unknown ''Delivery run has no immutable plan'')
         | Some plan \<Rightarrow> Inr (Some (run_view plan row db))))"

definition getRunRequired :: "ledger_env \<Rightarrow> string \<Rightarrow> delivery_db \<Rightarrow> (delivery_error, run_record) result" where
  "getRunRequired env did db =
     res_bind (getRun env did db) (\<lambda>r.
     case r of
       None \<Rightarrow> Inl (delivery_failure Delivery_not_found (''Delivery '' @ did @ '' not found''))
     | Some run \<Rightarrow> Inr run)"

definition listRuns :: "ledger_env \<Rightarrow> int option \<Rightarrow> int option \<Rightarrow> string option \<Rightarrow> delivery_db \<Rightarrow> (delivery_error, run_record list) result" where
  "listRuns env offset limit state db =
     (let offset = (case offset of None \<Rightarrow> 0 | Some n \<Rightarrow> n); limit = (case limit of None \<Rightarrow> 50 | Some n \<Rightarrow> n) in
      res_bind (page_bounds offset limit) (\<lambda>_.
      res_bind (case state of None \<Rightarrow> Inr None | Some s \<Rightarrow> res_bind (assertDeliveryState s) (\<lambda>s. Inr (Some s))) (\<lambda>state.
      let rows = sort_by (\<lambda>a b. rn_createdAt a > rn_createdAt b \<or> rn_createdAt a = rn_createdAt b \<and> rn_deliveryId a \<le> rn_deliveryId b)
                   (filter (\<lambda>r. case state of None \<Rightarrow> True | Some s \<Rightarrow> rn_state r = s) (dd_runs db))
      in res_map (\<lambda>row. getRunRequired env (rn_deliveryId row) db) (take (nat limit) (drop (nat offset) rows)))))"

text \<open>The fence every operation of a run passes: its plan digest and generation.\<close>

definition generation_conflict :: "string \<Rightarrow> int \<Rightarrow> int \<Rightarrow> delivery_error" where
  "generation_conflict message expected actual =
     DeliveryError Delivery_generation_conflict message [(''expected'', JNum expected), (''actual'', JNum actual)]"

definition assertRunFence :: "ledger_env \<Rightarrow> string \<Rightarrow> string \<Rightarrow> int \<Rightarrow> delivery_db \<Rightarrow> (delivery_error, run_record) result" where
  "assertRunFence env did planDigest generation db =
     res_bind (getRunRequired env did db) (\<lambda>run.
     res_bind (check (rr_planDigest run = planDigest)
       (delivery_failure Delivery_plan_changed ''Delivery plan digest compare-and-swap failed'')) (\<lambda>_.
     res_bind (check (rr_generation run = generation)
       (generation_conflict ''Delivery generation compare-and-swap failed'' generation (rr_generation run))) (\<lambda>_.
     Inr run)))"

subsection \<open>createRun\<close>

definition initial_run_digest :: "ledger_env \<Rightarrow> json_object \<Rightarrow> int \<Rightarrow> string \<Rightarrow> string" where
  "initial_run_digest env plan generation createdAt = sha256_json env (JObj
     [(''deliveryId'', JStr (key_text ''deliveryId'' plan)), (''planDigest'', JStr (key_text ''planDigest'' plan)),
      (''generation'', JNum generation), (''state'', JStr ''PLANNED''), (''stateSequence'', JNum 0), (''deploymentId'', JNull),
      (''deploymentState'', JNull), (''activeControllerLease'', JNull), (''terminal'', JBool False), (''createdAt'', JStr createdAt),
      (''expiresAt'', JStr (plan_expiresAt plan))])"

definition new_plan_row :: "json_object \<Rightarrow> string \<Rightarrow> plan_row" where
  "new_plan_row plan createdAt =
     \<lparr>pw_deliveryId = key_text ''deliveryId'' plan, pw_planDigest = key_text ''planDigest'' plan, pw_plan = plan,
      pw_ownerPrincipal = key_text ''ownerPrincipal'' plan, pw_authorizationReference = key_text ''authorizationReference'' plan,
      pw_targetHostname = key_text ''targetHostname'' plan, pw_targetMachineIdentity = key_text ''targetMachineIdentity'' plan,
      pw_expiresAt = plan_expiresAt plan, pw_createdAt = createdAt\<rparr>"

definition new_run_row :: "ledger_env \<Rightarrow> json_object \<Rightarrow> int \<Rightarrow> string \<Rightarrow> run_row" where
  "new_run_row env plan generation createdAt =
     \<lparr>rn_deliveryId = key_text ''deliveryId'' plan, rn_planDigest = key_text ''planDigest'' plan, rn_generation = generation,
      rn_state = PLANNED, rn_stateSequence = 0, rn_deploymentId = None, rn_deploymentState = None, rn_activeControllerLease = None,
      rn_terminal = False, rn_recordDigest = initial_run_digest env plan generation createdAt, rn_createdAt = createdAt,
      rn_updatedAt = createdAt, rn_expiresAt = plan_expiresAt plan\<rparr>"

definition createRun :: "ledger_env \<Rightarrow> json_object \<Rightarrow> int \<Rightarrow> string \<Rightarrow> delivery_db \<Rightarrow> (delivery_error, delivery_db \<times> run_record) result" where
  "createRun env planInput generation createdAt db =
     res_bind (canonicalPlan env planInput) (\<lambda>plan.
     res_bind (assertPositiveInteger generation ''generation'') (\<lambda>_.
     res_bind (delivery_assertTimestamp createdAt ''createdAt'') (\<lambda>_.
     res_bind (check (\<not> time_of createdAt > time_of (plan_expiresAt plan))
       (delivery_failure Delivery_expired ''Delivery plan is already expired'')) (\<lambda>_.
     res_bind (getRun env (key_text ''deliveryId'' plan) db) (\<lambda>r.
     case r of
       Some existing \<Rightarrow>
         res_bind (check (rr_planDigest existing = key_text ''planDigest'' plan)
           (delivery_failure Delivery_plan_changed ''Delivery ID is already bound to another plan'')) (\<lambda>_.
         res_bind (check (rr_generation existing = generation)
           (generation_conflict ''Delivery generation changed'' generation (rr_generation existing))) (\<lambda>_.
         Inr (db, existing)))
     | None \<Rightarrow>
         res_bind (check (\<not> list_ex (\<lambda>p. pw_deliveryId p = key_text ''deliveryId'' plan \<or> pw_planDigest p = key_text ''planDigest'' plan)
             (dd_plans db) \<and> length (canonicalJson (JObj plan)) \<le> 1048576) SqliteError) (\<lambda>_.
         let db' = db\<lparr>dd_plans := dd_plans db @ [new_plan_row plan createdAt],
                      dd_runs := dd_runs db @ [new_run_row env plan generation createdAt]\<rparr>
         in res_bind (getRunRequired env (key_text ''deliveryId'' plan) db') (\<lambda>run. Inr (db', run))))))))"

subsection \<open>transition\<close>

record delivery_transition_input =
  dt_deliveryId :: string
  dt_planDigest :: string
  dt_generation :: int
  dt_expectedState :: delivery_state
  dt_expectedSequence :: int
  dt_nextState :: delivery_state
  dt_phase :: string
  dt_kind :: string
  dt_message :: string
  dt_idempotencyKey :: string
  dt_occurredAt :: string
  dt_deploymentId :: "string option"
  dt_deploymentState :: "deployment_state option"
  dt_childJobId :: "string option"
  dt_artifactReference :: "string option"
  dt_receiptId :: "string option"

definition validateTransition :: "delivery_transition_input \<Rightarrow> (delivery_error, unit) result" where
  "validateTransition i =
     res_bind (delivery_assertIdentifier (dt_deliveryId i) ''deliveryId'') (\<lambda>_.
     res_bind (delivery_assertDigest (dt_planDigest i) ''planDigest'') (\<lambda>_.
     res_bind (assertPositiveInteger (dt_generation i) ''generation'') (\<lambda>_.
     res_bind (assertNonnegativeInteger (dt_expectedSequence i) ''expectedSequence'') (\<lambda>_.
     res_bind (delivery_assertIdentifier (dt_phase i) ''phase'') (\<lambda>_.
     res_bind (delivery_assertIdentifier (dt_kind i) ''kind'') (\<lambda>_.
     res_bind (check (\<not> (length (dt_message i) < 1 \<or> length (dt_message i) > 4096))
       (plan_invalid ''message must be a nonempty bounded string'')) (\<lambda>_.
     res_bind (delivery_assertIdempotencyKey (dt_idempotencyKey i)) (\<lambda>_.
     res_bind (delivery_assertTimestamp (dt_occurredAt i) ''occurredAt'') (\<lambda>_.
     res_bind (assert_optional delivery_assertIdentifier (dt_deploymentId i) ''deploymentId'') (\<lambda>_.
     res_bind (assert_optional delivery_assertIdentifier (dt_childJobId i) ''childJobId'') (\<lambda>_.
     res_bind (assert_optional delivery_assertIdentifier (dt_receiptId i) ''receiptId'') (\<lambda>_.
     check (case dt_artifactReference i of None \<Rightarrow> True | Some s \<Rightarrow> \<not> length s > 4096)
       (plan_invalid ''artifactReference is too long'')))))))))))))"

definition delivery_semantic_digest :: "ledger_env \<Rightarrow> delivery_transition_input \<Rightarrow> string" where
  "delivery_semantic_digest env i = sha256_json env (JObj
     [(''deliveryId'', JStr (dt_deliveryId i)), (''planDigest'', JStr (dt_planDigest i)), (''generation'', JNum (dt_generation i)),
      (''expectedState'', JStr (delivery_state_name (dt_expectedState i))), (''expectedSequence'', JNum (dt_expectedSequence i)),
      (''nextState'', JStr (delivery_state_name (dt_nextState i))), (''phase'', JStr (dt_phase i)), (''kind'', JStr (dt_kind i)),
      (''message'', JStr (dt_message i)), (''occurredAt'', JStr (dt_occurredAt i)), (''deploymentId'', opt_json (dt_deploymentId i)),
      (''deploymentState'', opt_json (map_option state_name (dt_deploymentState i))), (''childJobId'', opt_json (dt_childJobId i)),
      (''artifactReference'', opt_json (dt_artifactReference i)), (''receiptId'', opt_json (dt_receiptId i))])"

definition delivery_event_digest ::
  "ledger_env \<Rightarrow> string option \<Rightarrow> string \<Rightarrow> int \<Rightarrow> int \<Rightarrow> string \<Rightarrow> delivery_state \<Rightarrow> int \<Rightarrow> string" where
  "delivery_event_digest env priorEventDigest semanticDigest offset generation planDigest state stateSequence = sha256_json env (JObj
     [(''priorEventDigest'', opt_json priorEventDigest), (''semanticDigest'', JStr semanticDigest), (''offset'', JNum offset),
      (''generation'', JNum generation), (''planDigest'', JStr planDigest), (''state'', JStr (delivery_state_name state)),
      (''stateSequence'', JNum stateSequence)])"

definition delivery_record_digest ::
  "ledger_env \<Rightarrow> string \<Rightarrow> string \<Rightarrow> delivery_state \<Rightarrow> int \<Rightarrow> string option \<Rightarrow> deployment_state option \<Rightarrow> bool \<Rightarrow> string" where
  "delivery_record_digest env priorRecordDigest eventDigest state stateSequence deploymentId deploymentState terminal = sha256_json env (JObj
     [(''priorRecordDigest'', JStr priorRecordDigest), (''eventDigest'', JStr eventDigest), (''state'', JStr (delivery_state_name state)),
      (''stateSequence'', JNum stateSequence), (''deploymentId'', opt_json deploymentId),
      (''deploymentState'', opt_json (map_option state_name deploymentState)), (''terminal'', JBool terminal)])"

definition delivery_events_of :: "string \<Rightarrow> delivery_db \<Rightarrow> event_row list" where
  "delivery_events_of did db = filter (\<lambda>e. dv_deliveryId (er_event e) = did) (dd_events db)"

text \<open>\<open>ORDER BY offset DESC LIMIT 1\<close>.\<close>

definition last_event :: "string \<Rightarrow> delivery_db \<Rightarrow> event_row option" where
  "last_event did db =
     (let es = sort_key (\<lambda>e. dv_offset (er_event e)) (delivery_events_of did db) in if es = [] then None else Some (last es))"

definition is_terminal_delivery :: "delivery_state \<Rightarrow> bool" where
  "is_terminal_delivery s \<longleftrightarrow> s \<in> set TERMINAL_DELIVERY_STATES"

definition opt_or :: "'a option \<Rightarrow> 'a option \<Rightarrow> 'a option" where
  "opt_or a b = (case a of None \<Rightarrow> b | Some _ \<Rightarrow> a)"

definition new_event :: "ledger_env \<Rightarrow> delivery_transition_input \<Rightarrow> run_record \<Rightarrow> delivery_db \<Rightarrow> delivery_event" where
  "new_event env i current db =
     (let prior = last_event (dt_deliveryId i) db;
          offset = (case prior of None \<Rightarrow> 0 | Some e \<Rightarrow> dv_offset (er_event e) + 1)
      in \<lparr>dv_deliveryId = dt_deliveryId i, dv_offset = offset, dv_generation = dt_generation i, dv_planDigest = dt_planDigest i,
          dv_state = dt_nextState i, dv_phase = dt_phase i, dv_kind = dt_kind i, dv_message = dt_message i,
          dv_childJobId = dt_childJobId i, dv_artifactReference = dt_artifactReference i, dv_receiptId = dt_receiptId i,
          dv_occurredAt = dt_occurredAt i,
          dv_eventDigest = delivery_event_digest env (map_option (dv_eventDigest \<circ> er_event) prior) (delivery_semantic_digest env i)
            offset (dt_generation i) (dt_planDigest i) (dt_nextState i) (rr_stateSequence current + 1)\<rparr>)"

definition next_run :: "delivery_transition_input \<Rightarrow> run_record \<Rightarrow> run_record" where
  "next_run i current = current\<lparr>rr_state := dt_nextState i, rr_stateSequence := rr_stateSequence current + 1,
     rr_deploymentId := opt_or (dt_deploymentId i) (rr_deploymentId current),
     rr_deploymentState := opt_or (dt_deploymentState i) (rr_deploymentState current),
     rr_updatedAt := dt_occurredAt i, rr_terminal := is_terminal_delivery (dt_nextState i)\<rparr>"

definition new_event_row :: "ledger_env \<Rightarrow> delivery_transition_input \<Rightarrow> run_record \<Rightarrow> delivery_db \<Rightarrow> event_row" where
  "new_event_row env i current db =
     (let result = \<lparr>to_run = next_run i current, to_event = new_event env i current db, to_replayed = False\<rparr>
      in \<lparr>er_event = new_event env i current db,
          er_priorEventDigest = map_option (dv_eventDigest \<circ> er_event) (last_event (dt_deliveryId i) db),
          er_idempotencyKey = dt_idempotencyKey i, er_semanticDigest = delivery_semantic_digest env i,
          er_result = result, er_resultDigest = sha256_json env (outcome_json result)\<rparr>)"

definition moved_run :: "ledger_env \<Rightarrow> delivery_transition_input \<Rightarrow> run_record \<Rightarrow> delivery_db \<Rightarrow> run_row \<Rightarrow> run_row" where
  "moved_run env i current db row =
     (let next = next_run i current in
      row\<lparr>rn_state := rr_state next, rn_stateSequence := rr_stateSequence next, rn_deploymentId := rr_deploymentId next,
          rn_deploymentState := rr_deploymentState next, rn_terminal := rr_terminal next,
          rn_recordDigest := delivery_record_digest env
            (case find (\<lambda>r. rn_deliveryId r = dt_deliveryId i) (dd_runs db) of None \<Rightarrow> [] | Some r \<Rightarrow> rn_recordDigest r)
            (dv_eventDigest (new_event env i current db)) (rr_state next) (rr_stateSequence next)
            (rr_deploymentId next) (rr_deploymentState next) (rr_terminal next),
          rn_updatedAt := dt_occurredAt i\<rparr>)"

definition check_transition_fence :: "delivery_transition_input \<Rightarrow> run_record \<Rightarrow> (delivery_error, unit) result" where
  "check_transition_fence i current =
     res_bind (check (rr_planDigest current = dt_planDigest i)
       (delivery_failure Delivery_plan_changed ''Delivery plan digest compare-and-swap failed'')) (\<lambda>_.
     res_bind (check (rr_generation current = dt_generation i)
       (generation_conflict ''Delivery generation compare-and-swap failed'' (dt_generation i) (rr_generation current))) (\<lambda>_.
     res_bind (check (\<not> rr_terminal current)
       (delivery_failure Delivery_state_conflict ''Terminal delivery state is immutable'')) (\<lambda>_.
     res_bind (check (rr_state current = dt_expectedState i \<and> rr_stateSequence current = dt_expectedSequence i)
       (DeliveryError Delivery_state_conflict ''Delivery state compare-and-swap failed''
          [(''expectedState'', JStr (delivery_state_name (dt_expectedState i))), (''actualState'', JStr (delivery_state_name (rr_state current))),
           (''expectedSequence'', JNum (dt_expectedSequence i)), (''actualSequence'', JNum (rr_stateSequence current))])) (\<lambda>_.
     res_bind (check (\<not> time_of (dt_occurredAt i) > time_of (rr_expiresAt current))
       (delivery_failure Delivery_expired ''Delivery transition occurred after plan expiry'')) (\<lambda>_.
     res_bind (check (\<not> (rr_deploymentId current \<noteq> None \<and> dt_deploymentId i \<noteq> None \<and> rr_deploymentId current \<noteq> dt_deploymentId i))
       (delivery_failure Delivery_conflict ''Authoritative deployment binding is immutable'')) (\<lambda>_.
     check (\<not> (opt_or (dt_deploymentState i) (rr_deploymentState current) \<noteq> None
         \<and> opt_or (dt_deploymentId i) (rr_deploymentId current) = None))
       (plan_invalid ''deploymentState requires an authoritative deploymentId'')))))))"

definition delivery_transition :: "ledger_env \<Rightarrow> delivery_transition_input \<Rightarrow> delivery_db \<Rightarrow> (delivery_error, delivery_db \<times> transition_outcome) result" where
  "delivery_transition env i db =
     res_bind (validateTransition i) (\<lambda>_.
     case find (\<lambda>e. er_idempotencyKey e = dt_idempotencyKey i) (delivery_events_of (dt_deliveryId i) db) of
       Some prior \<Rightarrow>
         res_bind (check (er_semanticDigest prior = delivery_semantic_digest env i)
           (delivery_failure Delivery_idempotency_conflict ''Delivery transition changed semantic intent'')) (\<lambda>_.
         res_bind (check (sha256_json env (outcome_json (er_result prior)) = er_resultDigest prior)
           (delivery_failure Delivery_unknown ''Stored transition result digest is invalid'')) (\<lambda>_.
         Inr (db, (er_result prior)\<lparr>to_replayed := True\<rparr>)))
     | None \<Rightarrow>
         res_bind (getRunRequired env (dt_deliveryId i) db) (\<lambda>current.
         res_bind (check_transition_fence i current) (\<lambda>_.
         res_bind (check (length (delivery_events_of (dt_deliveryId i) db) < MAX_EVENTS_PER_RUN)
           (delivery_failure Delivery_conflict ''Delivery event bound has been reached'')) (\<lambda>_.
         let row = new_event_row env i current db in
         res_bind (check (\<not> list_ex (\<lambda>e. dv_offset (er_event e) = dv_offset (er_event row) \<or> dv_eventDigest (er_event e) = dv_eventDigest (er_event row))
             (delivery_events_of (dt_deliveryId i) db) \<and> 0 < sqlite_length (dt_message i)) SqliteError) (\<lambda>_.
         res_bind (check (case rr_deploymentId (next_run i current) of None \<Rightarrow> True | Some d \<Rightarrow> getDeployment d (dd_ledger db) \<noteq> None)
           SqliteError) (\<lambda>_.
         res_bind (sql_update
             (\<lambda>r. rn_deliveryId r = dt_deliveryId i \<and> rn_planDigest r = dt_planDigest i \<and> rn_generation r = dt_generation i
               \<and> rn_state r = dt_expectedState i \<and> rn_stateSequence r = dt_expectedSequence i \<and> \<not> rn_terminal r)
             delivery_runs_raises (moved_run env i current db) (dd_runs db)) (\<lambda>(runs, changes).
         res_bind (check (changes = 1) (delivery_failure Delivery_state_conflict ''Delivery transition CAS update failed'')) (\<lambda>_.
         Inr (db\<lparr>dd_events := dd_events db @ [row], dd_runs := runs\<rparr>, er_result row)))))))))"

subsection \<open>listEvents, child jobs and artifacts\<close>

definition page_end :: "int \<Rightarrow> int list \<Rightarrow> int" where
  "page_end offset positions = (if positions = [] then offset else last positions + 1)"

definition listEvents :: "ledger_env \<Rightarrow> string \<Rightarrow> int \<Rightarrow> int \<Rightarrow> delivery_db \<Rightarrow> (delivery_error, int \<times> int \<times> delivery_event list) result" where
  "listEvents env did offset limit db =
     res_bind (getRunRequired env did db) (\<lambda>_.
     res_bind (page_bounds offset limit) (\<lambda>_.
     let items = take (nat limit) (sort_key dv_offset (filter (\<lambda>e. offset \<le> dv_offset e) (map er_event (delivery_events_of did db))))
     in Inr (offset, page_end offset (map dv_offset items), items)))"

definition validate_child_job :: "string \<Rightarrow> string \<Rightarrow> int \<Rightarrow> child_job \<Rightarrow> (delivery_error, unit) result" where
  "validate_child_job did planDigest generation c =
     res_bind (delivery_assertIdentifier did ''deliveryId'') (\<lambda>_.
     res_bind (delivery_assertDigest planDigest ''planDigest'') (\<lambda>_.
     res_bind (assertPositiveInteger generation ''generation'') (\<lambda>_.
     res_bind (delivery_assertIdentifier (cj_phase c) ''phase'') (\<lambda>_.
     res_bind (delivery_assertIdentifier (cj_jobId c) ''jobId'') (\<lambda>_.
     res_bind (assert_optional delivery_assertDigest (cj_resultDigest c) ''resultDigest'') (\<lambda>_.
     res_bind (assert_optional delivery_assertIdentifier (cj_receiptId c) ''receiptId'') (\<lambda>_.
     res_bind (assertNonnegativeInteger (cj_stdoutOffset c) ''stdoutOffset'') (\<lambda>_.
     assertNonnegativeInteger (cj_stderrOffset c) ''stderrOffset''))))))))"

definition check_child_job_update :: "child_job \<Rightarrow> child_job \<Rightarrow> (delivery_error, unit) result" where
  "check_child_job_update existing c =
     res_bind (check (\<not> (cj_stdoutOffset c < cj_stdoutOffset existing \<or> cj_stderrOffset c < cj_stderrOffset existing))
       (delivery_failure Delivery_conflict ''Child job stream offsets cannot move backward'')) (\<lambda>_.
     res_bind (check (\<not> (cj_resultDigest existing \<noteq> None \<and> cj_resultDigest c \<noteq> cj_resultDigest existing))
       (delivery_failure Delivery_conflict ''Child job result digest changed'')) (\<lambda>_.
     check (\<not> (cj_receiptId existing \<noteq> None \<and> cj_receiptId c \<noteq> cj_receiptId existing))
       (delivery_failure Delivery_receipt_invalid ''Child job receipt identity changed'')))"

definition new_child_job_row :: "ledger_env \<Rightarrow> string \<Rightarrow> int \<Rightarrow> child_job \<Rightarrow> child_job_row" where
  "new_child_job_row env did generation c = \<lparr>cr_deliveryId = did, cr_generation = generation, cr_reference = c,
     cr_recordDigest = sha256_json env (JObj ((''generation'', JNum generation) # child_job_entries c))\<rparr>"

text \<open>The UPDATE writes every column of the reference but its phase and job id.\<close>

definition updated_child_job_row :: "ledger_env \<Rightarrow> int \<Rightarrow> string \<Rightarrow> child_job \<Rightarrow> child_job_row \<Rightarrow> child_job_row" where
  "updated_child_job_row env generation priorDigest c row = row\<lparr>
     cr_reference := c\<lparr>cj_phase := cj_phase (cr_reference row), cj_jobId := cj_jobId (cr_reference row)\<rparr>,
     cr_recordDigest := sha256_json env (JObj [(''priorRecordDigest'', JStr priorDigest), (''generation'', JNum generation),
       (''reference'', JObj (child_job_entries c))])\<rparr>"

definition recordChildJob ::
  "ledger_env \<Rightarrow> string \<Rightarrow> string \<Rightarrow> int \<Rightarrow> child_job \<Rightarrow> delivery_db \<Rightarrow> (delivery_error, delivery_db \<times> child_job) result" where
  "recordChildJob env did planDigest generation c db =
     res_bind (validate_child_job did planDigest generation c) (\<lambda>_.
     res_bind (assertRunFence env did planDigest generation db) (\<lambda>run.
     case find (\<lambda>r. cr_deliveryId r = did \<and> cj_jobId (cr_reference r) = cj_jobId c) (dd_childJobs db) of
       None \<Rightarrow> Inr (db\<lparr>dd_childJobs := dd_childJobs db @ [new_child_job_row env did generation c]\<rparr>, c)
     | Some row \<Rightarrow>
         let existing = cr_reference row in
         res_bind (check (cj_phase existing = cj_phase c) (delivery_failure Delivery_conflict ''Child job phase is immutable'')) (\<lambda>_.
         if cj_terminal existing then
           res_bind (check (canonicalJson (JObj (child_job_entries existing)) = canonicalJson (JObj (child_job_entries c)))
             (delivery_failure Delivery_conflict ''Terminal child job reference is immutable'')) (\<lambda>_. Inr (db, existing))
         else
           res_bind (check_child_job_update existing c) (\<lambda>_.
           res_bind (sql_update (\<lambda>r. cr_deliveryId r = did \<and> cj_jobId (cr_reference r) = cj_jobId c \<and> \<not> cj_terminal (cr_reference r))
               delivery_child_jobs_identity_immutable
               (updated_child_job_row env (rr_generation run) (cr_recordDigest row) c) (dd_childJobs db)) (\<lambda>(rows, _).
           Inr (db\<lparr>dd_childJobs := rows\<rparr>, c))))))"

definition recordArtifact ::
  "ledger_env \<Rightarrow> string \<Rightarrow> string \<Rightarrow> int \<Rightarrow> delivery_artifact \<Rightarrow> delivery_db \<Rightarrow> (delivery_error, delivery_db \<times> delivery_artifact) result" where
  "recordArtifact env did planDigest generation a db =
     res_bind (delivery_assertIdentifier did ''deliveryId'') (\<lambda>_.
     res_bind (delivery_assertDigest planDigest ''planDigest'') (\<lambda>_.
     res_bind (assertPositiveInteger generation ''generation'') (\<lambda>_.
     res_bind (delivery_assertIdentifier (da_phase a) ''phase'') (\<lambda>_.
     res_bind (delivery_assertIdentifier (da_artifactId a) ''artifactId'') (\<lambda>_.
     res_bind (delivery_assertDigest (da_sha256 a) ''artifact sha256'') (\<lambda>_.
     res_bind (assertNonnegativeInteger (da_size a) ''artifact size'') (\<lambda>_.
     res_bind (check (da_immutable a) (plan_invalid ''Delivery artifacts must be finalized and immutable'')) (\<lambda>_.
     res_bind (assertRunFence env did planDigest generation db) (\<lambda>_.
     case find (\<lambda>r. aw_deliveryId r = did \<and> da_artifactId (aw_reference r) = da_artifactId a) (dd_artifacts db) of
       Some row \<Rightarrow>
         res_bind (check (canonicalJson (artifact_json (aw_reference row)) = canonicalJson (artifact_json a))
           (delivery_failure Delivery_conflict ''Artifact reference is immutable'')) (\<lambda>_. Inr (db, aw_reference row))
     | None \<Rightarrow>
         res_bind (check (\<not> list_ex (\<lambda>r. aw_deliveryId r = did \<and> da_phase (aw_reference r) = da_phase a
             \<and> da_sha256 (aw_reference r) = da_sha256 a) (dd_artifacts db)) SqliteError) (\<lambda>_.
         Inr (db\<lparr>dd_artifacts := dd_artifacts db @ [\<lparr>aw_deliveryId = did, aw_generation = generation, aw_reference = a\<rparr>]\<rparr>, a)))))))))))"

subsection \<open>Evidence\<close>

definition validate_delivery_evidence :: "delivery_evidence \<Rightarrow> (delivery_error, unit) result" where
  "validate_delivery_evidence e =
     res_bind (delivery_assertIdentifier (ve_deliveryId e) ''deliveryId'') (\<lambda>_.
     res_bind (assertPositiveInteger (ve_generation e) ''generation'') (\<lambda>_.
     res_bind (delivery_assertDigest (ve_planDigest e) ''planDigest'') (\<lambda>_.
     res_bind (assert_optional delivery_assertIdentifier (ve_deploymentId e) ''deploymentId'') (\<lambda>_.
     res_bind (delivery_assertIdentifier (ve_kind e) ''evidence kind'') (\<lambda>_.
     res_bind (delivery_assertDigest (ve_digest e) ''evidence digest'') (\<lambda>_.
     res_bind (check (\<not> (length (ve_artifactReference e) < 1 \<or> length (ve_artifactReference e) > 4096))
       (plan_invalid ''artifactReference must be nonempty and bounded'')) (\<lambda>_.
     res_bind (assert_optional delivery_assertIdentifier (ve_receiptId e) ''receiptId'') (\<lambda>_.
     res_bind (check (ve_redacted e) (plan_invalid ''Durable delivery evidence must be redacted'')) (\<lambda>_.
     delivery_assertTimestamp (ve_createdAt e) ''createdAt'')))))))))"

definition evidence_of :: "string \<Rightarrow> delivery_db \<Rightarrow> evidence_row list" where
  "evidence_of did db = filter (\<lambda>r. ve_deliveryId (vr_record r) = did) (dd_evidence db)"

definition delivery_appendEvidence :: "ledger_env \<Rightarrow> delivery_evidence \<Rightarrow> delivery_db \<Rightarrow> (delivery_error, delivery_db \<times> delivery_evidence) result" where
  "delivery_appendEvidence env e db =
     res_bind (validate_delivery_evidence e) (\<lambda>_.
     res_bind (assertRunFence env (ve_deliveryId e) (ve_planDigest e) (ve_generation e) db) (\<lambda>run.
     res_bind (check (\<not> (ve_deploymentId e \<noteq> None \<and> rr_deploymentId run \<noteq> ve_deploymentId e))
       (delivery_failure Delivery_conflict ''Evidence deployment binding does not match the run'')) (\<lambda>_.
     case find (\<lambda>r. ve_kind (vr_record r) = ve_kind e \<and> ve_digest (vr_record r) = ve_digest e) (evidence_of (ve_deliveryId e) db) of
       Some row \<Rightarrow>
         res_bind (check (canonicalJson (delivery_evidence_json (vr_record row)) = canonicalJson (delivery_evidence_json e))
           (delivery_failure Delivery_conflict ''Evidence reference is immutable'')) (\<lambda>_. Inr (db, vr_record row))
     | None \<Rightarrow>
         let seqs = sort (map vr_sequence (evidence_of (ve_deliveryId e) db));
             sequence = (if seqs = [] then 0 else last seqs + 1)
         in Inr (db\<lparr>dd_evidence := dd_evidence db @ [\<lparr>vr_sequence = sequence, vr_record = e\<rparr>]\<rparr>, e))))"

definition delivery_listEvidence ::
  "ledger_env \<Rightarrow> string \<Rightarrow> string option \<Rightarrow> int option \<Rightarrow> int option \<Rightarrow> delivery_db \<Rightarrow> (delivery_error, int \<times> int \<times> delivery_evidence list) result" where
  "delivery_listEvidence env did kind offset limit db =
     res_bind (getRunRequired env did db) (\<lambda>_.
     let offset = (case offset of None \<Rightarrow> 0 | Some n \<Rightarrow> n); limit = (case limit of None \<Rightarrow> 50 | Some n \<Rightarrow> n) in
     res_bind (page_bounds offset limit) (\<lambda>_.
     res_bind (assert_optional delivery_assertIdentifier kind ''kind'') (\<lambda>_.
     let rows = take (nat limit) (sort_key vr_sequence (filter (\<lambda>r. offset \<le> vr_sequence r
           \<and> (case kind of None \<Rightarrow> True | Some k \<Rightarrow> ve_kind (vr_record r) = k)) (evidence_of did db)))
     in Inr (offset, page_end offset (map vr_sequence rows), map vr_record rows))))"

subsection \<open>Controller leases\<close>

record lease_request =
  lq_deliveryId :: string
  lq_planDigest :: string
  lq_generation :: int
  lq_leaseId :: string
  lq_holder :: string

definition validate_lease_holder :: "lease_request \<Rightarrow> (delivery_error, unit) result" where
  "validate_lease_holder q =
     res_bind (delivery_assertIdentifier (lq_deliveryId q) ''deliveryId'') (\<lambda>_.
     res_bind (delivery_assertDigest (lq_planDigest q) ''planDigest'') (\<lambda>_.
     res_bind (assertPositiveInteger (lq_generation q) ''generation'') (\<lambda>_.
     res_bind (delivery_assertIdentifier (lq_leaseId q) ''leaseId'') (\<lambda>_.
     delivery_assertIdentifier (lq_holder q) ''holder''))))"

definition validateLeaseIdentity :: "lease_request \<Rightarrow> string \<Rightarrow> string \<Rightarrow> (delivery_error, unit) result" where
  "validateLeaseIdentity q acquiredAt expiresAt =
     res_bind (validate_lease_holder q) (\<lambda>_.
     res_bind (delivery_assertTimestamp acquiredAt ''acquiredAt'') (\<lambda>_.
     delivery_assertTimestamp expiresAt ''expiresAt''))"

definition updateLeasePointer :: "ledger_env \<Rightarrow> run_record \<Rightarrow> string option \<Rightarrow> string \<Rightarrow> delivery_db \<Rightarrow> (delivery_error, delivery_db) result" where
  "updateLeasePointer env run leaseId occurredAt db =
     (let priorDigest = (case find (\<lambda>r. rn_deliveryId r = rr_deliveryId run) (dd_runs db) of None \<Rightarrow> [] | Some r \<Rightarrow> rn_recordDigest r);
          recordDigest = sha256_json env (JObj [(''priorRecordDigest'', JStr priorDigest), (''activeControllerLease'', opt_json leaseId),
            (''occurredAt'', JStr occurredAt)])
      in res_bind (sql_update
           (\<lambda>r. rn_deliveryId r = rr_deliveryId run \<and> rn_generation r = rr_generation run \<and> rn_planDigest r = rr_planDigest run)
           delivery_runs_raises
           (\<lambda>r. r\<lparr>rn_activeControllerLease := leaseId, rn_recordDigest := recordDigest, rn_updatedAt := occurredAt\<rparr>) (dd_runs db))
         (\<lambda>(runs, changes).
         res_bind (check (changes = 1) (delivery_failure Delivery_generation_conflict ''Controller lease run fence failed'')) (\<lambda>_.
         Inr (db\<lparr>dd_runs := runs\<rparr>))))"

definition find_lease :: "string \<Rightarrow> string \<Rightarrow> delivery_db \<Rightarrow> controller_lease option" where
  "find_lease did leaseId db = find (\<lambda>l. cl_deliveryId l = did \<and> cl_leaseId l = leaseId) (dd_leases db)"

definition active_lease :: "string \<Rightarrow> delivery_db \<Rightarrow> controller_lease option" where
  "active_lease did db = find (\<lambda>l. cl_deliveryId l = did \<and> cl_status l = LeaseActive) (dd_leases db)"

text \<open>\<open>UPDATE delivery_controller_leases ... WHERE delivery_id = ? AND lease_id = ? AND status = 'active'\<close>.\<close>

definition update_lease :: "string \<Rightarrow> string \<Rightarrow> (controller_lease \<Rightarrow> controller_lease) \<Rightarrow> delivery_db \<Rightarrow> (delivery_error, delivery_db) result" where
  "update_lease did leaseId f db =
     res_bind (sql_update (\<lambda>l. cl_deliveryId l = did \<and> cl_leaseId l = leaseId \<and> cl_status l = LeaseActive)
       delivery_controller_leases_identity_immutable f (dd_leases db)) (\<lambda>(rows, _). Inr (db\<lparr>dd_leases := rows\<rparr>))"

definition close_lease :: "ledger_env \<Rightarrow> lease_status \<Rightarrow> string \<Rightarrow> string \<Rightarrow> controller_lease \<Rightarrow> controller_lease" where
  "close_lease env status priorDigest at l = l\<lparr>cl_heartbeatAt := at, cl_status := status, cl_releasedAt := Some at,
     cl_recordDigest := sha256_json env (JObj [(''priorRecordDigest'', JStr priorDigest),
       (''status'', JStr (case status of LeaseActive \<Rightarrow> ''active'' | LeaseReleased \<Rightarrow> ''released'' | LeaseExpired \<Rightarrow> ''expired'')),
       (''at'', JStr at)])\<rparr>"

definition new_lease :: "ledger_env \<Rightarrow> lease_request \<Rightarrow> string \<Rightarrow> string \<Rightarrow> controller_lease" where
  "new_lease env q acquiredAt expiresAt =
     \<lparr>cl_deliveryId = lq_deliveryId q, cl_leaseId = lq_leaseId q, cl_generation = lq_generation q, cl_holder = lq_holder q,
      cl_acquiredAt = acquiredAt, cl_heartbeatAt = acquiredAt, cl_expiresAt = expiresAt, cl_status = LeaseActive, cl_releasedAt = None,
      cl_recordDigest = sha256_json env (JObj [(''deliveryId'', JStr (lq_deliveryId q)), (''leaseId'', JStr (lq_leaseId q)),
        (''generation'', JNum (lq_generation q)), (''holder'', JStr (lq_holder q)), (''acquiredAt'', JStr acquiredAt),
        (''expiresAt'', JStr expiresAt), (''status'', JStr ''active'')])\<rparr>"

text \<open>The row a statement of the same transaction has just written.\<close>

definition read_lease :: "string \<Rightarrow> string \<Rightarrow> delivery_db \<Rightarrow> (delivery_error, controller_lease) result" where
  "read_lease did leaseId db = (case find_lease did leaseId db of None \<Rightarrow> Inl SqliteError | Some l \<Rightarrow> Inr l)"

definition expire_active_lease :: "ledger_env \<Rightarrow> string \<Rightarrow> string \<Rightarrow> delivery_db \<Rightarrow> (delivery_error, delivery_db) result" where
  "expire_active_lease env did acquiredAt db =
     (case active_lease did db of
        None \<Rightarrow> Inr db
      | Some active \<Rightarrow>
          res_bind (check (\<not> time_of (cl_expiresAt active) > time_of acquiredAt)
            (DeliveryError Delivery_controller_conflict ''Another controller lease is active''
               [(''leaseId'', JStr (cl_leaseId active)), (''holder'', JStr (cl_holder active)), (''expiresAt'', JStr (cl_expiresAt active))])) (\<lambda>_.
          update_lease did (cl_leaseId active) (close_lease env LeaseExpired (cl_recordDigest active) acquiredAt) db))"

definition acquireControllerLease ::
  "ledger_env \<Rightarrow> lease_request \<Rightarrow> string \<Rightarrow> string \<Rightarrow> delivery_db \<Rightarrow> (delivery_error, delivery_db \<times> controller_lease) result" where
  "acquireControllerLease env q acquiredAt expiresAt db =
     res_bind (validateLeaseIdentity q acquiredAt expiresAt) (\<lambda>_.
     res_bind (check (\<not> time_of expiresAt \<le> time_of acquiredAt) (plan_invalid ''Controller lease expiry must follow acquisition'')) (\<lambda>_.
     res_bind (assertRunFence env (lq_deliveryId q) (lq_planDigest q) (lq_generation q) db) (\<lambda>run.
     res_bind (check (\<not> rr_terminal run)
       (delivery_failure Delivery_state_conflict ''Cannot acquire a controller lease for a terminal delivery'')) (\<lambda>_.
     case find_lease (lq_deliveryId q) (lq_leaseId q) db of
       Some same \<Rightarrow>
         res_bind (check (cl_generation same = lq_generation q \<and> cl_holder same = lq_holder q \<and> cl_acquiredAt same = acquiredAt
             \<and> cl_expiresAt same = expiresAt \<and> cl_status same = LeaseActive)
           (delivery_failure Delivery_controller_conflict ''Controller lease ID changed intent'')) (\<lambda>_. Inr (db, same))
     | None \<Rightarrow>
         res_bind (expire_active_lease env (lq_deliveryId q) acquiredAt db) (\<lambda>db1.
         res_bind (check (active_lease (lq_deliveryId q) db1 = None) SqliteError) (\<lambda>_.
         res_bind (updateLeasePointer env run (Some (lq_leaseId q)) acquiredAt
           (db1\<lparr>dd_leases := dd_leases db1 @ [new_lease env q acquiredAt expiresAt]\<rparr>)) (\<lambda>db2.
         res_bind (read_lease (lq_deliveryId q) (lq_leaseId q) db2) (\<lambda>lease. Inr (db2, lease)))))))))"

definition find_lease_required :: "string \<Rightarrow> string \<Rightarrow> delivery_db \<Rightarrow> (delivery_error, controller_lease) result" where
  "find_lease_required did leaseId db =
     (case find_lease did leaseId db of
        None \<Rightarrow> Inl (delivery_failure Delivery_controller_conflict ''Controller lease does not exist'')
      | Some l \<Rightarrow> Inr l)"

definition renewControllerLease ::
  "ledger_env \<Rightarrow> lease_request \<Rightarrow> string \<Rightarrow> string \<Rightarrow> delivery_db \<Rightarrow> (delivery_error, delivery_db \<times> controller_lease) result" where
  "renewControllerLease env q heartbeatAt expiresAt db =
     res_bind (validate_lease_holder q) (\<lambda>_.
     res_bind (delivery_assertTimestamp heartbeatAt ''heartbeatAt'') (\<lambda>_.
     res_bind (delivery_assertTimestamp expiresAt ''expiresAt'') (\<lambda>_.
     res_bind (check (\<not> time_of expiresAt \<le> time_of heartbeatAt) (plan_invalid ''Controller lease expiry must follow heartbeat'')) (\<lambda>_.
     res_bind (assertRunFence env (lq_deliveryId q) (lq_planDigest q) (lq_generation q) db) (\<lambda>run.
     res_bind (find_lease_required (lq_deliveryId q) (lq_leaseId q) db) (\<lambda>lease.
     res_bind (check (cl_status lease = LeaseActive \<and> cl_holder lease = lq_holder q \<and> rr_activeControllerLease run = Some (lq_leaseId q))
       (delivery_failure Delivery_controller_conflict ''Controller lease is not active for this holder'')) (\<lambda>_.
     res_bind (check (\<not> time_of heartbeatAt < time_of (cl_heartbeatAt lease))
       (delivery_failure Delivery_controller_conflict ''Controller heartbeat cannot move backward'')) (\<lambda>_.
     if heartbeatAt = cl_heartbeatAt lease \<and> expiresAt = cl_expiresAt lease then Inr (db, lease)
     else
       res_bind (check (\<not> time_of expiresAt < time_of (cl_expiresAt lease))
         (delivery_failure Delivery_controller_conflict ''Controller lease expiry cannot move backward'')) (\<lambda>_.
       let recordDigest = sha256_json env (JObj [(''priorRecordDigest'', JStr (cl_recordDigest lease)), (''heartbeatAt'', JStr heartbeatAt),
             (''expiresAt'', JStr expiresAt), (''status'', JStr ''active'')])
       in res_bind (update_lease (lq_deliveryId q) (lq_leaseId q)
            (\<lambda>l. l\<lparr>cl_heartbeatAt := heartbeatAt, cl_expiresAt := expiresAt, cl_recordDigest := recordDigest\<rparr>) db) (\<lambda>db1.
          res_bind (updateLeasePointer env run (Some (lq_leaseId q)) heartbeatAt db1) (\<lambda>db2.
          res_bind (read_lease (lq_deliveryId q) (lq_leaseId q) db2) (\<lambda>lease. Inr (db2, lease)))))))))))))"

definition releaseControllerLease ::
  "ledger_env \<Rightarrow> lease_request \<Rightarrow> string \<Rightarrow> delivery_db \<Rightarrow> (delivery_error, delivery_db \<times> controller_lease) result" where
  "releaseControllerLease env q releasedAt db =
     res_bind (validate_lease_holder q) (\<lambda>_.
     res_bind (delivery_assertTimestamp releasedAt ''releasedAt'') (\<lambda>_.
     res_bind (assertRunFence env (lq_deliveryId q) (lq_planDigest q) (lq_generation q) db) (\<lambda>run.
     res_bind (find_lease_required (lq_deliveryId q) (lq_leaseId q) db) (\<lambda>lease.
     res_bind (check (cl_holder lease = lq_holder q)
       (delivery_failure Delivery_controller_conflict ''Controller lease holder changed'')) (\<lambda>_.
     if cl_status lease = LeaseReleased then
       res_bind (check (cl_releasedAt lease = Some releasedAt)
         (delivery_failure Delivery_controller_conflict ''Controller lease release changed intent'')) (\<lambda>_. Inr (db, lease))
     else
       res_bind (check (cl_status lease = LeaseActive)
         (delivery_failure Delivery_controller_conflict ''Expired controller lease cannot be released as active'')) (\<lambda>_.
       res_bind (update_lease (lq_deliveryId q) (lq_leaseId q) (close_lease env LeaseReleased (cl_recordDigest lease) releasedAt) db) (\<lambda>db1.
       res_bind (if rr_activeControllerLease run = Some (lq_leaseId q) then updateLeasePointer env run None releasedAt db1 else Inr db1) (\<lambda>db2.
       res_bind (read_lease (lq_deliveryId q) (lq_leaseId q) db2) (\<lambda>lease. Inr (db2, lease))))))))))"

definition getActiveControllerLease :: "ledger_env \<Rightarrow> string \<Rightarrow> delivery_db \<Rightarrow> (delivery_error, controller_lease option) result" where
  "getActiveControllerLease env did db = res_bind (getRunRequired env did db) (\<lambda>_. Inr (active_lease did db))"

subsection \<open>Intents\<close>

definition delivery_reserveIntent ::
  "ledger_env \<Rightarrow> string \<Rightarrow> string \<Rightarrow> string \<Rightarrow> string \<Rightarrow> string \<Rightarrow> delivery_db \<Rightarrow> (delivery_error, delivery_db \<times> intent_reservation) result" where
  "delivery_reserveIntent env key semanticDigest operation did createdAt db =
     res_bind (delivery_assertIdempotencyKey key) (\<lambda>_.
     res_bind (delivery_assertDigest semanticDigest ''semanticDigest'') (\<lambda>_.
     res_bind (delivery_assertIdentifier operation ''operation'') (\<lambda>_.
     res_bind (check (take 14 operation = ''baby.delivery.'') (plan_invalid ''Delivery intent operation is not in the delivery family'')) (\<lambda>_.
     res_bind (delivery_assertIdentifier did ''deliveryId'') (\<lambda>_.
     res_bind (delivery_assertTimestamp createdAt ''createdAt'') (\<lambda>_.
     res_bind (getRunRequired env did db) (\<lambda>_.
     case find (\<lambda>r. in_idempotencyKey r = key) (db_intents (dd_ledger db)) of
       Some existing \<Rightarrow>
         if in_semanticDigest existing \<noteq> semanticDigest \<or> in_operation existing \<noteq> operation
            \<or> map_of (dd_intentDelivery db) key \<noteq> Some did
         then Inr (db, IntentConflict (in_semanticDigest existing))
         else if in_status existing = Pending then Inr (db, IntentPending)
         else (case (in_result existing, in_resultDigest existing) of
                 (Some result, Some resultDigest) \<Rightarrow>
                   res_bind (check (resultDigest \<noteq> [] \<and> le_sha256 env (stringify result) = resultDigest)
                     (delivery_failure Delivery_unknown ''Completed delivery intent has no valid result'')) (\<lambda>_.
                   Inr (db, IntentCompleted resultDigest result))
               | _ \<Rightarrow> Inl (delivery_failure Delivery_unknown ''Completed delivery intent has no valid result''))
     | None \<Rightarrow>
         Inr (db\<lparr>dd_ledger := (dd_ledger db)\<lparr>db_intents := db_intents (dd_ledger db) @
               [\<lparr>in_idempotencyKey = key, in_semanticDigest = semanticDigest, in_operation = operation, in_deploymentId = None,
                 in_status = Pending, in_resultDigest = None, in_result = None, in_createdAt = createdAt, in_completedAt = None\<rparr>]\<rparr>,
               dd_intentDelivery := dd_intentDelivery db @ [(key, did)]\<rparr>, IntentReserved))))))))"

definition delivery_completeIntent ::
  "ledger_env \<Rightarrow> string \<Rightarrow> string \<Rightarrow> string \<Rightarrow> json \<Rightarrow> string \<Rightarrow> delivery_db \<Rightarrow> (delivery_error, delivery_db \<times> string) result" where
  "delivery_completeIntent env key semanticDigest did result completedAt db =
     res_bind (delivery_assertIdempotencyKey key) (\<lambda>_.
     res_bind (delivery_assertDigest semanticDigest ''semanticDigest'') (\<lambda>_.
     res_bind (delivery_assertIdentifier did ''deliveryId'') (\<lambda>_.
     res_bind (delivery_assertTimestamp completedAt ''completedAt'') (\<lambda>_.
     let resultDigest = sha256_json env result in
     case find (\<lambda>r. in_idempotencyKey r = key) (db_intents (dd_ledger db)) of
       None \<Rightarrow> Inl (delivery_failure Delivery_not_found ''Delivery intent was not reserved'')
     | Some row \<Rightarrow>
         res_bind (check (in_semanticDigest row = semanticDigest \<and> map_of (dd_intentDelivery db) key = Some did)
           (delivery_failure Delivery_idempotency_conflict ''Delivery intent changed'')) (\<lambda>_.
         if in_status row = Completed then
           res_bind (check (in_resultDigest row = Some resultDigest)
             (delivery_failure Delivery_idempotency_conflict ''Completed delivery result changed'')) (\<lambda>_. Inr (db, resultDigest))
         else
           let hit = (\<lambda>r. in_idempotencyKey r = key \<and> in_status r = Pending) in
           res_bind (check (length (filter hit (db_intents (dd_ledger db))) = 1)
             (delivery_failure Delivery_conflict ''Delivery intent completion raced'')) (\<lambda>_.
           Inr (db\<lparr>dd_ledger := (dd_ledger db)\<lparr>db_intents := map (\<lambda>r. if hit r then completed_row env result completedAt r else r)
                  (db_intents (dd_ledger db))\<rparr>\<rparr>, resultDigest)))))))"

subsection \<open>The database as a system\<close>

text \<open>Every operation that writes, of either ledger of the database.\<close>

datatype delivery_op =
    CreateRun json_object int string
  | DeliveryTransition delivery_transition_input
  | RecordChildJob string string int child_job
  | RecordArtifact string string int delivery_artifact
  | AppendDeliveryEvidence delivery_evidence
  | AcquireLease lease_request string string
  | RenewLease lease_request string string
  | ReleaseLease lease_request string
  | ReserveDeliveryIntent string string string string string
  | CompleteDeliveryIntent string string string json string
  | DeploymentOp ledger_op

datatype database_error = OfDelivery delivery_error | OfDeployment ledger_error

definition forget :: "(delivery_error, delivery_db \<times> 'a) result \<Rightarrow> (database_error, delivery_db \<times> unit) result" where
  "forget m = (case m of Inl e \<Rightarrow> Inl (OfDelivery e) | Inr (db, _) \<Rightarrow> Inr (db, ()))"

definition delivery_step :: "ledger_env \<Rightarrow> delivery_op \<Rightarrow> delivery_db \<Rightarrow> (database_error, delivery_db \<times> unit) result" where
  "delivery_step env op db =
     (case op of
        CreateRun plan generation createdAt \<Rightarrow> forget (createRun env plan generation createdAt db)
      | DeliveryTransition i \<Rightarrow> forget (delivery_transition env i db)
      | RecordChildJob did planDigest generation c \<Rightarrow> forget (recordChildJob env did planDigest generation c db)
      | RecordArtifact did planDigest generation a \<Rightarrow> forget (recordArtifact env did planDigest generation a db)
      | AppendDeliveryEvidence e \<Rightarrow> forget (delivery_appendEvidence env e db)
      | AcquireLease q acquiredAt expiresAt \<Rightarrow> forget (acquireControllerLease env q acquiredAt expiresAt db)
      | RenewLease q heartbeatAt expiresAt \<Rightarrow> forget (renewControllerLease env q heartbeatAt expiresAt db)
      | ReleaseLease q releasedAt \<Rightarrow> forget (releaseControllerLease env q releasedAt db)
      | ReserveDeliveryIntent key semanticDigest operation did createdAt \<Rightarrow>
          forget (delivery_reserveIntent env key semanticDigest operation did createdAt db)
      | CompleteDeliveryIntent key semanticDigest did result completedAt \<Rightarrow>
          forget (delivery_completeIntent env key semanticDigest did result completedAt db)
      | DeploymentOp op \<Rightarrow>
          (case ledger_step env op (dd_ledger db) of
             Inl e \<Rightarrow> Inl (OfDeployment e)
           | Inr (ledger, _) \<Rightarrow> Inr (db\<lparr>dd_ledger := ledger\<rparr>, ())))"

abbreviation run_delivery :: "ledger_env \<Rightarrow> delivery_op list \<Rightarrow> delivery_db \<Rightarrow> delivery_db" where
  "run_delivery env \<equiv> run_ops (delivery_step env)"

end
