(* ===== verification/Delivery_Audit.thy ===== *)
theory Delivery_Audit
  imports Delivery_Ledger
begin

section \<open>What the delivery ledger guarantees\<close>

text \<open>
  The invariant of the database of \<open>Delivery_Ledger\<close> and its preservation by every operation of
  both ledgers: each run is the replay of its events, whose digests form a chain; at most one
  controller lease of a delivery is active and the run names it; stored plans read back as they
  were written. The database is an instance of \<open>growing_system\<close>: rows are only added, and an
  existing row changes only as its triggers allow.
\<close>

subsection \<open>What a successful operation did\<close>

lemma sql_update_Inr:
  "sql_update hit raises f rows = Inr (rows', n) \<longleftrightarrow>
     (\<forall>r\<in>set rows. hit r \<longrightarrow> \<not> raises r (f r)) \<and> rows' = map (\<lambda>r. if hit r then f r else r) rows \<and> n = length (filter hit rows)"
  by (auto simp: sql_update_def res_simps list_ex_iff)

lemma getPlan_Inr:
  assumes "getPlan env did db = Inr (Some plan)"
  obtains row where "find (\<lambda>p. pw_deliveryId p = did) (dd_plans db) = Some row" "canonicalPlan env (pw_plan row) = Inr plan"
    "key_text ''planDigest'' plan = pw_planDigest row"
  using assms by (auto simp: getPlan_def res_simps split: option.splits)

lemma getRun_Inr:
  assumes "getRun env did db = Inr (Some run)"
  obtains row plan where "find (\<lambda>r. rn_deliveryId r = did) (dd_runs db) = Some row" "getPlan env did db = Inr (Some plan)"
    "run = run_view plan row db"
  using assms by (auto simp: getRun_def res_simps split: option.splits)

lemma getRunRequired_Inr: "getRunRequired env did db = Inr run \<longleftrightarrow> getRun env did db = Inr (Some run)"
  by (auto simp: getRunRequired_def res_simps split: option.splits)

lemma getRunRequired_row:
  assumes "getRunRequired env did db = Inr run"
  obtains row plan where "row \<in> set (dd_runs db)" "rn_deliveryId row = did" "find (\<lambda>r. rn_deliveryId r = did) (dd_runs db) = Some row"
    "run = run_view plan row db"
  using assms by (auto simp: getRunRequired_Inr elim!: getRun_Inr dest: find_SomeD)

lemma assertRunFence_Inr:
  "assertRunFence env did planDigest generation db = Inr run \<longleftrightarrow>
     getRunRequired env did db = Inr run \<and> rr_planDigest run = planDigest \<and> rr_generation run = generation"
  by (auto simp: assertRunFence_def res_simps)

lemma run_view_simps [simp]:
  "rr_deliveryId (run_view plan row db) = rn_deliveryId row" "rr_planDigest (run_view plan row db) = rn_planDigest row"
  "rr_generation (run_view plan row db) = rn_generation row" "rr_state (run_view plan row db) = rn_state row"
  "rr_stateSequence (run_view plan row db) = rn_stateSequence row" "rr_terminal (run_view plan row db) = rn_terminal row"
  "rr_deploymentId (run_view plan row db) = rn_deploymentId row" "rr_deploymentState (run_view plan row db) = rn_deploymentState row"
  "rr_activeControllerLease (run_view plan row db) = rn_activeControllerLease row" "rr_expiresAt (run_view plan row db) = rn_expiresAt row"
  by (simp_all add: run_view_def)

text \<open>With unique delivery ids the guards of an UPDATE select the row that was read.\<close>

lemma unique_row:
  assumes "distinct (map rn_deliveryId runs)" "find (\<lambda>r. rn_deliveryId r = did) runs = Some row" "r \<in> set runs" "rn_deliveryId r = did"
  shows "r = row"
  using assms find_SomeD [OF assms(2)] by (auto intro: distinct_map_eq)

lemma createRun_cases:
  assumes "createRun env planInput generation createdAt db = Inr (db', run)"
  obtains (existing) "db' = db" "getRun env (rr_deliveryId run) db = Inr (Some run)"
  | (new) plan where "canonicalPlan env planInput = Inr plan" "safe_integer generation" "0 < generation" "canonical_timestamp createdAt"
      "find (\<lambda>r. rn_deliveryId r = key_text ''deliveryId'' plan) (dd_runs db) = None"
      "\<forall>p\<in>set (dd_plans db). pw_deliveryId p \<noteq> key_text ''deliveryId'' plan \<and> pw_planDigest p \<noteq> key_text ''planDigest'' plan"
      "db' = db\<lparr>dd_plans := dd_plans db @ [new_plan_row plan createdAt], dd_runs := dd_runs db @ [new_run_row env plan generation createdAt]\<rparr>"
      "getRun env (key_text ''deliveryId'' plan) db' = Inr (Some run)"
proof -
  obtain plan r where plan: "canonicalPlan env planInput = Inr plan" "safe_integer generation" "0 < generation" "canonical_timestamp createdAt"
    and r: "getRun env (key_text ''deliveryId'' plan) db = Inr r"
    and rest: "(case r of Some existing \<Rightarrow>
         res_bind (check (rr_planDigest existing = key_text ''planDigest'' plan)
           (delivery_failure Delivery_plan_changed ''Delivery ID is already bound to another plan'')) (\<lambda>_.
         res_bind (check (rr_generation existing = generation)
           (generation_conflict ''Delivery generation changed'' generation (rr_generation existing))) (\<lambda>_.
         Inr (db, existing)))
     | None \<Rightarrow>
         res_bind (check (\<not> list_ex (\<lambda>p. pw_deliveryId p = key_text ''deliveryId'' plan \<or> pw_planDigest p = key_text ''planDigest'' plan)
             (dd_plans db) \<and> length (canonicalJson (JObj plan)) \<le> 1048576) SqliteError) (\<lambda>_.
         let db' = db\<lparr>dd_plans := dd_plans db @ [new_plan_row plan createdAt],
                      dd_runs := dd_runs db @ [new_run_row env plan generation createdAt]\<rparr>
         in res_bind (getRunRequired env (key_text ''deliveryId'' plan) db') (\<lambda>run. Inr (db', run)))) = Inr (db', run)"
    using assms unfolding createRun_def res_bind_Inr check_Inr assertPositiveInteger_def delivery_assertTimestamp_def not_le
    by blast
  show ?thesis
  proof (cases r)
    case None
    with r have "find (\<lambda>r. rn_deliveryId r = key_text ''deliveryId'' plan) (dd_runs db) = None"
      by (auto simp: getRun_def res_simps split: option.splits)
    with plan None rest new show ?thesis by (auto simp: res_simps Let_def list_ex_iff getRunRequired_Inr)
  next
    case (Some x)
    from r Some have "rr_deliveryId x = key_text ''deliveryId'' plan" by (auto elim!: getRun_Inr dest: find_SomeD)
    with r Some rest existing show ?thesis by (auto simp: res_simps)
  qed
qed

definition transition_hit :: "delivery_transition_input \<Rightarrow> run_row \<Rightarrow> bool" where
  "transition_hit i r \<longleftrightarrow> rn_deliveryId r = dt_deliveryId i \<and> rn_planDigest r = dt_planDigest i \<and> rn_generation r = dt_generation i
     \<and> rn_state r = dt_expectedState i \<and> rn_stateSequence r = dt_expectedSequence i \<and> \<not> rn_terminal r"

lemma delivery_transition_cases:
  assumes "delivery_transition env i db = Inr (db', res)"
  obtains (replay) prior where "db' = db" "prior \<in> set (delivery_events_of (dt_deliveryId i) db)" "er_idempotencyKey prior = dt_idempotencyKey i"
      "er_semanticDigest prior = delivery_semantic_digest env i" "res = (er_result prior)\<lparr>to_replayed := True\<rparr>"
  | (new) current where "find (\<lambda>e. er_idempotencyKey e = dt_idempotencyKey i) (delivery_events_of (dt_deliveryId i) db) = None"
      "validateTransition i = Inr ()"
      "getRunRequired env (dt_deliveryId i) db = Inr current" "check_transition_fence i current = Inr ()"
      "length (delivery_events_of (dt_deliveryId i) db) < MAX_EVENTS_PER_RUN"
      "case rr_deploymentId (next_run i current) of None \<Rightarrow> True | Some d \<Rightarrow> getDeployment d (dd_ledger db) \<noteq> None"
      "\<forall>r\<in>set (dd_runs db). transition_hit i r \<longrightarrow> \<not> delivery_runs_raises r (moved_run env i current db r)"
      "db' = db\<lparr>dd_events := dd_events db @ [new_event_row env i current db],
        dd_runs := map (\<lambda>r. if transition_hit i r then moved_run env i current db r else r) (dd_runs db)\<rparr>"
      "res = er_result (new_event_row env i current db)"
proof (cases "find (\<lambda>e. er_idempotencyKey e = dt_idempotencyKey i) (delivery_events_of (dt_deliveryId i) db)")
  case None
  with assms obtain current where "getRunRequired env (dt_deliveryId i) db = Inr current"
    by (auto simp: delivery_transition_def res_simps)
  with None assms show ?thesis
    by (intro new [of current]) (auto simp: delivery_transition_def res_simps Let_def sql_update_Inr transition_hit_def)
next
  case (Some prior)
  with assms show ?thesis
    by (intro replay [of prior]) (auto simp: delivery_transition_def res_simps dest: find_SomeD)
qed

lemma updateLeasePointer_Inr:
  assumes "updateLeasePointer env run leaseId at db = Inr db'"
  obtains digest where "db' = db\<lparr>dd_runs := map (\<lambda>r. if rn_deliveryId r = rr_deliveryId run \<and> rn_generation r = rr_generation run
      \<and> rn_planDigest r = rr_planDigest run
      then r\<lparr>rn_activeControllerLease := leaseId, rn_recordDigest := digest, rn_updatedAt := at\<rparr> else r) (dd_runs db)\<rparr>"
  using assms by (auto simp: updateLeasePointer_def Let_def res_simps sql_update_Inr)

lemma update_lease_Inr:
  "update_lease did leaseId f db = Inr db' \<longleftrightarrow>
     (\<forall>l\<in>set (dd_leases db). cl_deliveryId l = did \<and> cl_leaseId l = leaseId \<and> cl_status l = LeaseActive
        \<longrightarrow> \<not> delivery_controller_leases_identity_immutable l (f l)) \<and>
     db' = db\<lparr>dd_leases := map (\<lambda>l. if cl_deliveryId l = did \<and> cl_leaseId l = leaseId \<and> cl_status l = LeaseActive then f l else l) (dd_leases db)\<rparr>"
  by (auto simp: update_lease_def res_simps sql_update_Inr)

subsection \<open>The invariant\<close>

text \<open>The events of a run: offsets count up from zero, each digest covers the one before, and the
  stored result is the one the event was written with.\<close>

definition event_ok :: "ledger_env \<Rightarrow> run_row \<Rightarrow> nat \<Rightarrow> string option \<Rightarrow> event_row \<Rightarrow> bool" where
  "event_ok env r k prior e \<longleftrightarrow>
     dv_offset (er_event e) = int k \<and> er_priorEventDigest e = prior \<and>
     dv_generation (er_event e) = rn_generation r \<and> dv_planDigest (er_event e) = rn_planDigest r \<and>
     dv_eventDigest (er_event e) = delivery_event_digest env prior (er_semanticDigest e) (int k) (rn_generation r) (rn_planDigest r)
       (dv_state (er_event e)) (int k + 1) \<and>
     to_event (er_result e) = er_event e \<and> rr_state (to_run (er_result e)) = dv_state (er_event e) \<and>
     rr_stateSequence (to_run (er_result e)) = int k + 1 \<and>
     er_resultDigest e = sha256_json env (outcome_json (er_result e))"

primrec events_ok :: "ledger_env \<Rightarrow> run_row \<Rightarrow> nat \<Rightarrow> string option \<Rightarrow> event_row list \<Rightarrow> bool" where
  "events_ok env r k prior [] = True"
| "events_ok env r k prior (e # es) \<longleftrightarrow> event_ok env r k prior e \<and> events_ok env r (Suc k) (Some (dv_eventDigest (er_event e))) es"

definition state_after :: "event_row list \<Rightarrow> delivery_state" where
  "state_after es = (if es = [] then PLANNED else dv_state (er_event (last es)))"

definition run_audited :: "ledger_env \<Rightarrow> event_row list \<Rightarrow> run_row \<Rightarrow> bool" where
  "run_audited env es r \<longleftrightarrow>
     events_ok env r 0 None es \<and> rn_stateSequence r = int (length es) \<and> length es \<le> MAX_EVENTS_PER_RUN \<and>
     rn_state r = state_after es \<and> rn_terminal r = is_terminal_delivery (rn_state r) \<and>
     list_all (\<lambda>e. \<not> is_terminal_delivery (dv_state (er_event e))) (butlast es) \<and> distinct (map er_idempotencyKey es)"

definition plan_stored :: "ledger_env \<Rightarrow> plan_row \<Rightarrow> run_row \<Rightarrow> bool" where
  "plan_stored env p r \<longleftrightarrow> pw_deliveryId p = rn_deliveryId r \<and> pw_planDigest p = rn_planDigest r \<and>
     canonicalPlan env (pw_plan p) = Inr (pw_plan p) \<and> key_text ''deliveryId'' (pw_plan p) = pw_deliveryId p \<and>
     key_text ''planDigest'' (pw_plan p) = pw_planDigest p"

definition lease_ok :: "delivery_db \<Rightarrow> run_row \<Rightarrow> bool" where
  "lease_ok db r \<longleftrightarrow> rn_activeControllerLease r = map_option cl_leaseId (active_lease (rn_deliveryId r) db)"

definition deployment_known :: "delivery_db \<Rightarrow> run_row \<Rightarrow> bool" where
  "deployment_known db r \<longleftrightarrow> (\<forall>d. rn_deploymentId r = Some d \<longrightarrow> getDeployment d (dd_ledger db) \<noteq> None) \<and>
     (rn_deploymentId r = None \<longrightarrow> rn_deploymentState r = None)"

definition active_ids :: "delivery_db \<Rightarrow> string list" where
  "active_ids db = map cl_deliveryId (filter (\<lambda>l. cl_status l = LeaseActive) (dd_leases db))"

definition delivery_inv :: "ledger_env \<Rightarrow> delivery_db \<Rightarrow> bool" where
  "delivery_inv env db \<longleftrightarrow>
     ledger_inv env (dd_ledger db) \<and>
     distinct (map rn_deliveryId (dd_runs db)) \<and>
     list_all2 (plan_stored env) (dd_plans db) (dd_runs db) \<and>
     (\<forall>r\<in>set (dd_runs db). run_audited env (delivery_events_of (rn_deliveryId r) db) r \<and> lease_ok db r \<and> deployment_known db r) \<and>
     (\<forall>e\<in>set (dd_events db). dv_deliveryId (er_event e) \<in> rn_deliveryId ` set (dd_runs db)) \<and>
     (\<forall>l\<in>set (dd_leases db). cl_deliveryId l \<in> rn_deliveryId ` set (dd_runs db)) \<and>
     distinct (map (\<lambda>l. (cl_deliveryId l, cl_leaseId l)) (dd_leases db)) \<and> distinct (active_ids db)"

lemma events_ok_snoc:
  "events_ok env r k prior (es @ [e]) \<longleftrightarrow> events_ok env r k prior es \<and>
     event_ok env r (k + length es) (if es = [] then prior else Some (dv_eventDigest (er_event (last es)))) e"
  by (induction es arbitrary: k prior) auto

lemma events_ok_offsets: "events_ok env r k prior es \<Longrightarrow> map (\<lambda>e. dv_offset (er_event e)) es = map int [k..<k + length es]"
proof (induction es arbitrary: k prior)
  case (Cons e es)
  from Cons.prems have "events_ok env r (Suc k) (Some (dv_eventDigest (er_event e))) es" "dv_offset (er_event e) = int k"
    by (auto simp: event_ok_def)
  with Cons.IH have "map (\<lambda>e. dv_offset (er_event e)) es = map int [Suc k..<Suc k + length es]" "dv_offset (er_event e) = int k"
    by blast+
  moreover have "[k..<k + length (e # es)] = k # [Suc k..<Suc k + length es]" by (simp add: upt_rec)
  ultimately show ?case by (simp del: upt_Suc)
qed simp

lemma events_ok_run: "rn_generation r' = rn_generation r \<Longrightarrow> rn_planDigest r' = rn_planDigest r \<Longrightarrow> events_ok env r' k prior es = events_ok env r k prior es"
  by (induction es arbitrary: k prior) (auto simp: event_ok_def)

lemma last_event_audited:
  assumes "events_ok env r 0 None (delivery_events_of did db)"
  shows "last_event did db = (if delivery_events_of did db = [] then None else Some (last (delivery_events_of did db)))"
proof -
  have "sorted (map (\<lambda>e. dv_offset (er_event e)) (delivery_events_of did db))"
    unfolding events_ok_offsets [OF assms] by (simp add: sorted_map sorted_wrt_upt)
  then show ?thesis by (simp add: last_event_def Let_def sorted_sort_id sort_key_id_if_sorted)
qed

lemma next_run_simps [simp]:
  "rr_state (next_run i run) = dt_nextState i" "rr_stateSequence (next_run i run) = rr_stateSequence run + 1"
  "rr_terminal (next_run i run) = is_terminal_delivery (dt_nextState i)" "rr_updatedAt (next_run i run) = dt_occurredAt i"
  "rr_deploymentId (next_run i run) = opt_or (dt_deploymentId i) (rr_deploymentId run)"
  "rr_deploymentState (next_run i run) = opt_or (dt_deploymentState i) (rr_deploymentState run)"
  by (simp_all add: next_run_def)

lemma moved_run_simps [simp]:
  "rn_deliveryId (moved_run env i c db r) = rn_deliveryId r" "rn_planDigest (moved_run env i c db r) = rn_planDigest r"
  "rn_generation (moved_run env i c db r) = rn_generation r" "rn_state (moved_run env i c db r) = dt_nextState i"
  "rn_stateSequence (moved_run env i c db r) = rr_stateSequence c + 1" "rn_terminal (moved_run env i c db r) = is_terminal_delivery (dt_nextState i)"
  "rn_activeControllerLease (moved_run env i c db r) = rn_activeControllerLease r" "rn_createdAt (moved_run env i c db r) = rn_createdAt r"
  "rn_expiresAt (moved_run env i c db r) = rn_expiresAt r" "rn_deploymentId (moved_run env i c db r) = opt_or (dt_deploymentId i) (rr_deploymentId c)"
  "rn_deploymentState (moved_run env i c db r) = opt_or (dt_deploymentState i) (rr_deploymentState c)"
  by (simp_all add: moved_run_def Let_def)

lemma new_event_row_simps [simp]:
  "dv_deliveryId (er_event (new_event_row env i c db)) = dt_deliveryId i" "dv_state (er_event (new_event_row env i c db)) = dt_nextState i"
  "er_idempotencyKey (new_event_row env i c db) = dt_idempotencyKey i"
  by (simp_all add: new_event_row_def new_event_def Let_def)

lemma check_transition_fence_Inr:
  "check_transition_fence i c = Inr u \<longleftrightarrow> rr_planDigest c = dt_planDigest i \<and> rr_generation c = dt_generation i \<and> \<not> rr_terminal c \<and>
     rr_state c = dt_expectedState i \<and> rr_stateSequence c = dt_expectedSequence i \<and> time_of (dt_occurredAt i) \<le> time_of (rr_expiresAt c) \<and>
     (rr_deploymentId c = None \<or> dt_deploymentId i = None \<or> rr_deploymentId c = dt_deploymentId i) \<and>
     (opt_or (dt_deploymentState i) (rr_deploymentState c) = None \<or> opt_or (dt_deploymentId i) (rr_deploymentId c) \<noteq> None)"
  by (auto simp: check_transition_fence_def res_simps)

lemma new_event_ok:
  assumes "events_ok env row 0 None es" "es = delivery_events_of (dt_deliveryId i) db" "rn_stateSequence row = int (length es)"
    "c = run_view plan row db" "rn_generation row = dt_generation i" "rn_planDigest row = dt_planDigest i"
  shows "event_ok env row (length es) (if es = [] then None else Some (dv_eventDigest (er_event (last es)))) (new_event_row env i c db)"
proof -
  have le: "last_event (dt_deliveryId i) db = (if es = [] then None else Some (last es))"
    using last_event_audited assms(1,2) by blast
  have "dv_offset (er_event (last es)) + 1 = int (length es)" if "es \<noteq> []"
  proof -
    from that have n: "length es - 1 < length es" by simp
    with events_ok_offsets [OF assms(1)] have "dv_offset (er_event (es ! (length es - 1))) = int (length es - 1)"
      by (metis (no_types, lifting) nth_map length_map nth_upt add_0 length_upt diff_zero)
    with that n show ?thesis by (simp add: last_conv_nth of_nat_diff Suc_leI)
  qed
  then show ?thesis
    by (simp add: event_ok_def new_event_row_def new_event_def Let_def le assms(3-6))
qed

subsection \<open>Every operation keeps the invariant\<close>

lemma delivery_inv_same:
  assumes "delivery_inv env db" "dd_ledger db' = dd_ledger db" "dd_plans db' = dd_plans db" "dd_runs db' = dd_runs db"
    "dd_events db' = dd_events db" "dd_leases db' = dd_leases db"
  shows "delivery_inv env db'"
  using assms by (simp add: delivery_inv_def delivery_events_of_def lease_ok_def active_lease_def active_ids_def deployment_known_def)

lemma inv_createRun:
  assumes inv: "delivery_inv env db" and c: "collation env" and op: "createRun env planInput generation createdAt db = Inr (db', run)"
  shows "delivery_inv env db'"
  using op
proof (cases rule: createRun_cases)
  case (new plan)
  let ?did = "key_text ''deliveryId'' plan"
  obtain v where "canonicalizeDeliveryPlan env v = Inr plan"
    using new(1) by (auto simp: canonicalPlan_def res_simps)
  then have stored: "plan_stored env (new_plan_row plan createdAt) (new_run_row env plan generation createdAt)"
    using canonical_plan_stable [OF c] by (simp add: plan_stored_def new_plan_row_def new_run_row_def)
  have fresh: "?did \<notin> rn_deliveryId ` set (dd_runs db)" using new(5) by (auto simp: find_None_iff)
  then have "\<forall>e\<in>set (dd_events db). dv_deliveryId (er_event e) \<noteq> ?did" "\<forall>l\<in>set (dd_leases db). cl_deliveryId l \<noteq> ?did"
    using inv unfolding delivery_inv_def by metis+
  then have none: "delivery_events_of ?did db = []" "active_lease ?did db = None"
    by (auto simp: delivery_events_of_def active_lease_def find_None_iff)
  have run: "rn_deliveryId (new_run_row env plan generation createdAt) = ?did" by (simp add: new_run_row_def)
  have "run_audited env (delivery_events_of ?did db) (new_run_row env plan generation createdAt)"
    by (simp add: run_audited_def none new_run_row_def state_after_def is_terminal_delivery_def TERMINAL_DELIVERY_STATES_def)
  moreover have "lease_ok db (new_run_row env plan generation createdAt)" "deployment_known db (new_run_row env plan generation createdAt)"
    by (simp_all add: lease_ok_def deployment_known_def new_run_row_def none)
  ultimately show ?thesis
    using inv stored fresh unfolding delivery_inv_def new(7)
    by (auto simp: run delivery_events_of_def lease_ok_def active_lease_def active_ids_def deployment_known_def list_all2_appendI)
qed (use inv in simp)

lemma transition_row:
  assumes inv: "delivery_inv env db" and run: "getRunRequired env (dt_deliveryId i) db = Inr c" and fence: "check_transition_fence i c = Inr ()"
  obtains row plan where "row \<in> set (dd_runs db)" "c = run_view plan row db" "rn_deliveryId row = dt_deliveryId i"
    "transition_hit i row" "\<forall>r\<in>set (dd_runs db). transition_hit i r \<longleftrightarrow> rn_deliveryId r = dt_deliveryId i"
    "\<forall>r\<in>set (dd_runs db). rn_deliveryId r = dt_deliveryId i \<longrightarrow> r = row"
proof -
  obtain row plan where row: "row \<in> set (dd_runs db)" "rn_deliveryId row = dt_deliveryId i" "c = run_view plan row db"
    "find (\<lambda>r. rn_deliveryId r = dt_deliveryId i) (dd_runs db) = Some row"
    using run by (auto elim: getRunRequired_row)
  from inv have "distinct (map rn_deliveryId (dd_runs db))" by (simp add: delivery_inv_def)
  with row(4) have only: "\<forall>r\<in>set (dd_runs db). rn_deliveryId r = dt_deliveryId i \<longrightarrow> r = row" by (blast intro: unique_row)
  have hit: "transition_hit i row" using fence row(2,3) by (auto simp: transition_hit_def check_transition_fence_Inr)
  with only have "\<forall>r\<in>set (dd_runs db). transition_hit i r \<longleftrightarrow> rn_deliveryId r = dt_deliveryId i"
    using transition_hit_def by blast
  with row hit only show ?thesis by (intro that [of row plan])
qed

lemma inv_delivery_transition:
  assumes inv: "delivery_inv env db" and op: "delivery_transition env i db = Inr (db', res)"
  shows "delivery_inv env db'"
  using op
proof (cases rule: delivery_transition_cases)
  case (new c)
  let ?did = "dt_deliveryId i" and ?e = "new_event_row env i c db"
  obtain row plan where row: "row \<in> set (dd_runs db)" "c = run_view plan row db" "rn_deliveryId row = ?did" "transition_hit i row"
    and hit: "\<forall>r\<in>set (dd_runs db). transition_hit i r \<longleftrightarrow> rn_deliveryId r = ?did"
    and only: "\<forall>r\<in>set (dd_runs db). rn_deliveryId r = ?did \<longrightarrow> r = row"
    using transition_row [OF inv new(3,4)] .
  let ?f = "\<lambda>r. if rn_deliveryId r = ?did then moved_run env i c db r else r"
  have runs: "dd_runs db' = map ?f (dd_runs db)" using hit by (simp add: new(8))
  have ids: "map rn_deliveryId (dd_runs db') = map rn_deliveryId (dd_runs db)" by (simp add: runs)
  then have idset: "rn_deliveryId ` set (dd_runs db') = rn_deliveryId ` set (dd_runs db)" by (metis set_map)
  have events: "delivery_events_of did db' = delivery_events_of did db @ (if did = ?did then [?e] else [])" for did
    by (simp add: delivery_events_of_def new(8))
  have same: "dd_leases db' = dd_leases db" "dd_ledger db' = dd_ledger db" by (simp_all add: new(8))
  have audited: "run_audited env (delivery_events_of ?did db) row" using inv row by (auto simp: delivery_inv_def)
  note fence = row(4) [unfolded transition_hit_def] new(4) [unfolded check_transition_fence_Inr]
  have "run_audited env (delivery_events_of ?did db') (moved_run env i c db row)"
  proof -
    from audited have es: "events_ok env row 0 None (delivery_events_of ?did db)" "rn_stateSequence row = int (length (delivery_events_of ?did db))"
      by (auto simp: run_audited_def)
    from new_event_ok [OF es(1) refl es(2) row(2)] fence
    have "event_ok env row (length (delivery_events_of ?did db))
       (if delivery_events_of ?did db = [] then None else Some (dv_eventDigest (er_event (last (delivery_events_of ?did db))))) ?e" by simp
    with es(1) have "events_ok env row 0 None (delivery_events_of ?did db')" by (simp add: events events_ok_snoc)
    then have "events_ok env (moved_run env i c db row) 0 None (delivery_events_of ?did db')"
      by (subst events_ok_run [of _ row]) simp_all
    moreover have "list_all (\<lambda>e. \<not> is_terminal_delivery (dv_state (er_event e))) (delivery_events_of ?did db)"
      using audited fence by (cases "delivery_events_of ?did db" rule: rev_cases) (auto simp: run_audited_def state_after_def)
    moreover have "dt_idempotencyKey i \<notin> er_idempotencyKey ` set (delivery_events_of ?did db)"
      using new(1) by (auto simp: find_None_iff)
    ultimately show ?thesis
      using audited new(5) es(2) by (simp add: run_audited_def events row(2) state_after_def)
  qed
  then have all: "run_audited env (delivery_events_of (rn_deliveryId r) db') r \<and> lease_ok db' r \<and> deployment_known db' r"
    if "r \<in> set (dd_runs db')" for r
  proof -
    from that obtain s where s: "s \<in> set (dd_runs db)" "r = ?f s" by (auto simp: runs)
    with inv have old: "run_audited env (delivery_events_of (rn_deliveryId s) db) s" "lease_ok db s" "deployment_known db s"
      by (auto simp: delivery_inv_def)
    show ?thesis
    proof (cases "rn_deliveryId s = ?did")
      case True
      with only s have "s = row" by blast
      with \<open>run_audited env (delivery_events_of ?did db') (moved_run env i c db row)\<close> old True s new(6) fence show ?thesis
        by (auto simp: lease_ok_def active_lease_def deployment_known_def same row(2,3) split: option.splits)
    next
      case False
      with old s show ?thesis by (simp add: events lease_ok_def active_lease_def deployment_known_def same)
    qed
  qed
  have "list_all2 (plan_stored env) (dd_plans db') (dd_runs db')"
    using inv by (auto simp: delivery_inv_def new(8) list_all2_map2 plan_stored_def elim!: list_all2_mono)
  moreover have "set (dd_events db') = insert ?e (set (dd_events db))" "active_ids db' = active_ids db"
    by (auto simp: new(8) active_ids_def)
  moreover have "?did \<in> rn_deliveryId ` set (dd_runs db)" using row(1,3) by (metis imageI)
  ultimately show ?thesis
    using inv all unfolding delivery_inv_def ids idset same by simp
qed (use inv in simp)

text \<open>Leases. An update that touches leases and the run's pointer only.\<close>

lemma inv_lease_update:
  assumes inv: "delivery_inv env db" and db': "dd_ledger db' = dd_ledger db" "dd_plans db' = dd_plans db" "dd_events db' = dd_events db"
    and runs: "dd_runs db' = map g (dd_runs db)"
    and g: "\<And>r. rn_deliveryId (g r) = rn_deliveryId r \<and> rn_planDigest (g r) = rn_planDigest r \<and> rn_generation (g r) = rn_generation r
      \<and> rn_state (g r) = rn_state r \<and> rn_stateSequence (g r) = rn_stateSequence r \<and> rn_terminal (g r) = rn_terminal r
      \<and> rn_deploymentId (g r) = rn_deploymentId r \<and> rn_deploymentState (g r) = rn_deploymentState r"
    and leases: "\<forall>l\<in>set (dd_leases db'). cl_deliveryId l \<in> rn_deliveryId ` set (dd_runs db)"
      "distinct (map (\<lambda>l. (cl_deliveryId l, cl_leaseId l)) (dd_leases db'))" "distinct (active_ids db')"
    and pointer: "\<And>r. r \<in> set (dd_runs db) \<Longrightarrow> lease_ok db' (g r)"
  shows "delivery_inv env db'"
proof -
  have ids: "map rn_deliveryId (dd_runs db') = map rn_deliveryId (dd_runs db)" using g by (simp add: runs)
  then have idset: "rn_deliveryId ` set (dd_runs db') = rn_deliveryId ` set (dd_runs db)" by (metis set_map)
  have ev: "delivery_events_of did db' = delivery_events_of did db" for did by (simp add: delivery_events_of_def db')
  have "run_audited env es (g r) = run_audited env es r" for es r
    using g [of r] by (simp add: run_audited_def events_ok_run [of "g r" r])
  then have "\<forall>r\<in>set (dd_runs db'). run_audited env (delivery_events_of (rn_deliveryId r) db') r \<and> lease_ok db' r \<and> deployment_known db' r"
    using inv g pointer by (auto simp: runs ev delivery_inv_def deployment_known_def db')
  moreover have "list_all2 (plan_stored env) (dd_plans db') (dd_runs db')"
    using inv g by (auto simp: delivery_inv_def runs db' list_all2_map2 plan_stored_def elim!: list_all2_mono)
  ultimately show ?thesis using inv leases unfolding delivery_inv_def ids idset db' by simp
qed

definition point_run :: "string \<Rightarrow> string option \<Rightarrow> string \<Rightarrow> string \<Rightarrow> run_row \<Rightarrow> run_row" where
  "point_run did p digest at r =
     (if rn_deliveryId r = did then r\<lparr>rn_activeControllerLease := p, rn_recordDigest := digest, rn_updatedAt := at\<rparr> else r)"

lemma pointer_update:
  assumes inv: "delivery_inv env db" and run: "getRunRequired env did db = Inr run" and runs: "dd_runs db1 = dd_runs db"
    and upd: "updateLeasePointer env run p at db1 = Inr db2"
  obtains digest where "db2 = db1\<lparr>dd_runs := map (point_run did p digest at) (dd_runs db)\<rparr>"
proof -
  obtain row plan where row: "rn_deliveryId row = did" "run = run_view plan row db"
    "find (\<lambda>r. rn_deliveryId r = did) (dd_runs db) = Some row"
    using run by (rule getRunRequired_row)
  from inv have "distinct (map rn_deliveryId (dd_runs db))" by (simp add: delivery_inv_def)
  with row have only: "r = row" if "r \<in> set (dd_runs db)" "rn_deliveryId r = did" for r
    using that by (blast intro: unique_row)
  obtain digest where db2: "db2 = db1\<lparr>dd_runs := map (\<lambda>r. if rn_deliveryId r = rr_deliveryId run \<and> rn_generation r = rr_generation run
      \<and> rn_planDigest r = rr_planDigest run
      then r\<lparr>rn_activeControllerLease := p, rn_recordDigest := digest, rn_updatedAt := at\<rparr> else r) (dd_runs db1)\<rparr>"
    using upd by (rule updateLeasePointer_Inr)
  have "db2 = db1\<lparr>dd_runs := map (point_run did p digest at) (dd_runs db)\<rparr>"
    unfolding db2 runs using only row(1,2) by (intro arg_cong [where f = "\<lambda>x. db1\<lparr>dd_runs := x\<rparr>"] map_cong) (auto simp: point_run_def)
  then show ?thesis by (rule that)
qed

text \<open>What the statements do to the lease rows: rows of one delivery change without becoming
  active, and at most one active row is added.\<close>

definition lease_change :: "string \<Rightarrow> (controller_lease \<Rightarrow> controller_lease) \<Rightarrow> bool" where
  "lease_change did u \<longleftrightarrow> (\<forall>l. cl_deliveryId (u l) = cl_deliveryId l \<and> cl_leaseId (u l) = cl_leaseId l \<and>
     (cl_status (u l) = LeaseActive \<longrightarrow> cl_status l = LeaseActive) \<and> (cl_deliveryId l \<noteq> did \<longrightarrow> u l = l))"

lemma lease_changeD:
  assumes "lease_change did u"
  shows "cl_deliveryId (u l) = cl_deliveryId l" "cl_leaseId (u l) = cl_leaseId l" "cl_status (u l) = LeaseActive \<Longrightarrow> cl_status l = LeaseActive"
    "cl_deliveryId l \<noteq> did \<Longrightarrow> u l = l"
  using assms unfolding lease_change_def by blast+

lemma find_map_same:
  "(\<And>x. P (u x) = P x) \<Longrightarrow> (\<And>x. P x \<Longrightarrow> u x = x) \<Longrightarrow> find P (map u xs) = find P xs"
  by (induction xs) auto

lemma distinct_filter_subset:
  assumes "distinct (map f (filter P xs))" "\<And>x. Q x \<Longrightarrow> P x"
  shows "distinct (map f (filter Q xs))"
proof -
  have "filter Q xs = filter Q (filter P xs)" using assms(2) by (induction xs) auto
  then show ?thesis using distinct_map_filter [OF assms(1), of Q] by simp
qed

lemma active_ids_change:
  assumes "lease_change did u" "distinct (active_ids db)" "dd_leases db' = map u (dd_leases db)"
  shows "distinct (active_ids db')"
proof -
  have "active_ids db' = map cl_deliveryId (filter (\<lambda>l. cl_status (u l) = LeaseActive) (dd_leases db))"
    by (simp add: active_ids_def assms(3) filter_map o_def lease_changeD(1) [OF assms(1)])
  moreover have "distinct (map cl_deliveryId (filter (\<lambda>l. cl_status (u l) = LeaseActive) (dd_leases db)))"
    using assms(2) unfolding active_ids_def by (rule distinct_filter_subset) (rule lease_changeD(3) [OF assms(1)])
  ultimately show ?thesis by simp
qed

lemma active_lease_other:
  assumes "lease_change did u" "dd_leases db' = map u (dd_leases db) @ new" "\<forall>n\<in>set new. cl_deliveryId n = did" "d \<noteq> did"
  shows "active_lease d db' = active_lease d db"
proof -
  have "find (\<lambda>l. cl_deliveryId l = d \<and> cl_status l = LeaseActive) (map u (dd_leases db)) = active_lease d db"
    unfolding active_lease_def
  proof (rule find_map_same)
    show "(cl_deliveryId (u x) = d \<and> cl_status (u x) = LeaseActive) = (cl_deliveryId x = d \<and> cl_status x = LeaseActive)" for x
      using lease_changeD(1,4) [OF assms(1), of x] assms(4) by (cases "cl_deliveryId x = d") simp_all
  qed (use lease_changeD(4) [OF assms(1)] assms(4) in blast)
  moreover have "find (\<lambda>l. cl_deliveryId l = d \<and> cl_status l = LeaseActive) new = None"
    using assms(3,4) by (auto simp: find_None_iff)
  ultimately show ?thesis by (simp add: active_lease_def assms(2) find_append_Some split: option.splits)
qed

lemma inv_lease_op:
  assumes inv: "delivery_inv env db" and known: "did \<in> rn_deliveryId ` set (dd_runs db)"
    and u: "lease_change did u"
    and new: "\<forall>n\<in>set new. cl_deliveryId n = did \<and> (did, cl_leaseId n) \<notin> (\<lambda>l. (cl_deliveryId l, cl_leaseId l)) ` set (dd_leases db)
      \<and> active_lease did (db\<lparr>dd_leases := map u (dd_leases db)\<rparr>) = None" "length new \<le> 1"
    and db': "db' = db\<lparr>dd_leases := map u (dd_leases db) @ new, dd_runs := map (point_run did p digest at) (dd_runs db)\<rparr>"
    and p: "p = map_option cl_leaseId (active_lease did db')"
  shows "delivery_inv env db'"
proof (rule inv_lease_update [OF inv, where g = "point_run did p digest at"])
  from inv have old: "\<forall>l\<in>set (dd_leases db). cl_deliveryId l \<in> rn_deliveryId ` set (dd_runs db)" "distinct (active_ids db)"
    "distinct (map (\<lambda>l. (cl_deliveryId l, cl_leaseId l)) (dd_leases db))" by (auto simp: delivery_inv_def)
  from old(1) known u new show "\<forall>l\<in>set (dd_leases db'). cl_deliveryId l \<in> rn_deliveryId ` set (dd_runs db)"
    by (auto simp: db' lease_changeD(1) [OF u])
  have keys: "map (\<lambda>l. (cl_deliveryId l, cl_leaseId l)) (map u (dd_leases db)) = map (\<lambda>l. (cl_deliveryId l, cl_leaseId l)) (dd_leases db)"
    by (simp add: lease_changeD(1,2) [OF u])
  show "distinct (map (\<lambda>l. (cl_deliveryId l, cl_leaseId l)) (dd_leases db'))"
    using old(3) new by (cases new) (auto simp: db' keys simp del: map_map)
  have du: "distinct (active_ids (db\<lparr>dd_leases := map u (dd_leases db)\<rparr>))"
    by (rule active_ids_change [OF u old(2)]) simp
  show "distinct (active_ids db')"
  proof (cases new)
    case Nil
    with du show ?thesis by (simp add: db' active_ids_def)
  next
    case (Cons n ns)
    with new have "did \<notin> set (active_ids (db\<lparr>dd_leases := map u (dd_leases db)\<rparr>))" "ns = []" "cl_deliveryId n = did"
      by (auto simp: active_ids_def active_lease_def find_None_iff)
    with du Cons show ?thesis by (simp add: db' active_ids_def)
  qed
  show "lease_ok db' (point_run did p digest at r)" if "r \<in> set (dd_runs db)" for r
  proof (cases "rn_deliveryId r = did")
    case False
    with inv that active_lease_other [OF u, of db' db new "rn_deliveryId r"] new show ?thesis
      by (auto simp: lease_ok_def point_run_def db' delivery_inv_def)
  qed (simp add: lease_ok_def point_run_def p)
qed (simp_all add: db' point_run_def)

abbreviation hits_lease :: "string \<Rightarrow> string \<Rightarrow> controller_lease \<Rightarrow> bool" where
  "hits_lease did leaseId l \<equiv> cl_deliveryId l = did \<and> cl_leaseId l = leaseId \<and> cl_status l = LeaseActive"

definition change_lease :: "string \<Rightarrow> string \<Rightarrow> (controller_lease \<Rightarrow> controller_lease) \<Rightarrow> controller_lease \<Rightarrow> controller_lease" where
  "change_lease did leaseId f l = (if hits_lease did leaseId l then f l else l)"

lemma close_lease_simps [simp]:
  "cl_deliveryId (close_lease env s d at l) = cl_deliveryId l" "cl_leaseId (close_lease env s d at l) = cl_leaseId l"
  "cl_status (close_lease env s d at l) = s" "cl_generation (close_lease env s d at l) = cl_generation l"
  "cl_holder (close_lease env s d at l) = cl_holder l" "cl_acquiredAt (close_lease env s d at l) = cl_acquiredAt l"
  by (simp_all add: close_lease_def)

lemma new_lease_simps [simp]:
  "cl_deliveryId (new_lease env q a x) = lq_deliveryId q" "cl_leaseId (new_lease env q a x) = lq_leaseId q"
  "cl_status (new_lease env q a x) = LeaseActive" "cl_holder (new_lease env q a x) = lq_holder q" "cl_expiresAt (new_lease env q a x) = x"
  by (simp_all add: new_lease_def)

lemma lease_change_simps [simp]:
  "s \<noteq> LeaseActive \<Longrightarrow> lease_change did (change_lease did leaseId (close_lease env s d at))"
  "lease_change did (change_lease did leaseId (\<lambda>l. l\<lparr>cl_heartbeatAt := h, cl_expiresAt := x, cl_recordDigest := d\<rparr>))"
  "lease_change did (\<lambda>l. l)"
  by (auto simp: lease_change_def change_lease_def)

lemma known_run: "getRunRequired env did db = Inr run \<Longrightarrow> did \<in> rn_deliveryId ` set (dd_runs db)"
  by (elim getRunRequired_row) auto

text \<open>The lease that a new one replaces had expired when the new one was taken.\<close>

definition expire_rows :: "ledger_env \<Rightarrow> string \<Rightarrow> string \<Rightarrow> delivery_db \<Rightarrow> controller_lease \<Rightarrow> controller_lease" where
  "expire_rows env did at db = (case active_lease did db of None \<Rightarrow> (\<lambda>l. l)
     | Some a \<Rightarrow> change_lease did (cl_leaseId a) (close_lease env LeaseExpired (cl_recordDigest a) at))"

lemma expire_active_lease_Inr:
  assumes "expire_active_lease env did at db = Inr db1"
  shows "db1 = db\<lparr>dd_leases := map (expire_rows env did at db) (dd_leases db)\<rparr> \<and>
    (\<forall>a. active_lease did db = Some a \<longrightarrow> time_of (cl_expiresAt a) \<le> time_of at)"
  using assms by (auto simp: expire_active_lease_def expire_rows_def res_simps update_lease_Inr change_lease_def [abs_def] split: option.splits)

lemma find_lease_change:
  assumes "lease_change did' u"
  shows "find_lease did leaseId (db\<lparr>dd_leases := map u ls\<rparr>) = map_option u (find_lease did leaseId (db\<lparr>dd_leases := ls\<rparr>))"
  by (induction ls) (auto simp: find_lease_def lease_changeD(1,2) [OF assms])

lemma expire_rows_change [simp]: "lease_change did (expire_rows env did at db)"
  by (simp add: expire_rows_def split: option.split)

lemma acquire_cases:
  assumes inv: "delivery_inv env db" and op: "acquireControllerLease env q acquiredAt expiresAt db = Inr (db', l)"
  obtains (same) "db' = db" "find_lease (lq_deliveryId q) (lq_leaseId q) db = Some l" "cl_status l = LeaseActive" "cl_holder l = lq_holder q"
      "cl_expiresAt l = expiresAt"
  | (new) run digest where "getRunRequired env (lq_deliveryId q) db = Inr run" "\<not> rr_terminal run"
      "find_lease (lq_deliveryId q) (lq_leaseId q) db = None" "time_of acquiredAt < time_of expiresAt"
      "\<forall>a. active_lease (lq_deliveryId q) db = Some a \<longrightarrow> time_of (cl_expiresAt a) \<le> time_of acquiredAt"
      "active_lease (lq_deliveryId q) (db\<lparr>dd_leases := map (expire_rows env (lq_deliveryId q) acquiredAt db) (dd_leases db)\<rparr>) = None"
      "db' = db\<lparr>dd_leases := map (expire_rows env (lq_deliveryId q) acquiredAt db) (dd_leases db) @ [new_lease env q acquiredAt expiresAt],
        dd_runs := map (point_run (lq_deliveryId q) (Some (lq_leaseId q)) digest acquiredAt) (dd_runs db)\<rparr>"
      "l = new_lease env q acquiredAt expiresAt"
proof (cases "find_lease (lq_deliveryId q) (lq_leaseId q) db")
  case None
  let ?did = "lq_deliveryId q" and ?u = "expire_rows env (lq_deliveryId q) acquiredAt db"
  from op None obtain run db1 where run: "getRunRequired env ?did db = Inr run" "\<not> rr_terminal run" "time_of acquiredAt < time_of expiresAt"
    and db1: "expire_active_lease env ?did acquiredAt db = Inr db1" "active_lease ?did db1 = None"
    and upd: "updateLeasePointer env run (Some (lq_leaseId q)) acquiredAt (db1\<lparr>dd_leases := dd_leases db1 @ [new_lease env q acquiredAt expiresAt]\<rparr>) = Inr db'"
    and l: "read_lease ?did (lq_leaseId q) db' = Inr l"
    unfolding acquireControllerLease_def by (auto simp: res_simps assertRunFence_Inr)
  note e = expire_active_lease_Inr [OF db1(1)]
  have "dd_runs (db1\<lparr>dd_leases := dd_leases db1 @ [new_lease env q acquiredAt expiresAt]\<rparr>) = dd_runs db" using e by simp
  from pointer_update [OF inv run(1) this upd] obtain digest where
    db': "db' = db1\<lparr>dd_leases := dd_leases db1 @ [new_lease env q acquiredAt expiresAt],
      dd_runs := map (point_run ?did (Some (lq_leaseId q)) digest acquiredAt) (dd_runs db)\<rparr>" .
  have "find_lease ?did (lq_leaseId q) (db\<lparr>dd_leases := map ?u (dd_leases db)\<rparr>) = None"
    by (simp add: find_lease_change [OF expire_rows_change] None)
  then have "find_lease ?did (lq_leaseId q) db' = Some (new_lease env q acquiredAt expiresAt)"
    using e by (simp add: db' find_lease_def find_append_Some)
  then have "l = new_lease env q acquiredAt expiresAt" using l by (simp add: read_lease_def)
  with None run e db1(2) db' show ?thesis by (intro new [of run digest]) auto
next
  case (Some same)
  with op show ?thesis unfolding acquireControllerLease_def by (intro that(1)) (auto simp: res_simps)
qed

lemma inv_acquire:
  assumes inv: "delivery_inv env db" and op: "acquireControllerLease env q acquiredAt expiresAt db = Inr (db', l)"
  shows "delivery_inv env db'"
  using inv op
proof (cases rule: acquire_cases)
  case (new run digest)
  show ?thesis
  proof (rule inv_lease_op [OF inv known_run [OF new(1)] expire_rows_change, where new = "[new_lease env q acquiredAt expiresAt]"])
    show "\<forall>n\<in>set [new_lease env q acquiredAt expiresAt]. cl_deliveryId n = lq_deliveryId q \<and>
        (lq_deliveryId q, cl_leaseId n) \<notin> (\<lambda>l. (cl_deliveryId l, cl_leaseId l)) ` set (dd_leases db) \<and>
        active_lease (lq_deliveryId q) (db\<lparr>dd_leases := map (expire_rows env (lq_deliveryId q) acquiredAt db) (dd_leases db)\<rparr>) = None"
      using new(3,6) by (auto simp: find_lease_def find_None_iff)
    show "Some (lq_leaseId q) = map_option cl_leaseId (active_lease (lq_deliveryId q) db')"
      using new(6) by (simp add: new(7) active_lease_def find_append_Some)
  qed (simp_all add: new(7))
qed (use inv in simp)

lemma renew_cases:
  assumes inv: "delivery_inv env db" and op: "renewControllerLease env q heartbeatAt expiresAt db = Inr (db', l)"
  obtains (same) "db' = db"
  | (new) run lease lease_digest digest where "getRunRequired env (lq_deliveryId q) db = Inr run"
      "find_lease (lq_deliveryId q) (lq_leaseId q) db = Some lease" "cl_status lease = LeaseActive" "cl_holder lease = lq_holder q"
      "time_of (cl_expiresAt lease) \<le> time_of expiresAt" "rr_activeControllerLease run = Some (lq_leaseId q)"
      "db' = db\<lparr>dd_leases := map (change_lease (lq_deliveryId q) (lq_leaseId q)
          (\<lambda>l. l\<lparr>cl_heartbeatAt := heartbeatAt, cl_expiresAt := expiresAt, cl_recordDigest := lease_digest\<rparr>)) (dd_leases db),
        dd_runs := map (point_run (lq_deliveryId q) (Some (lq_leaseId q)) digest heartbeatAt) (dd_runs db)\<rparr>"
proof -
  let ?did = "lq_deliveryId q"
  from op obtain run lease where run: "getRunRequired env ?did db = Inr run" and lease: "find_lease ?did (lq_leaseId q) db = Some lease"
    "cl_status lease = LeaseActive" "cl_holder lease = lq_holder q" "rr_activeControllerLease run = Some (lq_leaseId q)"
    unfolding renewControllerLease_def by (auto simp: res_simps assertRunFence_Inr find_lease_required_def split: option.splits)
  let ?digest = "sha256_json env (JObj [(''priorRecordDigest'', JStr (cl_recordDigest lease)), (''heartbeatAt'', JStr heartbeatAt),
             (''expiresAt'', JStr expiresAt), (''status'', JStr ''active'')])"
  let ?f = "\<lambda>l. l\<lparr>cl_heartbeatAt := heartbeatAt, cl_expiresAt := expiresAt, cl_recordDigest := ?digest\<rparr>"
  show ?thesis
  proof (cases "heartbeatAt = cl_heartbeatAt lease \<and> expiresAt = cl_expiresAt lease")
    case True
    with op run lease show ?thesis
      unfolding renewControllerLease_def by (intro same) (auto simp: res_simps assertRunFence_Inr find_lease_required_def)
  next
    case False
    with op run lease obtain db1 where later: "time_of (cl_expiresAt lease) \<le> time_of expiresAt"
      and db1: "update_lease ?did (lq_leaseId q) ?f db = Inr db1"
      and upd: "updateLeasePointer env run (Some (lq_leaseId q)) heartbeatAt db1 = Inr db'"
      unfolding renewControllerLease_def by (auto simp: res_simps assertRunFence_Inr find_lease_required_def Let_def)
    from db1 have e: "db1 = db\<lparr>dd_leases := map (change_lease ?did (lq_leaseId q) ?f) (dd_leases db)\<rparr>"
      by (simp add: update_lease_Inr change_lease_def [abs_def])
    then have "dd_runs db1 = dd_runs db" by simp
    from pointer_update [OF inv run this upd] obtain digest where
      "db' = db1\<lparr>dd_runs := map (point_run ?did (Some (lq_leaseId q)) digest heartbeatAt) (dd_runs db)\<rparr>" .
    with run lease later e show ?thesis by (intro new [where lease_digest = ?digest and digest = digest]) auto
  qed
qed

lemma active_lease_unique:
  assumes inv: "delivery_inv env db" and "l \<in> set (dd_leases db)" "cl_status l = LeaseActive" "cl_deliveryId l = did"
  shows "active_lease did db = Some l"
proof (cases "active_lease did db")
  case None
  with assms show ?thesis by (auto simp: active_lease_def find_None_iff)
next
  case (Some a)
  then have a: "a \<in> set (dd_leases db)" "cl_deliveryId a = did" "cl_status a = LeaseActive"
    by (auto simp: active_lease_def dest: find_SomeD)
  from inv have "distinct (map cl_deliveryId (filter (\<lambda>l. cl_status l = LeaseActive) (dd_leases db)))"
    by (simp add: delivery_inv_def active_ids_def)
  from distinct_map_eq [OF this, of a l] a assms Some show ?thesis by simp
qed

lemma inv_renew:
  assumes inv: "delivery_inv env db" and op: "renewControllerLease env q heartbeatAt expiresAt db = Inr (db', l)"
  shows "delivery_inv env db'"
  using inv op
proof (cases rule: renew_cases)
  case (new run lease lease_digest digest)
  let ?did = "lq_deliveryId q"
  let ?f = "\<lambda>l. l\<lparr>cl_heartbeatAt := heartbeatAt, cl_expiresAt := expiresAt, cl_recordDigest := lease_digest\<rparr>"
  have lease: "lease \<in> set (dd_leases db)" "cl_deliveryId lease = ?did" "cl_leaseId lease = lq_leaseId q"
    using new(2) by (auto simp: find_lease_def dest: find_SomeD)
  from active_lease_unique [OF inv lease(1) new(3) lease(2)] have act: "active_lease ?did db = Some lease" .
  have "find (\<lambda>l. cl_deliveryId l = ?did \<and> cl_status l = LeaseActive) (map (change_lease ?did (lq_leaseId q) ?f) ls)
      = map_option (change_lease ?did (lq_leaseId q) ?f) (find (\<lambda>l. cl_deliveryId l = ?did \<and> cl_status l = LeaseActive) ls)" for ls
    by (induction ls) (auto simp: change_lease_def)
  with act have p: "Some (lq_leaseId q) = map_option cl_leaseId (active_lease ?did db')"
    using lease(3) by (simp add: new(7) active_lease_def change_lease_def)
  show ?thesis
    by (rule inv_lease_op [OF inv known_run [OF new(1)] lease_change_simps(2), where new = "[]", OF _ _ _ p]) (simp_all add: new(7))
qed (use inv in simp)

lemma release_cases:
  assumes inv: "delivery_inv env db" and op: "releaseControllerLease env q releasedAt db = Inr (db', l)"
  obtains (same) "db' = db"
  | (new) run lease lease_digest digest where "getRunRequired env (lq_deliveryId q) db = Inr run"
      "find_lease (lq_deliveryId q) (lq_leaseId q) db = Some lease" "cl_status lease = LeaseActive" "cl_holder lease = lq_holder q"
      "db' = db\<lparr>dd_leases := map (change_lease (lq_deliveryId q) (lq_leaseId q) (close_lease env LeaseReleased lease_digest releasedAt)) (dd_leases db),
        dd_runs := map (point_run (lq_deliveryId q) None digest releasedAt) (dd_runs db)\<rparr>"
proof -
  let ?did = "lq_deliveryId q"
  from op obtain run lease where run: "getRunRequired env ?did db = Inr run" and lease: "find_lease ?did (lq_leaseId q) db = Some lease"
    "cl_holder lease = lq_holder q"
    unfolding releaseControllerLease_def by (auto simp: res_simps assertRunFence_Inr find_lease_required_def split: option.splits)
  show ?thesis
  proof (cases "cl_status lease = LeaseReleased")
    case True
    with op run lease show ?thesis
      unfolding releaseControllerLease_def by (intro same) (auto simp: res_simps assertRunFence_Inr find_lease_required_def)
  next
    case False
    let ?f = "close_lease env LeaseReleased (cl_recordDigest lease) releasedAt"
    from False op run lease obtain db1 where active: "cl_status lease = LeaseActive" and db1: "update_lease ?did (lq_leaseId q) ?f db = Inr db1"
      and upd: "(if rr_activeControllerLease run = Some (lq_leaseId q) then updateLeasePointer env run None releasedAt db1 else Inr db1) = Inr db'"
      unfolding releaseControllerLease_def by (auto simp: res_simps assertRunFence_Inr find_lease_required_def)
    have l: "lease \<in> set (dd_leases db)" "cl_deliveryId lease = ?did" "cl_leaseId lease = lq_leaseId q"
      using lease(1) by (auto simp: find_lease_def dest: find_SomeD)
    from active_lease_unique [OF inv l(1) active l(2)] have "active_lease ?did db = Some lease" .
    moreover obtain row plan where "row \<in> set (dd_runs db)" "rn_deliveryId row = ?did" "run = run_view plan row db"
      using run by (rule getRunRequired_row)
    ultimately have "rr_activeControllerLease run = Some (lq_leaseId q)" using inv l(3) by (auto simp: delivery_inv_def lease_ok_def)
    with upd have upd: "updateLeasePointer env run None releasedAt db1 = Inr db'" by simp
    from db1 have e: "db1 = db\<lparr>dd_leases := map (change_lease ?did (lq_leaseId q) ?f) (dd_leases db)\<rparr>"
      by (simp add: update_lease_Inr change_lease_def [abs_def])
    then have "dd_runs db1 = dd_runs db" by simp
    from pointer_update [OF inv run this upd] obtain digest where
      "db' = db1\<lparr>dd_runs := map (point_run ?did None digest releasedAt) (dd_runs db)\<rparr>" .
    with run lease active e show ?thesis by (intro new [where lease_digest = "cl_recordDigest lease" and digest = digest]) auto
  qed
qed

lemma inv_release:
  assumes inv: "delivery_inv env db" and op: "releaseControllerLease env q releasedAt db = Inr (db', l)"
  shows "delivery_inv env db'"
  using inv op
proof (cases rule: release_cases)
  case (new run lease lease_digest digest)
  let ?did = "lq_deliveryId q"
  have lease: "lease \<in> set (dd_leases db)" "cl_deliveryId lease = ?did" "cl_leaseId lease = lq_leaseId q"
    using new(2) by (auto simp: find_lease_def dest: find_SomeD)
  from active_lease_unique [OF inv _ _ refl] active_lease_unique [OF inv lease(1) new(3) lease(2)] lease(3)
  have "cl_leaseId x = lq_leaseId q" if "x \<in> set (dd_leases db)" "cl_deliveryId x = ?did" "cl_status x = LeaseActive" for x
    using that by (metis option.inject)
  then have p: "None = map_option cl_leaseId (active_lease ?did db')"
    by (auto simp: new(5) active_lease_def change_lease_def find_None_iff split: if_splits)
  have "lease_change ?did (change_lease ?did (lq_leaseId q) (close_lease env LeaseReleased lease_digest releasedAt))" by simp
  from inv_lease_op [OF inv known_run [OF new(1)] this, where new = "[]", OF _ _ _ p] show ?thesis by (simp add: new(5))
qed (use inv in simp)

lemma recordChildJob_cases:
  assumes "recordChildJob env did planDigest generation c db = Inr (db', x)"
  obtains (same) "db' = db"
  | (new) "find (\<lambda>r. cr_deliveryId r = did \<and> cj_jobId (cr_reference r) = cj_jobId c) (dd_childJobs db) = None"
      "db' = db\<lparr>dd_childJobs := dd_childJobs db @ [new_child_job_row env did generation c]\<rparr>"
  | (update) row g where "find (\<lambda>r. cr_deliveryId r = did \<and> cj_jobId (cr_reference r) = cj_jobId c) (dd_childJobs db) = Some row"
      "cj_phase (cr_reference row) = cj_phase c" "check_child_job_update (cr_reference row) c = Inr ()"
      "db' = db\<lparr>dd_childJobs := map (\<lambda>r. if cr_deliveryId r = did \<and> cj_jobId (cr_reference r) = cj_jobId c \<and> \<not> cj_terminal (cr_reference r)
        then updated_child_job_row env g (cr_recordDigest row) c r else r) (dd_childJobs db)\<rparr>"
proof (cases "find (\<lambda>r. cr_deliveryId r = did \<and> cj_jobId (cr_reference r) = cj_jobId c) (dd_childJobs db)")
  case None
  with assms show ?thesis by (intro new) (auto simp: recordChildJob_def res_simps)
next
  case (Some row)
  show ?thesis
  proof (cases "cj_terminal (cr_reference row)")
    case True
    with Some assms show ?thesis by (intro same) (auto simp: recordChildJob_def res_simps Let_def)
  next
    case False
    from assms obtain run where "assertRunFence env did planDigest generation db = Inr run" by (auto simp: recordChildJob_def res_simps)
    with False Some assms obtain rows n where "cj_phase (cr_reference row) = cj_phase c" "check_child_job_update (cr_reference row) c = Inr ()"
      "sql_update (\<lambda>r. cr_deliveryId r = did \<and> cj_jobId (cr_reference r) = cj_jobId c \<and> \<not> cj_terminal (cr_reference r))
         delivery_child_jobs_identity_immutable (updated_child_job_row env (rr_generation run) (cr_recordDigest row) c) (dd_childJobs db) = Inr (rows, n)"
      "db' = db\<lparr>dd_childJobs := rows\<rparr>"
      by (auto simp: recordChildJob_def res_simps Let_def)
    with Some show ?thesis by (intro update) (auto simp: sql_update_Inr)
  qed
qed

lemma recordArtifact_db:
  assumes "recordArtifact env did planDigest generation a db = Inr (db', x)"
  shows "db' = db \<or> (\<exists>row. db' = db\<lparr>dd_artifacts := dd_artifacts db @ [row]\<rparr>)"
  using assms by (auto simp: recordArtifact_def res_simps split: option.splits)

lemma delivery_appendEvidence_db:
  assumes "delivery_appendEvidence env e db = Inr (db', x)"
  shows "db' = db \<or> (\<exists>row. db' = db\<lparr>dd_evidence := dd_evidence db @ [row]\<rparr>)"
  using assms by (auto simp: delivery_appendEvidence_def res_simps Let_def split: option.splits)

lemma delivery_reserveIntent_db:
  assumes "delivery_reserveIntent env key semanticDigest operation did createdAt db = Inr (db', x)"
  shows "db' = db \<or> (\<exists>row. db' = db\<lparr>dd_ledger := (dd_ledger db)\<lparr>db_intents := db_intents (dd_ledger db) @ [row]\<rparr>,
      dd_intentDelivery := dd_intentDelivery db @ [(key, did)]\<rparr> \<and> in_idempotencyKey row = key \<and> in_status row = Pending \<and>
      find (\<lambda>r. in_idempotencyKey r = key) (db_intents (dd_ledger db)) = None)"
  using assms by (auto simp: delivery_reserveIntent_def res_simps split: option.splits if_splits)

lemma delivery_completeIntent_db:
  assumes "delivery_completeIntent env key semanticDigest did result at db = Inr (db', x)"
  shows "db' = db \<or> db' = db\<lparr>dd_ledger := (dd_ledger db)\<lparr>db_intents := map (\<lambda>r. if in_idempotencyKey r = key \<and> in_status r = Pending
      then completed_row env result at r else r) (db_intents (dd_ledger db))\<rparr>\<rparr>"
  using assms by (auto simp: delivery_completeIntent_def res_simps Let_def split: option.splits if_splits)

lemma inv_other_tables:
  assumes inv: "delivery_inv env db"
  shows "recordChildJob env did pd g x db = Inr (db', c) \<Longrightarrow> delivery_inv env db'"
    "recordArtifact env did pd g y db = Inr (db', a) \<Longrightarrow> delivery_inv env db'"
    "delivery_appendEvidence env e db = Inr (db', f) \<Longrightarrow> delivery_inv env db'"
  subgoal by (cases rule: recordChildJob_cases) (auto intro: delivery_inv_same [OF inv])
  subgoal using inv by (auto dest!: recordArtifact_db intro: delivery_inv_same [OF inv])
  subgoal using inv by (auto dest!: delivery_appendEvidence_db intro: delivery_inv_same [OF inv])
  done

lemma inv_ledger_change:
  assumes "delivery_inv env db" "ledger_inv env l" "grown deployment_le (db_deployments (dd_ledger db)) (db_deployments l)"
    "dd_ledger db' = l" "dd_plans db' = dd_plans db" "dd_runs db' = dd_runs db" "dd_events db' = dd_events db" "dd_leases db' = dd_leases db"
  shows "delivery_inv env db'"
proof -
  have "getDeployment d l \<noteq> None" if "getDeployment d (dd_ledger db) \<noteq> None" for d
  proof -
    from that obtain x where "x \<in> set (db_deployments (dd_ledger db))" "dp_id x = d" by (auto dest: getDeployment_Some)
    with grown_in [OF assms(3)] obtain y where "y \<in> set (db_deployments l)" "deployment_le x y" by metis
    with \<open>dp_id x = d\<close> show ?thesis by (auto simp: getDeployment_def find_None_iff deployment_le_def)
  qed
  then have "deployment_known db r \<Longrightarrow> deployment_known db' r" for r using assms(4) by (auto simp: deployment_known_def)
  then show ?thesis using assms
    by (auto simp: delivery_inv_def delivery_events_of_def lease_ok_def active_lease_def active_ids_def)
qed

lemma inv_delivery_reserveIntent:
  assumes "delivery_inv env db" "delivery_reserveIntent env key semanticDigest operation did createdAt db = Inr (db', x)"
  shows "delivery_inv env db'"
  using delivery_reserveIntent_db [OF assms(2)]
proof (elim disjE exE conjE)
  fix row
  assume r: "db' = db\<lparr>dd_ledger := (dd_ledger db)\<lparr>db_intents := db_intents (dd_ledger db) @ [row]\<rparr>,
      dd_intentDelivery := dd_intentDelivery db @ [(key, did)]\<rparr>" "in_idempotencyKey row = key" "in_status row = Pending"
      "find (\<lambda>r. in_idempotencyKey r = key) (db_intents (dd_ledger db)) = None"
  have l: "ledger_inv env (dd_ledger db)" using assms(1) by (simp add: delivery_inv_def)
  have "ledger_inv env ((dd_ledger db)\<lparr>db_intents := db_intents (dd_ledger db) @ [row]\<rparr>)"
    using l r by (intro inv_intents [OF l]) (auto simp: ledger_inv_def find_None_iff intent_ok_def)
  then show ?thesis by (rule inv_ledger_change [OF assms(1)]) (simp_all add: r)
qed (use assms in simp)

lemma complete_rows_inv:
  assumes "ledger_inv env l"
  shows "ledger_inv env (l\<lparr>db_intents := map (\<lambda>r. if in_idempotencyKey r = key \<and> in_status r = Pending
      then completed_row env result at r else r) (db_intents l)\<rparr>)"
proof (rule inv_intents [OF assms])
  let ?f = "\<lambda>r. if in_idempotencyKey r = key \<and> in_status r = Pending then completed_row env result at r else r"
  have "map in_idempotencyKey (map ?f (db_intents l)) = map in_idempotencyKey (db_intents l)" by (simp add: completed_row_def)
  then show "distinct (map in_idempotencyKey (db_intents (l\<lparr>db_intents := map ?f (db_intents l)\<rparr>)))"
    using assms by (simp add: ledger_inv_def del: map_map)
  show "list_all (intent_ok env) (db_intents (l\<lparr>db_intents := map ?f (db_intents l)\<rparr>))"
    using assms by (auto simp: ledger_inv_def list_all_iff completed_row_def intent_ok_def canonicalJson_def)
qed simp_all

lemma inv_delivery_completeIntent:
  assumes "delivery_inv env db" "delivery_completeIntent env key semanticDigest did result at db = Inr (db', x)"
  shows "delivery_inv env db'"
proof -
  have "ledger_inv env (dd_ledger db)" using assms(1) by (simp add: delivery_inv_def)
  from complete_rows_inv [OF this] show ?thesis
    using delivery_completeIntent_db [OF assms(2)] assms(1)
    by (auto intro: inv_ledger_change [OF assms(1), of "dd_ledger db'"])
qed

lemma forget_Inr: "forget m = Inr (db, u) \<longleftrightarrow> (\<exists>x. m = Inr (db, x))"
  by (cases m) (auto simp: forget_def)

lemma delivery_step_inv:
  assumes c: "collation env" and inv: "delivery_inv env db" and op: "delivery_step env op db = Inr (db', u)"
  shows "delivery_inv env db'"
proof (cases op)
  case (DeploymentOp l)
  with op obtain l' where l': "ledger_step env l (dd_ledger db) = Inr (l', ())" "db' = db\<lparr>dd_ledger := l'\<rparr>"
    by (auto simp: delivery_step_def split: sum.splits)
  have old: "ledger_inv env (dd_ledger db)" using inv by (simp add: delivery_inv_def)
  with l' have "ledger_inv env l'" "ledger_grows (dd_ledger db) l'" by (auto intro: ledger_step_inv ledger_step_grows)
  then show ?thesis by (intro inv_ledger_change [OF inv, of l']) (simp_all add: l' ledger_grows_def)
qed (use op in \<open>auto simp: delivery_step_def forget_Inr intro: inv_createRun [OF inv c] inv_delivery_transition [OF inv] inv_acquire [OF inv]
    inv_renew [OF inv] inv_release [OF inv] inv_delivery_reserveIntent [OF inv] inv_delivery_completeIntent [OF inv] inv_other_tables [OF inv]\<close>)

lemma delivery_inv_empty: "delivery_inv env empty_delivery_db"
  by (simp add: delivery_inv_def empty_delivery_db_def ledger_inv_empty active_ids_def)

subsection \<open>The database only grows\<close>

text \<open>What an update may do to a row: the identity columns never change, a terminal run keeps its
  state, a bound deployment stays bound, a terminal child job and a closed lease are frozen.\<close>

definition run_le :: "run_row \<Rightarrow> run_row \<Rightarrow> bool" where
  "run_le r r' \<longleftrightarrow> rn_deliveryId r' = rn_deliveryId r \<and> rn_planDigest r' = rn_planDigest r \<and> rn_generation r' = rn_generation r \<and>
     rn_createdAt r' = rn_createdAt r \<and> rn_expiresAt r' = rn_expiresAt r \<and> rn_stateSequence r \<le> rn_stateSequence r' \<and>
     (\<forall>d. rn_deploymentId r = Some d \<longrightarrow> rn_deploymentId r' = Some d) \<and>
     (rn_terminal r \<longrightarrow> rn_terminal r' \<and> rn_state r' = rn_state r \<and> rn_stateSequence r' = rn_stateSequence r \<and>
        rn_deploymentId r' = rn_deploymentId r \<and> rn_deploymentState r' = rn_deploymentState r)"

definition child_job_le :: "child_job_row \<Rightarrow> child_job_row \<Rightarrow> bool" where
  "child_job_le c c' \<longleftrightarrow> cr_deliveryId c' = cr_deliveryId c \<and> cr_generation c' = cr_generation c \<and>
     cj_phase (cr_reference c') = cj_phase (cr_reference c) \<and> cj_jobId (cr_reference c') = cj_jobId (cr_reference c) \<and>
     cj_stdoutOffset (cr_reference c) \<le> cj_stdoutOffset (cr_reference c') \<and> cj_stderrOffset (cr_reference c) \<le> cj_stderrOffset (cr_reference c') \<and>
     (\<forall>d. cj_resultDigest (cr_reference c) = Some d \<longrightarrow> cj_resultDigest (cr_reference c') = Some d) \<and>
     (\<forall>d. cj_receiptId (cr_reference c) = Some d \<longrightarrow> cj_receiptId (cr_reference c') = Some d) \<and>
     (cj_terminal (cr_reference c) \<longrightarrow> c' = c)"

definition lease_le :: "controller_lease \<Rightarrow> controller_lease \<Rightarrow> bool" where
  "lease_le l l' \<longleftrightarrow> cl_deliveryId l' = cl_deliveryId l \<and> cl_leaseId l' = cl_leaseId l \<and> cl_generation l' = cl_generation l \<and>
     cl_holder l' = cl_holder l \<and> cl_acquiredAt l' = cl_acquiredAt l \<and> (cl_status l \<noteq> LeaseActive \<longrightarrow> l' = l) \<and>
     (cl_status l' = LeaseActive \<longrightarrow> time_of (cl_expiresAt l) \<le> time_of (cl_expiresAt l'))"

definition delivery_grows :: "delivery_db \<Rightarrow> delivery_db \<Rightarrow> bool" where
  "delivery_grows db db' \<longleftrightarrow>
     ledger_grows (dd_ledger db) (dd_ledger db') \<and>
     grown (=) (dd_plans db) (dd_plans db') \<and>
     grown run_le (dd_runs db) (dd_runs db') \<and>
     grown child_job_le (dd_childJobs db) (dd_childJobs db') \<and>
     grown (=) (dd_artifacts db) (dd_artifacts db') \<and>
     grown (=) (dd_events db) (dd_events db') \<and>
     grown (=) (dd_evidence db) (dd_evidence db') \<and>
     grown lease_le (dd_leases db) (dd_leases db') \<and>
     grown (=) (dd_intentDelivery db) (dd_intentDelivery db')"

definition child_keys :: "delivery_db \<Rightarrow> (string \<times> string) list" where
  "child_keys db = map (\<lambda>c. (cr_deliveryId c, cj_jobId (cr_reference c))) (dd_childJobs db)"

definition database_inv :: "ledger_env \<Rightarrow> delivery_db \<Rightarrow> bool" where
  "database_inv env db \<longleftrightarrow> collation env \<and> delivery_inv env db \<and> distinct (child_keys db)"

lemma row_le_refl [simp]: "run_le r r" "child_job_le c c" "lease_le l l"
  by (auto simp: run_le_def child_job_le_def lease_le_def)

lemma run_le_trans: "run_le a b \<Longrightarrow> run_le b c \<Longrightarrow> run_le a c"
  by (auto simp: run_le_def)

lemma child_job_le_trans: "child_job_le a b \<Longrightarrow> child_job_le b c \<Longrightarrow> child_job_le a c"
  by (auto simp: child_job_le_def)

lemma lease_le_trans: "lease_le a b \<Longrightarrow> lease_le b c \<Longrightarrow> lease_le a c"
  by (auto simp: lease_le_def)

lemma delivery_grown_refls [simp]:
  "grown run_le rs rs" "grown run_le rs (rs @ rs')" "grown child_job_le cs cs" "grown child_job_le cs (cs @ cs')"
  "grown lease_le ls ls" "grown lease_le ls (ls @ ls')"
  by (auto intro: grown_refl grown_append)

lemma delivery_grows_refl: "delivery_grows db db"
  by (simp add: delivery_grows_def)

lemma delivery_grows_trans: "delivery_grows a b \<Longrightarrow> delivery_grows b c \<Longrightarrow> delivery_grows a c"
  by (auto simp: delivery_grows_def intro: ledger_grows_trans grown_trans run_le_trans child_job_le_trans lease_le_trans)

lemma grown_map_append: "(\<And>x. x \<in> set xs \<Longrightarrow> R x (f x)) \<Longrightarrow> grown R xs (map f xs @ ys)"
  by (simp add: grown_def list_all2_map2 list.rel_refl_strong)

lemma transition_delivery_grows:
  assumes inv: "delivery_inv env db" and op: "delivery_transition env i db = Inr (db', res)"
  shows "delivery_grows db db'"
  using op
proof (cases rule: delivery_transition_cases)
  case (new c)
  obtain row plan where row: "c = run_view plan row db" "transition_hit i row"
    and hit: "\<forall>r\<in>set (dd_runs db). transition_hit i r \<longleftrightarrow> rn_deliveryId r = dt_deliveryId i"
    and only: "\<forall>r\<in>set (dd_runs db). rn_deliveryId r = dt_deliveryId i \<longrightarrow> r = row"
    using transition_row [OF inv new(3,4)] by metis
  have "run_le r (if transition_hit i r then moved_run env i c db r else r)" if "r \<in> set (dd_runs db)" for r
    using that hit only row new(4)
    by (auto simp: run_le_def transition_hit_def check_transition_fence_Inr opt_or_def split: option.splits)
  then show ?thesis by (simp add: delivery_grows_def new(8) grown_map)
qed (simp add: delivery_grows_refl)

lemma point_run_le [simp]: "run_le r (point_run did p digest at r)"
  by (simp add: run_le_def point_run_def)

lemma close_lease_le: "cl_status l = LeaseActive \<Longrightarrow> s \<noteq> LeaseActive \<Longrightarrow> lease_le l (close_lease env s d at l)"
  by (simp add: lease_le_def)

lemma expire_rows_le [simp]: "lease_le l (expire_rows env did at db l)"
  by (auto simp: expire_rows_def change_lease_def close_lease_le split: option.split)

lemma lease_delivery_grows:
  assumes inv: "delivery_inv env db"
  shows "acquireControllerLease env q a x db = Inr (db', l) \<Longrightarrow> delivery_grows db db'"
    "renewControllerLease env q a x db = Inr (db', l) \<Longrightarrow> delivery_grows db db'"
    "releaseControllerLease env q a db = Inr (db', l) \<Longrightarrow> delivery_grows db db'"
  subgoal using inv
    by (cases rule: acquire_cases) (auto simp: delivery_grows_def intro!: grown_map grown_map_append)
  subgoal premises op using inv op
  proof (cases rule: renew_cases)
    case (new run lease lease_digest digest)
    have lease: "lease \<in> set (dd_leases db)" "cl_deliveryId lease = lq_deliveryId q" "cl_leaseId lease = lq_leaseId q"
      using new(2) by (auto simp: find_lease_def dest: find_SomeD)
    from active_lease_unique [OF inv _ _ refl] active_lease_unique [OF inv lease(1) new(3) lease(2)]
    have "y = lease" if "y \<in> set (dd_leases db)" "hits_lease (lq_deliveryId q) (lq_leaseId q) y" for y
      using that by (metis option.inject)
    with new(5) have "lease_le y (change_lease (lq_deliveryId q) (lq_leaseId q)
        (\<lambda>l. l\<lparr>cl_heartbeatAt := a, cl_expiresAt := x, cl_recordDigest := lease_digest\<rparr>) y)" if "y \<in> set (dd_leases db)" for y
      using that by (auto simp: change_lease_def lease_le_def)
    then show ?thesis by (auto simp: delivery_grows_def new(7) intro!: grown_map)
  qed (simp add: delivery_grows_refl)
  subgoal using inv
    by (cases rule: release_cases) (auto simp: delivery_grows_def change_lease_def close_lease_le intro!: grown_map)
  done

lemma check_child_job_update_Inr:
  "check_child_job_update e c = Inr u \<longleftrightarrow> cj_stdoutOffset e \<le> cj_stdoutOffset c \<and> cj_stderrOffset e \<le> cj_stderrOffset c \<and>
     (\<forall>d. cj_resultDigest e = Some d \<longrightarrow> cj_resultDigest c = Some d) \<and> (\<forall>d. cj_receiptId e = Some d \<longrightarrow> cj_receiptId c = Some d)"
  by (cases "cj_resultDigest e"; cases "cj_receiptId e") (auto simp: check_child_job_update_def res_simps)

lemma child_job_step:
  assumes keys: "distinct (child_keys db)" and op: "recordChildJob env did planDigest generation c db = Inr (db', x)"
  shows "delivery_grows db db' \<and> distinct (child_keys db')"
  using op
proof (cases rule: recordChildJob_cases)
  case new
  with keys show ?thesis by (auto simp: delivery_grows_def child_keys_def new_child_job_row_def find_None_iff)
next
  case (update row g)
  let ?hit = "\<lambda>r. cr_deliveryId r = did \<and> cj_jobId (cr_reference r) = cj_jobId c \<and> \<not> cj_terminal (cr_reference r)"
  let ?f = "\<lambda>r. if ?hit r then updated_child_job_row env g (cr_recordDigest row) c r else r"
  have row: "row \<in> set (dd_childJobs db)" "cr_deliveryId row = did" "cj_jobId (cr_reference row) = cj_jobId c"
    using update(1) by (auto dest: find_SomeD)
  have "r = row" if "r \<in> set (dd_childJobs db)" "?hit r" for r
    using that row distinct_map_eq [OF keys [unfolded child_keys_def], of r row] by simp
  with update(2,3) have "child_job_le r (?f r)" if "r \<in> set (dd_childJobs db)" for r
    using that by (auto simp: child_job_le_def updated_child_job_row_def check_child_job_update_Inr)
  moreover have "child_keys db' = child_keys db" by (simp add: child_keys_def update(4) updated_child_job_row_def)
  ultimately show ?thesis using keys by (auto simp: delivery_grows_def update(4) intro!: grown_map)
qed (use keys in \<open>simp add: delivery_grows_refl\<close>)

lemma insert_delivery_grows:
  "createRun env p g at db = Inr (db', r) \<Longrightarrow> delivery_grows db db'"
  "recordArtifact env did pd g y db = Inr (db', a) \<Longrightarrow> delivery_grows db db'"
  "delivery_appendEvidence env e db = Inr (db', f) \<Longrightarrow> delivery_grows db db'"
  "delivery_reserveIntent env key sd oper did at db = Inr (db', v) \<Longrightarrow> delivery_grows db db'"
  "delivery_completeIntent env key sd did result at db = Inr (db', w) \<Longrightarrow> delivery_grows db db'"
  subgoal by (cases rule: createRun_cases) (auto simp: delivery_grows_def)
  subgoal by (auto simp: delivery_grows_def dest!: recordArtifact_db)
  subgoal by (auto simp: delivery_grows_def dest!: delivery_appendEvidence_db)
  subgoal by (auto simp: delivery_grows_def ledger_grows_def dest!: delivery_reserveIntent_db)
  subgoal by (auto simp: delivery_grows_def ledger_grows_def intent_le_def completed_row_def dest!: delivery_completeIntent_db intro!: grown_map)
  done

text \<open>Only \<open>recordChildJob\<close> writes the table of child jobs.\<close>

lemma same_child_jobs:
  assumes inv: "delivery_inv env db"
  shows "createRun env p g at db = Inr (db', r) \<Longrightarrow> dd_childJobs db' = dd_childJobs db"
    "delivery_transition env i db = Inr (db', t) \<Longrightarrow> dd_childJobs db' = dd_childJobs db"
    "recordArtifact env did pd g y db = Inr (db', a) \<Longrightarrow> dd_childJobs db' = dd_childJobs db"
    "delivery_appendEvidence env e db = Inr (db', f) \<Longrightarrow> dd_childJobs db' = dd_childJobs db"
    "delivery_reserveIntent env key sd oper did at db = Inr (db', v) \<Longrightarrow> dd_childJobs db' = dd_childJobs db"
    "delivery_completeIntent env key sd did result at db = Inr (db', w) \<Longrightarrow> dd_childJobs db' = dd_childJobs db"
    "acquireControllerLease env q at x db = Inr (db', l) \<Longrightarrow> dd_childJobs db' = dd_childJobs db"
    "renewControllerLease env q at x db = Inr (db', l) \<Longrightarrow> dd_childJobs db' = dd_childJobs db"
    "releaseControllerLease env q at db = Inr (db', l) \<Longrightarrow> dd_childJobs db' = dd_childJobs db"
  subgoal by (cases rule: createRun_cases) auto
  subgoal by (cases rule: delivery_transition_cases) auto
  subgoal by (auto dest: recordArtifact_db)
  subgoal by (auto dest: delivery_appendEvidence_db)
  subgoal by (auto dest: delivery_reserveIntent_db)
  subgoal by (auto dest: delivery_completeIntent_db)
  subgoal using inv by (cases rule: acquire_cases) auto
  subgoal using inv by (cases rule: renew_cases) auto
  subgoal using inv by (cases rule: release_cases) auto
  done

lemma database_step:
  assumes inv: "database_inv env db" and op: "delivery_step env op db = Inr (db', u)"
  shows "database_inv env db' \<and> delivery_grows db db'"
proof -
  have d: "collation env" "delivery_inv env db" "distinct (child_keys db)" using inv by (auto simp: database_inv_def)
  have "delivery_inv env db'" by (rule delivery_step_inv [OF d(1,2) op])
  moreover have "delivery_grows db db' \<and> distinct (child_keys db')"
  proof (cases op)
    case (DeploymentOp l)
    with op obtain l' where l': "ledger_step env l (dd_ledger db) = Inr (l', ())" "db' = db\<lparr>dd_ledger := l'\<rparr>"
      by (auto simp: delivery_step_def split: sum.splits)
    have "ledger_inv env (dd_ledger db)" using d(2) by (simp add: delivery_inv_def)
    with l' have "ledger_grows (dd_ledger db) l'" by (auto intro: ledger_step_grows)
    with l' d(3) show ?thesis by (simp add: delivery_grows_def child_keys_def)
  qed (use op d(3) in \<open>auto simp: delivery_step_def forget_Inr child_keys_def dest: same_child_jobs [OF d(2)] child_job_step [OF d(3)]
      intro: insert_delivery_grows transition_delivery_grows [OF d(2)] lease_delivery_grows [OF d(2)]\<close>)
  ultimately show ?thesis using d(1) by (simp add: database_inv_def)
qed

interpretation delivery: growing_system "delivery_step env" "database_inv env" delivery_grows for env
  by unfold_locales (auto dest: database_step intro: delivery_grows_refl delivery_grows_trans)

lemma database_inv_empty: "collation env \<Longrightarrow> database_inv env empty_delivery_db"
  unfolding database_inv_def by (simp add: delivery_inv_empty) (simp add: child_keys_def empty_delivery_db_def)

lemma run_delivery_inv: "collation env \<Longrightarrow> database_inv env (run_delivery env ops empty_delivery_db)"
  by (rule delivery.run_inv) (rule database_inv_empty)

subsection \<open>Properties\<close>

lemma reachable_inv: "collation env \<Longrightarrow> delivery_inv env (run_delivery env ops empty_delivery_db)"
  using run_delivery_inv by (auto simp: database_inv_def)

lemma same_key_singleton:
  assumes "distinct (map f ys)" "\<And>y. y \<in> set ys \<Longrightarrow> f y = c" "x \<in> set ys"
  shows "ys = [x]"
proof (cases ys)
  case (Cons y zs)
  with assms have "zs = []" by (cases zs) auto
  with Cons assms(3) show ?thesis by simp
qed (use assms(3) in simp)

text \<open>
  C16. Whatever operations of both ledgers have run, every delivery run is explained by its events:
  their offsets count up from zero without gaps, the run's sequence is their number and its state
  the state of the last one, the run is terminal exactly when that state is, no event follows a
  terminal one, every event digest covers the digest before it and the stored result has its
  recorded digest, and a bound deployment exists in the deployment ledger.\<close>

theorem delivery_audit:
  assumes "collation env" "db = run_delivery env ops empty_delivery_db" "r \<in> set (dd_runs db)"
    "es = delivery_events_of (rn_deliveryId r) db"
  shows "map (dv_offset \<circ> er_event) es = map int [0..<length es] \<and> rn_stateSequence r = int (length es) \<and>
    rn_state r = state_after es \<and> rn_terminal r = is_terminal_delivery (rn_state r) \<and>
    list_all (\<lambda>e. \<not> is_terminal_delivery (dv_state (er_event e))) (butlast es) \<and> events_ok env r 0 None es \<and> deployment_known db r"
proof -
  have "delivery_inv env db" unfolding assms(2) by (rule reachable_inv [OF assms(1)])
  then have "run_audited env es r" "deployment_known db r" using assms(3,4) by (auto simp: delivery_inv_def)
  then show ?thesis using events_ok_offsets [of env r 0 None es] by (auto simp: run_audited_def o_def)
qed

text \<open>
  C17. Controller leases exclude each other. When a lease is granted, it is the only active lease of its
  delivery, the run names it, and any other lease of the delivery that was active before had
  expired by the time of the grant.\<close>

theorem lease_exclusive:
  assumes "collation env" "db = run_delivery env ops empty_delivery_db" "acquireControllerLease env q acquiredAt expiresAt db = Inr (db', l)"
  shows "filter (\<lambda>m. cl_deliveryId m = lq_deliveryId q \<and> cl_status m = LeaseActive) (dd_leases db') = [l] \<and>
    cl_leaseId l = lq_leaseId q \<and> cl_holder l = lq_holder q \<and>
    (\<forall>r\<in>set (dd_runs db'). rn_deliveryId r = lq_deliveryId q \<longrightarrow> rn_activeControllerLease r = Some (lq_leaseId q)) \<and>
    (\<forall>m\<in>set (dd_leases db). cl_deliveryId m = lq_deliveryId q \<and> cl_status m = LeaseActive \<and> m \<noteq> l \<longrightarrow>
       time_of (cl_expiresAt m) \<le> time_of acquiredAt)"
proof -
  let ?P = "\<lambda>m. cl_deliveryId m = lq_deliveryId q \<and> cl_status m = LeaseActive"
  have inv: "delivery_inv env db" unfolding assms(2) by (rule reachable_inv [OF assms(1)])
  have inv': "delivery_inv env db'" by (rule inv_acquire [OF inv assms(3)])
  have l: "l \<in> set (dd_leases db')" "?P l" "cl_leaseId l = lq_leaseId q" "cl_holder l = lq_holder q"
    using inv assms(3) by (cases rule: acquire_cases; auto simp: find_lease_def dest: find_SomeD)+
  have active: "active_lease (lq_deliveryId q) db' = Some l" using active_lease_unique [OF inv'] l by blast
  have "distinct (map cl_deliveryId (filter (\<lambda>m. cl_status m = LeaseActive) (dd_leases db')))"
    using inv' by (simp add: delivery_inv_def active_ids_def)
  then have "distinct (map cl_deliveryId (filter ?P (dd_leases db')))" by (rule distinct_filter_subset) simp
  then have "filter ?P (dd_leases db') = [l]" using l(1,2) by (intro same_key_singleton [where f = cl_deliveryId and c = "lq_deliveryId q"]) auto
  moreover have "rn_activeControllerLease r = Some (lq_leaseId q)" if "r \<in> set (dd_runs db')" "rn_deliveryId r = lq_deliveryId q" for r
    using inv' that active l(3) by (auto simp: delivery_inv_def lease_ok_def)
  moreover have "time_of (cl_expiresAt m) \<le> time_of acquiredAt" if "m \<in> set (dd_leases db)" "?P m" "m \<noteq> l" for m
    using inv assms(3)
  proof (cases rule: acquire_cases)
    case same
    with l that inv have "m = l" using active_lease_unique [OF inv, of m "lq_deliveryId q"] active by auto
    with that show ?thesis by simp
  next
    case (new run digest)
    with that active_lease_unique [OF inv, of m "lq_deliveryId q"] show ?thesis by auto
  qed
  ultimately show ?thesis using l by blast
qed

text \<open>
  C18. The database is append-only for every interleaving of operations of both ledgers: plans, events,
  artifact references and evidence are never changed or removed, a run keeps its identity, its
  deployment binding and, once terminal, its state, terminal child jobs and closed leases are
  frozen, and the deployment ledger keeps its own guarantee.\<close>

theorem delivery_append_only:
  assumes "collation env"
  shows "delivery_grows (run_delivery env ops empty_delivery_db) (run_delivery env (ops @ later_ops) empty_delivery_db)"
  unfolding run_ops_append by (rule delivery.run_grows [OF run_delivery_inv [OF assms]])

lemma stored_plan_read:
  assumes inv: "delivery_inv env db" and row: "row \<in> set (dd_plans db)" and did: "IDENTIFIER_PATTERN (pw_deliveryId row)"
  shows "getPlan env (pw_deliveryId row) db = Inr (Some (pw_plan row))"
proof -
  have pairs: "list_all2 (plan_stored env) (dd_plans db) (dd_runs db)" "distinct (map rn_deliveryId (dd_runs db))"
    using inv by (auto simp: delivery_inv_def)
  have "map pw_deliveryId (dd_plans db) = map rn_deliveryId (dd_runs db)"
    using pairs(1) by (induction rule: list_all2_induct) (auto simp: plan_stored_def)
  with pairs(2) have d: "distinct (map pw_deliveryId (dd_plans db))" by simp
  obtain found where found: "find (\<lambda>p. pw_deliveryId p = pw_deliveryId row) (dd_plans db) = Some found"
    using row by (cases "find (\<lambda>p. pw_deliveryId p = pw_deliveryId row) (dd_plans db)") (auto simp: find_None_iff)
  with find_SomeD [OF found] distinct_map_eq [OF d _ row] have "found = row" by blast
  moreover obtain r where "plan_stored env row r" using pairs(1) row by (metis list_all2_conv_all_nth in_set_conv_nth)
  ultimately show ?thesis using found did by (simp add: getPlan_def delivery_assertIdentifier_def plan_stored_def)
qed


lemma recorded_event:
  assumes inv: "delivery_inv env db" and e: "e \<in> set (delivery_events_of did db)" and key: "er_idempotencyKey e = key"
  shows "find (\<lambda>e. er_idempotencyKey e = key) (delivery_events_of did db) = Some e" "er_resultDigest e = sha256_json env (outcome_json (er_result e))"
proof -
  from e have "e \<in> set (dd_events db)" "dv_deliveryId (er_event e) = did" by (auto simp: delivery_events_of_def)
  then obtain r where r: "r \<in> set (dd_runs db)" "rn_deliveryId r = did" using inv by (auto simp: delivery_inv_def)
  then have a: "run_audited env (delivery_events_of did db) r" using inv by (auto simp: delivery_inv_def)
  then have d: "distinct (map er_idempotencyKey (delivery_events_of did db))" by (simp add: run_audited_def)
  obtain f where f: "find (\<lambda>e. er_idempotencyKey e = key) (delivery_events_of did db) = Some f"
    using e key by (cases "find (\<lambda>e. er_idempotencyKey e = key) (delivery_events_of did db)") (auto simp: find_None_iff)
  with find_SomeD [OF f] distinct_map_eq [OF d _ e] key show "find (\<lambda>e. er_idempotencyKey e = key) (delivery_events_of did db) = Some e" by metis
  have "events_ok env r k prior es \<Longrightarrow> x \<in> set es \<Longrightarrow> er_resultDigest x = sha256_json env (outcome_json (er_result x))" for k prior es x
    by (induction es arbitrary: k prior) (auto simp: event_ok_def)
  with a e show "er_resultDigest e = sha256_json env (outcome_json (er_result e))" by (auto simp: run_audited_def)
qed

text \<open>
  A delivery transition is idempotent: repeating the request that succeeded, at any later time and
  whatever has happened since, changes nothing and returns the recorded run and event.\<close>

theorem delivery_transition_replay:
  assumes "collation env" "db = run_delivery env ops empty_delivery_db" "delivery_transition env i db = Inr (db', res)"
  shows "delivery_transition env i (run_delivery env later_ops db') = Inr (run_delivery env later_ops db', res\<lparr>to_replayed := True\<rparr>)"
proof -
  let ?later = "run_delivery env later_ops db'"
  have inv: "database_inv env db" unfolding assms(2) by (rule run_delivery_inv [OF assms(1)])
  have "delivery_step env (DeliveryTransition i) db = Inr (db', ())" by (simp add: delivery_step_def forget_def assms(3))
  then have inv': "database_inv env db'" using database_step [OF inv] by blast
  then have later: "delivery_inv env ?later" "delivery_grows db' ?later"
    using delivery.run_inv [OF inv'] delivery.run_grows [OF inv'] by (auto simp: database_inv_def)
  have valid: "validateTransition i = Inr ()" using assms(3) by (auto simp: delivery_transition_def res_simps)
  obtain e where e: "e \<in> set (delivery_events_of (dt_deliveryId i) db')" "er_idempotencyKey e = dt_idempotencyKey i"
    "er_semanticDigest e = delivery_semantic_digest env i" "res\<lparr>to_replayed := True\<rparr> = (er_result e)\<lparr>to_replayed := True\<rparr>"
    using assms(3)
  proof (cases rule: delivery_transition_cases)
    case (replay prior)
    then show ?thesis by (intro that [of prior]) auto
  next
    case (new c)
    then show ?thesis by (intro that [of "new_event_row env i c db"]) (auto simp: delivery_events_of_def new_event_row_def new_event_def Let_def)
  qed
  have "e \<in> set (delivery_events_of (dt_deliveryId i) ?later)"
    using e(1) later(2) by (auto simp: delivery_grows_def grown_eq_prefix delivery_events_of_def)
  from recorded_event [OF later(1) this e(2)] e(3,4) valid show ?thesis by (simp add: delivery_transition_def)
qed

end
