(* ===== verification/Delivery_Service.thy ===== *)
theory Delivery_Service
  imports Delivery_Audit Operations
begin

section \<open>The automated-delivery service\<close>

text \<open>
  Models \<^verbatim>\<open>src/src/delivery/service.ts\<close>: the ten operations of the delivery family over the ledger
  of \<open>Delivery_Ledger\<close>. The host name, the digest of the machine id, the clock, the fixture flag
  and the text of a database error are fields of \<open>service_env\<close>. An operation gives a result and
  the new database, or what it throws; a throwing operation leaves the database as it was,
  because its only write is one transaction.
\<close>

record service_env =
  sv_ledger :: ledger_env
  sv_hostname :: string
  sv_machineIdSha256 :: string
  sv_fixtureMode :: bool
  sv_now :: string
  sv_sqliteMessage :: string

subsection \<open>Errors and arguments\<close>

primrec delivery_code_name :: "delivery_error_code \<Rightarrow> string" where
  "delivery_code_name Delivery_invalid = ''delivery_invalid''"
| "delivery_code_name Delivery_not_found = ''delivery_not_found''"
| "delivery_code_name Delivery_conflict = ''delivery_conflict''"
| "delivery_code_name Delivery_plan_changed = ''delivery_plan_changed''"
| "delivery_code_name Delivery_authorization_invalid = ''delivery_authorization_invalid''"
| "delivery_code_name Delivery_expired = ''delivery_expired''"
| "delivery_code_name Delivery_wrong_host = ''delivery_wrong_host''"
| "delivery_code_name Delivery_wrong_machine = ''delivery_wrong_machine''"
| "delivery_code_name Delivery_source_mismatch = ''delivery_source_mismatch''"
| "delivery_code_name Delivery_tree_mismatch = ''delivery_tree_mismatch''"
| "delivery_code_name Delivery_source_digest_mismatch = ''delivery_source_digest_mismatch''"
| "delivery_code_name Delivery_credential_unavailable = ''delivery_credential_unavailable''"
| "delivery_code_name Delivery_controller_conflict = ''delivery_controller_conflict''"
| "delivery_code_name Delivery_generation_conflict = ''delivery_generation_conflict''"
| "delivery_code_name Delivery_state_conflict = ''delivery_state_conflict''"
| "delivery_code_name Delivery_receipt_invalid = ''delivery_receipt_invalid''"
| "delivery_code_name Delivery_evidence_insufficient = ''delivery_evidence_insufficient''"
| "delivery_code_name Delivery_rollback_failed = ''delivery_rollback_failed''"
| "delivery_code_name Delivery_manual_recovery_required = ''delivery_manual_recovery_required''"
| "delivery_code_name Delivery_unknown = ''delivery_unknown''"
| "delivery_code_name Delivery_idempotency_conflict = ''idempotency_conflict''"

text \<open>What the callbacks of the service throw, before \<open>mapped\<close>.\<close>

datatype service_error = Thrown thrown | OfLedger delivery_error

definition mapped :: "service_env \<Rightarrow> service_error \<Rightarrow> thrown" where
  "mapped env e = (case e of
       Thrown t \<Rightarrow> t
     | OfLedger (DeliveryError c message details) \<Rightarrow> op_error (delivery_code_name c) message (Some details)
     | OfLedger SqliteError \<Rightarrow> op_error ''operation_failed'' (sv_sqliteMessage env) None)"

primrec of_ledger :: "(delivery_error, 'a) result \<Rightarrow> (service_error, 'a) result" where
  "of_ledger (Inl e) = Inl (OfLedger e)"
| "of_ledger (Inr v) = Inr v"

definition service_object :: "json option \<Rightarrow> string \<Rightarrow> (service_error, json_object) result" where
  "service_object value label = (case value of Some (JObj kvs) \<Rightarrow> Inr kvs
     | _ \<Rightarrow> Inl (Thrown (op_error ''invalid_request'' (label @ '' must be an object'') None)))"

definition service_text :: "json option \<Rightarrow> string \<Rightarrow> (service_error, string) result" where
  "service_text value label =
     (let e = Inl (Thrown (op_error ''invalid_request'' (label @ '' is required'') None)) in
      case value of Some (JStr s) \<Rightarrow> if s = [] then e else Inr s | _ \<Rightarrow> e)"

definition service_integer :: "json option \<Rightarrow> string \<Rightarrow> int \<Rightarrow> (service_error, int) result" where
  "service_integer value label fallback =
     (let e = Inl (Thrown (op_error ''invalid_request'' (label @ '' must be a nonnegative integer'') None)) in
      case value of None \<Rightarrow> Inr fallback | Some (JNum n) \<Rightarrow> if \<not> safe_integer n \<or> n < 0 then e else Inr n | _ \<Rightarrow> e)"

definition string_or_none :: "json option \<Rightarrow> string option" where
  "string_or_none value = (case value of Some (JStr s) \<Rightarrow> if s = [] then None else Some s | _ \<Rightarrow> None)"

definition page_limit :: "json_object \<Rightarrow> (service_error, int) result" where
  "page_limit body = res_bind (service_integer (json_prop ''limit'' body) ''limit'' 50) (\<lambda>n. Inr (min (max n 1) 200))"

definition service_required :: "service_env \<Rightarrow> string \<Rightarrow> delivery_db \<Rightarrow> (service_error, run_record) result" where
  "service_required env did db =
     res_bind (of_ledger (getRun (sv_ledger env) did db)) (\<lambda>r.
     case r of None \<Rightarrow> Inl (OfLedger (delivery_failure Delivery_not_found (''Delivery '' @ did @ '' not found'')))
     | Some run \<Rightarrow> Inr run)"

definition service_result :: "service_env \<Rightarrow> run_record \<Rightarrow> string option \<Rightarrow> json_object" where
  "service_result env run requestId =
     [(''run'', run_json run), (''resultDigest'', JStr (sha256_json (sv_ledger env) (run_json run))),
      (''receiptBinding'', JObj [(''receiptVersion'', JStr ''2.0.0''), (''required'', JBool True)])]
     @ (case requestId of None \<Rightarrow> [] | Some rid \<Rightarrow> if rid = [] then [] else [(''requestId'', JStr rid)])"

definition assertFixtureExecution :: "service_env \<Rightarrow> string \<Rightarrow> (service_error, unit) result" where
  "assertFixtureExecution env operation =
     check (sv_fixtureMode env) (Thrown (OperationError \<lparr>oe_code = ''resource_unavailable'',
       oe_message = operation @ '' requires the separately bootstrapped automated-delivery controller'', oe_retryable = True,
       oe_details = Some [(''supportState'', JStr ''unavailable''), (''productionMutation'', JBool False)], oe_partial = False\<rparr>))"

subsection \<open>Operations\<close>

definition service_plan :: "service_env \<Rightarrow> string \<Rightarrow> json_object \<Rightarrow> delivery_db \<Rightarrow> (service_error, delivery_db \<times> json_object) result" where
  "service_plan env requestId body db =
     res_bind (service_object (json_prop ''plan'' body) ''plan'') (\<lambda>item.
     res_bind (of_ledger (canonicalizeDeliveryPlan (sv_ledger env) (JObj item))) (\<lambda>plan.
     res_bind (service_text (json_prop ''authorizedPlanDigest'' body) ''authorizedPlanDigest'') (\<lambda>authorized.
     res_bind (of_ledger (assertAuthorizedPlan plan authorized)) (\<lambda>_.
     let hostname = sv_hostname env;
         machineId = (if sv_machineIdSha256 env = [] then ''unknown'' else sv_machineIdSha256 env) in
     res_bind (check (key_text ''targetHostname'' plan = hostname)
       (OfLedger (DeliveryError Delivery_wrong_host ''Delivery plan targets another hostname''
          [(''expected'', JStr hostname), (''actual'', JStr (key_text ''targetHostname'' plan))]))) (\<lambda>_.
     res_bind (check (key_text ''targetMachineIdentity'' plan = machineId)
       (OfLedger (DeliveryError Delivery_wrong_machine ''Delivery plan targets another machine identity''
          [(''expected'', JStr machineId), (''actual'', JStr (key_text ''targetMachineIdentity'' plan))]))) (\<lambda>_.
     res_bind (of_ledger (getRun (sv_ledger env) (key_text ''deliveryId'' plan) db)) (\<lambda>existing.
     res_bind (case existing of Some run \<Rightarrow> Inr (db, run)
       | None \<Rightarrow> of_ledger (createRun (sv_ledger env) plan 1 (sv_now env) db)) (\<lambda>(db', run).
     res_bind (check (\<not> (existing \<noteq> None \<and> rr_planDigest run \<noteq> key_text ''planDigest'' plan))
       (OfLedger (delivery_failure Delivery_plan_changed ''Delivery ID is already bound to another plan''))) (\<lambda>_.
     Inr (db', service_result env run (Some requestId)))))))))))"

definition advance_input :: "service_env \<Rightarrow> string \<Rightarrow> json_object \<Rightarrow> run_record \<Rightarrow> string \<Rightarrow> string \<Rightarrow> int \<Rightarrow> delivery_state \<Rightarrow> string \<Rightarrow> string \<Rightarrow> delivery_transition_input" where
  "advance_input env requestId body current did planDigest expectedSequence nextState phase kind =
     \<lparr>dt_deliveryId = did, dt_planDigest = planDigest, dt_generation = rr_generation current, dt_expectedState = rr_state current,
      dt_expectedSequence = expectedSequence, dt_nextState = nextState, dt_phase = phase, dt_kind = kind,
      dt_message = (case json_prop ''reason'' body of Some (JStr s) \<Rightarrow> s | _ \<Rightarrow> kind @ '' accepted''),
      dt_idempotencyKey = requestId, dt_occurredAt = sv_now env, dt_deploymentId = None, dt_deploymentState = None,
      dt_childJobId = None, dt_artifactReference = None, dt_receiptId = None\<rparr>"

definition service_advance ::
  "service_env \<Rightarrow> string \<Rightarrow> json_object \<Rightarrow> delivery_state \<Rightarrow> string \<Rightarrow> string \<Rightarrow> delivery_db \<Rightarrow> (service_error, delivery_db \<times> json_object) result" where
  "service_advance env requestId body nextState phase kind db =
     res_bind (assertFixtureExecution env (''baby.delivery.'' @ (if phase = ''source'' then ''execute'' else phase))) (\<lambda>_.
     res_bind (service_text (json_prop ''deliveryId'' body) ''deliveryId'') (\<lambda>did.
     res_bind (service_text (json_prop ''planDigest'' body) ''planDigest'') (\<lambda>planDigest.
     res_bind (service_integer (json_prop ''expectedSequence'' body) ''expectedSequence'' 0) (\<lambda>expectedSequence.
     res_bind (service_required env did db) (\<lambda>current.
     res_bind (of_ledger (delivery_transition (sv_ledger env)
       (advance_input env requestId body current did planDigest expectedSequence nextState phase kind) db)) (\<lambda>(db', result).
     Inr (db', service_result env (to_run result) (Some requestId))))))))"

definition service_list :: "service_env \<Rightarrow> json_object \<Rightarrow> delivery_db \<Rightarrow> (service_error, json_object) result" where
  "service_list env body db =
     res_bind (service_integer (json_prop ''offset'' body) ''offset'' 0) (\<lambda>offset.
     res_bind (page_limit body) (\<lambda>limit.
     res_bind (of_ledger (listRuns (sv_ledger env) (Some offset) (Some limit) (string_or_none (json_prop ''state'' body)) db)) (\<lambda>items.
     Inr [(''offset'', JNum offset), (''nextOffset'', JNum (offset + int (length items))), (''items'', JArr (map run_json items))])))"

definition page_entries :: "string \<Rightarrow> int \<Rightarrow> int \<Rightarrow> json list \<Rightarrow> json_object" where
  "page_entries did offset nextOffset items =
     [(''deliveryId'', JStr did), (''offset'', JNum offset), (''nextOffset'', JNum nextOffset), (''items'', JArr items)]"

definition service_events :: "service_env \<Rightarrow> json_object \<Rightarrow> delivery_db \<Rightarrow> (service_error, json_object) result" where
  "service_events env body db =
     res_bind (service_text (json_prop ''deliveryId'' body) ''deliveryId'') (\<lambda>did.
     res_bind (service_integer (json_prop ''offset'' body) ''offset'' 0) (\<lambda>offset.
     res_bind (page_limit body) (\<lambda>limit.
     res_bind (of_ledger (listEvents (sv_ledger env) did offset limit db)) (\<lambda>(offset, nextOffset, items).
     Inr (page_entries did offset nextOffset (map event_json items))))))"

definition service_evidence :: "service_env \<Rightarrow> json_object \<Rightarrow> delivery_db \<Rightarrow> (service_error, json_object) result" where
  "service_evidence env body db =
     res_bind (service_text (json_prop ''deliveryId'' body) ''deliveryId'') (\<lambda>did.
     res_bind (service_integer (json_prop ''offset'' body) ''offset'' 0) (\<lambda>offset.
     res_bind (page_limit body) (\<lambda>limit.
     res_bind (of_ledger (delivery_listEvidence (sv_ledger env) did (string_or_none (json_prop ''kind'' body)) (Some offset) (Some limit) db))
       (\<lambda>(offset, nextOffset, items).
     Inr (page_entries did offset nextOffset (map delivery_evidence_json items))))))"

definition service_verify :: "service_env \<Rightarrow> json_object \<Rightarrow> delivery_db \<Rightarrow> (service_error, json_object) result" where
  "service_verify env body db =
     res_bind (service_text (json_prop ''deliveryId'' body) ''deliveryId'') (\<lambda>did.
     res_bind (service_required env did db) (\<lambda>run.
     res_bind (of_ledger (getPlan (sv_ledger env) (rr_deliveryId run) db)) (\<lambda>p.
     res_bind (case p of Some plan \<Rightarrow> if key_text ''planDigest'' plan = rr_planDigest run then Inr plan
          else Inl (OfLedger (delivery_failure Delivery_plan_changed ''Stored delivery plan does not match run identity''))
       | None \<Rightarrow> Inl (OfLedger (delivery_failure Delivery_plan_changed ''Stored delivery plan does not match run identity''))) (\<lambda>plan.
     res_bind (of_ledger (listEvents (sv_ledger env) (rr_deliveryId run) 0 200 db)) (\<lambda>(_, _, events).
     res_bind (of_ledger (delivery_listEvidence (sv_ledger env) (rr_deliveryId run) None (Some 0) (Some 200) db)) (\<lambda>(_, _, evidence).
     let verificationDigest = sha256_json (sv_ledger env) (JObj [(''run'', run_json run), (''plan'', JObj plan),
           (''events'', JArr (map event_json events)), (''evidence'', JArr (map delivery_evidence_json evidence))])
     in Inr (service_result env run None @
       [(''verification'', JObj [(''status'', JStr ''verified''), (''verificationDigest'', JStr verificationDigest)])])))))))"

definition read_only :: "delivery_db \<Rightarrow> (service_error, json_object) result \<Rightarrow> (service_error, delivery_db \<times> json_object) result" where
  "read_only db m = res_bind m (\<lambda>body. Inr (db, body))"

definition service_dispatch ::
  "service_env \<Rightarrow> string \<Rightarrow> string \<Rightarrow> json_object \<Rightarrow> delivery_db \<Rightarrow> (service_error, delivery_db \<times> json_object) result" where
  "service_dispatch env operation requestId raw db =
     (if operation = ''baby.delivery.plan'' then service_plan env requestId raw db
      else if operation = ''baby.delivery.execute'' then service_advance env requestId raw SOURCE_VERIFIED ''source'' ''source_verified'' db
      else if operation = ''baby.delivery.get'' then
        read_only db (res_bind (service_text (json_prop ''deliveryId'' raw) ''deliveryId'') (\<lambda>did.
          res_bind (service_required env did db) (\<lambda>run. Inr (service_result env run None))))
      else if operation = ''baby.delivery.list'' then read_only db (service_list env raw db)
      else if operation = ''baby.delivery.events'' then read_only db (service_events env raw db)
      else if operation = ''baby.delivery.verify'' then read_only db (service_verify env raw db)
      else if operation = ''baby.delivery.cancel'' then service_advance env requestId raw CANCELLED_PRE_ARM ''cancel'' ''cancelled_pre_arm'' db
      else if operation = ''baby.delivery.rollback'' then service_advance env requestId raw ROLLBACK_REQUESTED ''rollback'' ''rollback_requested'' db
      else if operation = ''baby.delivery.repair'' then service_advance env requestId raw REPAIR_REQUIRED ''repair'' ''repair_required'' db
      else if operation = ''baby.delivery.evidence.get'' then read_only db (service_evidence env raw db)
      else Inl (Thrown (op_error ''unknown_operation'' (''Unknown delivery operation: '' @ operation) None)))"

definition service_execute ::
  "service_env \<Rightarrow> string \<Rightarrow> string \<Rightarrow> json_object \<Rightarrow> delivery_db \<Rightarrow> (thrown, delivery_db \<times> json_object) result" where
  "service_execute env operation requestId raw db =
     (case service_dispatch env operation requestId raw db of Inl e \<Rightarrow> Inl (mapped env e) | Inr v \<Rightarrow> Inr v)"

subsection \<open>Properties\<close>

lemma of_ledger_Inr [res_simps]: "of_ledger m = Inr v \<longleftrightarrow> m = Inr v"
  by (cases m) auto

lemma service_execute_Inr: "service_execute env operation rid raw db = Inr v \<longleftrightarrow> service_dispatch env operation rid raw db = Inr v"
  by (auto simp: service_execute_def split: sum.splits)

lemma read_only_Inr: "read_only db m = Inr (db', res) \<longleftrightarrow> db' = db \<and> m = Inr res"
  by (auto simp: read_only_def res_simps)

lemma service_plan_db:
  assumes "service_plan env rid raw db = Inr (db', res)"
  shows "db' = db \<or> (\<exists>plan. db' = db\<lparr>dd_plans := dd_plans db @ [new_plan_row plan (sv_now env)],
    dd_runs := dd_runs db @ [new_run_row (sv_ledger env) plan 1 (sv_now env)]\<rparr>)"
proof -
  have "(\<exists>run. createRun (sv_ledger env) plan 1 (sv_now env) db = Inr (db', run)) \<Longrightarrow> db' = db \<or> (\<exists>plan.
    db' = db\<lparr>dd_plans := dd_plans db @ [new_plan_row plan (sv_now env)], dd_runs := dd_runs db @ [new_run_row (sv_ledger env) plan 1 (sv_now env)]\<rparr>)" for plan
    by (elim exE, erule createRun_cases) blast+
  with assms show ?thesis by (auto simp: service_plan_def res_simps Let_def split: option.splits)
qed

text \<open>One request to the service, at the time of its clock.\<close>

record service_call =
  sc_now :: string
  sc_operation :: string
  sc_requestId :: string
  sc_body :: json_object

definition service_step :: "service_env \<Rightarrow> service_call \<Rightarrow> delivery_db \<Rightarrow> (thrown, delivery_db \<times> json_object) result" where
  "service_step env c db = service_execute (env\<lparr>sv_now := sc_now c\<rparr>) (sc_operation c) (sc_requestId c) (sc_body c) db"

definition only_planned :: "delivery_db \<Rightarrow> bool" where
  "only_planned db \<longleftrightarrow> dd_ledger db = empty_ledger \<and> dd_childJobs db = [] \<and> dd_artifacts db = [] \<and> dd_events db = [] \<and> dd_evidence db = [] \<and>
     dd_leases db = [] \<and> dd_intentDelivery db = [] \<and>
     list_all (\<lambda>r. rn_state r = PLANNED \<and> rn_stateSequence r = 0 \<and> rn_deploymentId r = None \<and> rn_activeControllerLease r = None) (dd_runs db)"

lemma production_dispatch:
  assumes "\<not> sv_fixtureMode env" "service_dispatch env operation rid raw db = Inr (db', res)"
  shows "db' = db \<or> (\<exists>plan. db' = db\<lparr>dd_plans := dd_plans db @ [new_plan_row plan (sv_now env)],
    dd_runs := dd_runs db @ [new_run_row (sv_ledger env) plan 1 (sv_now env)]\<rparr>)"
  using assms(2)
  by (auto simp: service_dispatch_def service_advance_def assertFixtureExecution_def assms(1) read_only_Inr dest: service_plan_db split: if_splits)

interpretation production: inv_system "service_step env" "\<lambda>db. sv_fixtureMode env \<or> only_planned db" for env
  by unfold_locales
    (auto simp: service_step_def service_execute_Inr only_planned_def new_run_row_def dest!: production_dispatch [rotated])

text \<open>
  C26. Outside fixture mode the delivery operations cannot move a delivery: after any sequence of requests the
  database holds only plans and runs in state PLANNED, without events, leases, child jobs, artifacts or
  evidence, and the deployment tables are untouched.\<close>

theorem production_deliveries_stay_planned:
  assumes "\<not> sv_fixtureMode env"
  shows "only_planned (run_ops (service_step env) calls empty_delivery_db)"
  using production.run_inv [of env empty_delivery_db calls] assms by (simp add: only_planned_def empty_delivery_db_def)

lemma service_required_Inr: "service_required env did db = Inr run \<longleftrightarrow> getRun (sv_ledger env) did db = Inr (Some run)"
  by (auto simp: service_required_def res_simps split: option.splits)


end
