(* ===== verification/Json_Parser.thy ===== *)
theory Json_Parser
  imports Json
begin

section \<open>Reading and measuring canonical documents\<close>

text \<open>
  \<open>JSON.parse\<close> is a parameter of the components that read stored documents back. This theory gives a
  concrete function for it, an executable parser of the texts that \<open>stringify\<close> writes (no white space but
  behind the document, integer numbers). Printing and parsing is the identity, and a text that breaks off is refused.
  The last part bounds the length of a canonical text.
\<close>

subsection \<open>Parser\<close>

definition hex_value :: "char \<Rightarrow> nat" where
  "hex_value c = (if is_digit c then code c - 48 else code c - 87)"

text \<open>One character of a string, escaped or not; the closing quote is no character.\<close>

definition unescape :: "char \<Rightarrow> char option" where
  "unescape c = map_of [(CHR 0x22, CHR 0x22), (CHR 0x5C, CHR 0x5C), (CHR ''b'', CHR 0x08), (CHR ''t'', CHR 0x09), (CHR ''n'', CHR 0x0A),
     (CHR ''f'', CHR 0x0C), (CHR ''r'', CHR 0x0D)] c"

fun parse_chars :: "string \<Rightarrow> (string \<times> string) option" where
  "parse_chars [] = None"
| "parse_chars (c # t) =
     (if c = CHR 0x22 then Some ([], t)
      else if c = CHR 0x5C then
        (case t of
           [] \<Rightarrow> None
         | e # t' \<Rightarrow>
             if e = CHR ''u'' then
               (case t' of
                  _ # _ # h # l # t'' \<Rightarrow>
                    (case parse_chars t'' of None \<Rightarrow> None | Some (s, r) \<Rightarrow> Some (char_of (16 * hex_value h + hex_value l) # s, r))
                | _ \<Rightarrow> None)
             else
               (case unescape e of
                  None \<Rightarrow> None
                | Some d \<Rightarrow> (case parse_chars t' of None \<Rightarrow> None | Some (s, r) \<Rightarrow> Some (d # s, r))))
      else (case parse_chars t of None \<Rightarrow> None | Some (s, r) \<Rightarrow> Some (c # s, r)))"

definition parse_word :: "string \<Rightarrow> json \<Rightarrow> string \<Rightarrow> (json \<times> string) option" where
  "parse_word w v t = (if take (length w) t = w then Some (v, drop (length w) t) else None)"

definition parse_number :: "string \<Rightarrow> (int \<times> string) option" where
  "parse_number t = (let ds = takeWhile is_digit t in if ds = [] then None else Some (int (digits_val ds), dropWhile is_digit t))"

text \<open>The first argument bounds the number of values; the length of the text is always enough.\<close>

fun parse_value :: "nat \<Rightarrow> string \<Rightarrow> (json \<times> string) option"
  and parse_elements :: "nat \<Rightarrow> string \<Rightarrow> (json list \<times> string) option"
  and parse_members :: "nat \<Rightarrow> string \<Rightarrow> ((string \<times> json) list \<times> string) option"
where
  "parse_value 0 t = None"
| "parse_value (Suc n) t =
     (case t of
        [] \<Rightarrow> None
      | c # t' \<Rightarrow>
          if c = CHR ''n'' then parse_word ''null'' JNull t
          else if c = CHR ''t'' then parse_word ''true'' (JBool True) t
          else if c = CHR ''f'' then parse_word ''false'' (JBool False) t
          else if c = CHR 0x22 then (case parse_chars t' of None \<Rightarrow> None | Some (s, r) \<Rightarrow> Some (JStr s, r))
          else if c = CHR ''['' then
            (if t' \<noteq> [] \<and> hd t' = CHR '']'' then Some (JArr [], tl t')
             else case parse_elements n t' of None \<Rightarrow> None | Some (vs, r) \<Rightarrow> Some (JArr vs, r))
          else if c = CHR ''{'' then
            (if t' \<noteq> [] \<and> hd t' = CHR ''}'' then Some (JObj [], tl t')
             else case parse_members n t' of None \<Rightarrow> None | Some (kvs, r) \<Rightarrow> Some (JObj kvs, r))
          else if c = CHR ''-'' then (case parse_number t' of None \<Rightarrow> None | Some (i, r) \<Rightarrow> Some (JNum (- i), r))
          else (case parse_number t of None \<Rightarrow> None | Some (i, r) \<Rightarrow> Some (JNum i, r)))"
| "parse_elements 0 t = None"
| "parse_elements (Suc n) t =
     (case parse_value n t of
        Some (v, c # r) \<Rightarrow>
          if c = CHR '']'' then Some ([v], r)
          else if c = CHR '','' then (case parse_elements n r of None \<Rightarrow> None | Some (vs, r') \<Rightarrow> Some (v # vs, r'))
          else None
      | _ \<Rightarrow> None)"
| "parse_members 0 t = None"
| "parse_members (Suc n) t =
     (case t of
        [] \<Rightarrow> None
      | q # t' \<Rightarrow>
          if q \<noteq> CHR 0x22 then None
          else (case parse_chars t' of
              Some (k, s # t'') \<Rightarrow>
                if s \<noteq> CHR '':'' then None
                else (case parse_value n t'' of
                    Some (v, c # r) \<Rightarrow>
                      if c = CHR ''}'' then Some ([(k, v)], r)
                      else if c = CHR '','' then (case parse_members n r of None \<Rightarrow> None | Some (kvs, r') \<Rightarrow> Some ((k, v) # kvs, r'))
                      else None
                  | _ \<Rightarrow> None)
            | _ \<Rightarrow> None))"

definition json_parse :: "string \<Rightarrow> json option" where
  "json_parse t =
     (case parse_value (Suc (length t)) t of
        Some (v, r) \<Rightarrow> if list_all (\<lambda>c. c \<in> {CHR '' '', CHR 0x09, CHR 0x0A, CHR 0x0D}) r then Some v else None
      | None \<Rightarrow> None)"

subsection \<open>Printing and parsing\<close>

primrec parse_steps :: "json \<Rightarrow> nat" where
  "parse_steps JNull = 1"
| "parse_steps (JBool b) = 1"
| "parse_steps (JNum i) = 1"
| "parse_steps (JStr s) = 1"
| "parse_steps (JArr vs) = Suc (sum_list (map Suc (map parse_steps vs)))"
| "parse_steps (JObj kvs) = Suc (sum_list (map (\<lambda>e. Suc (snd e)) (map (map_prod id parse_steps) kvs)))"

lemma hex_value_hex_digit: "d < 16 \<Longrightarrow> hex_value (hex_digit d) = d"
  by (auto simp: hex_value_def hex_digit_def is_digit_def between_def code_def)

lemma parse_chars_esc: "parse_chars (esc_char c @ t) = (case parse_chars t of None \<Rightarrow> None | Some (s, r) \<Rightarrow> Some (c # s, r))"
proof -
  have "char_of (16 * (code c div 16) + code c mod 16) = c" by (simp add: code_def)
  moreover have "code c div 16 < 16" "code c mod 16 < 16" using nat_of_char_less_256 [of c] unfolding code_def by linarith+
  ultimately show ?thesis
    by (auto simp: esc_char_def unescape_def hex_value_hex_digit split: option.splits)
qed

lemma parse_chars_body: "parse_chars (concat (map esc_char s) @ CHR 0x22 # r) = Some (s, r)"
  by (induction s) (simp_all add: parse_chars_esc)

lemma parse_number_nat_str:
  assumes "r = [] \<or> \<not> is_digit (hd r)"
  shows "parse_number (nat_str n @ r) = Some (int n, r)"
proof -
  have "takeWhile is_digit r = []" "dropWhile is_digit r = r" using assms by (cases r; simp)+
  moreover have "\<And>x. x \<in> set (nat_str n) \<Longrightarrow> is_digit x" using nat_str_digits [of n] by (simp add: list_all_iff)
  ultimately show ?thesis by (simp add: parse_number_def Let_def)
qed

text \<open>What may follow a value: the end of the text or a character that continues no number.\<close>

abbreviation ends_number :: "string \<Rightarrow> bool" where
  "ends_number r \<equiv> r = [] \<or> \<not> is_digit (hd r)"

lemma not_digits: "\<not> is_digit (CHR '','')" "\<not> is_digit (CHR '']'')" "\<not> is_digit (CHR ''}'')" "\<not> is_digit (CHR 0x0A)"
  by (simp_all add: char_class_defs)

lemma parse_elements_stringify:
  assumes "\<And>v n r. v \<in> set vs \<Longrightarrow> parse_steps v \<le> n \<Longrightarrow> ends_number r \<Longrightarrow> parse_value n (stringify v @ r) = Some (v, r)"
    and "vs \<noteq> []" "sum_list (map (\<lambda>v. Suc (parse_steps v)) vs) \<le> n"
  shows "parse_elements n (join_comma (map stringify vs) @ CHR '']'' # r) = Some (vs, r)"
  using assms
proof (induction vs arbitrary: n)
  case (Cons v vs)
  obtain m where n: "n = Suc m" using Cons.prems(3) by (cases n) auto
  show ?case
  proof (cases vs)
    case Nil
    then show ?thesis using Cons.prems n by (simp add: not_digits)
  next
    case (Cons w ws)
    have "parse_value m (stringify v @ CHR '','' # (join_comma (map stringify vs) @ CHR '']'' # r)) = Some (v, CHR '','' # (join_comma (map stringify vs) @ CHR '']'' # r))"
      using Cons.prems(1) [of v m] Cons.prems(3) n by (simp add: not_digits)
    moreover have "parse_elements m (join_comma (map stringify vs) @ CHR '']'' # r) = Some (vs, r)"
      using Cons.prems n Cons by (intro Cons.IH) auto
    ultimately show ?thesis using n Cons by simp
  qed
qed simp

lemma parse_members_stringify:
  assumes "\<And>k v n r. (k, v) \<in> set kvs \<Longrightarrow> parse_steps v \<le> n \<Longrightarrow> ends_number r \<Longrightarrow> parse_value n (stringify v @ r) = Some (v, r)"
    and "kvs \<noteq> []" "sum_list (map (\<lambda>e. Suc (parse_steps (snd e))) kvs) \<le> n"
  shows "parse_members n (join_comma (map (\<lambda>(k, v). entry_str (k, stringify v)) kvs) @ CHR ''}'' # r) = Some (kvs, r)"
  using assms
proof (induction kvs arbitrary: n)
  case (Cons e kvs)
  obtain k v where e: "e = (k, v)" by (cases e)
  obtain m where n: "n = Suc m" using Cons.prems(3) e by (cases n) auto
  have key: "parse_chars (concat (map esc_char k) @ CHR 0x22 # x) = Some (k, x)" for x by (rule parse_chars_body)
  show ?case
  proof (cases kvs)
    case Nil
    have "parse_value m (stringify v @ CHR ''}'' # r) = Some (v, CHR ''}'' # r)"
      using Cons.prems(1) [of k v m] Cons.prems(3) e n by (simp add: not_digits)
    then show ?thesis using Nil e n by (simp add: entry_str_def quote_def key)
  next
    case (Cons f fs)
    let ?rest = "join_comma (map (\<lambda>(k, v). entry_str (k, stringify v)) kvs) @ CHR ''}'' # r"
    have "parse_value m (stringify v @ CHR '','' # ?rest) = Some (v, CHR '','' # ?rest)"
      using Cons.prems(1) [of k v m] Cons.prems(3) e n by (simp add: not_digits)
    moreover have "parse_members m ?rest = Some (kvs, r)"
      using Cons.prems e n Cons by (intro Cons.IH) auto
    ultimately show ?thesis using e n Cons by (simp add: entry_str_def quote_def key)
  qed
qed simp

lemma parse_word_append: "parse_word w v (w @ r) = Some (v, r)"
  by (simp add: parse_word_def)

lemma parse_value_stringify: "parse_steps v \<le> n \<Longrightarrow> ends_number r \<Longrightarrow> parse_value n (stringify v @ r) = Some (v, r)"
proof (induction v arbitrary: n r)
  case (JNum i)
  then obtain m where n: "n = Suc m" by (cases n) auto
  obtain c cs where c: "int_str i = c # cs" using int_str_hd by blast
  have no: "c \<notin> {CHR ''n'', CHR ''t'', CHR ''f'', CHR 0x22, CHR ''['', CHR ''{''}" using int_str_not [of i] c by simp
  show ?case
  proof (cases "i < 0")
    case True
    then show ?thesis using n parse_number_nat_str [OF JNum.prems(2), of "nat (- i)"] by (simp add: int_str_def)
  next
    case False
    then have str: "nat_str (nat i) = c # cs" using c by (simp add: int_str_def)
    then have "c \<noteq> CHR ''-''" using nat_str_hd [of "nat i"] not_digit_minus by auto
    moreover have "parse_number (c # cs @ r) = Some (i, r)"
      using False parse_number_nat_str [OF JNum.prems(2), of "nat i"] by (simp add: str)
    ultimately show ?thesis using n no by (simp add: c)
  qed
next
  case (JStr s)
  then obtain m where n: "n = Suc m" by (cases n) auto
  then show ?case by (simp add: quote_def parse_chars_body)
next
  case (JArr vs)
  obtain m where n: "n = Suc m" using JArr.prems(1) by (cases n) auto
  show ?case
  proof (cases vs)
    case Nil
    then show ?thesis using n by simp
  next
    case (Cons v ws)
    have "parse_elements m (join_comma (map stringify vs) @ CHR '']'' # r) = Some (vs, r)"
      using JArr Cons n by (intro parse_elements_stringify) (auto simp: comp_def)
    moreover have "join_comma (map stringify vs) \<noteq> []" "hd (join_comma (map stringify vs)) \<noteq> CHR '']''"
      using stringify_hd [of v] Cons by (cases ws; auto)+
    ultimately show ?thesis using n by simp
  qed
next
  case (JObj kvs)
  obtain m where n: "n = Suc m" using JObj.prems(1) by (cases n) auto
  have entries: "map entry_str (map (map_prod id stringify) kvs) = map (\<lambda>(k, v). entry_str (k, stringify v)) kvs" by auto
  show ?case
  proof (cases kvs)
    case Nil
    then show ?thesis using n by simp
  next
    case (Cons e es)
    have "parse_members m (join_comma (map (\<lambda>(k, v). entry_str (k, stringify v)) kvs) @ CHR ''}'' # r) = Some (kvs, r)"
    proof (rule parse_members_stringify)
      show "parse_value i (stringify v @ x) = Some (v, x)" if "(k, v) \<in> set kvs" "parse_steps v \<le> i" "ends_number x" for k v i x
        using that by (intro JObj.IH [of "(k, v)"]) auto
    qed (use JObj.prems(1) Cons n in \<open>simp_all add: comp_def\<close>)
    moreover have "join_comma (map (\<lambda>(k, v). entry_str (k, stringify v)) kvs) \<noteq> []" "hd (join_comma (map (\<lambda>(k, v). entry_str (k, stringify v)) kvs)) \<noteq> CHR ''}''"
      using Cons by (cases es; auto simp: entry_str_def quote_def split: prod.splits)+
    ultimately show ?thesis using n unfolding stringify.simps entries by simp
  qed
next
  case JNull
  then obtain m where n: "n = Suc m" by (cases n) auto
  then show ?case using parse_word_append [of "''null''"] by simp
next
  case (JBool b)
  then obtain m where n: "n = Suc m" by (cases n) auto
  then show ?case using parse_word_append [of "''true''"] parse_word_append [of "''false''"] by (cases b) simp_all
qed

subsection \<open>Texts that break off\<close>

lemma parse_chars_append: "parse_chars t = Some (s, r) \<Longrightarrow> parse_chars (t @ x) = Some (s, r @ x)"
proof (induction t arbitrary: s r rule: parse_chars.induct)
  case (2 c t)
  consider "c = CHR 0x22" | "c = CHR 0x5C" | "c \<noteq> CHR 0x22" "c \<noteq> CHR 0x5C" by blast
  then show ?case
  proof cases
    case 2
    with "2.prems" obtain e t' where t: "t = e # t'" by (cases t) auto
    show ?thesis
    proof (cases "e = CHR ''u''")
      case True
      with "2.prems" 2 t obtain a b h l t'' where t': "t' = a # b # h # l # t''" by (auto split: list.splits)
      obtain s' where "parse_chars t'' = Some (s', r)" "s = char_of (16 * hex_value h + hex_value l) # s'"
        using "2.prems" 2 t True t' by (auto split: option.splits)
      then show ?thesis using "2.IH"(1) [of e t' a _ b _ h _ l t'' s' r] 2 t True t' by simp
    next
      case False
      with "2.prems" 2 t obtain d s' where "unescape e = Some d" "parse_chars t' = Some (s', r)" "s = d # s'" by (auto split: option.splits)
      then show ?thesis using "2.IH"(2) [of e t' d s' r] 2 t False by simp
    qed
  next
    case 3
    with "2.prems" obtain s' where "parse_chars t = Some (s', r)" "s = c # s'" by (auto split: option.splits)
    then show ?thesis using "2.IH"(3) [of s' r] 3 by simp
  qed (use "2.prems" in simp)
qed simp

lemma parse_word_extend:
  assumes "parse_word w v t = Some (u, r)"
  shows "parse_word w v (t @ x) = Some (u, r @ x)"
proof -
  have "take (length w) t = w" using assms by (simp add: parse_word_def split: if_splits)
  then obtain y where "t = w @ y" by (metis append_take_drop_id)
  then show ?thesis using assms by (simp add: parse_word_def)
qed

lemma parse_number_extend:
  assumes "parse_number t = Some (i, r)" "r \<noteq> []"
  shows "parse_number (t @ x) = Some (i, r @ x)"
proof -
  have r: "r = dropWhile is_digit t" using assms(1) by (simp add: parse_number_def Let_def split: if_splits)
  then obtain c where c: "c \<in> set t" "\<not> is_digit c" using assms(2) dropWhile_eq_Nil_conv [of is_digit t] by auto
  have "takeWhile is_digit (t @ x) = takeWhile is_digit t" using c by (rule takeWhile_append1)
  moreover have "dropWhile is_digit (t @ x) = dropWhile is_digit t @ x" using c by (rule dropWhile_append1)
  ultimately show ?thesis using assms(1) by (simp add: parse_number_def Let_def split: if_splits)
qed

text \<open>A value that was read stays the value when more text follows, unless it is a number at the end of the text.\<close>

abbreviation closed :: "json \<Rightarrow> string \<Rightarrow> bool" where
  "closed v r \<equiv> r \<noteq> [] \<or> (\<nexists>i. v = JNum i)"

lemma parse_extend:
  "parse_value n t = Some (v, r) \<Longrightarrow> closed v r \<Longrightarrow> parse_value n (t @ x) = Some (v, r @ x)"
  "parse_elements n t = Some (vs, r) \<Longrightarrow> parse_elements n (t @ x) = Some (vs, r @ x)"
  "parse_members n t = Some (kvs, r) \<Longrightarrow> parse_members n (t @ x) = Some (kvs, r @ x)"
proof (induction n t and n t and n t arbitrary: v r and vs r and kvs r rule: parse_value_parse_elements_parse_members.induct)
  case (4 n t)
  from "4.prems" obtain v c r' where v: "parse_value n t = Some (v, c # r')" by (auto split: option.splits list.splits)
  then have "parse_value n (t @ x) = Some (v, c # r' @ x)" using "4.IH"(1) [of v "c # r'"] by simp
  with v "4.prems" "4.IH"(2) [OF v refl refl] show ?case by (auto split: option.splits if_splits)
next
  case (6 n t)
  then obtain t' where t: "t = CHR 0x22 # t'" by (cases t) (auto split: if_splits)
  with "6.prems" obtain k t'' where k: "parse_chars t' = Some (k, CHR '':'' # t'')" by (auto split: option.splits list.splits if_splits)
  with "6.prems" t obtain v c r' where v: "parse_value n t'' = Some (v, c # r')" by (auto split: option.splits list.splits)
  have v': "parse_value n (t'' @ x) = Some (v, c # r' @ x)" using "6.IH"(1) t k v by force
  have k': "parse_chars (t' @ x) = Some (k, CHR '':'' # t'' @ x)" using parse_chars_append [OF k, of x] by simp
  show ?case
  proof (cases "c = CHR ''}''")
    case True
    then show ?thesis using "6.prems" t k v k' v' by simp
  next
    case False
    with "6.prems" t k v have c: "c = CHR '',''" by (simp split: if_splits)
    with "6.prems" t k v obtain kvs' where rest: "parse_members n r' = Some (kvs', r)" "kvs = (k, v) # kvs'" by (auto split: option.splits)
    then have "parse_members n (r' @ x) = Some (kvs', r @ x)" using "6.IH"(2) t k v c by simp
    then show ?thesis using t k' v' c rest(2) by simp
  qed
next
  case (2 n t)
  then obtain c t' where t: "t = c # t'" by (cases t) auto
  note prems = "2.prems" [unfolded t, simplified]
  have elements: "t' \<noteq> []" if "parse_elements n t' = Some z" for z using that by (cases n; cases t'; auto split: option.splits) (cases "n - 1"; simp)+
  have members: "t' \<noteq> []" if "parse_members n t' = Some z" for z using that by (cases n; cases t') auto
  consider "c \<in> {CHR ''n'', CHR ''t'', CHR ''f''}" | "c = CHR 0x22" | "c = CHR ''[''" | "c = CHR ''{''" | "c = CHR ''-''"
    | "c \<notin> {CHR ''n'', CHR ''t'', CHR ''f'', CHR 0x22, CHR ''['', CHR ''{'', CHR ''-''}" by blast
  then show ?case
  proof cases
    case 1
    then show ?thesis
      using prems t parse_word_extend [of "''null''" JNull "c # t'" v r x] parse_word_extend [of "''true''" "JBool True" "c # t'" v r x]
        parse_word_extend [of "''false''" "JBool False" "c # t'" v r x] by (elim insertE emptyE) simp_all
  next
    case 2
    then show ?thesis using prems t parse_chars_append [of t' _ r x] by (auto split: option.splits)
  next
    case 3
    then show ?thesis using prems t "2.IH"(1) [of c t'] elements by (auto split: option.splits if_splits)
  next
    case 4
    then show ?thesis using prems t "2.IH"(2) [of c t'] members by (auto split: option.splits if_splits)
  next
    case 5
    then show ?thesis using prems t parse_number_extend [of t' _ r x] by (auto split: option.splits)
  next
    case 6
    then show ?thesis using prems t parse_number_extend [of "c # t'" _ r x] by (auto split: option.splits)
  qed
qed simp_all

lemma parse_more:
  "parse_value n t = Some z \<Longrightarrow> parse_value (Suc n) t = Some z"
  "parse_elements n t = Some y \<Longrightarrow> parse_elements (Suc n) t = Some y"
  "parse_members n t = Some x \<Longrightarrow> parse_members (Suc n) t = Some x"
proof (induction n t and n t and n t arbitrary: z and y and x rule: parse_value_parse_elements_parse_members.induct)
  case (2 n t)
  then obtain c t' where t: "t = c # t'" by (cases t) auto
  note unfolded = parse_value.simps(2) [of n] parse_value.simps(2) [of "Suc n"]
  have elements: "parse_elements (Suc n) t' = Some w" if "parse_elements n t' = Some w" "c = CHR ''[''" "\<not> (t' \<noteq> [] \<and> hd t' = CHR '']'')" for w
    using that "2.IH"(1) [of c t' w] t by blast
  have members: "parse_members (Suc n) t' = Some w" if "parse_members n t' = Some w" "c = CHR ''{''" "\<not> (t' \<noteq> [] \<and> hd t' = CHR ''}'')" for w
    using that "2.IH"(2) [of c t' w] t by blast
  consider "c = CHR ''['' \<and> \<not> (t' \<noteq> [] \<and> hd t' = CHR '']'')" | "c = CHR ''{'' \<and> \<not> (t' \<noteq> [] \<and> hd t' = CHR ''}'')"
    | "\<not> (c = CHR ''['' \<and> \<not> (t' \<noteq> [] \<and> hd t' = CHR '']''))" "\<not> (c = CHR ''{'' \<and> \<not> (t' \<noteq> [] \<and> hd t' = CHR ''}''))" by blast
  then show ?case
  proof cases
    case 1
    then obtain w where "parse_elements n t' = Some w" using "2.prems" t by (auto split: option.splits)
    with 1 elements have "parse_elements (Suc n) t' = parse_elements n t'" by simp
    then show ?thesis using "2.prems" t 1 unfolding unfolded by (auto simp del: parse_elements.simps)
  next
    case 2
    then obtain w where "parse_members n t' = Some w" using "2.prems" t by (auto split: option.splits)
    with 2 members have "parse_members (Suc n) t' = parse_members n t'" by simp
    then show ?thesis using "2.prems" t 2 unfolding unfolded by (auto simp del: parse_members.simps)
  next
    case 3
    then have "parse_value (Suc (Suc n)) t = parse_value (Suc n) t" unfolding unfolded t by auto
    then show ?thesis using "2.prems" by simp
  qed
next
  case (4 n t)
  from "4.prems" obtain v c r where v: "parse_value n t = Some (v, c # r)" by (auto split: option.splits list.splits)
  then have v': "parse_value (Suc n) t = Some (v, c # r)" using "4.IH"(1) by blast
  note unfolded = parse_elements.simps(2) [of n] parse_elements.simps(2) [of "Suc n"]
  show ?case
  proof (cases "c = CHR '',''")
    case True
    then obtain w where w: "parse_elements n r = Some w" using "4.prems" v by (auto split: option.splits)
    then have "parse_elements (Suc n) r = Some w" using "4.IH"(2) v True by simp
    then show ?thesis using "4.prems" v v' w True unfolding unfolded(1) [of t] unfolded(2) [of t] by (simp del: parse_elements.simps parse_value.simps)
  next
    case False
    then show ?thesis using "4.prems" v v' unfolding unfolded by (simp del: parse_value.simps split: if_splits)
  qed
next
  case (6 n t)
  then obtain t' where t: "t = CHR 0x22 # t'" by (cases t) (auto split: if_splits)
  with "6.prems" obtain k t'' where k: "parse_chars t' = Some (k, CHR '':'' # t'')" by (auto split: option.splits list.splits if_splits)
  with "6.prems" t obtain v c r where v: "parse_value n t'' = Some (v, c # r)" by (auto split: option.splits list.splits)
  have v': "parse_value (Suc n) t'' = Some (v, c # r)" using "6.IH"(1) t k v by force
  note unfolded = parse_members.simps(2) [of n] parse_members.simps(2) [of "Suc n"]
  show ?case
  proof (cases "c = CHR '',''")
    case True
    then obtain w where w: "parse_members n r = Some w" using "6.prems" t k v by (auto split: option.splits)
    then have "parse_members (Suc n) r = Some w" using "6.IH"(2) t k v True by simp
    then show ?thesis using "6.prems" t k v v' w True unfolding unfolded(1) [of t] unfolded(2) [of t] by (simp del: parse_members.simps parse_value.simps)
  next
    case False
    then show ?thesis using "6.prems" t k v v' unfolding unfolded by (simp del: parse_value.simps split: if_splits)
  qed
qed simp_all

lemma parse_fuel: "n \<le> m \<Longrightarrow> parse_value n t = Some z \<Longrightarrow> parse_value m t = Some z"
proof (induction m)
  case (Suc m)
  then show ?case using parse_more(1) [of m t z] by (cases "n = Suc m") simp_all
qed simp

subsection \<open>Whole documents\<close>

lemma length_join_comma_eq: "length (join_comma xs) + 1 = sum_list (map (Suc \<circ> length) xs) + (if xs = [] then 1 else 0)"
  by (induction xs rule: join_comma.induct) auto

lemma parse_steps_bound: "parse_steps v \<le> length (stringify v)"
proof (induction v)
  case (JNum i)
  then show ?case using int_str_hd [of i] by auto
next
  case (JArr vs)
  have "sum_list (map (\<lambda>v. Suc (parse_steps v)) vs) \<le> sum_list (map (\<lambda>v. Suc (length (stringify v))) vs)"
    using JArr by (intro sum_list_mono) auto
  then show ?case using length_join_comma_eq [of "map stringify vs"] by (auto simp: comp_def split: if_splits)
next
  case (JObj kvs)
  have "sum_list (map (\<lambda>e. Suc (parse_steps (snd e))) kvs) \<le> sum_list (map (\<lambda>e. Suc (length (entry_str (fst e, stringify (snd e))))) kvs)"
  proof (rule sum_list_mono)
    fix e assume "e \<in> set kvs"
    then have "parse_steps (snd e) \<le> length (stringify (snd e))" by (rule JObj) (cases e; simp)
    then show "Suc (parse_steps (snd e)) \<le> Suc (length (entry_str (fst e, stringify (snd e))))" by (simp add: entry_str_def)
  qed
  then show ?case using length_join_comma_eq [of "map entry_str (map (map_prod id stringify) kvs)"]
    by (auto simp: comp_def map_prod_def split_beta split: if_splits)
qed (simp_all add: quote_def)

lemma parse_value_document:
  assumes "length (stringify v) < n"
  shows "parse_value n (stringify v @ [CHR 0x0A]) = Some (v, [CHR 0x0A])"
  using assms parse_steps_bound [of v] by (intro parse_value_stringify) (simp_all add: not_digits)

lemma json_parse_document: "json_parse (stringify v @ [CHR 0x0A]) = Some v"
  by (simp add: json_parse_def parse_value_document del: parse_value.simps)

lemma parse_object_start:
  assumes "parse_value n (CHR ''{'' # t) = Some (w, r)"
  obtains kvs where "w = JObj kvs"
  using assms by (cases n) (auto split: option.splits if_splits)

lemma json_parse_truncated:
  assumes "json_parse (take k (stringify (JObj kvs) @ [CHR 0x0A])) = Some w"
  shows "w = JObj kvs"
proof -
  let ?t = "stringify (JObj kvs) @ [CHR 0x0A]"
  let ?n = "Suc (length (take k ?t))" and ?m = "Suc (length ?t)"
  obtain r where r: "parse_value ?n (take k ?t) = Some (w, r)"
    using assms by (auto simp: json_parse_def simp del: parse_value.simps split: option.splits if_splits)
  obtain t' where t': "?t = CHR ''{'' # t'" by simp
  have "k \<noteq> 0" using r by (cases k) auto
  then obtain t'' where "take k ?t = CHR ''{'' # t''" unfolding t' by (cases k) auto
  with r obtain ws where "w = JObj ws" using parse_object_start by metis
  then have "parse_value ?n (take k ?t @ drop k ?t) = Some (w, r @ drop k ?t)" using r by (intro parse_extend(1)) simp_all
  then have "parse_value ?m ?t = Some (w, r @ drop k ?t)"
    unfolding append_take_drop_id by (rule parse_fuel [rotated]) simp
  moreover have "parse_value ?m ?t = Some (JObj kvs, [CHR 0x0A])" by (rule parse_value_document) simp
  ultimately show ?thesis by simp
qed

subsection \<open>The length of canonical texts\<close>

text \<open>An upper bound that does not need the keys sorted.\<close>

definition entry_bound :: "string \<times> nat \<Rightarrow> nat" where
  "entry_bound e = 6 * length (fst e) + snd e + 4"

primrec json_bound :: "json \<Rightarrow> nat" where
  "json_bound JNull = 4"
| "json_bound (JBool b) = 5"
| "json_bound (JNum i) = length (int_str i)"
| "json_bound (JStr s) = 6 * length s + 2"
| "json_bound (JArr vs) = 2 + sum_list (map Suc (map json_bound vs))"
| "json_bound (JObj kvs) = 2 + sum_list (map entry_bound (map (map_prod id json_bound) kvs))"

lemma length_quote: "length (quote s) \<le> 6 * length s + 2"
  by (induction s) (auto simp: quote_def esc_char_def)

lemma length_join_comma: "length (join_comma xs) \<le> sum_list (map (Suc \<circ> length) xs)"
  by (induction xs rule: join_comma.induct) auto

lemma js_set_sum:
  assumes "distinct (map fst props)"
  shows "sum_list (map w (js_set k v props)) \<le> sum_list (map w props) + (w (k, v) :: nat)"
proof (cases "k \<in> set (map fst props)")
  case True
  have "sum_list (map w (map (\<lambda>(k', v'). if k' = k then (k, v) else (k', v')) props)) \<le> sum_list (map w props) + w (k, v)"
    using assms
  proof (induction props)
    case (Cons p props)
    have "map (\<lambda>(k', v'). if k' = k then (k, v) else (k', v')) props = props" if "k \<notin> fst ` set props"
      using that by (induction props) (auto split: prod.splits)
    with Cons show ?case by (cases p) (auto simp del: map_map)
  qed simp
  with True show ?thesis by (auto simp: js_set_def)
next
  case False
  have "sum_list (map w (takeWhile P xs)) + sum_list (map w (dropWhile P xs)) = sum_list (map w xs)" for P xs
    by (metis map_append sum_list_append takeWhile_dropWhile_id)
  with False show ?thesis by (auto simp: js_set_def)
qed

lemma fold_js_set_sum:
  "distinct (map fst props) \<Longrightarrow> sum_list (map w (fold (\<lambda>(k, v). js_set k v) es props)) \<le> sum_list (map w props) + (sum_list (map w es) :: nat)"
proof (induction es arbitrary: props)
  case (Cons e es)
  obtain k v where e: "e = (k, v)" by (cases e)
  from Cons.IH [OF distinct_js_set [OF Cons.prems, of k v]] js_set_sum [OF Cons.prems, of w k v] show ?case
    by (simp add: e)
qed simp

lemma sum_sort_key: "sum_list (map w (sort_key f xs)) = (sum_list (map w xs) :: nat)"
proof (induction xs)
  case (Cons x xs)
  have "sum_list (map w (insort_key f x ys)) = w x + sum_list (map w ys)" for ys by (induction ys) auto
  with Cons show ?case by simp
qed simp

lemma length_canonicalJson: "length (canonicalJson v) \<le> json_bound v"
proof (induction v)
  case (JArr vs)
  have "length (canonicalJson (JArr vs)) \<le> 2 + sum_list (map (Suc \<circ> length) (map canonicalJson vs))"
    using length_join_comma [of "map canonicalJson vs"] by (simp add: canonicalJson_def [abs_def] o_def)
  also have "\<dots> \<le> json_bound (JArr vs)"
    using JArr by (auto simp: intro!: sum_list_mono)
  finally show ?case .
next
  case (JObj kvs)
  let ?w = "\<lambda>e. entry_bound (fst e, length (stringify (snd e)))"
  let ?es = "sort_key fst (map (map_prod id sortKeys) kvs)"
  have "length (canonicalJson (JObj kvs)) \<le> 2 + sum_list (map (Suc \<circ> length) (map entry_str (map (map_prod id stringify) (js_object ?es))))"
    using length_join_comma [of "map entry_str (map (map_prod id stringify) (js_object ?es))"] by (simp add: canonicalJson_def)
  also have "\<dots> \<le> 2 + sum_list (map ?w (js_object ?es))"
    using length_quote by (auto simp: o_def entry_str_def entry_bound_def intro!: sum_list_mono)
  also have "\<dots> \<le> 2 + sum_list (map ?w ?es)"
    using fold_js_set_sum [of "[]" ?w ?es] by (simp add: js_object_def)
  also have "sum_list (map ?w ?es) = sum_list (map ?w (map (map_prod id sortKeys) kvs))"
    by (rule sum_sort_key)
  also have "2 + \<dots> \<le> json_bound (JObj kvs)"
    using JObj by (auto simp: o_def entry_bound_def canonicalJson_def intro!: sum_list_mono)
  finally show ?case by simp
qed (use length_quote in \<open>auto simp: canonicalJson_def\<close>)

end
