(* ===== verification/Delivery_Samples.thy ===== *)
theory Delivery_Samples
  imports Delivery_Service Deployment_Samples Json_Parser
begin

section \<open>A concrete delivery\<close>

text \<open>
  One delivery plan, its run and a transition, at which the properties of the delivery ledger
  and of the service with hypotheses are applied.
\<close>

definition demo_product :: "string \<Rightarrow> json" where
  "demo_product p = JObj [(''product'', JStr p), (''repository'', JStr (''StealthEyeLLC/'' @ p)), (''commit'', JStr hex64),
     (''tree'', JStr hex64), (''adapter'', JStr ''baby_selfhost''), (''immutableDigest'', JStr hex64)]"

definition demo_body :: json_object where
  "demo_body =
     [(''schemaVersion'', JStr ''1.0.0''), (''deliveryId'', JStr ''delivery-1''), (''ownerPrincipal'', JStr ''owner''),
      (''authorizationReference'', JStr ''auth/1''), (''targetHostname'', JStr ''host''), (''targetMachineIdentity'', JStr hex64),
      (''products'', JArr [demo_product ''baby-quirt'', demo_product ''baby-quirt-mcp'']),
      (''buildProfile'', JObj [(''name'', JStr ''build''), (''version'', JStr ''1''), (''commands'', string_array [''make'']),
        (''toolchains'', JArr [JObj [(''name'', JStr ''node''), (''version'', JStr ''24'')]]),
        (''lockfiles'', JArr [JObj [(''path'', JStr ''package-lock.json''), (''sha256'', JStr hex64)]]),
        (''cleanEnvironment'', JBool True), (''reproducibleBuilds'', JNum 2)]),
      (''testProfile'', JObj [(''name'', JStr ''test''), (''version'', JStr ''1''), (''commands'', string_array [''make test'']),
        (''requireZeroSkips'', JBool True), (''requireStableCounts'', JBool True)]),
      (''certificationProfile'', JObj [(''name'', JStr ''cert''), (''version'', JStr ''1''),
        (''requiredNspawnProperties'', string_array [''pid1'']),
        (''cycles'', string_array [''success'', ''automatic_rollback'', ''restart_or_reboot_recovery'']), (''requireSystemdPid1'', JBool True),
        (''requireUid0Supervisor'', JBool True), (''requireGatewayUid997'', JBool True), (''destroyAfterCertification'', JBool True)]),
      (''targetReleaseIdentifiers'', JObj [(''baby-quirt'', JStr ''r1''), (''baby-quirt-mcp'', JStr ''r2'')]),
      (''protectedReleases'', string_array [''r0'']), (''protectedPaths'', string_array [''/opt'']),
      (''candidateVerificationProfile'', JObj [(''name'', JStr ''cand''), (''version'', JStr ''1''), (''checks'', string_array [''health''])]),
      (''activationOrder'', string_array [''baby-quirt-mcp'', ''baby-quirt'']),
      (''acceptanceProfile'', JObj [(''privateChecks'', string_array [''a'']), (''publicChecks'', string_array [''b'']), (''requireAll'', JBool True)]),
      (''soakProfile'', JObj [(''durationSeconds'', JNum 60), (''checkpointSeconds'', JArr [JNum 30]), (''checks'', string_array [''c''])]),
      (''rollbackPolicy'', JObj [(''automaticOnAcceptanceFailure'', JBool True), (''automaticOnSoakFailure'', JBool True),
        (''automaticOnDeadline'', JBool True), (''cancellationAfterArm'', JStr ''rollback''), (''unknownDisposition'', JStr ''repair_required''),
        (''rollbackFailureDisposition'', JStr ''manual_recovery_required'')]),
      (''timeBounds'', JObj [(''notBefore'', JStr ''2026-01-01T00:00:00.000Z''), (''expiresAt'', JStr ''2026-01-02T00:00:00.000Z''),
        (''guardDeadline'', JStr ''2026-01-01T12:00:00.000Z'')]),
      (''allowedExternalSideEffects'', string_array []),
      (''resourceBounds'', JObj [(''maxWallSeconds'', JNum 1), (''maxCpuSeconds'', JNum 1), (''maxMemoryBytes'', JNum 1),
        (''maxDiskBytes'', JNum 1), (''maxInodes'', JNum 1), (''maxOutputBytes'', JNum 1), (''maxArtifacts'', JNum 1)]),
      (''costBounds'', JObj [(''currency'', JStr ''USD''), (''maximumMinorUnits'', JNum 0)]),
      (''evidenceRequirements'', string_array [''build.log'']),
      (''retentionPolicy'', JObj [(''eventDays'', JNum 1), (''evidenceDays'', JNum 1), (''artifactDays'', JNum 1), (''retainTerminalRuns'', JNum 1)])]"

definition demo_plan :: json_object where
  "demo_plan = demo_body @ [(''planDigest'', JStr hex64)]"

subsection \<open>The plan is canonical\<close>

lemma accepted_reads:
  "s \<noteq> [] \<and> length s \<le> 4096 \<and> P s \<Longrightarrow> plan_text (Some (JStr s)) l P = Inr s"
  "plan_bool (Some (JBool b)) l = Inr b"
  "safe_integer n \<and> m \<le> n \<Longrightarrow> plan_integer (Some (JNum n)) l m = Inr n"
  "s \<noteq> [] \<and> length s \<le> 4096 \<and> canonical_timestamp s \<Longrightarrow> plan_timestamp (Some (JStr s)) l = Inr s"
  "\<not> (ne \<and> xs = []) \<and> length xs \<le> 512 \<and> distinct xs \<and> list_all (\<lambda>s. s \<noteq> [] \<and> length s \<le> 4096 \<and> P s) xs
     \<Longrightarrow> plan_strings (Some (string_array xs)) l ne P = Inr xs"
  "ys \<noteq> [] \<and> length ys \<le> 64 \<Longrightarrow> bounded_array (Some (JArr ys)) l = Inr ys"
  "plan_object (Some (JObj kvs)) l = Inr kvs"
  by (simp_all add: plan_simps)

lemma hex64_text: "hex64 \<noteq> [] \<and> length hex64 \<le> 4096"
  by (simp add: hex64_def)

lemma demo_patterns:
  "list_all IDENTIFIER_PATTERN [''delivery-1'', ''owner'', ''host'', ''build'', ''node'', ''test'', ''cert'', ''r0'', ''r1'', ''r2'', ''cand'', ''build.log'']"
  "list_all REFERENCE_PATTERN [''auth/1'', ''1'', ''24'', ''StealthEyeLLC/baby-quirt'', ''StealthEyeLLC/baby-quirt-mcp'']"
  "PATH_PATTERN ''/opt''" "CURRENCY_PATTERN ''USD''" "DIGEST_PATTERN hex64" "GIT_OBJECT_PATTERN hex64"
  "list_all safe_integer [0, 1, 2, 30, 60]"
  "list_all canonical_timestamp [''2026-01-01T00:00:00.000Z'', ''2026-01-02T00:00:00.000Z'', ''2026-01-01T12:00:00.000Z'']"
  "time_of ''2026-01-01T00:00:00.000Z'' < time_of ''2026-01-01T12:00:00.000Z''"
  "time_of ''2026-01-01T12:00:00.000Z'' \<le> time_of ''2026-01-02T00:00:00.000Z''"
  by code_simp+

lemmas demo_reads = accepted_reads exact_refl json_prop_def hex64_text demo_patterns [simplified] map_indexed_def

lemma demo_source: "p = ''baby-quirt'' \<or> p = ''baby-quirt-mcp'' \<Longrightarrow> plan_source (demo_product p) i = Inr (case demo_product p of JObj kvs \<Rightarrow> kvs)"
  unfolding demo_product_def plan_source_def
  by (auto simp: demo_reads Let_def source_fields_def SOURCE_MATERIALIZATION_ADAPTERS_def canonical_repository_def)

lemmas demo_sources_read = demo_source [of "''baby-quirt''", unfolded demo_product_def, simplified]
  demo_source [of "''baby-quirt-mcp''", unfolded demo_product_def, simplified]

lemma demo_profiles:
  "buildProfile demo_env (map_of demo_body ''buildProfile'') = Inr (the (map_of demo_body ''buildProfile''))"
  "testProfile (map_of demo_body ''testProfile'') = Inr (the (map_of demo_body ''testProfile''))"
  "certificationProfile demo_env (map_of demo_body ''certificationProfile'') = Inr (the (map_of demo_body ''certificationProfile''))"
  "candidateProfile (map_of demo_body ''candidateVerificationProfile'') = Inr (the (map_of demo_body ''candidateVerificationProfile''))"
  "acceptanceProfile (map_of demo_body ''acceptanceProfile'') = Inr (the (map_of demo_body ''acceptanceProfile''))"
  "soakProfile (map_of demo_body ''soakProfile'') = Inr (the (map_of demo_body ''soakProfile''))"
  "rollbackPolicy (map_of demo_body ''rollbackPolicy'') = Inr (the (map_of demo_body ''rollbackPolicy''))"
  "timeBounds (map_of demo_body ''timeBounds'') = Inr (the (map_of demo_body ''timeBounds''))"
  "resourceBounds (map_of demo_body ''resourceBounds'') = Inr (the (map_of demo_body ''resourceBounds''))"
  "retentionPolicy (map_of demo_body ''retentionPolicy'') = Inr (the (map_of demo_body ''retentionPolicy''))"
  "costBounds (map_of demo_body ''costBounds'') = Inr (the (map_of demo_body ''costBounds''))"
  by (simp_all add: demo_body_def demo_reads buildProfile_def testProfile_def certificationProfile_def candidateProfile_def acceptanceProfile_def
      soakProfile_def rollbackPolicy_def timeBounds_def resourceBounds_def retentionPolicy_def positive_fields_def costBounds_def Let_def
      sort_objects_def sort_by_def toolchain_def lockfile_def key_text_def plan_sorted_def)

lemma demo_lists:
  "plan_products demo_env (map_of demo_body ''products'') = Inr (the (map_of demo_body ''products''))"
  "activation_order (map_of demo_body ''activationOrder'') = Inr (the (map_of demo_body ''activationOrder''))"
  "sorted_strings demo_env (map_of demo_body ''protectedReleases'') l True IDENTIFIER_PATTERN = Inr (the (map_of demo_body ''protectedReleases''))"
  "sorted_strings demo_env (map_of demo_body ''protectedPaths'') l True PATH_PATTERN = Inr (the (map_of demo_body ''protectedPaths''))"
  "sorted_strings demo_env (map_of demo_body ''allowedExternalSideEffects'') l False any_text = Inr (the (map_of demo_body ''allowedExternalSideEffects''))"
  "sorted_strings demo_env (map_of demo_body ''evidenceRequirements'') l True IDENTIFIER_PATTERN = Inr (the (map_of demo_body ''evidenceRequirements''))"
  by (simp_all add: demo_body_def demo_reads demo_sources_read sorted_strings_def activation_order_def plan_products_def Let_def sort_objects_def sort_by_def
      plan_sorted_def demo_product_def key_text_def demo_env_def)

lemma demo_plan_body: "plan_body demo_env demo_body = Inr demo_body"
  unfolding plan_body_def json_prop_def demo_profiles demo_lists
  by (simp add: demo_reads demo_body_def)

lemma demo_canonical: "canonicalizeDeliveryPlan demo_env (JObj demo_body) = Inr demo_plan"
proof -
  note keys = plan_body_keys [OF demo_plan_body]
  show ?thesis
    by (simp add: canonicalizeDeliveryPlan_def accepted_reads exact_refl keys demo_plan_body demo_plan_def)
qed

lemma demo_collation: "collation demo_env"
  by (simp add: collation_def demo_env_def)

lemma demo_plan_stable: "canonicalPlan demo_env demo_plan = Inr demo_plan"
  by (rule canonical_plan_stable [OF demo_collation demo_canonical])

lemma demo_plan_fields [simp]:
  "key_text ''deliveryId'' demo_plan = ''delivery-1''" "key_text ''planDigest'' demo_plan = hex64" "key_text ''targetHostname'' demo_plan = ''host''"
  "key_text ''targetMachineIdentity'' demo_plan = hex64" "plan_expiresAt demo_plan = ''2026-01-02T00:00:00.000Z''"
  by (simp_all add: demo_plan_def demo_body_def key_text_def json_prop_def plan_expiresAt_def)

lemma demo_plan_size: "length (canonicalJson (JObj demo_plan)) \<le> 1048576"
proof -
  have "json_bound (JObj demo_plan) \<le> 1048576"
    by (simp add: demo_plan_def demo_body_def demo_product_def string_array_def hex64_def entry_bound_def int_str_def nat_str.simps)
  with length_canonicalJson [of "JObj demo_plan"] show ?thesis by linarith
qed

subsection \<open>A run, a lease and a transition\<close>

abbreviation t0 :: string where
  "t0 \<equiv> ''2026-01-01T00:00:00.000Z''"

abbreviation t1 :: string where
  "t1 \<equiv> ''2026-01-01T12:00:00.000Z''"

definition demo_run_row :: run_row where
  "demo_run_row = new_run_row demo_env demo_plan 1 t0"

definition delivery_demo_db :: delivery_db where
  "delivery_demo_db = empty_delivery_db\<lparr>dd_plans := [new_plan_row demo_plan t0], dd_runs := [demo_run_row]\<rparr>"

lemma demo_ids: "IDENTIFIER_PATTERN ''delivery-1''" "IDENTIFIER_PATTERN ''lease-1''" "IDENTIFIER_PATTERN ''ctl''" "IDENTIFIER_PATTERN ''build''"
    "IDENTIFIER_PATTERN ''started''" "IDENTIFIER_PATTERN ''cancel''" "IDENTIFIER_PATTERN ''cancelled_pre_arm''" "IDEMPOTENCY_PATTERN ''request-1''"
  by code_simp+

lemmas delivery_asserts = delivery_assertIdentifier_def delivery_assertIdempotencyKey_def delivery_assertDigest_def delivery_assertTimestamp_def
  assertPositiveInteger_def assertNonnegativeInteger_def assert_optional_def demo_ids demo_patterns [simplified] hex64_valid

lemma demo_run_fields [simp]:
  "rn_deliveryId demo_run_row = ''delivery-1''" "rn_planDigest demo_run_row = hex64" "rn_generation demo_run_row = 1" "rn_state demo_run_row = PLANNED"
  "rn_stateSequence demo_run_row = 0" "rn_terminal demo_run_row = False" "rn_expiresAt demo_run_row = ''2026-01-02T00:00:00.000Z''"
  "rn_deploymentId demo_run_row = None" "rn_deploymentState demo_run_row = None"
  by (simp_all add: demo_run_row_def new_run_row_def)

lemma demo_getRun:
  assumes "dd_plans db = [new_plan_row demo_plan t0]" "dd_runs db = [row]" "rn_deliveryId row = ''delivery-1''"
  shows "getRun demo_env ''delivery-1'' db = Inr (Some (run_view demo_plan row db))"
  by (simp add: getRun_def getPlan_def assms delivery_asserts new_plan_row_def demo_plan_stable)

lemma demo_new: "getRun demo_env ''delivery-1'' empty_delivery_db = Inr None"
  by (simp add: getRun_def delivery_asserts empty_delivery_db_def)

lemma demo_create: "createRun demo_env demo_plan 1 t0 empty_delivery_db = Inr (delivery_demo_db, run_view demo_plan demo_run_row delivery_demo_db)"
proof -
  have "\<not> time_of t0 > time_of ''2026-01-02T00:00:00.000Z''" by code_simp
  moreover have "getRun demo_env ''delivery-1'' delivery_demo_db = Inr (Some (run_view demo_plan demo_run_row delivery_demo_db))"
    by (rule demo_getRun) (simp_all add: delivery_demo_db_def)
  moreover have "dd_plans empty_delivery_db = []" "dd_runs empty_delivery_db = []" by (simp_all add: empty_delivery_db_def)
  ultimately show ?thesis
    by (simp add: createRun_def demo_plan_stable delivery_asserts demo_new demo_plan_size getRunRequired_def delivery_demo_db_def demo_run_row_def Let_def)
qed

definition demo_delivery_ops :: "delivery_op list" where
  "demo_delivery_ops = [CreateRun demo_plan 1 t0]"

lemma demo_delivery_run: "run_delivery demo_env demo_delivery_ops empty_delivery_db = delivery_demo_db"
  by (simp add: demo_delivery_ops_def delivery_step_def forget_def demo_create)

definition demo_move :: delivery_transition_input where
  "demo_move = \<lparr>dt_deliveryId = ''delivery-1'', dt_planDigest = hex64, dt_generation = 1, dt_expectedState = PLANNED, dt_expectedSequence = 0,
     dt_nextState = SOURCE_VERIFIED, dt_phase = ''build'', dt_kind = ''started'', dt_message = ''started'', dt_idempotencyKey = ''request-1'',
     dt_occurredAt = t0, dt_deploymentId = None, dt_deploymentState = None, dt_childJobId = None, dt_artifactReference = None, dt_receiptId = None\<rparr>"

lemma demo_move_fields [simp]:
  "dt_deliveryId demo_move = ''delivery-1''" "dt_planDigest demo_move = hex64" "dt_generation demo_move = 1" "dt_expectedState demo_move = PLANNED"
  "dt_expectedSequence demo_move = 0" "dt_nextState demo_move = SOURCE_VERIFIED" "dt_message demo_move = ''started''" "dt_occurredAt demo_move = t0"
  "dt_idempotencyKey demo_move = ''request-1''" "dt_deploymentId demo_move = None" "dt_deploymentState demo_move = None"
  by (simp_all add: demo_move_def)

lemma demo_moved: "\<exists>db' res. delivery_transition demo_env demo_move delivery_demo_db = Inr (db', res)
  \<and> map rn_state (dd_runs db') = [SOURCE_VERIFIED] \<and> rr_state (to_run res) = SOURCE_VERIFIED"
proof -
  have "validateTransition demo_move = Inr ()" unfolding validateTransition_def
    by (simp add: demo_move_def delivery_asserts)
  moreover have "getRunRequired demo_env ''delivery-1'' delivery_demo_db = Inr (run_view demo_plan demo_run_row delivery_demo_db)"
    unfolding getRunRequired_Inr by (rule demo_getRun) (simp_all add: delivery_demo_db_def)
  moreover have "check_transition_fence demo_move (run_view demo_plan demo_run_row delivery_demo_db) = Inr ()"
  proof -
    have "time_of t0 \<le> time_of ''2026-01-02T00:00:00.000Z''" by code_simp
    then show ?thesis by (simp add: check_transition_fence_Inr opt_or_def)
  qed
  moreover have "delivery_events_of ''delivery-1'' delivery_demo_db = []" by (simp add: delivery_events_of_def delivery_demo_db_def empty_delivery_db_def)
  moreover have "dd_runs delivery_demo_db = [demo_run_row]" by (simp add: delivery_demo_db_def)
  moreover have "\<not> delivery_runs_raises demo_run_row (moved_run demo_env demo_move (run_view demo_plan demo_run_row delivery_demo_db) delivery_demo_db demo_run_row)"
    by (simp add: trigger_defs)
  moreover have "0 < sqlite_length ''started''" "0 < MAX_EVENTS_PER_RUN" by (simp_all add: sqlite_length_def MAX_EVENTS_PER_RUN_def)
  ultimately show ?thesis
    by (simp add: delivery_transition_def Let_def sql_update_def opt_or_def) (simp add: new_event_row_def Let_def)
qed

definition demo_lease :: lease_request where
  "demo_lease = \<lparr>lq_deliveryId = ''delivery-1'', lq_planDigest = hex64, lq_generation = 1, lq_leaseId = ''lease-1'', lq_holder = ''ctl''\<rparr>"

lemma demo_acquired: "\<exists>db' l. acquireControllerLease demo_env demo_lease t0 t1 delivery_demo_db = Inr (db', l)"
proof -
  have "validateLeaseIdentity demo_lease t0 t1 = Inr ()"
    by (simp add: validateLeaseIdentity_def validate_lease_holder_def demo_lease_def delivery_asserts)
  moreover have "\<not> time_of t1 \<le> time_of t0" by code_simp
  moreover have "getRunRequired demo_env ''delivery-1'' delivery_demo_db = Inr (run_view demo_plan demo_run_row delivery_demo_db)"
    unfolding getRunRequired_Inr by (rule demo_getRun) (simp_all add: delivery_demo_db_def)
  moreover have "dd_leases delivery_demo_db = []" "dd_runs delivery_demo_db = [demo_run_row]"
    by (simp_all add: delivery_demo_db_def empty_delivery_db_def)
  ultimately show ?thesis
    by (simp add: acquireControllerLease_def assertRunFence_def demo_lease_def find_lease_def expire_active_lease_def active_lease_def
        updateLeasePointer_def sql_update_def trigger_defs read_lease_def new_lease_def Let_def)
qed

subsection \<open>Witnesses\<close>

theorem delivery_audit_witness:
  "\<exists>r es. r \<in> set (dd_runs (run_delivery demo_env (demo_delivery_ops @ [DeliveryTransition demo_move]) empty_delivery_db)) \<and>
     rn_state r = SOURCE_VERIFIED \<and> rn_stateSequence r = int (length es) \<and> events_ok demo_env r 0 None es \<and> es \<noteq> []"
proof -
  obtain db' res where t: "delivery_transition demo_env demo_move delivery_demo_db = Inr (db', res)" "map rn_state (dd_runs db') = [SOURCE_VERIFIED]"
    using demo_moved by (elim exE conjE) (rule that)
  have db': "run_delivery demo_env (demo_delivery_ops @ [DeliveryTransition demo_move]) empty_delivery_db = db'"
    by (simp add: run_ops_append demo_delivery_run delivery_step_def forget_def t)
  from t(2) obtain r where r: "r \<in> set (dd_runs db')" "rn_state r = SOURCE_VERIFIED" by auto
  have "state_after [] = PLANNED" by (simp add: state_after_def)
  with delivery_audit [OF demo_collation db' [symmetric] r(1) refl] r(2)
  have "delivery_events_of (rn_deliveryId r) db' \<noteq> []" by (metis delivery_state.distinct(1))
  then show ?thesis using delivery_audit [OF demo_collation db' [symmetric] r(1) refl] r unfolding db' by blast
qed

theorem lease_exclusive_witness:
  "\<exists>db' l. acquireControllerLease demo_env demo_lease t0 t1 delivery_demo_db = Inr (db', l) \<and>
     filter (\<lambda>m. cl_deliveryId m = ''delivery-1'' \<and> cl_status m = LeaseActive) (dd_leases db') = [l] \<and> cl_holder l = ''ctl''"
proof -
  obtain db' l where a: "acquireControllerLease demo_env demo_lease t0 t1 delivery_demo_db = Inr (db', l)" using demo_acquired by blast
  from lease_exclusive [OF demo_collation demo_delivery_run [symmetric] a] a show ?thesis by (auto simp: demo_lease_def)
qed

theorem delivery_append_only_witness:
  "delivery_grows delivery_demo_db (run_delivery demo_env (demo_delivery_ops @ [DeliveryTransition demo_move]) empty_delivery_db)"
  using delivery_append_only [OF demo_collation, of demo_delivery_ops "[DeliveryTransition demo_move]"] by (simp add: demo_delivery_run)


theorem delivery_transition_replay_witness:
  "\<exists>db' res. delivery_transition demo_env demo_move delivery_demo_db = Inr (db', res) \<and>
     delivery_transition demo_env demo_move db' = Inr (db', res\<lparr>to_replayed := True\<rparr>) \<and> rr_state (to_run res) = SOURCE_VERIFIED"
proof -
  obtain db' res where t: "delivery_transition demo_env demo_move delivery_demo_db = Inr (db', res)" "rr_state (to_run res) = SOURCE_VERIFIED"
    using demo_moved by blast
  from delivery_transition_replay [OF demo_collation demo_delivery_run [symmetric] t(1), of "[]"] t show ?thesis by auto
qed

definition demo_service :: "bool \<Rightarrow> service_env" where
  "demo_service fixture = \<lparr>sv_ledger = demo_env, sv_hostname = ''host'', sv_machineIdSha256 = hex64, sv_fixtureMode = fixture, sv_now = t0,
     sv_sqliteMessage = ''constraint failed''\<rparr>"

definition demo_plan_call :: service_call where
  "demo_plan_call = \<lparr>sc_now = t0, sc_operation = ''baby.delivery.plan'', sc_requestId = ''request-1'',
     sc_body = [(''plan'', JObj demo_body), (''authorizedPlanDigest'', JStr hex64)]\<rparr>"

lemma demo_plan_served: "\<exists>res. service_step (demo_service False) demo_plan_call empty_delivery_db = Inr (delivery_demo_db, res)"
proof -
  have "assertAuthorizedPlan demo_plan hex64 = Inr ()"
    by (simp add: assertAuthorizedPlan_def hex64_valid demo_plan_def demo_body_def json_prop_def)
  moreover have "hex64 \<noteq> []" by (simp add: hex64_def)
  ultimately show ?thesis
    by (simp add: service_step_def service_execute_def service_dispatch_def service_plan_def demo_service_def demo_plan_call_def json_prop_def
        service_object_def service_text_def demo_canonical demo_new demo_create Let_def)
qed

theorem production_deliveries_stay_planned_witness:
  "only_planned (run_ops (service_step (demo_service False)) [demo_plan_call] empty_delivery_db) \<and>
   dd_runs (run_ops (service_step (demo_service False)) [demo_plan_call] empty_delivery_db) = [demo_run_row]"
proof -
  have "\<not> sv_fixtureMode (demo_service False)" by (simp add: demo_service_def)
  from production_deliveries_stay_planned [OF this, of "[demo_plan_call]"] show ?thesis
    using demo_plan_served by (auto simp: delivery_demo_db_def)
qed

text \<open>A delivery whose rollback guard is armed, and its cancellation.\<close>

definition armed_row :: run_row where
  "armed_row = demo_run_row\<lparr>rn_state := ROLLBACK_ARMED, rn_stateSequence := 1\<rparr>"

definition armed_event :: event_row where
  "armed_event = (let e = new_event_row demo_env (demo_move\<lparr>dt_nextState := ROLLBACK_ARMED\<rparr>) (run_view demo_plan demo_run_row delivery_demo_db) delivery_demo_db
     in e\<lparr>er_event := (er_event e)\<lparr>dv_eventDigest := replicate 64 CHR ''b''\<rparr>\<rparr>)"

definition armed_db :: delivery_db where
  "armed_db = delivery_demo_db\<lparr>dd_runs := [armed_row], dd_events := [armed_event]\<rparr>"

definition demo_cancel :: json_object where
  "demo_cancel = [(''deliveryId'', JStr ''delivery-1''), (''planDigest'', JStr hex64), (''expectedSequence'', JNum 1)]"

lemma armed_fields [simp]:
  "rn_deliveryId armed_row = ''delivery-1''" "rn_planDigest armed_row = hex64" "rn_generation armed_row = 1" "rn_state armed_row = ROLLBACK_ARMED"
  "rn_stateSequence armed_row = 1" "rn_terminal armed_row = False" "rn_expiresAt armed_row = ''2026-01-02T00:00:00.000Z''"
  "rn_deploymentId armed_row = None" "rn_deploymentState armed_row = None"
  "dd_runs armed_db = [armed_row]" "dd_plans armed_db = [new_plan_row demo_plan t0]" "dd_events armed_db = [armed_event]"
  "dv_deliveryId (er_event armed_event) = ''delivery-1''" "er_idempotencyKey armed_event = ''request-1''"
  "dv_offset (er_event armed_event) = 0" "dv_eventDigest (er_event armed_event) = replicate 64 CHR ''b''"
proof -
  have "last_event ''delivery-1'' delivery_demo_db = None"
    by (simp add: last_event_def delivery_events_of_def delivery_demo_db_def empty_delivery_db_def Let_def)
  then show "dv_offset (er_event armed_event) = 0" by (simp add: armed_event_def new_event_row_def new_event_def Let_def)
qed (simp_all add: armed_row_def armed_db_def armed_event_def delivery_demo_db_def Let_def)

abbreviation cancel_input :: delivery_transition_input where
  "cancel_input \<equiv> advance_input (demo_service True) ''request-2'' demo_cancel (run_view demo_plan armed_row armed_db) ''delivery-1'' hex64 1
     CANCELLED_PRE_ARM ''cancel'' ''cancelled_pre_arm''"

lemma demo_cancelled: "\<exists>db' res. service_execute (demo_service True) ''baby.delivery.cancel'' ''request-2'' demo_cancel armed_db = Inr (db', res)"
proof -
  have run: "getRun demo_env ''delivery-1'' armed_db = Inr (Some (run_view demo_plan armed_row armed_db))" by (rule demo_getRun) simp_all
  have key: "IDEMPOTENCY_PATTERN ''request-2''" and hexne: "hex64 \<noteq> []" and ab: "replicate 64 CHR ''b'' \<noteq> hex64" by code_simp+
  have "validateTransition cancel_input = Inr ()" unfolding validateTransition_def
    by (simp add: advance_input_def demo_service_def demo_cancel_def json_prop_def delivery_asserts key)
  moreover have "check_transition_fence cancel_input (run_view demo_plan armed_row armed_db) = Inr ()"
  proof -
    have "time_of t0 \<le> time_of ''2026-01-02T00:00:00.000Z''" by code_simp
    then show ?thesis by (simp add: check_transition_fence_Inr opt_or_def advance_input_def demo_service_def)
  qed
  moreover have ev: "delivery_events_of ''delivery-1'' armed_db = [armed_event]" by (simp add: delivery_events_of_def)
  moreover have "dv_offset (er_event (new_event_row demo_env cancel_input (run_view demo_plan armed_row armed_db) armed_db)) = 1"
    "dv_eventDigest (er_event (new_event_row demo_env cancel_input (run_view demo_plan armed_row armed_db) armed_db)) = hex64"
    using ev by (simp_all add: new_event_row_def new_event_def Let_def last_event_def advance_input_def delivery_event_digest_def sha256_json_def)
  moreover have "\<not> delivery_runs_raises armed_row (moved_run demo_env cancel_input (run_view demo_plan armed_row armed_db) armed_db armed_row)"
    by (simp add: trigger_defs advance_input_def)
  moreover have "dt_deliveryId cancel_input = ''delivery-1''" "dt_planDigest cancel_input = hex64" "dt_generation cancel_input = 1"
    "dt_expectedState cancel_input = ROLLBACK_ARMED" "dt_expectedSequence cancel_input = 1" "dt_idempotencyKey cancel_input = ''request-2''"
    "dt_deploymentId cancel_input = None" "0 < sqlite_length (dt_message cancel_input)" "Suc 0 < MAX_EVENTS_PER_RUN"
    by (simp_all add: advance_input_def demo_service_def demo_cancel_def json_prop_def sqlite_length_def MAX_EVENTS_PER_RUN_def)
  ultimately have "\<exists>db' out. delivery_transition demo_env cancel_input armed_db = Inr (db', out)"
    using run ab by (simp add: delivery_transition_def getRunRequired_def Let_def sql_update_def opt_or_def)
  then show ?thesis using run hexne
    by (auto simp: service_execute_def service_dispatch_def service_advance_def assertFixtureExecution_def service_text_def service_integer_def
        service_required_def demo_cancel_def json_prop_def safe_integer_def demo_service_def Let_def)
qed


end
