(* ===== verification/Controller_Records.thy ===== *)
theory Controller_Records
  imports Delivery_Plan
begin

section \<open>Signed records of the deployment controller\<close>

text \<open>
  Models \<^verbatim>\<open>src/src/controller/types.ts\<close> and \<^verbatim>\<open>src/src/controller/contract.ts\<close>: the guard, success
  marker and evidence records, which are JSON objects with an exact set of keys, a SHA-256 over the
  payload and an Ed25519 signature over payload and digest. SHA-256, signing, verifying and
  \<open>JSON.parse\<close> are members of \<open>controller_env\<close>. A record that the code builds is accepted again,
  also after it was stored and its keys have come back in sorted order; what is accepted has every
  field in its format and the digest of exactly its payload.
\<close>

subsection \<open>Data\<close>

datatype controller_disposition =
    Armed | Pending | Success_marker_valid | Disarmed | Stale_generation | Rolled_back | Rollback_failed

primrec disposition_name :: "controller_disposition \<Rightarrow> string" where
  "disposition_name Armed = ''armed''"
| "disposition_name Pending = ''pending''"
| "disposition_name Success_marker_valid = ''success_marker_valid''"
| "disposition_name Disarmed = ''disarmed''"
| "disposition_name Stale_generation = ''stale_generation''"
| "disposition_name Rolled_back = ''rolled_back''"
| "disposition_name Rollback_failed = ''rollback_failed''"

definition DISPOSITIONS :: "string list" where
  "DISPOSITIONS = [''armed'', ''pending'', ''success_marker_valid'', ''disarmed'', ''stale_generation'', ''rolled_back'', ''rollback_failed'']"

datatype controller_error_code =
    Controller_invalid_record | Controller_signature_invalid | Controller_machine_mismatch | Controller_generation_conflict
  | Controller_active_guard_conflict | Controller_pointer_mismatch | Controller_deadline_invalid | Controller_marker_mismatch
  | Controller_not_found | Controller_lock_busy | Controller_integrity_failed | Controller_rollback_failed

text \<open>Besides the controller's own error: \<open>JSON.parse\<close> throws, a system call throws, the host adapter
  throws, and the process dies.\<close>

datatype controller_error =
    ControllerError controller_error_code string json_object
  | JsonSyntaxError
  | SystemError string
  | HostError
  | Crashed

abbreviation controller_failure :: "controller_error_code \<Rightarrow> string \<Rightarrow> controller_error" where
  "controller_failure c message \<equiv> ControllerError c message []"

abbreviation invalid_record :: "string \<Rightarrow> controller_error" where
  "invalid_record message \<equiv> ControllerError Controller_invalid_record message []"

record ('p, 'k) controller_env =
  ce_machineId :: string
  ce_babyAuthorityPublicKey :: 'k
  ce_controllerEvidencePrivateKey :: 'p
  ce_controllerEvidencePublicKey :: 'k
  ce_controllerSigningKeyId :: string
  ce_sha256 :: "string \<Rightarrow> string"
  ce_signEd25519 :: "'p \<Rightarrow> string \<Rightarrow> string"
  ce_verifyEd25519 :: "'k \<Rightarrow> string \<Rightarrow> string \<Rightarrow> bool"
  ce_parseJson :: "string \<Rightarrow> json option"

definition CONTROLLER_RECORD_VERSION :: string where
  "CONTROLLER_RECORD_VERSION = ''2.0.0''"

subsection \<open>Formats\<close>

definition segment_char :: "char \<Rightarrow> bool" where
  "segment_char c \<longleftrightarrow> is_alnum c \<or> c \<in> {CHR ''.'', CHR ''_'', CHR ''-''}"

text \<open>\<^verbatim>\<open>/^\/(?:[A-Za-z0-9._-]+\/?)+$/\<close>: a slash, then segments with single slashes between or behind.\<close>

definition ABSOLUTE_PATH :: "string \<Rightarrow> bool" where
  "ABSOLUTE_PATH s \<longleftrightarrow> s \<noteq> [] \<and> hd s = CHR ''/'' \<and> tl s \<noteq> [] \<and> list_all (\<lambda>c. segment_char c \<or> c = CHR ''/'') s \<and> \<not> double_slash s"

definition normalized_path :: "string \<Rightarrow> bool" where
  "normalized_path s \<longleftrightarrow> ABSOLUTE_PATH s \<and> \<not> str_includes s ''..''"

text \<open>A release directory below \<open>start\<close> that is not one of the two reserved versions.\<close>

definition candidate_target :: "string \<Rightarrow> string \<Rightarrow> bool" where
  "candidate_target start s \<longleftrightarrow>
     (let name = drop (length start) s in
      starts_with s start \<and> name \<notin> {''0.2.1'', ''0.2.2''} \<and> name \<noteq> [] \<and> list_all segment_char name)"

text \<open>JavaScript's \<open>String(value)\<close>.\<close>

primrec js_string :: "json \<Rightarrow> string" where
  "js_string JNull = ''null''"
| "js_string (JBool b) = (if b then ''true'' else ''false'')"
| "js_string (JNum i) = int_str i"
| "js_string (JStr s) = s"
| "js_string (JArr vs) = join_comma (map (\<lambda>(v, s). if v = JNull then [] else s) (zip vs (map js_string vs)))"
| "js_string (JObj kvs) = ''[object Object]''"

subsection \<open>Assertions on JSON values\<close>

definition assertExactKeys :: "json_object \<Rightarrow> string list \<Rightarrow> string \<Rightarrow> (controller_error, unit) result" where
  "assertExactKeys value required label =
     check (sort (map fst value) = sort required) (invalid_record (label @ '' has unknown or missing fields''))"

definition assertObject :: "json option \<Rightarrow> string \<Rightarrow> (controller_error, json_object) result" where
  "assertObject value label =
     (case value of Some (JObj kvs) \<Rightarrow> Inr kvs | _ \<Rightarrow> Inl (invalid_record (label @ '' must be an object'')))"

text \<open>The assertions on strings return nothing: a value is a string with a property or the record is refused.\<close>

definition string_with :: "(string \<Rightarrow> bool) \<Rightarrow> json option \<Rightarrow> bool" where
  "string_with pattern value = (case value of Some (JStr s) \<Rightarrow> pattern s | _ \<Rightarrow> False)"

definition record_assertIdentifier :: "json option \<Rightarrow> string \<Rightarrow> (controller_error, unit) result" where
  "record_assertIdentifier value label = check (string_with IDENTIFIER_PATTERN value) (invalid_record (label @ '' is invalid''))"

definition record_assertDigest :: "json option \<Rightarrow> string \<Rightarrow> (controller_error, unit) result" where
  "record_assertDigest value label = check (string_with DIGEST_PATTERN value) (invalid_record (label @ '' must be a SHA-256''))"

definition record_assertTimestamp :: "json option \<Rightarrow> string \<Rightarrow> (controller_error, unit) result" where
  "record_assertTimestamp value label =
     res_bind (check (string_with (\<lambda>_. True) value) (invalid_record (label @ '' must be a timestamp''))) (\<lambda>_.
     check (string_with canonical_timestamp value) (invalid_record (label @ '' must be canonical ISO-8601'')))"

definition assertManifestDigests :: "json option \<Rightarrow> (controller_error, unit) result" where
  "assertManifestDigests value =
     res_bind (assertObject value ''candidateManifestDigests'') (\<lambda>item.
     res_bind (assertExactKeys item [''baby'', ''gateway''] ''candidateManifestDigests'') (\<lambda>_.
     res_bind (record_assertDigest (json_prop ''baby'' item) ''candidateManifestDigests.baby'') (\<lambda>_.
     record_assertDigest (json_prop ''gateway'' item) ''candidateManifestDigests.gateway'')))"

definition assertPointer :: "json option \<Rightarrow> string \<Rightarrow> (controller_error, unit) result" where
  "assertPointer value label =
     res_bind (assertObject value label) (\<lambda>item.
     res_bind (assertExactKeys item [''link'', ''target''] label) (\<lambda>_.
     res_bind (check (string_with normalized_path (json_prop ''link'' item))
       (invalid_record (label @ ''.link must be a normalized absolute path''))) (\<lambda>_.
     check (json_prop ''target'' item = Some JNull \<or> string_with normalized_path (json_prop ''target'' item))
       (invalid_record (label @ ''.target must be null or a normalized absolute path'')))))"

text \<open>\<open>value.a.b\<close> of an object that was checked.\<close>

definition sub_prop :: "string \<Rightarrow> string \<Rightarrow> json_object \<Rightarrow> json option" where
  "sub_prop a b item = (case json_prop a item of Some (JObj kvs) \<Rightarrow> json_prop b kvs | _ \<Rightarrow> None)"

definition assert_product_pointers :: "json_object \<Rightarrow> string \<Rightarrow> (controller_error, unit) result" where
  "assert_product_pointers value product =
     (let label = ''expectedPointers.'' @ product in
      res_bind (assertObject (json_prop product value) label) (\<lambda>pointers.
      res_bind (assertExactKeys pointers [''current'', ''previous''] label) (\<lambda>_.
      res_bind (assertPointer (json_prop ''current'' pointers) (label @ ''.current'')) (\<lambda>_.
      assertPointer (json_prop ''previous'' pointers) (label @ ''.previous'')))))"

definition product_root :: "string \<Rightarrow> string" where
  "product_root product = (if product = ''baby'' then ''/opt/baby-quirt/'' else ''/opt/baby-quirt-mcp/'')"

definition pointers_of :: "string \<Rightarrow> json_object \<Rightarrow> json_object" where
  "pointers_of product value = (case json_prop product value of Some (JObj kvs) \<Rightarrow> kvs | _ \<Rightarrow> [])"

definition assert_canonical_pointers :: "json_object \<Rightarrow> string \<Rightarrow> (controller_error, unit) result" where
  "assert_canonical_pointers value product =
     (let label = ''expectedPointers.'' @ product; root = product_root product; typed = pointers_of product value;
          releasePrefix = root @ ''releases/''
      in
      res_bind (check (sub_prop ''current'' ''link'' typed = Some (JStr (root @ ''current''))
          \<and> sub_prop ''previous'' ''link'' typed = Some (JStr (root @ ''previous'')))
        (invalid_record (label @ '' uses a noncanonical link''))) (\<lambda>_.
      res_bind (check (string_with (\<lambda>s. starts_with s releasePrefix) (sub_prop ''current'' ''target'' typed))
        (invalid_record (label @ ''.current must bind a known-good immutable release''))) (\<lambda>_.
      check (sub_prop ''previous'' ''target'' typed = Some JNull
          \<or> string_with (\<lambda>s. starts_with s releasePrefix) (sub_prop ''previous'' ''target'' typed))
        (invalid_record (label @ ''.previous must bind an immutable release'')))))"

definition assertExpectedPointers :: "json option \<Rightarrow> (controller_error, unit) result" where
  "assertExpectedPointers value =
     res_bind (assertObject value ''expectedPointers'') (\<lambda>item.
     res_bind (assertExactKeys item [''baby'', ''gateway''] ''expectedPointers'') (\<lambda>_.
     res_bind (assert_product_pointers item ''baby'') (\<lambda>_.
     res_bind (assert_product_pointers item ''gateway'') (\<lambda>_.
     res_bind (assert_canonical_pointers item ''baby'') (\<lambda>_.
     assert_canonical_pointers item ''gateway'')))))"

definition assertCandidatePointerTargets :: "json option \<Rightarrow> (controller_error, unit) result" where
  "assertCandidatePointerTargets value =
     res_bind (assertObject value ''candidatePointerTargets'') (\<lambda>item.
     res_bind (assertExactKeys item [''baby'', ''gateway''] ''candidatePointerTargets'') (\<lambda>_.
     res_bind (check (string_with (candidate_target ''/opt/baby-quirt/releases/'') (json_prop ''baby'' item))
       (invalid_record ''candidatePointerTargets.baby is invalid or reserved'')) (\<lambda>_.
     check (string_with (candidate_target ''/opt/baby-quirt-mcp/releases/'') (json_prop ''gateway'' item))
       (invalid_record ''candidatePointerTargets.gateway is invalid or reserved''))))"

definition positive_safe_integer :: "json option \<Rightarrow> bool" where
  "positive_safe_integer value = (case value of Some (JNum n) \<Rightarrow> safe_integer n \<and> 1 \<le> n | _ \<Rightarrow> False)"

definition assertIdentityPayload :: "json_object \<Rightarrow> (controller_error, unit) result" where
  "assertIdentityPayload value =
     res_bind (check (json_prop ''recordVersion'' value = Some (JStr CONTROLLER_RECORD_VERSION))
       (invalid_record ''recordVersion is unsupported'')) (\<lambda>_.
     res_bind (record_assertIdentifier (json_prop ''deploymentId'' value) ''deploymentId'') (\<lambda>_.
     res_bind (check (positive_safe_integer (json_prop ''generation'' value))
       (invalid_record ''generation must be a positive safe integer'')) (\<lambda>_.
     res_bind (record_assertIdentifier (json_prop ''machineId'' value) ''machineId'') (\<lambda>_.
     res_bind (record_assertDigest (json_prop ''planDigest'' value) ''planDigest'') (\<lambda>_.
     res_bind (record_assertDigest (json_prop ''snapshotDigest'' value) ''snapshotDigest'') (\<lambda>_.
     res_bind (assertManifestDigests (json_prop ''candidateManifestDigests'' value)) (\<lambda>_.
     res_bind (assertCandidatePointerTargets (json_prop ''candidatePointerTargets'' value)) (\<lambda>_.
     res_bind (record_assertIdentifier (json_prop ''signingKeyId'' value) ''signingKeyId'') (\<lambda>_.
     check (json_prop ''signatureAlgorithm'' value = Some (JStr ''ed25519''))
       (invalid_record ''signatureAlgorithm must be ed25519''))))))))))"

definition assertCommonPayload :: "json_object \<Rightarrow> (controller_error, unit) result" where
  "assertCommonPayload value =
     res_bind (assertIdentityPayload value) (\<lambda>_. record_assertDigest (json_prop ''evidenceDigest'' value) ''evidenceDigest'')"

definition GUARD_PAYLOAD_KEYS :: "string list" where
  "GUARD_PAYLOAD_KEYS = [''recordVersion'', ''recordType'', ''deploymentId'', ''generation'', ''machineId'', ''planDigest'', ''snapshotDigest'',
     ''candidateManifestDigests'', ''candidatePointerTargets'', ''expectedPointers'', ''deadline'', ''evidenceDigest'', ''signingKeyId'',
     ''signatureAlgorithm'']"

definition SUCCESS_PAYLOAD_KEYS :: "string list" where
  "SUCCESS_PAYLOAD_KEYS = [''recordVersion'', ''recordType'', ''deploymentId'', ''generation'', ''machineId'', ''planDigest'', ''snapshotDigest'',
     ''candidateManifestDigests'', ''candidatePointerTargets'', ''evidenceDigest'', ''acceptedAt'', ''signingKeyId'', ''signatureAlgorithm'']"

definition EVIDENCE_PAYLOAD_KEYS :: "string list" where
  "EVIDENCE_PAYLOAD_KEYS = [''recordVersion'', ''recordType'', ''deploymentId'', ''generation'', ''machineId'', ''planDigest'', ''snapshotDigest'',
     ''candidateManifestDigests'', ''candidatePointerTargets'', ''disposition'', ''detailsDigest'', ''occurredAt'', ''signingKeyId'',
     ''signatureAlgorithm'']"

subsection \<open>Signing and verifying\<close>

definition signedRecord :: "('p, 'k) controller_env \<Rightarrow> json_object \<Rightarrow> 'p \<Rightarrow> json_object" where
  "signedRecord env payload privateKey =
     (let recordDigest = ce_sha256 env (canonicalJson (JObj payload));
          document = canonicalJson (JObj (payload @ [(''recordDigest'', JStr recordDigest)]))
      in payload @ [(''recordDigest'', JStr recordDigest), (''signature'', JStr (ce_signEd25519 env privateKey document))])"

text \<open>\<open>Object.fromEntries(keys.map((key) => [key, value[key]]))\<close>, for keys that the object has.\<close>

definition payload_of :: "string list \<Rightarrow> json_object \<Rightarrow> json_object" where
  "payload_of keys value = concat (map (\<lambda>k. opt_entry k (json_prop k value)) keys)"

definition verifyRecordSignature :: "('p, 'k) controller_env \<Rightarrow> json_object \<Rightarrow> string list \<Rightarrow> 'k \<Rightarrow> (controller_error, unit) result" where
  "verifyRecordSignature env value payloadKeys publicKey =
     res_bind (record_assertDigest (json_prop ''recordDigest'' value) ''recordDigest'') (\<lambda>_.
     res_bind (check (string_with (\<lambda>s. \<not> length s < 32) (json_prop ''signature'' value)) (invalid_record ''signature is invalid'')) (\<lambda>_.
     let payload = payload_of payloadKeys value in
     res_bind (check (key_text ''recordDigest'' value = ce_sha256 env (canonicalJson (JObj payload)))
       (controller_failure Controller_integrity_failed ''recordDigest does not match payload'')) (\<lambda>_.
     check (ce_verifyEd25519 env publicKey (canonicalJson (JObj (payload @ [(''recordDigest'', JStr (key_text ''recordDigest'' value))])))
         (key_text ''signature'' value))
       (controller_failure Controller_signature_invalid ''Ed25519 record signature is invalid''))))"

definition assertGuardPayload :: "json_object \<Rightarrow> (controller_error, unit) result" where
  "assertGuardPayload value =
     res_bind (assertExactKeys value GUARD_PAYLOAD_KEYS ''guard payload'') (\<lambda>_.
     res_bind (assertCommonPayload value) (\<lambda>_.
     res_bind (check (json_prop ''recordType'' value = Some (JStr ''baby-quirt-deployment-guard'')) (invalid_record ''guard recordType is invalid'')) (\<lambda>_.
     res_bind (assertExpectedPointers (json_prop ''expectedPointers'' value)) (\<lambda>_.
     record_assertTimestamp (json_prop ''deadline'' value) ''deadline''))))"

definition assertSuccessPayload :: "json_object \<Rightarrow> (controller_error, unit) result" where
  "assertSuccessPayload value =
     res_bind (assertExactKeys value SUCCESS_PAYLOAD_KEYS ''success payload'') (\<lambda>_.
     res_bind (assertCommonPayload value) (\<lambda>_.
     res_bind (check (json_prop ''recordType'' value = Some (JStr ''baby-quirt-deployment-success'')) (invalid_record ''success recordType is invalid'')) (\<lambda>_.
     record_assertTimestamp (json_prop ''acceptedAt'' value) ''acceptedAt'')))"

definition assertEvidencePayload :: "json_object \<Rightarrow> (controller_error, unit) result" where
  "assertEvidencePayload value =
     res_bind (assertExactKeys value EVIDENCE_PAYLOAD_KEYS ''controller evidence payload'') (\<lambda>_.
     res_bind (assertIdentityPayload value) (\<lambda>_.
     res_bind (check (json_prop ''recordType'' value = Some (JStr ''baby-quirt-controller-evidence'')) (invalid_record ''evidence recordType is invalid'')) (\<lambda>_.
     res_bind (check (\<exists>d \<in> set_option (json_prop ''disposition'' value). js_string d \<in> set DISPOSITIONS)
       (invalid_record ''controller disposition is invalid'')) (\<lambda>_.
     res_bind (record_assertDigest (json_prop ''detailsDigest'' value) ''detailsDigest'') (\<lambda>_.
     record_assertTimestamp (json_prop ''occurredAt'' value) ''occurredAt'')))))"

definition buildSignedGuardRecord :: "('p, 'k) controller_env \<Rightarrow> json_object \<Rightarrow> 'p \<Rightarrow> (controller_error, json_object) result" where
  "buildSignedGuardRecord env payload privateKey =
     res_bind (assertGuardPayload payload) (\<lambda>_. Inr (signedRecord env payload privateKey))"

definition buildSignedSuccessMarker :: "('p, 'k) controller_env \<Rightarrow> json_object \<Rightarrow> 'p \<Rightarrow> (controller_error, json_object) result" where
  "buildSignedSuccessMarker env payload privateKey =
     res_bind (assertSuccessPayload payload) (\<lambda>_. Inr (signedRecord env payload privateKey))"

definition buildSignedControllerEvidence :: "('p, 'k) controller_env \<Rightarrow> json_object \<Rightarrow> 'p \<Rightarrow> (controller_error, json_object) result" where
  "buildSignedControllerEvidence env payload privateKey =
     res_bind (assertEvidencePayload payload) (\<lambda>_. Inr (signedRecord env payload privateKey))"

text \<open>The three verifiers differ in the keys and the assertion on the payload.\<close>

definition verify_signed :: "('p, 'k) controller_env \<Rightarrow> string list \<Rightarrow> (json_object \<Rightarrow> (controller_error, unit) result) \<Rightarrow> string
    \<Rightarrow> json \<Rightarrow> 'k \<Rightarrow> (controller_error, json_object) result" where
  "verify_signed env payloadKeys assertPayload label value publicKey =
     res_bind (assertObject (Some value) label) (\<lambda>item.
     res_bind (assertExactKeys item (payloadKeys @ [''recordDigest'', ''signature'']) label) (\<lambda>_.
     res_bind (assertPayload (payload_of payloadKeys item)) (\<lambda>_.
     res_bind (verifyRecordSignature env item payloadKeys publicKey) (\<lambda>_.
     Inr item))))"

definition verifySignedGuardRecord :: "('p, 'k) controller_env \<Rightarrow> json \<Rightarrow> 'k \<Rightarrow> (controller_error, json_object) result" where
  "verifySignedGuardRecord env value publicKey = verify_signed env GUARD_PAYLOAD_KEYS assertGuardPayload ''guard record'' value publicKey"

definition verifySignedSuccessMarker :: "('p, 'k) controller_env \<Rightarrow> json \<Rightarrow> 'k \<Rightarrow> (controller_error, json_object) result" where
  "verifySignedSuccessMarker env value publicKey = verify_signed env SUCCESS_PAYLOAD_KEYS assertSuccessPayload ''success marker'' value publicKey"

definition verifySignedControllerEvidence :: "('p, 'k) controller_env \<Rightarrow> json \<Rightarrow> 'k \<Rightarrow> (controller_error, json_object) result" where
  "verifySignedControllerEvidence env value publicKey =
     verify_signed env EVIDENCE_PAYLOAD_KEYS assertEvidencePayload ''controller evidence'' value publicKey"

text \<open>What a success marker has to share with the guard.\<close>

definition marker_matches :: "json_object \<Rightarrow> json_object \<Rightarrow> bool" where
  "marker_matches marker guard \<longleftrightarrow>
     list_all (\<lambda>k. json_prop k marker = json_prop k guard)
       [''deploymentId'', ''generation'', ''machineId'', ''planDigest'', ''snapshotDigest'', ''evidenceDigest'']
     \<and> list_all (\<lambda>(a, b). sub_prop a b marker = sub_prop a b guard)
       [(''candidateManifestDigests'', ''baby''), (''candidateManifestDigests'', ''gateway''),
        (''candidatePointerTargets'', ''baby''), (''candidatePointerTargets'', ''gateway'')]"

definition assertMarkerMatchesGuard :: "json_object \<Rightarrow> json_object \<Rightarrow> (controller_error, unit) result" where
  "assertMarkerMatchesGuard marker guard =
     check (marker_matches marker guard)
       (controller_failure Controller_marker_mismatch ''Success marker does not bind the exact guard generation and evidence'')"

subsection \<open>Records whose keys come back sorted\<close>

text \<open>
  A stored record is read back with its keys in sorted order, in every object of it. No assertion
  sees the difference, and the digests and signatures are those of the same canonical documents.
\<close>

named_theorems record_simps \<open>reading and asserting records whose keys were sorted\<close>

definition sorted_members :: "json_object \<Rightarrow> json_object" where
  "sorted_members kvs = js_object (sort_key fst (map (map_prod id sortKeys) kvs))"

text \<open>Distinct keys and no own \<open>__proto__\<close>, in every object of the value.\<close>

definition plain :: "json \<Rightarrow> bool" where
  "plain v \<longleftrightarrow> wf_json v \<and> proto_free v"

definition plain_option :: "json option \<Rightarrow> bool" where
  "plain_option v = (case v of None \<Rightarrow> True | Some x \<Rightarrow> plain x)"

lemma sortKeys_JObj [record_simps]: "sortKeys (JObj kvs) = JObj (sorted_members kvs)"
  by (simp add: sorted_members_def)

lemma plain_JObj: "plain (JObj kvs) \<longleftrightarrow>
    distinct (map fst kvs) \<and> ''__proto__'' \<notin> set (map fst kvs) \<and> (\<forall>(k, v)\<in>set kvs. plain v)"
  unfolding plain_def wf_json_JObj proto_free_JObj by auto

lemma plain_prop: "plain (JObj kvs) \<Longrightarrow> plain_option (json_prop k kvs)"
  by (auto simp: plain_JObj plain_option_def json_prop_def dest!: map_of_SomeD split: option.splits)

lemma plain_option_Some [simp]: "plain_option (Some v) = plain v" "plain_option None"
  by (simp_all add: plain_option_def)

lemma prop_sorted [record_simps]:
  "plain (JObj kvs) \<Longrightarrow> json_prop k (sorted_members kvs) = map_option sortKeys (json_prop k kvs)"
  by (simp add: sorted_members_def json_prop_def map_of_sortKeys_entries plain_JObj)

lemma distinct_sorted_members [simp]: "distinct (map fst (sorted_members kvs))"
  by (simp add: sorted_members_def distinct_js_object)

lemma keys_sorted_members:
  assumes "plain (JObj kvs)"
  shows "fst ` set (sorted_members kvs) = fst ` set kvs"
proof -
  have "dom (map_of (sorted_members kvs)) = dom (map_of kvs)"
    using prop_sorted [OF assms] by (auto simp: json_prop_def dom_def)
  then show ?thesis by (simp add: dom_map_of_conv_image_fst)
qed

lemma sort_keys_sorted:
  assumes "plain (JObj kvs)"
  shows "sort (map fst (sorted_members kvs)) = sort (map fst kvs)"
proof (rule properties_for_sort)
  have "distinct (map fst kvs)" using assms by (simp add: plain_JObj)
  then show "mset (sort (map fst kvs)) = mset (map fst (sorted_members kvs))"
    using keys_sorted_members [OF assms] set_eq_iff_mset_eq_distinct [of "map fst kvs" "map fst (sorted_members kvs)"] by simp
qed simp

lemma same_members_sorted:
  assumes "\<And>k. map_option sortKeys (json_prop k kvs) = map_option sortKeys (json_prop k kws)"
    and "distinct (map fst kvs)" "distinct (map fst kws)"
  shows "sorted_members kvs = sorted_members kws"
proof -
  have "sort_key fst (map (map_prod id sortKeys) kvs) = sort_key fst (map (map_prod id sortKeys) kws)"
    using assms by (intro sort_key_same_map) (auto simp: comp_def fun_eq_iff map_of_map_prod json_prop_def)
  then show ?thesis by (simp add: sorted_members_def)
qed

lemma canonicalJson_sorted: "canonicalJson (JObj kvs) = stringify (JObj (sorted_members kvs))"
  by (simp only: canonicalJson_def sortKeys_JObj)

lemma plain_sorted_members:
  assumes "plain (JObj kvs)" and members: "\<And>k v. (k, v) \<in> set kvs \<Longrightarrow> plain (sortKeys v)"
  shows "plain (JObj (sorted_members kvs))"
proof -
  have keys: "distinct (map fst kvs)" "''__proto__'' \<notin> fst ` set kvs" using assms(1) by (auto simp: plain_JObj)
  have "plain v" if "(k, v) \<in> set (sorted_members kvs)" for k v
    using that members by (auto simp: sorted_members_def dest!: in_js_object)
  then show ?thesis using keys_sorted_members [OF assms(1)] keys by (auto simp: plain_JObj)
qed

lemma plain_sortKeys: "plain v \<Longrightarrow> plain (sortKeys v)"
proof (induction v)
  case (JArr vs)
  then show ?case by (auto simp: plain_def list_all_iff)
next
  case (JObj kvs)
  have "plain (sortKeys v)" if "(k, v) \<in> set kvs" for k v
    using JObj.IH [OF that] JObj.prems that by (auto simp: plain_JObj)
  then show ?case using JObj.prems by (simp only: sortKeys_JObj plain_sorted_members)
qed (simp_all add: plain_def)

lemma sortKeys_idem [record_simps]: "plain v \<Longrightarrow> sortKeys (sortKeys v) = sortKeys v"
proof (induction v)
  case (JArr vs)
  then show ?case by (auto simp: plain_def list_all_iff)
next
  case (JObj kvs)
  let ?n = "sorted_members kvs"
  let ?es = "sort_key fst (map (map_prod id sortKeys) kvs)"
  have "v = sortKeys v" if kv: "(k, v) \<in> set ?n" for k v
  proof -
    obtain w where "(k, w) \<in> set kvs" "v = sortKeys w"
      using in_js_object [OF kv [unfolded sorted_members_def]] by auto
    then show ?thesis using JObj.IH [of "(k, w)" w] JObj.prems by (auto simp: plain_JObj)
  qed
  then have fixed: "map (map_prod id sortKeys) ?n = ?n" by (intro map_idI) (auto simp: map_prod_def split: prod.split)
  have keys: "map fst (map (map_prod id sortKeys) kvs) = map fst kvs" by (simp add: comp_def)
  have "distinct (map fst (map (map_prod id sortKeys) kvs))" unfolding keys using JObj.prems by (simp add: plain_JObj)
  moreover have "map_of ?n = map_of (map (map_prod id sortKeys) kvs)"
    using prop_sorted [OF JObj.prems] by (simp add: fun_eq_iff json_prop_def map_of_map_prod)
  ultimately have "sort_key fst ?n = ?es" by (intro sort_key_same_map) auto
  then show ?case unfolding sortKeys_JObj sorted_members_def [of ?n] fixed by (simp add: sorted_members_def)
qed simp_all

lemma string_with_sorted [record_simps]: "string_with P (map_option sortKeys v) = string_with P v"
  by (auto simp: string_with_def split: option.splits json.splits)

lemma string_with_iff: "string_with P v \<longleftrightarrow> (\<exists>s. v = Some (JStr s) \<and> P s)"
  by (auto simp: string_with_def split: option.splits json.splits)

lemma sorted_eq_atom [record_simps]:
  "sortKeys v = JStr s \<longleftrightarrow> v = JStr s" "sortKeys v = JNum n \<longleftrightarrow> v = JNum n" "sortKeys v = JNull \<longleftrightarrow> v = JNull"
  by (cases v; simp)+

lemma positive_sorted [record_simps]: "positive_safe_integer (map_option sortKeys v) = positive_safe_integer v"
  by (auto simp: positive_safe_integer_def split: option.splits json.splits)

lemma exactKeys_sorted [record_simps]:
  "plain (JObj kvs) \<Longrightarrow> assertExactKeys (sorted_members kvs) required l = assertExactKeys kvs required l"
  by (simp add: assertExactKeys_def sort_keys_sorted)

lemma assertObject_sorted: "assertObject (map_option sortKeys v) l = map_sum id sorted_members (assertObject v l)"
  by (auto simp: assertObject_def record_simps simp del: sortKeys.simps(6) split: option.splits json.splits)

lemma assertObject_Inr [record_simps]: "assertObject v l = Inr kvs \<longleftrightarrow> v = Some (JObj kvs)"
  by (auto simp: assertObject_def split: option.splits json.splits)

text \<open>An assertion that reads an object only through other assertions does not see the order either.\<close>

lemma object_bind_sorted:
  assumes "plain_option v" and "\<And>kvs. plain (JObj kvs) \<Longrightarrow> f (sorted_members kvs) = f kvs"
  shows "res_bind (assertObject (map_option sortKeys v) l) f = res_bind (assertObject v l) f"
  using assms unfolding assertObject_sorted
  by (auto simp: assertObject_def split: option.splits json.splits)

lemmas record_assert_defs = record_assertIdentifier_def record_assertDigest_def record_assertTimestamp_def

lemma record_asserts_sorted [record_simps]:
  "record_assertIdentifier (map_option sortKeys v) l = record_assertIdentifier v l"
  "record_assertDigest (map_option sortKeys v) l = record_assertDigest v l"
  "record_assertTimestamp (map_option sortKeys v) l = record_assertTimestamp v l"
  by (simp_all add: record_assert_defs record_simps)

lemma manifestDigests_sorted [record_simps]:
  "plain_option v \<Longrightarrow> assertManifestDigests (map_option sortKeys v) = assertManifestDigests v"
  unfolding assertManifestDigests_def by (erule object_bind_sorted) (simp add: record_simps)

lemma pointerTargets_sorted [record_simps]:
  "plain_option v \<Longrightarrow> assertCandidatePointerTargets (map_option sortKeys v) = assertCandidatePointerTargets v"
  unfolding assertCandidatePointerTargets_def by (erule object_bind_sorted) (simp add: record_simps)

lemma pointer_sorted [record_simps]: "plain_option v \<Longrightarrow> assertPointer (map_option sortKeys v) l = assertPointer v l"
  unfolding assertPointer_def by (erule object_bind_sorted) (simp add: record_simps)

lemma product_pointers_sorted [record_simps]:
  "plain (JObj kvs) \<Longrightarrow> assert_product_pointers (sorted_members kvs) product = assert_product_pointers kvs product"
  unfolding assert_product_pointers_def Let_def
  by (simp add: prop_sorted plain_prop object_bind_sorted record_simps)

lemma sub_prop_sorted [record_simps]:
  "plain (JObj kvs) \<Longrightarrow> sub_prop a b (sorted_members kvs) = map_option sortKeys (sub_prop a b kvs)"
  using plain_prop [of kvs a] by (auto simp: sub_prop_def record_simps simp del: sortKeys.simps(6) split: option.splits json.splits)

lemma pointers_of_sorted [record_simps]:
  "plain (JObj kvs) \<Longrightarrow> pointers_of a (sorted_members kvs) = sorted_members (pointers_of a kvs)"
  by (auto simp: pointers_of_def record_simps simp del: sortKeys.simps(6) split: option.splits json.splits)
    (simp_all add: sorted_members_def js_object_def)

lemma pointers_of_plain: "plain (JObj kvs) \<Longrightarrow> plain (JObj (pointers_of a kvs))"
  using plain_prop [of kvs a] by (auto simp: pointers_of_def plain_JObj [of "[]"] split: option.splits json.splits)

lemma canonical_pointers_sorted [record_simps]:
  "plain (JObj kvs) \<Longrightarrow> assert_canonical_pointers (sorted_members kvs) product = assert_canonical_pointers kvs product"
  by (simp add: assert_canonical_pointers_def Let_def record_simps pointers_of_plain)

lemma expectedPointers_sorted [record_simps]:
  "plain_option v \<Longrightarrow> assertExpectedPointers (map_option sortKeys v) = assertExpectedPointers v"
  unfolding assertExpectedPointers_def by (erule object_bind_sorted) (simp add: record_simps)

lemma payloads_sorted:
  assumes "plain (JObj kvs)"
  shows "assertIdentityPayload (sorted_members kvs) = assertIdentityPayload kvs"
    and "assertCommonPayload (sorted_members kvs) = assertCommonPayload kvs"
    and "assertGuardPayload (sorted_members kvs) = assertGuardPayload kvs"
    and "assertSuccessPayload (sorted_members kvs) = assertSuccessPayload kvs"
proof -
  show identity: "assertIdentityPayload (sorted_members kvs) = assertIdentityPayload kvs"
    by (simp add: assertIdentityPayload_def record_simps assms plain_prop)
  then show common: "assertCommonPayload (sorted_members kvs) = assertCommonPayload kvs"
    by (simp add: assertCommonPayload_def record_simps assms)
  then show "assertGuardPayload (sorted_members kvs) = assertGuardPayload kvs"
    by (simp add: assertGuardPayload_def record_simps assms plain_prop)
  from common show "assertSuccessPayload (sorted_members kvs) = assertSuccessPayload kvs"
    by (simp add: assertSuccessPayload_def record_simps assms)
qed

lemma js_string_sorted: "js_string (sortKeys v) = js_string v"
proof (induction v)
  case (JArr vs)
  have "map js_string (map sortKeys vs) = map js_string vs" using JArr.IH by simp
  then have "map (\<lambda>(v, s). if v = JNull then [] else s) (zip (map sortKeys vs) (map js_string (map sortKeys vs)))
      = map (\<lambda>(v, s). if v = JNull then [] else s) (zip vs (map js_string vs))"
    by (intro nth_equalityI) (auto simp: record_simps)
  then show ?case by simp
qed simp_all

lemma evidencePayload_sorted:
  assumes "plain (JObj kvs)"
  shows "assertEvidencePayload (sorted_members kvs) = assertEvidencePayload kvs"
  by (simp add: assertEvidencePayload_def payloads_sorted record_simps assms option.set_map js_string_sorted)

subsection \<open>Signed records\<close>

text \<open>What the code relies on in the cryptography of a key pair: digests are lowercase SHA-256 texts,
  signatures are long enough and verify.\<close>

definition key_pair :: "('p, 'k) controller_env \<Rightarrow> 'p \<Rightarrow> 'k \<Rightarrow> bool" where
  "key_pair env privateKey publicKey \<longleftrightarrow>
     (\<forall>d. DIGEST_PATTERN (ce_sha256 env d)) \<and> (\<forall>d. 32 \<le> length (ce_signEd25519 env privateKey d))
     \<and> (\<forall>d. ce_verifyEd25519 env publicKey d (ce_signEd25519 env privateKey d))"

lemma prop_payload_of: "json_prop k (payload_of keys item) = (if k \<in> set keys then json_prop k item else None)"
proof (induction keys)
  case (Cons x keys)
  then show ?case by (cases "json_prop x item") (auto simp: payload_of_def json_prop_def)
qed (simp add: payload_of_def json_prop_def)

lemma keys_payload_of: "map fst (payload_of keys item) = filter (\<lambda>k. json_prop k item \<noteq> None) keys"
proof (induction keys)
  case (Cons x keys)
  then show ?case by (cases "json_prop x item") (auto simp: payload_of_def)
qed (simp add: payload_of_def)

lemma sort_same_mset: "sort xs = sort ys \<longleftrightarrow> mset xs = mset ys"
proof
  show "mset xs = mset ys" if "sort xs = sort ys" using that by (metis mset_sort)
  show "sort xs = sort ys" if "mset xs = mset ys" by (rule properties_for_sort) (simp_all add: that)
qed

lemma exact_keys_perm:
  assumes "sort (map fst item) = sort keys" "distinct keys"
  shows "distinct (map fst item)" "fst ` set item = set keys"
proof -
  have "mset (map fst item) = mset keys" using assms(1) by (simp only: sort_same_mset)
  then show "distinct (map fst item)" "fst ` set item = set keys"
    using assms(2) by (metis mset_eq_imp_distinct_iff, metis mset_eq_setD set_map)
qed

lemma json_prop_None: "json_prop k item = None \<longleftrightarrow> k \<notin> fst ` set item"
  by (simp add: json_prop_def map_of_eq_None_iff)

lemma json_prop_append: "json_prop k (xs @ ys) = (case json_prop k xs of None \<Rightarrow> json_prop k ys | Some v \<Rightarrow> Some v)"
  by (simp add: json_prop_def map_add_def split: option.split)

lemma json_prop_snoc: "k' \<notin> fst ` set p \<Longrightarrow> json_prop k (p @ [(k', d)]) = (if k = k' then Some d else json_prop k p)"
  using map_of_eq_None_iff [of p k'] by (auto simp: json_prop_def map_add_def split: option.split)

lemma key_text_sorted [record_simps]: "plain (JObj kvs) \<Longrightarrow> key_text k (sorted_members kvs) = key_text k kvs"
  by (auto simp: key_text_def record_simps simp del: sortKeys.simps(6) split: option.splits json.splits)

lemma in_opt_entry: "e \<in> set (opt_entry k v) \<longleftrightarrow> (\<exists>x. v = Some x \<and> e = (k, x))"
  by (cases v) auto

text \<open>A kind of record: its keys and the assertion on its payload, which demands exactly these keys
  and does not depend on their order.\<close>

locale record_kind =
  fixes payloadKeys :: "string list"
    and assertPayload :: "json_object \<Rightarrow> (controller_error, unit) result"
  assumes distinct_keys: "distinct payloadKeys"
    and reserved: "''__proto__'' \<notin> set payloadKeys" "''recordDigest'' \<notin> set payloadKeys" "''signature'' \<notin> set payloadKeys"
    and order_blind: "plain (JObj kvs) \<Longrightarrow> assertPayload (sorted_members kvs) = assertPayload kvs"
    and exact_payload: "assertPayload kvs = Inr u \<Longrightarrow> sort (map fst kvs) = sort payloadKeys"
begin

lemma payload_plain:
  assumes "plain (JObj item)"
  shows "plain (JObj (payload_of payloadKeys item))"
proof -
  have "plain v" if "(k, v) \<in> set (payload_of payloadKeys item)" for k v
    using that plain_prop [OF assms, of k] by (auto simp: payload_of_def in_opt_entry)
  moreover have "distinct (map fst (payload_of payloadKeys item))"
    using distinct_keys by (simp add: keys_payload_of)
  ultimately show ?thesis using reserved(1) by (auto simp: plain_JObj keys_payload_of simp flip: set_map)
qed

lemma same_payload:
  assumes "plain (JObj item)" "plain (JObj item')"
    and "\<And>k. k \<in> set payloadKeys \<Longrightarrow> map_option sortKeys (json_prop k item) = map_option sortKeys (json_prop k item')"
  shows "assertPayload (payload_of payloadKeys item) = assertPayload (payload_of payloadKeys item')" (is ?assert)
    and "canonicalJson (JObj (payload_of payloadKeys item)) = canonicalJson (JObj (payload_of payloadKeys item'))" (is ?document)
    and "canonicalJson (JObj (payload_of payloadKeys item @ [(''recordDigest'', d)]))
      = canonicalJson (JObj (payload_of payloadKeys item' @ [(''recordDigest'', d)]))" (is ?signed)
proof -
  let ?p = "payload_of payloadKeys item" and ?q = "payload_of payloadKeys item'"
  have plain: "plain (JObj ?p)" "plain (JObj ?q)" using assms(1,2) by (auto intro: payload_plain)
  have distinct: "distinct (map fst ?p)" "distinct (map fst ?q)" using plain by (simp_all add: plain_JObj)
  have same: "map_option sortKeys (json_prop k ?p) = map_option sortKeys (json_prop k ?q)" for k
    using assms(3) by (simp add: prop_payload_of)
  have sorted: "sorted_members ?p = sorted_members ?q" using same distinct by (rule same_members_sorted)
  then show ?assert using order_blind [OF plain(1)] order_blind [OF plain(2)] by simp
  show ?document using sorted by (simp add: canonicalJson_sorted)
  have "''recordDigest'' \<notin> fst ` set ?p" "''recordDigest'' \<notin> fst ` set ?q"
    using reserved(2) by (auto simp: keys_payload_of simp flip: set_map)
  then have "sorted_members (?p @ [(''recordDigest'', d)]) = sorted_members (?q @ [(''recordDigest'', d)])"
    using distinct same by (intro same_members_sorted) (auto simp: json_prop_snoc)
  then show ?signed by (simp only: canonicalJson_sorted)
qed

text \<open>What a verifier accepts.\<close>

lemma verify_Inr:
  "verify_signed env payloadKeys assertPayload l value publicKey = Inr item \<longleftrightarrow>
     value = JObj item \<and> sort (map fst item) = sort (payloadKeys @ [''recordDigest'', ''signature''])
     \<and> assertPayload (payload_of payloadKeys item) = Inr ()
     \<and> verifyRecordSignature env item payloadKeys publicKey = Inr ()"
  by (auto simp: verify_signed_def res_simps record_simps assertExactKeys_def)

lemma verify_sorted:
  assumes "verify_signed env payloadKeys assertPayload l (JObj item) publicKey = Inr item" "plain (JObj item)"
  shows "verify_signed env payloadKeys assertPayload l (JObj (sorted_members item)) publicKey = Inr (sorted_members item)"
proof -
  have plain: "plain (JObj (sorted_members item))" using plain_sortKeys [OF assms(2)] by (simp only: sortKeys_JObj)
  have "map_option sortKeys (json_prop k item) = map_option sortKeys (json_prop k (sorted_members item))" for k
    using plain_prop [OF assms(2), of k] assms(2) by (cases "json_prop k item") (auto simp: record_simps)
  note same = same_payload [OF assms(2) plain this]
  from assms show ?thesis
    unfolding verify_Inr verifyRecordSignature_def Let_def
    by (simp add: sort_keys_sorted record_simps same)
qed

lemma signed_plain:
  assumes "assertPayload payload = Inr ()" "plain (JObj payload)"
  shows "plain (JObj (signedRecord env payload privateKey))"
proof -
  have "fst ` set payload = set payloadKeys"
    using exact_keys_perm [OF exact_payload [OF assms(1)] distinct_keys] by simp
  then show ?thesis using assms(2) reserved by (auto simp: plain_JObj signedRecord_def Let_def) (auto simp: plain_def)
qed

text \<open>What the code builds is accepted.\<close>

lemma build_verify:
  assumes "assertPayload payload = Inr ()" "plain (JObj payload)" "key_pair env privateKey publicKey"
  shows "verify_signed env payloadKeys assertPayload l (JObj (signedRecord env payload privateKey)) publicKey
    = Inr (signedRecord env payload privateKey)"
proof -
  let ?item = "signedRecord env payload privateKey"
  note keys = exact_keys_perm [OF exact_payload [OF assms(1)] distinct_keys]
  obtain d g where item: "?item = payload @ [(''recordDigest'', JStr d), (''signature'', JStr g)]"
    and d: "d = ce_sha256 env (canonicalJson (JObj payload))"
    and g: "g = ce_signEd25519 env privateKey (canonicalJson (JObj (payload @ [(''recordDigest'', JStr d)])))"
    by (simp add: signedRecord_def Let_def)
  have fresh: "json_prop ''recordDigest'' payload = None" "json_prop ''signature'' payload = None"
    using keys(2) reserved by (auto simp: json_prop_None)
  have payload: "payload_of payloadKeys payload = payload_of payloadKeys ?item"
    using keys(2) unfolding item payload_of_def
    by (intro arg_cong [where f = concat] map_cong) (auto simp: json_prop_append json_prop_None split: option.split)
  have members: "json_prop k (payload_of payloadKeys payload) = json_prop k payload" for k
    using keys(2) json_prop_None [of k payload] by (auto simp: prop_payload_of)
  then have "map_of (payload_of payloadKeys payload) = map_of payload" by (simp add: fun_eq_iff json_prop_def)
  then have same: "sorted_members (payload_of payloadKeys payload) = sorted_members payload"
    using keys(1) distinct_keys by (intro same_members_sorted) (auto simp: json_prop_def keys_payload_of)
  have "assertPayload (payload_of payloadKeys payload) = Inr ()"
    using order_blind [OF assms(2)] order_blind [OF payload_plain [OF assms(2)]] same assms(1) by simp
  moreover have "sort (map fst ?item) = sort (payloadKeys @ [''recordDigest'', ''signature''])"
  proof -
    have "mset (map fst payload) = mset payloadKeys" using exact_payload [OF assms(1)] by (simp only: sort_same_mset)
    then have "mset (map fst ?item) = mset (payloadKeys @ [''recordDigest'', ''signature''])" unfolding item by simp
    then show ?thesis by (simp only: sort_same_mset)
  qed
  moreover have "verifyRecordSignature env ?item payloadKeys publicKey = Inr ()"
  proof -
    have "''recordDigest'' \<notin> fst ` set payload" "''recordDigest'' \<notin> fst ` set (payload_of payloadKeys payload)"
      using keys(2) reserved(2) by (auto simp: keys_payload_of simp flip: set_map)
    then have "sorted_members (payload_of payloadKeys payload @ [(''recordDigest'', JStr d)]) = sorted_members (payload @ [(''recordDigest'', JStr d)])"
      using keys distinct_keys members by (intro same_members_sorted) (auto simp: json_prop_snoc keys_payload_of)
    then have documents: "canonicalJson (JObj (payload_of payloadKeys ?item @ [(''recordDigest'', JStr d)])) = canonicalJson (JObj (payload @ [(''recordDigest'', JStr d)]))"
      "canonicalJson (JObj (payload_of payloadKeys ?item)) = canonicalJson (JObj payload)"
      using same unfolding payload [symmetric] by (simp_all only: canonicalJson_sorted)
    have props: "json_prop ''recordDigest'' ?item = Some (JStr d)" "json_prop ''signature'' ?item = Some (JStr g)"
      using fresh unfolding item json_prop_append by (simp_all add: json_prop_def)
    show ?thesis using assms(3) unfolding verifyRecordSignature_def Let_def
      by (simp add: props key_text_def documents record_assertDigest_def string_with_def) (simp add: d g key_pair_def not_less)
  qed
  ultimately show ?thesis unfolding verify_Inr using payload by simp
qed

end

lemmas payload_key_defs = GUARD_PAYLOAD_KEYS_def SUCCESS_PAYLOAD_KEYS_def EVIDENCE_PAYLOAD_KEYS_def

interpretation guard_kind: record_kind GUARD_PAYLOAD_KEYS assertGuardPayload
  by unfold_locales (simp_all add: payload_key_defs payloads_sorted, simp add: assertGuardPayload_def assertExactKeys_def res_simps payload_key_defs)

interpretation marker_kind: record_kind SUCCESS_PAYLOAD_KEYS assertSuccessPayload
  by unfold_locales (simp_all add: payload_key_defs payloads_sorted, simp add: assertSuccessPayload_def assertExactKeys_def res_simps payload_key_defs)

interpretation evidence_kind: record_kind EVIDENCE_PAYLOAD_KEYS assertEvidencePayload
  by unfold_locales (simp_all add: payload_key_defs evidencePayload_sorted, simp add: assertEvidencePayload_def assertExactKeys_def res_simps payload_key_defs)

subsection \<open>What an accepted record holds\<close>

lemma plain_atoms [simp]: "plain (JStr s)" "plain (JNum n)" "plain JNull" "plain (JBool b)"
  by (simp_all add: plain_def)

lemma plain_exact:
  assumes "sort (map fst kvs) = sort keys" "distinct keys" "''__proto__'' \<notin> set keys"
    and "\<And>k. k \<in> set keys \<Longrightarrow> plain_option (json_prop k kvs)"
  shows "plain (JObj kvs)"
proof -
  note keys = exact_keys_perm [OF assms(1,2)]
  have "plain v" if "(k, v) \<in> set kvs" for k v
    using that keys assms(4) [of k] by (force simp: json_prop_def)
  with keys assms(3) show ?thesis by (auto simp: plain_JObj)
qed

lemma string_with_plain: "string_with P v \<Longrightarrow> plain_option v"
  by (auto simp: string_with_iff)

lemma manifestDigests_plain: "assertManifestDigests v = Inr u \<Longrightarrow> plain_option v"
  by (auto simp: assertManifestDigests_def assertExactKeys_def record_assert_defs res_simps record_simps
    intro!: plain_exact [of _ "[''baby'', ''gateway'']"]) (erule string_with_plain)+

lemma pointerTargets_plain: "assertCandidatePointerTargets v = Inr u \<Longrightarrow> plain_option v"
  by (auto simp: assertCandidatePointerTargets_def assertExactKeys_def res_simps record_simps
    intro!: plain_exact [of _ "[''baby'', ''gateway'']"]) (erule string_with_plain)+

lemma pointer_plain: "assertPointer v l = Inr u \<Longrightarrow> plain_option v"
  by (auto simp: assertPointer_def assertExactKeys_def res_simps record_simps
    intro!: plain_exact [of _ "[''link'', ''target'']"]) (erule string_with_plain)+

lemma product_pointers_plain: "assert_product_pointers kvs product = Inr u \<Longrightarrow> plain_option (json_prop product kvs)"
  by (auto simp: assert_product_pointers_def Let_def assertExactKeys_def res_simps record_simps
    intro!: plain_exact [of _ "[''current'', ''previous'']"]) (erule pointer_plain)+

lemma expectedPointers_plain: "assertExpectedPointers v = Inr u \<Longrightarrow> plain_option v"
  by (auto simp: assertExpectedPointers_def assertExactKeys_def res_simps record_simps
    intro!: plain_exact [of _ "[''baby'', ''gateway'']"]) (erule product_pointers_plain)+

text \<open>The fields that every kind of record has.\<close>

definition identity_fields :: "json_object \<Rightarrow> bool" where
  "identity_fields item \<longleftrightarrow> string_with IDENTIFIER_PATTERN (json_prop ''deploymentId'' item)
     \<and> positive_safe_integer (json_prop ''generation'' item) \<and> string_with IDENTIFIER_PATTERN (json_prop ''machineId'' item)
     \<and> string_with DIGEST_PATTERN (json_prop ''planDigest'' item) \<and> string_with DIGEST_PATTERN (json_prop ''snapshotDigest'' item)
     \<and> assertManifestDigests (json_prop ''candidateManifestDigests'' item) = Inr ()
     \<and> assertCandidatePointerTargets (json_prop ''candidatePointerTargets'' item) = Inr ()"

lemma identityPayload_iff:
  "assertIdentityPayload item = Inr () \<longleftrightarrow> json_prop ''recordVersion'' item = Some (JStr CONTROLLER_RECORD_VERSION)
     \<and> identity_fields item \<and> string_with IDENTIFIER_PATTERN (json_prop ''signingKeyId'' item)
     \<and> json_prop ''signatureAlgorithm'' item = Some (JStr ''ed25519'')"
  by (auto simp: assertIdentityPayload_def identity_fields_def record_assert_defs res_simps)

lemma signature_fields:
  "verifyRecordSignature env item keys publicKey = Inr () \<Longrightarrow> string_with DIGEST_PATTERN (json_prop ''recordDigest'' item)"
  by (auto simp: verifyRecordSignature_def record_assert_defs res_simps)

definition guard_fields :: "json_object \<Rightarrow> bool" where
  "guard_fields guard \<longleftrightarrow> identity_fields guard \<and> string_with DIGEST_PATTERN (json_prop ''evidenceDigest'' guard)
     \<and> assertExpectedPointers (json_prop ''expectedPointers'' guard) = Inr ()
     \<and> string_with canonical_timestamp (json_prop ''deadline'' guard)
     \<and> string_with DIGEST_PATTERN (json_prop ''recordDigest'' guard)"

lemma fields_of_payload:
  "identity_fields (payload_of keys item) \<longleftrightarrow> identity_fields item" if
    "{''deploymentId'', ''generation'', ''machineId'', ''planDigest'', ''snapshotDigest'', ''candidateManifestDigests'',
      ''candidatePointerTargets''} \<subseteq> set keys"
  using that by (simp add: identity_fields_def prop_payload_of)

lemma verified_guard_fields: "verifySignedGuardRecord env value publicKey = Inr guard \<Longrightarrow> guard_fields guard"
  unfolding verifySignedGuardRecord_def guard_kind.verify_Inr
  by (auto simp: assertGuardPayload_def assertCommonPayload_def identityPayload_iff fields_of_payload res_simps record_assert_defs
    prop_payload_of guard_fields_def payload_key_defs dest: signature_fields)

lemma verified_marker_fields: "verifySignedSuccessMarker env value publicKey = Inr marker \<Longrightarrow>
    identity_fields marker \<and> string_with canonical_timestamp (json_prop ''acceptedAt'' marker) \<and> string_with DIGEST_PATTERN (json_prop ''recordDigest'' marker)"
  unfolding verifySignedSuccessMarker_def marker_kind.verify_Inr
  by (auto simp: assertSuccessPayload_def assertCommonPayload_def identityPayload_iff fields_of_payload res_simps record_assert_defs
    prop_payload_of payload_key_defs dest: signature_fields)

lemma join_comma_comma: "CHR '','' \<in> set (join_comma (x # y # ys))"
  by simp

lemma no_comma_in_dispositions: "s \<in> set DISPOSITIONS \<Longrightarrow> CHR '','' \<notin> set s \<and> s \<noteq> [] \<and> s \<noteq> ''[object Object]''"
  by (auto simp: DISPOSITIONS_def)

text \<open>A disposition that \<open>String\<close> turns into one of the known names is that name, possibly inside arrays of one element.\<close>

lemma disposition_plain: "js_string v \<in> set DISPOSITIONS \<Longrightarrow> plain v"
proof (induction v)
  case (JArr vs)
  consider "vs = []" | x where "vs = [x]" | x y ys where "vs = x # y # ys" by (metis neq_Nil_conv)
  then show ?case
  proof cases
    case 1
    with JArr.prems no_comma_in_dispositions show ?thesis by force
  next
    case 2
    with JArr.prems no_comma_in_dispositions [of "[]"] have "js_string x \<in> set DISPOSITIONS" by (auto split: if_splits)
    with 2 JArr.IH show ?thesis by (auto simp: plain_def)
  next
    case 3
    with JArr.prems no_comma_in_dispositions [of "js_string (JArr vs)"] show ?thesis by simp
  qed
next
  case (JObj kvs)
  with no_comma_in_dispositions [of "js_string (JObj kvs)"] show ?case by simp
qed simp_all

lemma positive_plain: "positive_safe_integer v \<Longrightarrow> plain_option v"
  by (auto simp: positive_safe_integer_def split: option.splits json.splits)

lemma atom_plain: "v = Some (JStr s) \<Longrightarrow> plain_option v"
  by simp

lemmas member_plain = string_with_plain positive_plain atom_plain manifestDigests_plain pointerTargets_plain expectedPointers_plain

abbreviation members_plain :: "json_object \<Rightarrow> string list \<Rightarrow> bool" where
  "members_plain item keys \<equiv> list_all (\<lambda>k. plain_option (json_prop k item)) keys"

lemma identityPayload_plain:
  assumes "assertIdentityPayload item = Inr ()"
  shows "members_plain item [''recordVersion'', ''deploymentId'', ''generation'', ''machineId'', ''planDigest'', ''snapshotDigest'',
     ''candidateManifestDigests'', ''candidatePointerTargets'', ''signingKeyId'', ''signatureAlgorithm'']"
  using assms unfolding identityPayload_iff identity_fields_def list.pred_inject
  by (elim conjE, intro conjI list.pred_inject(1)) (erule member_plain)+

context record_kind
begin

lemma payload_plainI:
  assumes "assertPayload item = Inr ()" "members_plain item payloadKeys"
  shows "plain (JObj item)"
  using exact_payload [OF assms(1)] distinct_keys reserved(1) assms(2) by (intro plain_exact) (auto simp: list_all_iff)

end

lemma guardPayload_plain:
  assumes "assertGuardPayload item = Inr ()"
  shows "plain (JObj item)"
proof -
  have facts: "assertIdentityPayload item = Inr ()" "string_with DIGEST_PATTERN (json_prop ''evidenceDigest'' item)"
    "json_prop ''recordType'' item = Some (JStr ''baby-quirt-deployment-guard'')"
    "assertExpectedPointers (json_prop ''expectedPointers'' item) = Inr ()"
    "string_with canonical_timestamp (json_prop ''deadline'' item)"
    using assms by (simp_all add: assertGuardPayload_def assertCommonPayload_def record_assert_defs res_simps)
  note facts(2,5) [THEN string_with_plain] atom_plain [OF facts(3)] expectedPointers_plain [OF facts(4)]
  then have "members_plain item GUARD_PAYLOAD_KEYS"
    using identityPayload_plain [OF facts(1)] unfolding payload_key_defs list.pred_inject by blast
  with assms show ?thesis by (rule guard_kind.payload_plainI)
qed

lemma successPayload_plain:
  assumes "assertSuccessPayload item = Inr ()"
  shows "plain (JObj item)"
proof -
  have facts: "assertIdentityPayload item = Inr ()" "string_with DIGEST_PATTERN (json_prop ''evidenceDigest'' item)"
    "json_prop ''recordType'' item = Some (JStr ''baby-quirt-deployment-success'')"
    "string_with canonical_timestamp (json_prop ''acceptedAt'' item)"
    using assms by (simp_all add: assertSuccessPayload_def assertCommonPayload_def record_assert_defs res_simps)
  note facts(2,4) [THEN string_with_plain] atom_plain [OF facts(3)]
  then have "members_plain item SUCCESS_PAYLOAD_KEYS"
    using identityPayload_plain [OF facts(1)] unfolding payload_key_defs list.pred_inject by blast
  with assms show ?thesis by (rule marker_kind.payload_plainI)
qed

lemma evidencePayload_plain:
  assumes "assertEvidencePayload item = Inr ()"
  shows "plain (JObj item)"
proof -
  have facts: "assertIdentityPayload item = Inr ()" "json_prop ''recordType'' item = Some (JStr ''baby-quirt-controller-evidence'')"
    "\<exists>d \<in> set_option (json_prop ''disposition'' item). js_string d \<in> set DISPOSITIONS"
    "string_with DIGEST_PATTERN (json_prop ''detailsDigest'' item)" "string_with canonical_timestamp (json_prop ''occurredAt'' item)"
    using assms by (simp_all add: assertEvidencePayload_def record_assert_defs res_simps)
  have "plain_option (json_prop ''disposition'' item)" using facts(3) by (auto intro: disposition_plain)
  note this facts(4,5) [THEN string_with_plain] atom_plain [OF facts(2)]
  then have "members_plain item EVIDENCE_PAYLOAD_KEYS"
    using identityPayload_plain [OF facts(1)] unfolding payload_key_defs list.pred_inject by blast
  with assms show ?thesis by (rule evidence_kind.payload_plainI)
qed

context record_kind
begin

lemma verified_plain:
  assumes "verify_signed env payloadKeys assertPayload l value publicKey = Inr item"
    and "\<And>p. assertPayload p = Inr () \<Longrightarrow> plain (JObj p)"
  shows "plain (JObj item)"
proof -
  note accepted = assms(1) [unfolded verify_Inr]
  have "plain (JObj (payload_of payloadKeys item))" using accepted assms(2) by blast
  then have "plain_option (json_prop k item)" if "k \<in> set payloadKeys" for k
    using that plain_prop [of "payload_of payloadKeys item" k] by (simp add: prop_payload_of)
  moreover have "plain_option (json_prop ''recordDigest'' item)" "plain_option (json_prop ''signature'' item)"
    using accepted by (auto simp: verifyRecordSignature_def record_assert_defs res_simps intro: string_with_plain)
  ultimately show ?thesis
    using accepted distinct_keys reserved by (intro plain_exact [of item "payloadKeys @ [''recordDigest'', ''signature'']"]) auto
qed

lemma build_roundtrip:
  assumes "assertPayload payload = Inr ()" "plain (JObj payload)" "key_pair env privateKey publicKey"
    and "\<And>p. assertPayload p = Inr () \<Longrightarrow> plain (JObj p)"
  shows "verify_signed env payloadKeys assertPayload l (sortKeys (JObj (signedRecord env payload privateKey))) publicKey
    = Inr (sorted_members (signedRecord env payload privateKey))"
proof -
  note built = build_verify [OF assms(1-3), of l]
  show ?thesis unfolding sortKeys_JObj by (rule verify_sorted [OF built verified_plain [OF built assms(4)]])
qed

end

lemma verified_guard_plain: "verifySignedGuardRecord env v publicKey = Inr guard \<Longrightarrow> plain (JObj guard)"
  unfolding verifySignedGuardRecord_def by (erule guard_kind.verified_plain) (rule guardPayload_plain)

lemma verified_marker_plain: "verifySignedSuccessMarker env v publicKey = Inr marker \<Longrightarrow> plain (JObj marker)"
  unfolding verifySignedSuccessMarker_def by (erule marker_kind.verified_plain) (rule successPayload_plain)

lemma verified_evidence_plain: "verifySignedControllerEvidence env v publicKey = Inr evidence \<Longrightarrow> plain (JObj evidence)"
  unfolding verifySignedControllerEvidence_def by (erule evidence_kind.verified_plain) (rule evidencePayload_plain)


text \<open>The readers of the controller are handed what the store parses; a stored record was accepted before.\<close>

lemma stored_guard:
  "verifySignedGuardRecord env value publicKey = Inr guard \<Longrightarrow>
     verifySignedGuardRecord env (sortKeys value) publicKey = Inr (sorted_members guard)"
  using guard_kind.verify_sorted [of env _ guard publicKey] verified_guard_plain [of env "value" publicKey guard]
  by (auto simp: verifySignedGuardRecord_def guard_kind.verify_Inr record_simps simp del: sortKeys.simps(6))

lemma stored_marker:
  "verifySignedSuccessMarker env value publicKey = Inr marker \<Longrightarrow>
     verifySignedSuccessMarker env (sortKeys value) publicKey = Inr (sorted_members marker)"
  using marker_kind.verify_sorted [of env _ marker publicKey] verified_marker_plain [of env "value" publicKey marker]
  by (auto simp: verifySignedSuccessMarker_def marker_kind.verify_Inr record_simps simp del: sortKeys.simps(6))

lemma stored_evidence:
  "verifySignedControllerEvidence env value publicKey = Inr evidence \<Longrightarrow>
     verifySignedControllerEvidence env (sortKeys value) publicKey = Inr (sorted_members evidence)"
  using evidence_kind.verify_sorted [of env _ evidence publicKey] verified_evidence_plain [of env "value" publicKey evidence]
  by (auto simp: verifySignedControllerEvidence_def evidence_kind.verify_Inr record_simps simp del: sortKeys.simps(6))

text \<open>
  C24. Records survive signing and storing: a guard record, a success marker and an evidence record
  that the code builds are accepted by the matching verifier, both as built and after a round through
  a file, which brings every object's keys back in sorted order.
\<close>

theorem controller_records_roundtrip:
  assumes "key_pair env privateKey publicKey"
  shows "(\<forall>guard. buildSignedGuardRecord env payload privateKey = Inr guard \<longrightarrow>
      verifySignedGuardRecord env (JObj guard) publicKey = Inr guard
      \<and> verifySignedGuardRecord env (sortKeys (JObj guard)) publicKey = Inr (sorted_members guard))
    \<and> (\<forall>marker. buildSignedSuccessMarker env payload privateKey = Inr marker \<longrightarrow>
      verifySignedSuccessMarker env (JObj marker) publicKey = Inr marker
      \<and> verifySignedSuccessMarker env (sortKeys (JObj marker)) publicKey = Inr (sorted_members marker))
    \<and> (\<forall>evidence. buildSignedControllerEvidence env payload privateKey = Inr evidence \<longrightarrow>
      verifySignedControllerEvidence env (JObj evidence) publicKey = Inr evidence
      \<and> verifySignedControllerEvidence env (sortKeys (JObj evidence)) publicKey = Inr (sorted_members evidence))"
  unfolding buildSignedGuardRecord_def buildSignedSuccessMarker_def buildSignedControllerEvidence_def res_bind_Inr
    verifySignedGuardRecord_def verifySignedSuccessMarker_def verifySignedControllerEvidence_def
  using guard_kind.build_verify [OF _ guardPayload_plain assms] guard_kind.build_roundtrip [OF _ guardPayload_plain assms guardPayload_plain]
    marker_kind.build_verify [OF _ successPayload_plain assms] marker_kind.build_roundtrip [OF _ successPayload_plain assms successPayload_plain]
    evidence_kind.build_verify [OF _ evidencePayload_plain assms] evidence_kind.build_roundtrip [OF _ evidencePayload_plain assms evidencePayload_plain]
  by (simp del: sortKeys.simps(6))

end
