(* ===== verification/Controller_Store.thy ===== *)
theory Controller_Store
  imports Controller_Records Jobs
begin

section \<open>The durable records of the deployment controller\<close>

text \<open>
  Models \<^verbatim>\<open>src/src/controller/storage.ts\<close>. The state is the tree below the controller's state
  directory (regular files by path, and directories), the text of the lock file, and two members that no
  code reads: the history of snapshots that the host adapter was asked to restore, and the moment at which
  the process dies. Messages leave out the path that the code appends. \<open>cs_fault = Some (n, k)\<close> means that \<open>n\<close> more files are created whole and
  that the process dies when \<open>k\<close> bytes of the next one are on the disk. What an action has written before
  it throws stays written.
\<close>

subsection \<open>State and sequencing\<close>

record controller_store =
  cs_files :: "(string list \<times> string) list"
  cs_dirs :: "string list list"
  cs_lock :: "string option"
  cs_restores :: "json_object list"
  cs_fault :: "(nat \<times> nat) option"

type_synonym 'a action = "controller_store \<Rightarrow> controller_store \<times> (controller_error, 'a) result"

definition act_bind :: "'a action \<Rightarrow> ('a \<Rightarrow> 'b action) \<Rightarrow> 'b action" where
  "act_bind m f s = (case m s of (s', Inl e) \<Rightarrow> (s', Inl e) | (s', Inr a) \<Rightarrow> f a s')"

definition act_of :: "(controller_error, 'a) result \<Rightarrow> 'a action" where
  "act_of r s = (s, r)"

definition act_get :: "(controller_store \<Rightarrow> (controller_error, 'a) result) \<Rightarrow> 'a action" where
  "act_get f s = (s, f s)"

abbreviation act_return :: "'a \<Rightarrow> 'a action" where
  "act_return a \<equiv> act_of (Inr a)"

definition file_text :: "controller_store \<Rightarrow> string list \<Rightarrow> string option" where
  "file_text s p = map_of (cs_files s) p"

definition existsSync :: "controller_store \<Rightarrow> string list \<Rightarrow> bool" where
  "existsSync s p \<longleftrightarrow> file_text s p \<noteq> None \<or> p \<in> set (cs_dirs s)"

text \<open>\<open>readdirSync\<close>; the names come in the order of creation, and the code sorts them where the order matters.\<close>

definition readdirSync :: "controller_store \<Rightarrow> string list \<Rightarrow> string list" where
  "readdirSync s d = map last (filter (\<lambda>p. p \<noteq> [] \<and> butlast p = d) (cs_dirs s @ map fst (cs_files s)))"

subsection \<open>Files that are created once\<close>

definition MAX_RECORD_BYTES :: nat where
  "MAX_RECORD_BYTES = 1024 * 1024"

definition utf8_length :: "string \<Rightarrow> nat" where
  "utf8_length t = sum_list (map (\<lambda>c. if code c < 128 then 1 else 2) t)"

definition exactJsonBytes :: "json \<Rightarrow> string" where
  "exactJsonBytes v = canonicalJson v @ [CHR 0x0A]"

definition path_prefixes :: "string list \<Rightarrow> string list list" where
  "path_prefixes p = map (\<lambda>n. take n p) [1..<Suc (length p)]"

definition ensureDirectory :: "string list \<Rightarrow> unit action" where
  "ensureDirectory p s =
     (if \<exists>q\<in>set (path_prefixes p). file_text s q \<noteq> None then (s, Inl (SystemError ''ENOTDIR''))
      else (s\<lparr>cs_dirs := cs_dirs s @ filter (\<lambda>q. q \<notin> set (cs_dirs s)) (path_prefixes p)\<rparr>, Inr ()))"

definition write_new :: "string list \<Rightarrow> string \<Rightarrow> unit action" where
  "write_new p bytes s =
     (case cs_fault s of
        Some (0, k) \<Rightarrow> (s\<lparr>cs_files := cs_files s @ [(p, take k bytes)], cs_fault := None\<rparr>, Inl Crashed)
      | Some (Suc n, k) \<Rightarrow> (s\<lparr>cs_files := cs_files s @ [(p, bytes)], cs_fault := Some (n, k)\<rparr>, Inr ())
      | None \<Rightarrow> (s\<lparr>cs_files := cs_files s @ [(p, bytes)]\<rparr>, Inr ()))"

definition createOnce :: "string list \<Rightarrow> json \<Rightarrow> unit action" where
  "createOnce p v =
     (let bytes = exactJsonBytes v in
      act_bind (act_of (check (\<not> utf8_length bytes > MAX_RECORD_BYTES) (invalid_record ''Controller record exceeds size limit''))) (\<lambda>_.
      act_bind (ensureDirectory (butlast p)) (\<lambda>_ s.
        case file_text s p of
          Some existing \<Rightarrow> (s, check (existing = bytes) (controller_failure Controller_integrity_failed ''Create-once record differs''))
        | None \<Rightarrow> if p \<in> set (cs_dirs s) then (s, Inl (SystemError ''EISDIR'')) else write_new p bytes s)))"

definition parse_record :: "('p, 'k) controller_env \<Rightarrow> string \<Rightarrow> (controller_error, json) result" where
  "parse_record env t =
     res_bind (check (\<not> utf8_length t > MAX_RECORD_BYTES) (controller_failure Controller_integrity_failed ''Unsafe controller record'')) (\<lambda>_.
     case ce_parseJson env t of None \<Rightarrow> Inl JsonSyntaxError | Some v \<Rightarrow> Inr v)"

definition readJson :: "('p, 'k) controller_env \<Rightarrow> controller_store \<Rightarrow> string list \<Rightarrow> (controller_error, json) result" where
  "readJson env s p =
     (case file_text s p of
        Some t \<Rightarrow> parse_record env t
      | None \<Rightarrow> Inl (if p \<in> set (cs_dirs s) then controller_failure Controller_integrity_failed ''Unsafe controller record''
                     else SystemError ''ENOENT''))"

subsection \<open>The lock\<close>

text \<open>\<^verbatim>\<open>stat.slice(stat.lastIndexOf(')') + 2).trim().split(/\s+/u)\<close>\<close>

fun split_spaces :: "string \<Rightarrow> string list" where
  "split_spaces [] = [[]]"
| "split_spaces (c # t) =
     (if is_space c then (case split_spaces t of [] \<Rightarrow> [[]] | w # ws \<Rightarrow> if t \<noteq> [] \<and> is_space (hd t) then w # ws else [] # w # ws)
      else case split_spaces t of [] \<Rightarrow> [[c]] | w # ws \<Rightarrow> (c # w) # ws)"

definition controller_processIdentity :: "os_view \<Rightarrow> int \<Rightarrow> (string \<times> string) option" where
  "controller_processIdentity os pid =
     (case os_stat os pid of
        None \<Rightarrow> None
      | Some stat \<Rightarrow>
          (let tail = (if CHR '')'' \<in> set stat then rev (takeWhile (\<lambda>c. c \<noteq> CHR '')'') (rev stat)) else stat);
               fields = split_spaces (js_trim (drop 1 tail)) in
           if \<not> 19 < length fields \<or> fields ! 19 = [] then None
           else case os_exe os pid of None \<Rightarrow> None | Some exe \<Rightarrow> Some (fields ! 19, exe)))"

definition lock_json :: "int \<Rightarrow> string \<times> string \<Rightarrow> string \<Rightarrow> json" where
  "lock_json pid identity token =
     JObj [(''pid'', JNum pid), (''startTime'', JStr (fst identity)), (''executable'', JStr (snd identity)), (''token'', JStr token)]"

definition isLiveLock :: "os_view \<Rightarrow> json option \<Rightarrow> bool" where
  "isLiveLock os v =
     (case v of
        Some (JObj lock) \<Rightarrow>
          (case (json_prop ''pid'' lock, json_prop ''startTime'' lock, json_prop ''executable'' lock) of
             (Some (JNum pid), Some (JStr startTime), Some (JStr executable)) \<Rightarrow>
               controller_processIdentity os pid = Some (startTime, executable)
           | _ \<Rightarrow> False)
      | _ \<Rightarrow> False)"

definition read_lock :: "('p, 'k) controller_env \<Rightarrow> string \<Rightarrow> json option" where
  "read_lock env t = (case parse_record env t of Inl _ \<Rightarrow> None | Inr v \<Rightarrow> Some v)"

text \<open>The loop of \<open>withGlobalLock\<close>: an absent lock file is created, the lock of a live process is
  respected, any other lock file is moved away and removed.\<close>

primrec lock_attempts :: "nat \<Rightarrow> ('p, 'k) controller_env \<Rightarrow> os_view \<Rightarrow> string \<Rightarrow> unit action" where
  "lock_attempts 0 env os bytes s = (s, Inr ())"
| "lock_attempts (Suc n) env os bytes s =
     (case cs_lock s of
        None \<Rightarrow> (s\<lparr>cs_lock := Some bytes\<rparr>, Inr ())
      | Some t \<Rightarrow>
          if isLiveLock os (read_lock env t) then (s, Inl (controller_failure Controller_lock_busy ''Another fixed controller action is active''))
          else lock_attempts n env os bytes (s\<lparr>cs_lock := None\<rparr>))"

definition release_lock :: "('p, 'k) controller_env \<Rightarrow> string \<Rightarrow> controller_store \<Rightarrow> controller_store" where
  "release_lock env token s =
     (case cs_lock s of
        None \<Rightarrow> s
      | Some t \<Rightarrow> (case read_lock env t of
            Some (JObj current) \<Rightarrow> if json_prop ''token'' current = Some (JStr token) then s\<lparr>cs_lock := None\<rparr> else s
          | _ \<Rightarrow> s))"

definition withGlobalLock :: "('p, 'k) controller_env \<Rightarrow> os_view \<Rightarrow> int \<Rightarrow> string \<Rightarrow> 'a action \<Rightarrow> 'a action" where
  "withGlobalLock env os pid token action =
     (case controller_processIdentity os pid of
        None \<Rightarrow> act_of (Inl (controller_failure Controller_integrity_failed ''Cannot establish strong process identity''))
      | Some identity \<Rightarrow>
          act_bind (lock_attempts 2 env os (exactJsonBytes (lock_json pid identity token))) (\<lambda>_.
          act_bind (act_get (\<lambda>s. check (cs_lock s \<noteq> None) (controller_failure Controller_lock_busy ''Unable to acquire controller lock''))) (\<lambda>_ s.
          case action s of
            (s', Inl Crashed) \<Rightarrow> (s', Inl Crashed)
          | (s', r) \<Rightarrow> (release_lock env token s', r))))"

subsection \<open>Records of a deployment\<close>

definition assertDeploymentId :: "string \<Rightarrow> (controller_error, unit) result" where
  "assertDeploymentId deploymentId =
     check (IDENTIFIER_PATTERN deploymentId \<and> CHR ''/'' \<notin> set deploymentId) (invalid_record ''Invalid deployment identifier'')"

definition deploymentRoot :: "string \<Rightarrow> (controller_error, string list) result" where
  "deploymentRoot deploymentId = res_bind (assertDeploymentId deploymentId) (\<lambda>_. Inr [''deployments'', deploymentId])"

definition num_prop :: "string \<Rightarrow> json_object \<Rightarrow> int" where
  "num_prop k item = (case json_prop k item of Some (JNum n) \<Rightarrow> n | _ \<Rightarrow> 0)"

definition new_controller_store :: controller_store where
  "new_controller_store =
     \<lparr>cs_files = [], cs_dirs = [[''deployments''], [''generations'']], cs_lock = None, cs_restores = [], cs_fault = None\<rparr>"

definition generation_path :: "int \<Rightarrow> string list" where
  "generation_path generation = [''generations'', padStart 20 (int_str generation) @ ''.json'']"

definition generation_json :: "json_object \<Rightarrow> json" where
  "generation_json guard = JObj (
     opt_entry ''deploymentId'' (json_prop ''deploymentId'' guard) @ opt_entry ''generation'' (json_prop ''generation'' guard) @
     opt_entry ''guardRecordDigest'' (json_prop ''recordDigest'' guard))"

definition writeGuard :: "json_object \<Rightarrow> unit action" where
  "writeGuard guard =
     act_bind (act_of (deploymentRoot (key_text ''deploymentId'' guard))) (\<lambda>root.
     act_bind (ensureDirectory root) (\<lambda>_.
     act_bind (ensureDirectory (root @ [''evidence''])) (\<lambda>_.
     act_bind (createOnce (root @ [''guard.json'']) (JObj guard)) (\<lambda>_.
     createOnce (generation_path (num_prop ''generation'' guard)) (generation_json guard)))))"

definition readGuard :: "('p, 'k) controller_env \<Rightarrow> string \<Rightarrow> controller_store \<Rightarrow> (controller_error, json) result" where
  "readGuard env deploymentId s =
     res_bind (deploymentRoot deploymentId) (\<lambda>root.
     res_bind (check (existsSync s (root @ [''guard.json''])) (controller_failure Controller_not_found ''Guard record not found'')) (\<lambda>_.
     readJson env s (root @ [''guard.json''])))"

definition writeSuccessMarker :: "json_object \<Rightarrow> unit action" where
  "writeSuccessMarker marker =
     act_bind (act_of (deploymentRoot (key_text ''deploymentId'' marker))) (\<lambda>root. createOnce (root @ [''success.json'']) (JObj marker))"

definition read_if_exists :: "('p, 'k) controller_env \<Rightarrow> controller_store \<Rightarrow> string list \<Rightarrow> (controller_error, json option) result" where
  "read_if_exists env s p = (if existsSync s p then res_bind (readJson env s p) (\<lambda>v. Inr (Some v)) else Inr None)"

definition readSuccessMarker :: "('p, 'k) controller_env \<Rightarrow> string \<Rightarrow> controller_store \<Rightarrow> (controller_error, json option) result" where
  "readSuccessMarker env deploymentId s =
     res_bind (deploymentRoot deploymentId) (\<lambda>root. read_if_exists env s (root @ [''success.json'']))"

definition write_audit :: "string list \<Rightarrow> json_object \<Rightarrow> unit action" where
  "write_audit root evidence = createOnce (root @ [''evidence'', key_text ''recordDigest'' evidence @ ''.json'']) (JObj evidence)"

definition writeEvidence :: "json_object \<Rightarrow> unit action" where
  "writeEvidence evidence =
     (let disposition = json_prop ''disposition'' evidence in
      act_bind (act_of (deploymentRoot (key_text ''deploymentId'' evidence))) (\<lambda>root.
      act_bind (write_audit root evidence) (\<lambda>_.
      act_bind (if disposition = Some (JStr ''disarmed'') then createOnce (root @ [''disarmed.json'']) (JObj evidence) else act_return ()) (\<lambda>_.
      if disposition = Some (JStr ''rolled_back'') \<or> disposition = Some (JStr ''rollback_failed'')
      then createOnce (root @ [''rollback.json'']) (JObj evidence) else act_return ()))))"

definition recovery_name :: "json_object \<Rightarrow> string" where
  "recovery_name evidence =
     padStart 16 (int_str (time_of (key_text ''occurredAt'' evidence))) @ ''-'' @ key_text ''recordDigest'' evidence @ ''.json''"

definition writeManualRecoveryEvidence :: "json_object \<Rightarrow> unit action" where
  "writeManualRecoveryEvidence evidence =
     act_bind (act_of (deploymentRoot (key_text ''deploymentId'' evidence))) (\<lambda>root.
     act_bind (write_audit root evidence) (\<lambda>_.
     act_bind (ensureDirectory (root @ [''manual-recovery''])) (\<lambda>_.
     createOnce (root @ [''manual-recovery'', recovery_name evidence]) (JObj evidence))))"

definition readTerminalEvidence :: "('p, 'k) controller_env \<Rightarrow> string \<Rightarrow> controller_store \<Rightarrow> (controller_error, json option) result" where
  "readTerminalEvidence env deploymentId s =
     res_bind (deploymentRoot deploymentId) (\<lambda>root.
     let attempts = root @ [''manual-recovery''];
         names = (if existsSync s attempts then sort (readdirSync s attempts) else [])
     in if names \<noteq> [] then res_bind (readJson env s (attempts @ [last names])) (\<lambda>v. Inr (Some v))
        else if existsSync s (root @ [''disarmed.json'']) then read_if_exists env s (root @ [''disarmed.json''])
        else read_if_exists env s (root @ [''rollback.json'']))"

definition generation_name :: "string \<Rightarrow> bool" where
  "generation_name name \<longleftrightarrow> length name = 25 \<and> list_all is_digit (take 20 name) \<and> drop 20 name = ''.json''"

definition latestGeneration :: "controller_store \<Rightarrow> (controller_error, int) result" where
  "latestGeneration s =
     res_bind (res_map (\<lambda>name. res_bind (check (generation_name name)
         (controller_failure Controller_integrity_failed (''Unexpected generation record '' @ name))) (\<lambda>_. Inr (int (digits_val (take 20 name)))))
       (readdirSync s [''generations''])) (\<lambda>numbers. Inr (foldl max 0 numbers))"

definition guard_active :: "controller_store \<Rightarrow> string \<Rightarrow> bool" where
  "guard_active s deploymentId \<longleftrightarrow> existsSync s [''deployments'', deploymentId, ''guard.json'']
     \<and> \<not> existsSync s [''deployments'', deploymentId, ''disarmed.json'']
     \<and> \<not> existsSync s [''deployments'', deploymentId, ''rollback.json'']"

definition activeGuardIds :: "controller_store \<Rightarrow> (controller_error, string list) result" where
  "activeGuardIds s =
     res_bind (res_map (\<lambda>deploymentId. res_bind (assertDeploymentId deploymentId) (\<lambda>_.
         res_bind (check ([''deployments'', deploymentId] \<in> set (cs_dirs s))
           (controller_failure Controller_integrity_failed ''Unsafe deployment root'')) (\<lambda>_. Inr deploymentId)))
       (readdirSync s [''deployments''])) (\<lambda>ids. Inr (filter (guard_active s) ids))"

end
