(* ===== verification/Controller.thy ===== *)
theory Controller
  imports Controller_Store Interfaces
begin

section \<open>The deployment controller\<close>

text \<open>
  Models \<^verbatim>\<open>src/src/controller/controller.ts\<close>: \<open>FixedDeploymentController\<close> with its six operations
  over the record store. The host adapter and the clock are arguments; each call of
  \<open>restoreSnapshot\<close> is entered into the history \<open>cs_restores\<close>. A call names the process that makes it,
  its lock token and the moment at which it dies, so a run is any sequence of controller processes,
  some of which crash between or within their writes.
\<close>

subsection \<open>Reading verified records\<close>

record controller_host =
  ho_readPointers :: "json_object \<Rightarrow> json option"
  ho_restoreSnapshot :: "json_object \<Rightarrow> (bool \<times> json_object) option"

record controller_status =
  cst_deploymentId :: string
  cst_generation :: int
  cst_disposition :: json
  cst_guardRecordDigest :: string
  cst_evidence :: "json_object option"

definition json_falsy :: "json \<Rightarrow> bool" where
  "json_falsy v \<longleftrightarrow> v \<in> {JNull, JBool False, JNum 0, JStr []}"

definition assertMachine :: "('p, 'k) controller_env \<Rightarrow> string \<Rightarrow> (controller_error, unit) result" where
  "assertMachine env machineId =
     check (machineId = ce_machineId env)
       (controller_failure Controller_machine_mismatch ''Signed controller record targets another machine'')"

definition verifyGuard :: "('p, 'k) controller_env \<Rightarrow> json \<Rightarrow> (controller_error, json_object) result" where
  "verifyGuard env input =
     res_bind (verifySignedGuardRecord env input (ce_babyAuthorityPublicKey env)) (\<lambda>guard.
     res_bind (assertMachine env (key_text ''machineId'' guard)) (\<lambda>_. Inr guard))"

definition loadGuard :: "('p, 'k) controller_env \<Rightarrow> string \<Rightarrow> controller_store \<Rightarrow> (controller_error, json_object) result" where
  "loadGuard env deploymentId s = res_bind (readGuard env deploymentId s) (verifyGuard env)"

definition valid_marker :: "('p, 'k) controller_env \<Rightarrow> json_object \<Rightarrow> json \<Rightarrow> (controller_error, json_object) result" where
  "valid_marker env guard raw =
     res_bind (verifySignedSuccessMarker env raw (ce_babyAuthorityPublicKey env)) (\<lambda>marker.
     res_bind (assertMarkerMatchesGuard marker guard) (\<lambda>_.
     res_bind (assertMachine env (key_text ''machineId'' marker)) (\<lambda>_. Inr marker)))"

definition loadValidMarker :: "('p, 'k) controller_env \<Rightarrow> json_object \<Rightarrow> controller_store \<Rightarrow> (controller_error, json_object option) result" where
  "loadValidMarker env guard s =
     res_bind (readSuccessMarker env (key_text ''deploymentId'' guard) s) (\<lambda>raw.
     Inr (case raw of
        None \<Rightarrow> None
      | Some v \<Rightarrow> if json_falsy v then None else (case valid_marker env guard v of Inl _ \<Rightarrow> None | Inr marker \<Rightarrow> Some marker)))"

definition readVerifiedTerminal :: "('p, 'k) controller_env \<Rightarrow> string \<Rightarrow> controller_store \<Rightarrow> (controller_error, json_object option) result" where
  "readVerifiedTerminal env deploymentId s =
     res_bind (readTerminalEvidence env deploymentId s) (\<lambda>raw.
     case raw of
       None \<Rightarrow> Inr None
     | Some v \<Rightarrow>
         if json_falsy v then Inr None
         else res_bind (verifySignedControllerEvidence env v (ce_controllerEvidencePublicKey env)) (\<lambda>evidence.
              res_bind (assertMachine env (key_text ''machineId'' evidence)) (\<lambda>_. Inr (Some evidence))))"

subsection \<open>Evidence and status\<close>

definition evidence_payload :: "('p, 'k) controller_env \<Rightarrow> int \<Rightarrow> json_object \<Rightarrow> controller_disposition \<Rightarrow> json_object \<Rightarrow> json_object" where
  "evidence_payload env now guard disposition details =
     [(''recordVersion'', JStr CONTROLLER_RECORD_VERSION), (''recordType'', JStr ''baby-quirt-controller-evidence'')]
     @ payload_of [''deploymentId'', ''generation'', ''machineId'', ''planDigest'', ''snapshotDigest'', ''candidateManifestDigests'', ''candidatePointerTargets''] guard
     @ [(''disposition'', JStr (disposition_name disposition)), (''detailsDigest'', JStr (ce_sha256 env (canonicalJson (JObj details)))),
        (''occurredAt'', JStr (to_iso now)), (''signingKeyId'', JStr (ce_controllerSigningKeyId env)), (''signatureAlgorithm'', JStr ''ed25519'')]"

definition new_evidence :: "('p, 'k) controller_env \<Rightarrow> int \<Rightarrow> json_object \<Rightarrow> controller_disposition \<Rightarrow> json_object \<Rightarrow> (controller_error, json_object) result" where
  "new_evidence env now guard disposition details =
     buildSignedControllerEvidence env (evidence_payload env now guard disposition details) (ce_controllerEvidencePrivateKey env)"

definition controller_status_of :: "json_object \<Rightarrow> json \<Rightarrow> json_object option \<Rightarrow> controller_status" where
  "controller_status_of guard disposition evidence =
     \<lparr>cst_deploymentId = key_text ''deploymentId'' guard, cst_generation = num_prop ''generation'' guard, cst_disposition = disposition,
      cst_guardRecordDigest = key_text ''recordDigest'' guard, cst_evidence = evidence\<rparr>"

definition disposition_of :: "json_object \<Rightarrow> json" where
  "disposition_of evidence = (case json_prop ''disposition'' evidence of None \<Rightarrow> JNull | Some d \<Rightarrow> d)"

definition pointersDigest :: "('p, 'k) controller_env \<Rightarrow> json \<Rightarrow> string" where
  "pointersDigest env v = ce_sha256 env (canonicalJson v)"

text \<open>The end of most operations: build evidence, store it, report it.\<close>

definition record_evidence :: "('p, 'k) controller_env \<Rightarrow> int \<Rightarrow> json_object \<Rightarrow> controller_disposition \<Rightarrow> json_object \<Rightarrow> controller_status action" where
  "record_evidence env now guard disposition details =
     act_bind (act_of (new_evidence env now guard disposition details)) (\<lambda>evidence.
     act_bind (writeEvidence evidence) (\<lambda>_.
     act_return (controller_status_of guard (JStr (disposition_name disposition)) (Some evidence))))"

definition restoreSnapshot :: "controller_host \<Rightarrow> json_object \<Rightarrow> (bool \<times> json_object) action" where
  "restoreSnapshot host guard s =
     (s\<lparr>cs_restores := cs_restores s @ [guard]\<rparr>, case ho_restoreSnapshot host guard of None \<Rightarrow> Inl HostError | Some r \<Rightarrow> Inr r)"

definition rollback_disposition :: "bool \<Rightarrow> controller_disposition" where
  "rollback_disposition completed = (if completed then Rolled_back else Rollback_failed)"

definition json_prop_json :: "string \<Rightarrow> json_object \<Rightarrow> json" where
  "json_prop_json k item = (case json_prop k item of None \<Rightarrow> JNull | Some v \<Rightarrow> v)"

subsection \<open>Operations\<close>

definition arm :: "('p, 'k) controller_env \<Rightarrow> controller_host \<Rightarrow> int \<Rightarrow> json \<Rightarrow> controller_status action" where
  "arm env host now input =
     act_bind (act_of (verifyGuard env input)) (\<lambda>guard.
     let deploymentId = key_text ''deploymentId'' guard; generation = num_prop ''generation'' guard in
     act_bind (act_of (check (\<not> time_of (key_text ''deadline'' guard) \<le> now)
       (controller_failure Controller_deadline_invalid ''Guard deadline must be in the future''))) (\<lambda>_.
     act_bind (act_get activeGuardIds) (\<lambda>active.
     act_bind (act_of (check (\<not> (\<exists>d\<in>set active. d \<noteq> deploymentId))
       (ControllerError Controller_active_guard_conflict ''A different deployment guard is already active''
          [(''activeDeploymentIds'', string_array active)]))) (\<lambda>_.
     if deploymentId \<in> set active then
       act_bind (act_get (loadGuard env deploymentId)) (\<lambda>existing.
       act_bind (act_of (check (key_text ''recordDigest'' existing = key_text ''recordDigest'' guard)
         (controller_failure Controller_generation_conflict ''Deployment guard retry changed the signed intent''))) (\<lambda>_.
       act_return (controller_status_of existing (JStr ''armed'') None)))
     else
       act_bind (act_get latestGeneration) (\<lambda>latest.
       act_bind (act_of (check (\<not> (latest > generation \<or> latest = generation \<and> deploymentId \<notin> set active))
         (ControllerError Controller_generation_conflict ''Guard generation is stale or already belongs to another deployment''
            [(''latest'', JNum latest), (''requested'', JNum generation)]))) (\<lambda>_.
       act_bind (act_of (case ho_readPointers host guard of None \<Rightarrow> Inl HostError | Some p \<Rightarrow> Inr p)) (\<lambda>actualPointers.
       act_bind (act_of (check (canonicalJson actualPointers = canonicalJson (json_prop_json ''expectedPointers'' guard))
         (ControllerError Controller_pointer_mismatch ''Host pointers differ from the signed pre-mutation expectation''
            [(''expectedDigest'', JStr (pointersDigest env (json_prop_json ''expectedPointers'' guard))),
             (''actualDigest'', JStr (pointersDigest env actualPointers))]))) (\<lambda>_.
       act_bind (writeGuard guard) (\<lambda>_.
       record_evidence env now guard Armed
         (opt_entry ''guardRecordDigest'' (json_prop ''recordDigest'' guard) @ [(''pointerDigest'', JStr (pointersDigest env actualPointers))]))))))))))"

definition commitSuccess :: "('p, 'k) controller_env \<Rightarrow> int \<Rightarrow> json \<Rightarrow> controller_status action" where
  "commitSuccess env now input =
     act_bind (act_of (verifySignedSuccessMarker env input (ce_babyAuthorityPublicKey env))) (\<lambda>marker.
     act_bind (act_get (loadGuard env (key_text ''deploymentId'' marker))) (\<lambda>guard.
     act_bind (act_of (assertMarkerMatchesGuard marker guard)) (\<lambda>_.
     act_bind (act_of (assertMachine env (key_text ''machineId'' marker))) (\<lambda>_.
     act_bind (act_of (check (\<not> time_of (key_text ''acceptedAt'' marker) > now)
       (controller_failure Controller_marker_mismatch ''Success marker is from the future''))) (\<lambda>_.
     act_bind (writeSuccessMarker marker) (\<lambda>_.
     record_evidence env now guard Success_marker_valid (opt_entry ''successMarkerDigest'' (json_prop ''recordDigest'' marker))))))))"

definition disarm :: "('p, 'k) controller_env \<Rightarrow> int \<Rightarrow> string \<Rightarrow> controller_status action" where
  "disarm env now deploymentId =
     act_bind (act_get (loadGuard env deploymentId)) (\<lambda>guard.
     act_bind (act_get (readVerifiedTerminal env deploymentId)) (\<lambda>terminal.
     case terminal of
       Some evidence \<Rightarrow>
         if json_prop ''disposition'' evidence = Some (JStr ''disarmed'')
         then act_return (controller_status_of guard (JStr ''disarmed'') (Some evidence))
         else act_of (Inl (controller_failure Controller_marker_mismatch ''A rolled-back guard cannot be disarmed as successful''))
     | None \<Rightarrow>
         act_bind (act_get (loadValidMarker env guard)) (\<lambda>marker.
         case marker of
           None \<Rightarrow> act_of (Inl (controller_failure Controller_marker_mismatch ''Exact valid success marker is required before disarm''))
         | Some marker \<Rightarrow>
             record_evidence env now guard Disarmed
               (opt_entry ''successMarkerDigest'' (json_prop ''recordDigest'' marker) @ opt_entry ''guardRecordDigest'' (json_prop ''recordDigest'' guard)))))"

definition evaluate :: "('p, 'k) controller_env \<Rightarrow> controller_host \<Rightarrow> int \<Rightarrow> string \<Rightarrow> controller_status action" where
  "evaluate env host now deploymentId =
     act_bind (act_get (loadGuard env deploymentId)) (\<lambda>guard.
     act_bind (act_get latestGeneration) (\<lambda>latest.
     if num_prop ''generation'' guard < latest then record_evidence env now guard Stale_generation [(''latestGeneration'', JNum latest)]
     else
       act_bind (act_get (readVerifiedTerminal env deploymentId)) (\<lambda>terminal.
       case terminal of
         Some evidence \<Rightarrow> act_return (controller_status_of guard (disposition_of evidence) (Some evidence))
       | None \<Rightarrow>
           act_bind (act_get (loadValidMarker env guard)) (\<lambda>marker.
           case marker of
             Some marker \<Rightarrow>
               record_evidence env now guard Success_marker_valid (opt_entry ''successMarkerDigest'' (json_prop ''recordDigest'' marker))
           | None \<Rightarrow>
               if now < time_of (key_text ''deadline'' guard) then
                 act_bind (act_get (readSuccessMarker env deploymentId)) (\<lambda>raw.
                 record_evidence env now guard Pending
                   (opt_entry ''deadline'' (json_prop ''deadline'' guard) @ [(''markerPresent'', JBool (raw \<noteq> None))]))
               else
                 act_bind (restoreSnapshot host guard) (\<lambda>(completed, details).
                 record_evidence env now guard (rollback_disposition completed) details)))))"

definition controller_read :: "('p, 'k) controller_env \<Rightarrow> string \<Rightarrow> controller_status action" where
  "controller_read env deploymentId =
     act_bind (act_get (loadGuard env deploymentId)) (\<lambda>guard.
     act_bind (act_get (readVerifiedTerminal env deploymentId)) (\<lambda>terminal.
     case terminal of
       Some evidence \<Rightarrow> act_return (controller_status_of guard (disposition_of evidence) (Some evidence))
     | None \<Rightarrow>
         act_bind (act_get (loadValidMarker env guard)) (\<lambda>marker.
         act_return (controller_status_of guard (JStr (if marker \<noteq> None then ''success_marker_valid'' else ''armed'')) None))))"

definition reason_char :: "char \<Rightarrow> bool" where
  "reason_char c \<longleftrightarrow> is_alnum c \<or> c \<in> {CHR '' '', CHR ''.'', CHR '','', CHR ''_'', CHR '':'', CHR ''-''}"

definition valid_reason :: "string \<Rightarrow> bool" where
  "valid_reason reason \<longleftrightarrow> reason \<noteq> [] \<and> is_alnum (hd reason) \<and> chars_between reason_char 7 511 (tl reason)
     \<and> \<not> list_ex (\<lambda>c. c \<in> set '';&|`$<>'' \<or> c = CHR 0x5C) reason"

text \<open>The end of \<open>manualRecover\<close>, once the host has answered.\<close>

definition record_recovery :: "('p, 'k) controller_env \<Rightarrow> int \<Rightarrow> json_object \<Rightarrow> json_object \<Rightarrow> string \<Rightarrow> bool \<times> json_object \<Rightarrow> controller_status action" where
  "record_recovery env now guard prior reason answer =
     (let disposition = rollback_disposition (fst answer);
          details = js_set ''priorFailureEvidenceDigest'' (json_prop_json ''recordDigest'' prior)
            (js_set ''reasonDigest'' (JStr (ce_sha256 env reason)) (js_set ''breakGlass'' (JBool True) (snd answer)))
      in
      act_bind (act_of (new_evidence env now guard disposition details)) (\<lambda>evidence.
      act_bind (writeManualRecoveryEvidence evidence) (\<lambda>_.
      act_return (controller_status_of guard (JStr (disposition_name disposition)) (Some evidence)))))"

definition manualRecover :: "('p, 'k) controller_env \<Rightarrow> controller_host \<Rightarrow> int \<Rightarrow> string \<Rightarrow> string \<Rightarrow> string \<Rightarrow> controller_status action" where
  "manualRecover env host now deploymentId snapshotDigest reason =
     act_bind (act_of (check (valid_reason reason) (invalid_record ''Manual recovery reason is invalid''))) (\<lambda>_.
     act_bind (act_get (loadGuard env deploymentId)) (\<lambda>guard.
     act_bind (act_of (check (key_text ''snapshotDigest'' guard = snapshotDigest)
       (controller_failure Controller_marker_mismatch ''Manual recovery snapshot fence failed''))) (\<lambda>_.
     act_bind (act_get (readVerifiedTerminal env deploymentId)) (\<lambda>terminal.
     case terminal of
       None \<Rightarrow> act_of (Inl (controller_failure Controller_rollback_failed ''Manual recovery is allowed only after a recorded rollback failure''))
     | Some prior \<Rightarrow>
         if json_prop ''disposition'' prior \<noteq> Some (JStr ''rollback_failed'')
         then act_of (Inl (controller_failure Controller_rollback_failed ''Manual recovery is allowed only after a recorded rollback failure''))
         else
           act_bind (restoreSnapshot host guard) (record_recovery env now guard prior reason)))))"

subsection \<open>Calls\<close>

datatype controller_request =
    Arm json | CommitSuccess json | Disarm string | Evaluate string | Read string | ManualRecover string string string

text \<open>A call: the request with what the process finds around it.\<close>

record controller_call =
  cc_request :: controller_request
  cc_now :: int
  cc_host :: controller_host
  cc_os :: os_view
  cc_pid :: int
  cc_token :: string
  cc_fault :: "(nat \<times> nat) option"

primrec controller_action :: "('p, 'k) controller_env \<Rightarrow> controller_host \<Rightarrow> int \<Rightarrow> controller_request \<Rightarrow> controller_status action" where
  "controller_action env host now (Arm input) = arm env host now input"
| "controller_action env host now (CommitSuccess input) = commitSuccess env now input"
| "controller_action env host now (Disarm d) = disarm env now d"
| "controller_action env host now (Evaluate d) = evaluate env host now d"
| "controller_action env host now (Read d) = controller_read env d"
| "controller_action env host now (ManualRecover d digest reason) = manualRecover env host now d digest reason"

definition locked_action :: "('p, 'k) controller_env \<Rightarrow> controller_call \<Rightarrow> controller_status action" where
  "locked_action env c =
     (let action = controller_action env (cc_host c) (cc_now c) (cc_request c) in
      case cc_request c of Read d \<Rightarrow> action | _ \<Rightarrow> withGlobalLock env (cc_os c) (cc_pid c) (cc_token c) action)"

definition controller_step :: "('p, 'k) controller_env \<Rightarrow> controller_call \<Rightarrow> controller_store
    \<Rightarrow> (controller_error, controller_store \<times> (controller_error, controller_status) result) result" where
  "controller_step env c s = Inr (locked_action env c (s\<lparr>cs_fault := cc_fault c\<rparr>))"

end
