(* ===== verification/Controller_Audit.thy ===== *)
theory Controller_Audit
  imports Controller
begin

section \<open>What the controller guarantees over all runs\<close>

text \<open>
  The rules below prove statements about actions construct by construct: \<open>keeps R\<close> for relations
  that hold between the store before and after, whatever the result, and \<open>triple I P\<close> for an invariant \<open>I\<close>
  that holds again after the action, thrown errors and crashes included, with a postcondition for the
  returned value. The theorems show that records are created once and never change, that at most one guard is
  active, that no deployment is both disarmed and rolled back, and when a snapshot is restored.
\<close>

subsection \<open>Rules for actions\<close>

definition keeps :: "(controller_store \<Rightarrow> controller_store \<Rightarrow> bool) \<Rightarrow> 'a action \<Rightarrow> bool" where
  "keeps R a \<longleftrightarrow> (\<forall>s. R s (fst (a s)))"

definition triple :: "(controller_store \<Rightarrow> bool) \<Rightarrow> (controller_store \<Rightarrow> bool) \<Rightarrow> 'a action \<Rightarrow> ('a \<Rightarrow> controller_store \<Rightarrow> bool) \<Rightarrow> bool" where
  "triple I P a Q \<longleftrightarrow> (\<forall>s. I s \<longrightarrow> P s \<longrightarrow> I (fst (a s)) \<and> (\<forall>v. snd (a s) = Inr v \<longrightarrow> Q v (fst (a s))))"

abbreviation anything :: "'a \<Rightarrow> controller_store \<Rightarrow> bool" where
  "anything v s \<equiv> True"

lemma keepsD: "keeps R a \<Longrightarrow> R s (fst (a s))"
  by (simp add: keeps_def)

named_theorems action_rules \<open>one rule per construct\<close>

lemma act_bind_cases:
  obtains (thrown) e where "snd (m s) = Inl e" "act_bind m f s = (fst (m s), Inl e)"
  | (returned) a where "snd (m s) = Inr a" "act_bind m f s = f a (fst (m s))"
  by (cases "m s"; cases "snd (m s)") (auto simp: act_bind_def)

lemma act_simps [simp]:
  "act_of r s = (s, r)" "act_get g s = (s, g s)" "act_bind (act_of (Inr v)) f = f v" "act_bind (act_of (Inl e)) f = act_of (Inl e)"
  by (auto simp: act_of_def act_get_def act_bind_def)

lemma act_bind_Inr:
  "act_bind m f s = (s'', Inr b) \<longleftrightarrow> (\<exists>s' a. m s = (s', Inr a) \<and> f a s' = (s'', Inr b))"
  by (cases "m s") (auto simp: act_bind_def split: sum.splits)

locale action_order =
  fixes R :: "controller_store \<Rightarrow> controller_store \<Rightarrow> bool"
  assumes refl: "R s s"
    and trans: "R s t \<Longrightarrow> R t u \<Longrightarrow> R s u"
begin

lemma keeps_of: "keeps R (act_of r)" "keeps R (act_get g)"
  by (simp_all add: keeps_def refl)

lemma keeps_bind:
  assumes "keeps R m" "\<And>a. keeps R (f a)"
  shows "keeps R (act_bind m f)"
  unfolding keeps_def
proof
  fix s
  show "R s (fst (act_bind m f s))"
    using assms by (cases rule: act_bind_cases [of m s f]) (auto simp: keeps_def intro: trans)
qed

lemma keeps_if: "(b \<Longrightarrow> keeps R a) \<Longrightarrow> (\<not> b \<Longrightarrow> keeps R c) \<Longrightarrow> keeps R (if b then a else c)"
  by simp

lemma keeps_option: "keeps R a \<Longrightarrow> (\<And>v. keeps R (f v)) \<Longrightarrow> keeps R (case x of None \<Rightarrow> a | Some v \<Rightarrow> f v)"
  by (cases x) simp_all

lemma keeps_pair: "(\<And>u v. keeps R (f u v)) \<Longrightarrow> keeps R (case x of (u, v) \<Rightarrow> f u v)"
  by (cases x) simp

lemmas keeps_rules = keeps_of keeps_bind keeps_if keeps_option keeps_pair

end

lemma triple_of [action_rules]: "(\<And>v s. I s \<Longrightarrow> P s \<Longrightarrow> r = Inr v \<Longrightarrow> Q v s) \<Longrightarrow> triple I P (act_of r) Q"
  by (simp add: triple_def)

lemma triple_get [action_rules]: "(\<And>v s. I s \<Longrightarrow> P s \<Longrightarrow> g s = Inr v \<Longrightarrow> Q v s) \<Longrightarrow> triple I P (act_get g) Q"
  by (simp add: triple_def)

lemma triple_bind:
  assumes "triple I P m Q" "\<And>a. triple I (Q a) (f a) S"
  shows "triple I P (act_bind m f) S"
  unfolding triple_def
proof (intro allI impI)
  fix s assume "I s" "P s"
  then show "I (fst (act_bind m f s)) \<and> (\<forall>v. snd (act_bind m f s) = Inr v \<longrightarrow> S v (fst (act_bind m f s)))"
    using assms by (cases rule: act_bind_cases [of m s f]) (auto simp: triple_def)
qed

text \<open>After reading, the state is the same and the value is what was read.\<close>

lemma triple_bind_get [action_rules]:
  assumes "\<And>a. triple I (\<lambda>s. P s \<and> g s = Inr a) (f a) S"
  shows "triple I P (act_bind (act_get g) f) S"
  using assms by (intro triple_bind [of _ _ _ "\<lambda>a s. P s \<and> g s = Inr a"]) (auto intro: triple_get)

lemma triple_bind_of [action_rules]:
  assumes "\<And>a. r = Inr a \<Longrightarrow> triple I P (f a) S"
  shows "triple I P (act_bind (act_of r) f) S"
  using assms by (intro triple_bind [of _ _ _ "\<lambda>a s. P s \<and> r = Inr a"] triple_of) (auto simp: triple_def)

lemma triple_pre: "triple I P' a Q \<Longrightarrow> (\<And>s. I s \<Longrightarrow> P s \<Longrightarrow> P' s) \<Longrightarrow> triple I P a Q"
  by (auto simp: triple_def)

lemma triple_post: "triple I P a Q \<Longrightarrow> (\<And>v s. I s \<Longrightarrow> Q v s \<Longrightarrow> Q' v s) \<Longrightarrow> triple I P a Q'"
  by (auto simp: triple_def)

lemma triple_if [action_rules]: "(b \<Longrightarrow> triple I P a Q) \<Longrightarrow> (\<not> b \<Longrightarrow> triple I P c Q) \<Longrightarrow> triple I P (if b then a else c) Q"
  by simp

lemma triple_option [action_rules]:
  "(x = None \<Longrightarrow> triple I P a Q) \<Longrightarrow> (\<And>v. x = Some v \<Longrightarrow> triple I P (f v) Q) \<Longrightarrow> triple I P (case x of None \<Rightarrow> a | Some v \<Rightarrow> f v) Q"
  by (cases x) simp_all

lemma triple_pair [action_rules]: "(\<And>u v. x = (u, v) \<Longrightarrow> triple I P (f u v) Q) \<Longrightarrow> triple I P (case x of (u, v) \<Rightarrow> f u v) Q"
  by (cases x) simp

subsection \<open>Records are created once\<close>

definition store_grows :: "controller_store \<Rightarrow> controller_store \<Rightarrow> bool" where
  "store_grows s s' \<longleftrightarrow> (\<forall>p t. file_text s p = Some t \<longrightarrow> file_text s' p = Some t)
     \<and> set (cs_dirs s) \<subseteq> set (cs_dirs s') \<and> (\<exists>rs. cs_restores s' = cs_restores s @ rs)"

interpretation growth: action_order store_grows
  by unfold_locales (auto simp: store_grows_def)

lemma store_grows_simps [simp]: "store_grows s (s\<lparr>cs_lock := l\<rparr>)" "store_grows s (s\<lparr>cs_fault := f\<rparr>)"
  by (simp_all add: store_grows_def file_text_def)

text \<open>What creating one file does: directories above it may be added, and the file, if it was not there.
  Its text is the document or, after a crash, a beginning of it.\<close>

definition created :: "string list \<Rightarrow> json_object \<Rightarrow> controller_store \<Rightarrow> controller_store \<Rightarrow> bool" where
  "created p kvs s s' \<longleftrightarrow>
     (\<exists>ds fs. cs_files s' = cs_files s @ fs \<and> cs_dirs s' = cs_dirs s @ ds \<and> cs_lock s' = cs_lock s \<and> cs_restores s' = cs_restores s
        \<and> set ds \<subseteq> set (path_prefixes (butlast p))
        \<and> (fs = [] \<or> (\<exists>k. fs = [(p, take k (exactJsonBytes (JObj kvs)))] \<and> \<not> existsSync s p
              \<and> set (path_prefixes (butlast p)) \<subseteq> set (cs_dirs s'))))"

lemma write_new_state:
  "\<exists>k. cs_files (fst (write_new p bytes s)) = cs_files s @ [(p, take k bytes)] \<and> cs_dirs (fst (write_new p bytes s)) = cs_dirs s
     \<and> cs_lock (fst (write_new p bytes s)) = cs_lock s \<and> cs_restores (fst (write_new p bytes s)) = cs_restores s"
  by (auto simp: write_new_def split: option.split nat.split intro: exI [of _ "length bytes"])

lemma write_new_Inr:
  "write_new p bytes s = (s', Inr u) \<Longrightarrow> cs_files s' = cs_files s @ [(p, bytes)]"
  by (auto simp: write_new_def split: option.splits nat.splits)

lemma created_refl: "created p kvs s s"
  by (simp add: created_def)

lemma ensureDirectory_state:
  "fst (ensureDirectory q s) = s \<or>
   (\<exists>ds. fst (ensureDirectory q s) = s\<lparr>cs_dirs := cs_dirs s @ ds\<rparr> \<and> set ds \<subseteq> set (path_prefixes q)
      \<and> set (path_prefixes q) \<subseteq> set (cs_dirs s @ ds))"
  by (auto simp: ensureDirectory_def)

lemma ensureDirectory_Inr:
  "ensureDirectory q s = (s', Inr u) \<Longrightarrow>
     (\<exists>ds. s' = s\<lparr>cs_dirs := cs_dirs s @ ds\<rparr> \<and> set ds \<subseteq> set (path_prefixes q) \<and> set (path_prefixes q) \<subseteq> set (cs_dirs s @ ds))"
  by (auto simp: ensureDirectory_def split: if_splits)

lemma file_text_dirs [simp]: "file_text (s\<lparr>cs_dirs := d\<rparr>) p = file_text s p" "file_text (s\<lparr>cs_fault := f\<rparr>) p = file_text s p"
    "file_text (s\<lparr>cs_lock := l\<rparr>) p = file_text s p" "file_text (s\<lparr>cs_restores := r\<rparr>) p = file_text s p"
  by (simp_all add: file_text_def)

lemma createOnce_created: "created p kvs s (fst (createOnce p (JObj kvs) s))"
proof -
  define dir where "dir = ensureDirectory (butlast p) s"
  consider "fst (createOnce p (JObj kvs) s) = s"
    | s' where "dir = (s', Inr ())" "fst (createOnce p (JObj kvs) s) = s'"
    | s' where "dir = (s', Inr ())" "\<not> existsSync s' p" "fst (createOnce p (JObj kvs) s) = fst (write_new p (exactJsonBytes (JObj kvs)) s')"
  proof (cases "utf8_length (exactJsonBytes (JObj kvs)) > MAX_RECORD_BYTES")
    case True
    then show ?thesis using that(1) by (simp add: createOnce_def Let_def)
  next
    case False
    show ?thesis
    proof (cases "snd dir")
      case (Inl e)
      then have "dir = (s, Inl e)" by (auto simp: dir_def ensureDirectory_def split: if_splits)
      with False that(1) show ?thesis by (simp add: dir_def createOnce_def Let_def act_bind_def)
    next
      case (Inr u)
      then obtain s' where dir: "dir = (s', Inr ())" by (cases dir) auto
      have "createOnce p (JObj kvs) s = (case file_text s' p of
          Some existing \<Rightarrow> (s', check (existing = exactJsonBytes (JObj kvs)) (controller_failure Controller_integrity_failed ''Create-once record differs''))
        | None \<Rightarrow> if p \<in> set (cs_dirs s') then (s', Inl (SystemError ''EISDIR'')) else write_new p (exactJsonBytes (JObj kvs)) s')"
        using False dir by (simp add: dir_def createOnce_def Let_def act_bind_def)
      with dir that(2,3) show ?thesis by (cases "file_text s' p"; cases "p \<in> set (cs_dirs s')") (simp_all add: existsSync_def)
    qed
  qed
  then show ?thesis
  proof cases
    case 1
    then show ?thesis by (simp add: created_refl)
  next
    case 2
    with ensureDirectory_Inr [of "butlast p" s s' "()"] show ?thesis by (auto simp: created_def dir_def)
  next
    case 3
    then obtain ds where ds: "s' = s\<lparr>cs_dirs := cs_dirs s @ ds\<rparr>" "set ds \<subseteq> set (path_prefixes (butlast p))"
      "set (path_prefixes (butlast p)) \<subseteq> set (cs_dirs s @ ds)"
      using ensureDirectory_Inr [of "butlast p" s s' "()"] by (auto simp: dir_def)
    then have "\<not> existsSync s p" using 3(2) by (auto simp: existsSync_def)
    moreover obtain k where "cs_files (fst (createOnce p (JObj kvs) s)) = cs_files s @ [(p, take k (exactJsonBytes (JObj kvs)))]"
      "cs_dirs (fst (createOnce p (JObj kvs) s)) = cs_dirs s @ ds" "cs_lock (fst (createOnce p (JObj kvs) s)) = cs_lock s"
      "cs_restores (fst (createOnce p (JObj kvs) s)) = cs_restores s"
      using write_new_state [of p "exactJsonBytes (JObj kvs)" s'] 3(3) ds(1) by auto
    ultimately show ?thesis using ds(2,3) unfolding created_def by auto
  qed
qed

lemma created_grows: "created p kvs s s' \<Longrightarrow> store_grows s s'"
  by (auto simp: created_def store_grows_def file_text_def existsSync_def map_add_def split: option.splits)

named_theorems growing \<open>actions that only add to the store\<close>

lemma grow_createOnce [growing]: "keeps store_grows (createOnce p (JObj kvs))"
  unfolding keeps_def by (blast intro: created_grows createOnce_created)

lemma grow_ensureDirectory [growing]: "keeps store_grows (ensureDirectory q)"
  by (auto simp: keeps_def ensureDirectory_def store_grows_def)

lemma grow_restoreSnapshot [growing]: "keeps store_grows (restoreSnapshot host guard)"
  by (auto simp: keeps_def restoreSnapshot_def store_grows_def)

lemma generation_json_JObj: "\<exists>kvs. generation_json guard = JObj kvs"
  by (simp add: generation_json_def)

lemma grow_writes [growing]:
  "keeps store_grows (writeGuard guard)" "keeps store_grows (writeSuccessMarker marker)" "keeps store_grows (write_audit root evidence)"
  "keeps store_grows (writeEvidence evidence)" "keeps store_grows (writeManualRecoveryEvidence evidence)"
  unfolding writeGuard_def writeSuccessMarker_def write_audit_def writeEvidence_def writeManualRecoveryEvidence_def Let_def generation_json_def
  by (intro growth.keeps_rules growing)+

lemma grow_operations [growing]:
  "keeps store_grows (record_evidence env now guard disposition details)"
  "keeps store_grows (arm env host now input)" "keeps store_grows (commitSuccess env now input)" "keeps store_grows (disarm env now d)"
  "keeps store_grows (evaluate env host now d)" "keeps store_grows (controller_read env d)"
  "keeps store_grows (manualRecover env host now d digest reason)"
proof -
  show evidence: "keeps store_grows (record_evidence env now guard disposition details)" for guard disposition details
    unfolding record_evidence_def by (intro growth.keeps_rules growing)
  have recovery: "keeps store_grows (record_recovery env now guard prior reason answer)" for guard prior answer
    unfolding record_recovery_def Let_def by (intro growth.keeps_rules growing)
  show "keeps store_grows (arm env host now input)" "keeps store_grows (commitSuccess env now input)" "keeps store_grows (disarm env now d)"
    "keeps store_grows (evaluate env host now d)" "keeps store_grows (controller_read env d)"
    "keeps store_grows (manualRecover env host now d digest reason)"
    unfolding arm_def commitSuccess_def disarm_def evaluate_def controller_read_def manualRecover_def Let_def
    by (intro growth.keeps_rules growing evidence recovery)+
qed

lemma grow_action [growing]: "keeps store_grows (controller_action env host now request)"
  by (cases request) (simp_all add: growing)

lemma lock_attempts_state: "\<exists>l. fst (lock_attempts n env os bytes s) = s\<lparr>cs_lock := l\<rparr>"
proof (induction n arbitrary: s)
  case 0
  then show ?case by (auto intro: exI [of _ "cs_lock s"])
next
  case (Suc n)
  show ?case
    using Suc.IH [of "s\<lparr>cs_lock := None\<rparr>"] by (auto split: option.split intro: exI [of _ "cs_lock s"])
qed

lemma release_lock_state: "\<exists>l. release_lock env token s = s\<lparr>cs_lock := l\<rparr>"
  by (auto simp: release_lock_def split: option.split json.split intro: exI [of _ "cs_lock s"])

text \<open>A locked action is the action, but for the lock file, or it is refused.\<close>

lemma withGlobalLock_state:
  obtains (refused) l e where "withGlobalLock env os pid token action s = (s\<lparr>cs_lock := l\<rparr>, Inl e)"
  | (performed) l l' where "fst (withGlobalLock env os pid token action s) = (fst (action (s\<lparr>cs_lock := l\<rparr>)))\<lparr>cs_lock := l'\<rparr>"
      "snd (withGlobalLock env os pid token action s) = snd (action (s\<lparr>cs_lock := l\<rparr>))"
proof (cases "controller_processIdentity os pid")
  case None
  then show thesis using refused [of "cs_lock s"] by (simp add: withGlobalLock_def)
next
  case (Some identity)
  let ?bytes = "exactJsonBytes (lock_json pid identity token)"
  obtain l where l: "fst (lock_attempts 2 env os ?bytes s) = s\<lparr>cs_lock := l\<rparr>" using lock_attempts_state by metis
  show thesis
  proof (cases "snd (lock_attempts 2 env os ?bytes s) = Inr () \<and> l \<noteq> None")
    case True
    obtain s' r where action: "action (s\<lparr>cs_lock := l\<rparr>) = (s', r)" by (cases "action (s\<lparr>cs_lock := l\<rparr>)")
    have "withGlobalLock env os pid token action s =
        (case action (s\<lparr>cs_lock := l\<rparr>) of (s', Inl Crashed) \<Rightarrow> (s', Inl Crashed) | (s', r) \<Rightarrow> (release_lock env token s', r))"
      using True l Some by (cases "lock_attempts 2 env os ?bytes s") (auto simp: withGlobalLock_def act_bind_def)
    then have "withGlobalLock env os pid token action s = (if r = Inl Crashed then s' else release_lock env token s', r)"
      unfolding action by (auto split: sum.split controller_error.split)
    moreover obtain l' where "release_lock env token s' = s'\<lparr>cs_lock := l'\<rparr>" using release_lock_state [of env token s'] by blast
    ultimately show thesis
      using performed [of l' l] performed [of "cs_lock s'" l] action by (cases "r = Inl Crashed") simp_all
  next
    case False
    then show thesis using l Some refused [of l]
      by (cases "lock_attempts 2 env os ?bytes s"; cases "snd (lock_attempts 2 env os ?bytes s)") (auto simp: withGlobalLock_def act_bind_def)
  qed
qed

lemma store_grows_lock: "store_grows s s' \<Longrightarrow> store_grows (s\<lparr>cs_lock := l\<rparr>) (s'\<lparr>cs_lock := l'\<rparr>)" "store_grows (s\<lparr>cs_lock := l\<rparr>) s' \<Longrightarrow> store_grows s s'"
  by (simp_all add: store_grows_def file_text_def)

lemma grow_locked [growing]: "keeps store_grows (locked_action env c)"
proof -
  have "store_grows s (fst (withGlobalLock env os pid token (controller_action env host now request) s))" for os pid token host now request s
  proof (cases rule: withGlobalLock_state [of env os pid token "controller_action env host now request" s])
    case (refused l e)
    then show ?thesis by simp
  next
    case (performed l l')
    have "store_grows (s\<lparr>cs_lock := l\<rparr>) (fst (controller_action env host now request (s\<lparr>cs_lock := l\<rparr>)))"
      by (rule keepsD) (rule grow_action)
    then show ?thesis unfolding performed(1) using store_grows_lock by (metis store_grows_simps(1) growth.trans)
  qed
  moreover have "store_grows s (fst (controller_action env host now request s))" for host now request s
    by (rule keepsD) (rule grow_action)
  ultimately show ?thesis by (simp add: keeps_def locked_action_def Let_def del: controller_action.simps split: controller_request.split)
qed

subsection \<open>The invariant\<close>

abbreviation mark :: "string \<Rightarrow> string \<Rightarrow> string list" where
  "mark d name \<equiv> [''deployments'', d, name]"

definition record_names :: "string set" where
  "record_names = {''guard.json'', ''success.json'', ''disarmed.json'', ''rollback.json''}"

definition audit_dirs :: "string set" where
  "audit_dirs = {''evidence'', ''manual-recovery''}"

text \<open>The files and directories that the code makes.\<close>

definition store_path :: "string list \<Rightarrow> bool" where
  "store_path p \<longleftrightarrow> (\<exists>x. p = [''generations'', x]) \<or> (\<exists>d x. p = mark d x \<and> x \<in> record_names)
     \<or> (\<exists>d e x. p = [''deployments'', d, e, x] \<and> e \<in> audit_dirs)"

definition store_dir :: "string list \<Rightarrow> bool" where
  "store_dir q \<longleftrightarrow> q \<in> {[''deployments''], [''generations'']} \<or> (\<exists>d. q = [''deployments'', d])
     \<or> (\<exists>d e. q = [''deployments'', d, e] \<and> e \<in> audit_dirs)"

text \<open>A record lies in the directory of its deployment, and terminal records say what ended it.\<close>

definition rollback_record :: "json_object \<Rightarrow> bool" where
  "rollback_record kvs \<longleftrightarrow> json_prop ''disposition'' kvs \<in> {Some (JStr ''rolled_back''), Some (JStr ''rollback_failed'')}"

definition fits :: "string list \<Rightarrow> json_object \<Rightarrow> bool" where
  "fits p kvs \<longleftrightarrow> plain (JObj kvs) \<and> (\<forall>d q. p = ''deployments'' # d # q \<longrightarrow> key_text ''deploymentId'' kvs = d)
     \<and> (\<forall>d. p = mark d ''disarmed.json'' \<longrightarrow> json_prop ''disposition'' kvs = Some (JStr ''disarmed''))
     \<and> (\<forall>d. p = mark d ''rollback.json'' \<longrightarrow> rollback_record kvs)
     \<and> (\<forall>d x. p = [''deployments'', d, ''manual-recovery'', x] \<longrightarrow> rollback_record kvs)"

definition tree_inv :: "controller_store \<Rightarrow> bool" where
  "tree_inv s \<longleftrightarrow> (\<forall>q\<in>set (cs_dirs s). store_dir q)
     \<and> (\<forall>(p, t)\<in>set (cs_files s). store_path p \<and> set (path_prefixes (butlast p)) \<subseteq> set (cs_dirs s)
          \<and> (\<exists>kvs k. fits p kvs \<and> t = take k (exactJsonBytes (JObj kvs))))"

definition controller_inv :: "controller_store \<Rightarrow> bool" where
  "controller_inv s \<longleftrightarrow> tree_inv s
     \<and> (\<forall>d d'. guard_active s d \<longrightarrow> guard_active s d' \<longrightarrow> d = d')
     \<and> (\<forall>d. \<not> (existsSync s (mark d ''disarmed.json'') \<and> existsSync s (mark d ''rollback.json'')))
     \<and> (\<forall>d x. existsSync s [''deployments'', d, ''manual-recovery'', x] \<longrightarrow> existsSync s (mark d ''rollback.json''))"

lemma path_prefixes_simps [simp]:
  "path_prefixes [a] = [[a]]" "path_prefixes [a, b] = [[a], [a, b]]" "path_prefixes [a, b, c] = [[a], [a, b], [a, b, c]]"
  by (simp_all add: path_prefixes_def upt_rec)

lemma store_path_cases:
  assumes "store_path p"
  obtains (generation) x where "p = [''generations'', x]" | (mark) d x where "p = mark d x" "x \<in> record_names"
  | (audit) d e x where "p = [''deployments'', d, e, x]" "e \<in> audit_dirs"
  using assms unfolding store_path_def by blast

lemma store_dirI:
  "store_dir [''deployments'']" "store_dir [''generations'']" "store_dir [''deployments'', d]"
  "e \<in> audit_dirs \<Longrightarrow> store_dir [''deployments'', d, e]"
  by (simp_all add: store_dir_def)

lemma prefixes_of_store_path:
  assumes "store_path p" "q \<in> set (path_prefixes (butlast p))"
  shows "store_dir q"
  using assms by (cases rule: store_path_cases) (auto intro: store_dirI)

lemma not_store_dir: "x \<in> record_names \<Longrightarrow> \<not> store_dir (mark d x)" "\<not> store_dir [''deployments'', d, e, x]"
  by (auto simp: store_dir_def record_names_def audit_dirs_def)

definition has_file :: "controller_store \<Rightarrow> string list \<Rightarrow> bool" where
  "has_file s p \<longleftrightarrow> file_text s p \<noteq> None"

lemma exists_record: "tree_inv s \<Longrightarrow> x \<in> record_names \<Longrightarrow> existsSync s (mark d x) \<longleftrightarrow> has_file s (mark d x)"
  using not_store_dir(1) [of x d] by (auto simp: existsSync_def tree_inv_def has_file_def)

lemma exists_audit: "tree_inv s \<Longrightarrow> existsSync s [''deployments'', d, e, x] \<longleftrightarrow> has_file s [''deployments'', d, e, x]"
  using not_store_dir(2) [of d e x] by (auto simp: existsSync_def tree_inv_def has_file_def)

lemma has_file_created: "created p kvs s s' \<Longrightarrow> has_file s q \<Longrightarrow> has_file s' q" "created p kvs s s' \<Longrightarrow> has_file s' q \<Longrightarrow> has_file s q \<or> q = p"
  by (auto simp: created_def has_file_def file_text_def map_add_def split: option.splits)

lemma tree_created:
  assumes "tree_inv s" "created p kvs s s'" "store_path p" "fits p kvs"
  shows "tree_inv s'"
  using assms prefixes_of_store_path [OF assms(3)] unfolding tree_inv_def created_def
  by (auto simp: ball_Un) blast+

lemma record_names_simps [simp]:
  "''guard.json'' \<in> record_names" "''disarmed.json'' \<in> record_names" "''rollback.json'' \<in> record_names" "''success.json'' \<in> record_names"
  by (simp_all add: record_names_def)

lemma inv_created:
  assumes inv: "controller_inv s" and created: "created p kvs s s'" and path: "store_path p" "fits p kvs"
    and guard: "\<And>d d'. p = mark d ''guard.json'' \<Longrightarrow> guard_active s d' \<Longrightarrow> d' = d"
    and disarmed: "\<And>d. p = mark d ''disarmed.json'' \<Longrightarrow> \<not> existsSync s (mark d ''rollback.json'')"
    and rollback: "\<And>d. p = mark d ''rollback.json'' \<Longrightarrow> \<not> existsSync s (mark d ''disarmed.json'')"
    and recovery: "\<And>d x. p = [''deployments'', d, ''manual-recovery'', x] \<Longrightarrow> existsSync s (mark d ''rollback.json'')"
  shows "controller_inv s'"
proof -
  have tree: "tree_inv s" "tree_inv s'" using inv tree_created [OF _ created path] by (auto simp: controller_inv_def)
  note exists = tree [THEN exists_record] tree [THEN exists_audit]
  note old = has_file_created(1) [OF created] and new = has_file_created(2) [OF created]
  note inv = inv [unfolded controller_inv_def]
  have active: "guard_active s' d \<Longrightarrow> guard_active s d \<or> p = mark d ''guard.json''" for d
    unfolding guard_active_def by (simp only: exists record_names_simps) (blast dest: old new)
  have "d = d'" if "guard_active s' d" "guard_active s' d'" for d d'
    using active [OF that(1)] active [OF that(2)] guard [of d d'] guard [of d' d] inv by auto
  moreover have "\<not> (existsSync s' (mark d ''disarmed.json'') \<and> existsSync s' (mark d ''rollback.json''))" for d
    using inv disarmed [of d] rollback [of d] new [of "mark d ''disarmed.json''"] new [of "mark d ''rollback.json''"]
    by (simp only: exists record_names_simps) auto
  moreover have "existsSync s' [''deployments'', d, ''manual-recovery'', x] \<Longrightarrow> existsSync s' (mark d ''rollback.json'')" for d x
    using inv recovery [of d x] old [of "mark d ''rollback.json''"] new [of "[''deployments'', d, ''manual-recovery'', x]"]
    by (simp only: exists record_names_simps) blast
  ultimately show ?thesis using tree(2) unfolding controller_inv_def by blast
qed

subsection \<open>Reading records back\<close>

text \<open>What the code relies on in \<open>JSON.parse\<close>: the text of a stored object gives that object, with its keys in the order
  of the text, and a text that breaks off gives nothing else.\<close>

definition json_parser :: "('p, 'k) controller_env \<Rightarrow> bool" where
  "json_parser env \<longleftrightarrow> (\<forall>kvs. plain (JObj kvs) \<longrightarrow>
     ce_parseJson env (exactJsonBytes (JObj kvs)) = Some (sortKeys (JObj kvs))
     \<and> (\<forall>k v. ce_parseJson env (take k (exactJsonBytes (JObj kvs))) = Some v \<longrightarrow> v = sortKeys (JObj kvs)))"

lemma readJson_stored:
  assumes "tree_inv s" "json_parser env" "readJson env s p = Inr v"
  obtains kvs where "fits p kvs" "v = JObj (sorted_members kvs)"
proof -
  obtain t where t: "file_text s p = Some t" "ce_parseJson env t = Some v"
    using assms(3) by (auto simp: readJson_def parse_record_def res_simps split: option.splits)
  then have "(p, t) \<in> set (cs_files s)" by (auto simp: file_text_def dest: map_of_SomeD)
  then obtain kvs k where kvs: "fits p kvs" "t = take k (exactJsonBytes (JObj kvs))"
    using assms(1) by (fastforce simp: tree_inv_def)
  then have "v = sortKeys (JObj kvs)" using assms(2) t(2) by (auto simp: json_parser_def fits_def)
  with kvs(1) that show ?thesis by (simp only: sortKeys_JObj)
qed

lemma deploymentRoot_Inr [res_simps]: "deploymentRoot d = Inr root \<longleftrightarrow> assertDeploymentId d = Inr () \<and> root = [''deployments'', d]"
  by (auto simp: deploymentRoot_def res_simps)

lemma verifyGuard_Inr:
  "verifyGuard env v = Inr guard \<longleftrightarrow>
     verifySignedGuardRecord env v (ce_babyAuthorityPublicKey env) = Inr guard \<and> key_text ''machineId'' guard = ce_machineId env"
  by (auto simp: verifyGuard_def assertMachine_def res_simps)

lemma verified_guard_value: "verifySignedGuardRecord env v publicKey = Inr guard \<Longrightarrow> v = JObj guard"
  by (simp add: verifySignedGuardRecord_def guard_kind.verify_Inr)

lemma verified_evidence_value: "verifySignedControllerEvidence env v publicKey = Inr evidence \<Longrightarrow> v = JObj evidence"
  by (simp add: verifySignedControllerEvidence_def evidence_kind.verify_Inr)

lemma loadGuard_id:
  assumes "tree_inv s" "json_parser env" "loadGuard env d s = Inr guard"
  shows "key_text ''deploymentId'' guard = d"
proof -
  obtain v where v: "readJson env s (mark d ''guard.json'') = Inr v" "verifyGuard env v = Inr guard"
    using assms(3) by (auto simp: loadGuard_def readGuard_def res_simps)
  obtain kvs where "fits (mark d ''guard.json'') kvs" "v = JObj (sorted_members kvs)"
    using readJson_stored [OF assms(1,2) v(1)] by blast
  moreover have "v = JObj guard" using v(2) verified_guard_value by (auto simp: verifyGuard_Inr)
  ultimately show ?thesis by (auto simp: fits_def record_simps)
qed

lemma stored_not_falsy: "\<not> json_falsy (JObj kvs)"
  by (simp add: json_falsy_def)

text \<open>The terminal record: its file and what it says.\<close>

lemma terminal_None:
  assumes "tree_inv s" "json_parser env" "readVerifiedTerminal env d s = Inr None"
  shows "\<not> existsSync s (mark d ''disarmed.json'')" "\<not> existsSync s (mark d ''rollback.json'')"
proof -
  have stored: "\<exists>kvs. v = JObj kvs" if "readJson env s p = Inr v" for p v
    using readJson_stored [OF assms(1,2) that] by blast
  have "readTerminalEvidence env d s = Inr None"
    using assms(3) stored
    by (fastforce simp: readVerifiedTerminal_def readTerminalEvidence_def read_if_exists_def res_simps Let_def stored_not_falsy
      split: option.splits if_splits)
  then show "\<not> existsSync s (mark d ''disarmed.json'')" "\<not> existsSync s (mark d ''rollback.json'')"
    by (auto simp: readTerminalEvidence_def read_if_exists_def res_simps Let_def split: if_splits)
qed

lemma readJson_exists: "readJson env s p = Inr v \<Longrightarrow> existsSync s p"
  by (auto simp: readJson_def existsSync_def split: option.splits)

lemma terminal_Some:
  assumes inv: "controller_inv s" and parser: "json_parser env" and "readVerifiedTerminal env d s = Inr (Some evidence)"
  shows "json_prop ''disposition'' evidence = Some (JStr ''disarmed'') \<and> existsSync s (mark d ''disarmed.json'')
    \<or> rollback_record evidence \<and> existsSync s (mark d ''rollback.json'')"
proof -
  have tree: "tree_inv s" using inv by (simp add: controller_inv_def)
  obtain v where v: "readTerminalEvidence env d s = Inr (Some v)" "v = JObj evidence"
    using assms(3) verified_evidence_value by (fastforce simp: readVerifiedTerminal_def res_simps split: option.splits if_splits)
  then obtain p where p: "readJson env s p = Inr v" and place: "p = mark d ''disarmed.json'' \<or> p = mark d ''rollback.json'' \<or> (\<exists>x. p = [''deployments'', d, ''manual-recovery'', x])"
    by (auto simp: readTerminalEvidence_def read_if_exists_def res_simps Let_def split: if_splits)
  obtain kvs where kvs: "fits p kvs" "v = JObj (sorted_members kvs)" using readJson_stored [OF tree parser p] by blast
  have "json_prop ''disposition'' evidence = map_option sortKeys (json_prop ''disposition'' kvs)"
    using kvs v(2) by (simp add: fits_def record_simps)
  then have says: "json_prop ''disposition'' evidence = json_prop ''disposition'' kvs"
    if "json_prop ''disposition'' kvs = Some (JStr x)" for x using that by simp
  have "existsSync s p" using p by (rule readJson_exists)
  with place show ?thesis
    using kvs(1) says inv by (auto simp: fits_def rollback_record_def controller_inv_def)
qed

subsection \<open>Every operation keeps the invariant\<close>

lemma json_prop_simps: "json_prop k [] = None" "json_prop k ((k', v) # kvs) = (if k = k' then Some v else json_prop k kvs)"
  by (auto simp: json_prop_def)

lemma new_evidence_Inr:
  assumes "new_evidence env now guard disposition details = Inr evidence"
  shows "plain (JObj evidence)" "json_prop ''disposition'' evidence = Some (JStr (disposition_name disposition))"
    "key_text ''deploymentId'' evidence = key_text ''deploymentId'' guard"
proof -
  let ?p = "evidence_payload env now guard disposition details"
  have payload: "assertEvidencePayload ?p = Inr ()" and evidence: "evidence = signedRecord env ?p (ce_controllerEvidencePrivateKey env)"
    using assms by (auto simp: new_evidence_def buildSignedControllerEvidence_def res_simps)
  show "plain (JObj evidence)" unfolding evidence by (rule evidence_kind.signed_plain [OF payload evidencePayload_plain [OF payload]])
  have "json_prop ''deploymentId'' evidence = json_prop ''deploymentId'' guard"
    unfolding evidence signedRecord_def Let_def evidence_payload_def
    by (simp add: json_prop_append json_prop_simps prop_payload_of split: option.split)
  then show "key_text ''deploymentId'' evidence = key_text ''deploymentId'' guard" by (simp add: key_text_def)
  show "json_prop ''disposition'' evidence = Some (JStr (disposition_name disposition))"
    unfolding evidence signedRecord_def Let_def evidence_payload_def by (simp add: json_prop_append json_prop_simps prop_payload_of)
qed

text \<open>When a file may be created.\<close>

definition may_create :: "string list \<Rightarrow> controller_store \<Rightarrow> bool" where
  "may_create p s \<longleftrightarrow> (\<forall>d d'. p = mark d ''guard.json'' \<longrightarrow> guard_active s d' \<longrightarrow> d' = d)
     \<and> (\<forall>d. p = mark d ''disarmed.json'' \<longrightarrow> \<not> existsSync s (mark d ''rollback.json''))
     \<and> (\<forall>d. p = mark d ''rollback.json'' \<longrightarrow> \<not> existsSync s (mark d ''disarmed.json''))
     \<and> (\<forall>d x. p = [''deployments'', d, ''manual-recovery'', x] \<longrightarrow> existsSync s (mark d ''rollback.json''))"

lemma triple_createOnce:
  assumes "store_path p" "fits p kvs" "\<And>s. controller_inv s \<Longrightarrow> P s \<Longrightarrow> may_create p s"
    and "\<And>s s'. controller_inv s \<Longrightarrow> P s \<Longrightarrow> created p kvs s s' \<Longrightarrow> controller_inv s' \<Longrightarrow> Q () s'"
  shows "triple controller_inv P (createOnce p (JObj kvs)) Q"
  unfolding triple_def
proof (intro allI impI conjI)
  fix s assume s: "controller_inv s" "P s"
  show inv: "controller_inv (fst (createOnce p (JObj kvs) s))"
    using assms(3) [OF s] by (intro inv_created [OF s(1) createOnce_created assms(1,2)]) (auto simp: may_create_def)
  fix v show "Q v (fst (createOnce p (JObj kvs) s))" using assms(4) [OF s createOnce_created inv] by simp
qed

lemma same_files:
  assumes "tree_inv s" "tree_inv s'" "cs_files s' = cs_files s"
  shows "x \<in> record_names \<Longrightarrow> existsSync s' (mark d x) = existsSync s (mark d x)"
    and "existsSync s' [''deployments'', d, e, x] = existsSync s [''deployments'', d, e, x]"
    and "guard_active s' d = guard_active s d"
proof -
  have "has_file s' = has_file s" using assms(3) by (simp add: fun_eq_iff has_file_def file_text_def)
  then show same: "x \<in> record_names \<Longrightarrow> existsSync s' (mark d x) = existsSync s (mark d x)"
    "existsSync s' [''deployments'', d, e, x] = existsSync s [''deployments'', d, e, x]" for d x
    by (simp_all add: assms(1,2) [THEN exists_record] assms(1,2) [THEN exists_audit])
  then show "guard_active s' d = guard_active s d" by (simp add: guard_active_def)
qed

lemma inv_same_files:
  assumes "controller_inv s" "cs_files s' = cs_files s" "cs_dirs s' = cs_dirs s @ ds" "set ds \<subseteq> Collect store_dir"
  shows "controller_inv s'"
proof -
  have tree: "tree_inv s" "tree_inv s'" using assms by (auto simp: controller_inv_def tree_inv_def)
  from same_files [OF tree assms(2)] assms(1) tree(2) show ?thesis by (simp add: controller_inv_def)
qed

lemma triple_ensureDirectory:
  assumes "store_path (q @ [x])"
    and "\<And>s s'. controller_inv s \<Longrightarrow> P s \<Longrightarrow> controller_inv s' \<Longrightarrow> cs_files s' = cs_files s \<Longrightarrow> Q () s'"
  shows "triple controller_inv P (ensureDirectory q) Q"
  unfolding triple_def
proof (intro allI impI conjI)
  fix s assume s: "controller_inv s" "P s"
  have "set (path_prefixes q) \<subseteq> Collect store_dir" using prefixes_of_store_path [OF assms(1)] by auto
  then show inv: "controller_inv (fst (ensureDirectory q s))"
    using ensureDirectory_state [of q s] s(1) by (auto intro!: inv_same_files [OF s(1)] dest: subset_trans)
  fix v show "Q v (fst (ensureDirectory q s))"
    using assms(2) [OF s inv] by (auto simp: ensureDirectory_def split: if_splits)
qed

lemma triple_ensure_dir:
  assumes "store_path (q @ [x])"
    and "\<And>s s'. \<forall>d. \<forall>x\<in>record_names. existsSync s' (mark d x) = existsSync s (mark d x) \<Longrightarrow> P s \<Longrightarrow> P s'"
  shows "triple controller_inv P (ensureDirectory q) (\<lambda>_. P)"
proof (rule triple_ensureDirectory [OF assms(1)])
  fix s s' assume s: "controller_inv s" "P s" "controller_inv s'" "cs_files s' = cs_files s"
  then have "tree_inv s" "tree_inv s'" by (simp_all add: controller_inv_def)
  from same_files(1) [OF this s(4)] s(2) show "P s'" by (intro assms(2) [of s' s]) auto
qed

text \<open>Files that never conflict with the invariant.\<close>

definition neutral :: "string list \<Rightarrow> bool" where
  "neutral p \<longleftrightarrow> (\<exists>x. p = [''generations'', x]) \<or> (\<exists>d x. p = [''deployments'', d, ''evidence'', x]) \<or> (\<exists>d. p = mark d ''success.json'')"

lemma neutral_may_create: "neutral p \<Longrightarrow> may_create p s" "neutral p \<Longrightarrow> store_path p"
  unfolding neutral_def by (elim disjE exE; simp add: may_create_def store_path_def audit_dirs_def record_names_def)+

lemma created_exists:
  assumes "controller_inv s" "controller_inv s'" "created p kvs s s'" "p \<noteq> mark d x" "x \<in> record_names"
  shows "existsSync s' (mark d x) \<longleftrightarrow> existsSync s (mark d x)"
  using has_file_created [OF assms(3), of "mark d x"] exists_record [of s x d] exists_record [of s' x d] assms
  by (auto simp: controller_inv_def)

lemma triple_neutral:
  assumes "neutral p" "fits p kvs"
    and "\<And>s s'. controller_inv s \<Longrightarrow> P s \<Longrightarrow> controller_inv s' \<Longrightarrow> created p kvs s s' \<Longrightarrow> P s'"
  shows "triple controller_inv P (createOnce p (JObj kvs)) (\<lambda>_. P)"
  by (rule triple_createOnce [OF neutral_may_create(2) [OF assms(1)] assms(2) neutral_may_create(1) [OF assms(1)]]) (rule assms(3))

lemma triple_write_audit:
  assumes "root = [''deployments'', d]" "key_text ''deploymentId'' evidence = d" "plain (JObj evidence)"
    and "\<And>s s' p kvs. controller_inv s \<Longrightarrow> P s \<Longrightarrow> controller_inv s' \<Longrightarrow> created p kvs s s' \<Longrightarrow> neutral p \<Longrightarrow> P s'"
  shows "triple controller_inv P (write_audit root evidence) (\<lambda>_. P)"
proof -
  have neutral: "neutral (root @ [''evidence'', key_text ''recordDigest'' evidence @ ''.json''])" using assms(1) by (simp add: neutral_def)
  have "fits (root @ [''evidence'', key_text ''recordDigest'' evidence @ ''.json'']) evidence" using assms(1-3) by (simp add: fits_def)
  from neutral this show ?thesis unfolding write_audit_def by (rule triple_neutral) (rule assms(4) [OF _ _ _ _ neutral])
qed

text \<open>A condition on the records of a deployment that writing other files does not touch.\<close>

lemma neutral_keeps:
  assumes "controller_inv s" "controller_inv s'" "created p kvs s s'" "neutral p" "x \<in> {''disarmed.json'', ''rollback.json'', ''guard.json''}"
  shows "existsSync s' (mark d x) \<longleftrightarrow> existsSync s (mark d x)"
  using assms by (intro created_exists) (auto simp: neutral_def)

lemma triple_writeEvidence:
  assumes "key_text ''deploymentId'' evidence = d" "plain (JObj evidence)"
  shows "triple controller_inv
     (\<lambda>s. (json_prop ''disposition'' evidence = Some (JStr ''disarmed'') \<longrightarrow> \<not> existsSync s (mark d ''rollback.json''))
        \<and> (rollback_record evidence \<longrightarrow> \<not> existsSync s (mark d ''disarmed.json'')))
     (writeEvidence evidence) anything"
proof -
  let ?P = "\<lambda>s. (json_prop ''disposition'' evidence = Some (JStr ''disarmed'') \<longrightarrow> \<not> existsSync s (mark d ''rollback.json''))
        \<and> (rollback_record evidence \<longrightarrow> \<not> existsSync s (mark d ''disarmed.json''))"
  have audit: "triple controller_inv ?P (write_audit root evidence) (\<lambda>_. ?P)" if "root = [''deployments'', d]" for root
    using that assms neutral_keeps by (intro triple_write_audit) auto
  have disarmed: "triple controller_inv ?P (createOnce (mark d ''disarmed.json'') (JObj evidence)) anything"
    if "json_prop ''disposition'' evidence = Some (JStr ''disarmed'')"
    using that assms by (intro triple_createOnce) (auto simp: store_path_def fits_def may_create_def)
  let ?Q = "\<lambda>s. rollback_record evidence \<longrightarrow> \<not> existsSync s (mark d ''disarmed.json'')"
  have middle: "triple controller_inv ?P
      (if json_prop ''disposition'' evidence = Some (JStr ''disarmed'') then createOnce (mark d ''disarmed.json'') (JObj evidence) else act_return ()) (\<lambda>_. ?Q)"
    using triple_post [OF disarmed, of "\<lambda>_. ?Q"] by (auto simp: rollback_record_def intro: triple_of)
  have final: "triple controller_inv ?Q (if rollback_record evidence then createOnce (mark d ''rollback.json'') (JObj evidence) else act_return ()) anything"
    using assms by (auto intro!: triple_of triple_createOnce simp: store_path_def fits_def may_create_def)
  have rolled: "rollback_record evidence \<longleftrightarrow> json_prop ''disposition'' evidence = Some (JStr ''rolled_back'')
      \<or> json_prop ''disposition'' evidence = Some (JStr ''rollback_failed'')" by (auto simp: rollback_record_def)
  show ?thesis
    unfolding writeEvidence_def Let_def assms(1) rolled [symmetric]
    by (rule triple_bind_of, unfold deploymentRoot_Inr, elim conjE, rule triple_bind [OF audit], assumption, simp only: append_Cons append_Nil,
      rule triple_bind [OF middle final])
qed

definition may_record :: "controller_disposition \<Rightarrow> string \<Rightarrow> controller_store \<Rightarrow> bool" where
  "may_record disposition d s \<longleftrightarrow> (disposition = Disarmed \<longrightarrow> \<not> existsSync s (mark d ''rollback.json''))
     \<and> (disposition \<in> {Rolled_back, Rollback_failed} \<longrightarrow> \<not> existsSync s (mark d ''disarmed.json''))"

lemma triple_record_evidence:
  "triple controller_inv (may_record disposition (key_text ''deploymentId'' guard)) (record_evidence env now guard disposition details) anything"
  unfolding record_evidence_def
proof (rule triple_bind_of)
  fix evidence assume "new_evidence env now guard disposition details = Inr evidence"
  note new = new_evidence_Inr [OF this]
  have "triple controller_inv (may_record disposition (key_text ''deploymentId'' guard)) (writeEvidence evidence) anything"
    by (rule triple_pre [OF triple_writeEvidence [OF new(3,1)]]) (cases disposition; simp add: may_record_def new(2) rollback_record_def)
  then show "triple controller_inv (may_record disposition (key_text ''deploymentId'' guard))
      (act_bind (writeEvidence evidence) (\<lambda>_. act_return (controller_status_of guard (JStr (disposition_name disposition)) (Some evidence)))) anything"
    by (rule triple_bind) (simp add: triple_of)
qed

lemma may_record_harmless: "disposition \<in> {Armed, Pending, Success_marker_valid, Stale_generation} \<Longrightarrow> may_record disposition d s"
  by (auto simp: may_record_def)

lemma triple_record_harmless:
  "disposition \<in> {Armed, Pending, Success_marker_valid, Stale_generation} \<Longrightarrow>
     triple controller_inv P (record_evidence env now guard disposition details) anything"
  by (rule triple_pre [OF triple_record_evidence]) (rule may_record_harmless)

lemma distinct_opt_entry [simp]: "distinct (map fst (opt_entry k v))"
  by (cases v) simp_all

lemma generation_json_fits: "plain (JObj guard) \<Longrightarrow> \<exists>kvs. generation_json guard = JObj kvs \<and> fits (generation_path n) kvs"
  using plain_prop [of guard "''deploymentId''"] plain_prop [of guard "''generation''"] plain_prop [of guard "''recordDigest''"]
  by (auto simp: generation_json_def generation_path_def fits_def plain_JObj in_opt_entry)

lemma triple_writeGuard:
  assumes "key_text ''deploymentId'' guard = d" "plain (JObj guard)"
  shows "triple controller_inv (\<lambda>s. \<forall>d'. guard_active s d' \<longrightarrow> d' = d) (writeGuard guard) anything"
proof -
  let ?P = "\<lambda>s. \<forall>d'. guard_active s d' \<longrightarrow> d' = d"
  have dirs: "triple controller_inv ?P (ensureDirectory [''deployments'', d]) (\<lambda>_. ?P)"
    by (rule triple_ensure_dir [of _ "''guard.json''"]) (simp add: store_path_def, simp add: guard_active_def)
  have evidence: "triple controller_inv ?P (ensureDirectory [''deployments'', d, ''evidence'']) (\<lambda>_. ?P)"
    by (rule triple_ensure_dir [of _ "[]"]) (simp add: store_path_def audit_dirs_def, simp add: guard_active_def)
  have guard: "triple controller_inv ?P (createOnce (mark d ''guard.json'') (JObj guard)) anything"
    by (rule triple_createOnce) (use assms in \<open>auto simp: store_path_def fits_def may_create_def\<close>)
  obtain kvs where kvs: "generation_json guard = JObj kvs" "fits (generation_path (num_prop ''generation'' guard)) kvs"
    using generation_json_fits [OF assms(2)] by blast
  have generation: "triple controller_inv (anything ()) (createOnce (generation_path (num_prop ''generation'' guard)) (generation_json guard)) anything"
    unfolding kvs(1) by (rule triple_neutral [OF _ kvs(2)]) (auto simp: neutral_def generation_path_def)
  show ?thesis
    unfolding writeGuard_def assms(1)
    by (rule triple_bind_of, unfold deploymentRoot_Inr, elim conjE, simp only: append_Cons append_Nil,
      rule triple_bind [OF dirs triple_bind [OF evidence triple_bind [OF guard generation]]])
qed

lemma triple_writeSuccessMarker:
  assumes "plain (JObj marker)"
  shows "triple controller_inv P (writeSuccessMarker marker) anything"
  unfolding writeSuccessMarker_def
  by (rule triple_bind_of, unfold deploymentRoot_Inr, elim conjE, simp only: append_Cons append_Nil,
    rule triple_createOnce [OF neutral_may_create(2) _ neutral_may_create(1)]) (use assms in \<open>auto simp: neutral_def fits_def\<close>)

lemma triple_writeManualRecovery:
  assumes "key_text ''deploymentId'' evidence = d" "plain (JObj evidence)" "rollback_record evidence"
  shows "triple controller_inv (\<lambda>s. existsSync s (mark d ''rollback.json'')) (writeManualRecoveryEvidence evidence) anything"
proof -
  let ?P = "\<lambda>s. existsSync s (mark d ''rollback.json'')"
  have audit: "triple controller_inv ?P (write_audit [''deployments'', d] evidence) (\<lambda>_. ?P)"
    by (rule triple_write_audit) (use assms neutral_keeps in auto)
  have dir: "triple controller_inv ?P (ensureDirectory [''deployments'', d, ''manual-recovery'']) (\<lambda>_. ?P)"
    by (rule triple_ensure_dir [of _ "[]"]) (simp add: store_path_def audit_dirs_def, simp add: guard_active_def)
  have create: "triple controller_inv ?P (createOnce [''deployments'', d, ''manual-recovery'', recovery_name evidence] (JObj evidence)) anything"
    by (rule triple_createOnce) (use assms in \<open>auto simp: store_path_def audit_dirs_def fits_def may_create_def\<close>)
  show ?thesis
    unfolding writeManualRecoveryEvidence_def assms(1)
    by (rule triple_bind_of, unfold deploymentRoot_Inr, elim conjE, simp only: append_Cons append_Nil,
      rule triple_bind [OF audit triple_bind [OF dir create]])
qed

lemma triple_restoreSnapshot:
  assumes "\<And>s rs. controller_inv s \<Longrightarrow> P s \<Longrightarrow> P (s\<lparr>cs_restores := rs\<rparr>)"
  shows "triple controller_inv P (restoreSnapshot host guard) (\<lambda>_. P)"
proof -
  have "controller_inv (s\<lparr>cs_restores := rs\<rparr>) = controller_inv s" for s rs
    by (simp add: controller_inv_def tree_inv_def guard_active_def existsSync_def)
  with assms show ?thesis by (auto simp: triple_def restoreSnapshot_def)
qed

end
