(* ===== verification/Controller_Safety.thy ===== *)
theory Controller_Safety
  imports Controller_Audit
begin

section \<open>Safety of the deployment controller\<close>

text \<open>
  The operations keep the invariant of \<open>Controller_Audit\<close>; the properties of the controller follow. They hold for
  every sequence of controller processes, each with its own clock, host and requests, any of which may
  crash at any of its writes and leave a truncated record behind.
\<close>

subsection \<open>Operations keep the invariant\<close>

lemma activeGuardIds_Inr:
  assumes "activeGuardIds s = Inr active"
  shows "active = filter (guard_active s) (readdirSync s [''deployments''])"
proof -
  obtain ids where ids: "active = filter (guard_active s) ids"
    "res_map (\<lambda>d. res_bind (assertDeploymentId d) (\<lambda>_. res_bind (check ([''deployments'', d] \<in> set (cs_dirs s))
       (controller_failure Controller_integrity_failed ''Unsafe deployment root'')) (\<lambda>_. Inr d))) (readdirSync s [''deployments'']) = Inr ids"
    using assms by (auto simp: activeGuardIds_def res_simps)
  moreover have "ids = readdirSync s [''deployments'']"
    using ids(2) unfolding res_map_Inr_iff by (auto simp: list_all2_conv_all_nth res_simps intro: nth_equalityI)
  ultimately show ?thesis by simp
qed

lemma deployment_listed: "[''deployments'', d] \<in> set (cs_dirs s) \<Longrightarrow> d \<in> set (readdirSync s [''deployments''])"
  by (auto simp: readdirSync_def image_iff intro!: bexI [of _ "[''deployments'', d]"])

lemma activeGuardIds_complete:
  assumes "controller_inv s" "activeGuardIds s = Inr active" "guard_active s d"
  shows "d \<in> set active"
proof -
  have tree: "tree_inv s" using assms(1) by (simp add: controller_inv_def)
  have "has_file s (mark d ''guard.json'')" using assms(3) exists_record [OF tree] by (simp add: guard_active_def)
  then obtain t where "(mark d ''guard.json'', t) \<in> set (cs_files s)"
    by (auto simp: has_file_def file_text_def dest: map_of_SomeD)
  then have "[''deployments'', d] \<in> set (cs_dirs s)"
    using conjunct2 [OF tree [unfolded tree_inv_def], THEN bspec] by fastforce
  then show ?thesis using deployment_listed activeGuardIds_Inr [OF assms(2)] assms(3) by simp
qed

lemma inv_arm: "triple controller_inv (anything ()) (arm env host now input) anything"
proof -
  have writing: "triple controller_inv P (act_bind (writeGuard guard) (\<lambda>_. record_evidence env now guard Armed details)) anything"
    if guard: "verifyGuard env input = Inr guard" and empty: "\<not> (\<exists>d\<in>set active. d \<noteq> key_text ''deploymentId'' guard)"
      "key_text ''deploymentId'' guard \<notin> set active" and P: "\<And>s. P s \<Longrightarrow> activeGuardIds s = Inr active"
    for guard active P details
  proof (rule triple_bind)
    have plain: "plain (JObj guard)" using guard verified_guard_plain by (auto simp: verifyGuard_Inr)
    have "active = []" using empty by (cases active) auto
    then have "\<not> guard_active s d" if "controller_inv s" "P s" for s d
      using activeGuardIds_complete [OF that(1) P [OF that(2)], of d] by auto
    then show "triple controller_inv P (writeGuard guard) anything"
      by (intro triple_pre [OF triple_writeGuard [OF refl plain]]) blast
  qed (simp add: triple_record_harmless)
  show ?thesis unfolding arm_def Let_def check_Inr
    by (intro action_rules TrueI) (erule writing; simp add: check_Inr)
qed

lemma inv_commitSuccess: "triple controller_inv (anything ()) (commitSuccess env now input) anything"
proof -
  have "triple controller_inv P (act_bind (writeSuccessMarker marker) (\<lambda>_. record_evidence env now guard Success_marker_valid details)) anything"
    if "verifySignedSuccessMarker env input k = Inr marker" for k P marker guard details
    using triple_writeSuccessMarker [OF verified_marker_plain [OF that]] by (rule triple_bind) (simp add: triple_record_harmless)
  then show ?thesis unfolding commitSuccess_def by (intro action_rules) assumption+
qed

lemma may_record_open:
  assumes "json_parser env" "controller_inv s" "loadGuard env d s = Inr guard" "readVerifiedTerminal env d s = Inr None"
  shows "may_record disposition (key_text ''deploymentId'' guard) s"
proof -
  have tree: "tree_inv s" using assms(2) by (simp add: controller_inv_def)
  show ?thesis using terminal_None [OF tree assms(1,4)] unfolding loadGuard_id [OF tree assms(1,3)] by (simp add: may_record_def)
qed

lemma inv_disarm:
  assumes "json_parser env"
  shows "triple controller_inv (anything ()) (disarm env now d) anything"
proof -
  have "triple controller_inv
      (\<lambda>s. ((True \<and> loadGuard env d s = Inr guard) \<and> readVerifiedTerminal env d s = Inr None) \<and> loadValidMarker env guard s = Inr (Some marker))
      (record_evidence env now guard Disarmed details) anything" for guard marker details
    by (rule triple_pre [OF triple_record_evidence], elim conjE, rule may_record_open [OF assms])
  then show ?thesis unfolding disarm_def by (intro action_rules) simp_all
qed

lemma inv_evaluate:
  assumes "json_parser env"
  shows "triple controller_inv (anything ()) (evaluate env host now d) anything"
proof -
  have "triple controller_inv
      (\<lambda>s. (((True \<and> loadGuard env d s = Inr guard) \<and> latestGeneration s = Inr latest) \<and> readVerifiedTerminal env d s = Inr None)
         \<and> loadValidMarker env guard s = Inr None)
      (act_bind (restoreSnapshot host guard) (\<lambda>(completed, details). record_evidence env now guard (rollback_disposition completed) details)) anything"
    for guard latest
  proof (rule triple_bind)
    let ?P = "\<lambda>s. \<forall>disposition. may_record disposition (key_text ''deploymentId'' guard) s"
    have "triple controller_inv ?P (restoreSnapshot host guard) (\<lambda>_. ?P)"
      by (rule triple_restoreSnapshot) (simp add: may_record_def existsSync_def)
    then show "triple controller_inv
      (\<lambda>s. (((True \<and> loadGuard env d s = Inr guard) \<and> latestGeneration s = Inr latest) \<and> readVerifiedTerminal env d s = Inr None)
         \<and> loadValidMarker env guard s = Inr None) (restoreSnapshot host guard) (\<lambda>_. ?P)"
      by (rule triple_pre) (use may_record_open [OF assms] in blast)
    show "triple controller_inv ?P (case r of (completed, details) \<Rightarrow> record_evidence env now guard (rollback_disposition completed) details) anything" for r
      by (cases r) (auto intro: triple_pre [OF triple_record_evidence])
  qed
  then show ?thesis unfolding evaluate_def
    by (intro action_rules) (simp_all add: triple_record_harmless)
qed

lemma inv_read: "triple controller_inv (anything ()) (controller_read env d) anything"
  unfolding controller_read_def by (intro action_rules) simp_all

lemma inv_record_recovery:
  "triple controller_inv (\<lambda>s. existsSync s (mark (key_text ''deploymentId'' guard) ''rollback.json'')) (record_recovery env now guard prior reason answer) anything"
  unfolding record_recovery_def Let_def
proof (rule triple_bind_of)
  fix evidence assume "new_evidence env now guard (rollback_disposition (fst answer)) (js_set ''priorFailureEvidenceDigest'' (json_prop_json ''recordDigest'' prior)
      (js_set ''reasonDigest'' (JStr (ce_sha256 env reason)) (js_set ''breakGlass'' (JBool True) (snd answer)))) = Inr evidence"
  note new = new_evidence_Inr [OF this]
  have "rollback_record evidence" using new(2) by (simp add: rollback_record_def rollback_disposition_def split: if_splits)
  from triple_writeManualRecovery [OF new(3,1) this] show "triple controller_inv (\<lambda>s. existsSync s (mark (key_text ''deploymentId'' guard) ''rollback.json''))
      (act_bind (writeManualRecoveryEvidence evidence) (\<lambda>_. act_return (controller_status_of guard
         (JStr (disposition_name (rollback_disposition (fst answer)))) (Some evidence)))) anything"
    by (rule triple_bind) (simp add: triple_of)
qed

lemma inv_manualRecover:
  assumes "json_parser env"
  shows "triple controller_inv (anything ()) (manualRecover env host now d digest reason) anything"
proof -
  have "triple controller_inv (\<lambda>s. (True \<and> loadGuard env d s = Inr guard) \<and> readVerifiedTerminal env d s = Inr (Some prior))
      (act_bind (restoreSnapshot host guard) (record_recovery env now guard prior reason)) anything"
    if prior: "json_prop ''disposition'' prior = Some (JStr ''rollback_failed'')" for guard prior
  proof (rule triple_bind [OF _ inv_record_recovery])
    let ?P = "\<lambda>s. existsSync s (mark (key_text ''deploymentId'' guard) ''rollback.json'')"
    have "triple controller_inv ?P (restoreSnapshot host guard) (\<lambda>_. ?P)"
      by (rule triple_restoreSnapshot) (simp add: existsSync_def)
    moreover have "existsSync s (mark (key_text ''deploymentId'' guard) ''rollback.json'')"
      if "controller_inv s" "(True \<and> loadGuard env d s = Inr guard) \<and> readVerifiedTerminal env d s = Inr (Some prior)" for s
      using that terminal_Some [OF that(1) assms, of d prior] loadGuard_id [OF _ assms, of s d guard] prior by (auto simp: controller_inv_def)
    ultimately show "triple controller_inv
      (\<lambda>s. (True \<and> loadGuard env d s = Inr guard) \<and> readVerifiedTerminal env d s = Inr (Some prior)) (restoreSnapshot host guard) (\<lambda>_. ?P)"
      by (rule triple_pre)
  qed
  then show ?thesis unfolding manualRecover_def by (intro action_rules) simp_all
qed

lemma inv_other_members [simp]:
  "controller_inv (s\<lparr>cs_lock := l\<rparr>) = controller_inv s" "controller_inv (s\<lparr>cs_fault := f\<rparr>) = controller_inv s"
  by (simp_all add: controller_inv_def tree_inv_def guard_active_def existsSync_def)

lemma inv_action:
  assumes "json_parser env" "controller_inv s"
  shows "controller_inv (fst (controller_action env host now request s))"
  using assms inv_arm inv_commitSuccess inv_disarm inv_evaluate inv_read inv_manualRecover
  by (cases request) (fastforce simp: triple_def)+

lemma locked_action_cases:
  obtains (refused) l e where "locked_action env c s = (s\<lparr>cs_lock := l\<rparr>, Inl e)"
  | (performed) l l' where "fst (locked_action env c s)
        = (fst (controller_action env (cc_host c) (cc_now c) (cc_request c) (s\<lparr>cs_lock := l\<rparr>)))\<lparr>cs_lock := l'\<rparr>"
      "snd (locked_action env c s) = snd (controller_action env (cc_host c) (cc_now c) (cc_request c) (s\<lparr>cs_lock := l\<rparr>))"
proof (cases "\<exists>d. cc_request c = Read d")
  case True
  let ?a = "controller_action env (cc_host c) (cc_now c) (cc_request c)"
  have "locked_action env c = ?a" using True by (auto simp: locked_action_def)
  moreover have "s\<lparr>cs_lock := cs_lock s\<rparr> = s" "(fst (?a s))\<lparr>cs_lock := cs_lock (fst (?a s))\<rparr> = fst (?a s)" by simp_all
  ultimately show thesis using performed [where l = "cs_lock s" and l' = "cs_lock (fst (?a s))"] by simp
next
  case False
  let ?a = "controller_action env (cc_host c) (cc_now c) (cc_request c)"
  have locked: "locked_action env c = withGlobalLock env (cc_os c) (cc_pid c) (cc_token c) ?a"
    using False by (simp add: locked_action_def Let_def del: controller_action.simps split: controller_request.split)
  show thesis
    by (rule withGlobalLock_state [of env "cc_os c" "cc_pid c" "cc_token c" ?a s]) (use locked refused performed in \<open>simp_all del: controller_action.simps\<close>)
qed

lemma controller_step_inv: "json_parser env \<Longrightarrow> controller_inv s \<Longrightarrow> controller_step env c s = Inr (s', r) \<Longrightarrow> controller_inv s'"
  unfolding controller_step_def
  by (rule locked_action_cases [of env c "s\<lparr>cs_fault := cc_fault c\<rparr>"]) (auto intro: inv_action)

lemma controller_step_grows: "controller_step env c s = Inr (s', r) \<Longrightarrow> store_grows s s'"
  using keepsD [OF grow_locked, of "s\<lparr>cs_fault := cc_fault c\<rparr>" env c]
  by (auto simp: controller_step_def store_grows_def file_text_def)

interpretation controller: growing_system "controller_step env" "\<lambda>s. json_parser env \<longrightarrow> controller_inv s" store_grows
  by unfold_locales (auto intro: controller_step_inv growth.refl growth.trans controller_step_grows)

lemma controller_inv_new: "controller_inv new_controller_store"
  by (simp add: controller_inv_def tree_inv_def new_controller_store_def store_dir_def guard_active_def existsSync_def file_text_def)

lemma reachable_controller_inv: "json_parser env \<Longrightarrow> controller_inv (run_ops (controller_step env) calls new_controller_store)"
  using controller.run_inv [of env new_controller_store calls] controller_inv_new by simp

subsection \<open>One guard at a time\<close>


subsection \<open>Records for good\<close>

lemma grows_exists: "store_grows s s' \<Longrightarrow> existsSync s p \<Longrightarrow> existsSync s' p"
  by (auto simp: store_grows_def existsSync_def)

lemma run_grows_always: "store_grows s (run_ops (controller_step env) calls s)"
proof (induction calls arbitrary: s)
  case Nil
  then show ?case by (simp add: growth.refl)
next
  case (Cons c calls)
  obtain s' r where "controller_step env c s = Inr (s', r)" by (cases "locked_action env c (s\<lparr>cs_fault := cc_fault c\<rparr>)") (simp add: controller_step_def)
  with Cons.IH [of s'] controller_step_grows [of env c s] show ?case by (auto intro: growth.trans)
qed

text \<open>
  C9. Records are created once: whatever follows, a file that was written keeps its text, crash remains
  included, the history of restored snapshots only grows, and a guard that has ended never becomes active again.
  This holds from every state of the disk.
\<close>

theorem controller_records_immutable:
  assumes "s' = run_ops (controller_step env) calls s"
  shows "(\<forall>p t. file_text s p = Some t \<longrightarrow> file_text s' p = Some t)
    \<and> (\<exists>rs. cs_restores s' = cs_restores s @ rs)
    \<and> (\<forall>d. existsSync s (mark d ''guard.json'') \<and> \<not> guard_active s d \<longrightarrow> \<not> guard_active s' d)"
  using run_grows_always [of s env calls] grows_exists [OF run_grows_always [of s env calls]] unfolding assms
  by (auto simp: store_grows_def guard_active_def)

subsection \<open>Snapshots are restored only when due\<close>

text \<open>Writing records leaves the history of restored snapshots alone.\<close>

definition same_restores :: "controller_store \<Rightarrow> controller_store \<Rightarrow> bool" where
  "same_restores s s' \<longleftrightarrow> cs_restores s' = cs_restores s"

interpretation restores: action_order same_restores
  by unfold_locales (simp_all add: same_restores_def)

named_theorems no_restore \<open>actions that restore nothing\<close>

lemma no_restore_files [no_restore]: "keeps same_restores (createOnce p (JObj kvs))" "keeps same_restores (ensureDirectory q)"
  using createOnce_created by (auto simp: keeps_def same_restores_def created_def ensureDirectory_def)

lemma no_restore_writes [no_restore]:
  "keeps same_restores (writeGuard guard)" "keeps same_restores (writeSuccessMarker marker)" "keeps same_restores (write_audit root evidence)"
  "keeps same_restores (writeEvidence evidence)" "keeps same_restores (writeManualRecoveryEvidence evidence)"
  unfolding writeGuard_def writeSuccessMarker_def write_audit_def writeEvidence_def writeManualRecoveryEvidence_def Let_def generation_json_def
  by (intro restores.keeps_rules no_restore)+

lemma no_restore_operations [no_restore]:
  "keeps same_restores (record_evidence env now guard disposition details)"
  "keeps same_restores (arm env host now input)" "keeps same_restores (commitSuccess env now input)" "keeps same_restores (disarm env now d)"
  "keeps same_restores (controller_read env d)"
proof -
  show evidence: "keeps same_restores (record_evidence env now guard disposition details)" for guard disposition details
    unfolding record_evidence_def by (intro restores.keeps_rules no_restore)
  show "keeps same_restores (arm env host now input)" "keeps same_restores (commitSuccess env now input)" "keeps same_restores (disarm env now d)"
    "keeps same_restores (controller_read env d)"
    unfolding arm_def commitSuccess_def disarm_def controller_read_def Let_def
    by (intro restores.keeps_rules no_restore evidence)+
qed

lemma restores_of_bind:
  assumes "\<And>a. keeps same_restores (f a)"
  shows "cs_restores (fst (act_bind m f s)) = cs_restores (fst (m s))"
  by (cases rule: act_bind_cases [of m s f]) (use keepsD [OF assms] in \<open>auto simp: same_restores_def\<close>)

lemma restores_after: "cs_restores (fst (restoreSnapshot host guard s)) = cs_restores s @ [guard]"
  by (simp add: restoreSnapshot_def)

text \<open>What \<open>evaluate\<close> and \<open>manualRecover\<close> have checked before they call the host.\<close>

definition rollback_due :: "('p, 'k) controller_env \<Rightarrow> int \<Rightarrow> string \<Rightarrow> controller_store \<Rightarrow> json_object \<Rightarrow> bool" where
  "rollback_due env now d s guard \<longleftrightarrow> loadGuard env d s = Inr guard \<and> readVerifiedTerminal env d s = Inr None
     \<and> loadValidMarker env guard s = Inr None \<and> time_of (key_text ''deadline'' guard) \<le> now
     \<and> (\<exists>latest. latestGeneration s = Inr latest \<and> latest \<le> num_prop ''generation'' guard)"

definition recovery_due :: "('p, 'k) controller_env \<Rightarrow> string \<Rightarrow> string \<Rightarrow> string \<Rightarrow> controller_store \<Rightarrow> json_object \<Rightarrow> bool" where
  "recovery_due env d digest reason s guard \<longleftrightarrow> loadGuard env d s = Inr guard \<and> key_text ''snapshotDigest'' guard = digest \<and> valid_reason reason
     \<and> (\<exists>prior. readVerifiedTerminal env d s = Inr (Some prior) \<and> json_prop ''disposition'' prior = Some (JStr ''rollback_failed''))"

lemma act_bind_read: "act_bind (act_get g) f s = (case g s of Inl e \<Rightarrow> (s, Inl e) | Inr a \<Rightarrow> f a s)"
    "act_bind (act_of r) f s = (case r of Inl e \<Rightarrow> (s, Inl e) | Inr a \<Rightarrow> f a s)"
  by (simp_all add: act_bind_def split: sum.split)

lemma record_evidence_restores [simp]: "cs_restores (fst (record_evidence env now guard disposition details s)) = cs_restores s"
  using keepsD [OF no_restore_operations(1)] by (auto simp: same_restores_def)

lemma rollback_restores:
  "cs_restores (fst (act_bind (restoreSnapshot host guard) (\<lambda>(completed, details). record_evidence env now guard (rollback_disposition completed) details) s))
     = cs_restores s @ [guard]"
  by (subst restores_of_bind) (auto intro: restores.keeps_pair no_restore simp: restores_after)

lemma evaluate_restores:
  "cs_restores (fst (evaluate env host now d s)) = cs_restores s \<or>
   (\<exists>guard. cs_restores (fst (evaluate env host now d s)) = cs_restores s @ [guard] \<and> rollback_due env now d s guard)"
  unfolding evaluate_def act_bind_read rollback_due_def by (auto simp: rollback_restores act_bind_read not_less split: sum.splits option.splits if_splits)

lemma manualRecover_restores:
  "cs_restores (fst (manualRecover env host now d digest reason s)) = cs_restores s \<or>
   (\<exists>guard. cs_restores (fst (manualRecover env host now d digest reason s)) = cs_restores s @ [guard] \<and> recovery_due env d digest reason s guard)"
proof -
  have "keeps same_restores (record_recovery env now guard prior reason answer)" for guard prior answer
    unfolding record_recovery_def Let_def by (intro restores.keeps_rules no_restore)
  then have "cs_restores (fst (act_bind (restoreSnapshot host guard) (record_recovery env now guard prior reason) s)) = cs_restores s @ [guard]" for guard prior
    by (subst restores_of_bind) (auto simp: restores_after)
  then show ?thesis unfolding manualRecover_def act_bind_read recovery_due_def
    by (auto simp: act_bind_read check_def split: sum.splits option.splits if_splits)
qed

lemma readers_same_files:
  assumes "cs_files s' = cs_files s" "cs_dirs s' = cs_dirs s"
  shows "loadGuard env d s' = loadGuard env d s" "readVerifiedTerminal env d s' = readVerifiedTerminal env d s"
    "loadValidMarker env guard s' = loadValidMarker env guard s" "latestGeneration s' = latestGeneration s"
    "readSuccessMarker env d s' = readSuccessMarker env d s"
proof -
  have "file_text s' = file_text s" "existsSync s' = existsSync s" "readdirSync s' = readdirSync s"
    using assms by (auto simp: fun_eq_iff file_text_def existsSync_def readdirSync_def)
  moreover from this have "readJson env s' = readJson env s" using assms(2) by (simp add: fun_eq_iff readJson_def)
  ultimately show "loadGuard env d s' = loadGuard env d s" "readVerifiedTerminal env d s' = readVerifiedTerminal env d s"
    "loadValidMarker env guard s' = loadValidMarker env guard s" "latestGeneration s' = latestGeneration s"
    "readSuccessMarker env d s' = readSuccessMarker env d s"
    by (simp_all add: loadGuard_def readGuard_def readVerifiedTerminal_def readTerminalEvidence_def loadValidMarker_def
      readSuccessMarker_def read_if_exists_def latestGeneration_def cong: if_cong)
qed

lemma operation_restores [simp]:
  "cs_restores (fst (arm env host now input s)) = cs_restores s" "cs_restores (fst (commitSuccess env now input s)) = cs_restores s"
  "cs_restores (fst (disarm env now d s)) = cs_restores s" "cs_restores (fst (controller_read env d s)) = cs_restores s"
  by (simp_all add: no_restore_operations [THEN keepsD, unfolded same_restores_def])

lemma action_restores:
  assumes "cs_restores (fst (controller_action env host now request s)) \<noteq> cs_restores s"
  obtains d guard where "cs_restores (fst (controller_action env host now request s)) = cs_restores s @ [guard]"
    "request = Evaluate d \<and> rollback_due env now d s guard
      \<or> (\<exists>digest reason. request = ManualRecover d digest reason \<and> recovery_due env d digest reason s guard)"
proof (cases request)
  case (Evaluate d)
  with assms that [of _ d] evaluate_restores [of env host now d s] show thesis by auto
next
  case (ManualRecover d digest reason)
  with assms that [of _ d] manualRecover_restores [of env host now d digest reason s] show thesis by auto
qed (use assms in simp_all)

lemma due_not_disarmed:
  assumes "json_parser env" "controller_inv s" "rollback_due env now d s guard \<or> recovery_due env d digest reason s guard"
  shows "\<not> existsSync s (mark d ''disarmed.json'')" "loadGuard env d s = Inr guard"
proof -
  have tree: "tree_inv s" using assms(2) by (simp add: controller_inv_def)
  show "loadGuard env d s = Inr guard" using assms(3) by (auto simp: rollback_due_def recovery_due_def)
  show "\<not> existsSync s (mark d ''disarmed.json'')"
    using assms(3)
  proof
    assume "rollback_due env now d s guard"
    then show ?thesis using terminal_None(1) [OF tree assms(1), of d] by (simp add: rollback_due_def)
  next
    assume "recovery_due env d digest reason s guard"
    then obtain prior where "readVerifiedTerminal env d s = Inr (Some prior)" "json_prop ''disposition'' prior = Some (JStr ''rollback_failed'')"
      by (auto simp: recovery_due_def)
    with terminal_Some [OF assms(2,1), of d prior] assms(2) show ?thesis by (auto simp: controller_inv_def)
  qed
qed

lemma loadGuard_verified:
  "loadGuard env d s = Inr guard \<Longrightarrow> verifySignedGuardRecord env (JObj guard) (ce_babyAuthorityPublicKey env) = Inr guard \<and> key_text ''machineId'' guard = ce_machineId env"
  using verified_guard_value [of env] by (fastforce simp: loadGuard_def res_simps verifyGuard_Inr)

text \<open>
  C5. The host is asked to restore a snapshot only when that is due, and at most once per call, for a
  guard that the owner signed for this machine and that lies in the directory of the deployment named in the request:
  either \<open>evaluate\<close> found the deadline passed, no valid success marker, no terminal record and no newer
  generation, or \<open>manualRecover\<close> names the signed snapshot after a recorded rollback failure. In no case is
  the deployment disarmed.
\<close>

theorem snapshot_restored_only_when_due:
  assumes parser: "json_parser env" and reachable: "s = run_ops (controller_step env) calls new_controller_store"
    and step: "controller_step env c s = Inr (s', r)" and restored: "cs_restores s' \<noteq> cs_restores s"
  shows "\<exists>d guard. cs_restores s' = cs_restores s @ [guard] \<and> key_text ''deploymentId'' guard = d
    \<and> verifySignedGuardRecord env (JObj guard) (ce_babyAuthorityPublicKey env) = Inr guard \<and> key_text ''machineId'' guard = ce_machineId env
    \<and> \<not> existsSync s (mark d ''disarmed.json'')
    \<and> (cc_request c = Evaluate d \<and> rollback_due env (cc_now c) d s guard
       \<or> (\<exists>digest reason. cc_request c = ManualRecover d digest reason \<and> recovery_due env d digest reason s guard))"
proof -
  have inv: "controller_inv s" unfolding reachable by (rule reachable_controller_inv [OF parser])
  let ?s = "s\<lparr>cs_fault := cc_fault c\<rparr>"
  have s': "s' = fst (locked_action env c ?s)" using step by (simp add: controller_step_def)
  show ?thesis
  proof (cases rule: locked_action_cases [of env c ?s])
    case (refused l e)
    then show ?thesis using restored s' by simp
  next
    case (performed l l')
    let ?t = "?s\<lparr>cs_lock := l\<rparr>"
    have same: "rollback_due env now d ?t guard = rollback_due env now d s guard"
      "recovery_due env d digest reason ?t guard = recovery_due env d digest reason s guard" for now d guard digest reason
      using readers_same_files(1-3) [of ?t s env] readers_same_files(4) [of ?t s] by (simp_all add: rollback_due_def recovery_due_def)
    have "cs_restores (fst (controller_action env (cc_host c) (cc_now c) (cc_request c) ?t)) \<noteq> cs_restores ?t"
      using restored performed(1) s' by simp
    then obtain d guard where due: "cs_restores (fst (controller_action env (cc_host c) (cc_now c) (cc_request c) ?t)) = cs_restores s @ [guard]"
      "cc_request c = Evaluate d \<and> rollback_due env (cc_now c) d s guard
        \<or> (\<exists>digest reason. cc_request c = ManualRecover d digest reason \<and> recovery_due env d digest reason s guard)"
      by (rule action_restores) (auto simp: same)
    then have "\<not> existsSync s (mark d ''disarmed.json'')" "loadGuard env d s = Inr guard"
      using due_not_disarmed [OF parser inv] by blast+
    moreover have "key_text ''deploymentId'' guard = d"
      using inv loadGuard_id [OF _ parser \<open>loadGuard env d s = Inr guard\<close>] by (simp add: controller_inv_def)
    moreover have "cs_restores s' = cs_restores s @ [guard]" using s' performed(1) due(1) by simp
    ultimately show ?thesis using due(2) loadGuard_verified by blast
  qed
qed

subsection \<open>Disarming needs a marker\<close>

text \<open>Which deployments become disarmed: none but those in \<open>D\<close>.\<close>

definition disarms_only :: "string set \<Rightarrow> controller_store \<Rightarrow> controller_store \<Rightarrow> bool" where
  "disarms_only D s s' \<longleftrightarrow> (\<forall>d. d \<notin> D \<longrightarrow> existsSync s' (mark d ''disarmed.json'') \<longrightarrow> existsSync s (mark d ''disarmed.json''))"

interpretation disarming: action_order "disarms_only D"
  by unfold_locales (auto simp: disarms_only_def)

lemma keeps_bind_of: "(\<And>a. r = Inr a \<Longrightarrow> keeps R (f a)) \<Longrightarrow> action_order R \<Longrightarrow> keeps R (act_bind (act_of r) f)"
  by (cases r) (auto simp: keeps_def act_bind_read action_order.refl)

lemma created_disarms:
  assumes "created p kvs s s'" "store_path p" "\<And>d. d \<notin> D \<Longrightarrow> p \<noteq> mark d ''disarmed.json''"
  shows "disarms_only D s s'"
  unfolding disarms_only_def
proof (intro allI impI)
  fix d assume d: "d \<notin> D" "existsSync s' (mark d ''disarmed.json'')"
  have "mark d ''disarmed.json'' \<notin> set (path_prefixes (butlast p))"
    using prefixes_of_store_path [OF assms(2)] not_store_dir(1) [of "''disarmed.json''" d] by auto
  then show "existsSync s (mark d ''disarmed.json'')"
    using assms(1) assms(3) [OF d(1)] d(2) by (auto simp: created_def existsSync_def file_text_def map_add_def split: option.splits)
qed

lemma disarms_createOnce: "store_path p \<Longrightarrow> (\<And>d. d \<notin> D \<Longrightarrow> p \<noteq> mark d ''disarmed.json'') \<Longrightarrow> keeps (disarms_only D) (createOnce p (JObj kvs))"
  unfolding keeps_def using createOnce_created created_disarms by blast

lemma disarms_ensureDirectory: "store_path (q @ [x]) \<Longrightarrow> keeps (disarms_only D) (ensureDirectory q)"
  unfolding keeps_def
proof
  fix s assume path: "store_path (q @ [x])"
  have "mark d ''disarmed.json'' \<notin> set (path_prefixes q)" for d
    using prefixes_of_store_path [OF path] not_store_dir(1) [of "''disarmed.json''" d] by auto
  then show "disarms_only D s (fst (ensureDirectory q s))" by (auto simp: disarms_only_def ensureDirectory_def existsSync_def)
qed

lemma disarms_write_audit: "keeps (disarms_only D) (write_audit [''deployments'', d] evidence)"
  unfolding write_audit_def by (rule disarms_createOnce) (auto simp: store_path_def audit_dirs_def)

lemma disarms_writeEvidence:
  assumes "json_prop ''disposition'' evidence = Some (JStr ''disarmed'') \<Longrightarrow> key_text ''deploymentId'' evidence \<in> D"
  shows "keeps (disarms_only D) (writeEvidence evidence)"
  unfolding writeEvidence_def Let_def
  by (intro keeps_bind_of disarming.action_order_axioms, unfold deploymentRoot_Inr, elim conjE, hypsubst,
      intro disarming.keeps_rules disarms_write_audit disarms_createOnce) (use assms in \<open>auto simp: store_path_def\<close>)

lemma disarms_record:
  assumes "disposition = Disarmed \<Longrightarrow> key_text ''deploymentId'' guard \<in> D"
  shows "keeps (disarms_only D) (record_evidence env now guard disposition details)"
  unfolding record_evidence_def
proof (rule keeps_bind_of [OF _ disarming.action_order_axioms])
  fix evidence assume "new_evidence env now guard disposition details = Inr evidence"
  note new = new_evidence_Inr [OF this]
  have "keeps (disarms_only D) (writeEvidence evidence)"
    by (rule disarms_writeEvidence) (use new assms in \<open>cases disposition; simp\<close>)
  then show "keeps (disarms_only D) (act_bind (writeEvidence evidence) (\<lambda>_. act_return (controller_status_of guard (JStr (disposition_name disposition)) (Some evidence))))"
    by (intro disarming.keeps_rules)
qed

lemma disarms_writes:
  "keeps (disarms_only D) (writeGuard guard)" "keeps (disarms_only D) (writeSuccessMarker marker)"
  "keeps (disarms_only D) (writeManualRecoveryEvidence evidence)"
proof -
  have generation: "keeps (disarms_only D) (createOnce (generation_path n) (generation_json guard))" for n
    unfolding generation_json_def by (rule disarms_createOnce) (auto simp: store_path_def generation_path_def)
  have "keeps (disarms_only D) (ensureDirectory [''deployments'', d])" "keeps (disarms_only D) (ensureDirectory [''deployments'', d, ''evidence''])"
    "keeps (disarms_only D) (ensureDirectory [''deployments'', d, ''manual-recovery''])" for d
    using disarms_ensureDirectory [of "[''deployments'', d]" "''guard.json''"] disarms_ensureDirectory [of "[''deployments'', d, ''evidence'']" "[]"]
      disarms_ensureDirectory [of "[''deployments'', d, ''manual-recovery'']" "[]"] by (simp_all add: store_path_def audit_dirs_def)
  note dirs = this
  have files: "keeps (disarms_only D) (createOnce (mark d ''guard.json'') (JObj kvs))" "keeps (disarms_only D) (createOnce (mark d ''success.json'') (JObj kvs))"
    "keeps (disarms_only D) (createOnce [''deployments'', d, ''manual-recovery'', x] (JObj kvs))" for d x kvs
    by (rule disarms_createOnce; simp add: store_path_def audit_dirs_def)+
  show "keeps (disarms_only D) (writeGuard guard)" "keeps (disarms_only D) (writeSuccessMarker marker)"
    "keeps (disarms_only D) (writeManualRecoveryEvidence evidence)"
    unfolding writeGuard_def writeSuccessMarker_def writeManualRecoveryEvidence_def
    by (rule keeps_bind_of [OF _ disarming.action_order_axioms], unfold deploymentRoot_Inr, elim conjE, simp only: append_Cons append_Nil,
        intro disarming.keeps_bind dirs files generation disarms_write_audit)+
qed

lemma disarms_restoreSnapshot: "keeps (disarms_only D) (restoreSnapshot host guard)"
  by (simp add: keeps_def restoreSnapshot_def disarms_only_def existsSync_def)

lemma disarms_operations:
  "keeps (disarms_only {}) (arm env host now input)" "keeps (disarms_only {}) (commitSuccess env now input)"
  "keeps (disarms_only {}) (evaluate env host now d)" "keeps (disarms_only {}) (controller_read env d)"
  "keeps (disarms_only {}) (manualRecover env host now d digest reason)"
proof -
  have harmless: "keeps (disarms_only {}) (record_evidence env now guard disposition details)" if "disposition \<noteq> Disarmed" for guard disposition details
    using that by (intro disarms_record) simp
  have recovery: "keeps (disarms_only {}) (record_recovery env now guard prior reason answer)" for guard prior answer
    unfolding record_recovery_def Let_def by (intro disarming.keeps_rules disarms_writes)
  show "keeps (disarms_only {}) (arm env host now input)" "keeps (disarms_only {}) (commitSuccess env now input)"
    "keeps (disarms_only {}) (evaluate env host now d)" "keeps (disarms_only {}) (controller_read env d)"
    "keeps (disarms_only {}) (manualRecover env host now d digest reason)"
    unfolding arm_def commitSuccess_def evaluate_def controller_read_def manualRecover_def Let_def
    by (intro disarming.keeps_rules disarms_writes disarms_restoreSnapshot recovery harmless; simp add: rollback_disposition_def)+
qed

text \<open>What \<open>disarm\<close> has checked before it records anything.\<close>

definition disarm_due :: "('p, 'k) controller_env \<Rightarrow> string \<Rightarrow> controller_store \<Rightarrow> bool" where
  "disarm_due env d s \<longleftrightarrow> (\<exists>guard raw marker. loadGuard env d s = Inr guard \<and> readSuccessMarker env d s = Inr (Some raw)
     \<and> verifySignedSuccessMarker env raw (ce_babyAuthorityPublicKey env) = Inr marker \<and> marker_matches marker guard
     \<and> key_text ''machineId'' marker = ce_machineId env \<and> readVerifiedTerminal env d s = Inr None)"

lemma valid_marker_Inr:
  "valid_marker env guard raw = Inr marker \<longleftrightarrow> verifySignedSuccessMarker env raw (ce_babyAuthorityPublicKey env) = Inr marker
     \<and> marker_matches marker guard \<and> key_text ''machineId'' marker = ce_machineId env"
  by (auto simp: valid_marker_def assertMarkerMatchesGuard_def assertMachine_def res_simps)

lemma loadValidMarker_Some:
  assumes "loadValidMarker env guard s = Inr (Some marker)"
  obtains raw where "readSuccessMarker env (key_text ''deploymentId'' guard) s = Inr (Some raw)" "valid_marker env guard raw = Inr marker"
proof -
  obtain found where found: "readSuccessMarker env (key_text ''deploymentId'' guard) s = Inr found"
    and marker: "(case found of None \<Rightarrow> None | Some v \<Rightarrow> if json_falsy v then None
       else (case valid_marker env guard v of Inl _ \<Rightarrow> None | Inr marker \<Rightarrow> Some marker)) = Some marker"
    using assms by (auto simp: loadValidMarker_def res_bind_Inr)
  from marker obtain raw where "found = Some raw" "valid_marker env guard raw = Inr marker"
    by (cases found) (auto split: if_splits sum.splits)
  with found that show thesis by simp
qed

lemma disarm_effect:
  assumes "tree_inv s" "json_parser env" "\<not> disarms_only {} s (fst (disarm env now d s))"
  shows "disarm_due env d s" "disarms_only {d} s (fst (disarm env now d s))"
proof -
  have still: "disarms_only {} s s" by (rule disarming.refl)
  then obtain guard marker details where g: "loadGuard env d s = Inr guard" "readVerifiedTerminal env d s = Inr None"
    "loadValidMarker env guard s = Inr (Some marker)" "disarm env now d s = record_evidence env now guard Disarmed details s"
    using assms(3) unfolding disarm_def act_bind_read by (auto simp: act_bind_read split: sum.splits option.splits if_splits)
  have id: "key_text ''deploymentId'' guard = d" by (rule loadGuard_id [OF assms(1,2) g(1)])
  show "disarms_only {d} s (fst (disarm env now d s))" unfolding g(4) by (rule keepsD [OF disarms_record]) (simp add: id)
  obtain raw where "readSuccessMarker env d s = Inr (Some raw)" "valid_marker env guard raw = Inr marker"
    using loadValidMarker_Some [OF g(3)] unfolding id by blast
  then show "disarm_due env d s" using g(1,2) by (auto simp: disarm_due_def valid_marker_Inr)
qed

text \<open>
  C6. A deployment becomes disarmed only by a request to disarm it, and only while the store holds a success marker that
  the owner signed for this machine and that binds the guard's generation, plan, snapshot, candidate
  manifests, candidate pointers and evidence, and no rollback of the deployment is recorded.
\<close>

theorem disarm_needs_marker:
  assumes parser: "json_parser env" and reachable: "s = run_ops (controller_step env) calls new_controller_store"
    and step: "controller_step env c s = Inr (s', r)"
    and disarmed: "\<not> existsSync s (mark d ''disarmed.json'')" "existsSync s' (mark d ''disarmed.json'')"
  shows "cc_request c = Disarm d \<and> disarm_due env d s \<and> \<not> existsSync s (mark d ''rollback.json'')"
proof -
  have inv: "controller_inv s" unfolding reachable by (rule reachable_controller_inv [OF parser])
  let ?s = "s\<lparr>cs_fault := cc_fault c\<rparr>"
  have s': "s' = fst (locked_action env c ?s)" using step by (simp add: controller_step_def)
  have other: "existsSync (t\<lparr>cs_lock := l\<rparr>) p = existsSync t p" "existsSync (t\<lparr>cs_fault := f\<rparr>) p = existsSync t p" for t l f p
    by (simp_all add: existsSync_def)
  show ?thesis
  proof (cases rule: locked_action_cases [of env c ?s])
    case (refused l e)
    then show ?thesis using disarmed s' by (simp add: other)
  next
    case (performed l l')
    let ?t = "?s\<lparr>cs_lock := l\<rparr>"
    let ?a = "controller_action env (cc_host c) (cc_now c) (cc_request c)"
    have change: "\<not> existsSync ?t (mark d ''disarmed.json'')" "existsSync (fst (?a ?t)) (mark d ''disarmed.json'')"
      using disarmed s' performed(1) by (simp_all add: other)
    then have "\<not> disarms_only {} ?t (fst (?a ?t))" by (auto simp: disarms_only_def)
    then obtain d' where d': "cc_request c = Disarm d'"
      by (cases "cc_request c") (simp_all add: disarms_operations [THEN keepsD])
    have tree: "tree_inv ?t" using inv by (simp add: controller_inv_def tree_inv_def)
    have "disarm_due env d' ?t" "disarms_only {d'} ?t (fst (disarm env (cc_now c) d' ?t))"
      using disarm_effect [OF tree parser, of "cc_now c" d'] \<open>\<not> disarms_only {} ?t (fst (?a ?t))\<close> d' by simp_all
    moreover from this(2) have "d' = d" using change d' by (auto simp: disarms_only_def)
    moreover have "disarm_due env d ?t = disarm_due env d s"
      using readers_same_files(1,2,5) [of ?t s env] by (simp add: disarm_due_def)
    ultimately show ?thesis
      using d' inv terminal_None(2) [OF _ parser, of s d] by (auto simp: disarm_due_def controller_inv_def)
  qed
qed

subsection \<open>When nothing fails\<close>

text \<open>A state in which writes succeed, and a record that fits and is new.\<close>

definition healthy :: "controller_store \<Rightarrow> bool" where
  "healthy s \<longleftrightarrow> tree_inv s \<and> cs_fault s = None"

definition storable :: "string list \<Rightarrow> json_object \<Rightarrow> controller_store \<Rightarrow> bool" where
  "storable p kvs s \<longleftrightarrow> store_path p \<and> fits p kvs \<and> \<not> existsSync s p \<and> utf8_length (exactJsonBytes (JObj kvs)) \<le> MAX_RECORD_BYTES"

lemma store_dir_no_file:
  assumes "tree_inv s" "store_dir q"
  shows "file_text s q = None"
proof (rule ccontr)
  assume "file_text s q \<noteq> None"
  then obtain t where "(q, t) \<in> set (cs_files s)" by (auto simp: file_text_def dest: map_of_SomeD)
  then have "store_path q" using assms(1) by (auto simp: tree_inv_def)
  then show False using assms(2) by (cases rule: store_path_cases) (auto simp: store_dir_def record_names_def audit_dirs_def)
qed

lemma createOnce_healthy:
  assumes "healthy s" "storable p kvs s"
  obtains s' where "createOnce p (JObj kvs) s = (s', Inr ())" "healthy s'" "created p kvs s s'" "file_text s' p = Some (exactJsonBytes (JObj kvs))"
proof -
  have tree: "tree_inv s" and path: "store_path p" using assms by (auto simp: healthy_def storable_def)
  let ?d = "cs_dirs s @ filter (\<lambda>q. q \<notin> set (cs_dirs s)) (path_prefixes (butlast p))"
  let ?s = "s\<lparr>cs_dirs := ?d\<rparr>"
  have dir: "ensureDirectory (butlast p) s = (?s, Inr ())"
    using prefixes_of_store_path [OF path] store_dir_no_file [OF tree] by (auto simp: ensureDirectory_def)
  have new: "file_text s p = None" "p \<notin> set ?d"
    using assms(2) prefixes_of_store_path [OF path] path
    by (auto simp: storable_def existsSync_def) (cases rule: store_path_cases [OF path]; auto simp: store_dir_def record_names_def audit_dirs_def)+
  let ?t = "?s\<lparr>cs_files := cs_files s @ [(p, exactJsonBytes (JObj kvs))]\<rparr>"
  have run: "createOnce p (JObj kvs) s = (?t, Inr ())"
    using assms dir new by (auto simp: createOnce_def Let_def act_bind_def storable_def healthy_def write_new_def check_def)
  have made: "created p kvs s ?t" using createOnce_created [of p kvs s] run by simp
  have well: "healthy ?t" using tree_created [OF tree made path] assms by (simp add: healthy_def storable_def)
  have "file_text ?t p = Some (exactJsonBytes (JObj kvs))" using new by (simp add: file_text_def map_add_def)
  with run well made show thesis by (rule that)
qed

text \<open>Evidence is stored in the audit directory and, for an end of the deployment, as its terminal record.\<close>

definition audit_path :: "string \<Rightarrow> json_object \<Rightarrow> string list" where
  "audit_path d evidence = [''deployments'', d, ''evidence'', key_text ''recordDigest'' evidence @ ''.json'']"

lemma writeEvidence_harmless:
  assumes "healthy s" "storable (audit_path d evidence) evidence s" "assertDeploymentId d = Inr ()"
    and "key_text ''deploymentId'' evidence = d" "json_prop ''disposition'' evidence = Some (JStr x)" "x \<notin> {''disarmed'', ''rolled_back'', ''rollback_failed''}"
  obtains s' where "writeEvidence evidence s = (s', Inr ())" "healthy s'" "created (audit_path d evidence) evidence s s'"
proof -
  have root: "deploymentRoot d = Inr [''deployments'', d]" using assms(3) by (simp add: deploymentRoot_Inr)
  obtain s' where s': "createOnce (audit_path d evidence) (JObj evidence) s = (s', Inr ())" "healthy s'" "created (audit_path d evidence) evidence s s'"
    using createOnce_healthy [OF assms(1,2)] by blast
  have "writeEvidence evidence s = (s', Inr ())"
    using s'(1) assms(4-6) by (simp add: writeEvidence_def Let_def root write_audit_def audit_path_def act_bind_def)
  then show thesis using s'(2,3) by (rule that)
qed

lemma writeEvidence_rollback:
  assumes "healthy s" "storable (audit_path d evidence) evidence s" "assertDeploymentId d = Inr ()"
    and "key_text ''deploymentId'' evidence = d" "rollback_record evidence" "\<not> existsSync s (mark d ''rollback.json'')"
  obtains s' where "writeEvidence evidence s = (s', Inr ())" "file_text s' (mark d ''rollback.json'') = Some (exactJsonBytes (JObj evidence))"
proof -
  have root: "deploymentRoot d = Inr [''deployments'', d]" using assms(3) by (simp add: deploymentRoot_Inr)
  obtain t where t: "createOnce (audit_path d evidence) (JObj evidence) s = (t, Inr ())" "healthy t" "created (audit_path d evidence) evidence s t"
    using createOnce_healthy [OF assms(1,2)] by blast
  have "has_file t (mark d ''rollback.json'') = has_file s (mark d ''rollback.json'')"
    using has_file_created [OF t(3), of "mark d ''rollback.json''"] by (auto simp: audit_path_def)
  then have "\<not> existsSync t (mark d ''rollback.json'')"
    using assms(1,6) t(2) by (simp add: healthy_def exists_record)
  then have "storable (mark d ''rollback.json'') evidence t"
    using assms(2,4,5) by (simp add: storable_def store_path_def fits_def)
  then obtain s' where s': "createOnce (mark d ''rollback.json'') (JObj evidence) t = (s', Inr ())"
    "file_text s' (mark d ''rollback.json'') = Some (exactJsonBytes (JObj evidence))" using createOnce_healthy [OF t(2)] by blast
  have "writeEvidence evidence s = (s', Inr ())"
    using t(1) s'(1) assms(4,5) by (auto simp: writeEvidence_def Let_def root write_audit_def audit_path_def act_bind_def rollback_record_def)
  then show thesis using s'(2) by (rule that)
qed


end
