(* ===== verification/Controller_Progress.thy ===== *)
theory Controller_Progress
  imports Controller_Safety
begin

section \<open>What the deployment controller completes\<close>

text \<open>
  When disk and host work, the operations reach their end: a verified guard always gets its evidence, a stored record is
  found again, and the three steps of a successful deployment (arm, commit the success marker, disarm) follow
  each other. The same lemmas show which markers \<open>commitSuccess\<close> takes.
\<close>

subsection \<open>Evidence can be built\<close>

text \<open>A clock that \<open>toISOString\<close> accepts, a key name that the records accept, and keys that sign.\<close>

definition signing_env :: "('p, 'k) controller_env \<Rightarrow> bool" where
  "signing_env env \<longleftrightarrow> IDENTIFIER_PATTERN (ce_controllerSigningKeyId env)
     \<and> key_pair env (ce_controllerEvidencePrivateKey env) (ce_controllerEvidencePublicKey env)"

definition evidence_of :: "('p, 'k) controller_env \<Rightarrow> int \<Rightarrow> json_object \<Rightarrow> controller_disposition \<Rightarrow> json_object \<Rightarrow> json_object" where
  "evidence_of env now guard disposition details =
     signedRecord env (evidence_payload env now guard disposition details) (ce_controllerEvidencePrivateKey env)"

lemma verified_guard_payload:
  assumes "verifySignedGuardRecord env v k = Inr guard"
  shows "assertGuardPayload (payload_of GUARD_PAYLOAD_KEYS guard) = Inr ()"
  using assms by (simp add: verifySignedGuardRecord_def guard_kind.verify_Inr)

text \<open>The fields that evidence takes from the guard.\<close>

definition shared_keys :: "string list" where
  "shared_keys = [''deploymentId'', ''generation'', ''machineId'', ''planDigest'', ''snapshotDigest'', ''candidateManifestDigests'', ''candidatePointerTargets'']"

lemma prop_evidence_payload:
  "json_prop ''recordVersion'' (evidence_payload env now guard disposition details) = Some (JStr CONTROLLER_RECORD_VERSION)"
  "json_prop ''recordType'' (evidence_payload env now guard disposition details) = Some (JStr ''baby-quirt-controller-evidence'')"
  "json_prop ''disposition'' (evidence_payload env now guard disposition details) = Some (JStr (disposition_name disposition))"
  "json_prop ''detailsDigest'' (evidence_payload env now guard disposition details) = Some (JStr (ce_sha256 env (canonicalJson (JObj details))))"
  "json_prop ''occurredAt'' (evidence_payload env now guard disposition details) = Some (JStr (to_iso now))"
  "json_prop ''signingKeyId'' (evidence_payload env now guard disposition details) = Some (JStr (ce_controllerSigningKeyId env))"
  "json_prop ''signatureAlgorithm'' (evidence_payload env now guard disposition details) = Some (JStr ''ed25519'')"
  by (simp_all add: evidence_payload_def json_prop_append json_prop_simps prop_payload_of)

lemma prop_evidence_shared:
  assumes "k \<in> set shared_keys"
  shows "json_prop k (evidence_payload env now guard disposition details) = json_prop k guard"
proof -
  let ?head = "[''recordVersion'', ''recordType'', ''disposition'', ''detailsDigest'', ''occurredAt'', ''signingKeyId'', ''signatureAlgorithm'']"
  have "k \<notin> set ?head" using assms unfolding shared_keys_def by (simp, elim disjE) simp_all
  then show ?thesis using assms unfolding evidence_payload_def shared_keys_def [symmetric]
    by (cases "json_prop k guard") (simp_all add: json_prop_append json_prop_simps prop_payload_of)
qed

lemma string_with_Some: "string_with pattern v \<Longrightarrow> v \<noteq> None"
  by (auto simp: string_with_def split: option.splits)

lemma positive_Some: "positive_safe_integer v \<Longrightarrow> v \<noteq> None"
  by (auto simp: positive_safe_integer_def split: option.splits)

lemma new_evidence_built:
  assumes "signing_env env" "\<bar>now\<bar> \<le> max_time" "verifySignedGuardRecord env v k = Inr guard"
  shows "new_evidence env now guard disposition details = Inr (evidence_of env now guard disposition details)"
proof -
  let ?p = "evidence_payload env now guard disposition details"
  have "assertIdentityPayload (payload_of GUARD_PAYLOAD_KEYS guard) = Inr ()"
    using verified_guard_payload [OF assms(3)] by (simp add: assertGuardPayload_def assertCommonPayload_def res_simps)
  then have fields: "record_assertIdentifier (json_prop ''deploymentId'' guard) ''deploymentId'' = Inr ()"
    "positive_safe_integer (json_prop ''generation'' guard)" "record_assertIdentifier (json_prop ''machineId'' guard) ''machineId'' = Inr ()"
    "record_assertDigest (json_prop ''planDigest'' guard) ''planDigest'' = Inr ()" "record_assertDigest (json_prop ''snapshotDigest'' guard) ''snapshotDigest'' = Inr ()"
    "assertManifestDigests (json_prop ''candidateManifestDigests'' guard) = Inr ()" "assertCandidatePointerTargets (json_prop ''candidatePointerTargets'' guard) = Inr ()"
    by (simp_all add: assertIdentityPayload_def res_simps prop_payload_of GUARD_PAYLOAD_KEYS_def)
  have "json_prop x guard \<noteq> None" if "x \<in> set shared_keys" for x
    using that fields by (auto simp: shared_keys_def record_assertIdentifier_def record_assertDigest_def res_simps assertManifestDigests_def
      assertCandidatePointerTargets_def record_simps dest: string_with_Some positive_Some)
  then have "map fst (payload_of shared_keys guard) = shared_keys" by (simp add: keys_payload_of filter_id_conv)
  then have keys: "map fst ?p = EVIDENCE_PAYLOAD_KEYS"
    by (simp add: evidence_payload_def EVIDENCE_PAYLOAD_KEYS_def shared_keys_def)
  have known: "disposition_name disposition \<in> set DISPOSITIONS" by (cases disposition) (simp_all add: DISPOSITIONS_def)
  have "assertIdentityPayload ?p = Inr ()"
    using fields assms(1) unfolding assertIdentityPayload_def res_simps
    by (simp add: prop_evidence_payload prop_evidence_shared shared_keys_def record_assertIdentifier_def string_with_def signing_env_def res_simps)
  then have "assertEvidencePayload ?p = Inr ()"
    using assms(1,2) canonical_timestamp_to_iso [of now]
    by (simp add: assertEvidencePayload_def assertExactKeys_def keys res_simps prop_evidence_payload record_assertDigest_def record_assertTimestamp_def
      string_with_def signing_env_def key_pair_def known)
  then show ?thesis by (simp add: new_evidence_def buildSignedControllerEvidence_def evidence_of_def res_simps)
qed

subsection \<open>Writing and reading back\<close>

definition small :: "json_object \<Rightarrow> bool" where
  "small kvs \<longleftrightarrow> utf8_length (exactJsonBytes (JObj kvs)) \<le> MAX_RECORD_BYTES"

lemma exists_store_path:
  assumes "tree_inv s" "store_path p"
  shows "existsSync s p \<longleftrightarrow> file_text s p \<noteq> None"
proof -
  have "\<not> store_dir p" using assms(2) by (cases rule: store_path_cases) (auto simp: store_dir_def record_names_def audit_dirs_def)
  then show ?thesis using assms(1) by (auto simp: existsSync_def tree_inv_def)
qed

text \<open>What writing records does not touch: the snapshots restored and the lock.\<close>

abbreviation rest_of :: "controller_store \<Rightarrow> json_object list \<times> string option" where
  "rest_of s \<equiv> (cs_restores s, cs_lock s)"

lemma createOnce_adds:
  assumes "healthy s" "store_path p" "fits p kvs" "file_text s p = None" "small kvs"
  obtains s' where "createOnce p (JObj kvs) s = (s', Inr ())" "healthy s'" "file_text s' = (file_text s)(p \<mapsto> exactJsonBytes (JObj kvs))"
    "rest_of s' = rest_of s"
proof -
  have "storable p kvs s" using assms exists_store_path [of s p] by (simp add: storable_def healthy_def small_def)
  from createOnce_healthy [OF assms(1) this] obtain s' where s': "createOnce p (JObj kvs) s = (s', Inr ())" "healthy s'" "created p kvs s s'"
    "file_text s' p = Some (exactJsonBytes (JObj kvs))" by blast
  have "file_text s' q = file_text s q" if "q \<noteq> p" for q
    using s'(3) that by (auto simp: created_def file_text_def map_add_def split: option.splits)
  then have "file_text s' = (file_text s)(p \<mapsto> exactJsonBytes (JObj kvs))" using s'(4) by auto
  then show thesis using s' that by (auto simp: created_def)
qed

lemma ensureDirectory_adds:
  assumes "healthy s" "\<forall>q\<in>set (path_prefixes p). store_dir q"
  obtains s' where "ensureDirectory p s = (s', Inr ())" "healthy s'" "file_text s' = file_text s" "rest_of s' = rest_of s"
proof -
  let ?s = "s\<lparr>cs_dirs := cs_dirs s @ filter (\<lambda>q. q \<notin> set (cs_dirs s)) (path_prefixes p)\<rparr>"
  have "ensureDirectory p s = (?s, Inr ())"
    using assms store_dir_no_file [of s] by (auto simp: ensureDirectory_def healthy_def)
  moreover have "healthy ?s" using assms by (fastforce simp: healthy_def tree_inv_def)
  ultimately show thesis by (rule that) (simp_all add: file_text_def fun_eq_iff)
qed

lemma readJson_file:
  assumes "json_parser env" "plain (JObj kvs)" "small kvs" "file_text s p = Some (exactJsonBytes (JObj kvs))"
  shows "readJson env s p = Inr (JObj (sorted_members kvs))"
  using assms by (auto simp: readJson_def parse_record_def json_parser_def small_def check_def sorted_members_def)

lemma loadGuard_file:
  assumes "json_parser env" "verifyGuard env (JObj guard) = Inr guard" "small guard" "assertDeploymentId d = Inr ()"
    and "file_text s (mark d ''guard.json'') = Some (exactJsonBytes (JObj guard))"
  shows "loadGuard env d s = Inr (sorted_members guard)"
proof -
  have verified: "verifySignedGuardRecord env (JObj guard) (ce_babyAuthorityPublicKey env) = Inr guard" "key_text ''machineId'' guard = ce_machineId env"
    using assms(2) by (simp_all add: verifyGuard_Inr)
  note plain = verified_guard_plain [OF verified(1)]
  have "readJson env s (mark d ''guard.json'') = Inr (JObj (sorted_members guard))"
    using assms(1,3,5) plain by (intro readJson_file)
  then show ?thesis using assms(4,5) stored_guard [OF verified(1)] verified(2) plain
    by (simp add: loadGuard_def readGuard_def deploymentRoot_def existsSync_def check_def verifyGuard_Inr record_simps del: sortKeys.simps(6))
qed

text \<open>A marker that matches the guard matches it also when the guard, or both, have come back from the store.\<close>

lemma scalar_sorted: "string_with pattern v \<Longrightarrow> map_option sortKeys v = v" "positive_safe_integer v \<Longrightarrow> map_option sortKeys v = v"
  by (auto simp: string_with_def positive_safe_integer_def split: option.splits json.splits)

lemma marker_matches_loaded:
  assumes "verifySignedGuardRecord env v k = Inr guard" "marker_matches marker guard"
  shows "marker_matches marker (sorted_members guard)"
proof -
  note plain = verified_guard_plain [OF assms(1)]
  have "assertCommonPayload (payload_of GUARD_PAYLOAD_KEYS guard) = Inr ()"
    using verified_guard_payload [OF assms(1)] by (simp add: assertGuardPayload_def res_simps)
  then have "map_option sortKeys (json_prop x guard) = json_prop x guard"
      if "x \<in> {''deploymentId'', ''generation'', ''machineId'', ''planDigest'', ''snapshotDigest'', ''evidenceDigest''}" for x
    using that by (auto simp: assertCommonPayload_def assertIdentityPayload_def res_simps prop_payload_of GUARD_PAYLOAD_KEYS_def
      record_assertIdentifier_def record_assertDigest_def scalar_sorted)
  moreover have "map_option sortKeys (sub_prop a b guard) = sub_prop a b guard"
      if "a \<in> {''candidateManifestDigests'', ''candidatePointerTargets''}" "b \<in> {''baby'', ''gateway''}" for a b
    using \<open>assertCommonPayload (payload_of GUARD_PAYLOAD_KEYS guard) = Inr ()\<close> that
    by (auto simp: assertCommonPayload_def assertIdentityPayload_def res_simps prop_payload_of GUARD_PAYLOAD_KEYS_def
      assertManifestDigests_def assertCandidatePointerTargets_def record_assertDigest_def sub_prop_def record_simps scalar_sorted)
  ultimately show ?thesis using assms(2) plain by (simp add: marker_matches_def record_simps)
qed

lemma marker_matches_sorted:
  assumes "plain (JObj marker)" "marker_matches marker (sorted_members guard)" "plain (JObj guard)"
  shows "marker_matches (sorted_members marker) (sorted_members guard)"
proof -
  have "plain (JObj (sorted_members guard))" using plain_sortKeys [OF assms(3)] by (simp only: sortKeys_JObj)
  then have "map_option sortKeys (json_prop k (sorted_members guard)) = json_prop k (sorted_members guard)"
    "map_option sortKeys (sub_prop a b (sorted_members guard)) = sub_prop a b (sorted_members guard)" for k a b
    using prop_sorted [of "sorted_members guard"] sub_prop_sorted [of "sorted_members guard"] sortKeys_idem [OF assms(3)]
    by (simp_all only: sortKeys_JObj json.inject)
  then show ?thesis using assms(1,2) by (auto simp: marker_matches_def record_simps)
qed

subsection \<open>Operations that complete\<close>

text \<open>The bytes of the evidence that an operation leaves behind.\<close>

abbreviation bytes_of :: "json_object \<Rightarrow> string" where
  "bytes_of kvs \<equiv> exactJsonBytes (JObj kvs)"

lemma write_audit_adds:
  assumes "healthy s" "plain (JObj evidence)" "small evidence" "key_text ''deploymentId'' evidence = d" "file_text s (audit_path d evidence) = None"
  obtains s' where "write_audit [''deployments'', d] evidence s = (s', Inr ())" "healthy s'"
    "file_text s' = (file_text s)(audit_path d evidence \<mapsto> bytes_of evidence)" "rest_of s' = rest_of s"
proof -
  have "store_path (audit_path d evidence)" "fits (audit_path d evidence) evidence"
    using assms(2,4) by (auto simp: audit_path_def store_path_def audit_dirs_def fits_def)
  from createOnce_adds [OF assms(1) this assms(5,3)] that show thesis by (auto simp: write_audit_def audit_path_def)
qed

lemma record_evidence_adds:
  assumes "healthy s" "signing_env env" "\<bar>now\<bar> \<le> max_time" "verifySignedGuardRecord env v k = Inr guard" "key_text ''deploymentId'' guard = d"
    and "assertDeploymentId d = Inr ()" "evidence = evidence_of env now guard disposition details" "small evidence" "file_text s (audit_path d evidence) = None"
    and "disposition \<in> {Armed, Success_marker_valid, Disarmed}" "disposition = Disarmed \<Longrightarrow> file_text s (mark d ''disarmed.json'') = None"
  obtains s' where "record_evidence env now guard disposition details s = (s', Inr (controller_status_of guard (JStr (disposition_name disposition)) (Some evidence)))"
    "healthy s'" "rest_of s' = rest_of s"
    "file_text s' = (if disposition = Disarmed then (file_text s)(audit_path d evidence \<mapsto> bytes_of evidence, mark d ''disarmed.json'' \<mapsto> bytes_of evidence)
       else (file_text s)(audit_path d evidence \<mapsto> bytes_of evidence))"
proof -
  have built: "new_evidence env now guard disposition details = Inr evidence" unfolding assms(7) by (rule new_evidence_built [OF assms(2-4)])
  note new = new_evidence_Inr [OF this, unfolded assms(5)]
  have root: "deploymentRoot d = Inr [''deployments'', d]" using assms(6) by (simp add: deploymentRoot_Inr)
  obtain t where t: "write_audit [''deployments'', d] evidence s = (t, Inr ())" "healthy t"
    "file_text t = (file_text s)(audit_path d evidence \<mapsto> bytes_of evidence)" "rest_of t = rest_of s"
    using write_audit_adds [OF assms(1) new(1) assms(8) new(3) assms(9)] by blast
  show thesis
  proof (cases "disposition = Disarmed")
    case True
    have "store_path (mark d ''disarmed.json'')" "fits (mark d ''disarmed.json'') evidence" "file_text t (mark d ''disarmed.json'') = None"
      using new True assms(11) t(3) by (auto simp: store_path_def fits_def audit_path_def)
    from createOnce_adds [OF t(2) this assms(8)] obtain s' where s': "createOnce (mark d ''disarmed.json'') (JObj evidence) t = (s', Inr ())" "healthy s'"
      "file_text s' = (file_text t)(mark d ''disarmed.json'' \<mapsto> bytes_of evidence)" "rest_of s' = rest_of t" by blast
    have "writeEvidence evidence s = (s', Inr ())"
      using new True t(1) s'(1) by (simp add: writeEvidence_def Let_def root act_bind_def act_of_def)
    then show thesis using s' t True built by (intro that) (simp_all add: record_evidence_def act_bind_def act_of_def)
  next
    case False
    then have "writeEvidence evidence s = (t, Inr ())"
      using new assms(10) t(1) by (auto simp: writeEvidence_def Let_def root act_bind_def act_of_def)
    then show thesis using t False built by (intro that) (simp_all add: record_evidence_def act_bind_def act_of_def)
  qed
qed

lemma commitSuccess_adds:
  assumes "healthy s" "signing_env env" "\<bar>now\<bar> \<le> max_time" "loadGuard env d s = Inr guard" "key_text ''deploymentId'' guard = d"
    and "verifySignedSuccessMarker env (JObj marker) (ce_babyAuthorityPublicKey env) = Inr marker" "marker_matches marker guard"
    and "time_of (key_text ''acceptedAt'' marker) \<le> now" "file_text s (mark d ''success.json'') = None" "small marker"
    and "evidence = evidence_of env now guard Success_marker_valid (opt_entry ''successMarkerDigest'' (json_prop ''recordDigest'' marker))"
    and "small evidence" "file_text s (audit_path d evidence) = None"
  obtains s' where "commitSuccess env now (JObj marker) s = (s', Inr (controller_status_of guard (JStr ''success_marker_valid'') (Some evidence)))"
    "healthy s'" "rest_of s' = rest_of s"
    "file_text s' = (file_text s)(mark d ''success.json'' \<mapsto> bytes_of marker, audit_path d evidence \<mapsto> bytes_of evidence)"
proof -
  have id: "assertDeploymentId d = Inr ()" using assms(4) by (auto simp: loadGuard_def readGuard_def res_simps)
  have root: "deploymentRoot d = Inr [''deployments'', d]" using id by (simp add: deploymentRoot_Inr)
  note guard = loadGuard_verified [OF assms(4)]
  have same: "key_text ''deploymentId'' marker = d" "key_text ''machineId'' marker = ce_machineId env"
    using assms(5,7) guard by (simp_all add: marker_matches_def key_text_def)
  have "store_path (mark d ''success.json'')" "fits (mark d ''success.json'') marker"
    using verified_marker_plain [OF assms(6)] same(1) by (auto simp: store_path_def fits_def)
  from createOnce_adds [OF assms(1) this assms(9,10)] obtain t where t: "createOnce (mark d ''success.json'') (JObj marker) s = (t, Inr ())" "healthy t"
    "file_text t = (file_text s)(mark d ''success.json'' \<mapsto> bytes_of marker)" "rest_of t = rest_of s" by blast
  have "file_text t (audit_path d evidence) = None" using assms(13) t(3) by (simp add: audit_path_def)
  then obtain s' where s': "record_evidence env now guard Success_marker_valid (opt_entry ''successMarkerDigest'' (json_prop ''recordDigest'' marker)) t
      = (s', Inr (controller_status_of guard (JStr ''success_marker_valid'') (Some evidence)))" "healthy s'" "rest_of s' = rest_of t"
    "file_text s' = (file_text t)(audit_path d evidence \<mapsto> bytes_of evidence)"
    using record_evidence_adds [OF t(2) assms(2,3) _ assms(5) id assms(11,12)] guard by force
  have "commitSuccess env now (JObj marker) s = (s', Inr (controller_status_of guard (JStr ''success_marker_valid'') (Some evidence)))"
    using assms(4,6,7,8) same t(1) s'(1)
    by (simp add: commitSuccess_def act_bind_read assertMarkerMatchesGuard_def assertMachine_def check_def writeSuccessMarker_def root)
      (simp add: act_bind_def act_of_def)
  then show thesis using s' t by (intro that) simp_all
qed

lemma no_terminal:
  assumes "controller_inv s" "assertDeploymentId d = Inr ()" "\<not> existsSync s (mark d ''disarmed.json'')" "\<not> existsSync s (mark d ''rollback.json'')"
  shows "readVerifiedTerminal env d s = Inr None"
proof -
  have attempts: "\<not> existsSync s [''deployments'', d, ''manual-recovery'', x]" for x
    using assms(1,4) by (auto simp: controller_inv_def)
  have "p \<notin> set (cs_dirs s @ map fst (cs_files s))" if "p \<noteq> []" "butlast p = [''deployments'', d, ''manual-recovery'']" for p
  proof -
    have "p = [''deployments'', d, ''manual-recovery'', last p]" using append_butlast_last_id [OF that(1)] that(2) by simp
    then show ?thesis using attempts [of "last p"] by (auto simp: existsSync_def file_text_def map_of_eq_None_iff)
  qed
  then have "readdirSync s [''deployments'', d, ''manual-recovery''] = []"
    unfolding readdirSync_def by (simp only: map_is_Nil_conv filter_empty_conv) blast
  then show ?thesis using assms(2-4)
    by (simp add: readVerifiedTerminal_def readTerminalEvidence_def deploymentRoot_def read_if_exists_def)
qed

lemma loadValidMarker_file:
  assumes "json_parser env" "verifySignedSuccessMarker env (JObj marker) (ce_babyAuthorityPublicKey env) = Inr marker" "small marker"
    and "plain (JObj guard)" "marker_matches marker (sorted_members guard)" "key_text ''machineId'' marker = ce_machineId env"
    and "assertDeploymentId d = Inr ()" "key_text ''deploymentId'' guard = d" "file_text s (mark d ''success.json'') = Some (bytes_of marker)"
  shows "loadValidMarker env (sorted_members guard) s = Inr (Some (sorted_members marker))"
proof -
  note plain = verified_marker_plain [OF assms(2)]
  have "readJson env s (mark d ''success.json'') = Inr (JObj (sorted_members marker))"
    using assms(1,3,9) plain by (intro readJson_file)
  moreover have "valid_marker env (sorted_members guard) (JObj (sorted_members marker)) = Inr (sorted_members marker)"
    unfolding valid_marker_Inr
    using stored_marker [OF assms(2)] marker_matches_sorted [OF plain assms(5,4)] assms(6) plain by (simp add: record_simps del: sortKeys.simps(6))
  ultimately show ?thesis using assms(4,7-9)
    by (simp add: loadValidMarker_def readSuccessMarker_def deploymentRoot_def read_if_exists_def existsSync_def record_simps stored_not_falsy
      del: sortKeys.simps(6))
qed

lemma disarm_adds:
  assumes "healthy s" "signing_env env" "\<bar>now\<bar> \<le> max_time" "loadGuard env d s = Inr guard" "key_text ''deploymentId'' guard = d"
    and "readVerifiedTerminal env d s = Inr None" "loadValidMarker env guard s = Inr (Some marker)"
    and "evidence = evidence_of env now guard Disarmed
      (opt_entry ''successMarkerDigest'' (json_prop ''recordDigest'' marker) @ opt_entry ''guardRecordDigest'' (json_prop ''recordDigest'' guard))"
    and "small evidence" "file_text s (audit_path d evidence) = None" "file_text s (mark d ''disarmed.json'') = None"
  obtains s' where "disarm env now d s = (s', Inr (controller_status_of guard (JStr ''disarmed'') (Some evidence)))" "healthy s'" "rest_of s' = rest_of s"
    "file_text s' = (file_text s)(audit_path d evidence \<mapsto> bytes_of evidence, mark d ''disarmed.json'' \<mapsto> bytes_of evidence)"
proof -
  have id: "assertDeploymentId d = Inr ()" using assms(4) by (auto simp: loadGuard_def readGuard_def res_simps)
  from record_evidence_adds [OF assms(1-3) conjunct1 [OF loadGuard_verified [OF assms(4)]] assms(5) id assms(8-10)] assms(11)
  obtain s' where s': "record_evidence env now guard Disarmed
      (opt_entry ''successMarkerDigest'' (json_prop ''recordDigest'' marker) @ opt_entry ''guardRecordDigest'' (json_prop ''recordDigest'' guard)) s
      = (s', Inr (controller_status_of guard (JStr ''disarmed'') (Some evidence)))" "healthy s'" "rest_of s' = rest_of s"
    "file_text s' = (file_text s)(audit_path d evidence \<mapsto> bytes_of evidence, mark d ''disarmed.json'' \<mapsto> bytes_of evidence)" by auto
  have "disarm env now d s = (s', Inr (controller_status_of guard (JStr ''disarmed'') (Some evidence)))"
    using assms(4,6,7) s'(1) by (simp add: disarm_def act_bind_read)
  then show thesis using s'(2-4) by (rule that)
qed

text \<open>The record that reserves a generation.\<close>

definition generation_members :: "json_object \<Rightarrow> json_object" where
  "generation_members guard =
     opt_entry ''deploymentId'' (json_prop ''deploymentId'' guard) @ opt_entry ''generation'' (json_prop ''generation'' guard) @
     opt_entry ''guardRecordDigest'' (json_prop ''recordDigest'' guard)"

lemma generation_json_members: "generation_json guard = JObj (generation_members guard)"
  by (simp add: generation_json_def generation_members_def)

lemma writeGuard_adds:
  assumes "healthy s" "plain (JObj guard)" "key_text ''deploymentId'' guard = d" "assertDeploymentId d = Inr ()" "small guard" "small (generation_members guard)"
    and "file_text s (mark d ''guard.json'') = None" "file_text s (generation_path (num_prop ''generation'' guard)) = None"
  obtains s' where "writeGuard guard s = (s', Inr ())" "healthy s'" "rest_of s' = rest_of s"
    "file_text s' = (file_text s)(mark d ''guard.json'' \<mapsto> bytes_of guard, generation_path (num_prop ''generation'' guard) \<mapsto> bytes_of (generation_members guard))"
proof -
  let ?g = "generation_path (num_prop ''generation'' guard)"
  have root: "deploymentRoot d = Inr [''deployments'', d]" using assms(4) by (simp add: deploymentRoot_Inr)
  obtain a where a: "ensureDirectory [''deployments'', d] s = (a, Inr ())" "healthy a" "file_text a = file_text s" "rest_of a = rest_of s"
    using ensureDirectory_adds [OF assms(1), of "[''deployments'', d]"] by (auto simp: path_prefixes_def store_dirI)
  obtain b where b: "ensureDirectory [''deployments'', d, ''evidence''] a = (b, Inr ())" "healthy b" "file_text b = file_text s" "rest_of b = rest_of s"
    using ensureDirectory_adds [OF a(2), of "[''deployments'', d, ''evidence'']"] a(3,4) by (auto simp: path_prefixes_def store_dirI audit_dirs_def)
  have "store_path (mark d ''guard.json'')" "fits (mark d ''guard.json'') guard" "file_text b (mark d ''guard.json'') = None"
    using assms(2,3,7) b(3) by (auto simp: store_path_def fits_def)
  from createOnce_adds [OF b(2) this assms(5)] obtain t where t: "createOnce (mark d ''guard.json'') (JObj guard) b = (t, Inr ())" "healthy t"
    "file_text t = (file_text s)(mark d ''guard.json'' \<mapsto> bytes_of guard)" "rest_of t = rest_of s" using b(3,4) by auto
  have "store_path ?g" "fits ?g (generation_members guard)" "file_text t ?g = None"
    using generation_json_fits [OF assms(2), of "num_prop ''generation'' guard"] assms(8) t(3)
    by (auto simp: store_path_def generation_path_def generation_json_members)
  from createOnce_adds [OF t(2) this assms(6)] obtain s' where s': "createOnce ?g (JObj (generation_members guard)) t = (s', Inr ())" "healthy s'"
    "file_text s' = (file_text t)(?g \<mapsto> bytes_of (generation_members guard))" "rest_of s' = rest_of t" by blast
  have "writeGuard guard s = (s', Inr ())"
    using assms(3) a(1) b(1) t(1) s'(1) by (simp add: writeGuard_def root act_bind_def act_of_def generation_json_members)
  then show thesis using s' t by (intro that) simp_all
qed

text \<open>Nothing stands in the way of a new guard.\<close>

definition quiet_for :: "json_object \<Rightarrow> controller_store \<Rightarrow> bool" where
  "quiet_for guard s \<longleftrightarrow> activeGuardIds s = Inr [] \<and> (\<exists>latest. latestGeneration s = Inr latest \<and> latest < num_prop ''generation'' guard)
     \<and> file_text s (generation_path (num_prop ''generation'' guard)) = None \<and> (\<forall>p. file_text s (''deployments'' # key_text ''deploymentId'' guard # p) = None)"

definition armed_evidence :: "('p, 'k) controller_env \<Rightarrow> int \<Rightarrow> json_object \<Rightarrow> json \<Rightarrow> json_object" where
  "armed_evidence env now guard pointers = evidence_of env now guard Armed
     (opt_entry ''guardRecordDigest'' (json_prop ''recordDigest'' guard) @ [(''pointerDigest'', JStr (pointersDigest env pointers))])"

definition success_evidence :: "('p, 'k) controller_env \<Rightarrow> int \<Rightarrow> json_object \<Rightarrow> json_object \<Rightarrow> json_object" where
  "success_evidence env now guard marker =
     evidence_of env now guard Success_marker_valid (opt_entry ''successMarkerDigest'' (json_prop ''recordDigest'' marker))"

definition disarm_evidence :: "('p, 'k) controller_env \<Rightarrow> int \<Rightarrow> json_object \<Rightarrow> json_object \<Rightarrow> json_object" where
  "disarm_evidence env now guard marker = evidence_of env now guard Disarmed
     (opt_entry ''successMarkerDigest'' (json_prop ''recordDigest'' marker) @ opt_entry ''guardRecordDigest'' (json_prop ''recordDigest'' guard))"

lemma arm_adds:
  assumes "healthy s" "signing_env env" "\<bar>now\<bar> \<le> max_time" "verifyGuard env (JObj guard) = Inr guard" "key_text ''deploymentId'' guard = d"
    and "assertDeploymentId d = Inr ()" "now < time_of (key_text ''deadline'' guard)" "quiet_for guard s"
    and "ho_readPointers host guard = Some pointers" "canonicalJson pointers = canonicalJson (json_prop_json ''expectedPointers'' guard)"
    and "small guard" "small (generation_members guard)" "small (armed_evidence env now guard pointers)"
  obtains s' where "arm env host now (JObj guard) s = (s', Inr (controller_status_of guard (JStr ''armed'') (Some (armed_evidence env now guard pointers))))"
    "healthy s'" "rest_of s' = rest_of s"
    "file_text s' = (file_text s)(mark d ''guard.json'' \<mapsto> bytes_of guard, generation_path (num_prop ''generation'' guard) \<mapsto> bytes_of (generation_members guard),
       audit_path d (armed_evidence env now guard pointers) \<mapsto> bytes_of (armed_evidence env now guard pointers))"
proof -
  have verified: "verifySignedGuardRecord env (JObj guard) (ce_babyAuthorityPublicKey env) = Inr guard" using assms(4) by (simp add: verifyGuard_Inr)
  obtain latest where quiet: "activeGuardIds s = Inr []" "latestGeneration s = Inr latest" "latest < num_prop ''generation'' guard"
    "file_text s (generation_path (num_prop ''generation'' guard)) = None" "\<And>p. file_text s (''deployments'' # d # p) = None"
    using assms(5,8) by (auto simp: quiet_for_def)
  from writeGuard_adds [OF assms(1) verified_guard_plain [OF verified] assms(5,6,11,12) quiet(5) quiet(4)] obtain t where
    t: "writeGuard guard s = (t, Inr ())" "healthy t" "rest_of t = rest_of s"
    "file_text t = (file_text s)(mark d ''guard.json'' \<mapsto> bytes_of guard, generation_path (num_prop ''generation'' guard) \<mapsto> bytes_of (generation_members guard))"
    by blast
  have "file_text t (audit_path d (armed_evidence env now guard pointers)) = None"
    using quiet(5) t(4) by (simp add: audit_path_def generation_path_def)
  from record_evidence_adds [OF t(2) assms(2,3) verified assms(5,6) armed_evidence_def assms(13) this] obtain s' where
    s': "record_evidence env now guard Armed (opt_entry ''guardRecordDigest'' (json_prop ''recordDigest'' guard) @ [(''pointerDigest'', JStr (pointersDigest env pointers))]) t
      = (s', Inr (controller_status_of guard (JStr ''armed'') (Some (armed_evidence env now guard pointers))))" "healthy s'" "rest_of s' = rest_of t"
    "file_text s' = (file_text t)(audit_path d (armed_evidence env now guard pointers) \<mapsto> bytes_of (armed_evidence env now guard pointers))" by auto
  have "arm env host now (JObj guard) s = (s', Inr (controller_status_of guard (JStr ''armed'') (Some (armed_evidence env now guard pointers))))"
    using assms(4,5,7,9,10) quiet(1-3) t(1) s'(1) by (simp add: arm_def Let_def act_bind_read check_def) (simp add: act_bind_def)
  then show thesis using s' t by (intro that) simp_all
qed

lemma guard_active_texts:
  assumes "tree_inv s"
  shows "guard_active s d \<longleftrightarrow> file_text s (mark d ''guard.json'') \<noteq> None \<and> file_text s (mark d ''disarmed.json'') = None
    \<and> file_text s (mark d ''rollback.json'') = None"
  by (simp add: guard_active_def exists_record [OF assms] has_file_def)

text \<open>
  C37. A success marker is taken at any time: whenever the guard of the deployment can be read, a marker that the owner signed, that
  binds this guard and that is not dated in the future is stored and reported as \<open>success_marker_valid\<close>.
  Neither the deadline of the guard nor a recorded rollback of the deployment is looked at.
\<close>

theorem late_marker_accepted:
  assumes "healthy s" "json_parser env" "signing_env env" "\<bar>now\<bar> \<le> max_time" "loadGuard env d s = Inr guard"
    and "verifySignedSuccessMarker env (JObj marker) (ce_babyAuthorityPublicKey env) = Inr marker" "marker_matches marker guard"
    and "time_of (key_text ''acceptedAt'' marker) \<le> now" "\<not> existsSync s (mark d ''success.json'')" "small marker"
    and "small (success_evidence env now guard marker)" "\<not> existsSync s (audit_path d (success_evidence env now guard marker))"
  shows "\<exists>s'. commitSuccess env now (JObj marker) s
        = (s', Inr (controller_status_of guard (JStr ''success_marker_valid'') (Some (success_evidence env now guard marker))))
      \<and> file_text s' (mark d ''success.json'') = Some (bytes_of marker) \<and> guard_active s' d = guard_active s d"
proof -
  have tree: "tree_inv s" using assms(1) by (simp add: healthy_def)
  have new: "file_text s (mark d ''success.json'') = None" "file_text s (audit_path d (success_evidence env now guard marker)) = None"
    using assms(9,12) by (simp_all add: existsSync_def)
  from commitSuccess_adds [OF assms(1,3,4,5) loadGuard_id [OF tree assms(2,5)] assms(6-8) new(1) assms(10) success_evidence_def assms(11) new(2)]
  obtain s' where s': "commitSuccess env now (JObj marker) s
        = (s', Inr (controller_status_of guard (JStr ''success_marker_valid'') (Some (success_evidence env now guard marker))))" "healthy s'"
    "file_text s' = (file_text s)(mark d ''success.json'' \<mapsto> bytes_of marker, audit_path d (success_evidence env now guard marker) \<mapsto> bytes_of (success_evidence env now guard marker))"
    by blast
  have "guard_active s' d = guard_active s d"
    using s'(2,3) tree guard_active_texts by (simp add: healthy_def audit_path_def)
  with s' show ?thesis by (simp add: audit_path_def)
qed

subsection \<open>A deployment that succeeds\<close>


subsection \<open>A record that was torn by a crash\<close>

text \<open>
  C36. A guard record that a crash has left incomplete blocks the controller: while its deployment directory is there without a terminal
  record, every \<open>arm\<close> of whatever guard is refused, and so is every operation on the deployment itself, the rollback
  after the deadline included. None of these calls changes the store.
\<close>

theorem torn_guard_blocks_controller:
  assumes "file_text s (mark d ''guard.json'') = Some t" "ce_parseJson env t = None" "[''deployments'', d] \<in> set (cs_dirs s)"
    and "\<not> existsSync s (mark d ''disarmed.json'')" "\<not> existsSync s (mark d ''rollback.json'')"
    and "request \<in> range Arm \<union> {Disarm d, Evaluate d, Read d} \<union> range (ManualRecover d digest)
      \<union> {CommitSuccess (JObj marker) |marker. key_text ''deploymentId'' marker = d}"
  shows "\<exists>e. controller_action env host now request s = (s, Inl e)"
proof -
  have "\<exists>e. readJson env s (mark d ''guard.json'') = Inl e" using assms(1,2) by (simp add: readJson_def parse_record_def check_def)
  then obtain e where torn: "loadGuard env d s = Inl e"
    using assms(1) by (cases "assertDeploymentId d") (auto simp: loadGuard_def readGuard_def deploymentRoot_def existsSync_def check_def)
  have listed: "d \<in> set active" if "activeGuardIds s = Inr active" for active
    using deployment_listed [OF assms(3)] activeGuardIds_Inr [OF that] assms(1,4,5) by (simp add: guard_active_def existsSync_def)
  have "\<exists>e. arm env host now input s = (s, Inl e)" for input
  proof (cases "activeGuardIds s")
    case (Inl a)
    then show ?thesis by (simp add: arm_def Let_def act_bind_read check_def split: sum.splits)
  next
    case (Inr active)
    note d = listed [OF this]
    then have "d' = d" if "\<forall>x\<in>set active. x = d'" for d' using that by auto
    then show ?thesis using d Inr torn by (auto simp: arm_def Let_def act_bind_read check_def split: sum.splits)
  qed
  moreover have "\<exists>e. commitSuccess env now (JObj marker) s = (s, Inl e)" if "key_text ''deploymentId'' marker = d" for marker
  proof (cases "verifySignedSuccessMarker env (JObj marker) (ce_babyAuthorityPublicKey env)")
    case (Inr m)
    then have "m = marker" by (simp add: verifySignedSuccessMarker_def marker_kind.verify_Inr)
    then show ?thesis using Inr that torn by (simp add: commitSuccess_def act_bind_read)
  qed (simp add: commitSuccess_def act_bind_read)
  ultimately show ?thesis using assms(6) torn
    by (auto simp: disarm_def evaluate_def controller_read_def manualRecover_def act_bind_read check_def)
qed

end
