(* ===== verification/Controller_Samples.thy ===== *)
theory Controller_Samples
  imports Controller_Progress Json_Parser
begin

section \<open>A concrete deployment guard\<close>

text \<open>
  One machine with its controller, a guard and a success marker that the owner signed, and the calls that arm, commit, disarm and
  roll back, at which the properties of the controller with hypotheses are applied. \<open>JSON.parse\<close> is the parser of
  \<open>Json_Parser\<close>; a signature is the signed document behind a fixed text; a digest shows the disposition
  of the document that it is of.
\<close>

subsection \<open>Machine\<close>

definition demo_digit :: "string \<Rightarrow> char" where
  "demo_digit x = (if x = ''armed'' then CHR ''1'' else if x = ''success_marker_valid'' then CHR ''2'' else if x = ''disarmed'' then CHR ''3''
     else if x = ''rolled_back'' then CHR ''4'' else CHR ''0'')"

definition disposition_digit :: "json option \<Rightarrow> char" where
  "disposition_digit v = (case v of Some (JStr x) \<Rightarrow> demo_digit x | _ \<Rightarrow> CHR ''0'')"

definition demo_sha256 :: "string \<Rightarrow> string" where
  "demo_sha256 t = replicate 63 (CHR ''0'') @
     [case json_parse (t @ [CHR 0x0A]) of Some (JObj kvs) \<Rightarrow> disposition_digit (json_prop ''disposition'' kvs) | _ \<Rightarrow> CHR ''0'']"

definition demo_sign :: "unit \<Rightarrow> string \<Rightarrow> string" where
  "demo_sign k t = replicate 32 (CHR ''A'') @ t"

definition controller_demo :: "(unit, unit) controller_env" where
  "controller_demo =
     \<lparr>ce_machineId = ''machine-1'', ce_babyAuthorityPublicKey = (), ce_controllerEvidencePrivateKey = (), ce_controllerEvidencePublicKey = (),
      ce_controllerSigningKeyId = ''controller-1'', ce_sha256 = demo_sha256, ce_signEd25519 = demo_sign,
      ce_verifyEd25519 = (\<lambda>k t g. g = demo_sign k t), ce_parseJson = json_parse\<rparr>"

lemma controller_demo_simps [simp]:
  "ce_machineId controller_demo = ''machine-1''" "ce_babyAuthorityPublicKey controller_demo = ()" "ce_controllerEvidencePrivateKey controller_demo = ()"
  "ce_controllerEvidencePublicKey controller_demo = ()" "ce_controllerSigningKeyId controller_demo = ''controller-1''"
  "ce_sha256 controller_demo = demo_sha256" "ce_signEd25519 controller_demo = demo_sign" "ce_verifyEd25519 controller_demo k t g \<longleftrightarrow> g = demo_sign k t"
  "ce_parseJson controller_demo = json_parse"
  by (simp_all add: controller_demo_def)

lemma demo_parser: "json_parser controller_demo"
  unfolding json_parser_def exactJsonBytes_def canonicalJson_def sortKeys_JObj controller_demo_simps
  by (intro allI impI conjI json_parse_document) (erule json_parse_truncated)

lemma demo_digit_hex: "is_lower_hex (disposition_digit v)"
  by (auto simp: disposition_digit_def demo_digit_def char_class_defs split: option.splits json.splits)

lemma demo_sha256_digest: "DIGEST_PATTERN (demo_sha256 t)"
proof -
  have "is_lower_hex (CHR ''0'')" by (simp add: char_class_defs)
  then show ?thesis using demo_digit_hex
    by (auto simp: DIGEST_PATTERN_def demo_sha256_def chars_between_def list_all_iff split: option.splits json.splits)
qed

lemma demo_key_pair: "key_pair controller_demo () ()"
  by (simp add: key_pair_def demo_sha256_digest demo_sign_def)

lemma demo_signing: "signing_env controller_demo"
proof -
  have "IDENTIFIER_PATTERN ''controller-1''" by code_simp
  then show ?thesis using demo_key_pair by (simp add: signing_env_def)
qed

lemma demo_sha256_canonical:
  assumes "plain (JObj kvs)"
  shows "demo_sha256 (canonicalJson (JObj kvs)) = replicate 63 (CHR ''0'') @ [disposition_digit (json_prop ''disposition'' kvs)]"
proof -
  have "json_parse (canonicalJson (JObj kvs) @ [CHR 0x0A]) = Some (JObj (sorted_members kvs))"
    unfolding canonicalJson_def sortKeys_JObj by (rule json_parse_document)
  moreover have "disposition_digit (map_option sortKeys v) = disposition_digit v" for v
    by (auto simp: disposition_digit_def split: option.split json.split)
  ultimately show ?thesis using assms by (simp add: demo_sha256_def prop_sorted)
qed

subsection \<open>Guard and marker\<close>

definition digest_zero :: string where
  "digest_zero = replicate 64 (CHR ''0'')"

definition demo_shared :: json_object where
  "demo_shared =
     [(''deploymentId'', JStr ''d-1''), (''generation'', JNum 1), (''machineId'', JStr ''machine-1''), (''planDigest'', JStr digest_zero),
      (''snapshotDigest'', JStr digest_zero), (''candidateManifestDigests'', JObj [(''baby'', JStr digest_zero), (''gateway'', JStr digest_zero)]),
      (''candidatePointerTargets'', JObj [(''baby'', JStr ''/opt/baby-quirt/releases/0.3.0''), (''gateway'', JStr ''/opt/baby-quirt-mcp/releases/0.3.0'')])]"

definition demo_pointers :: "string \<Rightarrow> json" where
  "demo_pointers root = JObj
     [(''current'', JObj [(''link'', JStr (root @ ''current'')), (''target'', JStr (root @ ''releases/0.2.2''))]),
      (''previous'', JObj [(''link'', JStr (root @ ''previous'')), (''target'', JNull)])]"

definition demo_expected :: json where
  "demo_expected = JObj [(''baby'', demo_pointers ''/opt/baby-quirt/''), (''gateway'', demo_pointers ''/opt/baby-quirt-mcp/'')]"

definition demo_guard_payload :: json_object where
  "demo_guard_payload =
     [(''recordVersion'', JStr ''2.0.0''), (''recordType'', JStr ''baby-quirt-deployment-guard'')] @ demo_shared @
     [(''expectedPointers'', demo_expected), (''deadline'', JStr ''1970-01-01T01:00:00.000Z''), (''evidenceDigest'', JStr digest_zero),
      (''signingKeyId'', JStr ''owner-1''), (''signatureAlgorithm'', JStr ''ed25519'')]"

definition demo_marker_payload :: json_object where
  "demo_marker_payload =
     [(''recordVersion'', JStr ''2.0.0''), (''recordType'', JStr ''baby-quirt-deployment-success'')] @ demo_shared @
     [(''evidenceDigest'', JStr digest_zero), (''acceptedAt'', JStr ''1970-01-01T00:30:00.000Z''), (''signingKeyId'', JStr ''owner-1''),
      (''signatureAlgorithm'', JStr ''ed25519'')]"

definition demo_guard :: json_object where
  "demo_guard = signedRecord controller_demo demo_guard_payload ()"

definition demo_marker :: json_object where
  "demo_marker = signedRecord controller_demo demo_marker_payload ()"

lemma demo_formats:
  "DIGEST_PATTERN digest_zero" "IDENTIFIER_PATTERN ''d-1''" "IDENTIFIER_PATTERN ''machine-1''" "IDENTIFIER_PATTERN ''owner-1''"
  "canonical_timestamp ''1970-01-01T01:00:00.000Z''" "canonical_timestamp ''1970-01-01T00:30:00.000Z''" "safe_integer 1"
  by code_simp+

lemma demo_keys:
  "assertExactKeys demo_guard_payload GUARD_PAYLOAD_KEYS ''guard payload'' = Inr ()"
  "assertExactKeys demo_marker_payload SUCCESS_PAYLOAD_KEYS ''success payload'' = Inr ()"
  by (simp_all add: assertExactKeys_def demo_guard_payload_def demo_marker_payload_def demo_shared_def GUARD_PAYLOAD_KEYS_def SUCCESS_PAYLOAD_KEYS_def res_simps)

lemma demo_pointers_accepted: "assertExpectedPointers (Some demo_expected) = Inr ()"
  by code_simp

lemma demo_identity:
  assumes "json_prop ''recordVersion'' kvs = Some (JStr ''2.0.0'')" "json_prop ''signingKeyId'' kvs = Some (JStr ''owner-1'')"
    "json_prop ''signatureAlgorithm'' kvs = Some (JStr ''ed25519'')" "json_prop ''evidenceDigest'' kvs = Some (JStr digest_zero)"
    "list_all (\<lambda>(k, v). json_prop k kvs = Some v) demo_shared"
  shows "assertCommonPayload kvs = Inr ()"
proof -
  have "assertCandidatePointerTargets (Some (JObj [(''baby'', JStr ''/opt/baby-quirt/releases/0.3.0''), (''gateway'', JStr ''/opt/baby-quirt-mcp/releases/0.3.0'')])) = Inr ()"
    by code_simp
  moreover have "sort [''baby'', ''gateway''] = [''baby'', ''gateway'']" by code_simp
  ultimately show ?thesis using assms
    by (simp add: assertCommonPayload_def assertIdentityPayload_def assertManifestDigests_def assertObject_def assertExactKeys_def CONTROLLER_RECORD_VERSION_def
      record_assertIdentifier_def record_assertDigest_def string_with_def positive_safe_integer_def demo_shared_def demo_formats res_simps json_prop_simps)
qed

lemma demo_payloads: "assertGuardPayload demo_guard_payload = Inr ()" "assertSuccessPayload demo_marker_payload = Inr ()"
proof -
  have "assertCommonPayload demo_guard_payload = Inr ()" "assertCommonPayload demo_marker_payload = Inr ()"
    by (rule demo_identity; simp add: demo_guard_payload_def demo_marker_payload_def demo_shared_def json_prop_simps)+
  then show "assertGuardPayload demo_guard_payload = Inr ()" "assertSuccessPayload demo_marker_payload = Inr ()"
    using demo_keys demo_pointers_accepted demo_formats
    by (simp_all add: assertGuardPayload_def assertSuccessPayload_def record_assertTimestamp_def string_with_def res_simps demo_guard_payload_def demo_marker_payload_def
      demo_shared_def json_prop_simps)
qed

lemma demo_verified:
  "verifySignedGuardRecord controller_demo (JObj demo_guard) () = Inr demo_guard"
  "verifySignedSuccessMarker controller_demo (JObj demo_marker) () = Inr demo_marker"
  using guard_kind.build_verify [OF demo_payloads(1) guardPayload_plain [OF demo_payloads(1)] demo_key_pair]
    marker_kind.build_verify [OF demo_payloads(2) successPayload_plain [OF demo_payloads(2)] demo_key_pair]
  by (simp_all add: demo_guard_def demo_marker_def verifySignedGuardRecord_def verifySignedSuccessMarker_def)

lemma demo_plain: "plain (JObj demo_guard)" "plain (JObj demo_marker)"
  using verified_guard_plain [OF demo_verified(1)] verified_marker_plain [OF demo_verified(2)] .

lemma prop_signedRecord:
  "k \<notin> {''recordDigest'', ''signature''} \<Longrightarrow> json_prop k (signedRecord env p key) = json_prop k p"
  by (auto simp: signedRecord_def Let_def json_prop_append json_prop_simps split: option.split)

lemma demo_guard_fields:
  "key_text ''deploymentId'' demo_guard = ''d-1''" "key_text ''machineId'' demo_guard = ''machine-1''" "num_prop ''generation'' demo_guard = 1"
  "key_text ''deadline'' demo_guard = ''1970-01-01T01:00:00.000Z''" "key_text ''acceptedAt'' demo_marker = ''1970-01-01T00:30:00.000Z''"
  "json_prop_json ''expectedPointers'' demo_guard = demo_expected"
  by (simp_all add: key_text_def num_prop_def json_prop_json_def demo_guard_def demo_marker_def prop_signedRecord demo_guard_payload_def demo_marker_payload_def
    demo_shared_def json_prop_simps)

lemma demo_times: "time_of ''1970-01-01T01:00:00.000Z'' = 3600000" "time_of ''1970-01-01T00:30:00.000Z'' = 1800000"
  by code_simp+

lemma demo_marker_matches: "marker_matches demo_marker demo_guard"
  by (simp add: marker_matches_def sub_prop_def demo_guard_def demo_marker_def prop_signedRecord demo_guard_payload_def demo_marker_payload_def demo_shared_def json_prop_simps)

lemma demo_id: "assertDeploymentId ''d-1'' = Inr ()"
  by (simp add: assertDeploymentId_def demo_formats check_def)

lemma demo_verifyGuard: "verifyGuard controller_demo (JObj demo_guard) = Inr demo_guard"
  using demo_verified(1) by (simp add: verifyGuard_Inr demo_guard_fields)

subsection \<open>Sizes\<close>

lemma utf8_length_bound: "utf8_length t \<le> 2 * length t"
  by (induction t) (auto simp: utf8_length_def)

lemma small_bound: "json_bound (JObj kvs) \<le> 500000 \<Longrightarrow> small kvs"
  using utf8_length_bound [of "exactJsonBytes (JObj kvs)"] length_canonicalJson [of "JObj kvs"]
  by (simp add: small_def exactJsonBytes_def MAX_RECORD_BYTES_def)

lemma json_bound_append: "json_bound (JObj (xs @ ys)) = json_bound (JObj xs) + json_bound (JObj ys) - 2"
  by simp

lemma length_demo_sha256 [simp]: "length (demo_sha256 t) = 64"
  by (simp add: demo_sha256_def)

lemma small_signed:
  assumes "json_bound (JObj p) \<le> 50000"
  shows "small (signedRecord controller_demo p ())"
proof -
  let ?digest = "demo_sha256 (canonicalJson (JObj p))"
  let ?document = "canonicalJson (JObj (p @ [(''recordDigest'', JStr ?digest)]))"
  have "json_bound (JObj (p @ [(''recordDigest'', JStr ?digest)])) \<le> 51000"
    using assms by (simp add: entry_bound_def)
  with length_canonicalJson have "length ?document \<le> 51000" by (rule order_trans)
  then have "json_bound (JObj (signedRecord controller_demo p ())) \<le> 500000"
    using assms by (simp add: signedRecord_def Let_def entry_bound_def demo_sign_def)
  then show ?thesis by (rule small_bound)
qed

lemma demo_small: "small demo_guard" "small demo_marker" "small (generation_members demo_guard)"
proof -
  have zero: "length digest_zero = 64" by (simp add: digest_zero_def)
  show "small demo_guard" "small demo_marker" unfolding demo_guard_def demo_marker_def
    by (rule small_signed; simp add: demo_guard_payload_def demo_marker_payload_def demo_shared_def demo_expected_def demo_pointers_def entry_bound_def zero
      int_str_def nat_str.simps)+
  have "\<exists>x. json_prop ''recordDigest'' demo_guard = Some (JStr x) \<and> length x = 64"
    by (simp add: demo_guard_def signedRecord_def Let_def demo_guard_payload_def demo_shared_def json_prop_append json_prop_simps)
  then have "json_bound (JObj (generation_members demo_guard)) \<le> 500000"
    using demo_guard_fields by (auto simp: generation_members_def demo_guard_def prop_signedRecord demo_guard_payload_def demo_shared_def json_prop_simps entry_bound_def
      int_str_def nat_str.simps)
  then show "small (generation_members demo_guard)" by (rule small_bound)
qed

subsection \<open>Evidence\<close>

lemma payload_shared: "payload_of shared_keys demo_guard = demo_shared" "payload_of shared_keys (sorted_members demo_guard) = demo_shared"
proof -
  have "json_prop k demo_guard = json_prop k demo_shared" if "k \<in> set shared_keys" for k
    using that by (auto simp: shared_keys_def demo_guard_def prop_signedRecord demo_guard_payload_def demo_shared_def json_prop_simps)
  moreover have "\<not> is_array_index ''gateway''" by code_simp
  then have "map_option sortKeys (json_prop k demo_shared) = json_prop k demo_shared" for k
    by (simp add: demo_shared_def json_prop_simps js_object_def js_set_def)
  ultimately have same: "json_prop k (sorted_members demo_guard) = json_prop k demo_shared" "json_prop k demo_guard = json_prop k demo_shared"
    if "k \<in> set shared_keys" for k using that demo_plain(1) by (simp_all add: prop_sorted)
  have "payload_of shared_keys demo_shared = demo_shared" by (simp add: payload_of_def shared_keys_def demo_shared_def json_prop_simps)
  then show "payload_of shared_keys demo_guard = demo_shared" "payload_of shared_keys (sorted_members demo_guard) = demo_shared"
    using same by (simp_all add: payload_of_def cong: map_cong)
qed

lemma demo_evidence_small:
  assumes "payload_of shared_keys guard = demo_shared" "length (to_iso now) = 24"
  shows "small (evidence_of controller_demo now guard disposition details)"
proof -
  have zero: "length digest_zero = 64" by (simp add: digest_zero_def)
  have "length (disposition_name disposition) \<le> 30" by (cases disposition) simp_all
  then have "json_bound (JObj (evidence_payload controller_demo now guard disposition details)) \<le> 50000"
    using assms(2) by (simp add: evidence_payload_def shared_keys_def [symmetric] assms(1) demo_shared_def entry_bound_def zero CONTROLLER_RECORD_VERSION_def
      int_str_def nat_str.simps)
  then show ?thesis unfolding evidence_of_def controller_demo_simps by (rule small_signed)
qed

lemma demo_evidence_digest:
  assumes "verifySignedGuardRecord controller_demo v () = Inr guard" "\<bar>now\<bar> \<le> max_time"
  shows "key_text ''recordDigest'' (evidence_of controller_demo now guard disposition details) = replicate 63 (CHR ''0'') @ [demo_digit (disposition_name disposition)]"
proof -
  let ?p = "evidence_payload controller_demo now guard disposition details"
  have "assertEvidencePayload ?p = Inr ()"
    using new_evidence_built [OF demo_signing assms(2,1), of disposition details]
    by (simp add: new_evidence_def buildSignedControllerEvidence_def res_simps)
  then have "plain (JObj ?p)" by (rule evidencePayload_plain)
  then have "demo_sha256 (canonicalJson (JObj ?p)) = replicate 63 (CHR ''0'') @ [demo_digit (disposition_name disposition)]"
    by (simp add: demo_sha256_canonical prop_evidence_payload disposition_digit_def)
  moreover have "json_prop ''recordDigest'' ?p = None"
    by (simp add: evidence_payload_def json_prop_append json_prop_simps prop_payload_of)
  ultimately show ?thesis by (simp add: evidence_of_def signedRecord_def Let_def key_text_def json_prop_append json_prop_simps)
qed

lemma demo_clock: "length (to_iso 1000) = 24" "length (to_iso 1900000) = 24" "length (to_iso 2000000) = 24" "length (to_iso 3600000) = 24" "length (to_iso 3700000) = 24"
  by code_simp+

lemma demo_loaded: "verifySignedGuardRecord controller_demo (JObj (sorted_members demo_guard)) () = Inr (sorted_members demo_guard)"
  using stored_guard [OF demo_verified(1)] by (simp only: sortKeys_JObj)

subsection \<open>A successful deployment\<close>

definition demo_host :: controller_host where
  "demo_host = \<lparr>ho_readPointers = (\<lambda>_. Some demo_expected), ho_restoreSnapshot = (\<lambda>_. Some (True, [(''restored'', JBool True)]))\<rparr>"

lemma demo_quiet: "quiet_for demo_guard new_controller_store"
  by (simp add: quiet_for_def activeGuardIds_def latestGeneration_def readdirSync_def new_controller_store_def demo_guard_fields file_text_def)

lemmas demo_evidence = demo_evidence_small [OF payload_shared(1) demo_clock(1)] demo_evidence_small [OF payload_shared(2) demo_clock(2)]
  demo_evidence_small [OF payload_shared(2) demo_clock(3)] demo_evidence_small [OF payload_shared(2) demo_clock(4)] demo_evidence_small [OF payload_shared(2) demo_clock(5)]


end
