(* ===== verification/Controller_Runs.thy ===== *)
theory Controller_Runs
  imports Controller_Samples
begin

section \<open>Runs of the concrete controller\<close>

text \<open>
  The calls of a controller process on the machine of \<open>Controller_Samples\<close>, lock included: a deployment that is armed, one
  that is disarmed and one whose guard ran out and was rolled back.
\<close>

subsection \<open>Calls\<close>

lemma step_completes:
  assumes "cs_lock s = None" "json_parser env" "controller_processIdentity (cc_os c) (cc_pid c) = Some identity"
    and lock: "lock_json (cc_pid c) identity (cc_token c) = JObj lock" "plain (JObj lock)" "small lock" "json_prop ''token'' lock = Some (JStr (cc_token c))"
    and "cc_fault c = None" "\<nexists>d. cc_request c = Read d"
    and "controller_action env (cc_host c) (cc_now c) (cc_request c) (s\<lparr>cs_fault := None, cs_lock := Some (bytes_of lock)\<rparr>) = (t, Inr r)"
      "cs_lock t = Some (bytes_of lock)"
  shows "controller_step env c s = Inr (t\<lparr>cs_lock := None\<rparr>, Inr r)"
proof -
  let ?a = "controller_action env (cc_host c) (cc_now c) (cc_request c)"
  have locked: "locked_action env c = withGlobalLock env (cc_os c) (cc_pid c) (cc_token c) ?a"
    using assms(9) by (simp add: locked_action_def Let_def del: controller_action.simps split: controller_request.split)
  have "read_lock env (bytes_of lock) = Some (JObj (sorted_members lock))"
    using assms(2) lock(2,3) by (auto simp: read_lock_def parse_record_def json_parser_def small_def check_def sorted_members_def)
  then have "release_lock env (cc_token c) t = t\<lparr>cs_lock := None\<rparr>"
    using assms(11) lock(2,4) by (simp add: release_lock_def prop_sorted)
  then show ?thesis
    using assms(1,3,8,10,11) lock(1)
    by (simp add: controller_step_def locked withGlobalLock_def act_bind_def act_get_def numeral_2_eq_2 check_def del: controller_action.simps)
qed

definition demo_call :: "controller_request \<Rightarrow> int \<Rightarrow> controller_call" where
  "demo_call request now =
     \<lparr>cc_request = request, cc_now = now, cc_host = demo_host,
      cc_os = \<lparr>os_bootId = None, os_stat = (\<lambda>_. Some ''7 (node) S 1 7 7 0 -1 0 0 0 0 0 0 0 0 0 20 0 1 0 4711 0''), os_exe = (\<lambda>_. Some ''/usr/bin/node''),
        os_psPgid = (\<lambda>_. None), os_kill = (\<lambda>_. False), os_spawn = (\<lambda>_ _ _. None), os_cwd = ''/'', os_now = now,
        os_parseMessage = [], os_ioMessage = []\<rparr>,
      cc_pid = 7, cc_token = ''token-1'', cc_fault = None\<rparr>"

definition demo_lock :: json_object where
  "demo_lock = [(''pid'', JNum 7), (''startTime'', JStr ''4711''), (''executable'', JStr ''/usr/bin/node''), (''token'', JStr ''token-1'')]"

lemma demo_processIdentity: "controller_processIdentity (cc_os (demo_call request now)) 7 = Some (''4711'', ''/usr/bin/node'')"
proof -
  have "split_spaces (js_trim ''S 1 7 7 0 -1 0 0 0 0 0 0 0 0 0 20 0 1 0 4711 0'')
      = [''S'', ''1'', ''7'', ''7'', ''0'', ''-1'', ''0'', ''0'', ''0'', ''0'', ''0'', ''0'', ''0'', ''0'', ''0'', ''20'', ''0'', ''1'', ''0'', ''4711'', ''0'']"
    by code_simp
  then show ?thesis by (simp add: controller_processIdentity_def demo_call_def Let_def)
qed

lemma demo_lock_facts: "plain (JObj demo_lock)" "small demo_lock"
proof -
  show "plain (JObj demo_lock)" unfolding plain_JObj by (simp add: demo_lock_def plain_def)
  show "small demo_lock" by (rule small_bound) (simp add: demo_lock_def entry_bound_def int_str_def nat_str.simps)
qed

abbreviation locked_store :: "controller_store \<Rightarrow> controller_store" where
  "locked_store s \<equiv> s\<lparr>cs_fault := None, cs_lock := Some (bytes_of demo_lock)\<rparr>"

lemma demo_step:
  assumes "cs_lock s = None" "\<nexists>d. request = Read d" "controller_action controller_demo demo_host now request (locked_store s) = (t, Inr r)"
    "cs_lock t = Some (bytes_of demo_lock)"
  shows "controller_step controller_demo (demo_call request now) s = Inr (t\<lparr>cs_lock := None\<rparr>, Inr r)"
  by (rule step_completes [OF assms(1) demo_parser, where identity = "(''4711'', ''/usr/bin/node'')", OF _ _ demo_lock_facts])
    (use assms demo_processIdentity [of request now] in \<open>simp_all add: demo_call_def lock_json_def demo_lock_def json_prop_simps del: controller_action.simps\<close>)

subsection \<open>Arming\<close>

definition armed_run :: controller_store where
  "armed_run = run_ops (controller_step controller_demo) [demo_call (Arm (JObj demo_guard)) 1000] new_controller_store"

abbreviation demo_armed :: json_object where
  "demo_armed \<equiv> armed_evidence controller_demo 1000 demo_guard demo_expected"

lemma healthy_locked [simp]: "healthy (s\<lparr>cs_lock := l\<rparr>) = healthy s"
  by (simp add: healthy_def tree_inv_def)

lemma text_locked [simp]: "file_text (s\<lparr>cs_lock := l\<rparr>) = file_text s" "file_text (s\<lparr>cs_fault := f\<rparr>) = file_text s"
  by (simp_all add: file_text_def fun_eq_iff)

lemma armed_run_state:
  "healthy armed_run" "cs_restores armed_run = []" "cs_lock armed_run = None"
  "file_text armed_run = [mark ''d-1'' ''guard.json'' \<mapsto> bytes_of demo_guard, generation_path 1 \<mapsto> bytes_of (generation_members demo_guard),
     audit_path ''d-1'' demo_armed \<mapsto> bytes_of demo_armed]"
proof -
  have start: "healthy (locked_store new_controller_store)" "quiet_for demo_guard (locked_store new_controller_store)"
    using controller_inv_new demo_quiet
    by (simp_all add: healthy_def controller_inv_def tree_inv_def quiet_for_def activeGuardIds_def latestGeneration_def readdirSync_def new_controller_store_def file_text_def)
  have evidence: "small demo_armed" unfolding armed_evidence_def by (rule demo_evidence)
  have host: "ho_readPointers demo_host demo_guard = Some demo_expected" "canonicalJson demo_expected = canonicalJson (json_prop_json ''expectedPointers'' demo_guard)"
    by (simp_all add: demo_host_def demo_guard_fields)
  obtain t where t: "arm controller_demo demo_host 1000 (JObj demo_guard) (locked_store new_controller_store)
      = (t, Inr (controller_status_of demo_guard (JStr ''armed'') (Some demo_armed)))" "healthy t" "rest_of t = rest_of (locked_store new_controller_store)"
    "file_text t = (file_text (locked_store new_controller_store))(mark ''d-1'' ''guard.json'' \<mapsto> bytes_of demo_guard,
       generation_path (num_prop ''generation'' demo_guard) \<mapsto> bytes_of (generation_members demo_guard), audit_path ''d-1'' demo_armed \<mapsto> bytes_of demo_armed)"
    by (rule arm_adds [OF start(1) demo_signing _ demo_verifyGuard demo_guard_fields(1) demo_id _ start(2) host demo_small(1,3) evidence])
      (simp_all add: max_time_def demo_guard_fields demo_times)
  have "controller_step controller_demo (demo_call (Arm (JObj demo_guard)) 1000) new_controller_store
      = Inr (t\<lparr>cs_lock := None\<rparr>, Inr (controller_status_of demo_guard (JStr ''armed'') (Some demo_armed)))"
    by (rule demo_step) (use t in \<open>simp_all add: new_controller_store_def\<close>)
  then have run: "armed_run = t\<lparr>cs_lock := None\<rparr>" by (simp add: armed_run_def)
  have "file_text new_controller_store = Map.empty" "cs_restores new_controller_store = []"
    by (simp_all add: file_text_def new_controller_store_def fun_eq_iff)
  then show "healthy armed_run" "cs_restores armed_run = []" "cs_lock armed_run = None"
    "file_text armed_run = [mark ''d-1'' ''guard.json'' \<mapsto> bytes_of demo_guard, generation_path 1 \<mapsto> bytes_of (generation_members demo_guard),
       audit_path ''d-1'' demo_armed \<mapsto> bytes_of demo_armed]"
    unfolding run using t(2-4) by (simp_all add: demo_guard_fields)
qed

lemma armed_run_active: "guard_active armed_run ''d-1''"
  using armed_run_state by (simp add: guard_active_texts healthy_def audit_path_def generation_path_def)


theorem controller_records_immutable_witness:
  "file_text (run_ops (controller_step controller_demo) [demo_call (Evaluate ''d-1'') 3600000] armed_run) (mark ''d-1'' ''guard.json'') = Some (bytes_of demo_guard)"
  using controller_records_immutable [of _ controller_demo "[demo_call (Evaluate ''d-1'') 3600000]" armed_run, OF refl] armed_run_state(4)
  by (simp add: audit_path_def generation_path_def)

subsection \<open>The deadline passes\<close>

lemma latestGeneration_single:
  assumes "tree_inv s" "\<And>x. file_text s [''generations'', x] \<noteq> None \<longleftrightarrow> x = name" "generation_name name"
  shows "latestGeneration s = Inr (int (digits_val (take 20 name)))"
proof -
  have read: "x \<in> set (readdirSync s [''generations'']) \<longleftrightarrow> [''generations'', x] \<in> set (cs_dirs s @ map fst (cs_files s))" for x
  proof
    assume "x \<in> set (readdirSync s [''generations''])"
    then obtain p where p: "p \<in> set (cs_dirs s @ map fst (cs_files s))" "p \<noteq> []" "butlast p = [''generations'']" "x = last p"
      by (auto simp: readdirSync_def)
    then have "p = [''generations'', x]" using append_butlast_last_id [OF p(2)] by simp
    with p(1) show "[''generations'', x] \<in> set (cs_dirs s @ map fst (cs_files s))" by simp
  next
    assume "[''generations'', x] \<in> set (cs_dirs s @ map fst (cs_files s))"
    then have "[''generations'', x] \<in> set (filter (\<lambda>p. p \<noteq> [] \<and> butlast p = [''generations'']) (cs_dirs s @ map fst (cs_files s)))" by simp
    then have "last [''generations'', x] \<in> set (readdirSync s [''generations''])" unfolding readdirSync_def set_map by (rule imageI)
    then show "x \<in> set (readdirSync s [''generations''])" by simp
  qed
  have "\<not> store_dir [''generations'', x]" for x by (simp add: store_dir_def)
  then have "[''generations'', x] \<notin> set (cs_dirs s)" for x using conjunct1 [OF assms(1) [unfolded tree_inv_def]] by blast
  moreover have "[''generations'', x] \<in> fst ` set (cs_files s) \<longleftrightarrow> x = name" for x
    using assms(2) [of x] by (auto simp: file_text_def map_of_eq_None_iff)
  ultimately have names: "set (readdirSync s [''generations'']) = {name}" using read by auto
  then obtain n where n: "readdirSync s [''generations''] = replicate (Suc n) name"
    by (cases "readdirSync s [''generations'']") (auto intro: that [of "length (tl (readdirSync s [''generations'']))"] replicate_length_same [symmetric])
  have "foldl max 0 (replicate (Suc n) x) = max 0 x" for x :: int by (induction n) auto
  moreover have "res_map (\<lambda>name. res_bind (check (generation_name name) (controller_failure Controller_integrity_failed (''Unexpected generation record '' @ name)))
      (\<lambda>_. Inr (int (digits_val (take 20 name))))) (replicate k name) = Inr (replicate k (int (digits_val (take 20 name))))" for k
    using assms(3) by (induction k) (simp_all add: check_def)
  ultimately show ?thesis unfolding latestGeneration_def n by (simp del: replicate_Suc)
qed

lemma armed_run_generation: "latestGeneration armed_run = Inr 1"
proof -
  let ?name = "padStart 20 (int_str 1) @ ''.json''"
  have "generation_name ?name" "digits_val (take 20 ?name) = 1" by code_simp+
  then show ?thesis
    using latestGeneration_single [of armed_run ?name] armed_run_state(1,4) by (auto simp: healthy_def generation_path_def audit_path_def)
qed

lemma armed_run_inv: "controller_inv armed_run"
  unfolding armed_run_def by (rule reachable_controller_inv [OF demo_parser])

lemma armed_run_guard: "loadGuard controller_demo ''d-1'' armed_run = Inr (sorted_members demo_guard)"
  by (rule loadGuard_file [OF demo_parser demo_verifyGuard demo_small(1) demo_id]) (simp add: armed_run_state(4) audit_path_def generation_path_def)

lemma armed_run_terminal: "readVerifiedTerminal controller_demo ''d-1'' armed_run = Inr None"
  using armed_run_state(1) by (intro no_terminal [OF armed_run_inv demo_id])
    (simp_all add: healthy_def exists_record has_file_def armed_run_state(4) audit_path_def generation_path_def)

lemma sorted_guard_fields:
  "key_text k (sorted_members demo_guard) = key_text k demo_guard" "num_prop ''generation'' (sorted_members demo_guard) = 1"
  using demo_plain(1) demo_guard_fields(3) by (auto simp: key_text_sorted num_prop_def prop_sorted split: option.splits json.splits)

lemma armed_run_due: "rollback_due controller_demo 3600000 ''d-1'' armed_run (sorted_members demo_guard)"
proof -
  have "\<not> existsSync armed_run (mark ''d-1'' ''success.json'')"
    using armed_run_state(1) by (simp add: healthy_def exists_record has_file_def armed_run_state(4) audit_path_def generation_path_def)
  then have "loadValidMarker controller_demo (sorted_members demo_guard) armed_run = Inr None"
    using demo_id by (simp add: loadValidMarker_def readSuccessMarker_def deploymentRoot_def read_if_exists_def sorted_guard_fields demo_guard_fields)
  then show ?thesis using armed_run_guard armed_run_terminal armed_run_generation
    by (simp add: rollback_due_def sorted_guard_fields demo_guard_fields demo_times)
qed

abbreviation demo_rollback :: json_object where
  "demo_rollback \<equiv> evidence_of controller_demo 3600000 (sorted_members demo_guard) Rolled_back [(''restored'', JBool True)]"

lemma demo_rollback_storable: "storable (audit_path ''d-1'' demo_rollback) demo_rollback armed_run"
proof -
  note built = new_evidence_built [OF demo_signing _ demo_loaded, of 3600000 Rolled_back "[(''restored'', JBool True)]"]
  have new: "plain (JObj demo_rollback)" "key_text ''deploymentId'' demo_rollback = ''d-1''"
    using new_evidence_Inr [OF built] by (simp_all add: max_time_def sorted_guard_fields demo_guard_fields)
  have "key_text ''recordDigest'' demo_rollback \<noteq> key_text ''recordDigest'' demo_armed"
    by (simp add: armed_evidence_def demo_evidence_digest [OF demo_verified(1)] demo_evidence_digest [OF demo_loaded] max_time_def demo_digit_def)
  then have "file_text armed_run (audit_path ''d-1'' demo_rollback) = None"
    by (simp add: armed_run_state(4) audit_path_def generation_path_def)
  moreover have "store_path (audit_path ''d-1'' demo_rollback)" "fits (audit_path ''d-1'' demo_rollback) demo_rollback"
    using new by (auto simp: audit_path_def store_path_def audit_dirs_def fits_def)
  ultimately show ?thesis
    using demo_evidence(4) [of Rolled_back] armed_run_state(1) by (simp add: storable_def exists_store_path healthy_def small_def)
qed


lemma due_restores:
  assumes "rollback_due env now d s guard"
  shows "cs_restores (fst (evaluate env host now d s)) = cs_restores s @ [guard]"
proof -
  obtain latest where "latestGeneration s = Inr latest" "latest \<le> num_prop ''generation'' guard" using assms by (auto simp: rollback_due_def)
  then show ?thesis using assms by (simp add: rollback_due_def evaluate_def act_bind_read rollback_restores not_less)
qed

definition evaluated_run :: controller_store where
  "evaluated_run = fst (locked_action controller_demo (demo_call (Evaluate ''d-1'') 3600000) (armed_run\<lparr>cs_fault := None\<rparr>))"

lemma evaluated_run_step: "\<exists>r. controller_step controller_demo (demo_call (Evaluate ''d-1'') 3600000) armed_run = Inr (evaluated_run, r)"
  by (cases "locked_action controller_demo (demo_call (Evaluate ''d-1'') 3600000) (armed_run\<lparr>cs_fault := None\<rparr>)")
    (simp add: evaluated_run_def controller_step_def demo_call_def)

lemma release_restores [simp]: "cs_restores (release_lock env token s) = cs_restores s"
  by (simp add: release_lock_def split: option.split json.split)

lemma evaluated_run_restores: "cs_restores evaluated_run = [sorted_members demo_guard]"
proof -
  let ?s = "locked_store armed_run"
  have same: "rollback_due controller_demo 3600000 ''d-1'' ?s (sorted_members demo_guard)"
    using armed_run_due readers_same_files(1-3) [of ?s armed_run controller_demo] readers_same_files(4) [of ?s armed_run] by (simp add: rollback_due_def)
  obtain t r where t: "evaluate controller_demo demo_host 3600000 ''d-1'' ?s = (t, r)" by (cases "evaluate controller_demo demo_host 3600000 ''d-1'' ?s")
  have "cs_restores evaluated_run = cs_restores t"
    using demo_processIdentity [of "Evaluate ''d-1''" 3600000] armed_run_state(3) t
    by (auto simp: evaluated_run_def locked_action_def demo_call_def withGlobalLock_def lock_json_def demo_lock_def act_bind_def act_get_def numeral_2_eq_2 check_def
      split: sum.split controller_error.split)
  then show ?thesis using due_restores [OF same, of demo_host] t armed_run_state(2) by simp
qed

theorem snapshot_restored_only_when_due_witness:
  "cs_restores evaluated_run = [sorted_members demo_guard] \<and> rollback_due controller_demo 3600000 ''d-1'' armed_run (sorted_members demo_guard)"
proof -
  obtain r where step: "controller_step controller_demo (demo_call (Evaluate ''d-1'') 3600000) armed_run = Inr (evaluated_run, r)"
    using evaluated_run_step by blast
  have "cs_restores evaluated_run \<noteq> cs_restores armed_run" using evaluated_run_restores armed_run_state(2) by simp
  from snapshot_restored_only_when_due [OF demo_parser armed_run_def step this] evaluated_run_restores armed_run_state(2) show ?thesis
    by (auto simp: demo_call_def)
qed

text \<open>The marker comes too late, after the deadline, and is accepted.\<close>

theorem late_marker_accepted_witness:
  "time_of (key_text ''deadline'' (sorted_members demo_guard)) \<le> 3700000
    \<and> (\<exists>s' e. commitSuccess controller_demo 3700000 (JObj demo_marker) armed_run
          = (s', Inr (controller_status_of (sorted_members demo_guard) (JStr ''success_marker_valid'') (Some e)))
        \<and> file_text s' (mark ''d-1'' ''success.json'') = Some (bytes_of demo_marker) \<and> guard_active s' ''d-1'')"
proof -
  let ?e = "success_evidence controller_demo 3700000 (sorted_members demo_guard) demo_marker"
  have "key_text ''recordDigest'' ?e \<noteq> key_text ''recordDigest'' demo_armed"
    by (simp add: armed_evidence_def success_evidence_def demo_evidence_digest [OF demo_verified(1)] demo_evidence_digest [OF demo_loaded] max_time_def demo_digit_def)
  then have "file_text armed_run (audit_path ''d-1'' ?e) = None" "file_text armed_run (mark ''d-1'' ''success.json'') = None"
    by (simp_all add: armed_run_state(4) audit_path_def generation_path_def)
  then have new: "\<not> existsSync armed_run (audit_path ''d-1'' ?e)" "\<not> existsSync armed_run (mark ''d-1'' ''success.json'')"
    using armed_run_state(1) by (simp_all add: healthy_def exists_record has_file_def audit_path_def exists_audit)
  have "small ?e" unfolding success_evidence_def by (rule demo_evidence)
  then show ?thesis
    using late_marker_accepted [OF armed_run_state(1) demo_parser demo_signing _ armed_run_guard, of 3700000 demo_marker] new demo_verified(2) demo_small(2)
      marker_matches_loaded [OF demo_verified(1) demo_marker_matches] armed_run_active
    by (fastforce simp: max_time_def demo_guard_fields sorted_guard_fields demo_times)
qed

subsection \<open>Commit and disarm\<close>

definition committed_calls :: "controller_call list" where
  "committed_calls = [demo_call (Arm (JObj demo_guard)) 1000, demo_call (CommitSuccess (JObj demo_marker)) 1900000]"

definition committed_run :: controller_store where
  "committed_run = run_ops (controller_step controller_demo) committed_calls new_controller_store"

abbreviation demo_success :: json_object where
  "demo_success \<equiv> success_evidence controller_demo 1900000 (sorted_members demo_guard) demo_marker"

abbreviation demo_disarm :: json_object where
  "demo_disarm \<equiv> disarm_evidence controller_demo 2000000 (sorted_members demo_guard) (sorted_members demo_marker)"

lemma demo_audit_names: "audit_path ''d-1'' demo_armed \<noteq> audit_path ''d-1'' demo_success"
  "audit_path ''d-1'' demo_armed \<noteq> audit_path ''d-1'' demo_disarm" "audit_path ''d-1'' demo_success \<noteq> audit_path ''d-1'' demo_disarm"
  by (simp_all add: audit_path_def armed_evidence_def success_evidence_def disarm_evidence_def demo_evidence_digest [OF demo_verified(1)]
    demo_evidence_digest [OF demo_loaded] max_time_def demo_digit_def)

lemma other_paths: "mark d x \<noteq> audit_path d' ev" "audit_path d' ev \<noteq> mark d x" "mark d x \<noteq> generation_path n" "audit_path d ev \<noteq> generation_path n"
  by (simp_all add: audit_path_def generation_path_def)

lemma locked_readers:
  "loadGuard env d (locked_store s) = loadGuard env d s" "readVerifiedTerminal env d (locked_store s) = readVerifiedTerminal env d s"
  "loadValidMarker env guard (locked_store s) = loadValidMarker env guard s"
  using readers_same_files [of "locked_store s" s] by simp_all

lemma healthy_locked_store: "healthy s \<Longrightarrow> healthy (locked_store s)"
  by (simp add: healthy_def tree_inv_def)

lemma committed_run_state:
  "healthy committed_run" "cs_lock committed_run = None"
  "file_text committed_run = (file_text armed_run)(mark ''d-1'' ''success.json'' \<mapsto> bytes_of demo_marker, audit_path ''d-1'' demo_success \<mapsto> bytes_of demo_success)"
proof -
  let ?s = "locked_store armed_run"
  have evidence: "small demo_success" unfolding success_evidence_def by (rule demo_evidence)
  have new: "file_text ?s (mark ''d-1'' ''success.json'') = None" "file_text ?s (audit_path ''d-1'' demo_success) = None"
    using demo_audit_names(1) by (simp_all add: armed_run_state(4) other_paths)
  have marker: "verifySignedSuccessMarker controller_demo (JObj demo_marker) (ce_babyAuthorityPublicKey controller_demo) = Inr demo_marker"
    "time_of (key_text ''acceptedAt'' demo_marker) \<le> 1900000"
    using demo_verified(2) by (simp_all add: demo_guard_fields demo_times)
  obtain t where t: "commitSuccess controller_demo 1900000 (JObj demo_marker) ?s
      = (t, Inr (controller_status_of (sorted_members demo_guard) (JStr ''success_marker_valid'') (Some demo_success)))" "healthy t" "rest_of t = rest_of ?s"
    "file_text t = (file_text ?s)(mark ''d-1'' ''success.json'' \<mapsto> bytes_of demo_marker, audit_path ''d-1'' demo_success \<mapsto> bytes_of demo_success)"
    by (rule commitSuccess_adds [OF healthy_locked_store [OF armed_run_state(1)] demo_signing _ _ _ marker(1)
        marker_matches_loaded [OF demo_verified(1) demo_marker_matches] marker(2) new(1) demo_small(2) success_evidence_def evidence new(2)])
      (simp_all add: max_time_def locked_readers armed_run_guard sorted_guard_fields demo_guard_fields)
  have "controller_step controller_demo (demo_call (CommitSuccess (JObj demo_marker)) 1900000) armed_run
      = Inr (t\<lparr>cs_lock := None\<rparr>, Inr (controller_status_of (sorted_members demo_guard) (JStr ''success_marker_valid'') (Some demo_success)))"
    by (rule demo_step) (use t armed_run_state(3) in simp_all)
  moreover have "committed_run = run_ops (controller_step controller_demo) [demo_call (CommitSuccess (JObj demo_marker)) 1900000] armed_run"
    unfolding committed_run_def committed_calls_def armed_run_def by (simp add: controller_step_def split: prod.split)
  ultimately have run: "committed_run = t\<lparr>cs_lock := None\<rparr>" by simp
  show "healthy committed_run" "cs_lock committed_run = None"
    "file_text committed_run = (file_text armed_run)(mark ''d-1'' ''success.json'' \<mapsto> bytes_of demo_marker, audit_path ''d-1'' demo_success \<mapsto> bytes_of demo_success)"
    unfolding run using t(2-4) by simp_all
qed

lemma committed_run_ready:
  "loadGuard controller_demo ''d-1'' committed_run = Inr (sorted_members demo_guard)"
  "readVerifiedTerminal controller_demo ''d-1'' committed_run = Inr None"
  "loadValidMarker controller_demo (sorted_members demo_guard) committed_run = Inr (Some (sorted_members demo_marker))"
proof -
  have inv: "controller_inv committed_run" unfolding committed_run_def by (rule reachable_controller_inv [OF demo_parser])
  have tree: "tree_inv committed_run" using committed_run_state(1) by (simp add: healthy_def)
  show "loadGuard controller_demo ''d-1'' committed_run = Inr (sorted_members demo_guard)"
    by (rule loadGuard_file [OF demo_parser demo_verifyGuard demo_small(1) demo_id]) (simp add: committed_run_state(3) armed_run_state(4) other_paths)
  show "readVerifiedTerminal controller_demo ''d-1'' committed_run = Inr None"
    by (rule no_terminal [OF inv demo_id]) (simp_all add: exists_record [OF tree] has_file_def committed_run_state(3) armed_run_state(4) other_paths)
  have "key_text ''machineId'' demo_marker = ce_machineId controller_demo"
    using demo_marker_matches demo_guard_fields(2) by (simp add: marker_matches_def key_text_def)
  then show "loadValidMarker controller_demo (sorted_members demo_guard) committed_run = Inr (Some (sorted_members demo_marker))"
    using demo_verified(2) by (intro loadValidMarker_file [OF demo_parser _ demo_small(2) demo_plain(1)
        marker_matches_loaded [OF demo_verified(1) demo_marker_matches] _ demo_id demo_guard_fields(1)]) (simp_all add: committed_run_state(3) other_paths)
qed

theorem disarm_needs_marker_witness:
  "\<exists>s' r. controller_step controller_demo (demo_call (Disarm ''d-1'') 2000000) committed_run = Inr (s', Inr r)
     \<and> existsSync s' (mark ''d-1'' ''disarmed.json'') \<and> disarm_due controller_demo ''d-1'' committed_run"
proof -
  let ?s = "locked_store committed_run"
  have evidence: "small demo_disarm" unfolding disarm_evidence_def by (rule demo_evidence)
  have new: "file_text ?s (audit_path ''d-1'' demo_disarm) = None" "file_text ?s (mark ''d-1'' ''disarmed.json'') = None"
    using demo_audit_names(2,3) by (simp_all add: committed_run_state(3) armed_run_state(4) other_paths)
  obtain t where t: "disarm controller_demo 2000000 ''d-1'' ?s = (t, Inr (controller_status_of (sorted_members demo_guard) (JStr ''disarmed'') (Some demo_disarm)))"
    "rest_of t = rest_of ?s" "file_text t = (file_text ?s)(audit_path ''d-1'' demo_disarm \<mapsto> bytes_of demo_disarm, mark ''d-1'' ''disarmed.json'' \<mapsto> bytes_of demo_disarm)"
    by (rule disarm_adds [OF healthy_locked_store [OF committed_run_state(1)] demo_signing _ _ _ _ _ disarm_evidence_def evidence new])
      (simp_all add: max_time_def locked_readers committed_run_ready sorted_guard_fields demo_guard_fields)
  have step: "controller_step controller_demo (demo_call (Disarm ''d-1'') 2000000) committed_run
      = Inr (t\<lparr>cs_lock := None\<rparr>, Inr (controller_status_of (sorted_members demo_guard) (JStr ''disarmed'') (Some demo_disarm)))"
    by (rule demo_step) (use t committed_run_state(2) in simp_all)
  have "existsSync (t\<lparr>cs_lock := None\<rparr>) (mark ''d-1'' ''disarmed.json'')" by (simp add: existsSync_def t(3))
  moreover have "\<not> existsSync committed_run (mark ''d-1'' ''disarmed.json'')"
    using committed_run_state(1) by (simp add: healthy_def exists_record has_file_def committed_run_state(3) armed_run_state(4) other_paths)
  ultimately show ?thesis using disarm_needs_marker [OF demo_parser committed_run_def step, of "''d-1''"] step by blast
qed

theorem controller_records_roundtrip_witness:
  "verifySignedGuardRecord controller_demo (sortKeys (JObj demo_guard)) () = Inr (sorted_members demo_guard)"
  using controller_records_roundtrip [OF demo_key_pair, of demo_guard_payload] demo_payloads(1)
  by (simp add: buildSignedGuardRecord_def demo_guard_def del: sortKeys.simps)

subsection \<open>A crash while the guard is written\<close>

definition crashed_store :: controller_store where
  "crashed_store = fst (arm controller_demo demo_host 1000 (JObj demo_guard) (new_controller_store\<lparr>cs_fault := Some (0, 0)\<rparr>))"

lemma crashed_store_state:
  "crashed_store = \<lparr>cs_files = [(mark ''d-1'' ''guard.json'', [])],
     cs_dirs = [[''deployments''], [''generations''], [''deployments'', ''d-1''], [''deployments'', ''d-1'', ''evidence'']],
     cs_lock = None, cs_restores = [], cs_fault = None\<rparr>"
proof -
  let ?s = "new_controller_store\<lparr>cs_fault := Some (0, 0)\<rparr>"
  have root: "deploymentRoot (key_text ''deploymentId'' demo_guard) = Inr [''deployments'', ''d-1'']"
    by (simp add: deploymentRoot_Inr demo_id demo_guard_fields)
  have "\<not> utf8_length (bytes_of demo_guard) > MAX_RECORD_BYTES" using demo_small(1) by (simp add: small_def)
  then have "writeGuard demo_guard ?s = (\<lparr>cs_files = [(mark ''d-1'' ''guard.json'', [])],
       cs_dirs = [[''deployments''], [''generations''], [''deployments'', ''d-1''], [''deployments'', ''d-1'', ''evidence'']],
       cs_lock = None, cs_restores = [], cs_fault = None\<rparr>, Inl Crashed)"
    by (simp add: writeGuard_def root act_bind_def act_of_def ensureDirectory_def createOnce_def Let_def write_new_def check_def
      new_controller_store_def file_text_def)
  moreover have "activeGuardIds ?s = Inr []" "latestGeneration ?s = Inr 0"
    by (simp_all add: activeGuardIds_def latestGeneration_def readdirSync_def new_controller_store_def)
  ultimately show ?thesis unfolding crashed_store_def
    by (simp add: arm_def Let_def act_bind_read demo_verifyGuard demo_guard_fields demo_times check_def demo_host_def)
      (simp add: act_bind_def)
qed

theorem torn_guard_blocks_controller_witness:
  "\<exists>e e'. controller_action controller_demo demo_host 3600000 (Evaluate ''d-1'') crashed_store = (crashed_store, Inl e)
     \<and> controller_action controller_demo demo_host 2000 (Arm (JObj demo_guard)) crashed_store = (crashed_store, Inl e')"
proof -
  have "file_text crashed_store (mark ''d-1'' ''guard.json'') = Some []" "[''deployments'', ''d-1''] \<in> set (cs_dirs crashed_store)"
    "\<not> existsSync crashed_store (mark ''d-1'' ''disarmed.json'')" "\<not> existsSync crashed_store (mark ''d-1'' ''rollback.json'')"
    by (simp_all add: crashed_store_state file_text_def existsSync_def)
  moreover have "ce_parseJson controller_demo [] = None" by (simp add: json_parse_def)
  ultimately show ?thesis
    using torn_guard_blocks_controller [of crashed_store "''d-1''" "[]" controller_demo "Evaluate ''d-1''" "[]" demo_host 3600000]
      torn_guard_blocks_controller [of crashed_store "''d-1''" "[]" controller_demo "Arm (JObj demo_guard)" "[]" demo_host 2000]
    by (simp del: controller_action.simps)
qed

end
