(* ===== verification/Archive_Contract.thy ===== *)
theory Archive_Contract
  imports Deployment_Ledger File_System
begin

section \<open>The contract of release archives\<close>

text \<open>
  Models \<^verbatim>\<open>src/src/release/archive-contract.ts\<close>: version and mode strings, file entries and the validation of a
  release manifest before anything is extracted. A JavaScript number of the manifest is an integer here; the map
  of expected entries is an association list in insertion order.
\<close>

subsection \<open>Data\<close>

text \<open>The contract and the extractor throw \<open>DeploymentError\<close>, the writer a plain \<open>Error\<close>, the operating system its own.
  \<open>Archive_stuck\<close> stands for a loop that does not end.\<close>

datatype archive_error = StrictError deployment_error | PlainError string | SystemFailure string | Archive_stuck

abbreviation strict_failure :: "string \<Rightarrow> archive_error" where
  "strict_failure m \<equiv> StrictError (DeploymentError Deployment_invalid m)"

definition STRICT_ARCHIVE_PROFILE :: string where
  "STRICT_ARCHIVE_PROFILE = ''baby-quirt-bounded-link-free-v2''"

definition PINNED_NODE_VERSION :: string where
  "PINNED_NODE_VERSION = ''24.18.0''"

datatype entry_type = File_entry | Directory_entry

record release_file_entry =
  re_path :: string
  re_type :: entry_type
  re_mode :: string
  re_size :: int
  re_digest :: string

record archive_declaration =
  ad_format :: string
  ad_digest :: string
  ad_compressedSize :: int
  ad_decompressedSize :: int
  ad_memberCount :: int
  ad_topLevelPrefix :: string
  ad_strictProfile :: string

record release_manifest =
  rm_schemaVersion :: string
  rm_product :: string
  rm_repository :: string
  rm_releaseVersion :: string
  rm_sourceDateEpoch :: int
  rm_nodeVersion :: string
  rm_archive :: archive_declaration
  rm_files :: "release_file_entry list"

record archive_limits =
  al_maxCompressedBytes :: int
  al_maxDecompressedBytes :: int
  al_maxFileBytes :: int
  al_maxMembers :: int

definition DEFAULT_STRICT_ARCHIVE_LIMITS :: archive_limits where
  "DEFAULT_STRICT_ARCHIVE_LIMITS =
     \<lparr>al_maxCompressedBytes = 512 * 1024 * 1024, al_maxDecompressedBytes = 1024 * 1024 * 1024, al_maxFileBytes = 256 * 1024 * 1024, al_maxMembers = 20000\<rparr>"

subsection \<open>Octal numerals\<close>

fun oct_str :: "nat \<Rightarrow> string" where
  "oct_str n = (if n < 8 then [digit_char n] else oct_str (n div 8) @ [digit_char (n mod 8)])"

declare oct_str.simps [simp del]

definition oct_val :: "string \<Rightarrow> nat" where
  "oct_val s = foldl (\<lambda>n c. 8 * n + digit_val c) 0 s"

definition is_octal :: "char \<Rightarrow> bool" where
  "is_octal c \<longleftrightarrow> between (CHR ''0'') (CHR ''7'') c"

lemma is_octal_digit_char [simp]: "d < 8 \<Longrightarrow> is_octal (digit_char d)"
  unfolding is_octal_def between_def by (simp add: code_digit_char) (simp add: code_def)

lemma oct_val_snoc: "oct_val (s @ [c]) = 8 * oct_val s + digit_val c"
  by (simp add: oct_val_def)

lemma oct_val_oct_str [simp]: "oct_val (oct_str n) = n"
proof (induction n rule: oct_str.induct)
  case (1 n)
  then show ?case
    by (cases "n < 8") (simp_all add: oct_str.simps [of n] oct_val_snoc oct_val_def [of "[_]"])
qed

lemma oct_str_octal: "list_all is_octal (oct_str n)"
proof (induction n rule: oct_str.induct)
  case (1 n)
  then show ?case by (cases "n < 8") (simp_all add: oct_str.simps [of n])
qed

lemma oct_str_nonempty [simp]: "oct_str n \<noteq> []"
  by (simp add: oct_str.simps [of n])

lemma oct_val_zeros [simp]: "oct_val (replicate k (CHR ''0'') @ s) = oct_val s"
proof -
  have "foldl (\<lambda>n c. 8 * n + digit_val c) 0 (replicate k (CHR ''0'')) = 0"
    by (induction k) (simp_all add: digit_val_def code_def)
  then show ?thesis by (simp add: oct_val_def)
qed

lemma length_oct_str: "n < 8 ^ Suc k \<Longrightarrow> length (oct_str n) \<le> Suc k"
proof (induction k arbitrary: n)
  case (Suc k)
  show ?case
  proof (cases "n < 8")
    case False
    have "n div 8 < 8 ^ Suc k" using Suc.prems by (simp add: less_mult_imp_div_less)
    then have "length (oct_str (n div 8)) \<le> Suc k" by (rule Suc.IH)
    with False show ?thesis by (simp add: oct_str.simps [of n])
  qed (simp add: oct_str.simps [of n])
qed (simp add: oct_str.simps)

lemma padStart_octal:
  assumes "list_all is_octal s"
  shows "list_all is_octal (padStart k s)" "oct_val (padStart k s) = oct_val s"
proof -
  have "is_octal (CHR ''0'')" by (simp add: is_octal_def between_def code_def)
  then show "list_all is_octal (padStart k s)" using assms by (auto simp: padStart_def list_all_iff)
qed (simp add: padStart_def)

subsection \<open>Formats\<close>

definition release_char :: "char \<Rightarrow> bool" where
  "release_char c \<longleftrightarrow> is_alnum c \<or> c \<in> {CHR ''.'', CHR ''_'', CHR ''@'', CHR ''/'', CHR ''-''}"

text \<open>\<^verbatim>\<open>/^(?!\/)(?!.*(?:^|\/)\.\.(?:\/|$))(?!.*\\)[A-Za-z0-9._@/-]+$/\<close>\<close>

definition SAFE_RELATIVE_PATH :: "string \<Rightarrow> bool" where
  "SAFE_RELATIVE_PATH s \<longleftrightarrow> s \<noteq> [] \<and> hd s \<noteq> CHR ''/'' \<and> ''..'' \<notin> set (split_path s) \<and> list_all release_char s"

definition prefix_char :: "char \<Rightarrow> bool" where
  "prefix_char c \<longleftrightarrow> is_alnum c \<or> c \<in> {CHR ''.'', CHR ''_'', CHR ''-''}"

text \<open>\<^verbatim>\<open>/^[A-Za-z0-9][A-Za-z0-9._-]*\/$/\<close>\<close>

definition SAFE_PREFIX :: "string \<Rightarrow> bool" where
  "SAFE_PREFIX s \<longleftrightarrow> 2 \<le> length s \<and> last s = CHR ''/'' \<and> is_alnum (hd s) \<and> list_all prefix_char (butlast s)"

text \<open>\<^verbatim>\<open>/^\d+\.\d+\.\d+(?:-[A-Za-z0-9.-]+)?$/\<close>: digits behind each dot, then the end or a hyphen and a tail.\<close>

definition VERSION :: "string \<Rightarrow> bool" where
  "VERSION s \<longleftrightarrow>
     (let major = takeWhile is_digit s; r1 = dropWhile is_digit s; minor = takeWhile is_digit (tl r1); r2 = dropWhile is_digit (tl r1);
          patch = takeWhile is_digit (tl r2); r3 = dropWhile is_digit (tl r2)
      in major \<noteq> [] \<and> r1 \<noteq> [] \<and> hd r1 = CHR ''.'' \<and> minor \<noteq> [] \<and> r2 \<noteq> [] \<and> hd r2 = CHR ''.'' \<and> patch \<noteq> []
         \<and> (r3 = [] \<or> hd r3 = CHR ''-'' \<and> tl r3 \<noteq> [] \<and> list_all (\<lambda>c. is_alnum c \<or> c \<in> {CHR ''.'', CHR ''-''}) (tl r3)))"

definition assertReleaseVersion :: "string \<Rightarrow> (archive_error, unit) result" where
  "assertReleaseVersion version =
     check (VERSION version \<and> version \<noteq> ''0.2.1'' \<and> version \<noteq> ''0.2.2'')
       (strict_failure (''Invalid release version '' @ version @ '': malformed or explicitly reserved''))"

definition parseMode :: "string \<Rightarrow> (archive_error, nat) result" where
  "parseMode mode =
     res_bind (check (length mode = 4 \<and> hd mode = CHR ''0'' \<and> list_all is_octal (tl mode)) (strict_failure (''Invalid release mode '' @ mode))) (\<lambda>_.
     res_bind (check ((of_nat (oct_val mode) :: 32 word) AND 0xE00 = 0) (strict_failure (''Special mode bits are forbidden: '' @ mode))) (\<lambda>_.
     Inr (oct_val mode)))"

definition formatMode :: "int \<Rightarrow> (archive_error, string) result" where
  "formatMode mode =
     res_bind (check (0 \<le> mode \<and> (of_int mode :: 32 word) AND NOT 0x1FF = 0) (strict_failure (''Invalid numeric release mode '' @ int_str mode))) (\<lambda>_.
     Inr (CHR ''0'' # padStart 3 (oct_str (nat mode))))"

subsection \<open>Manifests\<close>

definition assertReleaseFileEntry :: "release_file_entry \<Rightarrow> (archive_error, unit) result" where
  "assertReleaseFileEntry entry =
     res_bind (check (SAFE_RELATIVE_PATH (re_path entry) \<and> hd (re_path entry) \<noteq> CHR ''/'' \<and> last (re_path entry) \<noteq> CHR ''/''
         \<and> \<not> list_ex (\<lambda>part. part \<in> {[], ''.'', ''..''}) (split_path (re_path entry)))
       (strict_failure (''Unsafe manifest path '' @ re_path entry))) (\<lambda>_.
     res_bind (parseMode (re_mode entry)) (\<lambda>_.
     res_bind (check (safe_integer (re_size entry) \<and> 0 \<le> re_size entry) (strict_failure (''Invalid size for '' @ re_path entry))) (\<lambda>_.
     res_bind (check (DIGEST_PATTERN (re_digest entry)) (strict_failure (''Invalid digest for '' @ re_path entry))) (\<lambda>_.
     check (re_type entry = Directory_entry \<longrightarrow> re_size entry = 0) (strict_failure (''Directory '' @ re_path entry @ '' has nonzero size''))))))"

type_synonym expected_entries = "(string \<times> release_file_entry) list"

text \<open>The loop over the files of the manifest.\<close>

primrec expect_files :: "archive_limits \<Rightarrow> release_file_entry list \<Rightarrow> expected_entries \<Rightarrow> (archive_error, expected_entries) result" where
  "expect_files limits [] expected = Inr expected"
| "expect_files limits (entry # entries) expected =
     res_bind (assertReleaseFileEntry entry) (\<lambda>_.
     res_bind (check (re_size entry \<le> al_maxFileBytes limits) (strict_failure (''Manifest file exceeds limit: '' @ re_path entry))) (\<lambda>_.
     res_bind (check (map_of expected (re_path entry) = None) (strict_failure (''Duplicate manifest path '' @ re_path entry))) (\<lambda>_.
     expect_files limits entries (expected @ [(re_path entry, entry)]))))"

definition expected_repository :: "string \<Rightarrow> string" where
  "expected_repository product = (if product = ''baby-quirt-controller'' then ''StealthEyeLLC/baby-quirt'' else ''StealthEyeLLC/'' @ product)"

definition bounded_count :: "int \<Rightarrow> int \<Rightarrow> bool" where
  "bounded_count n limit \<longleftrightarrow> safe_integer n \<and> 0 < n \<and> n \<le> limit"

definition validateExtractableManifest :: "release_manifest \<Rightarrow> archive_limits \<Rightarrow> (archive_error, expected_entries) result" where
  "validateExtractableManifest manifest limits =
     (let archive = rm_archive manifest in
      res_bind (check (rm_schemaVersion manifest = ''2.0.0'') (strict_failure ''Unsupported release manifest version'')) (\<lambda>_.
      res_bind (check (rm_repository manifest = expected_repository (rm_product manifest)) (strict_failure ''Release repository/product mismatch'')) (\<lambda>_.
      res_bind (assertReleaseVersion (rm_releaseVersion manifest)) (\<lambda>_.
      res_bind (check (rm_nodeVersion manifest = PINNED_NODE_VERSION) (strict_failure ''Release Node version is not pinned'')) (\<lambda>_.
      res_bind (check (safe_integer (rm_sourceDateEpoch manifest) \<and> 0 \<le> rm_sourceDateEpoch manifest) (strict_failure ''Invalid source-date epoch'')) (\<lambda>_.
      res_bind (check (ad_format archive = ''tar.gz'' \<and> ad_strictProfile archive = STRICT_ARCHIVE_PROFILE \<and> DIGEST_PATTERN (ad_digest archive)
          \<and> SAFE_PREFIX (ad_topLevelPrefix archive)) (strict_failure ''Invalid strict archive declaration'')) (\<lambda>_.
      res_bind (check (bounded_count (ad_compressedSize archive) (al_maxCompressedBytes limits)
          \<and> bounded_count (ad_decompressedSize archive) (al_maxDecompressedBytes limits)
          \<and> bounded_count (ad_memberCount archive) (al_maxMembers limits)) (strict_failure ''Archive declaration exceeds strict bounds'')) (\<lambda>_.
      res_bind (expect_files limits (rm_files manifest) []) (\<lambda>expected.
      res_bind (check (ad_memberCount archive = int (length expected) + 1)
        (strict_failure ''Archive member count must include one top-level root plus every manifest entry'')) (\<lambda>_.
      Inr expected))))))))))"

end
